(* ===== verification/Prelude.thy ===== *)
theory Prelude
  imports Complex_Main "HOL-Library.Char_ord" "HOL-Library.List_Lexorder" "HOL-Library.Multiset"
begin

text \<open>
  Shared material of the development: the error-result combinators used by the pure code, the
  string operations of Python that the sources call (\<^verbatim>\<open>startswith\<close>,
  \<^verbatim>\<open>endswith\<close>, \<^verbatim>\<open>split\<close>, \<^verbatim>\<open>in\<close>), the character
  classes of the regular expressions, decimal numerals and their parser, and the generic list
  lemmas the component theories rely on.  Two fact collections carry the automation:
  \<open>act_simps\<close> (equations of the effect combinators) and \<open>inr_iffs\<close> (when a result
  combinator returns a value).
\<close>

named_theorems act_simps
named_theorems inr_iffs

section \<open>Results with errors\<close>

definition bindE :: "'e + 'a \<Rightarrow> ('a \<Rightarrow> 'e + 'b) \<Rightarrow> 'e + 'b" where
  "bindE r f = (case r of Inl e \<Rightarrow> Inl e | Inr x \<Rightarrow> f x)"

definition guardE :: "bool \<Rightarrow> 'e \<Rightarrow> 'e + unit" where
  \<comment> \<open>\<^verbatim>\<open>if bad: raise e\<close>\<close>
  "guardE bad e = (if bad then Inl e else Inr ())"

fun mapE :: "('a \<Rightarrow> 'e + 'b) \<Rightarrow> 'a list \<Rightarrow> 'e + 'b list" where
  \<comment> \<open>a comprehension whose element expression may raise\<close>
  "mapE f [] = Inr []"
| "mapE f (x # xs) = bindE (f x) (\<lambda>y. bindE (mapE f xs) (\<lambda>ys. Inr (y # ys)))"

lemma bindE_simps [simp]:
  "bindE (Inl e) f = Inl e"
  "bindE (Inr x) f = f x"
  by (simp_all add: bindE_def)

lemma bindE_eq_Inr [inr_iffs]: "bindE r f = Inr y \<longleftrightarrow> (\<exists>x. r = Inr x \<and> f x = Inr y)"
  by (cases r) simp_all

lemma bindE_eq_Inl: "bindE r f = Inl e \<longleftrightarrow> r = Inl e \<or> (\<exists>x. r = Inr x \<and> f x = Inl e)"
  by (cases r) simp_all

lemma guardE_simps [simp]:
  "guardE True e = Inl e"
  "guardE False e = Inr ()"
  "guardE b e = Inr u \<longleftrightarrow> \<not> b"
  "guardE b e = Inl e' \<longleftrightarrow> b \<and> e' = e"
  by (auto simp: guardE_def)

lemma guardE_Inr [inr_iffs]: "guardE b e = Inr u \<longleftrightarrow> \<not> b"
  by simp

lemma if_Inl_Inr [inr_iffs]:
  "(if b then Inl e else r) = Inr y \<longleftrightarrow> \<not> b \<and> r = Inr y"
  "(if b then r else Inl e) = Inr y \<longleftrightarrow> b \<and> r = Inr y"
  by auto

lemma option_Inl_Inr [inr_iffs]:
  "(case v of None \<Rightarrow> Inl e | Some x \<Rightarrow> f x) = Inr y \<longleftrightarrow> (\<exists>x. v = Some x \<and> f x = Inr y)"
  "(case v of None \<Rightarrow> r | Some x \<Rightarrow> Inl (g x)) = Inr y \<longleftrightarrow> v = None \<and> r = Inr y"
  by (cases v; simp)+

lemma sum_Inl_Inr [inr_iffs]:
  "(case r of Inl e \<Rightarrow> Inl (g e) | Inr x \<Rightarrow> f x) = Inr y \<longleftrightarrow> (\<exists>x. r = Inr x \<and> f x = Inr y)"
  by (cases r) simp_all

lemma mapE_eq_Inr_map: "(\<And>x. x \<in> set xs \<Longrightarrow> f x = Inr (g x)) \<Longrightarrow> mapE f xs = Inr (map g xs)"
  by (induction xs) simp_all

lemma mapE_length: "mapE f xs = Inr ys \<Longrightarrow> length ys = length xs"
  by (induction xs arbitrary: ys) (auto simp: bindE_eq_Inr)

lemma mapE_all2: "mapE f xs = Inr ys \<Longrightarrow> list_all2 (\<lambda>x y. f x = Inr y) xs ys"
  by (induction xs arbitrary: ys) (auto simp: bindE_eq_Inr)

lemma mapE_Inr_iff: "(\<exists>ys. mapE f xs = Inr ys) \<longleftrightarrow> (\<forall>x\<in>set xs. \<exists>y. f x = Inr y)"
  by (induction xs) (auto simp: bindE_eq_Inr)

lemma mapE_Inr_set: "mapE f xs = Inr ys \<Longrightarrow> y \<in> set ys \<Longrightarrow> \<exists>x\<in>set xs. f x = Inr y"
  by (induction xs arbitrary: ys) (auto simp: bindE_eq_Inr)

lemma mapE_Inl_set: "mapE f xs = Inl e \<Longrightarrow> \<exists>x\<in>set xs. f x = Inl e"
  by (induction xs) (auto simp: bindE_eq_Inl)

section \<open>Python string operations\<close>

definition startswith :: "string \<Rightarrow> string \<Rightarrow> bool" where
  "startswith s p \<longleftrightarrow> take (length p) s = p"

definition endswith :: "string \<Rightarrow> string \<Rightarrow> bool" where
  "endswith s p \<longleftrightarrow> length p \<le> length s \<and> drop (length s - length p) s = p"

fun contains_sub :: "string \<Rightarrow> string \<Rightarrow> bool" where
  \<comment> \<open>\<^verbatim>\<open>p in s\<close>\<close>
  "contains_sub p [] = (p = [])"
| "contains_sub p (c # s) = (startswith (c # s) p \<or> contains_sub p s)"

fun split_char :: "char \<Rightarrow> string \<Rightarrow> string list" where
  \<comment> \<open>\<^verbatim>\<open>s.split(c)\<close>: never empty\<close>
  "split_char d [] = [[]]"
| "split_char d (c # s) =
     (if c = d then [] # split_char d s
      else case split_char d s of [] \<Rightarrow> [[c]] | w # ws \<Rightarrow> (c # w) # ws)"

definition isascii :: "string \<Rightarrow> bool" where
  "isascii s \<longleftrightarrow> list_all (\<lambda>c. of_char c < (128 :: nat)) s"

definition take_until :: "char \<Rightarrow> string \<Rightarrow> string" where
  \<comment> \<open>\<^verbatim>\<open>s.split(c, 1)[0]\<close>\<close>
  "take_until d s = takeWhile (\<lambda>c. c \<noteq> d) s"

lemma startswith_append [simp]: "startswith (p @ s) p"
  by (simp add: startswith_def)

lemma startswith_iff: "startswith s p \<longleftrightarrow> (\<exists>r. s = p @ r)"
proof
  assume "startswith s p"
  then have "s = p @ drop (length p) s"
    by (metis append_take_drop_id startswith_def)
  then show "\<exists>r. s = p @ r" ..
qed auto

lemma startswith_Nil [simp]: "startswith s []"
  by (simp add: startswith_def)

lemma startswith_refl [simp]: "startswith s s"
  by (simp add: startswith_def)

lemma startswith_trans: "startswith s p \<Longrightarrow> startswith p q \<Longrightarrow> startswith s q"
  by (auto simp: startswith_iff)

lemma startswith_Cons [simp]:
  "startswith (c # s) (d # p) \<longleftrightarrow> c = d \<and> startswith s p"
  "\<not> startswith [] (d # p)"
  by (auto simp: startswith_def)

lemma startswith_comparable:
  "startswith s p \<Longrightarrow> startswith s q \<Longrightarrow> startswith p q \<or> startswith q p"
  by (auto simp: startswith_iff append_eq_append_conv2)

lemma endswith_append [simp]: "endswith (s @ p) p"
  by (simp add: endswith_def)

lemma endswith_iff: "endswith s p \<longleftrightarrow> (\<exists>r. s = r @ p)"
proof
  assume "endswith s p"
  then have "s = take (length s - length p) s @ p"
    by (metis append_take_drop_id endswith_def)
  then show "\<exists>r. s = r @ p" ..
qed auto

lemma isascii_simps [simp]:
  "isascii []"
  "isascii (c # s) \<longleftrightarrow> of_char c < (128 :: nat) \<and> isascii s"
  "isascii (s @ t) \<longleftrightarrow> isascii s \<and> isascii t"
  by (simp_all add: isascii_def)

section \<open>Character classes and templates of regular expressions\<close>

definition digit_char :: "char \<Rightarrow> bool" where
  "digit_char c \<longleftrightarrow> CHR ''0'' \<le> c \<and> c \<le> CHR ''9''"

definition hex_char :: "char \<Rightarrow> bool" where
  \<comment> \<open>\<^verbatim>\<open>[0-9a-f]\<close>\<close>
  "hex_char c \<longleftrightarrow> digit_char c \<or> (CHR ''a'' \<le> c \<and> c \<le> CHR ''f'')"

definition lower_char :: "char \<Rightarrow> bool" where
  "lower_char c \<longleftrightarrow> CHR ''a'' \<le> c \<and> c \<le> CHR ''z''"

definition upper_char :: "char \<Rightarrow> bool" where
  "upper_char c \<longleftrightarrow> CHR ''A'' \<le> c \<and> c \<le> CHR ''Z''"

definition alnum_char :: "char \<Rightarrow> bool" where
  \<comment> \<open>\<^verbatim>\<open>[A-Za-z0-9]\<close>\<close>
  "alnum_char c \<longleftrightarrow> lower_char c \<or> upper_char c \<or> digit_char c"

lemmas char_class_defs = digit_char_def hex_char_def lower_char_def upper_char_def alnum_char_def

definition match_classes :: "(char \<Rightarrow> bool) list \<Rightarrow> string \<Rightarrow> bool" where
  \<comment> \<open>a regular expression without repetition of unknown length: one class per position\<close>
  "match_classes ps s \<longleftrightarrow> list_all2 (\<lambda>p c. p c) ps s"

lemma match_classes_Nil [simp]: "match_classes [] s \<longleftrightarrow> s = []"
  by (simp add: match_classes_def)

lemma match_classes_Cons [simp]:
  "match_classes (p # ps) (c # s) \<longleftrightarrow> p c \<and> match_classes ps s"
  "\<not> match_classes (p # ps) []"
  by (simp_all add: match_classes_def)

lemma match_classes_length: "match_classes ps s \<Longrightarrow> length s = length ps"
  by (auto simp: match_classes_def dest: list_all2_lengthD)

lemma match_classes_append:
  "length s = length ps \<Longrightarrow>
   match_classes (ps @ qs) (s @ t) \<longleftrightarrow> match_classes ps s \<and> match_classes qs t"
  by (auto simp: match_classes_def list_all2_append)

lemma match_classes_mono:
  "match_classes ps s \<Longrightarrow> list_all2 (\<lambda>p q. \<forall>c. p c \<longrightarrow> q c) ps qs \<Longrightarrow> match_classes qs s"
  unfolding match_classes_def
  by (auto simp: list_all2_conv_all_nth)

definition hex_classes :: "nat \<Rightarrow> (char \<Rightarrow> bool) list" where
  "hex_classes n = replicate n hex_char"

lemma match_hex_classes: "match_classes (hex_classes n) s \<longleftrightarrow> length s = n \<and> list_all hex_char s"
  by (auto simp: match_classes_def hex_classes_def list_all2_conv_all_nth list_all_length)

definition is_char :: "char \<Rightarrow> char \<Rightarrow> bool" where
  "is_char d c \<longleftrightarrow> c = d"

section \<open>Decimal numerals\<close>

definition digit_of :: "nat \<Rightarrow> char" where
  "digit_of n = char_of (48 + n)"

definition digit_val :: "char \<Rightarrow> nat" where
  "digit_val c = of_char c - 48"

fun dec_nat :: "nat \<Rightarrow> string" where
  "dec_nat n = (if n < 10 then [digit_of n] else dec_nat (n div 10) @ [digit_of (n mod 10)])"

declare dec_nat.simps [simp del]

definition dec_int :: "int \<Rightarrow> string" where
  "dec_int i = (if i < 0 then CHR ''-'' # dec_nat (nat (- i)) else dec_nat (nat i))"

definition dec_val :: "string \<Rightarrow> nat" where
  "dec_val s = foldl (\<lambda>a c. 10 * a + digit_val c) 0 s"

definition zero_pad :: "nat \<Rightarrow> string \<Rightarrow> string" where
  \<comment> \<open>the format specification \<^verbatim>\<open>0<k>d\<close> on a non-negative numeral\<close>
  "zero_pad k s = replicate (k - length s) (CHR ''0'') @ s"

lemma digit_of_val [simp]: "n < 10 \<Longrightarrow> digit_val (digit_of n) = n"
  by (simp add: digit_of_def digit_val_def)

lemma digit_of_digit [simp]: "n < 10 \<Longrightarrow> digit_char (digit_of n)"
  by (simp add: digit_of_def digit_char_def less_eq_char_def)

lemma digit_char_of_char: "digit_char c \<longleftrightarrow> 48 \<le> (of_char c :: nat) \<and> of_char c \<le> (57 :: nat)"
  by (simp add: digit_char_def less_eq_char_def)

lemma digit_val_less: "digit_char c \<Longrightarrow> digit_val c < 10"
  by (auto simp: digit_char_of_char digit_val_def)

lemma digit_of_eq_zero: "n < 10 \<Longrightarrow> digit_of n = CHR ''0'' \<longleftrightarrow> n = 0"
  by (simp add: digit_of_def char_of_eq_iff take_bit_eq_mod)

lemma dec_nat_digits: "list_all digit_char (dec_nat n)"
proof (induction n rule: dec_nat.induct)
  case (1 n)
  then show ?case by (subst dec_nat.simps) auto
qed

lemma dec_nat_nonempty [simp]: "dec_nat n \<noteq> []"
  by (subst dec_nat.simps) simp

lemma dec_val_append: "dec_val (s @ [c]) = 10 * dec_val s + digit_val c"
  by (simp add: dec_val_def)

lemma dec_val_dec_nat [simp]: "dec_val (dec_nat n) = n"
proof (induction n rule: dec_nat.induct)
  case (1 n)
  show ?case
  proof (cases "n < 10")
    case True
    then show ?thesis by (subst dec_nat.simps) (simp add: dec_val_def)
  next
    case False
    with "1.IH" show ?thesis by (subst dec_nat.simps) (simp add: dec_val_append)
  qed
qed

lemma dec_nat_inj: "dec_nat m = dec_nat n \<longleftrightarrow> m = n"
  by (metis dec_val_dec_nat)

lemma dec_nat_zero_head: "hd (dec_nat n) = CHR ''0'' \<longleftrightarrow> n = 0"
proof (induction n rule: dec_nat.induct)
  case (1 n)
  show ?case
  proof (cases "n < 10")
    case True
    then show ?thesis by (subst dec_nat.simps) (simp add: digit_of_eq_zero)
  next
    case False
    with "1.IH" show ?thesis by (subst dec_nat.simps) auto
  qed
qed

lemma dec_val_zeros [simp]: "dec_val (replicate k (CHR ''0'') @ s) = dec_val s"
  by (induction k) (simp_all add: dec_val_def digit_val_def)

lemma dec_val_zero_pad [simp]: "dec_val (zero_pad k s) = dec_val s"
  by (simp add: zero_pad_def)

lemma length_zero_pad: "length s \<le> k \<Longrightarrow> length (zero_pad k s) = k"
  by (simp add: zero_pad_def)

lemma zero_pad_digits: "list_all digit_char s \<Longrightarrow> list_all digit_char (zero_pad k s)"
  by (induction "k - length s") (auto simp: zero_pad_def list_all_iff digit_char_of_char)

lemma length_dec_nat_le: "n < 10 ^ k \<Longrightarrow> 0 < k \<Longrightarrow> length (dec_nat n) \<le> k"
proof (induction k arbitrary: n)
  case (Suc k)
  show ?case
  proof (cases "n < 10")
    case True
    then show ?thesis by (subst dec_nat.simps) simp
  next
    case False
    with Suc.prems have "n div 10 < 10 ^ k" "0 < k"
      by (auto simp: less_mult_imp_div_less mult.commute intro: gr0I)
    with False Suc.IH [of "n div 10"] show ?thesis by (subst dec_nat.simps) simp
  qed
qed simp

section \<open>Lists\<close>

fun remdups_first :: "'a list \<Rightarrow> 'a list" where
  \<comment> \<open>\<^verbatim>\<open>tuple(dict.fromkeys(xs))\<close>: the first occurrence of each element, in order\<close>
  "remdups_first [] = []"
| "remdups_first (x # xs) = x # remdups_first (filter (\<lambda>y. y \<noteq> x) xs)"

lemma set_remdups_first [simp]: "set (remdups_first xs) = set xs"
  by (induction xs rule: remdups_first.induct) auto

lemma distinct_remdups_first [simp]: "distinct (remdups_first xs)"
  by (induction xs rule: remdups_first.induct) auto

lemma remdups_first_Nil_iff [simp]: "remdups_first xs = [] \<longleftrightarrow> xs = []"
  by (cases xs) simp_all

lemma sum_list_sort_key: "sum_list (map f (sort_key g xs)) = sum_list (map f xs :: nat list)"
  by (metis mset_map mset_sort sum_mset_sum_list)

end
