(* ===== verification/PyVal.thy ===== *)
theory PyVal
  imports Prelude
begin

text \<open>
  The dynamically typed values of the Python sources.  Where the code tests the type of a value
  (\<^verbatim>\<open>isinstance\<close>, \<^verbatim>\<open>type(x) is int\<close>) the model holds a
  \<open>pyval\<close> and the test is a test of its constructor.  Strings are sequences of code points
  U+0000 to U+00FF (\<^typ>\<open>string\<close>), byte strings are sequences of bytes; finite floats carry the
  rational number they denote, \<open>PFloat None\<close> stands for an infinity or a NaN.  Equality of
  values is Python's \<^verbatim>\<open>==\<close> (\<open>py_eq\<close>): Booleans and numbers compare by value,
  dictionaries without regard to order.  The exceptions the sources raise and catch are the
  datatype \<open>exn\<close>.
\<close>

section \<open>Values\<close>

record pydatetime =
  dt_secs :: int \<comment> \<open>wall-clock seconds since 0001-01-01T00:00:00\<close>
  dt_micro :: int
  dt_offset :: "int option" \<comment> \<open>\<^verbatim>\<open>utcoffset()\<close> in seconds, \<open>None\<close> for a naive value\<close>

datatype pyval =
    PNone
  | PBool bool
  | PInt int
  | PFloat "rat option"
  | PStr string
  | PBytes string
  | PDatetime pydatetime
  | PList "pyval list"
  | PTuple "pyval list"
  | PDict "(pyval \<times> pyval) list"
  | PStream "string option" bool
  | PObject

text \<open>
  \<open>PStream c ok\<close> is a response body: \<^verbatim>\<open>read(n)\<close> gives the first \<open>n\<close> bytes of
  \<open>c\<close> and raises when \<open>c\<close> is \<open>None\<close>; \<^verbatim>\<open>close()\<close> raises unless \<open>ok\<close>.
  \<open>PObject\<close> is a value of any other type.
\<close>

type_synonym pydict = "(pyval \<times> pyval) list"

fun py_num :: "pyval \<Rightarrow> rat option" where
  "py_num (PBool b) = Some (if b then 1 else 0)"
| "py_num (PInt i) = Some (of_int i)"
| "py_num (PFloat q) = q"
| "py_num _ = None"

definition dt_eq :: "pydatetime \<Rightarrow> pydatetime \<Rightarrow> bool" where
  \<comment> \<open>aware values compare by instant, naive ones by wall clock, a mixed pair is unequal\<close>
  "dt_eq a b \<longleftrightarrow>
     (case (dt_offset a, dt_offset b) of
        (Some x, Some y) \<Rightarrow> dt_secs a - x = dt_secs b - y \<and> dt_micro a = dt_micro b
      | (None, None) \<Rightarrow> dt_secs a = dt_secs b \<and> dt_micro a = dt_micro b
      | _ \<Rightarrow> False)"

fun num_eq :: "rat option \<Rightarrow> rat option \<Rightarrow> bool" where
  "num_eq (Some x) (Some y) = (x = y)"
| "num_eq _ _ = False"

function py_eq :: "pyval \<Rightarrow> pyval \<Rightarrow> bool"
  and py_eq_list :: "pyval list \<Rightarrow> pyval list \<Rightarrow> bool"
  and py_sub :: "pydict \<Rightarrow> pydict \<Rightarrow> bool"
  and py_has :: "pyval \<Rightarrow> pyval \<Rightarrow> pydict \<Rightarrow> bool"
where
  "py_eq PNone b = (b = PNone)"
| "py_eq (PBool x) b = num_eq (py_num (PBool x)) (py_num b)"
| "py_eq (PInt x) b = num_eq (py_num (PInt x)) (py_num b)"
| "py_eq (PFloat x) b = num_eq (py_num (PFloat x)) (py_num b)"
| "py_eq (PStr s) b = (b = PStr s)"
| "py_eq (PBytes s) b = (b = PBytes s)"
| "py_eq (PDatetime x) b = (case b of PDatetime y \<Rightarrow> dt_eq x y | _ \<Rightarrow> False)"
| "py_eq (PList xs) b = (case b of PList ys \<Rightarrow> py_eq_list xs ys | _ \<Rightarrow> False)"
| "py_eq (PTuple xs) b = (case b of PTuple ys \<Rightarrow> py_eq_list xs ys | _ \<Rightarrow> False)"
| "py_eq (PDict xs) b = (case b of PDict ys \<Rightarrow> length xs = length ys \<and> py_sub xs ys | _ \<Rightarrow> False)"
| "py_eq (PStream c ok) b = False"
| "py_eq PObject b = False"
| "py_eq_list [] ys = (ys = [])"
| "py_eq_list (x # xs) ys = (case ys of [] \<Rightarrow> False | y # ys' \<Rightarrow> py_eq x y \<and> py_eq_list xs ys')"
| "py_sub [] ys = True"
| "py_sub ((k, v) # xs) ys = (py_has k v ys \<and> py_sub xs ys)"
| "py_has k v [] = False"
| "py_has k v ((k', v') # ys) = (if py_eq k k' then py_eq v v' else py_has k v ys)"
  by pat_completeness auto
termination
  by (relation "measures [\<lambda>x. case x of
          Inl (Inl (a, b)) \<Rightarrow> size a
        | Inl (Inr (xs, ys)) \<Rightarrow> size_list size xs
        | Inr (Inl (xs, ys)) \<Rightarrow> size_list (size_prod size size) xs
        | Inr (Inr (k, v, ys)) \<Rightarrow> size k + size v,
      \<lambda>x. case x of Inr (Inr (k, v, ys)) \<Rightarrow> Suc (length ys) | _ \<Rightarrow> 0]")
     auto

section \<open>Type tests\<close>

fun is_str :: "pyval \<Rightarrow> bool" where "is_str (PStr _) = True" | "is_str _ = False"
fun is_bool :: "pyval \<Rightarrow> bool" where "is_bool (PBool _) = True" | "is_bool _ = False"
fun is_int :: "pyval \<Rightarrow> bool" where
  \<comment> \<open>\<^verbatim>\<open>type(x) is int\<close>: a Boolean is not an \<^verbatim>\<open>int\<close> here\<close>
  "is_int (PInt _) = True" | "is_int _ = False"
fun is_dict :: "pyval \<Rightarrow> bool" where "is_dict (PDict _) = True" | "is_dict _ = False"
fun is_list :: "pyval \<Rightarrow> bool" where "is_list (PList _) = True" | "is_list _ = False"

fun str_val :: "pyval \<Rightarrow> string" where "str_val (PStr s) = s" | "str_val _ = []"
fun int_val :: "pyval \<Rightarrow> int" where "int_val (PInt i) = i" | "int_val _ = 0"
fun dict_val :: "pyval \<Rightarrow> pydict" where "dict_val (PDict d) = d" | "dict_val _ = []"
fun list_val :: "pyval \<Rightarrow> pyval list" where
  "list_val (PList xs) = xs" | "list_val (PTuple xs) = xs" | "list_val _ = []"

lemma is_str_iff: "is_str v \<longleftrightarrow> (\<exists>s. v = PStr s)" by (cases v) auto
lemma is_bool_iff: "is_bool v \<longleftrightarrow> (\<exists>b. v = PBool b)" by (cases v) auto
lemma is_int_iff: "is_int v \<longleftrightarrow> (\<exists>i. v = PInt i)" by (cases v) auto
lemma is_dict_iff: "is_dict v \<longleftrightarrow> (\<exists>d. v = PDict d)" by (cases v) auto
lemma is_list_iff: "is_list v \<longleftrightarrow> (\<exists>xs. v = PList xs)" by (cases v) auto

lemmas py_type_iffs = is_str_iff is_bool_iff is_int_iff is_dict_iff is_list_iff

fun py_truthy :: "pyval \<Rightarrow> bool" where
  "py_truthy PNone = False"
| "py_truthy (PBool b) = b"
| "py_truthy (PInt i) = (i \<noteq> 0)"
| "py_truthy (PFloat q) = (q \<noteq> Some 0)"
| "py_truthy (PStr s) = (s \<noteq> [])"
| "py_truthy (PBytes s) = (s \<noteq> [])"
| "py_truthy (PList xs) = (xs \<noteq> [])"
| "py_truthy (PTuple xs) = (xs \<noteq> [])"
| "py_truthy (PDict xs) = (xs \<noteq> [])"
| "py_truthy _ = True"

section \<open>Dictionaries with string keys\<close>

fun dget :: "pydict \<Rightarrow> string \<Rightarrow> pyval option" where
  \<comment> \<open>\<^verbatim>\<open>d.get(k)\<close> for a string key\<close>
  "dget [] k = None"
| "dget ((k', v) # d) k = (if k' = PStr k then Some v else dget d k)"

definition dget_none :: "pydict \<Rightarrow> string \<Rightarrow> pyval" where
  \<comment> \<open>\<^verbatim>\<open>d.get(k)\<close> with the default \<^verbatim>\<open>None\<close>\<close>
  "dget_none d k = (case dget d k of None \<Rightarrow> PNone | Some v \<Rightarrow> v)"

definition dget_or :: "pydict \<Rightarrow> string \<Rightarrow> pyval \<Rightarrow> pyval" where
  "dget_or d k x = (case dget d k of None \<Rightarrow> x | Some v \<Rightarrow> v)"

fun dset :: "pydict \<Rightarrow> string \<Rightarrow> pyval \<Rightarrow> pydict" where
  \<comment> \<open>\<^verbatim>\<open>d[k] = v\<close>: a present key keeps its position\<close>
  "dset [] k v = [(PStr k, v)]"
| "dset ((k', v') # d) k v = (if k' = PStr k then (k', v) # d else (k', v') # dset d k v)"

definition ddel :: "pydict \<Rightarrow> string \<Rightarrow> pydict" where
  "ddel d k = filter (\<lambda>(k', _). k' \<noteq> PStr k) d"

definition dkeys :: "pydict \<Rightarrow> pyval list" where
  "dkeys d = map fst d"

definition keys_exactly :: "pydict \<Rightarrow> string list \<Rightarrow> bool" where
  \<comment> \<open>\<^verbatim>\<open>set(d) == {...}\<close>\<close>
  "keys_exactly d ks \<longleftrightarrow> set (dkeys d) = PStr ` set ks"

definition sdict :: "(string \<times> pyval) list \<Rightarrow> pydict" where
  \<comment> \<open>a dictionary display whose keys are string literals\<close>
  "sdict = map (\<lambda>(k, v). (PStr k, v))"

lemma sdict_simps [simp]:
  "sdict [] = []"
  "sdict ((k, v) # d) = (PStr k, v) # sdict d"
  "sdict (d @ e) = sdict d @ sdict e"
  by (simp_all add: sdict_def)

lemma dkeys_simps [simp]:
  "dkeys [] = []"
  "dkeys ((k, v) # d) = k # dkeys d"
  "dkeys (d @ e) = dkeys d @ dkeys e"
  by (simp_all add: dkeys_def)

lemma dget_sdict: "dget (sdict d) k = map_of d k"
  by (induction d) auto

lemma dget_none_iff: "dget d k = None \<longleftrightarrow> PStr k \<notin> set (dkeys d)"
  by (induction d k rule: dget.induct) auto

lemma dget_dset: "dget (dset d k v) k' = (if k' = k then Some v else dget d k')"
  by (induction d k v rule: dset.induct) auto

lemma dkeys_dset: "dkeys (dset d k v) = (if PStr k \<in> set (dkeys d) then dkeys d else dkeys d @ [PStr k])"
  by (induction d k v rule: dset.induct) auto

section \<open>Exceptions\<close>

datatype exn =
    PolicyError string
  | RecordFailure string
  | GatewayFailure string "string list" \<comment> \<open>code and \<^verbatim>\<open>deleted_keys\<close>\<close>
  | LeaseFailure string
  | PlanFailure string
  | OperationFailure string bool \<comment> \<open>code and \<^verbatim>\<open>partial\<close>\<close>
  | ServiceFailure string int "string option" \<comment> \<open>code, HTTP status and state\<close>
  | MetricsFailure string
  | ClientError pyval \<comment> \<open>botocore's error with its \<^verbatim>\<open>response\<close>\<close>
  | BotoCoreError \<comment> \<open>botocore's transport errors\<close>
  | LockMismatch string pyval pyval \<comment> \<open>field, expected and actual value\<close>
  | ConditionalConflict
  | AmbiguousWrite "exn option" \<comment> \<open>with its \<^verbatim>\<open>__cause__\<close>\<close>
  | ProposalExpired
  | Interrupt \<comment> \<open>\<^verbatim>\<open>KeyboardInterrupt\<close> or \<^verbatim>\<open>SystemExit\<close>\<close>
  | OtherExn string \<comment> \<open>any other exception, by class name\<close>

type_synonym 'a res = "exn + 'a"

definition ditem :: "pydict \<Rightarrow> string \<Rightarrow> pyval res" where
  \<comment> \<open>\<^verbatim>\<open>d[k]\<close>\<close>
  "ditem d k = (case dget d k of None \<Rightarrow> Inl (OtherExn ''KeyError'') | Some v \<Rightarrow> Inr v)"

lemma pyval_Inl_Inr [inr_iffs]:
  "(case v of PStr s \<Rightarrow> f s | _ \<Rightarrow> Inl e) = Inr y \<longleftrightarrow> (\<exists>s. v = PStr s \<and> f s = Inr y)"
  "(case v of PInt i \<Rightarrow> f1 i | _ \<Rightarrow> Inl e) = Inr y \<longleftrightarrow> (\<exists>i. v = PInt i \<and> f1 i = Inr y)"
  "(case v of PBytes s \<Rightarrow> f s | _ \<Rightarrow> Inl e) = Inr y \<longleftrightarrow> (\<exists>s. v = PBytes s \<and> f s = Inr y)"
  "(case v of PList xs \<Rightarrow> g xs | _ \<Rightarrow> Inl e) = Inr y \<longleftrightarrow> (\<exists>xs. v = PList xs \<and> g xs = Inr y)"
  "(case v of PDict d \<Rightarrow> h d | _ \<Rightarrow> Inl e) = Inr y \<longleftrightarrow> (\<exists>d. v = PDict d \<and> h d = Inr y)"
  by (cases v; simp)+

lemma PStr_str_val [simp]: "is_str v \<Longrightarrow> PStr (str_val v) = v"
  by (cases v) simp_all

lemma PInt_int_val [simp]: "is_int v \<Longrightarrow> PInt (int_val v) = v"
  by (cases v) simp_all

lemma py_eq_PStr [simp]: "py_eq v (PStr s) \<longleftrightarrow> v = PStr s"
  by (cases v) (auto elim: num_eq.elims)

end
