(* ===== verification/Effects.thy ===== *)
theory Effects
  imports PyVal
begin

text \<open>
  Effects of the service code.  An action passes the state of the outside world (the object store,
  the clocks) through and gives a value or an exception; the combinators are those of Python's
  statements: sequencing, \<^verbatim>\<open>raise\<close>, \<^verbatim>\<open>try/except/else\<close>.  The S3 client, the clocks and
  the UUID source are not code of the repository: the record \<open>env\<close> holds them as actions, and the
  theorems hold for every such environment.  \<open>preserves P m\<close> says that an action keeps a predicate
  of the world; \<open>env_ok P allowed e\<close> that the environment does so for the S3 calls in
  \<open>allowed\<close>.  Proving \<open>preserves P m\<close> from \<open>env_ok P allowed e\<close> for every \<open>P\<close> shows
  that \<open>m\<close> issues no S3 call outside \<open>allowed\<close>.
\<close>

section \<open>Actions\<close>

type_synonym ('w, 'a) act = "'w \<Rightarrow> (exn + 'a) \<times> 'w"

definition retA :: "'a \<Rightarrow> ('w, 'a) act" where
  "retA x w = (Inr x, w)"

definition raiseA :: "exn \<Rightarrow> ('w, 'a) act" where
  "raiseA e w = (Inl e, w)"

definition liftA :: "'a res \<Rightarrow> ('w, 'a) act" where
  \<comment> \<open>a pure computation that may raise\<close>
  "liftA r w = (r, w)"

definition bindA :: "('w, 'a) act \<Rightarrow> ('a \<Rightarrow> ('w, 'b) act) \<Rightarrow> ('w, 'b) act" where
  "bindA m f w = (case m w of (Inl e, w') \<Rightarrow> (Inl e, w') | (Inr x, w') \<Rightarrow> f x w')"

definition seqA :: "('w, unit) act \<Rightarrow> ('w, 'b) act \<Rightarrow> ('w, 'b) act" where
  "seqA m k = bindA m (\<lambda>_. k)"

definition guardA :: "bool \<Rightarrow> exn \<Rightarrow> ('w, unit) act" where
  \<comment> \<open>\<^verbatim>\<open>if bad: raise e\<close>\<close>
  "guardA bad e = (if bad then raiseA e else retA ())"

definition tryA :: "('w, 'a) act \<Rightarrow> (exn \<Rightarrow> ('w, 'b) act) \<Rightarrow> ('a \<Rightarrow> ('w, 'b) act) \<Rightarrow> ('w, 'b) act" where
  \<comment> \<open>\<^verbatim>\<open>try: m / except: h / else: k\<close>\<close>
  "tryA m h k w = (case m w of (Inl e, w') \<Rightarrow> h e w' | (Inr x, w') \<Rightarrow> k x w')"

definition mapexnA :: "('w, 'a) act \<Rightarrow> (exn \<Rightarrow> exn) \<Rightarrow> ('w, 'a) act" where
  \<comment> \<open>\<^verbatim>\<open>except\<close> clauses that only raise another exception\<close>
  "mapexnA m h = tryA m (\<lambda>e. raiseA (h e)) retA"

fun mapA :: "('a \<Rightarrow> ('w, 'b) act) \<Rightarrow> 'a list \<Rightarrow> ('w, 'b list) act" where
  "mapA f [] = retA []"
| "mapA f (x # xs) = bindA (f x) (\<lambda>y. bindA (mapA f xs) (\<lambda>ys. retA (y # ys)))"

fun forA :: "'a list \<Rightarrow> ('a \<Rightarrow> ('w, unit) act) \<Rightarrow> ('w, unit) act" where
  "forA [] f = retA ()"
| "forA (x # xs) f = seqA (f x) (forA xs f)"

lemma bindA_Inr [inr_iffs]: "bindA m f w = (Inr y, w'') \<longleftrightarrow> (\<exists>x w'. m w = (Inr x, w') \<and> f x w' = (Inr y, w''))"
  by (auto simp: bindA_def split: prod.split sum.split)

lemma seqA_Inr [inr_iffs]: "seqA m k w = (Inr y, w'') \<longleftrightarrow> (\<exists>w'. m w = (Inr (), w') \<and> k w' = (Inr y, w''))"
  by (auto simp: seqA_def bindA_Inr)

lemma retA_Inr [inr_iffs]: "retA x w = (Inr y, w') \<longleftrightarrow> y = x \<and> w' = w"
  by (auto simp: retA_def)

lemma raiseA_Inr [inr_iffs]: "raiseA e w = (Inr y, w') \<longleftrightarrow> False"
  by (simp add: raiseA_def)

lemma liftA_Inr [inr_iffs]: "liftA r w = (Inr y, w') \<longleftrightarrow> r = Inr y \<and> w' = w"
  by (auto simp: liftA_def)

lemma guardA_Inr [inr_iffs]: "guardA b e w = (Inr u, w') \<longleftrightarrow> \<not> b \<and> w' = w"
  by (auto simp: guardA_def retA_def raiseA_def)

lemma mapexnA_Inr [inr_iffs]: "mapexnA m h w = (Inr y, w') \<longleftrightarrow> m w = (Inr y, w')"
  by (auto simp: mapexnA_def tryA_def raiseA_def retA_def split: prod.split sum.split)

lemma tryA_Inr:
  "tryA m h k w = (Inr y, w'') \<longleftrightarrow>
   (\<exists>x w'. m w = (Inr x, w') \<and> k x w' = (Inr y, w'')) \<or> (\<exists>e w'. m w = (Inl e, w') \<and> h e w' = (Inr y, w''))"
  by (auto simp: tryA_def split: prod.splits sum.splits)

lemma if_act_Inr [inr_iffs]:
  "(if b then raiseA e else m) w = (Inr y, w') \<longleftrightarrow> \<not> b \<and> m w = (Inr y, w')"
  "(if b then m else raiseA e) w = (Inr y, w') \<longleftrightarrow> b \<and> m w = (Inr y, w')"
  by (simp_all add: raiseA_def)

lemma act_run [act_simps]:
  "retA x w = (Inr x, w)" "raiseA e w = (Inl e, w)" "liftA r w = (r, w)"
  "m w = (Inr x, w') \<Longrightarrow> bindA m f w = f x w'" "m w = (Inl e, w') \<Longrightarrow> bindA m f w = (Inl e, w')"
  "m' w = (Inr (), w') \<Longrightarrow> seqA m' k w = k w'" "m' w = (Inl e, w') \<Longrightarrow> seqA m' k w = (Inl e, w')"
  "guardA b e w = (if b then Inl e else Inr (), w)"
  "m w = (Inr x, w') \<Longrightarrow> tryA m h f' w = f' x w'" "m w = (Inl e, w') \<Longrightarrow> tryA m h f' w = h e w'"
  "m w = (Inr x, w') \<Longrightarrow> mapexnA m g w = (Inr x, w')" "m w = (Inl e, w') \<Longrightarrow> mapexnA m g w = (Inl (g e), w')"
  by (simp_all add: retA_def raiseA_def liftA_def bindA_def seqA_def guardA_def tryA_def mapexnA_def)

section \<open>Exceptions by code\<close>

fun exn_code :: "exn \<Rightarrow> string option" where
  \<comment> \<open>\<^verbatim>\<open>getattr(error, "code", None)\<close>\<close>
  "exn_code (PolicyError c) = Some c"
| "exn_code (RecordFailure c) = Some c"
| "exn_code (GatewayFailure c _) = Some c"
| "exn_code (LeaseFailure c) = Some c"
| "exn_code (PlanFailure c) = Some c"
| "exn_code (OperationFailure c _) = Some c"
| "exn_code (ServiceFailure c _ _) = Some c"
| "exn_code (MetricsFailure c) = Some c"
| "exn_code _ = None"

definition gateway_failure :: "string \<Rightarrow> exn" where
  "gateway_failure c = GatewayFailure c []"

fun is_gateway :: "exn \<Rightarrow> bool" where
  "is_gateway (GatewayFailure _ _) = True"
| "is_gateway _ = False"

fun is_record :: "exn \<Rightarrow> bool" where
  "is_record (RecordFailure _) = True"
| "is_record _ = False"

fun is_policy :: "exn \<Rightarrow> bool" where
  "is_policy (PolicyError _) = True"
| "is_policy _ = False"

definition else_code :: "exn \<Rightarrow> exn \<Rightarrow> exn" where
  \<comment> \<open>\<^verbatim>\<open>except (KeyboardInterrupt, SystemExit): raise / except BaseException: raise f\<close>\<close>
  "else_code f e = (if e = Interrupt then e else f)"

section \<open>The environment\<close>

datatype put_condition = NoCondition | IfNoneMatch | IfMatch string

datatype s3_call =
    ListObjectsV2 string string int "string option" \<comment> \<open>bucket, prefix, \<^verbatim>\<open>MaxKeys\<close>, continuation token\<close>
  | GetObject string string
  | PutObject string string string put_condition
  | HeadObject string string
  | DeleteObjects string "string list"
  | DeleteObject string string

record 'w env =
  env_s3 :: "s3_call \<Rightarrow> ('w, pyval) act"
  env_now :: "('w, pyval) act"
  env_monotonic :: "('w, rat) act"
  env_uuid4 :: "('w, string) act"

section \<open>Which calls an action makes\<close>

named_theorems keeps

definition preserves :: "('w \<Rightarrow> bool) \<Rightarrow> ('w, 'a) act \<Rightarrow> bool" where
  "preserves P m \<longleftrightarrow> (\<forall>w. P w \<longrightarrow> P (snd (m w)))"

definition env_ok :: "('w \<Rightarrow> bool) \<Rightarrow> (s3_call \<Rightarrow> bool) \<Rightarrow> 'w env \<Rightarrow> bool" where
  "env_ok P allowed e \<longleftrightarrow>
     preserves P (env_now e) \<and> preserves P (env_monotonic e) \<and> preserves P (env_uuid4 e) \<and>
     (\<forall>c. allowed c \<longrightarrow> preserves P (env_s3 e c))"

lemma preserves_simple [keeps]: "preserves P (retA x)" "preserves P (raiseA e)" "preserves P (liftA r)" "preserves P (guardA b e)"
  by (auto simp: preserves_def retA_def raiseA_def liftA_def guardA_def)

lemma preserves_bindA [keeps]: "preserves P m \<Longrightarrow> (\<And>x. preserves P (f x)) \<Longrightarrow> preserves P (bindA m f)"
  by (fastforce simp: preserves_def bindA_def split: prod.split sum.split)

lemma preserves_seqA [keeps]: "preserves P m \<Longrightarrow> preserves P k \<Longrightarrow> preserves P (seqA m k)"
  unfolding seqA_def by (rule preserves_bindA)

lemma preserves_bindA_known_run:
  "preserves P k \<Longrightarrow> (\<And>x w w'. k w = (Inr x, w') \<Longrightarrow> preserves P (f x)) \<Longrightarrow> preserves P (bindA k f)"
  unfolding preserves_def bindA_def by (fastforce split: prod.split sum.split)

lemma preserves_seqA_known_run:
  "preserves P k \<Longrightarrow> (\<And>w w'. k w = (Inr (), w') \<Longrightarrow> preserves P g) \<Longrightarrow> preserves P (seqA k g)"
  unfolding seqA_def by (rule preserves_bindA_known_run) auto

lemma preserves_tryA [keeps]:
  "preserves P m \<Longrightarrow> (\<And>e. preserves P (h e)) \<Longrightarrow> (\<And>x. preserves P (k x)) \<Longrightarrow> preserves P (tryA m h k)"
  by (fastforce simp: preserves_def tryA_def split: prod.split sum.split)

lemma preserves_mapexnA [keeps]: "preserves P m \<Longrightarrow> preserves P (mapexnA m h)"
  unfolding mapexnA_def by (intro preserves_tryA preserves_simple)

lemma preserves_mapA [keeps]: "(\<And>x. x \<in> set xs \<Longrightarrow> preserves P (f x)) \<Longrightarrow> preserves P (mapA f xs)"
  by (induction xs) (auto intro!: keeps)

lemma preserves_forA [keeps]: "(\<And>x. x \<in> set xs \<Longrightarrow> preserves P (f x)) \<Longrightarrow> preserves P (forA xs f)"
  by (induction xs) (auto intro!: keeps)

lemma preserves_if [keeps]: "(b \<Longrightarrow> preserves P m) \<Longrightarrow> (\<not> b \<Longrightarrow> preserves P k) \<Longrightarrow> preserves P (if b then m else k)"
  by simp

lemma preserves_option [keeps]:
  "(v = None \<Longrightarrow> preserves P m) \<Longrightarrow> (\<And>x. v = Some x \<Longrightarrow> preserves P (f x)) \<Longrightarrow>
   preserves P (case v of None \<Rightarrow> m | Some x \<Rightarrow> f x)"
  by (cases v) simp_all

lemma preserves_prod [keeps]: "(\<And>x y. v = (x, y) \<Longrightarrow> preserves P (f x y)) \<Longrightarrow> preserves P (case v of (x, y) \<Rightarrow> f x y)"
  by (cases v) simp

lemma preserves_sum [keeps]:
  "(\<And>x. v = Inl x \<Longrightarrow> preserves P (f x)) \<Longrightarrow> (\<And>y. v = Inr y \<Longrightarrow> preserves P (g y)) \<Longrightarrow>
   preserves P (case v of Inl x \<Rightarrow> f x | Inr y \<Rightarrow> g y)"
  by (cases v) simp_all

lemma preserves_let [keeps]: "preserves P (f x) \<Longrightarrow> preserves P (Let x f)"
  by simp

lemma env_okD [keeps]:
  "env_ok P allowed e \<Longrightarrow> preserves P (env_now e)"
  "env_ok P allowed e \<Longrightarrow> preserves P (env_monotonic e)"
  "env_ok P allowed e \<Longrightarrow> preserves P (env_uuid4 e)"
  "env_ok P allowed e \<Longrightarrow> allowed c \<Longrightarrow> preserves P (env_s3 e c)"
  by (auto simp: env_ok_def)

lemma preservesD: "preserves P m \<Longrightarrow> P w \<Longrightarrow> m w = (r, w') \<Longrightarrow> P w'"
  by (metis preserves_def snd_conv)

end
