(* ===== verification/Clock.thy ===== *)
theory Clock
  imports PyVal
begin

text \<open>
  Exact UTC time stamps.  The retention code accepts only aware \<^verbatim>\<open>datetime\<close> values with
  offset zero and no microseconds (\<open>is_exact_utc\<close>); such a value is determined by its seconds
  since 0001-01-01T00:00:00.  The theory models the proleptic Gregorian calendar of
  \<^verbatim>\<open>datetime\<close>, the text form \<^verbatim>\<open>%Y-%m-%dT%H:%M:%SZ\<close> that every component
  writes (\<open>format_utc\<close>) and the strict parser they all repeat (\<open>parse_utc\<close>), and proves
  that writing and reading a time stamp is the identity over the whole range of
  \<^verbatim>\<open>datetime\<close>, that distinct stamps have distinct texts, and that a parsed stamp lies in that
  range.
\<close>

section \<open>The calendar of \<^verbatim>\<open>datetime\<close>\<close>

definition is_leap :: "nat \<Rightarrow> bool" where
  "is_leap y \<longleftrightarrow> y mod 4 = 0 \<and> (y mod 100 \<noteq> 0 \<or> y mod 400 = 0)"

definition month_lengths :: "nat \<Rightarrow> nat list" where
  "month_lengths y = [31, if is_leap y then 29 else 28, 31, 30, 31, 30, 31, 31, 30, 31, 30, 31]"

definition days_before_year :: "nat \<Rightarrow> nat" where
  "days_before_year y = 365 * (y - 1) + (y - 1) div 4 - (y - 1) div 100 + (y - 1) div 400"

definition days_of_civil :: "nat \<Rightarrow> nat \<Rightarrow> nat \<Rightarrow> nat" where
  "days_of_civil y m d = days_before_year y + sum_list (take (m - 1) (month_lengths y)) + (d - 1)"

fun month_day :: "nat list \<Rightarrow> nat \<Rightarrow> nat \<Rightarrow> nat \<times> nat" where
  "month_day [] m d = (m, d + 1)"
| "month_day (l # ls) m d = (if d < l then (m, d + 1) else month_day ls (m + 1) (d - l))"

definition year_doy :: "nat \<Rightarrow> nat \<times> nat" where
  "year_doy n =
     (let n400 = n div 146097; r = n mod 146097;
          n100 = min 3 (r div 36524); r1 = r - 36524 * n100;
          n4 = r1 div 1461; r2 = r1 mod 1461;
          n1 = min 3 (r2 div 365)
      in (400 * n400 + 100 * n100 + 4 * n4 + n1 + 1, r2 - 365 * n1))"

definition civil_of_days :: "nat \<Rightarrow> nat \<times> nat \<times> nat" where
  "civil_of_days n = (let (y, doy) = year_doy n; (m, d) = month_day (month_lengths y) 1 doy in (y, m, d))"

lemma days_before_year_cycles:
  assumes "b \<le> 3" "c \<le> 24" "e \<le> 3"
  shows "days_before_year (400 * a + 100 * b + 4 * c + e + 1) = 146097 * a + 36524 * b + 1461 * c + 365 * e"
proof -
  have "(400 * a + 100 * b + 4 * c + e) div 4 = 100 * a + 25 * b + c"
    using assms by simp
  moreover have "(400 * a + 100 * b + 4 * c + e) div 100 = 4 * a + b"
    using assms by simp
  moreover have "(400 * a + 100 * b + 4 * c + e) div 400 = a"
    using assms by simp
  ultimately show ?thesis by (simp add: days_before_year_def)
qed

lemma year_doy_cycles:
  obtains a b c e doy where
    "year_doy n = (400 * a + 100 * b + 4 * c + e + 1, doy)"
    "n = 146097 * a + 36524 * b + 1461 * c + 365 * e + doy"
    "b \<le> 3" "c \<le> 24" "e \<le> 3" "doy < 365 \<or> doy = 365 \<and> e = 3 \<and> (c < 24 \<or> b = 3)"
proof -
  define a r where "a = n div 146097" and "r = n mod 146097"
  define b where "b = min 3 (r div 36524)"
  define r1 where "r1 = r - 36524 * b"
  define c r2 where "c = r1 div 1461" and "r2 = r1 mod 1461"
  define e where "e = min 3 (r2 div 365)"
  have n: "n = 146097 * a + r" and r: "r < 146097" by (simp_all add: a_def r_def)
  have b: "36524 * b \<le> r" "b \<le> 3" "r1 < 36524 \<or> b = 3 \<and> r1 \<le> 36524"
    using r by (auto simp: b_def r1_def min_def)
  have r1: "r1 = 1461 * c + r2" "r2 < 1461" by (simp_all add: c_def r2_def)
  have c: "c \<le> 24" "c < 24 \<or> r2 < 1460 \<or> b = 3 \<and> r2 \<le> 1460"
    using b(3) r1 by auto
  have e: "365 * e \<le> r2" "e \<le> 3" "r2 - 365 * e < 365 \<or> e = 3 \<and> r2 - 365 * e \<le> 365"
    using r1(2) by (auto simp: e_def min_def)
  show thesis
  proof (rule that)
    show "year_doy n = (400 * a + 100 * b + 4 * c + e + 1, r2 - 365 * e)"
      by (simp add: year_doy_def Let_def a_def r_def b_def r1_def c_def r2_def e_def)
    show "n = 146097 * a + 36524 * b + 1461 * c + 365 * e + (r2 - 365 * e)"
      using n b(1) r1(1) e(1) by (simp add: r1_def)
    show "r2 - 365 * e < 365 \<or> r2 - 365 * e = 365 \<and> e = 3 \<and> (c < 24 \<or> b = 3)"
      using c e r1(2) by auto
  qed (use b c e in simp_all)
qed

lemma sum_month_lengths: "sum_list (month_lengths y) = (if is_leap y then 366 else 365)"
  by (simp add: month_lengths_def)

lemma leap_in_cycle:
  assumes "b \<le> 3" "c \<le> 24" "c < 24 \<or> b = 3"
  shows "is_leap (400 * a + 100 * b + 4 * c + 3 + 1)"
proof -
  have y: "400 * a + 100 * b + 4 * c + 3 + 1 = (4 * c + 4) + 100 * (4 * a + b)" by simp
  have m100: "(400 * a + 100 * b + 4 * c + 3 + 1) mod 100 = (4 * c + 4) mod 100"
    unfolding y by (rule mod_mult_self2)
  have m4: "(400 * a + 100 * b + 4 * c + 3 + 1) mod 4 = 0"
    by presburger
  show ?thesis
  proof (cases "c < 24")
    case True
    then have "(4 * c + 4) mod 100 \<noteq> 0" by simp
    then show ?thesis unfolding is_leap_def m100 m4 by simp
  next
    case False
    with assms have "400 * a + 100 * b + 4 * c + 3 + 1 = 400 * (a + 1)" by simp
    then have "(400 * a + 100 * b + 4 * c + 3 + 1) mod 400 = 0" by simp
    then show ?thesis unfolding is_leap_def m4 by simp
  qed
qed

lemma year_doy_bound: "year_doy n = (y, doy) \<Longrightarrow> doy < sum_list (month_lengths y)"
proof -
  assume yd: "year_doy n = (y, doy)"
  obtain a b c e doy' where eq: "year_doy n = (400 * a + 100 * b + 4 * c + e + 1, doy')"
    and le: "b \<le> 3" "c \<le> 24" "e \<le> 3"
    and doy: "doy' < 365 \<or> doy' = 365 \<and> e = 3 \<and> (c < 24 \<or> b = 3)"
    by (rule year_doy_cycles)
  have leap: "is_leap (400 * a + 100 * b + 4 * c + 3 + 1)" if "c < 24 \<or> b = 3"
    by (rule leap_in_cycle [OF le(1,2) that])
  show ?thesis using yd eq doy leap by (auto simp: sum_month_lengths split: if_splits)
qed

lemma month_day_sum:
  "d < sum_list ls \<Longrightarrow> month_day ls m d = (m', d') \<Longrightarrow>
   m \<le> m' \<and> m' - m < length ls \<and> 1 \<le> d' \<and> d' \<le> ls ! (m' - m) \<and> sum_list (take (m' - m) ls) + (d' - 1) = d"
proof (induction ls arbitrary: m d)
  case (Cons l ls)
  show ?case
  proof (cases "d < l")
    case True
    with Cons.prems show ?thesis by auto
  next
    case False
    with Cons.prems have "d - l < sum_list ls" "month_day ls (m + 1) (d - l) = (m', d')" by auto
    then have ih: "m + 1 \<le> m' \<and> m' - (m + 1) < length ls \<and> 1 \<le> d' \<and> d' \<le> ls ! (m' - (m + 1)) \<and>
        sum_list (take (m' - (m + 1)) ls) + (d' - 1) = d - l"
      by (rule Cons.IH)
    then have "m' - m = Suc (m' - (m + 1))" by auto
    with ih False show ?thesis by auto
  qed
qed simp

lemma civil_of_days_parts:
  assumes "civil_of_days n = (y, m, d)"
  shows "days_of_civil y m d = n" "1 \<le> y" "1 \<le> m" "m \<le> 12" "1 \<le> d" "d \<le> month_lengths y ! (m - 1)"
proof -
  obtain doy where yd: "year_doy n = (y, doy)" and md: "month_day (month_lengths y) 1 doy = (m, d)"
    using assms by (auto simp: civil_of_days_def split: prod.splits)
  note m = month_day_sum [OF year_doy_bound [OF yd] md]
  obtain a b c e where y: "y = 400 * a + 100 * b + 4 * c + e + 1"
    and n: "n = 146097 * a + 36524 * b + 1461 * c + 365 * e + doy"
    and le: "b \<le> 3" "c \<le> 24" "e \<le> 3"
    using yd by (metis year_doy_cycles prod.inject)
  show "days_of_civil y m d = n"
    using m n unfolding days_of_civil_def y days_before_year_cycles [OF le] by linarith
  show "1 \<le> y" using y by simp
  show "1 \<le> m" "m \<le> 12" "1 \<le> d" "d \<le> month_lengths y ! (m - 1)"
    using m by (auto simp: month_lengths_def)
qed

lemma year_step:
  fixes a a' b b' c c' k :: nat
  assumes "a \<le> a'" "c \<le> c'" "b' \<le> Suc b" "b \<le> k"
  shows "365 * k + a - b + c \<le> 365 * Suc k + a' - b' + c'"
  using assms by simp

lemma days_before_year_mono: "y \<le> z \<Longrightarrow> days_before_year y \<le> days_before_year z"
proof (induction rule: dec_induct)
  case (step n)
  have "days_before_year n \<le> days_before_year (Suc n)"
  proof (cases n)
    case (Suc k)
    have "k div 4 \<le> Suc k div 4" "k div 400 \<le> Suc k div 400" "Suc k div 100 \<le> Suc (k div 100)"
      by (auto intro: div_le_mono)
    moreover have "k div 100 \<le> k" by (rule div_le_dividend)
    ultimately show ?thesis unfolding days_before_year_def Suc diff_Suc_1 by (intro year_step)
  qed (simp add: days_before_year_def)
  with step.IH show ?case by simp
qed simp

lemma civil_year_bound: "n < 3652059 \<Longrightarrow> civil_of_days n = (y, m, d) \<Longrightarrow> y \<le> 9999"
proof (rule ccontr)
  assume n: "n < 3652059" and c: "civil_of_days n = (y, m, d)" and "\<not> y \<le> 9999"
  then have "days_before_year 10000 \<le> days_before_year y"
    by (intro days_before_year_mono) simp
  also have "\<dots> \<le> n"
    using civil_of_days_parts(1) [OF c] by (simp add: days_of_civil_def)
  finally show False using n by (simp add: days_before_year_def)
qed

section \<open>Exact UTC values and their text\<close>

definition max_secs :: int where
  \<comment> \<open>one second after 9999-12-31T23:59:59, the largest \<^verbatim>\<open>datetime\<close>\<close>
  "max_secs = 315537897600"

definition utc :: "int \<Rightarrow> pyval" where
  "utc t = PDatetime \<lparr>dt_secs = t, dt_micro = 0, dt_offset = Some 0\<rparr>"

fun is_exact_utc :: "pyval \<Rightarrow> bool" where
  "is_exact_utc (PDatetime d) = (dt_offset d = Some 0 \<and> dt_micro d = 0)"
| "is_exact_utc _ = False"

fun utc_secs :: "pyval \<Rightarrow> int" where
  "utc_secs (PDatetime d) = dt_secs d"
| "utc_secs _ = 0"

lemma utc_simps [simp]: "is_exact_utc (utc t)" "utc_secs (utc t) = t"
  by (simp_all add: utc_def)

lemma is_exact_utc_iff: "is_exact_utc v \<longleftrightarrow> (\<exists>t. v = utc t)"
proof
  assume "is_exact_utc v"
  then obtain d where v: "v = PDatetime d" "dt_offset d = Some 0" "dt_micro d = 0" by (cases v) auto
  then have "d = \<lparr>dt_secs = dt_secs d, dt_micro = 0, dt_offset = Some 0\<rparr>"
    by (intro pydatetime.equality) simp_all
  with v show "\<exists>t. v = utc t" unfolding utc_def by blast
qed auto

definition format_utc :: "int \<Rightarrow> string" where
  "format_utc t =
     (let day = nat (t div 86400); s = nat (t mod 86400); (y, m, d) = civil_of_days day
      in zero_pad 4 (dec_nat y) @ ''-'' @ zero_pad 2 (dec_nat m) @ ''-'' @ zero_pad 2 (dec_nat d) @ ''T'' @
         zero_pad 2 (dec_nat (s div 3600)) @ '':'' @ zero_pad 2 (dec_nat (s div 60 mod 60)) @ '':'' @
         zero_pad 2 (dec_nat (s mod 60)) @ ''Z'')"

definition utc_classes :: "(char \<Rightarrow> bool) list" where
  \<comment> \<open>\<^verbatim>\<open>\d{4}-\d{2}-\d{2}T\d{2}:\d{2}:\d{2}Z\<close>\<close>
  "utc_classes =
     replicate 4 digit_char @ [is_char (CHR ''-'')] @ replicate 2 digit_char @ [is_char (CHR ''-'')] @
     replicate 2 digit_char @ [is_char (CHR ''T'')] @ replicate 2 digit_char @ [is_char (CHR '':'')] @
     replicate 2 digit_char @ [is_char (CHR '':'')] @ replicate 2 digit_char @ [is_char (CHR ''Z'')]"

definition parse_utc_string :: "string \<Rightarrow> int option" where
  "parse_utc_string s =
     (if \<not> match_classes utc_classes s then None
      else let y = dec_val (take 4 s); m = dec_val (take 2 (drop 5 s)); d = dec_val (take 2 (drop 8 s));
               hh = dec_val (take 2 (drop 11 s)); mm = dec_val (take 2 (drop 14 s)); ss = dec_val (take 2 (drop 17 s))
      in if 1 \<le> y \<and> 1 \<le> m \<and> m \<le> 12 \<and> 1 \<le> d \<and> d \<le> month_lengths y ! (m - 1) \<and> hh \<le> 23 \<and> mm \<le> 59 \<and> ss \<le> 59
         then Some (int (days_of_civil y m d * 86400 + hh * 3600 + mm * 60 + ss)) else None)"

definition parse_utc :: "pyval \<Rightarrow> int option" where
  "parse_utc v = (case v of PStr s \<Rightarrow> parse_utc_string s | _ \<Rightarrow> None)"

lemma match_digits_pad:
  "length s = k \<Longrightarrow> list_all digit_char s \<Longrightarrow>
   match_classes (replicate k digit_char @ qs) (s @ t) \<longleftrightarrow> match_classes qs t"
  by (simp add: match_classes_append) (simp add: match_classes_def list_all2_conv_all_nth list_all_length)

lemma pad_dec_nat:
  "n < 10 ^ k \<Longrightarrow> 0 < k \<Longrightarrow> length (zero_pad k (dec_nat n)) = k"
  "list_all digit_char (zero_pad k (dec_nat n))"
  by (simp_all add: length_zero_pad length_dec_nat_le zero_pad_digits dec_nat_digits)

lemma parse_fields:
  assumes "y < 10000" "m < 100" "d < 100" "hh < 100" "mm < 100" "ss < 100"
    and valid: "1 \<le> y" "1 \<le> m" "m \<le> 12" "1 \<le> d" "d \<le> month_lengths y ! (m - 1)" "hh \<le> 23" "mm \<le> 59" "ss \<le> 59"
  shows "parse_utc_string
           (zero_pad 4 (dec_nat y) @ ''-'' @ zero_pad 2 (dec_nat m) @ ''-'' @ zero_pad 2 (dec_nat d) @ ''T'' @
            zero_pad 2 (dec_nat hh) @ '':'' @ zero_pad 2 (dec_nat mm) @ '':'' @ zero_pad 2 (dec_nat ss) @ ''Z'')
         = Some (int (days_of_civil y m d * 86400 + hh * 3600 + mm * 60 + ss))"
proof -
  have len: "length (zero_pad 4 (dec_nat y)) = 4" "length (zero_pad 2 (dec_nat m)) = 2"
    "length (zero_pad 2 (dec_nat d)) = 2" "length (zero_pad 2 (dec_nat hh)) = 2"
    "length (zero_pad 2 (dec_nat mm)) = 2" "length (zero_pad 2 (dec_nat ss)) = 2"
    using assms(1-6) by (simp_all add: pad_dec_nat)
  show ?thesis
    using valid len
    by (simp add: parse_utc_string_def utc_classes_def match_digits_pad pad_dec_nat(2) is_char_def
        del: replicate.simps)
qed

lemma civil_field_bounds:
  assumes "civil_of_days n = (y, m, d)" "n < 3652059"
  shows "y < 10000" "m < 100" "d < 100"
proof -
  show "y < 10000" using civil_year_bound [OF assms(2,1)] by simp
  show "m < 100" using civil_of_days_parts(4) [OF assms(1)] by simp
  have "month_lengths y ! (m - 1) \<le> 31"
    using civil_of_days_parts(3,4) [OF assms(1)]
    by (auto simp: month_lengths_def less_Suc_eq nth_Cons' numeral_eq_Suc)
  then show "d < 100" using civil_of_days_parts(6) [OF assms(1)] by simp
qed

lemma time_of_day: "s div 3600 * 3600 + s div 60 mod 60 * 60 + s mod 60 = (s :: nat)"
proof -
  have "s div 60 div 60 = s div 3600" by (simp add: div_mult2_eq [symmetric])
  moreover have "s div 60 = s div 60 div 60 * 60 + s div 60 mod 60" by (rule div_mult_mod_eq [symmetric])
  moreover have "s = s div 60 * 60 + s mod 60" by (rule div_mult_mod_eq [symmetric])
  ultimately show ?thesis by linarith
qed

theorem parse_format_utc [simp]:
  assumes "0 \<le> t" "t < max_secs"
  shows "parse_utc_string (format_utc t) = Some t"
proof -
  define n s where "n = nat (t div 86400)" and "s = nat (t mod 86400)"
  obtain y m d where c: "civil_of_days n = (y, m, d)" by (cases "civil_of_days n") auto
  have s: "s < 86400" and t: "t = int (n * 86400 + s)"
    using assms(1) by (simp_all add: n_def s_def pos_imp_zdiv_nonneg_iff)
  have n: "n < 3652059" using assms(2) t by (simp add: max_secs_def)
  note p = civil_of_days_parts [OF c] and b = civil_field_bounds [OF c n]
  have "s div 3600 * 3600 + s div 60 mod 60 * 60 + s mod 60 = s"
    by (rule time_of_day)
  moreover have "parse_utc_string (format_utc t) =
      Some (int (days_of_civil y m d * 86400 + s div 3600 * 3600 + s div 60 mod 60 * 60 + s mod 60))"
    unfolding format_utc_def Let_def n_def [symmetric] s_def [symmetric] c prod.case
    by (rule parse_fields) (use p b s in auto)
  ultimately show ?thesis using p(1) t by (metis add.assoc)
qed

lemma format_utc_inj:
  "0 \<le> t \<Longrightarrow> t < max_secs \<Longrightarrow> 0 \<le> u \<Longrightarrow> u < max_secs \<Longrightarrow> format_utc t = format_utc u \<longleftrightarrow> t = u"
  by (metis option.inject parse_format_utc)

section \<open>The range of \<^verbatim>\<open>datetime\<close>\<close>

definition datetime_in_range :: "pyval \<Rightarrow> bool" where
  \<comment> \<open>every \<^verbatim>\<open>datetime\<close> lies in years 1 to 9999\<close>
  "datetime_in_range v \<longleftrightarrow> (case v of PDatetime d \<Rightarrow> 0 \<le> dt_secs d \<and> dt_secs d < max_secs | _ \<Rightarrow> True)"

lemma datetime_in_range_utc [simp]: "datetime_in_range (utc t) \<longleftrightarrow> 0 \<le> t \<and> t < max_secs"
  by (simp add: datetime_in_range_def utc_def)

lemma days_before_year_bound:
  assumes "y \<le> 9999"
  shows "days_before_year y \<le> 3651694" "y \<noteq> 9999 \<Longrightarrow> days_before_year y \<le> 3651329"
proof -
  define n q r where "n = y - 1" and "q = n div 100" and "r = n mod 100"
  have n: "n = 100 * q + r" "r < 100" by (simp_all add: q_def r_def)
  have d: "n div 4 = 25 * q + r div 4" using n(1) by simp
  have e: "n div 400 = q div 4" by (simp add: q_def div_mult2_eq [symmetric])
  have y: "days_before_year y = 36524 * q + 365 * r + r div 4 + q div 4"
    unfolding days_before_year_def n_def [symmetric] d e q_def [symmetric] using n(1) by simp
  have "n \<le> 9998" using assms by (simp add: n_def)
  with n have "q \<le> 99" "q = 99 \<Longrightarrow> r \<le> 98" by auto
  then show "days_before_year y \<le> 3651694" unfolding y using n(2) by (cases "q = 99") auto
  assume "y \<noteq> 9999"
  with assms have "n \<le> 9997" by (simp add: n_def)
  with n have "q \<le> 99" "q = 99 \<Longrightarrow> r \<le> 97" by auto
  then show "days_before_year y \<le> 3651329" unfolding y using n(2) by (cases "q = 99") auto
qed

lemma days_of_civil_bound:
  assumes "y \<le> 9999" "1 \<le> m" "m \<le> 12" "1 \<le> d" "d \<le> month_lengths y ! (m - 1)"
  shows "days_of_civil y m d < 3652059"
proof -
  have "m - 1 < length (month_lengths y)" using assms(2,3) by (simp add: month_lengths_def)
  then have "sum_list (take (m - 1) (month_lengths y)) + month_lengths y ! (m - 1) + sum_list (drop (Suc (m - 1)) (month_lengths y))
      = sum_list (month_lengths y)"
    by (metis (no_types, lifting) add.assoc append_take_drop_id Cons_nth_drop_Suc sum_list.Cons sum_list.append)
  then have "sum_list (take (m - 1) (month_lengths y)) + d \<le> sum_list (month_lengths y)"
    using assms(5) by linarith
  moreover have "sum_list (month_lengths y) = 365 \<or> y \<noteq> 9999 \<and> sum_list (month_lengths y) = 366"
    by (auto simp: sum_month_lengths is_leap_def)
  ultimately show ?thesis
    using days_before_year_bound [OF assms(1)] assms(4) unfolding days_of_civil_def by auto
qed

lemma dec_val_bound: "list_all digit_char s \<Longrightarrow> dec_val s < 10 ^ length s"
proof (induction s rule: rev_induct)
  case (snoc c s)
  then have "digit_val c < 10" by (simp add: digit_val_less)
  with snoc show ?case by (simp add: dec_val_append)
qed (simp add: dec_val_def)

lemma parse_utc_string_range:
  assumes "parse_utc_string s = Some t"
  shows "0 \<le> t \<and> t < max_secs"
proof -
  have m: "match_classes utc_classes s" using assms by (auto simp: parse_utc_string_def split: if_splits)
  have "match_classes (replicate 4 digit_char) (take 4 s)"
    using m list_all2_takeI [of "\<lambda>p c. p c" utc_classes s 4] by (simp add: utc_classes_def match_classes_def)
  then have "list_all digit_char (take 4 s)" "length (take 4 s) = 4"
    by (auto simp: match_classes_def list_all2_conv_all_nth list_all_length)
  then have "dec_val (take 4 s) \<le> 9999" using dec_val_bound [of "take 4 s"] by simp
  moreover from assms obtain y mo d hh mm ss where
    "t = int (days_of_civil y mo d * 86400 + hh * 3600 + mm * 60 + ss)" "y = dec_val (take 4 s)"
    "1 \<le> mo" "mo \<le> 12" "1 \<le> d" "d \<le> month_lengths y ! (mo - 1)" "hh \<le> 23" "mm \<le> 59" "ss \<le> 59"
    unfolding parse_utc_string_def Let_def by (auto split: if_splits)
  ultimately show ?thesis
    using days_of_civil_bound [of y mo d] by (simp add: max_secs_def)
qed

lemma parse_utc_range: "parse_utc v = Some t \<Longrightarrow> datetime_in_range (utc t)"
  by (cases v) (auto simp: parse_utc_def dest: parse_utc_string_range)

lemma length_parse_utc: "parse_utc_string s = Some t \<Longrightarrow> length s = 20"
  by (auto simp: parse_utc_string_def utc_classes_def dest!: match_classes_length split: if_splits)

lemma length_format_utc: "0 \<le> t \<Longrightarrow> t < max_secs \<Longrightarrow> length (format_utc t) = 20"
  by (rule length_parse_utc [OF parse_format_utc])

end
