(* ===== verification/Digest.thy ===== *)
theory Digest
  imports PyVal "HOL-Library.Word"
begin

unbundle bit_operations_syntax

text \<open>
  The digests of \<^verbatim>\<open>hashlib\<close> and \<^verbatim>\<open>uuid\<close> the retention records are named
  by: SHA-256 and SHA-1 over byte strings on 32-bit words, and the name-based identifiers of
  \<^verbatim>\<open>uuid.uuid5\<close>.  The lemmas give the shape the record and key patterns test for: a
  SHA-256 digest is 64 lower-case hexadecimal characters and a version-5 identifier matches the
  UUID template of the audit keys.
\<close>

type_synonym u32 = "32 word"

section \<open>Bytes, words and hexadecimal text\<close>

definition bytes_of :: "string \<Rightarrow> int list" where
  "bytes_of s = map of_char s"

fun words_be :: "int list \<Rightarrow> u32 list" where
  "words_be (a # b # c # d # r) =
     word_of_int (((a * 256 + b) * 256 + c) * 256 + d) # words_be r"
| "words_be _ = []"

definition pad_message :: "int list \<Rightarrow> int list" where
  \<comment> \<open>a one bit, zeros up to 56 bytes modulo 64, the bit length on 8 bytes\<close>
  "pad_message m =
     (let n = length m; bits = int n * 8; z = (119 - n mod 64) mod 64
      in m @ [128] @ replicate z 0 @ map (\<lambda>i. bits div 256 ^ (7 - i) mod 256) [0..<8])"

fun chunks16 :: "nat \<Rightarrow> 'a list \<Rightarrow> 'a list list" where
  "chunks16 0 ws = []"
| "chunks16 (Suc n) ws = (if ws = [] then [] else take 16 ws # chunks16 n (drop 16 ws))"

definition hex_digit :: "int \<Rightarrow> char" where
  "hex_digit n = ''0123456789abcdef'' ! nat n"

definition hex_word :: "u32 \<Rightarrow> string" where
  "hex_word w = map (\<lambda>i. hex_digit (uint w div 16 ^ (7 - i) mod 16)) [0..<8]"

lemma hex_digit_hex: "0 \<le> n \<Longrightarrow> n < 16 \<Longrightarrow> hex_char (hex_digit n)"
proof -
  assume n: "0 \<le> n" "n < 16"
  have "list_all hex_char ''0123456789abcdef''"
    by (simp add: hex_char_def digit_char_def less_eq_char_def)
  then show ?thesis
    unfolding hex_digit_def list_all_length by (rule allE [where x = "nat n"]) (use n in simp)
qed

lemma hex_word_length [simp]: "length (hex_word w) = 8"
  by (simp add: hex_word_def)

lemma hex_word_hex [simp]: "list_all hex_char (hex_word w)"
  by (auto simp: hex_word_def list_all_iff intro: hex_digit_hex)

section \<open>SHA-256\<close>

definition sha256_k :: "u32 list" where
  "sha256_k =
    [1116352408, 1899447441, 3049323471, 3921009573, 961987163, 1508970993, 2453635748, 2870763221,
     3624381080, 310598401, 607225278, 1426881987, 1925078388, 2162078206, 2614888103, 3248222580,
     3835390401, 4022224774, 264347078, 604807628, 770255983, 1249150122, 1555081692, 1996064986,
     2554220882, 2821834349, 2952996808, 3210313671, 3336571891, 3584528711, 113926993, 338241895,
     666307205, 773529912, 1294757372, 1396182291, 1695183700, 1986661051, 2177026350, 2456956037,
     2730485921, 2820302411, 3259730800, 3345764771, 3516065817, 3600352804, 4094571909, 275423344,
     430227734, 506948616, 659060556, 883997877, 958139571, 1322822218, 1537002063, 1747873779,
     1955562222, 2024104815, 2227730452, 2361852424, 2428436474, 2756734187, 3204031479, 3329325298]"

fun sha256_extend :: "nat \<Rightarrow> u32 list \<Rightarrow> u32 list" where
  \<comment> \<open>the message schedule, newest word first\<close>
  "sha256_extend 0 rs = rs"
| "sha256_extend (Suc n) rs =
     (let x = rs ! 14; y = rs ! 1;
          s0 = word_rotr 7 x XOR word_rotr 18 x XOR drop_bit 3 x;
          s1 = word_rotr 17 y XOR word_rotr 19 y XOR drop_bit 10 y
      in sha256_extend n ((rs ! 15 + s0 + rs ! 6 + s1) # rs))"

type_synonym sha_state = "u32 \<times> u32 \<times> u32 \<times> u32 \<times> u32 \<times> u32 \<times> u32 \<times> u32"

fun sha256_round :: "sha_state \<Rightarrow> u32 \<times> u32 \<Rightarrow> sha_state" where
  "sha256_round (a, b, c, d, e, f, g, h) (k, w) =
     (let s1 = word_rotr 6 e XOR word_rotr 11 e XOR word_rotr 25 e;
          ch = (e AND f) XOR (NOT e AND g);
          t1 = h + s1 + ch + k + w;
          s0 = word_rotr 2 a XOR word_rotr 13 a XOR word_rotr 22 a;
          maj = (a AND b) XOR (a AND c) XOR (b AND c)
      in (t1 + (s0 + maj), a, b, c, d + t1, e, f, g))"

fun sha256_block :: "sha_state \<Rightarrow> u32 list \<Rightarrow> sha_state" where
  "sha256_block (a, b, c, d, e, f, g, h) ws =
     (case foldl sha256_round (a, b, c, d, e, f, g, h) (zip sha256_k (rev (sha256_extend 48 (rev ws)))) of
        (a', b', c', d', e', f', g', h') \<Rightarrow>
          (a + a', b + b', c + c', d + d', e + e', f + f', g + g', h + h'))"

definition sha256_hex :: "sha_state \<Rightarrow> string" where
  "sha256_hex s = (case s of (a, b, c, d, e, f, g, h) \<Rightarrow>
     hex_word a @ hex_word b @ hex_word c @ hex_word d @ hex_word e @ hex_word f @ hex_word g @ hex_word h)"

definition sha256 :: "string \<Rightarrow> string" where
  \<comment> \<open>\<^verbatim>\<open>hashlib.sha256(body).hexdigest()\<close>\<close>
  "sha256 body =
     (let m = pad_message (bytes_of body); ws = words_be m
      in sha256_hex (foldl sha256_block
           (0x6a09e667, 0xbb67ae85, 0x3c6ef372, 0xa54ff53a, 0x510e527f, 0x9b05688c, 0x1f83d9ab, 0x5be0cd19)
           (chunks16 (length ws) ws)))"

lemma sha256_length [simp]: "length (sha256 body) = 64"
  by (simp add: sha256_def Let_def sha256_hex_def split: prod.split)

lemma sha256_hex_chars [simp]: "list_all hex_char (sha256 body)"
  by (simp add: sha256_def Let_def sha256_hex_def split: prod.split)

section \<open>SHA-1 and name-based identifiers\<close>

fun sha1_extend :: "nat \<Rightarrow> u32 list \<Rightarrow> u32 list" where
  "sha1_extend 0 rs = rs"
| "sha1_extend (Suc n) rs =
     sha1_extend n (word_rotl 1 (rs ! 2 XOR rs ! 7 XOR rs ! 13 XOR rs ! 15) # rs)"

type_synonym sha1_state = "u32 \<times> u32 \<times> u32 \<times> u32 \<times> u32"

fun sha1_round :: "sha1_state \<Rightarrow> nat \<times> u32 \<Rightarrow> sha1_state" where
  "sha1_round (a, b, c, d, e) (i, w) =
     (let (f, k) = (if i < 20 then ((b AND c) OR (NOT b AND d), 0x5A827999)
                    else if i < 40 then (b XOR c XOR d, 0x6ED9EBA1)
                    else if i < 60 then ((b AND c) OR (b AND d) OR (c AND d), 0x8F1BBCDC)
                    else (b XOR c XOR d, 0xCA62C1D6))
      in (word_rotl 5 a + f + e + k + w, a, word_rotl 30 b, c, d))"

fun sha1_block :: "sha1_state \<Rightarrow> u32 list \<Rightarrow> sha1_state" where
  "sha1_block (a, b, c, d, e) ws =
     (case foldl sha1_round (a, b, c, d, e) (zip [0..<80] (rev (sha1_extend 64 (rev ws)))) of
        (a', b', c', d', e') \<Rightarrow> (a + a', b + b', c + c', d + d', e + e'))"

definition sha1_words :: "int list \<Rightarrow> sha1_state" where
  "sha1_words msg =
     (let ws = words_be (pad_message msg)
      in foldl sha1_block (0x67452301, 0xEFCDAB89, 0x98BADCFE, 0x10325476, 0xC3D2E1F0) (chunks16 (length ws) ws))"

definition hex_value :: "char \<Rightarrow> int" where
  "hex_value c = (if digit_char c then of_char c - 48 else of_char c - 87)"

fun hex_bytes :: "string \<Rightarrow> int list" where
  "hex_bytes (a # b # r) = (hex_value a * 16 + hex_value b) # hex_bytes r"
| "hex_bytes _ = []"

definition uuid_bytes :: "string \<Rightarrow> int list" where
  \<comment> \<open>\<^verbatim>\<open>uuid.UUID(text).bytes\<close>\<close>
  "uuid_bytes s = hex_bytes (filter (\<lambda>c. c \<noteq> CHR ''-'') s)"

definition uuid_text :: "string \<Rightarrow> string" where
  \<comment> \<open>32 hexadecimal digits with version and variant set, in the 8-4-4-4-12 form\<close>
  "uuid_text h =
     take 8 h @ ''-'' @ take 4 (drop 8 h) @ ''-5'' @ take 3 (drop 13 h) @ ''-'' @
     [hex_digit (8 + hex_value (h ! 16) mod 4)] @ take 3 (drop 17 h) @ ''-'' @ take 12 (drop 20 h)"

definition uuid5 :: "string \<Rightarrow> string \<Rightarrow> string" where
  \<comment> \<open>\<^verbatim>\<open>str(uuid.uuid5(uuid.UUID(namespace), name))\<close> for an ASCII name\<close>
  "uuid5 namespace name =
     (case sha1_words (uuid_bytes namespace @ bytes_of name) of (a, b, c, d, e) \<Rightarrow>
        uuid_text (hex_word a @ hex_word b @ hex_word c @ hex_word d))"

definition uuid_classes :: "(char \<Rightarrow> bool) \<Rightarrow> (char \<Rightarrow> bool) list" where
  \<comment> \<open>\<^verbatim>\<open>[0-9a-f]{8}-[0-9a-f]{4}-V[0-9a-f]{3}-[89ab][0-9a-f]{3}-[0-9a-f]{12}\<close>
     with the version class \<open>V\<close>\<close>
  "uuid_classes v =
     replicate 8 hex_char @ [is_char (CHR ''-'')] @ replicate 4 hex_char @ [is_char (CHR ''-''), v] @
     replicate 3 hex_char @ [is_char (CHR ''-''), \<lambda>c. c \<in> set ''89ab''] @ replicate 3 hex_char @
     [is_char (CHR ''-'')] @ replicate 12 hex_char"

definition uuid_pattern :: "string \<Rightarrow> bool" where
  \<comment> \<open>the \<^verbatim>\<open>_UUID\<close> pattern of leases, operations and the service: versions 1 to 5\<close>
  "uuid_pattern s = match_classes (uuid_classes (\<lambda>c. CHR ''1'' \<le> c \<and> c \<le> CHR ''5'')) s"

lemma match_hex_run:
  "length s = k \<Longrightarrow> list_all hex_char s \<Longrightarrow>
   match_classes (replicate k hex_char @ qs) (s @ t) \<longleftrightarrow> match_classes qs t"
  by (simp add: match_classes_append) (simp add: match_classes_def list_all2_conv_all_nth list_all_length)

lemma list_all_take_drop:
  "list_all P xs \<Longrightarrow> list_all P (take n xs)" "list_all P xs \<Longrightarrow> list_all P (drop n xs)"
  by (auto simp: list_all_iff dest: in_set_takeD in_set_dropD)

lemma variant_digit: "hex_digit (8 + x mod 4) \<in> set ''89ab''"
proof -
  have "x mod 4 \<in> {0, 1, 2, 3}" by auto
  then show ?thesis by (auto simp: hex_digit_def)
qed

lemma uuid_text_shape:
  assumes "length h = 32" "list_all hex_char h"
  shows "match_classes (uuid_classes (is_char (CHR ''5''))) (uuid_text h)"
proof -
  have hx: "list_all hex_char (take n (drop m h))" "list_all hex_char (take n h)" for n m
    using assms(2) by (simp_all add: list_all_take_drop)
  have "match_classes (replicate 12 hex_char @ []) (take 12 (drop 20 h) @ [])"
    using assms by (subst match_hex_run) (auto simp: list_all_take_drop)
  with variant_digit [of "hex_value (h ! 16)"] show ?thesis
    unfolding uuid_classes_def uuid_text_def
    using assms(1) hx by (simp add: match_hex_run is_char_def del: replicate.simps)
qed

lemma uuid5_shape: "match_classes (uuid_classes (is_char (CHR ''5''))) (uuid5 namespace name)"
  unfolding uuid5_def by (auto split: prod.split intro: uuid_text_shape)

lemma uuid_classes_mono: "(\<And>c. v c \<Longrightarrow> w c) \<Longrightarrow> match_classes (uuid_classes v) s \<Longrightarrow> match_classes (uuid_classes w) s"
  by (erule match_classes_mono)
     (auto simp: uuid_classes_def list_all2_conv_all_nth nth_append nth_Cons' simp del: replicate.simps)

lemma uuid5_pattern [simp]: "uuid_pattern (uuid5 namespace name)"
  unfolding uuid_pattern_def
  by (rule uuid_classes_mono [OF _ uuid5_shape]) (auto simp: is_char_def less_eq_char_def)

end
