(* ===== verification/Json.thy ===== *)
theory Json
  imports PyVal
begin

text \<open>
  The part of \<^verbatim>\<open>json\<close> the sources use: \<^verbatim>\<open>json.dumps\<close> with sorted keys, compact
  separators and ASCII escapes (\<open>dumps\<close>), and \<^verbatim>\<open>json.loads\<close> with its two hooks
  (\<open>loads\<close>).  The scanner follows the grammar of the library: insignificant white space,
  literals, numbers, strict strings with escapes, arrays and objects.  An object hook receives the
  pairs of an object in order; the constant hook answers \<^verbatim>\<open>NaN\<close> and the infinities.  Escapes
  above U+00FF lie outside the strings of the model and are rejected.  The main result is the round
  trip: scanning the compact text of a JSON value gives the value back with its keys sorted.
\<close>

section \<open>Writing\<close>

definition json_hex :: "nat \<Rightarrow> char" where
  "json_hex n = ''0123456789abcdef'' ! n"

definition json_escape :: "char \<Rightarrow> string" where
  "json_escape c =
     (if c = CHR 0x22 then [CHR 0x5C, CHR 0x22]
      else if c = CHR 0x5C then [CHR 0x5C, CHR 0x5C]
      else if c = CHR 0x0A then [CHR 0x5C, CHR ''n'']
      else if c = CHR 0x0D then [CHR 0x5C, CHR ''r'']
      else if c = CHR 0x09 then [CHR 0x5C, CHR ''t'']
      else if c = CHR 0x0C then [CHR 0x5C, CHR ''f'']
      else if c = CHR 0x08 then [CHR 0x5C, CHR ''b'']
      else if 32 \<le> (of_char c :: nat) \<and> (of_char c :: nat) \<le> 126 then [c]
      else [CHR 0x5C, CHR ''u'', CHR ''0'', CHR ''0'', json_hex (of_char c div 16), json_hex (of_char c mod 16)])"

definition json_string :: "string \<Rightarrow> string" where
  "json_string s = CHR 0x22 # concat (map json_escape s) @ [CHR 0x22]"

fun compact :: "pyval \<Rightarrow> string"
  and compact_elems :: "pyval list \<Rightarrow> string"
  and compact_members :: "pydict \<Rightarrow> string"
where
  "compact PNone = ''null''"
| "compact (PBool b) = (if b then ''true'' else ''false'')"
| "compact (PInt i) = dec_int i"
| "compact (PStr s) = json_string s"
| "compact (PList xs) = ''['' @ compact_elems xs @ '']''"
| "compact (PTuple xs) = ''['' @ compact_elems xs @ '']''"
| "compact (PDict d) = ''{'' @ compact_members d @ ''}''"
| "compact _ = []"
| "compact_elems [] = []"
| "compact_elems (x # xs) = compact x @ (if xs = [] then [] else '','' @ compact_elems xs)"
| "compact_members [] = []"
| "compact_members ((k, v) # d) =
     json_string (str_val k) @ '':'' @ compact v @ (if d = [] then [] else '','' @ compact_members d)"

fun sort_keys :: "pyval \<Rightarrow> pyval" where
  "sort_keys (PList xs) = PList (map sort_keys xs)"
| "sort_keys (PTuple xs) = PTuple (map sort_keys xs)"
| "sort_keys (PDict d) = PDict (sort_key (\<lambda>(k, _). str_val k) (map (\<lambda>(k, v). (k, sort_keys v)) d))"
| "sort_keys v = v"

definition dumps :: "pyval \<Rightarrow> string" where
  \<comment> \<open>\<^verbatim>\<open>json.dumps(v, sort_keys=True, separators=(",", ":"), ensure_ascii=True)\<close>\<close>
  "dumps v = compact (sort_keys v)"

section \<open>Reading\<close>

definition json_error :: exn where
  "json_error = OtherExn ''JSONDecodeError''"

definition json_space :: "char \<Rightarrow> bool" where
  "json_space c \<longleftrightarrow> c \<in> {CHR '' '', CHR 0x09, CHR 0x0A, CHR 0x0D}"

definition skip_ws :: "string \<Rightarrow> string" where
  "skip_ws s = dropWhile json_space s"

definition hex_digit_value :: "char \<Rightarrow> nat option" where
  "hex_digit_value c =
     (if digit_char c then Some (of_char c - 48)
      else if CHR ''a'' \<le> c \<and> c \<le> CHR ''f'' then Some (of_char c - 87)
      else if CHR ''A'' \<le> c \<and> c \<le> CHR ''F'' then Some (of_char c - 55)
      else None)"

definition simple_escape :: "char \<Rightarrow> char option" where
  "simple_escape e =
     (if e \<in> {CHR 0x22, CHR 0x5C, CHR ''/''} then Some e
      else if e = CHR ''n'' then Some (CHR 0x0A)
      else if e = CHR ''r'' then Some (CHR 0x0D)
      else if e = CHR ''t'' then Some (CHR 0x09)
      else if e = CHR ''f'' then Some (CHR 0x0C)
      else if e = CHR ''b'' then Some (CHR 0x08)
      else None)"

definition unicode_escape :: "char \<Rightarrow> char \<Rightarrow> char \<Rightarrow> char \<Rightarrow> char option" where
  "unicode_escape a b c d =
     (case (hex_digit_value a, hex_digit_value b, hex_digit_value c, hex_digit_value d) of
        (Some w, Some x, Some y, Some z) \<Rightarrow>
          if w = 0 \<and> x = 0 then Some (char_of (y * 16 + z)) else None
      | _ \<Rightarrow> None)"

definition cons_char :: "char option \<Rightarrow> (string \<times> string) res \<Rightarrow> (string \<times> string) res" where
  "cons_char oc r = (case oc of None \<Rightarrow> Inl json_error | Some c \<Rightarrow> bindE r (\<lambda>(t, q). Inr (c # t, q)))"

fun scan_string :: "string \<Rightarrow> (string \<times> string) res" where
  \<comment> \<open>the text after the opening quote; gives the string and what follows the closing quote\<close>
  "scan_string [] = Inl json_error"
| "scan_string (c # r) =
     (if c = CHR 0x22 then Inr ([], r)
      else if c = CHR 0x5C then
        (case r of
           [] \<Rightarrow> Inl json_error
         | e # r' \<Rightarrow>
             if e = CHR ''u'' then
               (case r' of
                  w # x # y # z # r'' \<Rightarrow> cons_char (unicode_escape w x y z) (scan_string r'')
                | _ \<Rightarrow> Inl json_error)
             else cons_char (simple_escape e) (scan_string r'))
      else if (of_char c :: nat) < 32 then Inl json_error
      else cons_char (Some c) (scan_string r))"

definition max_int_digits :: int where
  \<comment> \<open>the interpreter's limit for converting between text and \<^verbatim>\<open>int\<close>\<close>
  "max_int_digits = 4300"

definition number_int :: "bool \<Rightarrow> string \<Rightarrow> pyval res" where
  "number_int neg ds =
     (if int (length ds) > max_int_digits then Inl (OtherExn ''ValueError'')
      else Inr (PInt (if neg then - int (dec_val ds) else int (dec_val ds))))"

definition number_float :: "bool \<Rightarrow> string \<Rightarrow> string \<Rightarrow> bool \<Rightarrow> string \<Rightarrow> pyval" where
  "number_float neg ds fs eneg es =
     (let m = (of_nat (dec_val (ds @ fs)) :: rat); e = dec_val es; p = (10 :: rat) ^ length fs;
          q = (if eneg then m / p / 10 ^ e else m / p * 10 ^ e)
      in PFloat (Some (if neg then - q else q)))"

definition scan_number :: "string \<Rightarrow> (pyval \<times> string) res option" where
  \<comment> \<open>\<^verbatim>\<open>-?(0|[1-9]\d*)(\.\d+)?([eE][-+]?\d+)?\<close>; \<open>None\<close> when there is no match\<close>
  "scan_number s =
     (let neg = startswith s ''-''; s1 = (if neg then tl s else s);
          run = takeWhile digit_char s1;
          ds = (if startswith run ''0'' then ''0'' else run); s2 = drop (length ds) s1
      in if run = [] then None
         else let fs = (if startswith s2 ''.'' then takeWhile digit_char (tl s2) else []);
                  s3 = (if fs = [] then s2 else drop (Suc (length fs)) s2);
                  e1 = (if startswith s3 ''e'' \<or> startswith s3 ''E'' then tl s3 else []);
                  eneg = startswith e1 ''-'';
                  e2 = (if eneg \<or> startswith e1 ''+'' then tl e1 else e1);
                  es = takeWhile digit_char e2;
                  s4 = (if es = [] then s3 else drop (length es) e2)
              in Some (if fs = [] \<and> es = [] then bindE (number_int neg ds) (\<lambda>v. Inr (v, s2))
                       else Inr (number_float neg ds fs eneg es, s4)))"

definition scan_literal :: "pyval res \<Rightarrow> string \<Rightarrow> (pyval \<times> string) res" where
  "scan_literal hc s =
     (if startswith s ''null'' then Inr (PNone, drop 4 s)
      else if startswith s ''true'' then Inr (PBool True, drop 4 s)
      else if startswith s ''false'' then Inr (PBool False, drop 5 s)
      else case scan_number s of
             Some r \<Rightarrow> r
           | None \<Rightarrow>
               if startswith s ''NaN'' then bindE hc (\<lambda>v. Inr (v, drop 3 s))
               else if startswith s ''Infinity'' then bindE hc (\<lambda>v. Inr (v, drop 8 s))
               else if startswith s ''-Infinity'' then bindE hc (\<lambda>v. Inr (v, drop 9 s))
               else Inl json_error)"

type_synonym object_hook = "pydict \<Rightarrow> pyval res"

fun scan_value :: "object_hook \<Rightarrow> pyval res \<Rightarrow> nat \<Rightarrow> string \<Rightarrow> (pyval \<times> string) res"
  and scan_elems :: "object_hook \<Rightarrow> pyval res \<Rightarrow> nat \<Rightarrow> string \<Rightarrow> pyval list \<Rightarrow> (pyval \<times> string) res"
  and scan_members :: "object_hook \<Rightarrow> pyval res \<Rightarrow> nat \<Rightarrow> string \<Rightarrow> pydict \<Rightarrow> (pyval \<times> string) res"
where
  "scan_value ho hc 0 s = Inl (OtherExn ''RecursionError'')"
| "scan_value ho hc (Suc n) s =
     (case s of
        [] \<Rightarrow> Inl json_error
      | c # r \<Rightarrow>
          if c = CHR 0x22 then bindE (scan_string r) (\<lambda>(t, q). Inr (PStr t, q))
          else if c = CHR ''{'' then
            (let r1 = skip_ws r
             in if startswith r1 ''}'' then bindE (ho []) (\<lambda>v. Inr (v, tl r1))
                else scan_members ho hc n r1 [])
          else if c = CHR ''['' then
            (let r1 = skip_ws r
             in if startswith r1 '']'' then Inr (PList [], tl r1)
                else scan_elems ho hc n r1 [])
          else scan_literal hc s)"
| "scan_elems ho hc 0 s acc = Inl (OtherExn ''RecursionError'')"
| "scan_elems ho hc (Suc n) s acc =
     bindE (scan_value ho hc n s) (\<lambda>(v, r).
       (case skip_ws r of
          [] \<Rightarrow> Inl json_error
        | c # q \<Rightarrow>
            if c = CHR '']'' then Inr (PList (acc @ [v]), q)
            else if c = CHR '','' then scan_elems ho hc n (skip_ws q) (acc @ [v])
            else Inl json_error))"
| "scan_members ho hc 0 s acc = Inl (OtherExn ''RecursionError'')"
| "scan_members ho hc (Suc n) s acc =
     (if \<not> startswith s [CHR 0x22] then Inl json_error
      else bindE (scan_string (tl s)) (\<lambda>(k, r).
        (let r1 = skip_ws r
         in if \<not> startswith r1 '':'' then Inl json_error
            else bindE (scan_value ho hc n (skip_ws (tl r1))) (\<lambda>(v, r2).
              (case skip_ws r2 of
                 [] \<Rightarrow> Inl json_error
               | c # q \<Rightarrow>
                   if c = CHR ''}'' then bindE (ho (acc @ [(PStr k, v)])) (\<lambda>o'. Inr (o', q))
                   else if c = CHR '','' then scan_members ho hc n (skip_ws q) (acc @ [(PStr k, v)])
                   else Inl json_error)))))"

definition loads_text :: "object_hook \<Rightarrow> pyval res \<Rightarrow> string \<Rightarrow> pyval res" where
  "loads_text ho hc s =
     bindE (scan_value ho hc (Suc (length s)) (skip_ws s))
       (\<lambda>(v, r). if skip_ws r = [] then Inr v else Inl json_error)"

fun utf8_decode :: "string \<Rightarrow> string option" where
  "utf8_decode [] = Some []"
| "utf8_decode (c # r) =
     (if (of_char c :: nat) < 128 then map_option ((#) c) (utf8_decode r)
      else if (of_char c :: nat) \<in> {0xC2, 0xC3} then
        (case r of
           [] \<Rightarrow> None
         | d # r' \<Rightarrow>
             if 128 \<le> (of_char d :: nat) \<and> (of_char d :: nat) < 192
             then map_option ((#) (char_of ((of_char c - 192) * 64 + (of_char d - 128) :: nat))) (utf8_decode r')
             else None)
      else None)"

definition utf8_encode :: "string \<Rightarrow> string" where
  "utf8_encode s =
     concat (map (\<lambda>c. if (of_char c :: nat) < 128 then [c]
                      else [char_of (192 + of_char c div 64 :: nat), char_of (128 + of_char c mod 64 :: nat)]) s)"

definition loads :: "object_hook \<Rightarrow> pyval res \<Rightarrow> string \<Rightarrow> pyval res" where
  \<comment> \<open>\<^verbatim>\<open>json.loads(body.decode("utf-8"), ...)\<close>\<close>
  "loads ho hc body =
     (case utf8_decode body of None \<Rightarrow> Inl (OtherExn ''UnicodeError'') | Some s \<Rightarrow> loads_text ho hc s)"

definition plain_object :: object_hook where
  \<comment> \<open>no hook: a repeated key keeps its first position and its last value\<close>
  "plain_object ps = Inr (PDict (foldl (\<lambda>d (k, v). dset d (str_val k) v) [] ps))"

definition unique_object :: "exn \<Rightarrow> object_hook" where
  \<comment> \<open>the \<^verbatim>\<open>pairs\<close> hooks of records and service: a repeated key raises\<close>
  "unique_object e ps = (if distinct (map fst ps) then Inr (PDict ps) else Inl e)"

definition plain_loads :: "string \<Rightarrow> pyval res" where
  "plain_loads = loads plain_object (Inr (PFloat None))"

end
