(* ===== verification/JsonFacts.thy ===== *)
theory JsonFacts
  imports Json
begin

text \<open>
  Facts about the JSON writer and reader.  The locale \<open>json_reader\<close> states what an object hook
  promises (an object without repeated keys is kept as it is); inside it the scanner is shown to
  invert the compact writer.  Both hooks of the sources, the plain one and the one that refuses
  repeated keys, are instances.
\<close>

section \<open>Strings and numbers\<close>

lemma of_char_less_256: "(of_char c :: nat) < 256"
  by (metis mod_less_divisor of_char_mod_256 zero_less_numeral)

lemma hex_digit_value_json_hex [simp]: "n < 16 \<Longrightarrow> hex_digit_value (json_hex n) = Some n"
proof -
  assume "n < 16"
  then have "n \<in> set [0..<16]" by simp
  then show ?thesis
    by (simp add: json_hex_def upt_rec) (auto simp: hex_digit_value_def digit_char_def less_eq_char_def)
qed

lemma unicode_escape_byte: "unicode_escape (CHR ''0'') (CHR ''0'') (json_hex (of_char c div 16)) (json_hex (of_char c mod 16)) = Some c"
proof -
  have "of_char c div 16 < (16 :: nat)"
    using of_char_less_256 [of c] by (simp add: less_mult_imp_div_less)
  moreover have "hex_digit_value (CHR ''0'') = Some 0"
    by (simp add: hex_digit_value_def digit_char_def)
  ultimately show ?thesis by (simp add: unicode_escape_def)
qed

lemma scan_string_escape: "scan_string (json_escape c @ r) = cons_char (Some c) (scan_string r)"
  by (simp add: json_escape_def simple_escape_def unicode_escape_byte)

lemma scan_json_string: "scan_string (concat (map json_escape s) @ CHR 0x22 # r) = Inr (s, r)"
  by (induction s) (simp_all add: scan_string_escape cons_char_def)

definition stop_ok :: "string \<Rightarrow> bool" where
  "stop_ok r \<longleftrightarrow> r = [] \<or> hd r \<in> {CHR '','', CHR '']'', CHR ''}''}"

lemma stop_ok_simps [simp]:
  "stop_ok []" "stop_ok (CHR '','' # r)" "stop_ok (CHR '']'' # r)" "stop_ok (CHR ''}'' # r)"
  by (simp_all add: stop_ok_def)

lemma takeWhile_run:
  "list_all P xs \<Longrightarrow> r = [] \<or> \<not> P (hd r) \<Longrightarrow> takeWhile P (xs @ r) = xs"
  by (induction xs) (auto simp: takeWhile_eq_Nil_iff)

lemma stop_ok_not_digit: "stop_ok r \<Longrightarrow> r = [] \<or> \<not> digit_char (hd r)"
  by (auto simp: stop_ok_def digit_char_def less_eq_char_def)

lemma stop_ok_not_frac:
  "stop_ok r \<Longrightarrow> \<not> startswith r ''.''" "stop_ok r \<Longrightarrow> \<not> startswith r ''e''" "stop_ok r \<Longrightarrow> \<not> startswith r ''E''"
  by (cases r; auto simp: stop_ok_def)+

lemma dec_nat_leading_zero: "startswith (dec_nat n) ''0'' \<longleftrightarrow> n = 0"
  using dec_nat_zero_head [of n] dec_nat_nonempty [of n] by (cases "dec_nat n") auto

lemma dec_nat_zero [simp]: "dec_nat 0 = ''0''"
  by (simp add: dec_nat.simps digit_of_def char_of_eq_iff take_bit_eq_mod)

lemma dec_nat_not_minus: "\<not> startswith (dec_nat n @ r) ''-''"
  using dec_nat_digits [of n] dec_nat_nonempty [of n]
  by (cases "dec_nat n") (auto simp: digit_char_def less_eq_char_def)

definition int_ok :: "int \<Rightarrow> bool" where
  "int_ok i \<longleftrightarrow> int (length (dec_nat (nat \<bar>i\<bar>))) \<le> max_int_digits"

lemma scan_number_nat:
  assumes "stop_ok r" "int (length (dec_nat n)) \<le> max_int_digits"
  shows "scan_number (dec_nat n @ r) = Some (Inr (PInt (int n), r))"
    "scan_number (CHR ''-'' # dec_nat n @ r) = Some (Inr (PInt (- int n), r))"
proof -
  have run: "takeWhile digit_char (dec_nat n @ r) = dec_nat n"
    by (rule takeWhile_run [OF dec_nat_digits stop_ok_not_digit [OF assms(1)]])
  have ds: "(if startswith (dec_nat n) ''0'' then ''0'' else dec_nat n) = dec_nat n"
    by (cases "n = 0") (simp_all add: dec_nat_leading_zero)
  note stop = stop_ok_not_frac [OF assms(1)]
  show "scan_number (dec_nat n @ r) = Some (Inr (PInt (int n), r))"
    unfolding scan_number_def Let_def
    by (simp only: dec_nat_not_minus if_False run ds) (simp add: stop number_int_def assms(2) not_less)
  have m: "startswith (CHR ''-'' # dec_nat n @ r) ''-''" by simp
  show "scan_number (CHR ''-'' # dec_nat n @ r) = Some (Inr (PInt (- int n), r))"
    unfolding scan_number_def Let_def
    by (simp only: m if_True list.sel run ds) (simp add: stop number_int_def assms(2) not_less)
qed

lemma dec_int_head: "\<exists>c s. dec_int i = c # s \<and> (digit_char c \<or> c = CHR ''-'')"
  using dec_nat_digits [of "nat i"] dec_nat_nonempty [of "nat i"]
  by (cases "dec_nat (nat i)") (auto simp: dec_int_def)

lemma scan_literal_int:
  assumes "stop_ok r" "int_ok i"
  shows "scan_literal hc (dec_int i @ r) = Inr (PInt i, r)"
proof -
  obtain c s where d: "dec_int i = c # s" "digit_char c \<or> c = CHR ''-''" using dec_int_head by blast
  then have "\<not> startswith (dec_int i @ r) ''null''" "\<not> startswith (dec_int i @ r) ''true''"
    "\<not> startswith (dec_int i @ r) ''false''"
    by (auto simp: digit_char_def less_eq_char_def)
  moreover have "scan_number (dec_int i @ r) = Some (Inr (PInt i, r))"
    using assms scan_number_nat [OF assms(1)] by (auto simp: dec_int_def int_ok_def)
  ultimately show ?thesis by (simp add: scan_literal_def)
qed

section \<open>JSON values\<close>

fun json_ok :: "pyval \<Rightarrow> bool" where
  \<comment> \<open>the values whose text reads back: no floats, string keys without repetition\<close>
  "json_ok PNone = True"
| "json_ok (PBool b) = True"
| "json_ok (PInt i) = int_ok i"
| "json_ok (PStr s) = True"
| "json_ok (PList xs) = list_all json_ok xs"
| "json_ok (PDict d) = (distinct (map fst d) \<and> list_all (\<lambda>(k, v). is_str k \<and> json_ok v) d)"
| "json_ok _ = False"

lemma compact_head:
  assumes "json_ok v"
  obtains c s where "compact v = c # s" "\<not> json_space c" "c \<noteq> CHR '']''" "c \<noteq> CHR ''}''"
proof (cases v)
  case (PInt i)
  obtain c s where "dec_int i = c # s" "digit_char c \<or> c = CHR ''-''" using dec_int_head by blast
  moreover from this have "\<not> json_space c" "c \<noteq> CHR '']''" "c \<noteq> CHR ''}''"
    by (auto simp: digit_char_def less_eq_char_def json_space_def)
  ultimately show ?thesis using that PInt by simp
next
  case (PBool b)
  with that show ?thesis by (cases b) (auto simp: json_space_def)
qed (use assms that in \<open>auto simp: json_string_def json_space_def\<close>)

lemma skip_ws_compact [simp]: "json_ok v \<Longrightarrow> skip_ws (compact v @ r) = compact v @ r"
  by (erule compact_head [of v]) (simp add: skip_ws_def)

lemma skip_ws_nonspace [simp]: "\<not> json_space c \<Longrightarrow> skip_ws (c # r) = c # r"
  by (simp add: skip_ws_def)

lemma json_space_simps [simp]:
  "\<not> json_space (CHR '','')" "\<not> json_space (CHR '']'')" "\<not> json_space (CHR ''}'')"
  "\<not> json_space (CHR '':'')" "\<not> json_space (CHR 0x22)"
  by (simp_all add: json_space_def)

lemma compact_members_head: "d \<noteq> [] \<Longrightarrow> \<exists>s. compact_members d = CHR 0x22 # s"
  by (cases d) (auto simp: json_string_def)

locale json_reader =
  fixes ho :: object_hook and hc :: "pyval res"
  assumes keeps: "distinct (map fst d) \<Longrightarrow> list_all (\<lambda>(k, v). is_str k) d \<Longrightarrow> ho d = Inr (PDict d)"
begin

lemma scan_compact:
  shows "json_ok v \<Longrightarrow> stop_ok r \<Longrightarrow> length (compact v) \<le> n \<Longrightarrow> scan_value ho hc n (compact v @ r) = Inr (v, r)"
    and "list_all json_ok xs \<Longrightarrow> xs \<noteq> [] \<Longrightarrow> length (compact_elems xs) < n \<Longrightarrow>
         scan_elems ho hc n (compact_elems xs @ CHR '']'' # r) acc = Inr (PList (acc @ xs), r)"
    and "list_all (\<lambda>(k, v). is_str k \<and> json_ok v) d \<Longrightarrow> d \<noteq> [] \<Longrightarrow> length (compact_members d) < n \<Longrightarrow>
         distinct (map fst (acd @ d)) \<Longrightarrow> list_all (\<lambda>(k, v). is_str k) acd \<Longrightarrow>
         scan_members ho hc n (compact_members d @ CHR ''}'' # r) acd = Inr (PDict (acd @ d), r)"
proof (induction v and xs and d arbitrary: r n and r n acc and r n acd
    rule: compact_compact_elems_compact_members.induct)
  case 1
  then show ?case by (cases n) (simp_all add: scan_literal_def)
next
  case (2 b)
  then show ?case by (cases n) (simp_all add: scan_literal_def split: if_splits)
next
  case (3 i)
  obtain c s where d: "dec_int i = c # s" "digit_char c \<or> c = CHR ''-''" using dec_int_head by blast
  with 3 obtain m where m: "n = Suc m" by (cases n) auto
  have "scan_value ho hc n (compact (PInt i) @ r) = scan_literal hc (dec_int i @ r)"
    using d by (auto simp: m digit_char_def less_eq_char_def)
  then show ?case using 3 by (simp add: scan_literal_int)
next
  case (4 s)
  then show ?case by (cases n) (simp_all add: json_string_def scan_json_string)
next
  case (5 xs)
  then obtain m where m: "n = Suc m" by (cases n) auto
  show ?case
  proof (cases xs)
    case Nil
    then show ?thesis by (simp add: m)
  next
    case (Cons x ys)
    then have "json_ok x" using 5 by simp
    then obtain c s where "compact x = c # s" "\<not> json_space c" "c \<noteq> CHR '']''" by (rule compact_head)
    then have "skip_ws (compact_elems xs @ CHR '']'' # r) = compact_elems xs @ CHR '']'' # r"
      "\<not> startswith (compact_elems xs @ CHR '']'' # r) '']''"
      using Cons by simp_all
    moreover have "scan_elems ho hc m (compact_elems xs @ CHR '']'' # r) [] = Inr (PList ([] @ xs), r)"
      using 5 Cons by (intro "5.IH") (auto simp: m)
    ultimately show ?thesis by (simp add: m Let_def)
  qed
next
  case (6 xs)
  then show ?case by simp
next
  case (7 d)
  then obtain m where m: "n = Suc m" by (cases n) auto
  show ?case
  proof (cases "d = []")
    case True
    then show ?thesis by (simp add: m keeps)
  next
    case False
    then obtain s where "compact_members d = CHR 0x22 # s" using compact_members_head by blast
    then have "skip_ws (compact_members d @ CHR ''}'' # r) = compact_members d @ CHR ''}'' # r"
      "\<not> startswith (compact_members d @ CHR ''}'' # r) ''}''" by simp_all
    moreover have "scan_members ho hc m (compact_members d @ CHR ''}'' # r) [] = Inr (PDict ([] @ d), r)"
      using 7 False by (intro "7.IH") (auto simp: m)
    ultimately show ?thesis by (simp add: m Let_def)
  qed
next
  case (10 x xs)
  then obtain m where m: "n = Suc m" by (cases n) auto
  have x: "json_ok x" and len: "length (compact x) \<le> m" using 10 m by auto
  show ?case
  proof (cases "xs = []")
    case True
    with "10.IH"(1) [OF x _ len] show ?thesis by (simp add: m)
  next
    case False
    then obtain y ys where ys: "xs = y # ys" "json_ok y" using 10 by (cases xs) auto
    have "skip_ws (compact_elems xs @ CHR '']'' # r) = compact_elems xs @ CHR '']'' # r"
      using ys by simp
    moreover have "scan_elems ho hc m (compact_elems xs @ CHR '']'' # r) (acc @ [x]) = Inr (PList ((acc @ [x]) @ xs), r)"
      using 10 False m by (intro "10.IH"(2)) auto
    ultimately show ?thesis using "10.IH"(1) [OF x _ len] False by (simp add: m)
  qed
next
  case (12 k v d)
  then obtain m where m: "n = Suc m" by (cases n) auto
  obtain s where k: "k = PStr s" using 12 by (auto simp: is_str_iff)
  have v: "json_ok v" and len: "length (compact v) \<le> m" using 12 m by auto
  show ?case
  proof (cases "d = []")
    case True
    have "ho (acd @ [(k, v)]) = Inr (PDict (acd @ [(k, v)]))"
      using 12 True by (intro keeps) auto
    with "12.IH"(1) [OF v _ len] True show ?thesis
      by (simp add: m k json_string_def scan_json_string v)
  next
    case False
    then obtain t where "compact_members d = CHR 0x22 # t" using compact_members_head by blast
    then have "skip_ws (compact_members d @ CHR ''}'' # r) = compact_members d @ CHR ''}'' # r" by simp
    moreover have "scan_members ho hc m (compact_members d @ CHR ''}'' # r) (acd @ [(k, v)]) = Inr (PDict ((acd @ [(k, v)]) @ d), r)"
      using 12 False m by (intro "12.IH"(2)) auto
    ultimately show ?thesis using "12.IH"(1) [OF v _ len] False
      by (simp add: m k json_string_def scan_json_string v)
  qed
qed auto

lemma loads_text_compact: "json_ok v \<Longrightarrow> loads_text ho hc (compact v) = Inr v"
  using scan_compact(1) [of v "[]" "Suc (length (compact v))"] skip_ws_compact [of v "[]"]
  by (simp add: loads_text_def skip_ws_def)

end

interpretation plain_reader: json_reader plain_object "Inr (PFloat None)"
proof
  fix d :: pydict
  assume d: "distinct (map fst d)" "list_all (\<lambda>(k, v). is_str k) d"
  have app: "PStr k \<notin> set (dkeys e) \<Longrightarrow> dset e k v = e @ [(PStr k, v)]" for e k v
    by (induction e k v rule: dset.induct) auto
  have "foldl (\<lambda>d (k, v). dset d (str_val k) v) e d = e @ d"
    if "distinct (map fst (e @ d))" "list_all (\<lambda>(k, v). is_str k) d" for e d
    using that by (induction d arbitrary: e) (auto simp: is_str_iff app dkeys_def)
  from this [of "[]" d] d show "plain_object d = Inr (PDict d)" by (simp add: plain_object_def)
qed

interpretation unique_reader: json_reader "unique_object e" hc for e hc
  by unfold_locales (simp add: unique_object_def)

section \<open>Sorted keys\<close>

lemma sort_keys_ok: "json_ok v \<Longrightarrow> json_ok (sort_keys v)"
proof (induction v rule: sort_keys.induct)
  case (3 d)
  let ?m = "map (\<lambda>(k, v). (k, sort_keys v)) d"
  have "map fst ?m = map fst d" by (simp add: case_prod_unfold comp_def)
  then have "distinct (map fst ?m)" using "3.prems" by (simp only: json_ok.simps)
  then have "distinct (map fst (sort_key (\<lambda>(k, _). str_val k) ?m))"
    by (simp only: distinct_map distinct_sort set_sort)
  then show ?case using 3 by (auto simp: list_all_iff)
qed (auto simp: list_all_iff)

lemma sorted_keys_idem: "json_ok v \<Longrightarrow> sort_keys (sort_keys v) = sort_keys v"
proof (induction v rule: sort_keys.induct)
  case (3 d)
  let ?key = "\<lambda>(k, _ :: pyval). str_val k"
  let ?m = "sort_key ?key (map (\<lambda>(k, v). (k, sort_keys v)) d)"
  have "map (\<lambda>(k, v). (k, sort_keys v)) ?m = ?m"
    using 3 by (intro map_idI) (auto simp: list_all_iff)
  moreover have "sort_key ?key ?m = ?m" by (rule sort_key_id_if_sorted) simp
  ultimately show ?case by simp
qed (auto simp: list_all_iff)

lemma loads_dumps:
  "json_ok v \<Longrightarrow> json_reader ho \<Longrightarrow> loads_text ho hc (dumps v) = Inr (sort_keys v)"
  unfolding dumps_def by (rule json_reader.loads_text_compact) (simp_all add: sort_keys_ok)

section \<open>ASCII output\<close>

lemma digit_ascii: "digit_char c \<Longrightarrow> (of_char c :: nat) < 128"
  by (simp add: digit_char_of_char)

lemma json_hex_ascii: "n < 16 \<Longrightarrow> (of_char (json_hex n) :: nat) < 128"
proof -
  assume n: "n < 16"
  have "list_all (\<lambda>c. (of_char c :: nat) < 128) ''0123456789abcdef''" by simp
  then show ?thesis
    unfolding json_hex_def list_all_length by (rule allE [where x = n]) (use n in simp)
qed

lemma dec_nat_ascii [simp]: "isascii (dec_nat n)"
  using dec_nat_digits [of n] by (auto simp: isascii_def list_all_iff intro: digit_ascii)

lemma dec_int_ascii [simp]: "isascii (dec_int i)"
  by (simp add: dec_int_def)

lemma json_escape_ascii [simp]: "isascii (json_escape c)"
proof -
  have "of_char c div 16 < (16 :: nat)"
    using of_char_less_256 [of c] by (simp add: less_mult_imp_div_less)
  then show ?thesis by (auto simp: json_escape_def json_hex_ascii)
qed

lemma json_string_ascii [simp]: "isascii (json_string s)"
  by (induction s) (simp_all add: json_string_def)

lemma compact_ascii:
  shows "isascii (compact v)" and "isascii (compact_elems xs)" and "isascii (compact_members d)"
  by (induction v and xs and d rule: compact_compact_elems_compact_members.induct) simp_all

lemma dumps_ascii [simp]: "isascii (dumps v)"
  by (simp add: dumps_def compact_ascii)

lemma utf8_decode_ascii: "isascii s \<Longrightarrow> utf8_decode s = Some s"
  by (induction s rule: utf8_decode.induct) auto

lemma utf8_encode_ascii: "isascii s \<Longrightarrow> utf8_encode s = s"
  by (induction s) (simp_all add: utf8_encode_def)

lemma loads_dumps_body:
  "json_ok v \<Longrightarrow> json_reader ho \<Longrightarrow> loads ho hc (dumps v) = Inr (sort_keys v)"
  by (simp add: loads_def utf8_decode_ascii loads_dumps)

lemma plain_loads_dumps: "json_ok v \<Longrightarrow> plain_loads (dumps v) = Inr (sort_keys v)"
  unfolding plain_loads_def by (rule loads_dumps_body) (simp_all add: plain_reader.json_reader_axioms)

lemma dumps_inj: "json_ok v \<Longrightarrow> json_ok w \<Longrightarrow> dumps v = dumps w \<longleftrightarrow> sort_keys v = sort_keys w"
  by (metis dumps_def plain_loads_dumps sum.inject(2))

end
