(* ===== verification/Policy.thy ===== *)
theory Policy
  imports Clock Digest JsonFacts
begin

text \<open>
  \<^verbatim>\<open>scripts/checkpoints/policy.py\<close>: the checkpoint ownership registry and the pure retention
  evaluator.  The registry text is read by a YAML library that is not part of the repository: the
  argument \<open>yaml\<close> of \<open>parse_policy\<close> stands for it and gives the node tree of a document or
  the exception the library raises; the repository's own loader (node and depth limits, alias and
  duplicate-key refusal) is modelled on that tree.  Facts handed to the evaluator keep Python's
  dynamic types, since the evaluator tests them.  Refusal codes are collected in the order of the
  source; every helper gives the codes it appends.
\<close>

section \<open>Data\<close>

record lease_policy =
  heartbeat_seconds :: int
  ttl_seconds :: int
  future_tolerance_seconds :: int
  quiescence_seconds :: int

record operation_bounds =
  max_pages :: int
  max_objects :: int
  max_bytes :: int
  max_delete_keys :: int
  max_active_seconds :: int
  max_summary_bytes :: int
  max_manifest_shard_bytes :: int

record checkpoint_entry =
  checkpoint_id :: string
  entry_prefix :: string
  owner :: string
  workload :: string
  source :: string
  sink :: string
  lifecycle :: string
  durability :: string
  terminal_states :: "string list"
  retention_seconds :: int
  recovery_class :: string
  sink_disposition :: string
  concurrent_writers :: string
  retirement_authorization :: string
  retired_at :: pyval
  retirement_review :: pyval
  scales :: "string list"

record matched_checkpoint =
  matched_id :: string
  matched_prefix :: string
  generation :: pydict

record lease_facts =
  lf_checkpoint_id :: pyval
  lf_prefix :: pyval
  lf_state :: pyval
  lf_acquired_at :: pyval
  lf_heartbeat_at :: pyval
  lf_expires_at :: pyval
  lf_etag :: pyval
  lf_conflicting :: pyval
  lf_malformed :: pyval

record terminal_facts =
  tf_state :: pyval
  tf_occurred_at :: pyval
  tf_recovery_approved :: pyval
  tf_source_available :: pyval
  tf_sink_disposition_approved :: pyval
  tf_retirement_review :: pyval
  tf_generation :: pyval
  tf_exclusive_run :: pyval
  tf_successful :: pyval

record inventory_summary =
  object_count :: pyval
  total_bytes :: pyval
  newest_last_modified :: pyval
  inv_sha256 :: pyval
  changed_since_plan :: pyval
  partial_retry_confined :: pyval

record evaluation_input =
  ev_prefix :: pyval
  evaluated_at :: pyval
  ev_lease :: "lease_facts option"
  ev_terminal :: "terminal_facts option"
  ev_inventory :: inventory_summary

record retention_decision =
  eligible :: bool
  refusal_codes :: "string list"
  retention_anchor_at :: "int option"
  eligible_after :: "int option"
  dec_policy_sha256 :: string
  plan_json :: string
  plan_sha256 :: string

record checkpoint_policy =
  version :: int
  bucket :: string
  control_prefix :: string
  lease :: lease_policy
  bounds :: operation_bounds
  entries :: "(string \<times> checkpoint_entry) list"

section \<open>Patterns\<close>

definition lit :: "string \<Rightarrow> (char \<Rightarrow> bool) list" where
  "lit s = map is_char s"

definition generation_classes :: "string \<Rightarrow> (char \<Rightarrow> bool) list" where
  "generation_classes scale =
     lit ''gh_events_file/'' @ lit scale @ lit ''/'' @ hex_classes 32 @ lit ''/'' @ hex_classes 64 @ lit ''/''"

definition match_generation :: "string \<Rightarrow> (string \<times> pydict) option" where
  \<comment> \<open>\<^verbatim>\<open>_GENERATION_PATTERN.fullmatch\<close>: the scale and the named groups\<close>
  "match_generation s =
     (case find (\<lambda>sc. match_classes (generation_classes sc) s) [''tiny'', ''small'', ''medium''] of
        None \<Rightarrow> None
      | Some sc \<Rightarrow>
          let b = length ''gh_events_file/'' + length sc + 1
          in Some (sc, sdict [(''scale'', PStr sc),
                              (''publication_id'', PStr (take 32 (drop b s))),
                              (''manifest_sha256'', PStr (take 64 (drop (b + 33) s)))]))"

definition scratch_classes :: "(char \<Rightarrow> bool) list" where
  "scratch_classes =
     lit ''streaming_test/'' @ hex_classes 8 @ lit ''-'' @ hex_classes 4 @ lit ''-'' @ hex_classes 4 @ lit ''-'' @
     hex_classes 4 @ lit ''-'' @ hex_classes 12 @ lit ''/''"

definition match_scratch :: "string \<Rightarrow> pydict option" where
  \<comment> \<open>\<^verbatim>\<open>_SCRATCH_PATTERN.fullmatch\<close>\<close>
  "match_scratch s =
     (if match_classes scratch_classes s then Some (sdict [(''run_uuid'', PStr (take 36 (drop 15 s)))]) else None)"

definition safe_fixed_prefix :: "string \<Rightarrow> bool" where
  \<comment> \<open>\<^verbatim>\<open>(?:[a-z0-9][a-z0-9_-]*/)+\<close>\<close>
  "safe_fixed_prefix s =
     (let parts = split_char (CHR ''/'') s
      in 2 \<le> length parts \<and> last parts = [] \<and>
         list_all (\<lambda>w. w \<noteq> [] \<and> (lower_char (hd w) \<or> digit_char (hd w)) \<and>
                       list_all (\<lambda>c. lower_char c \<or> digit_char c \<or> c \<in> set ''_-'') (tl w)) (butlast parts))"

definition safe_review :: "string \<Rightarrow> bool" where
  \<comment> \<open>\<^verbatim>\<open>[A-Za-z0-9][A-Za-z0-9._/-]{0,127}\<close>\<close>
  "safe_review s \<longleftrightarrow> s \<noteq> [] \<and> alnum_char (hd s) \<and> list_all (\<lambda>c. alnum_char c \<or> c \<in> set ''._/-'') (tl s) \<and> length s \<le> 128"

definition sha256_pattern :: "string \<Rightarrow> bool" where
  "sha256_pattern s \<longleftrightarrow> match_classes (hex_classes 64) s"

definition generation_template :: string where
  "generation_template = ''gh_events_file/{scale}/{publication_id}/{manifest_sha256}/''"

definition scratch_template :: string where
  "scratch_template = ''streaming_test/{run_uuid}/''"

section \<open>Prefixes\<close>

definition validate_concrete_prefix :: "pyval \<Rightarrow> string \<Rightarrow> unit res" where
  "validate_concrete_prefix v control =
     (case v of
        PStr p \<Rightarrow>
          if p = [] \<or> \<not> endswith p ''/'' \<or> startswith p ''/'' \<or> startswith p control \<or>
             contains_sub ''://'' p \<or> contains_sub [CHR 0x5C] p \<or> contains_sub ''//'' p \<or>
             list_ex (\<lambda>part. part \<in> {[], ''.'', ''..''}) (split_char (CHR ''/'') (butlast p)) \<or> \<not> isascii p
          then Inl (PolicyError (if startswith p control then ''control_prefix'' else ''unsafe_prefix''))
          else Inr ()
      | _ \<Rightarrow> Inl (PolicyError ''unsafe_prefix''))"

definition validate_registry_prefix :: "pyval \<Rightarrow> string \<Rightarrow> unit res" where
  "validate_registry_prefix v control =
     (case v of
        PStr p \<Rightarrow>
          if p \<in> {generation_template, scratch_template} then Inr ()
          else bindE (validate_concrete_prefix v control) (\<lambda>_.
                 guardE (\<not> safe_fixed_prefix p) (PolicyError ''unsafe_prefix''))
      | _ \<Rightarrow> Inl (PolicyError ''invalid_type''))"

fun match_entries :: "(string \<times> checkpoint_entry) list \<Rightarrow> string \<Rightarrow> matched_checkpoint res" where
  \<comment> \<open>the loop of \<^verbatim>\<open>match_prefix\<close> over the registry entries\<close>
  "match_entries [] p = Inl (PolicyError ''unknown_prefix'')"
| "match_entries ((_, entry) # es) p =
     (if entry_prefix entry = scratch_template then
        (case match_scratch p of
           Some g \<Rightarrow> Inr \<lparr>matched_id = checkpoint_id entry, matched_prefix = p, generation = g\<rparr>
         | None \<Rightarrow> match_entries es p)
      else if scales entry = [] then
        (if p = entry_prefix entry
         then Inr \<lparr>matched_id = checkpoint_id entry, matched_prefix = p, generation = []\<rparr>
         else match_entries es p)
      else
        (case match_generation p of
           Some (sc, g) \<Rightarrow>
             if sc \<in> set (scales entry)
             then Inr \<lparr>matched_id = checkpoint_id entry, matched_prefix = p, generation = g\<rparr>
             else match_entries es p
         | None \<Rightarrow> match_entries es p))"

definition match_prefix :: "checkpoint_policy \<Rightarrow> pyval \<Rightarrow> matched_checkpoint res" where
  "match_prefix policy v =
     bindE (validate_concrete_prefix v (control_prefix policy)) (\<lambda>_. match_entries (entries policy) (str_val v))"

definition prefix_root :: "string \<Rightarrow> string" where
  "prefix_root p = take_until (CHR ''{'') p"

fun reject_overlapping_roots :: "string list \<Rightarrow> unit res" where
  "reject_overlapping_roots [] = Inr ()"
| "reject_overlapping_roots (r # rs) =
     (if list_ex (\<lambda>o'. startswith r o' \<or> startswith o' r) rs then Inl (PolicyError ''overlapping_prefix'')
      else reject_overlapping_roots rs)"

definition reject_overlapping_prefixes :: "string list \<Rightarrow> unit res" where
  "reject_overlapping_prefixes ps = reject_overlapping_roots (map prefix_root ps)"

section \<open>The registry loader\<close>

datatype ynode =
    YScalar "pyval res"
  | YSeq "ynode list"
  | YMap "(ynode \<times> ynode) list"
  | YAlias

function compose_node :: "ynode \<Rightarrow> int \<Rightarrow> int \<Rightarrow> int res"
  and compose_seq :: "ynode list \<Rightarrow> int \<Rightarrow> int \<Rightarrow> int res"
  and compose_map :: "(ynode \<times> ynode) list \<Rightarrow> int \<Rightarrow> int \<Rightarrow> int res"
where
  \<comment> \<open>\<^verbatim>\<open>_UniqueKeyLoader.compose_node\<close> at nesting \<open>depth\<close> after \<open>nodes\<close> nodes\<close>
  "compose_node node depth nodes =
     (if node = YAlias then Inl (PolicyError ''yaml_alias_forbidden'')
      else if nodes + 1 > 4096 then Inl (PolicyError ''yaml_node_limit'')
      else if depth + 1 > 32 then Inl (PolicyError ''yaml_depth_exceeded'')
      else case node of
             YSeq xs \<Rightarrow> compose_seq xs (depth + 1) (nodes + 1)
           | YMap kvs \<Rightarrow> compose_map kvs (depth + 1) (nodes + 1)
           | _ \<Rightarrow> Inr (nodes + 1))"
| "compose_seq [] depth nodes = Inr nodes"
| "compose_seq (x # xs) depth nodes = bindE (compose_node x depth nodes) (compose_seq xs depth)"
| "compose_map [] depth nodes = Inr nodes"
| "compose_map ((k, v) # kvs) depth nodes =
     bindE (compose_node k depth nodes) (\<lambda>c. bindE (compose_node v depth c) (compose_map kvs depth))"
  by pat_completeness auto
termination
  by (relation "measure (\<lambda>x. case x of
        Inl (n, _) \<Rightarrow> size n
      | Inr (Inl (xs, _)) \<Rightarrow> size_list size xs
      | Inr (Inr (kvs, _)) \<Rightarrow> size_list (size_prod size size) kvs)") auto

fun unhashable :: "pyval \<Rightarrow> bool" where
  "unhashable (PList _) = True"
| "unhashable (PDict _) = True"
| "unhashable _ = False"

function construct_node :: "ynode \<Rightarrow> pyval res"
  and construct_seq :: "ynode list \<Rightarrow> pyval list res"
  and construct_unique_mapping :: "(ynode \<times> ynode) list \<Rightarrow> pydict \<Rightarrow> pydict res"
where
  "construct_node (YScalar r) = r"
| "construct_node (YSeq xs) = bindE (construct_seq xs) (\<lambda>vs. Inr (PList vs))"
| "construct_node (YMap kvs) = bindE (construct_unique_mapping kvs []) (\<lambda>d. Inr (PDict d))"
| "construct_node YAlias = Inl (PolicyError ''yaml_alias_forbidden'')"
| "construct_seq [] = Inr []"
| "construct_seq (x # xs) = bindE (construct_node x) (\<lambda>v. bindE (construct_seq xs) (\<lambda>vs. Inr (v # vs)))"
| "construct_unique_mapping [] acc = Inr acc"
| "construct_unique_mapping ((k, v) # kvs) acc =
     bindE (construct_node k) (\<lambda>key.
       if unhashable key then Inl (PolicyError ''invalid_key'')
       else if list_ex (\<lambda>(k', _). py_eq k' key) acc then Inl (PolicyError ''duplicate_key'')
       else bindE (construct_node v) (\<lambda>val. construct_unique_mapping kvs (acc @ [(key, val)])))"
  by pat_completeness auto
termination
  by (relation "measure (\<lambda>x. case x of
        Inl n \<Rightarrow> size n
      | Inr (Inl xs) \<Rightarrow> size_list size xs
      | Inr (Inr (kvs, acc)) \<Rightarrow> size_list (size_prod size size) kvs)") auto

definition load_unique :: "ynode \<Rightarrow> pyval res" where
  "load_unique node = bindE (compose_node node 0 0) (\<lambda>_. construct_node node)"

section \<open>The registry contract\<close>

definition top_keys :: "string list" where
  "top_keys = [''version'', ''bucket'', ''control_prefix'', ''lease'', ''bounds'', ''checkpoints'']"

definition lease_values :: "(string \<times> int) list" where
  "lease_values = [(''heartbeat_seconds'', 60), (''ttl_seconds'', 600),
     (''future_tolerance_seconds'', 300), (''quiescence_seconds'', 900)]"

definition bound_values :: "(string \<times> int) list" where
  "bound_values = [(''max_pages'', 100), (''max_objects'', 100000), (''max_bytes'', 10737418240),
     (''max_delete_keys'', 1000), (''max_active_seconds'', 900), (''max_summary_bytes'', 65536),
     (''max_manifest_shard_bytes'', 1048576)]"

definition entry_keys :: "string list" where
  "entry_keys = [''checkpoint_id'', ''prefix'', ''owner'', ''workload'', ''source'', ''sink'', ''lifecycle'',
     ''durability'', ''terminal_states'', ''retention_seconds'', ''recovery_class'', ''sink_disposition'',
     ''concurrent_writers'', ''retirement_authorization'']"

definition generation_entry_keys :: "string list" where
  "generation_entry_keys = entry_keys @ [''scales'']"

definition durable_entry_keys :: "string list" where
  "durable_entry_keys = entry_keys @ [''retired_at'', ''retirement_review'']"

definition strs :: "string list \<Rightarrow> pyval" where
  "strs xs = PTuple (map PStr xs)"

definition durable_expected :: "string \<Rightarrow> string \<Rightarrow> string \<Rightarrow> string \<Rightarrow> (string \<times> pyval) list" where
  "durable_expected prefix work src snk =
     [(''prefix'', PStr prefix), (''owner'', PStr ''Streaming Data Engineering''), (''workload'', PStr work),
      (''source'', PStr src), (''sink'', PStr snk), (''durability'', PStr ''durable_stream''),
      (''terminal_states'', strs [''stopped'', ''retired'']), (''retention_seconds'', PInt 2592000),
      (''recovery_class'', PStr ''coordinated_replay''), (''sink_disposition'', PStr ''snapshot_or_reset''),
      (''concurrent_writers'', PStr ''forbidden''), (''retirement_authorization'', PStr ''required'')]"

definition expected_entries :: "(string \<times> (string \<times> pyval) list) list" where
  "expected_entries =
    [(''streaming-events-v1'',
      durable_expected ''events/'' ''streaming_ingest-events-spark-iceberg'' ''redpanda:events''
        ''lakehouse.bronze.events''),
     (''streaming-event-windows-v1'',
      durable_expected ''event_windows/'' ''streaming_windows-events-spark-iceberg'' ''redpanda:events''
        ''lakehouse.gold.event_windows''),
     (''streaming-online-retail-cdc-v1'',
      durable_expected ''online_retail_cdc/'' ''cdc_streaming-online_retail-spark-iceberg''
        ''redpanda:online_retail_cdc'' ''lakehouse.silver.online_retail_cdc''),
     (''streaming-gh-archive-file-v1'',
      [(''prefix'', PStr generation_template), (''owner'', PStr ''Streaming Data Engineering Education''),
       (''workload'', PStr ''streaming_ingest-gh_archive-spark-iceberg''), (''source'', PStr ''resolver:gh_archive''),
       (''sink'', PStr ''lakehouse.bronze.gh_events_stream''), (''durability'', PStr ''generation_reproducibility''),
       (''terminal_states'', strs [''completed'', ''stopped'']), (''retention_seconds'', PInt 1209600),
       (''recovery_class'', PStr ''exact_generation_replay''), (''sink_disposition'', PStr ''reset_required''),
       (''concurrent_writers'', PStr ''forbidden''), (''retirement_authorization'', PStr ''not_applicable''),
       (''scales'', strs [''tiny'', ''small'', ''medium''])]),
     (''go-live-streaming-test-v1'',
      [(''prefix'', PStr scratch_template), (''owner'', PStr ''Lab Acceptance Engineering''),
       (''workload'', PStr ''go-live-streaming-test''), (''source'', PStr ''bounded_synthetic''),
       (''sink'', PStr ''s3a://lakehouse/bronze/streaming_test''), (''durability'', PStr ''disposable_acceptance''),
       (''terminal_states'', strs [''successful'', ''stopped'']), (''retention_seconds'', PInt 86400),
       (''recovery_class'', PStr ''disposable_recreate''), (''sink_disposition'', PStr ''reset_required''),
       (''concurrent_writers'', PStr ''forbidden''), (''retirement_authorization'', PStr ''not_applicable'')])]"

definition require_mapping :: "pyval \<Rightarrow> string \<Rightarrow> pydict res" where
  "require_mapping v code =
     (case v of PDict d \<Rightarrow> if list_all is_str (dkeys d) then Inr d else Inl (PolicyError code)
              | _ \<Rightarrow> Inl (PolicyError code))"

definition require_exact_keys :: "pydict \<Rightarrow> string list \<Rightarrow> unit res" where
  "require_exact_keys d expected =
     (if keys_exactly d expected then Inr ()
      else Inl (PolicyError (if list_ex (\<lambda>k. k \<notin> PStr ` set expected) (dkeys d)
                             then ''unknown_field'' else ''missing_field'')))"

definition require_exact :: "pyval \<Rightarrow> pyval \<Rightarrow> string \<Rightarrow> unit res" where
  "require_exact v expected code = guardE (v \<noteq> expected) (PolicyError code)"

definition require_exact_int :: "pyval \<Rightarrow> int \<Rightarrow> string \<Rightarrow> unit res" where
  "require_exact_int v expected code =
     (case v of PInt i \<Rightarrow> guardE (i \<noteq> expected) (PolicyError code) | _ \<Rightarrow> Inl (PolicyError ''invalid_type''))"

definition require_str_list :: "pyval \<Rightarrow> string list res" where
  "require_str_list v =
     (case v of PList xs \<Rightarrow> if list_all is_str xs then Inr (map str_val xs) else Inl (PolicyError ''invalid_type'')
              | _ \<Rightarrow> Inl (PolicyError ''invalid_type''))"

definition raw_item :: "pydict \<Rightarrow> string \<Rightarrow> pyval" where
  \<comment> \<open>\<^verbatim>\<open>raw[key]\<close> after the key set has been checked\<close>
  "raw_item d k = dget_none d k"

fun check_int_fields :: "pydict \<Rightarrow> (string \<times> int) list \<Rightarrow> string \<Rightarrow> unit res" where
  "check_int_fields d [] code = Inr ()"
| "check_int_fields d ((k, n) # r) code =
     bindE (require_exact_int (raw_item d k) n code) (\<lambda>_. check_int_fields d r code)"

definition parse_retirement :: "pyval \<Rightarrow> pydict \<Rightarrow> (pyval \<times> pyval) res" where
  "parse_retirement life raw =
     (let ra = raw_item raw ''retired_at''; rr = raw_item raw ''retirement_review''
      in if life = PStr ''active'' then
           (if ra \<noteq> PNone \<or> rr \<noteq> PNone then Inl (PolicyError ''invalid_retirement_transition'')
            else Inr (PNone, PNone))
         else (case parse_utc ra of
                 Some t \<Rightarrow>
                   if is_str rr \<and> safe_review (str_val rr) then Inr (utc t, rr)
                   else Inl (PolicyError ''invalid_retirement_transition'')
               | None \<Rightarrow> Inl (PolicyError ''invalid_retirement_transition'')))"

fun check_expected_fields :: "pydict \<Rightarrow> (string \<times> pyval) list \<Rightarrow> unit res" where
  "check_expected_fields raw [] = Inr ()"
| "check_expected_fields raw ((k, x) # r) =
     (if k \<in> {''terminal_states'', ''retention_seconds'', ''scales''} then check_expected_fields raw r
      else if \<not> py_eq (raw_item raw k) x then
        (if k = ''prefix'' then
           bindE (validate_registry_prefix (raw_item raw k) ''_retention/'') (\<lambda>_. Inl (PolicyError ''invalid_prefix''))
         else Inl (PolicyError (''invalid_'' @ k)))
      else check_expected_fields raw r)"

definition build_entry ::
  "string \<Rightarrow> pydict \<Rightarrow> string \<Rightarrow> pyval \<times> pyval \<Rightarrow> string list \<Rightarrow> string list \<Rightarrow> checkpoint_entry" where
  \<comment> \<open>the \<^verbatim>\<open>CheckpointEntry(...)\<close> that \<^verbatim>\<open>_parse_entry\<close> returns\<close>
  "build_entry cid raw life retirement states ss =
     \<lparr>checkpoint_id = cid,
      entry_prefix = str_val (raw_item raw ''prefix''),
      owner = str_val (raw_item raw ''owner''),
      workload = str_val (raw_item raw ''workload''),
      source = str_val (raw_item raw ''source''),
      sink = str_val (raw_item raw ''sink''),
      lifecycle = life,
      durability = str_val (raw_item raw ''durability''),
      terminal_states = states,
      retention_seconds = int_val (raw_item raw ''retention_seconds''),
      recovery_class = str_val (raw_item raw ''recovery_class''),
      sink_disposition = str_val (raw_item raw ''sink_disposition''),
      concurrent_writers = str_val (raw_item raw ''concurrent_writers''),
      retirement_authorization = str_val (raw_item raw ''retirement_authorization''),
      retired_at = fst retirement,
      retirement_review = snd retirement,
      scales = ss\<rparr>"

definition parse_scales :: "(string \<times> pyval) list \<Rightarrow> pydict \<Rightarrow> string list res" where
  "parse_scales expected raw =
     (if map_of expected ''scales'' = None then Inr []
      else bindE (require_str_list (raw_item raw ''scales'')) (\<lambda>ss.
             if Some (strs ss) \<noteq> map_of expected ''scales'' then Inl (PolicyError ''invalid_scales'') else Inr ss))"

definition parse_known_entry :: "string \<Rightarrow> (string \<times> pyval) list \<Rightarrow> pydict \<Rightarrow> checkpoint_entry res" where
  \<comment> \<open>\<^verbatim>\<open>_parse_entry\<close> once the identity has selected the \<open>expected\<close> fields\<close>
  "parse_known_entry cid expected raw =
     (let durable = (map_of expected ''durability'' = Some (PStr ''durable_stream''));
          allowed = (if durable then durable_entry_keys
                     else if map_of expected ''scales'' \<noteq> None then generation_entry_keys else entry_keys);
          life = raw_item raw ''lifecycle''
      in bindE (require_exact_keys raw allowed) (\<lambda>_.
         bindE (guardE (list_ex (\<lambda>k. \<not> is_str (raw_item raw k) \<or> raw_item raw k = PStr [])
                          (filter (\<lambda>k. k \<notin> {''terminal_states'', ''retention_seconds'', ''lifecycle''}) entry_keys))
                  (PolicyError ''invalid_type'')) (\<lambda>_.
         bindE (guardE (unhashable life) (OtherExn ''TypeError'')) (\<lambda>_.
         bindE (guardE (life \<notin> (if durable then {PStr ''active'', PStr ''retired''} else {PStr ''active''}))
                  (PolicyError ''invalid_lifecycle'')) (\<lambda>_.
         bindE (if durable then parse_retirement life raw else Inr (PNone, PNone)) (\<lambda>retirement.
         bindE (require_str_list (raw_item raw ''terminal_states'')) (\<lambda>states.
         bindE (guardE (Some (strs states) \<noteq> map_of expected ''terminal_states'')
                  (PolicyError ''invalid_terminal_states'')) (\<lambda>_.
         bindE (require_exact_int (raw_item raw ''retention_seconds'')
                  (case map_of expected ''retention_seconds'' of Some x \<Rightarrow> int_val x | None \<Rightarrow> 0)
                  ''invalid_retention'') (\<lambda>_.
         bindE (parse_scales expected raw) (\<lambda>ss.
         bindE (check_expected_fields raw expected) (\<lambda>_.
         bindE (validate_registry_prefix (raw_item raw ''prefix'') ''_retention/'') (\<lambda>_.
         Inr (build_entry cid raw (str_val life) retirement states ss)))))))))))))"

definition parse_entry :: "pyval \<Rightarrow> checkpoint_entry res" where
  "parse_entry v =
     bindE (require_mapping v ''invalid_type'') (\<lambda>raw.
     case dget_none raw ''checkpoint_id'' of
       PStr cid \<Rightarrow>
        (case map_of expected_entries cid of
           None \<Rightarrow> Inl (PolicyError ''invalid_checkpoint_id'')
         | Some expected \<Rightarrow> parse_known_entry cid expected raw)
     | _ \<Rightarrow> Inl (PolicyError ''invalid_type''))"

fun scan_items :: "pydict list \<Rightarrow> string list \<Rightarrow> string list \<Rightarrow> string list res" where
  \<comment> \<open>the first pass of \<^verbatim>\<open>parse_policy\<close> over the checkpoints: identities and prefixes\<close>
  "scan_items [] seen prefixes = Inr prefixes"
| "scan_items (item # items) seen prefixes =
     (let cid = dget_none item ''checkpoint_id'' in
      if is_str cid \<and> str_val cid \<in> set seen then Inl (PolicyError ''duplicate_checkpoint_id'')
      else let p = dget_none item ''prefix'' in
           bindE (validate_registry_prefix p ''_retention/'') (\<lambda>_.
             scan_items items (if is_str cid then seen @ [str_val cid] else seen) (prefixes @ [str_val p])))"

definition parse_raw_policy :: "pyval \<Rightarrow> checkpoint_policy res" where
  \<comment> \<open>\<^verbatim>\<open>parse_policy\<close> after the YAML text has been loaded\<close>
  "parse_raw_policy raw =
     bindE (require_mapping raw ''invalid_type'') (\<lambda>root.
     bindE (require_exact_keys root top_keys) (\<lambda>_.
     bindE (require_exact (raw_item root ''version'') (PInt 1) ''invalid_type'') (\<lambda>_.
     bindE (require_exact (raw_item root ''bucket'') (PStr ''checkpoints'') ''invalid_bucket'') (\<lambda>_.
     bindE (require_exact (raw_item root ''control_prefix'') (PStr ''_retention/'') ''invalid_control_prefix'') (\<lambda>_.
     bindE (require_mapping (raw_item root ''lease'') ''invalid_type'') (\<lambda>lv.
     bindE (require_exact_keys lv (map fst lease_values)) (\<lambda>_.
     bindE (check_int_fields lv lease_values ''invalid_lease_policy'') (\<lambda>_.
     bindE (require_mapping (raw_item root ''bounds'') ''invalid_type'') (\<lambda>bv.
     bindE (require_exact_keys bv (map fst bound_values)) (\<lambda>_.
     bindE (check_int_fields bv bound_values ''invalid_bound'') (\<lambda>_.
     case raw_item root ''checkpoints'' of
       PList items \<Rightarrow>
         bindE (mapE (\<lambda>i. require_mapping i ''invalid_type'') items) (\<lambda>ms.
         bindE (scan_items ms [] []) (\<lambda>prefixes.
         bindE (reject_overlapping_prefixes prefixes) (\<lambda>_.
         bindE (mapE (\<lambda>m. parse_entry (PDict m)) ms) (\<lambda>es.
         bindE (guardE (map checkpoint_id es \<noteq> map fst expected_entries)
                  (PolicyError ''invalid_checkpoint_inventory'')) (\<lambda>_.
         bindE (reject_overlapping_prefixes (map entry_prefix es)) (\<lambda>_.
         Inr \<lparr>version = 1, bucket = ''checkpoints'', control_prefix = ''_retention/'',
              lease = \<lparr>heartbeat_seconds = int_val (raw_item lv ''heartbeat_seconds''),
                       ttl_seconds = int_val (raw_item lv ''ttl_seconds''),
                       future_tolerance_seconds = int_val (raw_item lv ''future_tolerance_seconds''),
                       quiescence_seconds = int_val (raw_item lv ''quiescence_seconds'')\<rparr>,
              bounds = \<lparr>max_pages = int_val (raw_item bv ''max_pages''),
                        max_objects = int_val (raw_item bv ''max_objects''),
                        max_bytes = int_val (raw_item bv ''max_bytes''),
                        max_delete_keys = int_val (raw_item bv ''max_delete_keys''),
                        max_active_seconds = int_val (raw_item bv ''max_active_seconds''),
                        max_summary_bytes = int_val (raw_item bv ''max_summary_bytes''),
                        max_manifest_shard_bytes = int_val (raw_item bv ''max_manifest_shard_bytes'')\<rparr>,
              entries = map (\<lambda>e. (checkpoint_id e, e)) es\<rparr>))))))
     | _ \<Rightarrow> Inl (PolicyError ''invalid_type''))))))))))))"

definition max_policy_bytes :: int where
  "max_policy_bytes = 262144"

definition parse_policy :: "(string \<Rightarrow> ynode res) \<Rightarrow> pyval \<Rightarrow> checkpoint_policy res" where
  "parse_policy yaml v =
     (case v of
        PStr text \<Rightarrow>
          if int (length text) > max_policy_bytes \<or> int (length (utf8_encode text)) > max_policy_bytes
          then Inl (PolicyError ''policy_too_large'')
          else (case bindE (yaml text) load_unique of
                  Inl e \<Rightarrow> Inl (if e = OtherExn ''YAMLError'' then PolicyError ''invalid_yaml'' else e)
                | Inr raw \<Rightarrow> parse_raw_policy raw)
      | _ \<Rightarrow> Inl (PolicyError ''invalid_type''))"

definition load_policy :: "(string \<Rightarrow> ynode res) \<Rightarrow> string res \<Rightarrow> checkpoint_policy res" where
  \<comment> \<open>\<open>file\<close> is what opening and reading the path gives: its bytes, or the error\<close>
  "load_policy yaml file =
     (case map_sum id (take (nat max_policy_bytes + 1)) file of
        Inl (OtherExn c) \<Rightarrow>
          if c \<in> {''OSError'', ''UnicodeError''} then Inl (PolicyError ''policy_read_failed'') else Inl (OtherExn c)
      | Inl e \<Rightarrow> Inl e
      | Inr payload \<Rightarrow>
          if int (length payload) > max_policy_bytes then Inl (PolicyError ''policy_too_large'')
          else (case utf8_decode payload of
                  None \<Rightarrow> Inl (PolicyError ''policy_read_failed'')
                | Some text \<Rightarrow> parse_policy yaml (PStr text)))"

end
