(* ===== verification/JsonSize.thy ===== *)
theory JsonSize
  imports JsonFacts
begin

text \<open>
  The length of canonical JSON.  Sorting keys does not change the length of the text, so the length
  of \<open>dumps v\<close> is a sum over the value as it was built (\<open>json_len\<close>), which bounds plans,
  records and shards without computing them.
\<close>

fun json_len :: "pyval \<Rightarrow> nat"
  and json_len_elems :: "pyval list \<Rightarrow> nat"
  and json_len_members :: "pydict \<Rightarrow> nat"
where
  "json_len (PList xs) = 2 + json_len_elems xs + (length xs - 1)"
| "json_len (PTuple xs) = 2 + json_len_elems xs + (length xs - 1)"
| "json_len (PDict d) = 2 + json_len_members d + (length d - 1)"
| "json_len v = length (compact v)"
| "json_len_elems [] = 0"
| "json_len_elems (x # xs) = json_len x + json_len_elems xs"
| "json_len_members [] = 0"
| "json_len_members ((k, v) # d) = length (json_string (str_val k)) + 1 + json_len v + json_len_members d"

lemma json_len_compact:
  "length (compact v) = json_len v"
  "length (compact_elems xs) = json_len_elems xs + (length xs - 1)"
  "length (compact_members d) = json_len_members d + (length d - 1)"
proof (induction v and xs and d rule: compact_compact_elems_compact_members.induct)
qed (auto simp: Suc_diff_le neq_Nil_conv)

lemma json_len_elems_sum: "json_len_elems xs = sum_list (map json_len xs)"
  by (induction xs) auto

lemma json_len_members_sum:
  "json_len_members d = sum_list (map (\<lambda>(k, v). length (json_string (str_val k)) + 1 + json_len v) d)"
  by (induction d) auto

lemma json_len_sort_keys [simp]: "json_len (sort_keys v) = json_len v"
proof (induction v rule: sort_keys.induct)
  case (1 xs)
  then show ?case by (simp add: json_len_elems_sum o_def cong: map_cong)
next
  case (2 xs)
  then show ?case by (simp add: json_len_elems_sum o_def cong: map_cong)
next
  case (3 d)
  then have "map (\<lambda>(k, v). length (json_string (str_val k)) + 1 + json_len v) (map (\<lambda>(k, v). (k, sort_keys v)) d) =
      map (\<lambda>(k, v). length (json_string (str_val k)) + 1 + json_len v) d"
    by (auto simp: case_prod_unfold)
  then show ?case by (simp only: sort_keys.simps json_len.simps json_len_members_sum sum_list_sort_key) simp
qed simp_all

lemma length_dumps: "length (dumps v) = json_len v"
  by (simp add: dumps_def json_len_compact)

lemma length_json_escape: "length (json_escape c) \<le> 6"
  by (simp add: json_escape_def)

lemma length_json_string: "length (json_string s) \<le> 6 * length s + 2"
proof -
  have "length (concat (map json_escape s)) \<le> 6 * length s"
    by (induction s) (use length_json_escape in \<open>auto intro: add_mono\<close>)
  then show ?thesis by (simp add: json_string_def)
qed

definition plain_char :: "char \<Rightarrow> bool" where
  \<comment> \<open>a character that JSON text does not escape\<close>
  "plain_char c \<longleftrightarrow> c \<noteq> CHR 0x22 \<and> c \<noteq> CHR 0x5C \<and> 32 \<le> (of_char c :: nat) \<and> (of_char c :: nat) \<le> 126"

lemma json_escape_plain: "plain_char c \<Longrightarrow> json_escape c = [c]"
  by (auto simp: plain_char_def json_escape_def)

lemma length_json_string_plain: "list_all plain_char s \<Longrightarrow> length (json_string s) = length s + 2"
proof -
  have "list_all plain_char s \<Longrightarrow> concat (map json_escape s) = s"
    by (induction s) (auto simp: json_escape_plain)
  then show "list_all plain_char s \<Longrightarrow> length (json_string s) = length s + 2" by (simp add: json_string_def)
qed

lemma hex_plain: "list_all hex_char s \<Longrightarrow> list_all plain_char s"
  by (auto simp: list_all_iff hex_char_def digit_char_def plain_char_def less_eq_char_def)

lemma length_dec_int: "int_ok i \<Longrightarrow> int (length (dec_int i)) \<le> max_int_digits + 1"
  by (auto simp: int_ok_def dec_int_def split: if_splits)

fun ints_ok :: "pyval \<Rightarrow> bool" where
  \<comment> \<open>no integer is longer than the interpreter converts to text\<close>
  "ints_ok (PInt i) = int_ok i"
| "ints_ok (PList xs) = list_all ints_ok xs"
| "ints_ok (PTuple xs) = list_all ints_ok xs"
| "ints_ok (PDict d) = list_all (\<lambda>(_, v). ints_ok v) d"
| "ints_ok _ = True"

end
