(* ===== verification/Evaluate.thy ===== *)
theory Evaluate
  imports Policy JsonSize
begin

text \<open>
  The retention evaluator of \<^verbatim>\<open>scripts/checkpoints/policy.py\<close>: \<open>evaluate_retention\<close>
  decides from supplied facts alone whether an exact checkpoint prefix may be deleted, and produces
  the canonical plan that binds the decision to the facts.
\<close>

section \<open>The evaluator\<close>

definition is_future_clock :: "pyval \<Rightarrow> pyval \<Rightarrow> int \<Rightarrow> bool" where
  "is_future_clock v now tolerance \<longleftrightarrow>
     is_exact_utc v \<and> is_exact_utc now \<and> utc_secs v - utc_secs now > tolerance"

definition safe_add_seconds :: "int option \<Rightarrow> int \<Rightarrow> int option" where
  \<comment> \<open>\<^verbatim>\<open>None\<close> when the sum leaves the range of \<^verbatim>\<open>datetime\<close>\<close>
  "safe_add_seconds v n =
     (case v of None \<Rightarrow> None | Some t \<Rightarrow> if 0 \<le> t + n \<and> t + n < max_secs then Some (t + n) else None)"

definition format_utc_or_none :: "pyval \<Rightarrow> pyval" where
  \<comment> \<open>\<^verbatim>\<open>_format_utc\<close> of the policy: \<^verbatim>\<open>None\<close> unless the value is exact UTC\<close>
  "format_utc_or_none v = (if is_exact_utc v then PStr (format_utc (utc_secs v)) else PNone)"

definition opt_utc :: "int option \<Rightarrow> pyval" where
  "opt_utc o' = (case o' of None \<Rightarrow> PNone | Some t \<Rightarrow> utc t)"

definition codes_if :: "bool \<Rightarrow> string \<Rightarrow> string list" where
  \<comment> \<open>\<^verbatim>\<open>if b: refusal_codes.append(code)\<close>\<close>
  "codes_if b code = (if b then [code] else [])"

definition expected_states :: "string \<Rightarrow> string list option" where
  "expected_states d = map_of [(''durable_stream'', [''stopped'', ''retired'']),
     (''generation_reproducibility'', [''completed'', ''stopped'']), (''disposable_acceptance'', [''stopped''])] d"

definition in_states :: "pyval \<Rightarrow> string list \<Rightarrow> bool" where
  "in_states v ss \<longleftrightarrow> is_str v \<and> str_val v \<in> set ss"

definition clock_codes :: "bool \<Rightarrow> pyval \<Rightarrow> int \<Rightarrow> pyval \<Rightarrow> string list" where
  "clock_codes now_valid now tolerance v =
     (if \<not> is_exact_utc v then [''invalid_utc_timestamp'']
      else codes_if (now_valid \<and> is_future_clock v now tolerance) ''future_clock'')"

definition evaluate_lease ::
  "checkpoint_policy \<Rightarrow> evaluation_input \<Rightarrow> matched_checkpoint \<Rightarrow> checkpoint_entry \<Rightarrow> bool \<Rightarrow>
   lease_facts \<Rightarrow> terminal_facts option \<Rightarrow> string list res" where
  "evaluate_lease policy facts matched entry now_valid l terminal =
     (let now = evaluated_at facts; tol = future_tolerance_seconds (lease policy);
          acq = lf_acquired_at l; hb = lf_heartbeat_at l; ex = lf_expires_at l; st = lf_state l;
          tst = (case terminal of None \<Rightarrow> PNone | Some t \<Rightarrow> tf_state t)
      in case expected_states (durability entry) of
           None \<Rightarrow> Inl (OtherExn ''KeyError'')
         | Some allowed \<Rightarrow> Inr (
             codes_if (\<not> is_bool (lf_malformed l) \<or> \<not> is_bool (lf_conflicting l)) ''invalid_fact_type'' @
             codes_if (lf_malformed l = PBool True) ''lease_malformed'' @
             codes_if (lf_conflicting l = PBool True) ''lease_conflicting'' @
             codes_if (\<not> is_str (lf_checkpoint_id l) \<or> \<not> is_str (lf_prefix l) \<or>
                       lf_checkpoint_id l \<noteq> PStr (matched_id matched) \<or> \<not> py_eq (lf_prefix l) (ev_prefix facts))
               ''lease_identity_mismatch'' @
             codes_if (\<not> is_str (lf_etag l) \<or> str_val (lf_etag l) = [] \<or> length (str_val (lf_etag l)) > 128)
               ''lease_etag_invalid'' @
             clock_codes now_valid now tol acq @ clock_codes now_valid now tol hb @ clock_codes now_valid now tol ex @
             codes_if (is_exact_utc acq \<and> is_exact_utc hb \<and> is_exact_utc ex \<and>
                       \<not> (utc_secs acq \<le> utc_secs hb \<and> utc_secs hb \<le> utc_secs ex \<and>
                          utc_secs ex - utc_secs hb = ttl_seconds (lease policy))) ''lease_clock_invalid'' @
             codes_if (\<not> is_str st) ''invalid_fact_type'' @
             (if st = PStr ''active'' then
                (if now_valid \<and> is_exact_utc ex
                 then [if utc_secs ex \<ge> utc_secs now then ''lease_active'' else ''lease_expired_active_uncertain'']
                 else [''lease_active''])
              else codes_if (\<not> in_states st [''stopped'', ''completed'', ''retired'']) ''lease_state_invalid'') @
             codes_if (\<not> in_states st allowed \<or> \<not> in_states tst allowed \<or> st \<noteq> tst) ''invalid_lease_terminal_state'' @
             codes_if (case terminal of None \<Rightarrow> False
                       | Some t \<Rightarrow> is_exact_utc (tf_occurred_at t) \<and> is_exact_utc hb \<and>
                                   utc_secs hb > utc_secs (tf_occurred_at t)) ''lease_terminal_clock_conflict''))"

definition evaluate_inventory ::
  "checkpoint_policy \<Rightarrow> evaluation_input \<Rightarrow> bool \<Rightarrow> inventory_summary \<Rightarrow> string list" where
  "evaluate_inventory policy facts now_valid iv =
     codes_if (\<not> is_int (object_count iv) \<or> int_val (object_count iv) < 1 \<or>
               int_val (object_count iv) > max_objects (bounds policy) \<or>
               \<not> is_int (total_bytes iv) \<or> int_val (total_bytes iv) < 1 \<or>
               int_val (total_bytes iv) > max_bytes (bounds policy) \<or>
               \<not> is_str (inv_sha256 iv) \<or> \<not> sha256_pattern (str_val (inv_sha256 iv))) ''inventory_invalid'' @
     clock_codes now_valid (evaluated_at facts) (future_tolerance_seconds (lease policy)) (newest_last_modified iv) @
     codes_if (\<not> is_bool (changed_since_plan iv) \<or> \<not> is_bool (partial_retry_confined iv)) ''invalid_fact_type'' @
     codes_if (changed_since_plan iv = PBool True) ''inventory_changed'' @
     codes_if (partial_retry_confined iv \<noteq> PBool True) ''partial_retry_broadened''"

definition generation_mismatch :: "terminal_facts \<Rightarrow> matched_checkpoint \<Rightarrow> bool" where
  "generation_mismatch t matched \<longleftrightarrow>
     \<not> is_dict (tf_generation t) \<or> \<not> py_eq (tf_generation t) (PDict (generation matched))"

definition retired_codes :: "checkpoint_policy \<Rightarrow> evaluation_input \<Rightarrow> checkpoint_entry \<Rightarrow> terminal_facts \<Rightarrow> string list" where
  \<comment> \<open>the branch of \<^verbatim>\<open>_evaluate_terminal\<close> for a retired durable stream\<close>
  "retired_codes policy facts entry t =
     codes_if (\<not> is_str (tf_retirement_review t) \<or> str_val (tf_retirement_review t) = []) ''retirement_review_missing'' @
     (if \<not> is_exact_utc (retired_at entry) then [''retirement_clock_missing'']
      else codes_if (is_future_clock (retired_at entry) (evaluated_at facts) (future_tolerance_seconds (lease policy)))
             ''future_clock'') @
     (if \<not> is_str (retirement_review entry) \<or> str_val (retirement_review entry) = []
      then [''registry_retirement_review_missing'']
      else if \<not> safe_review (str_val (retirement_review entry)) then [''registry_retirement_review_invalid'']
      else codes_if (\<not> py_eq (tf_retirement_review t) (retirement_review entry)) ''retirement_review_mismatch'')"

definition evaluate_terminal ::
  "checkpoint_policy \<Rightarrow> evaluation_input \<Rightarrow> checkpoint_entry \<Rightarrow> matched_checkpoint \<Rightarrow> terminal_facts \<Rightarrow> string list" where
  "evaluate_terminal policy facts entry matched t =
     clock_codes True (evaluated_at facts) (future_tolerance_seconds (lease policy)) (tf_occurred_at t) @
     codes_if (\<not> is_str (tf_state t)) ''invalid_fact_type'' @
     codes_if (\<not> in_states (tf_state t) (terminal_states entry)) ''invalid_terminal_state'' @
     concat (map (\<lambda>v. codes_if (\<not> is_bool v) ''invalid_fact_type'')
       [tf_recovery_approved t, tf_source_available t, tf_sink_disposition_approved t, tf_exclusive_run t, tf_successful t]) @
     codes_if (tf_recovery_approved t \<noteq> PBool True) ''recovery_not_approved'' @
     codes_if (tf_source_available t \<noteq> PBool True) ''source_unavailable'' @
     codes_if (tf_sink_disposition_approved t \<noteq> PBool True) ''sink_disposition_not_approved'' @
     (if durability entry = ''durable_stream'' \<and> lifecycle entry = ''retired'' then retired_codes policy facts entry t
      else if durability entry = ''generation_reproducibility'' then
        codes_if (generation_mismatch t matched) ''generation_identity_mismatch''
      else if durability entry = ''disposable_acceptance'' then
        codes_if (generation_mismatch t matched) ''generation_identity_mismatch'' @
        codes_if (tf_exclusive_run t \<noteq> PBool True) ''exclusive_run_required'' @
        codes_if (tf_successful t \<noteq> PBool True) ''successful_run_required''
      else [])"

definition anchor_values :: "checkpoint_entry \<Rightarrow> lease_facts option \<Rightarrow> terminal_facts option \<Rightarrow> inventory_summary \<Rightarrow> pyval list" where
  "anchor_values entry l t iv =
     [newest_last_modified iv] @
     (case l of None \<Rightarrow> [] | Some x \<Rightarrow> [lf_heartbeat_at x]) @
     (case t of None \<Rightarrow> [] | Some x \<Rightarrow> [tf_occurred_at x]) @
     (if durability entry = ''durable_stream'' \<and> lifecycle entry = ''retired'' then [retired_at entry] else [])"

definition retention_anchor :: "checkpoint_entry \<Rightarrow> lease_facts option \<Rightarrow> terminal_facts option \<Rightarrow> inventory_summary \<Rightarrow> int option" where
  "retention_anchor entry l t iv =
     (let vs = anchor_values entry l t iv
      in if list_all is_exact_utc vs then Some (fold max (map utc_secs (tl vs)) (utc_secs (hd vs))) else None)"

definition entry_payload :: "checkpoint_entry \<Rightarrow> pyval" where
  "entry_payload e = PDict (sdict (
     [(''checkpoint_id'', PStr (checkpoint_id e)), (''prefix'', PStr (entry_prefix e)), (''owner'', PStr (owner e)),
      (''workload'', PStr (workload e)), (''source'', PStr (source e)), (''sink'', PStr (sink e)),
      (''lifecycle'', PStr (lifecycle e)), (''durability'', PStr (durability e)),
      (''terminal_states'', PList (map PStr (terminal_states e))),
      (''retention_seconds'', PInt (retention_seconds e)), (''recovery_class'', PStr (recovery_class e)),
      (''sink_disposition'', PStr (sink_disposition e)), (''concurrent_writers'', PStr (concurrent_writers e)),
      (''retirement_authorization'', PStr (retirement_authorization e))] @
     (if durability e = ''durable_stream''
      then [(''retired_at'', format_utc_or_none (retired_at e)), (''retirement_review'', retirement_review e)] else []) @
     (if scales e \<noteq> [] then [(''scales'', PList (map PStr (scales e)))] else [])))"

definition policy_payload :: "checkpoint_policy \<Rightarrow> pyval" where
  "policy_payload p = PDict (sdict
     [(''version'', PInt (version p)), (''bucket'', PStr (bucket p)), (''control_prefix'', PStr (control_prefix p)),
      (''lease'', PDict (sdict
         [(''heartbeat_seconds'', PInt (heartbeat_seconds (lease p))), (''ttl_seconds'', PInt (ttl_seconds (lease p))),
          (''future_tolerance_seconds'', PInt (future_tolerance_seconds (lease p))),
          (''quiescence_seconds'', PInt (quiescence_seconds (lease p)))])),
      (''bounds'', PDict (sdict
         [(''max_pages'', PInt (max_pages (bounds p))), (''max_objects'', PInt (max_objects (bounds p))),
          (''max_bytes'', PInt (max_bytes (bounds p))), (''max_delete_keys'', PInt (max_delete_keys (bounds p))),
          (''max_active_seconds'', PInt (max_active_seconds (bounds p))),
          (''max_summary_bytes'', PInt (max_summary_bytes (bounds p))),
          (''max_manifest_shard_bytes'', PInt (max_manifest_shard_bytes (bounds p)))])),
      (''checkpoints'', PList (map (\<lambda>(_, e). entry_payload e) (entries p)))])"

definition policy_sha256 :: "checkpoint_policy \<Rightarrow> string" where
  "policy_sha256 p = sha256 (dumps (policy_payload p))"

definition dumps_res :: "pyval \<Rightarrow> string res" where
  "dumps_res v = (if ints_ok v then Inr (dumps v) else Inl (OtherExn ''ValueError''))"

definition refusals ::
  "checkpoint_policy \<Rightarrow> evaluation_input \<Rightarrow> matched_checkpoint \<Rightarrow> checkpoint_entry \<Rightarrow> string list res" where
  \<comment> \<open>the codes \<^verbatim>\<open>evaluate_retention\<close> collects, in order and with repetitions\<close>
  "refusals policy facts matched entry =
     (let now = evaluated_at facts; now_valid = is_exact_utc now;
          l = ev_lease facts; t = ev_terminal facts; iv = ev_inventory facts;
          anchor = retention_anchor entry l t iv; after = safe_add_seconds anchor (retention_seconds entry)
      in bindE (case l of None \<Rightarrow> Inr [''lease_missing'']
                | Some x \<Rightarrow> evaluate_lease policy facts matched entry now_valid x t) (\<lambda>lease_codes.
         Inr (codes_if (\<not> now_valid) ''invalid_utc_timestamp'' @ lease_codes @
              evaluate_inventory policy facts now_valid iv @
              (case t of None \<Rightarrow> [''terminal_missing'']
               | Some x \<Rightarrow>
                   evaluate_terminal policy facts entry matched x @
                   codes_if (is_exact_utc (tf_occurred_at x) \<and> is_exact_utc (newest_last_modified iv) \<and>
                             utc_secs (newest_last_modified iv) > utc_secs (tf_occurred_at x)) ''object_after_terminal'') @
              codes_if (anchor \<noteq> None \<and> after = None) ''clock_overflow'' @
              (if durability entry = ''durable_stream'' \<and> lifecycle entry = ''active''
               then [''registry_active_durable'']
               else codes_if (now_valid \<and> (case after of None \<Rightarrow> False | Some a \<Rightarrow> utc_secs now < a))
                      ''retention_quarantine''))))"

definition plan_payload ::
  "checkpoint_policy \<Rightarrow> evaluation_input \<Rightarrow> matched_checkpoint \<Rightarrow> checkpoint_entry \<Rightarrow> string list \<Rightarrow> pyval" where
  "plan_payload policy facts matched entry codes =
     (let iv = ev_inventory facts; anchor = retention_anchor entry (ev_lease facts) (ev_terminal facts) iv;
          after = safe_add_seconds anchor (retention_seconds entry)
      in PDict (sdict
        [(''checkpoint_id'', PStr (matched_id matched)),
         (''decision'', PStr (if codes = [] then ''eligible'' else ''refused'')),
         (''eligible_after'', format_utc_or_none (opt_utc after)),
         (''evaluated_at'', format_utc_or_none (evaluated_at facts)),
         (''inventory'', PDict (sdict
            [(''newest_last_modified'', format_utc_or_none (newest_last_modified iv)),
             (''object_count'', if is_int (object_count iv) then object_count iv else PNone),
             (''sha256'', if is_str (inv_sha256 iv) \<and> sha256_pattern (str_val (inv_sha256 iv)) then inv_sha256 iv else PNone),
             (''total_bytes'', if is_int (total_bytes iv) then total_bytes iv else PNone)])),
         (''policy_sha256'', PStr (policy_sha256 policy)),
         (''prefix'', PStr (matched_prefix matched)),
         (''refusal_codes'', PList (map PStr codes)),
         (''retention_anchor'', format_utc_or_none (opt_utc anchor))]))"

definition evaluate_retention :: "checkpoint_policy \<Rightarrow> evaluation_input \<Rightarrow> retention_decision res" where
  "evaluate_retention policy facts =
     bindE (match_prefix policy (ev_prefix facts)) (\<lambda>matched.
     case map_of (entries policy) (matched_id matched) of
       None \<Rightarrow> Inl (OtherExn ''KeyError'')
     | Some entry \<Rightarrow>
         bindE (refusals policy facts matched entry) (\<lambda>raw_codes.
         let codes = remdups_first raw_codes;
             anchor = retention_anchor entry (ev_lease facts) (ev_terminal facts) (ev_inventory facts);
             after = safe_add_seconds anchor (retention_seconds entry)
         in bindE (dumps_res (plan_payload policy facts matched entry codes)) (\<lambda>json.
            if int (length json) > max_summary_bytes (bounds policy) then Inl (PolicyError ''summary_bound_exceeded'')
            else Inr \<lparr>eligible = (codes = []), refusal_codes = codes, retention_anchor_at = anchor,
                      eligible_after = after, dec_policy_sha256 = policy_sha256 policy,
                      plan_json = json, plan_sha256 = sha256 json\<rparr>)))"

end
