(* ===== verification/Records.thy ===== *)
theory Records
  imports Clock Digest JsonSize
begin

text \<open>
  \<^verbatim>\<open>scripts/checkpoints/records.py\<close>: canonical, bounded records.  The node counter that the
  source keeps in a one-element list is threaded through the recursion; a Python \<^verbatim>\<open>datetime\<close>
  of an accepted object record is exact UTC and is kept as its seconds.  An accepted plan keeps its
  summary frozen (lists as tuples), its shards, its body and its digest.
\<close>

section \<open>Patterns and data\<close>

definition etag_pattern :: "string \<Rightarrow> bool" where
  \<comment> \<open>\<^verbatim>\<open>[0-9a-f]{32}(?:-[1-9][0-9]{0,9})?\<close>\<close>
  "etag_pattern s \<longleftrightarrow>
     match_classes (hex_classes 32) (take 32 s) \<and>
     (case drop 32 s of
        [] \<Rightarrow> True
      | c # r \<Rightarrow> c = CHR ''-'' \<and> r \<noteq> [] \<and> digit_char (hd r) \<and> hd r \<noteq> CHR ''0'' \<and> length r \<le> 10 \<and> list_all digit_char (tl r))"

definition hex64 :: "string \<Rightarrow> bool" where
  \<comment> \<open>\<^verbatim>\<open>_SHA256\<close>\<close>
  "hex64 s \<longleftrightarrow> match_classes (hex_classes 64) s"

definition max_json_bytes :: int where "max_json_bytes = 65536"
definition max_json_depth :: int where "max_json_depth = 16"
definition max_json_nodes :: int where "max_json_nodes = 4096"

record object_record =
  or_key :: string
  or_etag :: string
  or_size :: int
  or_modified :: int

record manifest_shard =
  ms_index :: int
  ms_records :: "object_record list"
  ms_body :: string
  ms_sha256 :: string

record plan_artifact =
  pa_summary :: pydict
  pa_shards :: "manifest_shard list"
  pa_body :: string
  pa_sha256 :: string

definition safe_key :: "pyval \<Rightarrow> bool" where
  "safe_key v =
     (case v of
        PStr s \<Rightarrow>
          s \<noteq> [] \<and> \<not> startswith s ''/'' \<and> \<not> endswith s ''/'' \<and> int (length (utf8_encode s)) \<le> 1024 \<and>
          list_all (\<lambda>part. part \<notin> {[], ''.'', ''..''}) (split_char (CHR ''/'') s) \<and>
          \<not> contains_sub [CHR 0x5C] s \<and> list_all (\<lambda>c. 32 \<le> (of_char c :: nat) \<and> (of_char c :: nat) \<noteq> 127) s
      | _ \<Rightarrow> False)"

definition make_object_record :: "pyval \<Rightarrow> pyval \<Rightarrow> pyval \<Rightarrow> pyval \<Rightarrow> object_record res" where
  \<comment> \<open>\<^verbatim>\<open>ObjectRecord(...)\<close> with \<^verbatim>\<open>__post_init__\<close>\<close>
  "make_object_record key etag sz modified =
     (if \<not> safe_key key then Inl (RecordFailure ''object_key_invalid'')
      else if \<not> is_str etag \<or> \<not> etag_pattern (str_val etag) then Inl (RecordFailure ''object_etag_invalid'')
      else if \<not> is_int sz \<or> int_val sz \<le> 0 then Inl (RecordFailure ''object_size_invalid'')
      else if \<not> is_exact_utc modified then Inl (RecordFailure ''object_timestamp_invalid'')
      else Inr \<lparr>or_key = str_val key, or_etag = str_val etag, or_size = int_val sz, or_modified = utc_secs modified\<rparr>)"

definition record_ok :: "object_record \<Rightarrow> bool" where
  \<comment> \<open>what \<^verbatim>\<open>__post_init__\<close> guarantees\<close>
  "record_ok r \<longleftrightarrow> safe_key (PStr (or_key r)) \<and> etag_pattern (or_etag r) \<and> 0 < or_size r"

definition record_json :: "object_record \<Rightarrow> pyval" where
  \<comment> \<open>\<^verbatim>\<open>ObjectRecord.as_json\<close>\<close>
  "record_json r = PDict (sdict
     [(''etag'', PStr (or_etag r)), (''key'', PStr (or_key r)),
      (''last_modified'', PStr (format_utc (or_modified r))), (''size_bytes'', PInt (or_size r))])"

section \<open>Canonical JSON\<close>

function normalize_json :: "pyval \<Rightarrow> int \<Rightarrow> int \<Rightarrow> int \<Rightarrow> (pyval \<times> int) res"
  and normalize_list :: "pyval list \<Rightarrow> int \<Rightarrow> int \<Rightarrow> int \<Rightarrow> (pyval list \<times> int) res"
  and normalize_items :: "pydict \<Rightarrow> int \<Rightarrow> int \<Rightarrow> int \<Rightarrow> (pydict \<times> int) res"
where
  "normalize_json v depth nodes max_nodes =
     (let n = nodes + 1
      in if n > max_nodes \<or> depth > max_json_depth then Inl (RecordFailure ''json_structure_bound'')
         else case v of
                PNone \<Rightarrow> Inr (v, n)
              | PBool _ \<Rightarrow> Inr (v, n)
              | PInt _ \<Rightarrow> Inr (v, n)
              | PStr _ \<Rightarrow> Inr (v, n)
              | PFloat _ \<Rightarrow> Inl (RecordFailure ''json_number_invalid'')
              | PDict d \<Rightarrow>
                  if list_all is_str (map fst d)
                  then bindE (normalize_items d (depth + 1) n max_nodes) (\<lambda>(d', n'). Inr (PDict d', n'))
                  else Inl (RecordFailure ''json_key_invalid'')
              | PList xs \<Rightarrow> bindE (normalize_list xs (depth + 1) n max_nodes) (\<lambda>(ys, n'). Inr (PList ys, n'))
              | PTuple xs \<Rightarrow> bindE (normalize_list xs (depth + 1) n max_nodes) (\<lambda>(ys, n'). Inr (PList ys, n'))
              | _ \<Rightarrow> Inl (RecordFailure ''json_value_invalid''))"
| "normalize_list [] depth nodes max_nodes = Inr ([], nodes)"
| "normalize_list (x # xs) depth nodes max_nodes =
     bindE (normalize_json x depth nodes max_nodes) (\<lambda>(y, n).
     bindE (normalize_list xs depth n max_nodes) (\<lambda>(ys, n'). Inr (y # ys, n')))"
| "normalize_items [] depth nodes max_nodes = Inr ([], nodes)"
| "normalize_items ((k, x) # d) depth nodes max_nodes =
     bindE (normalize_json x depth nodes max_nodes) (\<lambda>(y, n).
     bindE (normalize_items d depth n max_nodes) (\<lambda>(d', n'). Inr ((k, y) # d', n')))"
  by pat_completeness auto
termination
  by (relation "measure (\<lambda>x. case x of
        Inl (v, _) \<Rightarrow> size v
      | Inr (Inl (xs, _)) \<Rightarrow> size_list size xs
      | Inr (Inr (d, _)) \<Rightarrow> size_list (size_prod size size) d)") auto

definition canonical_json_bytes :: "pyval \<Rightarrow> int \<Rightarrow> int \<Rightarrow> string res" where
  "canonical_json_bytes v max_len max_nodes =
     (if max_len < 2 \<or> max_nodes < 1 then Inl (RecordFailure ''json_bound_invalid'')
      else bindE (normalize_json v 0 0 max_nodes) (\<lambda>(w, _).
        if \<not> ints_ok w then Inl (RecordFailure ''json_value_invalid'')
        else let body = dumps w
             in if int (length body) > max_len then Inl (RecordFailure ''json_body_too_large'') else Inr body))"

definition canonical_json :: "pyval \<Rightarrow> string res" where
  \<comment> \<open>\<^verbatim>\<open>canonical_json_bytes(value)\<close> with its default bounds\<close>
  "canonical_json v = canonical_json_bytes v max_json_bytes max_json_nodes"

function check_decoded_bounds :: "pyval \<Rightarrow> int \<Rightarrow> int \<Rightarrow> int \<Rightarrow> int \<Rightarrow> int res"
  and check_list_bounds :: "pyval list \<Rightarrow> int \<Rightarrow> int \<Rightarrow> int \<Rightarrow> int \<Rightarrow> int res"
  and check_item_bounds :: "pydict \<Rightarrow> int \<Rightarrow> int \<Rightarrow> int \<Rightarrow> int \<Rightarrow> int res"
where
  "check_decoded_bounds v max_depth depth nodes max_nodes =
     (let n = nodes + 1
      in if n > max_nodes \<or> depth > max_depth then Inl (RecordFailure ''json_structure_bound'')
         else case v of
                PDict d \<Rightarrow> check_item_bounds d max_depth (depth + 1) n max_nodes
              | PList xs \<Rightarrow> check_list_bounds xs max_depth (depth + 1) n max_nodes
              | PNone \<Rightarrow> Inr n
              | PBool _ \<Rightarrow> Inr n
              | PInt _ \<Rightarrow> Inr n
              | PStr _ \<Rightarrow> Inr n
              | _ \<Rightarrow> Inl (RecordFailure ''json_value_invalid''))"
| "check_list_bounds [] max_depth depth nodes max_nodes = Inr nodes"
| "check_list_bounds (x # xs) max_depth depth nodes max_nodes =
     bindE (check_decoded_bounds x max_depth depth nodes max_nodes) (\<lambda>n. check_list_bounds xs max_depth depth n max_nodes)"
| "check_item_bounds [] max_depth depth nodes max_nodes = Inr nodes"
| "check_item_bounds ((k, x) # d) max_depth depth nodes max_nodes =
     (if \<not> is_str k then Inl (RecordFailure ''json_key_invalid'')
      else bindE (check_decoded_bounds x max_depth depth nodes max_nodes) (\<lambda>n. check_item_bounds d max_depth depth n max_nodes))"
  by pat_completeness auto
termination
  by (relation "measure (\<lambda>x. case x of
        Inl (v, _) \<Rightarrow> size v
      | Inr (Inl (xs, _)) \<Rightarrow> size_list size xs
      | Inr (Inr (d, _)) \<Rightarrow> size_list (size_prod size size) d)") auto

section \<open>Decoding\<close>

datatype pytype = TNone | TBool | TInt | TStr | TList | TDict

fun has_type :: "pyval \<Rightarrow> pytype \<Rightarrow> bool" where
  \<comment> \<open>\<^verbatim>\<open>type(v) is t\<close>\<close>
  "has_type PNone t = (t = TNone)"
| "has_type (PBool _) t = (t = TBool)"
| "has_type (PInt _) t = (t = TInt)"
| "has_type (PStr _) t = (t = TStr)"
| "has_type (PList _) t = (t = TList)"
| "has_type (PDict _) t = (t = TDict)"
| "has_type _ t = False"

type_synonym schema = "(string \<times> pytype list) list"

definition json_failures :: "string list" where
  "json_failures = [''UnicodeError'', ''JSONDecodeError'', ''RecursionError'']"

fun json_error_to :: "string list \<Rightarrow> string \<Rightarrow> exn \<Rightarrow> exn" where
  \<comment> \<open>\<^verbatim>\<open>except (names): raise RecordFailure(code)\<close>\<close>
  "json_error_to names code (OtherExn n) = (if n \<in> set names then RecordFailure code else OtherExn n)"
| "json_error_to names code e = e"

definition catchE :: "'a res \<Rightarrow> (exn \<Rightarrow> exn) \<Rightarrow> 'a res" where
  "catchE r h = (case r of Inl e \<Rightarrow> Inl (h e) | Inr x \<Rightarrow> Inr x)"

fun check_schema :: "pydict \<Rightarrow> schema \<Rightarrow> unit res" where
  "check_schema d [] = Inr ()"
| "check_schema d ((k, ts) # sch) =
     (if list_ex (has_type (dget_none d k)) ts then check_schema d sch
      else Inl (RecordFailure ''json_field_type_invalid''))"

definition decode_exact_json :: "string \<Rightarrow> schema \<Rightarrow> int \<Rightarrow> int \<Rightarrow> pydict res" where
  "decode_exact_json body sch max_len max_depth =
     (if int (length body) > max_len then Inl (RecordFailure ''json_body_too_large'')
      else if max_depth < 1 then Inl (RecordFailure ''json_bound_invalid'')
      else bindE (catchE (loads (unique_object (RecordFailure ''json_duplicate_key''))
                            (Inl (RecordFailure ''json_number_invalid'')) body)
                    (json_error_to json_failures ''json_invalid'')) (\<lambda>decoded.
           bindE (check_decoded_bounds decoded max_depth 0 0 max_json_nodes) (\<lambda>_.
           case decoded of
             PDict d \<Rightarrow>
               if \<not> keys_exactly d (map fst sch) then Inl (RecordFailure ''json_unknown_or_missing_field'')
               else bindE (check_schema d sch) (\<lambda>_. Inr d)
           | _ \<Rightarrow> Inl (RecordFailure ''json_shape_invalid''))))"

section \<open>Inventories and shards\<close>

definition canonical_records :: "object_record list \<Rightarrow> object_record list res" where
  "canonical_records rs =
     (let ordered = sort_key (\<lambda>r. utf8_encode (or_key r)) rs
      in if list_ex (\<lambda>(l, r). or_key l = or_key r) (zip ordered (tl ordered))
         then Inl (RecordFailure ''duplicate_object'') else Inr ordered)"

fun join_comma :: "string list \<Rightarrow> string" where
  "join_comma [] = []"
| "join_comma (b # bs) = b @ (if bs = [] then [] else '','' @ join_comma bs)"

definition inventory_sha256 :: "object_record list \<Rightarrow> string res" where
  "inventory_sha256 rs =
     bindE (canonical_records rs) (\<lambda>ordered.
     bindE (mapE (\<lambda>r. canonical_json (record_json r)) ordered) (\<lambda>bodies.
     Inr (sha256 (''['' @ join_comma bodies @ '']''))))"

fun shard_groups ::
  "int \<Rightarrow> (object_record \<times> string) list \<Rightarrow> object_record list list \<Rightarrow> object_record list \<Rightarrow> int \<Rightarrow> object_record list list res" where
  \<comment> \<open>the grouping loop: finished groups, the current group and its encoded sz\<close>
  "shard_groups max_len [] groups current sz = Inr (if current = [] then groups else groups @ [current])"
| "shard_groups max_len ((r, b) # rest) groups current sz =
     (if int (length b) + 2 > max_len then Inl (RecordFailure ''record_exceeds_shard_bound'')
      else if current \<noteq> [] \<and> sz + int (length b) + 1 > max_len
      then shard_groups max_len rest (groups @ [current]) [r] (2 + int (length b))
      else shard_groups max_len rest groups (current @ [r])
             (sz + int (length b) + (if current = [] then 0 else 1)))"

definition make_shard :: "int \<Rightarrow> int \<times> object_record list \<Rightarrow> manifest_shard res" where
  "make_shard max_len = (\<lambda>(index, group).
     bindE (canonical_json_bytes (PList (map record_json group)) max_len (max 4096 (int (length group) * 6 + 1))) (\<lambda>body.
     Inr \<lparr>ms_index = index, ms_records = group, ms_body = body, ms_sha256 = sha256 body\<rparr>))"

fun enum_from :: "int \<Rightarrow> 'a list \<Rightarrow> (int \<times> 'a) list" where
  "enum_from i [] = []"
| "enum_from i (x # xs) = (i, x) # enum_from (i + 1) xs"

definition shard_inventory :: "object_record list \<Rightarrow> int \<Rightarrow> manifest_shard list res" where
  "shard_inventory rs max_len =
     (if max_len < 2 then Inl (RecordFailure ''shard_bound_invalid'')
      else bindE (canonical_records rs) (\<lambda>ordered.
           bindE (mapE (\<lambda>r. canonical_json (record_json r)) ordered) (\<lambda>encoded.
           bindE (shard_groups max_len (zip ordered encoded) [] [] 2) (\<lambda>groups.
           mapE (make_shard max_len) (enum_from 0 groups)))))"

section \<open>Plan artifacts\<close>

function deep_freeze :: "pyval \<Rightarrow> pyval res"
  and freeze_list :: "pyval list \<Rightarrow> pyval list res"
  and freeze_mapping :: "pydict \<Rightarrow> pydict res"
where
  "deep_freeze v =
     (case v of
        PDict d \<Rightarrow>
          if list_all is_str (map fst d) then bindE (freeze_mapping d) (\<lambda>d'. Inr (PDict d'))
          else Inl (RecordFailure ''mapping_invalid'')
      | PList xs \<Rightarrow> bindE (freeze_list xs) (\<lambda>ys. Inr (PTuple ys))
      | PTuple xs \<Rightarrow> bindE (freeze_list xs) (\<lambda>ys. Inr (PTuple ys))
      | PNone \<Rightarrow> Inr v | PBool _ \<Rightarrow> Inr v | PInt _ \<Rightarrow> Inr v | PStr _ \<Rightarrow> Inr v
      | _ \<Rightarrow> Inl (RecordFailure ''mapping_invalid''))"
| "freeze_list [] = Inr []"
| "freeze_list (x # xs) = bindE (deep_freeze x) (\<lambda>y. bindE (freeze_list xs) (\<lambda>ys. Inr (y # ys)))"
| "freeze_mapping [] = Inr []"
| "freeze_mapping ((k, x) # d) = bindE (deep_freeze x) (\<lambda>y. bindE (freeze_mapping d) (\<lambda>d'. Inr ((k, y) # d')))"
  by pat_completeness auto
termination
  by (relation "measure (\<lambda>x. case x of
        Inl v \<Rightarrow> size v
      | Inr (Inl xs) \<Rightarrow> size_list size xs
      | Inr (Inr d) \<Rightarrow> size_list (size_prod size size) d)") auto

definition make_plan_artifact :: "pydict \<Rightarrow> manifest_shard list \<Rightarrow> string \<Rightarrow> string \<Rightarrow> plan_artifact res" where
  \<comment> \<open>\<^verbatim>\<open>PlanArtifact(...)\<close> with \<^verbatim>\<open>__post_init__\<close>\<close>
  "make_plan_artifact summary shards body digest =
     (if \<not> hex64 digest then Inl (RecordFailure ''plan_body_invalid'')
      else if sha256 body \<noteq> digest then Inl (RecordFailure ''plan_digest_mismatch'')
      else if \<not> list_all is_str (map fst summary) then Inl (RecordFailure ''mapping_invalid'')
      else bindE (freeze_mapping summary) (\<lambda>frozen.
        Inr \<lparr>pa_summary = frozen, pa_shards = shards, pa_body = body, pa_sha256 = digest\<rparr>))"

definition decode_record :: "pyval \<Rightarrow> object_record res" where
  "decode_record v =
     (case v of
        PDict d \<Rightarrow>
          if \<not> keys_exactly d [''etag'', ''key'', ''last_modified'', ''size_bytes'']
          then Inl (RecordFailure ''object_record_invalid'')
          else (case parse_utc (dget_none d ''last_modified'') of
                  None \<Rightarrow> Inl (RecordFailure ''object_timestamp_invalid'')
                | Some t \<Rightarrow> make_object_record (dget_none d ''key'') (dget_none d ''etag'') (dget_none d ''size_bytes'') (utc t))
      | _ \<Rightarrow> Inl (RecordFailure ''object_record_invalid''))"

definition decode_shard :: "int \<Rightarrow> int \<Rightarrow> int \<times> pyval \<Rightarrow> manifest_shard res" where
  "decode_shard max_shard max_nodes = (\<lambda>(index, raw).
     case raw of
       PList items \<Rightarrow>
         if items = [] then Inl (RecordFailure ''plan_shards_invalid'')
         else bindE (mapE decode_record items) (\<lambda>rs.
              bindE (canonical_records rs) (\<lambda>ordered.
              if rs \<noteq> ordered then Inl (RecordFailure ''plan_shard_order_invalid'')
              else bindE (canonical_json_bytes raw max_shard max_nodes) (\<lambda>body.
                   Inr \<lparr>ms_index = index, ms_records = ordered, ms_body = body, ms_sha256 = sha256 body\<rparr>)))
     | _ \<Rightarrow> Inl (RecordFailure ''plan_shards_invalid''))"

definition decode_plan_value :: "string \<Rightarrow> int \<Rightarrow> int \<Rightarrow> int \<Rightarrow> pyval \<Rightarrow> plan_artifact res" where
  \<comment> \<open>\<^verbatim>\<open>decode_plan_artifact\<close> after the text has been read\<close>
  "decode_plan_value body max_body max_shard max_nodes v =
     (case v of
        PDict d \<Rightarrow>
          (if \<not> keys_exactly d [''schema_version'', ''shards'', ''summary''] \<or>
              \<not> py_eq (dget_none d ''schema_version'') (PInt 1) \<or> \<not> is_dict (dget_none d ''summary'') \<or>
              \<not> is_list (dget_none d ''shards'') \<or> list_val (dget_none d ''shards'') = []
           then Inl (RecordFailure ''plan_shape_invalid'')
           else bindE (check_decoded_bounds v max_json_depth 0 0 max_nodes) (\<lambda>_.
                bindE (canonical_json_bytes v max_body max_nodes) (\<lambda>canonical.
                if canonical \<noteq> body then Inl (RecordFailure ''plan_canonical_invalid'')
                else bindE (mapE (decode_shard max_shard max_nodes) (enum_from 0 (list_val (dget_none d ''shards'')))) (\<lambda>shards.
                     let expected = dget_none (dict_val (dget_none d ''summary'')) ''manifest_shards''
                     in if \<not> is_list expected \<or> \<not> py_eq expected (PList (map (\<lambda>s. PStr (ms_sha256 s)) shards))
                        then Inl (RecordFailure ''plan_manifest_mismatch'')
                        else make_plan_artifact (dict_val (dget_none d ''summary'')) shards body (sha256 body)))))
      | _ \<Rightarrow> Inl (RecordFailure ''plan_shape_invalid''))"

definition plan_failures :: "string list" where
  "plan_failures = [''KeyError'', ''TypeError'', ''ValueError'', ''UnicodeError'', ''JSONDecodeError'', ''RecursionError'']"

definition decode_plan_artifact :: "string \<Rightarrow> int \<Rightarrow> int \<Rightarrow> int \<Rightarrow> plan_artifact res" where
  "decode_plan_artifact body max_body max_shard max_nodes =
     (if int (length body) > max_body then Inl (RecordFailure ''plan_body_invalid'')
      else catchE
             (bindE (loads (unique_object (RecordFailure ''json_duplicate_key'')) (Inr (PFloat None)) body)
                (decode_plan_value body max_body max_shard max_nodes))
             (json_error_to plan_failures ''plan_body_invalid''))"

end
