(* ===== verification/Gateway.thy ===== *)
theory Gateway
  imports Effects Evaluate Records
begin

text \<open>
  \<^verbatim>\<open>scripts/checkpoints/s3_gateway.py\<close>: the bounded S3 operations.  The S3 client is the
  environment's \<open>env_s3\<close>; every answer is an arbitrary value or exception and is checked as the
  source checks it.  \<open>chk\<close> is the deadline check that \<^verbatim>\<open>operation_deadline\<close> installs for
  the current operation (\<open>retA ()\<close> outside one).  The paging loop of \<^verbatim>\<open>inventory\<close> recurses
  on the number of pages still allowed: with none left the next page raises
  \<^verbatim>\<open>inventory_page_bound\<close>, as in the source.
\<close>

section \<open>Keys\<close>

fun strip_prefix :: "string \<Rightarrow> string \<Rightarrow> string option" where
  "strip_prefix [] s = Some s"
| "strip_prefix (p # ps) [] = None"
| "strip_prefix (p # ps) (c # s) = (if p = c then strip_prefix ps s else None)"

definition after_prefix :: "string \<Rightarrow> string \<Rightarrow> (string \<Rightarrow> bool) \<Rightarrow> bool" where
  "after_prefix p s k = (case strip_prefix p s of None \<Rightarrow> False | Some r \<Rightarrow> k r)"

definition lower_id_json :: "string \<Rightarrow> bool" where
  \<comment> \<open>\<^verbatim>\<open>[a-z0-9][a-z0-9_-]{0,127}\.json\<close>\<close>
  "lower_id_json s \<longleftrightarrow> endswith s ''.json'' \<and>
     (let n = take (length s - 5) s
      in n \<noteq> [] \<and> length n \<le> 128 \<and> (lower_char (hd n) \<or> digit_char (hd n)) \<and>
         list_all (\<lambda>c. lower_char c \<or> digit_char c \<or> c \<in> set ''_-'') (tl n))"

definition hex_dash :: "char \<Rightarrow> bool" where
  "hex_dash c \<longleftrightarrow> hex_char c \<or> c = CHR ''-''"

definition uuid_any :: "(char \<Rightarrow> bool) list" where
  \<comment> \<open>\<^verbatim>\<open>[0-9a-f]{8}-[0-9a-f]{4}-[1-5][0-9a-f]{3}-[89ab][0-9a-f]{3}-[0-9a-f]{12}\<close>\<close>
  "uuid_any = uuid_classes (\<lambda>c. c \<in> set ''12345'')"

definition manifest_tail :: "string \<Rightarrow> bool" where
  \<comment> \<open>\<^verbatim>\<open>[0-9]+-[0-9a-f]{64}\.json\<close>\<close>
  "manifest_tail s =
     (let ds = takeWhile digit_char s
      in ds \<noteq> [] \<and> match_classes (lit ''-'' @ hex_classes 64 @ lit ''.json'') (drop (length ds) s))"

definition tombstone_tail :: "string \<Rightarrow> bool" where
  "tombstone_tail s \<longleftrightarrow>
     match_classes (replicate 36 hex_dash @ lit ''/'') (take 37 s) \<and>
     (let r = drop 37 s
      in after_prefix ''manifest/'' r manifest_tail \<or> r = ''prepared.json'' \<or>
         match_classes (lit ''results/attempts/'' @ replicate 6 digit_char @ lit ''-'' @ hex_classes 64 @ lit ''.json'') r \<or>
         match_classes (lit ''results/shards/'' @ hex_classes 64 @ lit ''.json'') r)"

definition control_key :: "string \<Rightarrow> bool" where
  \<comment> \<open>\<^verbatim>\<open>_CONTROL_KEY.fullmatch\<close>\<close>
  "control_key s \<longleftrightarrow> after_prefix ''_retention/'' s (\<lambda>r.
     after_prefix ''leases/'' r lower_id_json \<or> after_prefix ''terminals/'' r lower_id_json \<or>
     after_prefix ''tombstones/'' r tombstone_tail \<or>
     match_classes (lit ''audits/'' @ uuid_any @ lit ''/'' @ uuid_classes (is_char (CHR ''5'')) @ lit ''.json'') r \<or>
     match_classes (lit ''capability/'' @ uuid_classes (is_char (CHR ''4'')) @ lit ''.json'') r)"

definition validate_control_key :: "string \<Rightarrow> unit res" where
  "validate_control_key key = guardE (\<not> isascii key \<or> \<not> control_key key) (gateway_failure ''control_key_invalid'')"

definition parse_etag :: "pyval \<Rightarrow> string res" where
  "parse_etag v =
     (case v of
        PStr s \<Rightarrow>
          (let q = [CHR 0x22];
               n = (if length s \<ge> 2 \<and> startswith s q \<and> endswith s q then butlast (tl s) else s)
           in if etag_pattern n then Inr n else Inl (RecordFailure ''object_etag_invalid''))
      | _ \<Rightarrow> Inl (RecordFailure ''object_etag_invalid''))"

definition normalize_s3_timestamp :: "pyval \<Rightarrow> pyval res" where
  "normalize_s3_timestamp v =
     (case v of
        PDatetime d \<Rightarrow> if dt_offset d = Some 0 then Inr (utc (dt_secs d)) else Inl (RecordFailure ''object_timestamp_invalid'')
      | _ \<Rightarrow> Inl (RecordFailure ''object_timestamp_invalid''))"

definition entry_data_prefix :: "string \<Rightarrow> string \<Rightarrow> string" where
  \<comment> \<open>the prefix of \<open>key\<close> that an entry with the given template claims, empty for none\<close>
  "entry_data_prefix template key =
     (if contains_sub ''{run_uuid}'' template then
        (if match_classes (lit ''streaming_test/'' @ replicate 36 hex_dash @ lit ''/'') (take 52 key) then take 52 key else [])
      else if contains_sub ''{scale}'' template then
        (case find (\<lambda>sc. match_classes (generation_classes sc) (take (length (generation_classes sc)) key))
                [''tiny'', ''small'', ''medium''] of
           None \<Rightarrow> [] | Some sc \<Rightarrow> take (length (generation_classes sc)) key)
      else if startswith key template then template else [])"

fun data_key_entries :: "checkpoint_policy \<Rightarrow> (string \<times> checkpoint_entry) list \<Rightarrow> string \<Rightarrow> string res" where
  "data_key_entries policy [] key = Inl (gateway_failure ''data_key_invalid'')"
| "data_key_entries policy ((_, e) # es) key =
     (let p = entry_data_prefix (entry_prefix e) key
      in if p \<noteq> [] \<and> key \<noteq> p
         then (case match_prefix policy (PStr p) of
                 Inr _ \<Rightarrow> Inr p
               | Inl (PolicyError _) \<Rightarrow> Inl (gateway_failure ''data_key_invalid'')
               | Inl x \<Rightarrow> Inl x)
         else data_key_entries policy es key)"

definition validate_data_key :: "checkpoint_policy \<Rightarrow> string \<Rightarrow> string res" where
  "validate_data_key policy key = data_key_entries policy (entries policy) key"

section \<open>Deadlines\<close>

definition gateway_check_deadline :: "'w env \<Rightarrow> checkpoint_policy \<Rightarrow> rat \<Rightarrow> ('w, unit) act" where
  "gateway_check_deadline env policy started =
     bindA (mapexnA (env_monotonic env) (else_code (gateway_failure ''clock_failed''))) (\<lambda>t.
     guardA (t - started < 0 \<or> t - started > of_int (max_active_seconds (bounds policy))) (gateway_failure ''gateway_deadline''))"

section \<open>Inventory\<close>

definition inventory_record :: "string \<Rightarrow> pyval \<Rightarrow> object_record res" where
  "inventory_record prefix item =
     (case item of
        PDict d \<Rightarrow>
          (case dget_none d ''Key'' of
             PStr key \<Rightarrow>
               if \<not> startswith key prefix \<or> key = prefix then Inl (gateway_failure ''inventory_prefix_escape'')
               else catchE
                      (bindE (parse_etag (dget_none d ''ETag'')) (\<lambda>etag.
                       bindE (normalize_s3_timestamp (dget_none d ''LastModified'')) (\<lambda>t.
                       make_object_record (PStr key) (PStr etag) (dget_none d ''Size'') t)))
                      (\<lambda>e. if is_record e then gateway_failure ''inventory_record_invalid'' else e)
           | _ \<Rightarrow> Inl (gateway_failure ''inventory_prefix_escape''))
      | _ \<Rightarrow> Inl (gateway_failure ''inventory_record_invalid''))"

fun inventory_items :: "checkpoint_policy \<Rightarrow> string \<Rightarrow> pyval list \<Rightarrow> object_record list \<Rightarrow> int \<Rightarrow> (object_record list \<times> int) res" where
  "inventory_items policy prefix [] rs bytes_sum = Inr (rs, bytes_sum)"
| "inventory_items policy prefix (item # items) rs bytes_sum =
     bindE (inventory_record prefix item) (\<lambda>r.
       if int (length rs) + 1 > max_objects (bounds policy) then Inl (gateway_failure ''inventory_object_bound'')
       else if bytes_sum + or_size r > max_bytes (bounds policy) then Inl (gateway_failure ''inventory_byte_bound'')
       else inventory_items policy prefix items (rs @ [r]) (bytes_sum + or_size r))"

definition inventory_page ::
  "'w env \<Rightarrow> checkpoint_policy \<Rightarrow> ('w, unit) act \<Rightarrow> rat \<Rightarrow> string \<Rightarrow> string option \<Rightarrow> ('w, pyval) act" where
  \<comment> \<open>one request of the paging loop, between its deadline checks\<close>
  "inventory_page env policy chk started prefix token =
     seqA (gateway_check_deadline env policy started) (
     seqA chk (
     bindA (mapexnA (env_s3 env (ListObjectsV2 (bucket policy) prefix 1000 token))
              (else_code (gateway_failure ''inventory_failed''))) (\<lambda>page.
     seqA chk (
     seqA (gateway_check_deadline env policy started) (retA page)))))"

fun inventory_pages ::
  "'w env \<Rightarrow> checkpoint_policy \<Rightarrow> ('w, unit) act \<Rightarrow> rat \<Rightarrow> string \<Rightarrow> nat \<Rightarrow> string option \<Rightarrow> string list \<Rightarrow>
   object_record list \<Rightarrow> int \<Rightarrow> ('w, object_record list) act" where
  \<comment> \<open>the loop of \<^verbatim>\<open>inventory\<close> with the given number of further pages allowed\<close>
  "inventory_pages env policy chk started prefix 0 token seen rs bytes_sum =
     bindA (inventory_page env policy chk started prefix token) (\<lambda>_. raiseA (gateway_failure ''inventory_page_bound''))"
| "inventory_pages env policy chk started prefix (Suc m) token seen rs bytes_sum =
     bindA (inventory_page env policy chk started prefix token) (\<lambda>page.
     case page of
       PDict d \<Rightarrow>
         (case dget_or d ''Contents'' (PList []) of
            PList contents \<Rightarrow>
              bindA (liftA (inventory_items policy prefix contents rs bytes_sum)) (\<lambda>(rs', bytes_sum').
              case dget_none d ''IsTruncated'' of
                PBool truncated \<Rightarrow>
                  if \<not> truncated then retA rs'
                  else (case dget_none d ''NextContinuationToken'' of
                          PStr next \<Rightarrow>
                            if next = [] then raiseA (gateway_failure ''inventory_token_missing'')
                            else if Some next = token \<or> next \<in> set seen
                            then raiseA (gateway_failure ''inventory_token_nonprogress'')
                            else inventory_pages env policy chk started prefix m (Some next) (next # seen) rs' bytes_sum'
                        | _ \<Rightarrow> raiseA (gateway_failure ''inventory_token_missing''))
              | _ \<Rightarrow> raiseA (gateway_failure ''inventory_page_invalid''))
          | _ \<Rightarrow> raiseA (gateway_failure ''inventory_page_invalid''))
     | _ \<Rightarrow> raiseA (gateway_failure ''inventory_page_invalid''))"

definition s3_inventory :: "'w env \<Rightarrow> checkpoint_policy \<Rightarrow> ('w, unit) act \<Rightarrow> string \<Rightarrow> ('w, object_record list) act" where
  "s3_inventory env policy chk prefix =
     bindA (liftA (catchE (match_prefix policy (PStr prefix))
                     (\<lambda>e. if is_policy e then gateway_failure ''inventory_prefix_invalid'' else e))) (\<lambda>_.
     bindA (env_monotonic env) (\<lambda>started.
     bindA (inventory_pages env policy chk started prefix (nat (max_pages (bounds policy))) None [] [] 0) (\<lambda>rs.
     liftA (catchE (canonical_records rs) (\<lambda>e. case e of RecordFailure c \<Rightarrow> gateway_failure c | _ \<Rightarrow> e)))))"


section \<open>Control objects\<close>

definition control_bound :: "checkpoint_policy \<Rightarrow> string \<Rightarrow> int" where
  "control_bound policy key =
     (if contains_sub ''/manifest/'' key \<or> contains_sub ''/results/shards/'' key
      then max_manifest_shard_bytes (bounds policy) else max_summary_bytes (bounds policy))"

definition client_error_in :: "pyval \<Rightarrow> string list \<Rightarrow> bool res" where
  \<comment> \<open>\<^verbatim>\<open>error.response.get("Error", {}).get("Code") in codes\<close>, with \<^verbatim>\<open>None\<close> for a response that is no mapping\<close>
  "client_error_in response codes =
     (case response of
        PDict d \<Rightarrow>
          (case dget_or d ''Error'' (PDict []) of
             PDict e \<Rightarrow>
               (let code = dget_none e ''Code''
                in if unhashable code then Inl (OtherExn ''TypeError'') else Inr (is_str code \<and> str_val code \<in> set codes))
           | _ \<Rightarrow> Inl (OtherExn ''AttributeError''))
      | _ \<Rightarrow> Inr False)"

definition get_control :: "'w env \<Rightarrow> checkpoint_policy \<Rightarrow> string \<Rightarrow> ('w, pyval) act" where
  \<comment> \<open>\<^verbatim>\<open>get_object\<close> and the handlers around it\<close>
  "get_control env policy key =
     tryA (env_s3 env (GetObject (bucket policy) key))
       (\<lambda>e. case e of
              ClientError response \<Rightarrow>
                bindA (liftA (client_error_in response [''NoSuchKey'', ''NoSuchObject'', ''404''])) (\<lambda>missing.
                raiseA (gateway_failure (if missing then ''control_missing'' else ''control_read_failed'')))
            | _ \<Rightarrow> raiseA (else_code (gateway_failure ''control_read_failed'') e))
       retA"

definition read_body :: "('w, unit) act \<Rightarrow> pydict \<Rightarrow> int \<Rightarrow> ('w, string \<times> string) act" where
  \<comment> \<open>the guarded block of \<^verbatim>\<open>read_control\<close>\<close>
  "read_body chk d max_len =
     seqA chk (
     case dget_none d ''Body'' of
       PStream content _ \<Rightarrow>
         (case dget_none d ''ContentLength'' of
            PInt n \<Rightarrow>
              if n < 0 \<or> n > max_len then raiseA (gateway_failure ''control_body_bound'')
              else (case content of
                      None \<Rightarrow> raiseA (OtherExn ''OSError'')
                    | Some bs \<Rightarrow>
                        (let body = take (nat (max_len + 1)) bs
                         in if int (length body) \<noteq> n \<or> int (length body) > max_len
                            then raiseA (gateway_failure ''control_body_invalid'')
                            else bindA (liftA (parse_etag (dget_none d ''ETag''))) (\<lambda>etag. retA (body, etag))))
          | _ \<Rightarrow> raiseA (gateway_failure ''control_body_bound''))
     | _ \<Rightarrow> raiseA (gateway_failure ''control_response_invalid''))"

fun stream_closes :: "pyval \<Rightarrow> bool" where
  "stream_closes (PStream _ ok) = ok"
| "stream_closes _ = True"

definition read_control :: "'w env \<Rightarrow> checkpoint_policy \<Rightarrow> ('w, unit) act \<Rightarrow> string \<Rightarrow> int \<Rightarrow> ('w, string \<times> string) act" where
  "read_control env policy chk key max_len =
     bindA (liftA (validate_control_key key)) (\<lambda>_.
     seqA (guardA (max_len < 1 \<or> max_len > control_bound policy key) (gateway_failure ''control_bound_invalid'')) (
     seqA chk (
     bindA (get_control env policy key) (\<lambda>response.
     case response of
       PDict d \<Rightarrow>
         bindA (mapexnA (read_body chk d max_len)
                  (\<lambda>e. if e = Interrupt \<or> is_gateway e \<or> exn_code e = Some ''operation_deadline'' then e
                       else gateway_failure ''control_read_failed'')) (\<lambda>r.
         seqA (guardA (\<not> stream_closes (dget_none d ''Body'')) (gateway_failure ''control_close_failed'')) (
         seqA chk (retA r)))
     | _ \<Rightarrow> raiseA (gateway_failure ''control_response_invalid'')))))"

definition response_etag :: "pyval \<Rightarrow> string res" where
  \<comment> \<open>\<^verbatim>\<open>_parse_etag(response.get("ETag"))\<close>\<close>
  "response_etag response =
     (case response of PDict d \<Rightarrow> parse_etag (dget_none d ''ETag'') | _ \<Rightarrow> Inl (OtherExn ''AttributeError''))"

definition write_control ::
  "'w env \<Rightarrow> checkpoint_policy \<Rightarrow> ('w, unit) act \<Rightarrow> string \<Rightarrow> string \<Rightarrow> put_condition \<Rightarrow> ('w, string) act" where
  "write_control env policy chk key body condition =
     bindA (liftA (validate_control_key key)) (\<lambda>_.
     seqA (guardA (body = [] \<or> int (length body) > control_bound policy key) (gateway_failure ''control_body_bound'')) (
     seqA chk (
     bindA (mapexnA (bindA (env_s3 env (PutObject (bucket policy) key body condition)) (\<lambda>response. liftA (response_etag response)))
              (else_code (gateway_failure ''control_write_failed''))) (\<lambda>written.
     seqA chk (
     bindA (read_control env policy chk key (int (length body))) (\<lambda>(rbody, retag).
     if rbody \<noteq> body \<or> retag \<noteq> written then raiseA (gateway_failure ''control_readback_mismatch'') else retA written))))))"

definition create_control :: "'w env \<Rightarrow> checkpoint_policy \<Rightarrow> ('w, unit) act \<Rightarrow> string \<Rightarrow> string \<Rightarrow> ('w, string) act" where
  "create_control env policy chk key body = write_control env policy chk key body IfNoneMatch"

definition quoted :: "string \<Rightarrow> string" where
  "quoted s = [CHR 0x22] @ s @ [CHR 0x22]"

definition replace_lease :: "'w env \<Rightarrow> checkpoint_policy \<Rightarrow> ('w, unit) act \<Rightarrow> string \<Rightarrow> string \<Rightarrow> string \<Rightarrow> ('w, string) act" where
  "replace_lease env policy chk key etag body =
     seqA (guardA (\<not> etag_pattern etag) (gateway_failure ''control_etag_invalid'')) (
     write_control env policy chk key body (IfMatch (quoted etag)))"

definition listed_key :: "string \<Rightarrow> pyval \<Rightarrow> string res" where
  "listed_key prefix item =
     (case (case item of PDict d \<Rightarrow> dget_none d ''Key'' | _ \<Rightarrow> PNone) of
        PStr key \<Rightarrow>
          if \<not> startswith key prefix then Inl (gateway_failure ''control_list_invalid'')
          else bindE (validate_control_key key) (\<lambda>_. Inr key)
      | _ \<Rightarrow> Inl (gateway_failure ''control_list_invalid''))"

definition list_controls :: "'w env \<Rightarrow> checkpoint_policy \<Rightarrow> ('w, unit) act \<Rightarrow> string \<Rightarrow> int \<Rightarrow> ('w, string list) act" where
  "list_controls env policy chk prefix max_keys =
     seqA (guardA (\<not> isascii prefix \<or> \<not> startswith prefix ''_retention/'' \<or> max_keys < 1 \<or> max_keys > 1024)
             (gateway_failure ''control_prefix_invalid'')) (
     seqA chk (
     bindA (mapexnA (env_s3 env (ListObjectsV2 (bucket policy) prefix (max_keys + 1) None))
              (else_code (gateway_failure ''control_list_failed''))) (\<lambda>response.
     seqA chk (
     case response of
       PDict d \<Rightarrow>
         (case dget_or d ''Contents'' (PList []) of
            PList contents \<Rightarrow>
              if dget_none d ''IsTruncated'' \<noteq> PBool False \<or> int (length contents) > max_keys
              then raiseA (gateway_failure ''control_list_bound'')
              else bindA (liftA (mapE (listed_key prefix) contents)) (\<lambda>ks.
                   if distinct ks then retA (sort ks) else raiseA (gateway_failure ''control_list_invalid''))
          | _ \<Rightarrow> raiseA (gateway_failure ''control_list_bound''))
     | _ \<Rightarrow> raiseA (gateway_failure ''control_list_bound'')))))"

section \<open>Data objects\<close>

definition head_record :: "'w env \<Rightarrow> checkpoint_policy \<Rightarrow> ('w, unit) act \<Rightarrow> object_record \<Rightarrow> ('w, unit) act" where
  "head_record env policy chk r =
     bindA (liftA (validate_data_key policy (or_key r))) (\<lambda>_.
     seqA chk (
     bindA (mapexnA (bindA (env_s3 env (HeadObject (bucket policy) (or_key r))) (\<lambda>response.
                     bindA (liftA (response_etag response)) (\<lambda>etag. retA (dict_val response, etag))))
              (\<lambda>e. if is_gateway e then e else else_code (gateway_failure ''head_failed'') e)) (\<lambda>(d, etag).
     seqA chk (
     guardA (etag \<noteq> or_etag r \<or> \<not> py_eq (dget_none d ''ContentLength'') (PInt (or_size r)) \<or>
             \<not> py_eq (dget_none d ''LastModified'') (utc (or_modified r))) (gateway_failure ''head_mismatch'')))))"

fun py_distinct :: "pyval list \<Rightarrow> bool" where
  \<comment> \<open>\<^verbatim>\<open>len(xs) == len(set(xs))\<close>\<close>
  "py_distinct [] = True"
| "py_distinct (x # xs) = (\<not> list_ex (py_eq x) xs \<and> py_distinct xs)"

definition mapping_keys :: "pyval list \<Rightarrow> pyval list" where
  \<comment> \<open>\<^verbatim>\<open>tuple(item.get("Key") for item in items if isinstance(item, Mapping))\<close>\<close>
  "mapping_keys items = map (\<lambda>v. dget_none (dict_val v) ''Key'') (filter is_dict items)"

definition check_deleted :: "string list \<Rightarrow> pyval \<Rightarrow> string list res" where
  \<comment> \<open>the checks of \<^verbatim>\<open>delete_records\<close> on the answer\<close>
  "check_deleted expected response =
     (case response of
        PDict d \<Rightarrow>
          (case (dget_none d ''Deleted'', dget_or d ''Errors'' (PList [])) of
             (PList deleted, PList errors) \<Rightarrow>
               (let ds = mapping_keys deleted; es = mapping_keys errors; bad = Inl (gateway_failure ''delete_response_invalid'')
                in if length ds \<noteq> length deleted \<or> length es \<noteq> length errors then bad
                   else if list_ex unhashable ds then Inl (OtherExn ''TypeError'')
                   else if \<not> py_distinct ds then bad
                   else if list_ex unhashable es then Inl (OtherExn ''TypeError'')
                   else if \<not> py_distinct es \<or> list_ex (\<lambda>k. list_ex (py_eq k) es) ds \<or> \<not> list_all is_str (ds @ es) \<or>
                           list_ex (\<lambda>k. str_val k \<notin> set expected) (ds @ es) then bad
                   else if errors \<noteq> [] \<or> length ds \<noteq> length expected \<or> set (map str_val ds) \<noteq> set expected
                   then Inl (GatewayFailure ''delete_partial'' (map str_val ds))
                   else Inr expected)
           | _ \<Rightarrow> Inl (gateway_failure ''delete_response_invalid''))
      | _ \<Rightarrow> Inl (gateway_failure ''delete_response_invalid''))"

definition delete_records :: "'w env \<Rightarrow> checkpoint_policy \<Rightarrow> ('w, unit) act \<Rightarrow> object_record list \<Rightarrow> ('w, string list) act" where
  "delete_records env policy chk records =
     bindA (liftA (catchE (canonical_records records) (\<lambda>e. case e of RecordFailure c \<Rightarrow> gateway_failure c | _ \<Rightarrow> e))) (\<lambda>ordered.
     seqA (guardA (ordered = [] \<or> int (length ordered) > max_delete_keys (bounds policy)) (gateway_failure ''delete_batch_bound'')) (
     bindA (liftA (mapE (\<lambda>r. validate_data_key policy (or_key r)) ordered)) (\<lambda>prefixes.
     seqA (guardA (length (remdups prefixes) \<noteq> 1) (gateway_failure ''delete_prefix_mismatch'')) (
     seqA chk (
     bindA (mapexnA (env_s3 env (DeleteObjects (bucket policy) (map or_key ordered)))
              (else_code (gateway_failure ''delete_failed''))) (\<lambda>response.
     liftA (check_deleted (map or_key ordered) response)))))))"

section \<open>Capability probe and construction\<close>

definition capability_failed :: exn where
  "capability_failed = gateway_failure ''capability_failed''"

definition expect_client_error :: "('w, pyval) act \<Rightarrow> string list \<Rightarrow> ('w, unit) act" where
  "expect_client_error call codes =
     tryA call
       (\<lambda>e. case e of
              ClientError response \<Rightarrow>
                bindA (liftA (client_error_in response codes)) (\<lambda>hit. if hit then retA () else raiseA capability_failed)
            | _ \<Rightarrow> raiseA (else_code capability_failed e))
       (\<lambda>_. raiseA capability_failed)"

definition exact_deleted :: "pyval \<Rightarrow> string list \<Rightarrow> bool" where
  "exact_deleted response expected =
     (case response of
        PDict d \<Rightarrow>
          py_eq (dget_or d ''Errors'' (PList [])) (PList []) \<and>
          (case dget_none d ''Deleted'' of
             PList deleted \<Rightarrow>
               py_eq_list (map (\<lambda>v. case v of PDict e \<Rightarrow> dget_none e ''Key'' | _ \<Rightarrow> PNone) deleted) (map PStr expected)
           | _ \<Rightarrow> False)
      | _ \<Rightarrow> False)"

definition capability_body :: string where
  "capability_body = dumps (PDict (sdict
     [(''profile'', PStr ''minio-2025-09-manual-verified-readback''), (''schema_version'', PInt 1)]))"

definition capability_report :: pydict where
  "capability_report = sdict
     [(''profile'', PStr ''minio-2025-09-manual-verified-readback''), (''conditional_create'', PBool True),
      (''conditional_create_conflict'', PBool True), (''conditional_replace_verified_readback'', PBool True),
      (''stale_replace_denied'', PBool True), (''conditional_delete'', PBool False), (''exact_leaf_list'', PBool True),
      (''exact_leaf_get'', PBool True), (''exact_leaf_delete'', PBool True), (''multi_delete'', PBool True),
      (''root_list_denied'', PBool True), (''other_bucket_denied'', PBool True), (''data_put_denied'', PBool True),
      (''unknown_control_denied'', PBool True), (''automatic_apply'', PBool False), (''observed'', PBool True)]"

definition probe_control :: "'w env \<Rightarrow> checkpoint_policy \<Rightarrow> ('w, unit) act \<Rightarrow> string \<Rightarrow> string \<Rightarrow> ('w, unit) act" where
  \<comment> \<open>the conditional-write part of \<^verbatim>\<open>probe_capabilities\<close>\<close>
  "probe_control env policy chk key missing_key =
     (let b = bucket policy; body = capability_body; stale = IfMatch (quoted (replicate 32 (CHR ''0'')))
      in bindA (tryA (create_control env policy chk key body)
                  (\<lambda>e. if is_gateway e
                       then bindA (read_control env policy chk key (int (length body))) (\<lambda>(existing, etag).
                            if existing \<noteq> body then raiseA capability_failed else retA etag)
                       else raiseA e)
                  retA) (\<lambda>etag.
         seqA (expect_client_error (env_s3 env (PutObject b key body IfNoneMatch)) [''PreconditionFailed'', ''412'']) (
         bindA (replace_lease env policy chk key etag body) (\<lambda>replaced.
         bindA (read_control env policy chk key (int (length body))) (\<lambda>(readback, retag).
         seqA (guardA (readback \<noteq> body \<or> retag \<noteq> replaced) capability_failed) (
         seqA (expect_client_error (env_s3 env (PutObject b key body stale)) [''PreconditionFailed'', ''412'']) (
         expect_client_error (env_s3 env (PutObject b missing_key body stale))
           [''NoSuchKey'', ''NoSuchObject'', ''PreconditionFailed'', ''404'', ''412''])))))))"

definition probe_data :: "'w env \<Rightarrow> checkpoint_policy \<Rightarrow> string \<Rightarrow> string \<Rightarrow> ('w, unit) act" where
  \<comment> \<open>its data and denial part\<close>
  "probe_data env policy key probe_uuid =
     (let b = bucket policy; data_prefix = ''streaming_test/'' @ probe_uuid @ ''/'';
          ka = data_prefix @ ''capability-a''; kb = data_prefix @ ''capability-b'';
          denied = [''AccessDenied'', ''403'']
      in bindA (env_s3 env (ListObjectsV2 b data_prefix 1 None)) (\<lambda>listed.
         seqA (guardA (\<not> is_dict listed \<or> dget_none (dict_val listed) ''IsTruncated'' \<noteq> PBool False) capability_failed) (
         seqA (expect_client_error (env_s3 env (GetObject b ka)) [''NoSuchKey'', ''NoSuchObject'', ''404'']) (
         bindA (env_s3 env (DeleteObjects b [ka])) (\<lambda>deleted.
         bindA (env_s3 env (DeleteObjects b [ka, kb])) (\<lambda>multi_deleted.
         seqA (guardA (\<not> exact_deleted deleted [ka] \<or> \<not> exact_deleted multi_deleted [ka, kb]) capability_failed) (
         seqA (expect_client_error (env_s3 env (ListObjectsV2 b [] 1 None)) denied) (
         seqA (expect_client_error (env_s3 env (ListObjectsV2 ''checkpoint-retention-denied'' [] 1 None))
                 [''AccessDenied'', ''AllAccessDisabled'', ''403'']) (
         seqA (expect_client_error (env_s3 env (PutObject b ka ''denied'' NoCondition)) denied) (
         seqA (expect_client_error (env_s3 env (PutObject b (''unknown/'' @ probe_uuid @ ''.json'') ''denied'' NoCondition)) denied) (
         tryA (env_s3 env (DeleteObject b key))
           (\<lambda>e. case e of
                  ClientError response \<Rightarrow>
                    bindA (liftA (client_error_in response [''AccessDenied'', ''MethodNotAllowed''])) (\<lambda>hit.
                    if hit then retA () else raiseA capability_failed)
                | _ \<Rightarrow> raiseA e)
           (\<lambda>_. raiseA capability_failed))))))))))))"

definition probe_capabilities :: "'w env \<Rightarrow> checkpoint_policy \<Rightarrow> ('w, unit) act \<Rightarrow> ('w, pydict) act" where
  "probe_capabilities env policy chk =
     bindA (env_uuid4 env) (\<lambda>probe_uuid.
     bindA (env_uuid4 env) (\<lambda>missing_uuid.
     let key = ''_retention/capability/'' @ probe_uuid @ ''.json'';
         missing_key = ''_retention/capability/'' @ missing_uuid @ ''.json''
     in seqA (mapexnA (seqA (probe_control env policy chk key missing_key) (probe_data env policy key probe_uuid))
                (\<lambda>e. if is_gateway e then e else else_code capability_failed e)) (
        retA capability_report)))"

definition client_options :: "(string \<times> pyval) list" where
  \<comment> \<open>the fixed arguments of \<^verbatim>\<open>boto3.client\<close> and \<^verbatim>\<open>Config\<close>\<close>
  "client_options =
     [(''endpoint_url'', PStr ''http://minio:9000''), (''region_name'', PStr ''us-east-1''),
      (''signature_version'', PStr ''s3v4''), (''s3'', PDict (sdict [(''addressing_style'', PStr ''path'')])),
      (''connect_timeout'', PInt 5), (''read_timeout'', PInt 10),
      (''retries'', PDict (sdict [(''max_attempts'', PInt 2), (''mode'', PStr ''standard'')])), (''proxies'', PDict [])]"

definition build_s3_client ::
  "((string \<times> pyval) list \<Rightarrow> string \<Rightarrow> string \<Rightarrow> ('w, 'c) act) \<Rightarrow> pyval \<Rightarrow> pyval \<Rightarrow> ('w, 'c) act" where
  "build_s3_client boto_client access_key secret_key =
     (if \<not> is_str access_key \<or> str_val access_key = [] \<or> \<not> is_str secret_key \<or> str_val secret_key = []
      then raiseA (gateway_failure ''credential_invalid'')
      else mapexnA (boto_client client_options (str_val access_key) (str_val secret_key))
             (else_code (gateway_failure ''client_creation_failed'')))"

section \<open>The gateway as an object\<close>

record 'w gateway =
  gw_inventory :: "string \<Rightarrow> ('w, object_record list) act"
  gw_read_control :: "string \<Rightarrow> int \<Rightarrow> ('w, string \<times> string) act"
  gw_create_control :: "string \<Rightarrow> string \<Rightarrow> ('w, string) act"
  gw_replace_lease :: "string \<Rightarrow> string \<Rightarrow> string \<Rightarrow> ('w, string) act"
  gw_list_controls :: "string \<Rightarrow> int \<Rightarrow> ('w, string list) act"
  gw_head_record :: "object_record \<Rightarrow> ('w, unit) act"
  gw_delete_records :: "object_record list \<Rightarrow> ('w, string list) act"

definition s3_gateway :: "'w env \<Rightarrow> checkpoint_policy \<Rightarrow> ('w, unit) act \<Rightarrow> 'w gateway" where
  \<comment> \<open>\<^verbatim>\<open>S3Gateway(client, policy)\<close> while \<open>chk\<close> is the installed deadline check\<close>
  "s3_gateway env policy chk =
     \<lparr>gw_inventory = s3_inventory env policy chk, gw_read_control = read_control env policy chk,
      gw_create_control = create_control env policy chk, gw_replace_lease = replace_lease env policy chk,
      gw_list_controls = list_controls env policy chk, gw_head_record = head_record env policy chk,
      gw_delete_records = delete_records env policy chk\<rparr>"

definition operation_deadline ::
  "(('w, unit) act \<Rightarrow> 'w gateway) \<Rightarrow> ('w, unit) act \<Rightarrow> ('w gateway \<Rightarrow> ('w, 'a) act) \<Rightarrow> ('w, 'a) act" where
  \<comment> \<open>\<^verbatim>\<open>with gateway.operation_deadline(check): body\<close>\<close>
  "operation_deadline G chk body = seqA chk (bindA (body (G chk)) (\<lambda>x. seqA chk (retA x)))"

end
