(* ===== verification/Leases.thy ===== *)
theory Leases
  imports Gateway
begin

text \<open>
  \<^verbatim>\<open>scripts/checkpoints/leases.py\<close>: the writer lease of a checkpoint.  Lease records are
  the decoded JSON objects (\<open>pydict\<close>) the source keeps; requests hold dynamically typed
  fields.  The manager is given a gateway, so that its lemmas hold for every implementation of the
  gateway's contract.  Locks order the callers of one process and are not observable by a single
  caller; \<open>hold\<close> keeps the identity check of \<^verbatim>\<open>CheckpointLockRegistry.hold\<close>.
\<close>

section \<open>Data\<close>

record acquire_request =
  aq_checkpoint_id :: pyval
  aq_prefix :: pyval
  aq_workload :: pyval
  aq_owner_id :: pyval
  aq_session_id :: pyval

record heartbeat_request =
  hr_checkpoint_id :: pyval
  hr_prefix :: pyval
  hr_epoch :: pyval

record terminal_request = heartbeat_request +
  tr_state :: pyval
  tr_evidence :: pyval

record lease_result =
  lr_epoch :: string
  lr_etag :: string
  lr_body :: string

definition identity_pattern :: "string \<Rightarrow> bool" where
  \<comment> \<open>\<^verbatim>\<open>[A-Za-z0-9][A-Za-z0-9._:-]{0,127}\<close>\<close>
  "identity_pattern s \<longleftrightarrow> s \<noteq> [] \<and> length s \<le> 128 \<and> alnum_char (hd s) \<and>
     list_all (\<lambda>c. alnum_char c \<or> c \<in> set ''._:-'') (tl s)"

definition uuid_shape :: "string \<Rightarrow> bool" where
  \<comment> \<open>\<^verbatim>\<open>_UUID.fullmatch\<close>\<close>
  "uuid_shape s \<longleftrightarrow> match_classes uuid_any s"

definition lease_schema :: schema where
  "lease_schema =
     [(''acquired_at'', [TStr]), (''checkpoint_id'', [TStr]), (''epoch'', [TStr]), (''expires_at'', [TStr]),
      (''heartbeat_at'', [TStr]), (''owner_id'', [TStr]), (''prefix'', [TStr]), (''schema_version'', [TInt]),
      (''session_id'', [TStr]), (''state'', [TStr]), (''terminal_evidence'', [TDict, TNone]), (''workload'', [TStr])]"

definition lease_states :: "string list" where
  "lease_states = [''active'', ''stopped'', ''completed'', ''retired'']"

function lease_freeze_mapping :: "pydict \<Rightarrow> pydict res" where
  "lease_freeze_mapping [] = Inr []"
| "lease_freeze_mapping ((k, v) # d) =
     (if \<not> is_str k then Inl (LeaseFailure ''terminal_evidence_invalid'')
      else bindE (case v of
                    PDict e \<Rightarrow> bindE (lease_freeze_mapping e) (\<lambda>e'. Inr (PDict e'))
                  | PList xs \<Rightarrow> Inr (PTuple xs)
                  | PTuple xs \<Rightarrow> Inr (PTuple xs)
                  | PNone \<Rightarrow> Inr v | PBool _ \<Rightarrow> Inr v | PInt _ \<Rightarrow> Inr v | PStr _ \<Rightarrow> Inr v
                  | _ \<Rightarrow> Inl (LeaseFailure ''terminal_evidence_invalid'')) (\<lambda>v'.
           bindE (lease_freeze_mapping d) (\<lambda>d'. Inr ((k, v') # d'))))"
  by pat_completeness auto
termination
  by (relation "measure (size_list (size_prod size size))") auto

definition make_terminal_request :: "pyval \<Rightarrow> pyval \<Rightarrow> pyval \<Rightarrow> pyval \<Rightarrow> pyval \<Rightarrow> terminal_request res" where
  \<comment> \<open>\<^verbatim>\<open>TerminalRequest(...)\<close> with \<^verbatim>\<open>__post_init__\<close>\<close>
  "make_terminal_request cid prefix epoch state evidence =
     bindE (case evidence of PDict d \<Rightarrow> bindE (lease_freeze_mapping d) (\<lambda>d'. Inr (PDict d')) | _ \<Rightarrow> Inr evidence) (\<lambda>frozen.
     Inr \<lparr>hr_checkpoint_id = cid, hr_prefix = prefix, hr_epoch = epoch, tr_state = state, tr_evidence = frozen\<rparr>)"

section \<open>Validation\<close>

fun is_value_error :: "exn \<Rightarrow> bool" where
  \<comment> \<open>the failure classes of the package derive from \<^verbatim>\<open>ValueError\<close>\<close>
  "is_value_error (OtherExn n) = (n \<in> set [''ValueError'', ''UnicodeError'', ''JSONDecodeError''])"
| "is_value_error (ClientError _) = False"
| "is_value_error Interrupt = False"
| "is_value_error _ = True"

definition hold :: "string \<Rightarrow> unit res" where
  "hold cid = guardE (\<not> identity_pattern cid) (LeaseFailure ''lease_identity_mismatch'')"

definition lease_key :: "string \<Rightarrow> string" where
  "lease_key cid = ''_retention/leases/'' @ cid @ ''.json''"

definition terminal_key :: "string \<Rightarrow> string" where
  "terminal_key cid = ''_retention/terminals/'' @ cid @ ''.json''"

definition policy_entry :: "checkpoint_policy \<Rightarrow> string \<Rightarrow> checkpoint_entry res" where
  \<comment> \<open>\<^verbatim>\<open>policy.entries[cid]\<close>\<close>
  "policy_entry policy cid = (case map_of (entries policy) cid of None \<Rightarrow> Inl (OtherExn ''KeyError'') | Some e \<Rightarrow> Inr e)"

definition validate_identity_request :: "checkpoint_policy \<Rightarrow> pyval \<Rightarrow> pyval \<Rightarrow> pyval \<Rightarrow> matched_checkpoint res" where
  "validate_identity_request policy cid prefix epoch =
     bindE (catchE (match_prefix policy prefix) (\<lambda>e. if is_policy e then LeaseFailure ''lease_identity_mismatch'' else e)) (\<lambda>matched.
     if \<not> py_eq cid (PStr (matched_id matched)) then Inl (LeaseFailure ''lease_identity_mismatch'')
     else if epoch \<noteq> PNone \<and> (\<not> is_str epoch \<or> \<not> uuid_shape (str_val epoch)) then Inl (LeaseFailure ''lease_identity_mismatch'')
     else Inr matched)"

definition validate_acquire :: "checkpoint_policy \<Rightarrow> acquire_request \<Rightarrow> matched_checkpoint res" where
  "validate_acquire policy req =
     bindE (validate_identity_request policy (aq_checkpoint_id req) (aq_prefix req) PNone) (\<lambda>matched.
     bindE (policy_entry policy (matched_id matched)) (\<lambda>entry.
     if \<not> py_eq (aq_workload req) (PStr (workload entry)) then Inl (LeaseFailure ''lease_identity_mismatch'')
     else if list_ex (\<lambda>v. \<not> is_str v \<or> \<not> identity_pattern (str_val v)) [aq_owner_id req, aq_session_id req]
     then Inl (LeaseFailure ''request_invalid'')
     else Inr matched))"

definition lease_clock :: "pydict \<Rightarrow> string \<Rightarrow> int" where
  "lease_clock d k = (case parse_utc (dget_none d k) of None \<Rightarrow> 0 | Some t \<Rightarrow> t)"

definition decode_lease :: "checkpoint_policy \<Rightarrow> string \<Rightarrow> pydict res" where
  "decode_lease policy body =
     bindE (catchE (decode_exact_json body lease_schema (max_summary_bytes (bounds policy)) max_json_depth)
              (\<lambda>e. if is_value_error e then LeaseFailure ''lease_malformed'' else e)) (\<lambda>v.
     if \<not> py_eq (dget_none v ''schema_version'') (PInt 1) \<or>
        str_val (dget_none v ''state'') \<notin> set lease_states \<or>
        \<not> is_str (dget_none v ''epoch'') \<or> \<not> uuid_shape (str_val (dget_none v ''epoch'')) \<or>
        list_ex (\<lambda>k. parse_utc (dget_none v k) = None) [''acquired_at'', ''heartbeat_at'', ''expires_at''] \<or>
        \<not> is_str (dget_none v ''workload'') \<or> \<not> is_str (dget_none v ''owner_id'') \<or> \<not> is_str (dget_none v ''session_id'')
     then Inl (LeaseFailure ''lease_malformed'')
     else let acquired = lease_clock v ''acquired_at''; heartbeat = lease_clock v ''heartbeat_at''; expires = lease_clock v ''expires_at''
          in if \<not> (acquired \<le> heartbeat \<and> heartbeat \<le> expires) \<or> expires - heartbeat \<noteq> ttl_seconds (lease policy)
             then Inl (LeaseFailure ''lease_malformed'') else Inr v)"

definition require_identity :: "pydict \<Rightarrow> pyval \<Rightarrow> pyval \<Rightarrow> unit res" where
  "require_identity current cid prefix =
     guardE (\<not> py_eq (dget_none current ''checkpoint_id'') cid \<or> \<not> py_eq (dget_none current ''prefix'') prefix)
       (LeaseFailure ''lease_identity_mismatch'')"

definition exact_now :: "'w env \<Rightarrow> ('w, int) act" where
  "exact_now env =
     bindA (mapexnA (env_now env) (else_code (LeaseFailure ''clock_failed''))) (\<lambda>v.
     if is_exact_utc v then retA (utc_secs v) else raiseA (LeaseFailure ''clock_invalid''))"

definition add_seconds :: "int \<Rightarrow> int \<Rightarrow> int res" where
  \<comment> \<open>\<^verbatim>\<open>value + timedelta(seconds=n)\<close>\<close>
  "add_seconds t n = (if 0 \<le> t + n \<and> t + n < max_secs then Inr (t + n) else Inl (OtherExn ''OverflowError''))"

section \<open>Transitions\<close>

definition lease_error :: "string \<Rightarrow> exn \<Rightarrow> exn" where
  \<comment> \<open>\<^verbatim>\<open>except GatewayFailure\<close>: deadlines pass, other gateway failures become a lease failure\<close>
  "lease_error code e =
     (if is_gateway e \<and> exn_code e \<noteq> Some ''operation_deadline'' then LeaseFailure code else e)"

definition acquire_check :: "checkpoint_policy \<Rightarrow> acquire_request \<Rightarrow> matched_checkpoint \<Rightarrow> int \<Rightarrow> pydict \<Rightarrow> unit res" where
  \<comment> \<open>the checks of \<^verbatim>\<open>acquire\<close> on an existing lease\<close>
  "acquire_check policy req matched now current =
     (let expires = lease_clock current ''expires_at''; heartbeat = lease_clock current ''heartbeat_at''
      in bindE (add_seconds now (future_tolerance_seconds (lease policy))) (\<lambda>limit.
         if heartbeat > limit then Inl (LeaseFailure ''lease_future_clock'')
         else if dget_none current ''state'' = PStr ''active'' then
           bindE (require_identity current (PStr (matched_id matched)) (aq_prefix req)) (\<lambda>_.
           Inl (LeaseFailure (if expires \<ge> now then ''lease_active'' else ''lease_expired_active_uncertain'')))
         else bindE (catchE (match_prefix policy (dget_none current ''prefix''))
                       (\<lambda>e. if is_policy e \<or> e = OtherExn ''TypeError'' then LeaseFailure ''lease_identity_mismatch'' else e)) (\<lambda>prior.
              guardE (matched_id prior \<noteq> matched_id matched) (LeaseFailure ''lease_identity_mismatch''))))"

definition new_lease :: "acquire_request \<Rightarrow> string \<Rightarrow> string \<Rightarrow> int \<Rightarrow> int \<Rightarrow> pyval" where
  "new_lease req cid epoch now expires = PDict (sdict
     [(''acquired_at'', PStr (format_utc now)), (''checkpoint_id'', PStr cid), (''epoch'', PStr epoch),
      (''expires_at'', PStr (format_utc expires)), (''heartbeat_at'', PStr (format_utc now)),
      (''owner_id'', aq_owner_id req), (''prefix'', aq_prefix req), (''schema_version'', PInt 1),
      (''session_id'', aq_session_id req), (''state'', PStr ''active''), (''terminal_evidence'', PNone),
      (''workload'', aq_workload req)])"

definition acquire :: "'w env \<Rightarrow> 'w gateway \<Rightarrow> checkpoint_policy \<Rightarrow> acquire_request \<Rightarrow> ('w, lease_result) act" where
  "acquire env gw policy req =
     bindA (liftA (validate_acquire policy req)) (\<lambda>matched.
     bindA (liftA (hold (matched_id matched))) (\<lambda>_.
     bindA (exact_now env) (\<lambda>now.
     let key = lease_key (matched_id matched); max_len = max_summary_bytes (bounds policy) in
     bindA (tryA (gw_read_control gw key max_len)
              (\<lambda>e. if is_gateway e \<and> exn_code e = Some ''control_missing'' then retA None
                   else raiseA (lease_error ''lease_read_failed'' e))
              (\<lambda>(body, etag). bindA (liftA (decode_lease policy body)) (\<lambda>d. retA (Some (d, etag))))) (\<lambda>existing.
     bindA (case existing of
              None \<Rightarrow> retA None
            | Some (current, etag) \<Rightarrow> bindA (liftA (acquire_check policy req matched now current)) (\<lambda>_. retA (Some etag))) (\<lambda>replace_etag.
     bindA (env_uuid4 env) (\<lambda>epoch.
     if \<not> uuid_shape epoch then raiseA (LeaseFailure ''epoch_invalid'')
     else
     bindA (liftA (add_seconds now (ttl_seconds (lease policy)))) (\<lambda>expires.
     bindA (liftA (canonical_json_bytes (new_lease req (matched_id matched) epoch now expires) max_len max_json_nodes)) (\<lambda>body.
     bindA (case replace_etag of
              None \<Rightarrow> mapexnA (gw_create_control gw key body) (lease_error ''lease_create_failed'')
            | Some etag \<Rightarrow> mapexnA (gw_replace_lease gw key etag body) (lease_error ''lease_replace_failed'')) (\<lambda>etag.
     retA \<lparr>lr_epoch = epoch, lr_etag = etag, lr_body = body\<rparr>)))))))))"

definition read_current ::
  "'w gateway \<Rightarrow> checkpoint_policy \<Rightarrow> string \<Rightarrow> pyval \<Rightarrow> pyval \<Rightarrow> ('w, pydict \<times> string \<times> string) act" where
  \<comment> \<open>the lease read by a transition, with its body and ETag, checked against the request's identity\<close>
  "read_current gw policy cid prefix epoch =
     bindA (mapexnA (gw_read_control gw (lease_key cid) (max_summary_bytes (bounds policy))) (lease_error ''lease_read_failed'')) (\<lambda>(body, etag).
     bindA (liftA (decode_lease policy body)) (\<lambda>current.
     bindA (liftA (require_identity current (PStr cid) prefix)) (\<lambda>_.
     if \<not> py_eq (dget_none current ''epoch'') epoch then raiseA (LeaseFailure ''lease_identity_mismatch'')
     else retA (current, body, etag))))"

definition next_lease :: "pydict \<Rightarrow> int \<Rightarrow> int \<Rightarrow> pyval \<Rightarrow> pyval \<Rightarrow> pydict" where
  "next_lease current now expires state evidence =
     dset (dset (dset (dset current ''heartbeat_at'' (PStr (format_utc now))) ''expires_at'' (PStr (format_utc expires)))
             ''state'' state) ''terminal_evidence'' evidence"

definition transition_locked ::
  "'w env \<Rightarrow> 'w gateway \<Rightarrow> checkpoint_policy \<Rightarrow> string \<Rightarrow> pyval \<Rightarrow> pyval \<Rightarrow> pyval \<Rightarrow> pyval \<Rightarrow> ('w, lease_result) act" where
  "transition_locked env gw policy cid prefix epoch state evidence =
     bindA (exact_now env) (\<lambda>now.
     bindA (read_current gw policy cid prefix epoch) (\<lambda>(current, _, etag).
     if dget_none current ''state'' \<noteq> PStr ''active'' then raiseA (LeaseFailure ''lease_not_active'')
     else
     bindA (liftA (add_seconds now (ttl_seconds (lease policy)))) (\<lambda>expires.
     bindA (liftA (canonical_json_bytes (PDict (next_lease current now expires state evidence))
                     (max_summary_bytes (bounds policy)) max_json_nodes)) (\<lambda>next_body.
     bindA (mapexnA (gw_replace_lease gw (lease_key cid) etag next_body) (lease_error ''lease_ownership_lost'')) (\<lambda>next_etag.
     retA \<lparr>lr_epoch = str_val epoch, lr_etag = next_etag, lr_body = next_body\<rparr>)))))"

definition heartbeat :: "'w env \<Rightarrow> 'w gateway \<Rightarrow> checkpoint_policy \<Rightarrow> heartbeat_request \<Rightarrow> ('w, lease_result) act" where
  \<comment> \<open>\<^verbatim>\<open>heartbeat\<close> through \<^verbatim>\<open>_transition\<close>\<close>
  "heartbeat env gw policy req =
     bindA (liftA (validate_identity_request policy (hr_checkpoint_id req) (hr_prefix req) (hr_epoch req))) (\<lambda>matched.
     bindA (liftA (hold (matched_id matched))) (\<lambda>_.
     transition_locked env gw policy (matched_id matched) (hr_prefix req) (hr_epoch req) (PStr ''active'') PNone))"

definition terminal_value :: "pyval \<Rightarrow> pyval \<Rightarrow> pyval \<Rightarrow> pydict \<Rightarrow> pyval \<Rightarrow> pydict" where
  \<comment> \<open>the record of \<^verbatim>\<open>_persist_terminal\<close>\<close>
  "terminal_value cid prefix state evidence occurred = sdict
     [(''checkpoint_id'', cid), (''exclusive_run'', dget_or evidence ''exclusive_run'' (PBool False)),
      (''generation'', dget_none evidence ''generation''), (''occurred_at'', occurred), (''prefix'', prefix),
      (''recovery_approved'', dget_or evidence ''recovery_approved'' (PBool False)), (''schema_version'', PInt 1),
      (''sink_disposition_approved'', dget_or evidence ''sink_disposition_approved'' (PBool False)),
      (''source_available'', dget_or evidence ''source_available'' (PBool False)), (''state'', state),
      (''successful'', dget_or evidence ''successful'' (PBool False))]"

definition terminal_flags :: "string list" where
  "terminal_flags = [''exclusive_run'', ''recovery_approved'', ''sink_disposition_approved'', ''source_available'', ''successful'']"

definition persist_terminal ::
  "'w gateway \<Rightarrow> checkpoint_policy \<Rightarrow> string \<Rightarrow> terminal_request \<Rightarrow> string \<Rightarrow> ('w, unit) act" where
  "persist_terminal gw policy cid req lease_body =
     (let max_len = max_summary_bytes (bounds policy); key = terminal_key cid in
     bindA (liftA (decode_lease policy lease_body)) (\<lambda>current.
     let value = terminal_value (PStr cid) (hr_prefix req) (tr_state req) (dict_val (tr_evidence req)) (dget_none current ''heartbeat_at'') in
     seqA (guardA (list_ex (\<lambda>f. \<not> is_bool (dget_none value f)) terminal_flags) (LeaseFailure ''terminal_evidence_invalid'')) (
     bindA (liftA (canonical_json_bytes (PDict value) max_len max_json_nodes)) (\<lambda>body.
     mapexnA
       (tryA (gw_read_control gw key max_len)
          (\<lambda>e. if is_gateway e \<and> exn_code e = Some ''control_missing''
               then bindA (gw_create_control gw key body) (\<lambda>_. retA ()) else raiseA e)
          (\<lambda>(existing, etag). if existing \<noteq> body then bindA (gw_replace_lease gw key etag body) (\<lambda>_. retA ()) else retA ()))
       (\<lambda>e. if e = Interrupt \<or> (is_gateway e \<and> exn_code e = Some ''operation_deadline'') then e
            else LeaseFailure ''terminal_record_failed'')))))"

definition terminal_locked ::
  "'w env \<Rightarrow> 'w gateway \<Rightarrow> checkpoint_policy \<Rightarrow> string \<Rightarrow> terminal_request \<Rightarrow> ('w, lease_result) act" where
  "terminal_locked env gw policy cid req =
     bindA (read_current gw policy cid (hr_prefix req) (hr_epoch req)) (\<lambda>(current, current_body, current_etag).
     bindA (if dget_none current ''state'' = PStr ''active''
            then transition_locked env gw policy cid (hr_prefix req) (hr_epoch req) (tr_state req) (tr_evidence req)
            else if dget_none current ''state'' = tr_state req \<and> py_eq (dget_none current ''terminal_evidence'') (tr_evidence req)
            then retA \<lparr>lr_epoch = str_val (hr_epoch req), lr_etag = current_etag, lr_body = current_body\<rparr>
            else raiseA (LeaseFailure ''lease_not_active'')) (\<lambda>result.
     seqA (persist_terminal gw policy cid req (lr_body result)) (retA result)))"

definition validate_terminal :: "checkpoint_policy \<Rightarrow> terminal_request \<Rightarrow> string res" where
  \<comment> \<open>the checks of \<^verbatim>\<open>terminal\<close> before the lock; the matched identity\<close>
  "validate_terminal policy req =
     bindE (validate_identity_request policy (hr_checkpoint_id req) (hr_prefix req) (hr_epoch req)) (\<lambda>matched.
     bindE (policy_entry policy (matched_id matched)) (\<lambda>entry.
     bindE (case expected_states (durability entry) of None \<Rightarrow> Inl (OtherExn ''KeyError'') | Some ss \<Rightarrow> Inr ss) (\<lambda>allowed.
     if unhashable (tr_state req) then Inl (OtherExn ''TypeError'')
     else if \<not> in_states (tr_state req) allowed then Inl (LeaseFailure ''terminal_state_invalid'')
     else let ev = dict_val (tr_evidence req) in
       if \<not> is_dict (tr_evidence req) \<or> \<not> is_dict (dget_none ev ''generation'') \<or>
          \<not> py_eq (dget_none ev ''generation'') (PDict (generation matched))
       then Inl (LeaseFailure ''generation_identity_mismatch'')
       else if durability entry = ''disposable_acceptance'' \<and>
               (dget_none ev ''successful'' \<noteq> PBool True \<or> dget_none ev ''exclusive_run'' \<noteq> PBool True)
       then Inl (LeaseFailure ''terminal_evidence_invalid'')
       else bindE (hold (matched_id matched)) (\<lambda>_. Inr (matched_id matched)))))"

definition terminal :: "'w env \<Rightarrow> 'w gateway \<Rightarrow> checkpoint_policy \<Rightarrow> terminal_request \<Rightarrow> ('w, lease_result) act" where
  "terminal env gw policy req =
     bindA (liftA (validate_terminal policy req)) (\<lambda>cid. terminal_locked env gw policy cid req)"

end
