(* ===== verification/Trace.thy ===== *)
theory Trace
  imports Effects
begin

text \<open>
  Traces of S3 calls.  \<open>traced\<close> makes of any environment one that also logs its S3 calls, and
  \<open>calls m w\<close> is the log of an action started in the world \<open>w\<close>.  Properties about which
  requests an operation may send are stated on these logs, for every environment; they are proved
  through \<open>preserves\<close>, which composes along the combinators.
\<close>

definition onW :: "('w, 'a) act \<Rightarrow> ('w \<times> 's, 'a) act" where
  \<comment> \<open>an action that leaves the second component alone\<close>
  "onW m = (\<lambda>(w, s). case m w of (r, w') \<Rightarrow> (r, (w', s)))"

definition traced :: "'w env \<Rightarrow> ('w \<times> s3_call list) env" where
  "traced e =
     \<lparr>env_s3 = (\<lambda>c (w, l). case env_s3 e c w of (r, w') \<Rightarrow> (r, (w', l @ [c]))),
      env_now = onW (env_now e), env_monotonic = onW (env_monotonic e), env_uuid4 = onW (env_uuid4 e)\<rparr>"

definition calls :: "('w \<times> s3_call list, 'a) act \<Rightarrow> 'w \<Rightarrow> s3_call list" where
  "calls m w = snd (snd (m (w, [])))"

definition logs :: "(s3_call \<Rightarrow> bool) \<Rightarrow> 'w \<times> s3_call list \<Rightarrow> bool" where
  "logs allowed = (\<lambda>(_, l). list_all allowed l)"

lemma preserves_onW_logs [keeps]: "preserves (logs allowed) (onW m)"
  by (auto simp: preserves_def onW_def logs_def split: prod.split)

lemma traced_ok: "env_ok (logs allowed) allowed (traced e)"
  unfolding env_ok_def by (auto simp: traced_def intro: keeps) (auto simp: preserves_def logs_def split: prod.split)

lemma calls_allowed: "preserves (logs allowed) m \<Longrightarrow> list_all allowed (calls m w)"
  unfolding preserves_def logs_def calls_def case_prod_beta by simp

lemma preserves_pyval [keeps]:
  assumes "preserves P f1" "\<And>x. preserves P (f2 x)" "\<And>x. preserves P (f3 x)" "\<And>x. preserves P (f4 x)"
    "\<And>x. preserves P (f5 x)" "\<And>x. preserves P (f6 x)" "\<And>x. preserves P (f7 x)" "\<And>x. preserves P (f8 x)"
    "\<And>x. preserves P (f9 x)" "\<And>x. preserves P (f10 x)" "\<And>x y. preserves P (f11 x y)" "preserves P f12"
  shows "preserves P (case v of PNone \<Rightarrow> f1 | PBool x \<Rightarrow> f2 x | PInt x \<Rightarrow> f3 x | PFloat x \<Rightarrow> f4 x | PStr x \<Rightarrow> f5 x |
    PBytes x \<Rightarrow> f6 x | PDatetime x \<Rightarrow> f7 x | PList x \<Rightarrow> f8 x | PTuple x \<Rightarrow> f9 x | PDict x \<Rightarrow> f10 x | PStream x y \<Rightarrow> f11 x y |
    PObject \<Rightarrow> f12)"
  using assms by (cases v) simp_all

lemma preserves_exn [keeps]:
  assumes "\<And>x. preserves P (f1 x)" "\<And>x. preserves P (f2 x)" "\<And>x y. preserves P (f3 x y)" "\<And>x. preserves P (f4 x)"
    "\<And>x. preserves P (f5 x)" "\<And>x y. preserves P (f6 x y)" "\<And>x y z. preserves P (f7 x y z)" "\<And>x. preserves P (f8 x)"
    "\<And>x. preserves P (f9 x)" "preserves P f10" "\<And>x. preserves P (f11 x)" "preserves P f12" "\<And>x y z. preserves P (f13 x y z)"
    "preserves P f14" "\<And>x. preserves P (f15 x)" "preserves P f16"
  shows "preserves P (case e of PolicyError x \<Rightarrow> f1 x | RecordFailure x \<Rightarrow> f2 x | GatewayFailure x y \<Rightarrow> f3 x y |
    LeaseFailure x \<Rightarrow> f4 x | PlanFailure x \<Rightarrow> f5 x | OperationFailure x y \<Rightarrow> f6 x y | ServiceFailure x y z \<Rightarrow> f7 x y z |
    MetricsFailure x \<Rightarrow> f8 x | ClientError x \<Rightarrow> f9 x | BotoCoreError \<Rightarrow> f12 |
    LockMismatch x y z \<Rightarrow> f13 x y z | ConditionalConflict \<Rightarrow> f14 | AmbiguousWrite x \<Rightarrow> f15 x | ProposalExpired \<Rightarrow> f16 | Interrupt \<Rightarrow> f10 | OtherExn x \<Rightarrow> f11 x)"
  using assms by (cases e) simp_all

lemma pyval_act_Inr [inr_iffs]:
  "(case v of PDict d \<Rightarrow> f d | _ \<Rightarrow> raiseA e) w = (Inr y, w') \<longleftrightarrow> (\<exists>d. v = PDict d \<and> f d w = (Inr y, w'))"
  "(case v of PList xs \<Rightarrow> g xs | _ \<Rightarrow> raiseA e) w = (Inr y, w') \<longleftrightarrow> (\<exists>xs. v = PList xs \<and> g xs w = (Inr y, w'))"
  "(case v of PStr s \<Rightarrow> h s | _ \<Rightarrow> raiseA e) w = (Inr y, w') \<longleftrightarrow> (\<exists>s. v = PStr s \<and> h s w = (Inr y, w'))"
  "(case v of PBool b \<Rightarrow> k b | _ \<Rightarrow> raiseA e) w = (Inr y, w') \<longleftrightarrow> (\<exists>b. v = PBool b \<and> k b w = (Inr y, w'))"
  "(case v of PInt i \<Rightarrow> i1 i | _ \<Rightarrow> raiseA e) w = (Inr y, w') \<longleftrightarrow> (\<exists>i. v = PInt i \<and> i1 i w = (Inr y, w'))"
  "(case v of PStream c b \<Rightarrow> s1 c b | _ \<Rightarrow> raiseA e) w = (Inr y, w') \<longleftrightarrow> (\<exists>c b. v = PStream c b \<and> s1 c b w = (Inr y, w'))"
  by (cases v; simp add: raiseA_def)+

lemma option_act_Inr [inr_iffs]:
  "(case o' of None \<Rightarrow> raiseA e | Some x \<Rightarrow> f x) w = (Inr y, w') \<longleftrightarrow> (\<exists>x. o' = Some x \<and> f x w = (Inr y, w'))"
  by (cases o') (simp_all add: raiseA_def)

lemma prod_act_Inr [inr_iffs]: "(case p of (a, b) \<Rightarrow> f a b) w = (Inr y, w') \<longleftrightarrow> (\<exists>a b. p = (a, b) \<and> f a b w = (Inr y, w'))"
  by (cases p) simp

lemma preserves_nat [keeps]:
  "preserves P f \<Longrightarrow> (\<And>m. preserves P (g m)) \<Longrightarrow> preserves P (case n of 0 \<Rightarrow> f | Suc m \<Rightarrow> g m)"
  by (cases n) simp_all

lemma preserves_post: "preserves P m \<Longrightarrow> (\<And>w. P w \<Longrightarrow> Q w) \<Longrightarrow> (\<And>w. Q w \<Longrightarrow> P w) \<Longrightarrow> preserves Q m"
  unfolding preserves_def by blast

end
