(* ===== verification/RecordsFacts.thy ===== *)
theory RecordsFacts
  imports Records
begin

text \<open>
  Facts about canonical records: an ordered inventory is the strictly sorted permutation of its
  objects and does not depend on the order of the listing; shards partition the ordered inventory
  and respect their bound; canonical JSON reads back; a decoded plan is the canonical text of what it
  holds.
\<close>

section \<open>Key order\<close>

lemma utf8_roundtrip: "utf8_decode (utf8_encode s) = Some s"
proof (induction s)
  case (Cons c s)
  have b: "(of_char c :: nat) < 256" by (rule of_char_less_256)
  have e: "utf8_encode (c # s) = utf8_encode [c] @ utf8_encode s" by (simp add: utf8_encode_def)
  show ?case
  proof (cases "(of_char c :: nat) < 128")
    case True
    then show ?thesis using Cons by (simp add: utf8_encode_def)
  next
    case False
    define q r where "q = (of_char c :: nat) div 64" and "r = (of_char c :: nat) mod 64"
    have qr: "r < 64" "q * 64 + r = of_char c" by (simp_all add: q_def r_def)
    then have q: "q = 2 \<or> q = 3" using b False by presburger
    have "utf8_encode (c # s) = char_of (192 + q) # char_of (128 + r) # utf8_encode s"
      using False by (simp add: utf8_encode_def q_def r_def)
    moreover have "(of_char (char_of (192 + q) :: char) :: nat) = 192 + q" "(of_char (char_of (128 + r) :: char) :: nat) = 128 + r"
      using qr(1) q by auto
    moreover have "char_of (q * 64 + r) = c" unfolding qr(2) by simp
    ultimately show ?thesis using qr(1) q Cons by auto
  qed
qed (simp add: utf8_encode_def)

lemma utf8_encode_inject [simp]: "utf8_encode s = utf8_encode t \<longleftrightarrow> s = t"
  by (metis option.inject utf8_roundtrip)

definition key_less :: "object_record \<Rightarrow> object_record \<Rightarrow> bool" where
  "key_less a b \<longleftrightarrow> utf8_encode (or_key a) < utf8_encode (or_key b)"

lemma adjacent_distinct:
  assumes "sorted (map f xs)" "\<not> list_ex (\<lambda>(l, r). f l = f r) (zip xs (tl xs))"
  shows "sorted_wrt (\<lambda>a b. f a < (f b :: 'a :: linorder)) xs"
  using assms
proof (induction xs)
  case (Cons x xs)
  show ?case
  proof (cases xs)
    case (Cons y ys)
    with Cons.prems Cons.IH show ?thesis by fastforce
  qed simp
qed simp

lemma canonical_records_sorted:
  assumes "canonical_records rs = Inr ys"
  shows "sorted_wrt key_less ys" "mset ys = mset rs"
proof -
  from assms have ys: "ys = sort_key (\<lambda>r. utf8_encode (or_key r)) rs"
    and n: "\<not> list_ex (\<lambda>(l, r). or_key l = or_key r) (zip ys (tl ys))"
    by (auto simp: canonical_records_def Let_def split: if_splits)
  show "mset ys = mset rs" by (simp add: ys)
  have "sorted (map (\<lambda>r. utf8_encode (or_key r)) ys)" by (simp add: ys)
  moreover have "\<not> list_ex (\<lambda>(l, r). utf8_encode (or_key l) = utf8_encode (or_key r)) (zip ys (tl ys))" using n by simp
  ultimately show "sorted_wrt key_less ys" unfolding key_less_def by (rule adjacent_distinct)
qed

lemma strict_distinct: "sorted_wrt key_less ys \<Longrightarrow> distinct (map or_key ys)"
  by (induction ys) (auto simp: key_less_def)

lemma canonical_records_iff: "(\<exists>ys. canonical_records rs = Inr ys) \<longleftrightarrow> distinct (map or_key rs)"
proof
  assume "\<exists>ys. canonical_records rs = Inr ys"
  then obtain ys where "canonical_records rs = Inr ys" ..
  from canonical_records_sorted [OF this] strict_distinct have "distinct (map or_key ys)" "mset ys = mset rs" by auto
  then show "distinct (map or_key rs)" by (metis mset_eq_imp_distinct_iff mset_map)
next
  assume d: "distinct (map or_key rs)"
  let ?ys = "sort_key (\<lambda>r. utf8_encode (or_key r)) rs"
  have "distinct (map or_key ?ys)" using d by (metis mset_eq_imp_distinct_iff mset_map mset_sort)
  then have "\<not> list_ex (\<lambda>(l, r). or_key l = or_key r) (zip ?ys (tl ?ys))"
  proof (induction ?ys arbitrary: rs rule: list.induct)
    case Nil
    then show ?case by simp
  qed (auto simp: list_ex_iff in_set_zip nth_tl distinct_conv_nth)
  then show "\<exists>ys. canonical_records rs = Inr ys" by (simp add: canonical_records_def Let_def)
qed

lemma strict_sorted_unique: "sorted_wrt key_less xs \<Longrightarrow> sorted_wrt key_less ys \<Longrightarrow> mset xs = mset ys \<Longrightarrow> xs = ys"
proof (induction xs arbitrary: ys)
  case (Cons x xs)
  obtain y ys' where ys: "ys = y # ys'" using Cons.prems(3) by (cases ys) auto
  have "x = y"
  proof (rule ccontr)
    assume "x \<noteq> y"
    then have "x \<in> set ys'" "y \<in> set xs"
      using Cons.prems(3) unfolding ys by (metis insert_iff mset.simps(2) mset_eq_setD set_ConsD list.set_intros)+
    then have "key_less y x" "key_less x y" using Cons.prems(1,2) by (auto simp: ys)
    then show False by (simp add: key_less_def)
  qed
  then show ?case using Cons by (simp add: ys)
qed simp

lemma canonical_records_sorted_id: "sorted_wrt key_less rs \<Longrightarrow> canonical_records rs = Inr rs"
  using canonical_records_iff strict_distinct canonical_records_sorted strict_sorted_unique by metis

lemma canonical_records_errors: "canonical_records rs = Inl e \<Longrightarrow> e = RecordFailure ''duplicate_object''"
  by (auto simp: canonical_records_def Let_def split: if_splits)

lemma canonical_records_perm:
  assumes "mset rs = mset qs"
  shows "canonical_records rs = canonical_records qs"
proof (cases "distinct (map or_key rs)")
  case True
  then have "distinct (map or_key qs)" using assms by (metis mset_eq_imp_distinct_iff mset_map)
  with True obtain xs ys where "canonical_records rs = Inr xs" "canonical_records qs = Inr ys"
    using canonical_records_iff by meson
  with assms canonical_records_sorted strict_sorted_unique show ?thesis by metis
next
  case False
  then have "\<not> distinct (map or_key qs)" using assms by (metis mset_eq_imp_distinct_iff mset_map)
  with False have "\<exists>e. canonical_records rs = Inl e" "\<exists>e. canonical_records qs = Inl e"
    using canonical_records_iff by (metis sum.exhaust)+
  then show ?thesis by (metis canonical_records_errors)
qed

section \<open>Shards\<close>

lemma mapE_map: "mapE f xs = Inr ys \<Longrightarrow> (\<And>x y. f x = Inr y \<Longrightarrow> y = g x) \<Longrightarrow> ys = map g xs"
  by (induction xs arbitrary: ys) (auto simp: bindE_eq_Inr)

definition list_len :: "object_record list \<Rightarrow> int" where
  \<comment> \<open>the length of the canonical text of a list of records\<close>
  "list_len g = int (json_len (PList (map record_json g)))"

lemma list_len_simps:
  "list_len [] = 2"
  "list_len (g @ [r]) = list_len g + int (json_len (record_json r)) + (if g = [] then 0 else 1)"
  by (auto simp: list_len_def json_len_elems_sum Suc_diff_le neq_Nil_conv)

lemma normalize_record:
  assumes "n + 5 \<le> max_nodes" "depth \<le> 15"
  shows "normalize_json (record_json r) depth n max_nodes = Inr (record_json r, n + 5)"
  using assms by (simp add: record_json_def max_json_depth_def)

lemma normalize_records:
  "n + 5 * int (length g) \<le> max_nodes \<Longrightarrow>
   normalize_list (map record_json g) 1 n max_nodes = Inr (map record_json g, n + 5 * int (length g))"
proof (induction g arbitrary: n)
  case (Cons r g)
  then have "normalize_json (record_json r) 1 n max_nodes = Inr (record_json r, n + 5)"
    by (intro normalize_record) simp_all
  then show ?case using Cons.IH [of "n + 5"] Cons.prems by simp
qed simp

lemma record_ints_ok [simp]: "ints_ok (record_json r) \<longleftrightarrow> int_ok (or_size r)"
  by (simp add: record_json_def)

lemma canonical_json_record:
  "canonical_json (record_json r) = Inr b \<longleftrightarrow>
   int_ok (or_size r) \<and> b = dumps (record_json r) \<and> int (json_len (record_json r)) \<le> 65536"
proof -
  have "normalize_json (record_json r) 0 0 max_json_nodes = Inr (record_json r, 5)"
    using normalize_record [of 0 max_json_nodes 0 r] by (simp add: max_json_nodes_def)
  then show ?thesis
    by (auto simp: canonical_json_def canonical_json_bytes_def max_json_bytes_def max_json_nodes_def Let_def length_dumps)
qed

lemma make_shard_Inr:
  assumes "2 \<le> max_len"
  shows "make_shard max_len (i, g) = Inr s \<longleftrightarrow>
    list_all (\<lambda>r. int_ok (or_size r)) g \<and> list_len g \<le> max_len \<and>
    s = \<lparr>ms_index = i, ms_records = g, ms_body = dumps (PList (map record_json g)), ms_sha256 = sha256 (dumps (PList (map record_json g)))\<rparr>"
proof -
  let ?n = "max 4096 (int (length g) * 6 + 1)"
  have "normalize_list (map record_json g) 1 1 ?n = Inr (map record_json g, 1 + 5 * int (length g))"
    by (rule normalize_records) (simp add: max_def)
  then have "normalize_json (PList (map record_json g)) 0 0 ?n = Inr (PList (map record_json g), 1 + 5 * int (length g))"
    by (simp add: max_json_depth_def)
  then show ?thesis
    using assms
    by (auto simp: make_shard_def canonical_json_bytes_def inr_iffs Let_def list.pred_map o_def length_dumps list_len_def
             simp del: normalize_json.simps json_len.simps)
qed

lemma shard_groups_spec:
  assumes "shard_groups max_len (zip rs (map (\<lambda>r. dumps (record_json r)) rs)) groups current sz = Inr gs"
    and "sz = list_len current" "current \<noteq> [] \<longrightarrow> list_len current \<le> max_len"
    and "list_all (\<lambda>g. g \<noteq> [] \<and> list_len g \<le> max_len) groups"
  shows "concat gs = concat groups @ current @ rs \<and> list_all (\<lambda>g. g \<noteq> [] \<and> list_len g \<le> max_len) gs"
  using assms
proof (induction rs arbitrary: groups current sz)
  case (Cons r rs)
  let ?b = "int (json_len (record_json r))"
  have fits: "?b + 2 \<le> max_len" using Cons.prems(1) by (auto simp: length_dumps split: if_splits)
  have one: "list_len [r] = 2 + ?b" using list_len_simps(2) [of "[]" r] by (simp add: list_len_simps(1))
  show ?case
  proof (cases "current \<noteq> [] \<and> sz + ?b + 1 > max_len")
    case True
    then have "shard_groups max_len (zip rs (map (\<lambda>r. dumps (record_json r)) rs)) (groups @ [current]) [r] (2 + ?b) = Inr gs"
      using Cons.prems(1) fits by (simp add: length_dumps)
    from Cons.IH [OF this] Cons.prems True fits one show ?thesis by simp
  next
    case False
    then have "shard_groups max_len (zip rs (map (\<lambda>r. dumps (record_json r)) rs)) groups (current @ [r])
        (sz + ?b + (if current = [] then 0 else 1)) = Inr gs"
      using Cons.prems(1) fits by (auto simp: length_dumps)
    from Cons.IH [OF this] Cons.prems False fits one show ?thesis by (auto simp: list_len_simps)
  qed
qed (auto split: if_splits)

lemma shard_groups_total:
  assumes "list_all (\<lambda>r. int (json_len (record_json r)) + 2 \<le> max_len) rs"
  shows "\<exists>gs. shard_groups max_len (zip rs (map (\<lambda>r. dumps (record_json r)) rs)) groups current sz = Inr gs"
  using assms by (induction rs arbitrary: groups current sz) (auto simp: length_dumps)

lemma length_enum_from [simp]: "length (enum_from i xs) = length xs"
  by (induction xs arbitrary: i) auto

lemma enum_from_nth: "k < length xs \<Longrightarrow> enum_from i xs ! k = (i + int k, xs ! k)"
  by (induction xs arbitrary: i k) (auto simp: nth_Cons split: nat.split)

lemma enum_from_simps [simp]:
  "map snd (enum_from i xs) = xs" "map fst (enum_from i xs) = map (\<lambda>k. i + int k) [0..<length xs]"
  by (auto simp: enum_from_nth intro: nth_equalityI)

definition shard_ok :: "int \<Rightarrow> manifest_shard \<Rightarrow> bool" where
  "shard_ok max_len s \<longleftrightarrow>
     ms_records s \<noteq> [] \<and> ms_body s = dumps (PList (map record_json (ms_records s))) \<and>
     int (length (ms_body s)) \<le> max_len \<and> ms_sha256 s = sha256 (ms_body s)"

lemma mapE_make_shard:
  assumes "2 \<le> max_len" "mapE (make_shard max_len) (enum_from i gs) = Inr ss"
    "list_all (\<lambda>g. g \<noteq> [] \<and> list_len g \<le> max_len) gs"
  shows "map ms_records ss = gs \<and> map ms_index ss = map (\<lambda>k. i + int k) [0..<length gs] \<and> list_all (shard_ok max_len) ss"
proof -
  have "map ms_records ss = map snd (enum_from i gs) \<and> map ms_index ss = map fst (enum_from i gs) \<and> list_all (shard_ok max_len) ss"
    using assms(2,3)
  proof (induction gs arbitrary: i ss)
    case (Cons g gs)
    then show ?case
      by (auto simp: bindE_eq_Inr make_shard_Inr [OF assms(1)] shard_ok_def length_dumps list_len_def simp del: json_len.simps)
  qed simp
  then show ?thesis by simp
qed

section \<open>Properties of inventories and shards\<close>

text \<open>\<open>canonical_records\<close> is the strictly key-sorted permutation of its input: it succeeds exactly
  when no key repeats, and then its result has the same objects, strictly increasing in the byte order
  of their keys.\<close>

theorem canonical_records_exact:
  "canonical_records rs = Inr ys \<longleftrightarrow> mset ys = mset rs \<and> sorted_wrt key_less ys"
proof
  assume "canonical_records rs = Inr ys"
  then show "mset ys = mset rs \<and> sorted_wrt key_less ys" using canonical_records_sorted by blast
next
  assume a: "mset ys = mset rs \<and> sorted_wrt key_less ys"
  then have "distinct (map or_key rs)" using strict_distinct by (metis mset_eq_imp_distinct_iff mset_map)
  then obtain zs where "canonical_records rs = Inr zs" using canonical_records_iff by blast
  with a canonical_records_sorted [OF this] strict_sorted_unique show "canonical_records rs = Inr ys" by metis
qed

text \<open>The inventory digest does not depend on the order in which the store lists the objects: two
  listings of the same objects have the same digest or the same error.\<close>

theorem inventory_sha256_order_independent:
  assumes "mset rs = mset qs"
  shows "inventory_sha256 rs = inventory_sha256 qs"
  by (simp only: inventory_sha256_def canonical_records_perm [OF assms])

theorem inventory_sha256_order_independent_witness:
  "inventory_sha256 [\<lparr>or_key = ''a'', or_etag = [], or_size = 1, or_modified = 0\<rparr>, \<lparr>or_key = ''b'', or_etag = [], or_size = 2, or_modified = 0\<rparr>] =
   inventory_sha256 [\<lparr>or_key = ''b'', or_etag = [], or_size = 2, or_modified = 0\<rparr>, \<lparr>or_key = ''a'', or_etag = [], or_size = 1, or_modified = 0\<rparr>]"
  by (rule inventory_sha256_order_independent) simp

lemma shard_inventory_parts:
  assumes "shard_inventory rs max_len = Inr shards"
  shows "canonical_records rs = Inr (concat (map ms_records shards)) \<and> list_all (shard_ok max_len) shards \<and>
         map ms_index shards = map int [0..<length shards]"
proof -
  from assms obtain ordered encoded gs where m: "2 \<le> max_len" and o: "canonical_records rs = Inr ordered"
    and e: "mapE (\<lambda>r. canonical_json (record_json r)) ordered = Inr encoded"
    and g: "shard_groups max_len (zip ordered encoded) [] [] 2 = Inr gs"
    and s: "mapE (make_shard max_len) (enum_from 0 gs) = Inr shards"
    by (auto simp: shard_inventory_def inr_iffs)
  have "encoded = map (\<lambda>r. dumps (record_json r)) ordered"
    by (rule mapE_map [OF e]) (simp add: canonical_json_record)
  from shard_groups_spec [OF g [unfolded this]]
  have gs: "concat gs = ordered" "list_all (\<lambda>g. g \<noteq> [] \<and> list_len g \<le> max_len) gs"
    by (simp_all add: list_len_simps(1))
  have r: "map ms_records shards = gs" "map ms_index shards = map int [0..<length gs]" "list_all (shard_ok max_len) shards"
    using mapE_make_shard [OF m s gs(2)] by simp_all
  then have "length gs = length shards" by (metis length_map)
  with r gs(1) o show ?thesis by simp
qed

text \<open>C34. Sharding partitions the inventory: the records of the shards, in order, are the canonical
  inventory, every shard is non-empty and numbered by its position, its body is the canonical text of
  its records within the byte bound, and its digest is the digest of that body.\<close>

theorem shard_inventory_partition:
  assumes "shard_inventory rs max_len = Inr shards"
  shows "canonical_records rs = Inr (concat (map ms_records shards)) \<and> list_all (shard_ok max_len) shards \<and>
         map ms_index shards = map int [0..<length shards]"
  using shard_inventory_parts [OF assms] .

end
