(* ===== verification/RecordsCodec.thy ===== *)
theory RecordsCodec
  imports RecordsFacts
begin

text \<open>
  The canonical JSON codec: what \<open>canonical_json_bytes\<close> writes, \<open>decode_exact_json\<close> reads back
  with the same fields, and a plan artifact accepted by \<open>decode_plan_artifact\<close> is determined by
  its text.  Node count and height of a value (\<open>json_nodes\<close>, \<open>json_height\<close>) are what the
  two traversals of the source bound.
\<close>

section \<open>Structure bounds\<close>

fun json_nodes :: "pyval \<Rightarrow> int" where
  "json_nodes (PList xs) = 1 + sum_list (map json_nodes xs)"
| "json_nodes (PDict d) = 1 + sum_list (map (\<lambda>(_, v). json_nodes v) d)"
| "json_nodes _ = 1"

fun json_height :: "pyval \<Rightarrow> int" where
  "json_height (PList xs) = Max (insert 0 (set (map (\<lambda>x. 1 + json_height x) xs)))"
| "json_height (PDict d) = Max (insert 0 (set (map (\<lambda>(_, v). 1 + json_height v) d)))"
| "json_height _ = 0"

fun untuple :: "pyval \<Rightarrow> pyval" where
  \<comment> \<open>the copy \<^verbatim>\<open>_normalize_json\<close> makes: tuples become lists\<close>
  "untuple (PList xs) = PList (map untuple xs)"
| "untuple (PTuple xs) = PList (map untuple xs)"
| "untuple (PDict d) = PDict (map (\<lambda>(k, v). (k, untuple v)) d)"
| "untuple v = v"

fun keys_distinct :: "pyval \<Rightarrow> bool" where
  \<comment> \<open>the invariant of a dictionary: no key twice\<close>
  "keys_distinct (PList xs) = list_all keys_distinct xs"
| "keys_distinct (PTuple xs) = list_all keys_distinct xs"
| "keys_distinct (PDict d) = (distinct (map fst d) \<and> list_all (\<lambda>(_, v). keys_distinct v) d)"
| "keys_distinct _ = True"

lemma json_height_list: "json_height (PList xs) \<le> h \<longleftrightarrow> 0 \<le> h \<and> list_all (\<lambda>x. 1 + json_height x \<le> h) xs"
  by (auto simp: list_all_iff)

lemma json_height_dict: "json_height (PDict d) \<le> h \<longleftrightarrow> 0 \<le> h \<and> list_all (\<lambda>(_, v). 1 + json_height v \<le> h) d"
  by (auto simp: list_all_iff)

declare json_height.simps(1,2) [simp del]

lemma json_ok_dict: "json_ok (PDict d) \<longleftrightarrow> distinct (map fst d) \<and> list_all is_str (map fst d) \<and> list_all (\<lambda>(_, v). json_ok v) d"
  by (auto simp: list_all_iff)

lemma height_step: "1 + h \<le> m - d \<longleftrightarrow> h \<le> m - (d + 1 :: int)"
  by linarith

lemma normalize_spec:
  "normalize_json v depth n mx = Inr (w, n') \<Longrightarrow>
     w = untuple v \<and> n' = n + json_nodes w \<and> n' \<le> mx \<and> json_height w \<le> max_json_depth - depth \<and>
     (keys_distinct v \<longrightarrow> ints_ok w \<longrightarrow> json_ok w)"
  "normalize_list xs depth n mx = Inr (ys, n') \<Longrightarrow> n \<le> mx \<Longrightarrow>
     ys = map untuple xs \<and> n' = n + sum_list (map json_nodes ys) \<and> n' \<le> mx \<and>
     list_all (\<lambda>y. json_height y \<le> max_json_depth - depth) ys \<and>
     (list_all keys_distinct xs \<longrightarrow> list_all ints_ok ys \<longrightarrow> list_all json_ok ys)"
  "normalize_items d depth n mx = Inr (d', n') \<Longrightarrow> n \<le> mx \<Longrightarrow>
     d' = map (\<lambda>(k, v). (k, untuple v)) d \<and> n' = n + sum_list (map (\<lambda>(_, v). json_nodes v) d') \<and> n' \<le> mx \<and>
     list_all (\<lambda>(_, y). json_height y \<le> max_json_depth - depth) d' \<and>
     (list_all (\<lambda>(_, v). keys_distinct v) d \<longrightarrow> list_all (\<lambda>(_, v). ints_ok v) d' \<longrightarrow> list_all (\<lambda>(_, v). json_ok v) d')"
proof (induction v depth n mx and xs depth n mx and d depth n mx arbitrary: w n' and ys n' and d' n'
    rule: normalize_json_normalize_list_normalize_items.induct)
  case (1 v depth nodes max_nodes)
  have b: "nodes + 1 \<le> max_nodes" "depth \<le> max_json_depth" using "1.prems" by (auto simp: Let_def split: if_splits)
  note ih = "1.IH" [OF refl] and prem = "1.prems" [unfolded normalize_json.simps [of v] Let_def]
  show ?case
  proof (cases v)
    case (PList xs)
    then obtain ys where "normalize_list xs (depth + 1) (nodes + 1) max_nodes = Inr (ys, n')" "w = PList ys"
      using prem b by (auto simp: bindE_eq_Inr)
    with ih(1) [of xs ys n'] b PList show ?thesis by (auto simp: json_height_list list_all_iff height_step)
  next
    case (PTuple xs)
    then obtain ys where "normalize_list xs (depth + 1) (nodes + 1) max_nodes = Inr (ys, n')" "w = PList ys"
      using prem b by (auto simp: bindE_eq_Inr)
    with ih(2) [of xs ys n'] b PTuple show ?thesis by (auto simp: json_height_list list_all_iff height_step)
  next
    case (PDict d)
    then obtain d' where d': "normalize_items d (depth + 1) (nodes + 1) max_nodes = Inr (d', n')" "w = PDict d'"
      and k: "list_all is_str (map fst d)"
      using prem b by (auto simp: bindE_eq_Inr split: if_splits)
    have r: "d' = map (\<lambda>(k, v). (k, untuple v)) d \<and> n' = nodes + 1 + sum_list (map (\<lambda>(_, v). json_nodes v) d') \<and> n' \<le> max_nodes \<and>
        list_all (\<lambda>(_, y). json_height y \<le> max_json_depth - (depth + 1)) d' \<and>
        (list_all (\<lambda>(_, v). keys_distinct v) d \<longrightarrow> list_all (\<lambda>(_, v). ints_ok v) d' \<longrightarrow> list_all (\<lambda>(_, v). json_ok v) d')"
      by (rule ih(3) [OF _ PDict k d'(1) b(1)]) (use b in simp)
    then have keys: "map fst d' = map fst d" by (simp add: case_prod_unfold o_def)
    show ?thesis
      unfolding d'(2) PDict json_ok_dict keys json_height_dict
      using r k b by (auto simp: height_step list_all_iff case_prod_unfold)
  qed (use prem b in \<open>auto split: if_splits\<close>)
next
  case (3 x xs depth nodes max_nodes)
  then show ?case by (fastforce simp: bindE_eq_Inr)
next
  case (5 k x d depth nodes max_nodes)
  then show ?case by (fastforce simp: bindE_eq_Inr)
qed auto

lemma json_nodes_pos: "1 \<le> json_nodes v"
proof (induction v rule: json_nodes.induct)
  case (1 xs)
  then have "0 \<le> sum_list (map json_nodes xs)" by (intro sum_list_nonneg) fastforce
  then show ?case by simp
next
  case (2 d)
  then have "0 \<le> sum_list (map (\<lambda>(_, v). json_nodes v) d)" by (intro sum_list_nonneg) fastforce
  then show ?case by simp
qed simp_all

lemma json_nodes_sums: "0 \<le> sum_list (map json_nodes xs)" "0 \<le> sum_list (map (\<lambda>(_, v). json_nodes v) d)"
  using json_nodes_pos by (auto intro!: sum_list_nonneg simp: order_trans [OF zero_le_one])

lemma normalize_ok:
  "json_ok v \<Longrightarrow> json_height v \<le> max_json_depth - depth \<Longrightarrow> n + json_nodes v \<le> mx \<Longrightarrow>
     normalize_json v depth n mx = Inr (v, n + json_nodes v)"
  "list_all json_ok xs \<Longrightarrow> list_all (\<lambda>x. json_height x \<le> max_json_depth - depth) xs \<Longrightarrow> n + sum_list (map json_nodes xs) \<le> mx \<Longrightarrow>
     normalize_list xs depth n mx = Inr (xs, n + sum_list (map json_nodes xs))"
  "list_all (\<lambda>(_, v). json_ok v) d \<Longrightarrow> list_all (\<lambda>(_, v). json_height v \<le> max_json_depth - depth) d \<Longrightarrow>
   n + sum_list (map (\<lambda>(_, v). json_nodes v) d) \<le> mx \<Longrightarrow>
     normalize_items d depth n mx = Inr (d, n + sum_list (map (\<lambda>(_, v). json_nodes v) d))"
proof (induction v depth n mx and xs depth n mx and d depth n mx
    rule: normalize_json_normalize_list_normalize_items.induct)
  case (1 v depth n mx)
  have b: "n + 1 \<le> mx" using "1.prems"(3) json_nodes_pos [of v] by linarith
  show ?case
  proof (cases v)
    case (PList xs)
    with "1.prems" b "1.IH"(1) [OF refl _ PList] show ?thesis
      by (simp add: json_height_list height_step add.assoc)
  next
    case (PDict d)
    with "1.prems" b "1.IH"(3) [OF refl _ PDict] show ?thesis
      by (simp add: json_ok_dict json_height_dict height_step add.assoc del: json_ok.simps)
  qed (use "1.prems" b in simp_all)
next
  case (3 x xs depth n mx)
  then show ?case using json_nodes_sums(1) [of xs] by simp
next
  case (5 k x d depth n mx)
  then show ?case using json_nodes_sums(2) [of d] by simp
qed simp_all

section \<open>Reading canonical text\<close>

lemma sort_keys_shape:
  "json_ok v \<Longrightarrow> json_nodes (sort_keys v) = json_nodes v \<and> json_height (sort_keys v) = json_height v"
proof (induction v rule: json_ok.induct)
  case (5 xs)
  then have "map json_nodes (map sort_keys xs) = map json_nodes xs" "map (\<lambda>x. 1 + json_height x) (map sort_keys xs) = map (\<lambda>x. 1 + json_height x) xs"
    by (auto simp: list_all_iff)
  then show ?case by (simp only: sort_keys.simps json_nodes.simps json_height.simps)
next
  case (6 d)
  let ?d = "map (\<lambda>(k, v). (k, sort_keys v)) d"
  have eq: "map (\<lambda>(_, v). json_nodes v) ?d = map (\<lambda>(_, v). json_nodes v) d"
    "map (\<lambda>(_, v). 1 + json_height v) ?d = map (\<lambda>(_, v). 1 + json_height v) d"
    using 6 by (auto simp: list_all_iff)
  have "sum_list (map (\<lambda>(_, v). json_nodes v) (sort_key f ?d)) = sum_list (map (\<lambda>(_, v). json_nodes v) ?d)" for f :: "_ \<Rightarrow> string"
    by (simp only: sum_mset_sum_list [symmetric] mset_map mset_sort)
  moreover have "set (map (\<lambda>(_, v). 1 + json_height v) (sort_key f ?d)) = set (map (\<lambda>(_, v). 1 + json_height v) ?d)" for f :: "_ \<Rightarrow> string"
    by (simp only: set_map set_sort)
  ultimately show ?case by (simp only: sort_keys.simps json_nodes.simps json_height.simps eq)
qed simp_all

lemma check_bounds_ok:
  "json_ok v \<Longrightarrow> json_height v \<le> md - depth \<Longrightarrow> n + json_nodes v \<le> mx \<Longrightarrow>
     check_decoded_bounds v md depth n mx = Inr (n + json_nodes v)"
  "list_all json_ok xs \<Longrightarrow> list_all (\<lambda>x. json_height x \<le> md - depth) xs \<Longrightarrow> n + sum_list (map json_nodes xs) \<le> mx \<Longrightarrow>
     check_list_bounds xs md depth n mx = Inr (n + sum_list (map json_nodes xs))"
  "list_all is_str (map fst d) \<Longrightarrow> list_all (\<lambda>(_, v). json_ok v) d \<Longrightarrow> list_all (\<lambda>(_, v). json_height v \<le> md - depth) d \<Longrightarrow>
   n + sum_list (map (\<lambda>(_, v). json_nodes v) d) \<le> mx \<Longrightarrow>
     check_item_bounds d md depth n mx = Inr (n + sum_list (map (\<lambda>(_, v). json_nodes v) d))"
proof (induction v md depth n mx and xs md depth n mx and d md depth n mx
    rule: check_decoded_bounds_check_list_bounds_check_item_bounds.induct)
  case (1 v md depth n mx)
  have b: "n + 1 \<le> mx" using "1.prems"(3) json_nodes_pos [of v] by linarith
  show ?case
  proof (cases v)
    case (PList xs)
    with "1.prems" b "1.IH"(1) [OF refl _ PList] show ?thesis
      by (simp add: json_height_list height_step add.assoc)
  next
    case (PDict d)
    with "1.prems" b "1.IH"(2) [OF refl _ PDict] show ?thesis
      by (simp add: json_ok_dict json_height_dict height_step add.assoc del: json_ok.simps)
  qed (use "1.prems" b in simp_all)
next
  case (3 x xs md depth n mx)
  then show ?case using json_nodes_sums(1) [of xs] by simp
next
  case (5 k x d md depth n mx)
  then show ?case using json_nodes_sums(2) [of d] by simp
qed simp_all

declare normalize_json.simps [simp del] check_decoded_bounds.simps [simp del]

lemma dget_map_of: "dget d k = map_of d (PStr k)"
  by (induction d k rule: dget.induct) auto

lemma dget_sort_key: "distinct (map fst d) \<Longrightarrow> dget (sort_key f d) k = dget d k"
proof -
  assume d: "distinct (map fst d)"
  then have "distinct (map fst (sort_key f d))" by (metis mset_eq_imp_distinct_iff mset_map mset_sort)
  with d have "map_of (sort_key f d) = map_of d" by (simp add: map_of_inject_set)
  then show ?thesis by (simp add: dget_map_of)
qed

lemma dget_map_values: "dget (map (\<lambda>(k, v). (k, f v)) d) k = map_option f (dget d k)"
  by (induction d k rule: dget.induct) auto

lemma canonical_json_bytes_Inr:
  assumes "canonical_json_bytes v max_len max_nodes = Inr body" "keys_distinct v"
  shows "body = dumps (untuple v)" "json_ok (untuple v)" "int (length body) \<le> max_len"
    "json_nodes (untuple v) \<le> max_nodes" "json_height (untuple v) \<le> max_json_depth"
proof -
  from assms(1) obtain w n where w: "normalize_json v 0 0 max_nodes = Inr (w, n)" "ints_ok w" "body = dumps w"
    "int (length body) \<le> max_len"
    by (auto simp: canonical_json_bytes_def inr_iffs Let_def)
  from normalize_spec(1) [OF w(1)] w assms(2)
  show "body = dumps (untuple v)" "json_ok (untuple v)" "int (length body) \<le> max_len"
    "json_nodes (untuple v) \<le> max_nodes" "json_height (untuple v) \<le> max_json_depth"
    by auto
qed

lemma check_schema_ok:
  "(\<And>k ts. (k, ts) \<in> set sch \<Longrightarrow> list_ex (has_type (dget_none d k)) ts) \<Longrightarrow> check_schema d sch = Inr ()"
  by (induction d sch rule: check_schema.induct) auto

lemma has_type_canonical: "has_type (sort_keys (untuple v)) t \<longleftrightarrow> has_type (untuple v) t"
  by (cases v) auto

lemma decode_canonical:
  assumes body: "canonical_json (PDict d) = Inr body" and wf: "keys_distinct (PDict d)"
    and keys: "keys_exactly d (map fst sch)"
    and types: "\<And>k ts. (k, ts) \<in> set sch \<Longrightarrow> list_ex (has_type (untuple (dget_none d k))) ts"
  shows "\<exists>d'. decode_exact_json body sch max_json_bytes max_json_depth = Inr d' \<and>
    (\<forall>k. dget d' k = map_option (\<lambda>v. sort_keys (untuple v)) (dget d k)) \<and> sort_keys (untuple (PDict d)) = PDict d'"
proof -
  note b = canonical_json_bytes_Inr [OF body [unfolded canonical_json_def] wf]
  define u where "u = map (\<lambda>(k, v). (k, sort_keys (untuple v))) d"
  define d' where "d' = sort_key (\<lambda>(k, _). str_val k) u"
  have uv: "sort_keys (untuple (PDict d)) = PDict d'"
    by (simp add: d'_def u_def case_prod_unfold o_def)
  have ok: "json_ok (PDict d')" using sort_keys_ok [OF b(2)] uv by simp
  have ld: "loads (unique_object (RecordFailure ''json_duplicate_key'')) (Inl (RecordFailure ''json_number_invalid'')) body = Inr (PDict d')"
    unfolding b(1) by (subst loads_dumps_body [OF b(2) unique_reader.json_reader_axioms]) (simp only: uv)
  have du: "distinct (map fst u)" using wf by (simp add: u_def case_prod_unfold o_def)
  have get: "dget d' k = map_option (\<lambda>v. sort_keys (untuple v)) (dget d k)" for k
    unfolding d'_def dget_sort_key [OF du] unfolding u_def by (rule dget_map_values)
  have shape: "json_nodes (PDict d') \<le> max_json_nodes" "json_height (PDict d') \<le> max_json_depth"
    using sort_keys_shape [OF b(2)] b(4,5) uv by simp_all
  have chk: "check_decoded_bounds (PDict d') max_json_depth 0 0 max_json_nodes = Inr (json_nodes (PDict d'))"
    using check_bounds_ok(1) [OF ok, of max_json_depth 0 0 max_json_nodes] shape by simp
  have "dkeys d' = map fst d'" by (simp add: dkeys_def)
  moreover have "set (map fst d') = set (map fst d)" by (force simp: d'_def u_def)
  ultimately have "keys_exactly d' (map fst sch)" using keys by (simp add: keys_exactly_def dkeys_def)
  moreover have "check_schema d' sch = Inr ()"
  proof (rule check_schema_ok)
    fix k ts assume "(k, ts) \<in> set sch"
    then have "list_ex (has_type (untuple (dget_none d k))) ts" by (rule types)
    moreover have "dget_none d' k = sort_keys (untuple (dget_none d k))"
      by (simp add: dget_none_def get split: option.split)
    ultimately show "list_ex (has_type (dget_none d' k)) ts" by (simp add: has_type_canonical [abs_def])
  qed
  ultimately have "decode_exact_json body sch max_json_bytes max_json_depth = Inr d'"
    using b(3) by (simp add: decode_exact_json_def ld catchE_def chk [unfolded max_json_depth_def] max_json_depth_def)
  with get uv show ?thesis by blast
qed

section \<open>Properties of the codec\<close>

text \<open>C32. A control record written with \<open>canonical_json_bytes\<close> reads back through
  \<open>decode_exact_json\<close> against any schema its fields satisfy: the decoded object has exactly the
  written fields, each the written value with its tuples as lists and its keys sorted.\<close>

theorem canonical_json_reads_back:
  assumes "canonical_json (PDict d) = Inr body" "keys_distinct (PDict d)" "keys_exactly d (map fst sch)"
    and "list_all (\<lambda>(k, ts). list_ex (has_type (untuple (dget_none d k))) ts) sch"
  shows "\<exists>d'. decode_exact_json body sch max_json_bytes max_json_depth = Inr d' \<and>
    (\<forall>k. dget d' k = map_option (\<lambda>v. sort_keys (untuple v)) (dget d k))"
proof -
  have "list_ex (has_type (untuple (dget_none d k))) ts" if "(k, ts) \<in> set sch" for k ts
    using assms(4) that by (auto simp: list_all_iff)
  then show ?thesis using decode_canonical [OF assms(1-3)] by blast
qed

definition sample_object :: pydict where
  "sample_object = sdict [(''schema_version'', PInt 1), (''keys'', PTuple [PStr ''b'', PStr ''a'']), (''etag'', PNone)]"

definition sample_schema :: schema where
  "sample_schema = [(''etag'', [TNone, TStr]), (''keys'', [TList]), (''schema_version'', [TInt])]"

theorem canonical_json_reads_back_witness:
  "\<exists>body d'. canonical_json (PDict sample_object) = Inr body \<and>
     decode_exact_json body sample_schema max_json_bytes max_json_depth = Inr d' \<and>
     dget d' ''keys'' = Some (PList [PStr ''b'', PStr ''a''])"
proof -
  have "(case canonical_json (PDict sample_object) of Inr _ \<Rightarrow> True | Inl _ \<Rightarrow> False)" by code_simp
  then obtain body where b: "canonical_json (PDict sample_object) = Inr body" by (auto split: sum.splits)
  have "keys_distinct (PDict sample_object)" "keys_exactly sample_object (map fst sample_schema)"
    "list_all (\<lambda>(k, ts). list_ex (has_type (untuple (dget_none sample_object k))) ts) sample_schema"
    by code_simp+
  from canonical_json_reads_back [OF b this] obtain d' where
    "decode_exact_json body sample_schema max_json_bytes max_json_depth = Inr d'"
    "dget d' ''keys'' = map_option (\<lambda>v. sort_keys (untuple v)) (dget sample_object ''keys'')"
    by blast
  with b show ?thesis by (simp add: sample_object_def)
qed

section \<open>Plan artifacts\<close>

lemma make_object_record_Inr:
  "make_object_record key etag sz modified = Inr r \<longleftrightarrow>
   safe_key key \<and> etag_pattern (or_etag r) \<and> 0 < or_size r \<and>
   key = PStr (or_key r) \<and> etag = PStr (or_etag r) \<and> sz = PInt (or_size r) \<and> modified = utc (or_modified r)"
proof -
  have "safe_key key \<Longrightarrow> is_str key" by (cases key) (simp_all add: safe_key_def)
  then show ?thesis
    by (cases r; cases key) (auto simp: make_object_record_def is_str_iff is_int_iff is_exact_utc_iff split: if_splits)
qed

lemma make_object_record_ok: "make_object_record key etag sz modified = Inr r \<Longrightarrow> record_ok r"
  by (auto simp: make_object_record_Inr record_ok_def)

lemma decode_record_ok: "decode_record v = Inr r \<Longrightarrow> record_ok r"
  by (auto simp: decode_record_def inr_iffs intro: make_object_record_ok)

lemma decode_shard_ok:
  assumes "decode_shard max_shard max_nodes (i, raw) = Inr s"
  shows "ms_index s = i \<and> ms_records s \<noteq> [] \<and> sorted_wrt key_less (ms_records s) \<and> list_all record_ok (ms_records s) \<and>
    ms_sha256 s = sha256 (ms_body s) \<and> int (length (ms_body s)) \<le> max_shard"
proof -
  from assms obtain items rs where i: "items \<noteq> []" "mapE decode_record items = Inr rs" "canonical_records rs = Inr rs"
    and b: "canonical_json_bytes raw max_shard max_nodes = Inr (ms_body s)"
    and s: "ms_index s = i" "ms_records s = rs" "ms_sha256 s = sha256 (ms_body s)"
    by (auto simp: decode_shard_def inr_iffs)
  have "rs \<noteq> []" using i mapE_length by fastforce
  moreover have "list_all record_ok rs"
    using mapE_Inr_set [OF i(2)] decode_record_ok by (fastforce simp: list_all_iff)
  moreover have "int (length (ms_body s)) \<le> max_shard"
    using b by (auto simp: canonical_json_bytes_def inr_iffs Let_def)
  ultimately show ?thesis using s canonical_records_sorted(1) [OF i(3)] by simp
qed

lemma mapE_enum_from:
  assumes "mapE f (enum_from i xs) = Inr ys" "\<And>i x y. f (i, x) = Inr y \<Longrightarrow> g y = i \<and> P y"
  shows "map g ys = map (\<lambda>k. i + int k) [0..<length ys] \<and> list_all P ys"
proof -
  have "map g ys = map fst (enum_from i xs) \<and> list_all P ys"
    using assms(1) by (induction xs arbitrary: i ys) (auto simp: bindE_eq_Inr dest: assms(2))
  moreover have "length ys = length xs" using mapE_length [OF assms(1)] by simp
  ultimately show ?thesis by simp
qed

lemma catchE_Inr [inr_iffs]: "catchE r h = Inr x \<longleftrightarrow> r = Inr x"
  by (cases r) (simp_all add: catchE_def)

text \<open>C33. A plan artifact is accepted only when it is what it claims to be: the digest is that of the
  body, every shard is non-empty, in strict key order, of well-formed objects with positive sizes, is
  numbered by its position and hashed over its canonical text within the shard bound.\<close>

theorem decode_plan_artifact_sound:
  assumes "decode_plan_artifact body max_body max_shard max_nodes = Inr a"
  shows "pa_body a = body \<and> pa_sha256 a = sha256 body \<and> int (length body) \<le> max_body \<and>
    map ms_index (pa_shards a) = map int [0..<length (pa_shards a)] \<and>
    list_all (\<lambda>s. ms_records s \<noteq> [] \<and> sorted_wrt key_less (ms_records s) \<and> list_all record_ok (ms_records s) \<and>
       ms_sha256 s = sha256 (ms_body s) \<and> int (length (ms_body s)) \<le> max_shard) (pa_shards a)"
proof -
  from assms obtain v where len: "int (length body) \<le> max_body" and v: "decode_plan_value body max_body max_shard max_nodes v = Inr a"
    by (auto simp: decode_plan_artifact_def inr_iffs)
  from v obtain raw summary shards where
    sh: "mapE (decode_shard max_shard max_nodes) (enum_from 0 raw) = Inr shards"
    and a: "make_plan_artifact summary shards body (sha256 body) = Inr a"
    unfolding decode_plan_value_def Let_def by (simp only: inr_iffs not_not) blast
  have f: "pa_body a = body" "pa_sha256 a = sha256 body" "pa_shards a = shards"
    using a by (auto simp: make_plan_artifact_def inr_iffs)
  have "map ms_index shards = map (\<lambda>k. 0 + int k) [0..<length shards] \<and>
    list_all (\<lambda>s. ms_records s \<noteq> [] \<and> sorted_wrt key_less (ms_records s) \<and> list_all record_ok (ms_records s) \<and>
       ms_sha256 s = sha256 (ms_body s) \<and> int (length (ms_body s)) \<le> max_shard) shards"
    by (rule mapE_enum_from [OF sh]) (use decode_shard_ok in blast)
  with f len show ?thesis by simp
qed

lemma record_json_sorted [simp]: "sort_keys (record_json r) = record_json r"
  by (simp add: record_json_def)

lemma record_json_ok: "int_ok (or_size r) \<Longrightarrow> json_ok (record_json r)"
  by (simp add: record_json_def)

lemma decode_record_json:
  assumes "record_ok r" "0 \<le> or_modified r" "or_modified r < max_secs"
  shows "decode_record (record_json r) = Inr r"
proof -
  have "parse_utc (PStr (format_utc (or_modified r))) = Some (or_modified r)"
    using assms(2,3) by (simp add: parse_utc_def)
  moreover have "make_object_record (PStr (or_key r)) (PStr (or_etag r)) (PInt (or_size r)) (utc (or_modified r)) = Inr r"
    using assms(1) by (simp add: make_object_record_Inr record_ok_def)
  ultimately show ?thesis by (simp add: decode_record_def record_json_def keys_exactly_def dget_none_def)
qed

lemma mapE_inverse: "(\<And>x. x \<in> set xs \<Longrightarrow> f (g x) = Inr x) \<Longrightarrow> mapE f (map g xs) = Inr xs"
  by (induction xs) auto

lemma decode_shard_json:
  assumes "shard_ok max_shard s" "sorted_wrt key_less (ms_records s)" "ms_index s = i" "2 \<le> max_shard" "1 \<le> max_nodes"
    and "list_all (\<lambda>r. record_ok r \<and> 0 \<le> or_modified r \<and> or_modified r < max_secs \<and> int_ok (or_size r)) (ms_records s)"
    and "json_nodes (PList (map record_json (ms_records s))) \<le> max_nodes" "json_height (PList (map record_json (ms_records s))) \<le> max_json_depth"
  shows "decode_shard max_shard max_nodes (i, PList (map record_json (ms_records s))) = Inr s"
proof -
  let ?v = "PList (map record_json (ms_records s))"
  have "mapE decode_record (map record_json (ms_records s)) = Inr (ms_records s)"
    by (rule mapE_inverse) (use assms(6) in \<open>auto simp: decode_record_json list_all_iff\<close>)
  moreover have "canonical_records (ms_records s) = Inr (ms_records s)"
    using assms(2) canonical_records_iff strict_distinct canonical_records_sorted strict_sorted_unique by metis
  moreover have ok: "json_ok ?v" using assms(6) by (auto simp: list_all_iff record_json_ok)
  moreover have "canonical_json_bytes ?v max_shard max_nodes = Inr (ms_body s)"
    using normalize_ok(1) [OF ok, of 0 0 max_nodes] assms by (auto simp: canonical_json_bytes_def shard_ok_def list.pred_map o_def list_all_iff Let_def)
  ultimately show ?thesis using assms(1,3) by (cases s) (simp add: decode_shard_def shard_ok_def)
qed

definition plan_value :: "pydict \<Rightarrow> manifest_shard list \<Rightarrow> pydict" where
  \<comment> \<open>the object whose canonical text is a plan artifact's body\<close>
  "plan_value summary shards = sdict
     [(''schema_version'', PInt 1), (''summary'', PDict summary),
      (''shards'', PList (map (\<lambda>s. PList (map record_json (ms_records s))) shards))]"

definition shard_sound :: "int \<Rightarrow> manifest_shard \<Rightarrow> bool" where
  "shard_sound max_shard s \<longleftrightarrow> shard_ok max_shard s \<and> sorted_wrt key_less (ms_records s) \<and>
     list_all (\<lambda>r. record_ok r \<and> 0 \<le> or_modified r \<and> or_modified r < max_secs \<and> int_ok (or_size r)) (ms_records s)"

lemma untuple_records: "untuple (record_json r) = record_json r" "keys_distinct (record_json r)"
  by (simp_all add: record_json_def)

lemma sum_list_member_le: "x \<in> set xs \<Longrightarrow> json_nodes x \<le> sum_list (map json_nodes xs)"
proof (induction xs)
  case (Cons a xs)
  then show ?case using json_nodes_sums(1) [of xs] json_nodes_pos [of a] by auto
qed simp

lemma ints_ok_json: "json_ok v \<Longrightarrow> ints_ok v"
  by (induction v rule: json_ok.induct) (auto simp: list_all_iff)

lemma untuple_json_ok: "json_ok v \<Longrightarrow> untuple v = v"
  by (induction v rule: json_ok.induct) (auto simp: list_all_iff map_idI intro!: map_idI)

lemma frozen_json: "json_ok v \<Longrightarrow> \<exists>w. deep_freeze v = Inr w"
  "list_all json_ok xs \<Longrightarrow> \<exists>ys. freeze_list xs = Inr ys"
  "list_all (\<lambda>(_, v). json_ok v) d \<Longrightarrow> \<exists>d'. freeze_mapping d = Inr d'"
proof (induction v and xs and d rule: deep_freeze_freeze_list_freeze_mapping.induct)
  case (1 v)
  then show ?case by (cases v) (fastforce simp: list_all_iff)+
next
  case (3 x xs)
  then obtain w ys where "deep_freeze x = Inr w" "freeze_list xs = Inr ys" by auto
  then show ?case by simp
next
  case (5 k x d)
  then obtain w d' where "deep_freeze x = Inr w" "freeze_mapping d = Inr d'" by auto
  then show ?case by simp
qed simp_all

lemma mapE_enum_inverse:
  "(\<And>k. k < length ss \<Longrightarrow> f (i + int k, g (ss ! k)) = Inr (ss ! k)) \<Longrightarrow> mapE f (enum_from i (map g ss)) = Inr ss"
proof (induction ss arbitrary: i)
  case (Cons s ss)
  have "mapE f (enum_from (i + 1) (map g ss)) = Inr ss"
    using Cons.prems [of "Suc k" for k] by (intro Cons.IH) (simp add: add.assoc)
  then show ?case using Cons.prems [of 0] by simp
qed simp

lemma py_eq_strs: "py_eq_list (map (\<lambda>s. PStr (f s)) xs) (map (\<lambda>s. PStr (f s)) xs)"
  by (induction xs) simp_all

lemma plan_artifact_accepted:
  assumes body: "canonical_json_bytes (PDict (plan_value summary shards)) max_body max_nodes = Inr body"
    and wf: "keys_distinct (PDict summary)"
    and shas: "dget summary ''manifest_shards'' = Some (PTuple (map (\<lambda>s. PStr (ms_sha256 s)) shards))"
    and shards: "shards \<noteq> []" "list_all (shard_sound max_shard) shards" "map ms_index shards = map int [0..<length shards]" "2 \<le> max_shard"
  shows "\<exists>a. decode_plan_artifact body max_body max_shard max_nodes = Inr a \<and> pa_shards a = shards \<and> pa_body a = body"
proof -
  let ?raw = "map (\<lambda>s. PList (map record_json (ms_records s))) shards"
  define u where "u = map (\<lambda>(k, v). (k, untuple v)) summary"
  define summary' where "summary' = dict_val (sort_keys (PDict u))"
  define v where "v = sdict [(''schema_version'', PInt 1), (''shards'', PList ?raw), (''summary'', PDict summary')]"
  have kd: "keys_distinct (PDict (plan_value summary shards))"
    using wf by (auto simp: plan_value_def list_all_iff untuple_records)
  have ut: "untuple (PDict (plan_value summary shards)) = PDict (sdict [(''schema_version'', PInt 1), (''summary'', PDict u), (''shards'', PList ?raw)])"
    by (simp add: plan_value_def u_def untuple_records o_def)
  note b = canonical_json_bytes_Inr [OF body kd]
  have srt: "sort_keys (untuple (PDict (plan_value summary shards))) = PDict v"
    unfolding ut by (simp add: v_def summary'_def o_def)
  have ok: "json_ok (PDict v)" using sort_keys_ok [OF b(2)] srt by simp
  have nodes: "json_nodes (PDict v) \<le> max_nodes" "json_height (PDict v) \<le> max_json_depth"
    using sort_keys_shape [OF b(2)] b(4,5) srt by simp_all
  have dumps_v: "dumps (PDict v) = body"
    unfolding b(1) dumps_def srt [symmetric] by (simp only: sorted_keys_idem [OF b(2)])
  have ld: "loads (unique_object (RecordFailure ''json_duplicate_key'')) (Inr (PFloat None)) body = Inr (PDict v)"
    unfolding b(1) by (subst loads_dumps_body [OF b(2) unique_reader.json_reader_axioms]) (simp only: srt)
  have get: "dget_none v ''schema_version'' = PInt 1" "dget_none v ''shards'' = PList ?raw" "dget_none v ''summary'' = PDict summary'"
    "keys_exactly v [''schema_version'', ''shards'', ''summary'']"
    by (simp_all add: v_def dget_none_def keys_exactly_def)
  have bounds: "2 \<le> max_body" "1 \<le> max_nodes" using body by (auto simp: canonical_json_bytes_def split: if_splits)
  have chk: "check_decoded_bounds (PDict v) max_json_depth 0 0 max_nodes = Inr (json_nodes (PDict v))"
    using check_bounds_ok(1) [OF ok, of max_json_depth 0 0 max_nodes] nodes by simp
  have can: "canonical_json_bytes (PDict v) max_body max_nodes = Inr body"
    using normalize_ok(1) [OF ok, of 0 0 max_nodes] nodes bounds b(3) ints_ok_json [OF ok] dumps_v
    by (simp add: canonical_json_bytes_def Let_def del: ints_ok.simps json_nodes.simps)
  have raw_in: "json_nodes (PList ?raw) \<le> max_nodes" "json_height (PList ?raw) \<le> max_json_depth - 1"
    using nodes json_nodes_pos [of "PDict summary'"] by (simp_all add: v_def json_height_dict)
  have sh: "mapE (decode_shard max_shard max_nodes) (enum_from 0 ?raw) = Inr shards"
  proof (rule mapE_enum_inverse)
    fix k assume k: "k < length shards"
    then have s: "shards ! k \<in> set shards" by simp
    let ?x = "PList (map record_json (ms_records (shards ! k)))"
    have x: "?x \<in> set ?raw" using s by simp
    have "1 + json_height ?x \<le> max_json_depth - 1"
      using raw_in(2) x unfolding json_height_list list_all_iff by blast
    moreover have "json_nodes ?x \<le> max_nodes"
      using raw_in(1) sum_list_member_le [OF x] unfolding json_nodes.simps(1) [of ?raw] by linarith
    ultimately have "json_nodes ?x \<le> max_nodes" "json_height ?x \<le> max_json_depth" by simp_all
    moreover have "ms_index (shards ! k) = 0 + int k"
      using arg_cong [OF shards(3), of "\<lambda>xs. xs ! k"] k by simp
    ultimately show "decode_shard max_shard max_nodes (0 + int k, ?x) = Inr (shards ! k)"
      using shards(2,4) s bounds(2) by (intro decode_shard_json) (auto simp: shard_sound_def list_all_iff)
  qed
  have du: "distinct (map fst (map (\<lambda>(k, v). (k, sort_keys v)) u))" using wf by (simp add: u_def case_prod_unfold o_def)
  have "dget summary' ''manifest_shards'' = map_option sort_keys (map_option untuple (dget summary ''manifest_shards''))"
    unfolding summary'_def sort_keys.simps dict_val.simps dget_sort_key [OF du] dget_map_values
    unfolding u_def dget_map_values ..
  then have ms: "dget_none summary' ''manifest_shards'' = PList (map (\<lambda>s. PStr (ms_sha256 s)) shards)"
    by (simp add: shas dget_none_def o_def)
  have "json_ok (PDict summary')" using ok by (simp add: v_def)
  then obtain frozen where "freeze_mapping summary' = Inr frozen" "list_all is_str (map fst summary')"
    using frozen_json(3) [of summary'] by (auto simp: json_ok_dict simp del: json_ok.simps)
  then have "make_plan_artifact summary' shards body (sha256 body) =
      Inr \<lparr>pa_summary = frozen, pa_shards = shards, pa_body = body, pa_sha256 = sha256 body\<rparr>"
    by (simp add: make_plan_artifact_def hex64_def match_hex_classes)
  then have "decode_plan_artifact body max_body max_shard max_nodes =
      Inr \<lparr>pa_summary = frozen, pa_shards = shards, pa_body = body, pa_sha256 = sha256 body\<rparr>"
    using b(3) shards(1)
    by (simp add: decode_plan_artifact_def ld decode_plan_value_def get chk can sh ms catchE_def py_eq_strs Let_def)
  then show ?thesis by simp
qed

text \<open>A plan artifact round-trips: the canonical text of a summary that lists the digests of sound
  shards, together with those shards, is accepted by \<open>decode_plan_artifact\<close> and gives the same
  shards and body back.\<close>

theorem plan_artifact_decodes:
  assumes body: "canonical_json_bytes (PDict (plan_value summary shards)) max_body max_nodes = Inr body"
    and wf: "keys_distinct (PDict summary)"
    and shas: "dget summary ''manifest_shards'' = Some (PTuple (map (\<lambda>s. PStr (ms_sha256 s)) shards))"
    and shards: "shards \<noteq> []" "list_all (shard_sound max_shard) shards" "map ms_index shards = map int [0..<length shards]" "2 \<le> max_shard"
  shows "\<exists>a. decode_plan_artifact body max_body max_shard max_nodes = Inr a \<and> pa_shards a = shards \<and> pa_body a = body"
  using plan_artifact_accepted [OF assms] .

definition sample_record :: object_record where
  "sample_record = \<lparr>or_key = ''events/offsets/0'', or_etag = ''0123456789abcdef0123456789abcdef'', or_size = 5, or_modified = 63900000000\<rparr>"

definition sample_shard :: manifest_shard where
  "sample_shard =
     (let body = dumps (PList [record_json sample_record])
      in \<lparr>ms_index = 0, ms_records = [sample_record], ms_body = body, ms_sha256 = sha256 body\<rparr>)"

definition sample_summary :: pydict where
  "sample_summary = sdict [(''manifest_shards'', PTuple [PStr (ms_sha256 sample_shard)])]"

lemma sample_record_len: "json_len (record_json sample_record) \<le> 400"
proof -
  have "length (json_string (format_utc 63900000000)) \<le> 6 * 20 + 2"
    using length_json_string [of "format_utc 63900000000"] length_format_utc [of 63900000000]
    by (simp add: max_secs_def)
  then show ?thesis
    by (simp add: record_json_def sample_record_def json_string_def json_escape_def dec_int_def dec_nat.simps)
qed

lemma sample_shard_sound: "shard_sound 1048576 sample_shard"
proof -
  have "safe_key (PStr ''events/offsets/0'')" "etag_pattern ''0123456789abcdef0123456789abcdef''" by code_simp+
  then have "record_ok sample_record" by (simp add: record_ok_def sample_record_def)
  moreover have "int_ok 5" by (simp add: int_ok_def dec_nat.simps max_int_digits_def)
  moreover have "int (length (dumps (PList [record_json sample_record]))) \<le> 1048576"
    using sample_record_len by (simp add: length_dumps)
  ultimately show ?thesis
    by (simp add: shard_sound_def shard_ok_def sample_shard_def Let_def) (simp add: sample_record_def max_secs_def)
qed

lemma sample_shard_records: "ms_records sample_shard = [sample_record]"
  by (simp add: sample_shard_def Let_def)

lemma sample_plan_encodes:
  "\<exists>body. canonical_json_bytes (PDict (plan_value sample_summary [sample_shard])) 65536 4096 = Inr body"
proof -
  let ?v = "untuple (PDict (plan_value sample_summary [sample_shard]))"
  have v: "normalize_json (PDict (plan_value sample_summary [sample_shard])) 0 0 4096 = Inr (?v, 12)"
    by (simp add: plan_value_def sample_summary_def sample_shard_def Let_def normalize_json.simps max_json_depth_def
        record_json_def)
  have "length (json_string (ms_sha256 sample_shard)) = 66"
    using length_json_string_plain [OF hex_plain] by (simp add: sample_shard_def Let_def)
  then have "json_len ?v \<le> 65536"
    using sample_record_len
    by (simp add: plan_value_def sample_summary_def untuple_records sample_shard_records)
       (simp add: json_string_def json_escape_def dec_int_def dec_nat.simps)
  moreover have "ints_ok ?v"
    by (simp add: plan_value_def sample_summary_def untuple_records sample_shard_def Let_def sample_record_def int_ok_def
        dec_nat.simps max_int_digits_def)
  ultimately show ?thesis using v by (simp add: canonical_json_bytes_def Let_def length_dumps del: ints_ok.simps)
qed

lemma sample_plan_wf:
  "keys_distinct (PDict sample_summary)"
  "dget sample_summary ''manifest_shards'' = Some (PTuple (map (\<lambda>s. PStr (ms_sha256 s)) [sample_shard]))"
  "map ms_index [sample_shard] = map int [0..<length [sample_shard]]"
  by (simp_all add: sample_summary_def sample_shard_def Let_def)

theorem plan_artifact_decodes_witness:
  "\<exists>body a. decode_plan_artifact body 65536 1048576 4096 = Inr a \<and> pa_shards a = [sample_shard]"
proof -
  obtain body where "canonical_json_bytes (PDict (plan_value sample_summary [sample_shard])) 65536 4096 = Inr body"
    using sample_plan_encodes by blast
  from plan_artifact_decodes [OF this sample_plan_wf(1,2) _ _ sample_plan_wf(3), of 1048576] sample_shard_sound
  show ?thesis by auto
qed

lemma sample_plan_accepted:
  obtains body a where "decode_plan_artifact body 65536 1048576 4096 = Inr a" "pa_shards a = [sample_shard]"
proof -
  obtain body where "canonical_json_bytes (PDict (plan_value sample_summary [sample_shard])) 65536 4096 = Inr body"
    using sample_plan_encodes by blast
  from plan_artifact_accepted [OF this sample_plan_wf(1,2) _ _ sample_plan_wf(3), of 1048576] sample_shard_sound that
  show thesis by auto
qed

theorem decode_plan_artifact_sound_witness:
  "\<exists>body a. decode_plan_artifact body 65536 1048576 4096 = Inr a \<and> pa_shards a \<noteq> [] \<and> pa_sha256 a = sha256 body"
proof -
  obtain body a where "decode_plan_artifact body 65536 1048576 4096 = Inr a" "pa_shards a = [sample_shard]"
    by (rule sample_plan_accepted)
  with decode_plan_artifact_sound [of body 65536 1048576 4096 a]
  have "decode_plan_artifact body 65536 1048576 4096 = Inr a \<and> pa_shards a \<noteq> [] \<and> pa_sha256 a = sha256 body" by simp
  then show ?thesis by blast
qed

section \<open>Sharding always succeeds on fitting records\<close>

definition fits :: "int \<Rightarrow> object_record \<Rightarrow> bool" where
  \<comment> \<open>the record's own text is printable, within the record bound and within one shard\<close>
  "fits max_len r \<longleftrightarrow>
     int_ok (or_size r) \<and> int (json_len (record_json r)) \<le> 65536 \<and> int (json_len (record_json r)) + 2 \<le> max_len"

lemma shard_inventory_returns:
  assumes "2 \<le> max_len" "distinct (map or_key rs)" "list_all (fits max_len) rs"
  shows "\<exists>shards. shard_inventory rs max_len = Inr shards"
proof -
  obtain ordered where o: "canonical_records rs = Inr ordered" using assms(2) canonical_records_iff by blast
  then have "set ordered = set rs" using canonical_records_sorted(2) mset_eq_setD by blast
  then have f: "list_all (fits max_len) ordered" using assms(3) by (simp add: list_all_iff)
  have e: "mapE (\<lambda>r. canonical_json (record_json r)) ordered = Inr (map (\<lambda>r. dumps (record_json r)) ordered)"
    by (rule mapE_eq_Inr_map) (use f in \<open>simp add: canonical_json_record list_all_iff fits_def\<close>)
  obtain gs where g: "shard_groups max_len (zip ordered (map (\<lambda>r. dumps (record_json r)) ordered)) [] [] 2 = Inr gs"
    using shard_groups_total [of max_len ordered "[]" "[]" 2] f by (auto simp: fits_def list_all_iff)
  have gs: "concat gs = ordered" "list_all (\<lambda>g. g \<noteq> [] \<and> list_len g \<le> max_len) gs"
    using shard_groups_spec [OF g] by (simp_all add: list_len_simps(1))
  have "\<exists>shards. mapE (make_shard max_len) (enum_from 0 gs) = Inr shards"
    unfolding mapE_Inr_iff
  proof
    fix x assume "x \<in> set (enum_from 0 gs)"
    then have "snd x \<in> set gs" by (metis enum_from_simps(1) imageI list.set_map)
    then have "set (snd x) \<subseteq> set ordered" "list_len (snd x) \<le> max_len" using gs by (auto simp: list_all_iff)
    then show "\<exists>y. make_shard max_len x = Inr y"
      using f make_shard_Inr [OF assms(1), of "fst x" "snd x"] by (auto simp: list_all_iff fits_def)
  qed
  with o e g assms(1) show ?thesis by (simp add: shard_inventory_def not_less)
qed

text \<open>Sharding always terminates with shards: for records with distinct keys whose own text fits
  one shard, \<open>shard_inventory\<close> returns; the shard bound is never exceeded by grouping.\<close>

theorem shard_inventory_total:
  assumes "2 \<le> max_len" "distinct (map or_key rs)" "list_all (fits max_len) rs"
  shows "\<exists>shards. shard_inventory rs max_len = Inr shards"
  using shard_inventory_returns [OF assms] .

lemma sample_record_fits: "fits 1048576 sample_record"
  using sample_record_len by (simp add: fits_def) (simp add: sample_record_def int_ok_def dec_nat.simps max_int_digits_def)

theorem shard_inventory_total_witness: "\<exists>shards. shard_inventory [sample_record] 1048576 = Inr shards"
  by (rule shard_inventory_total) (simp_all add: sample_record_fits)

theorem shard_inventory_partition_witness:
  "\<exists>shards. shard_inventory [sample_record] 1048576 = Inr shards \<and>
     canonical_records [sample_record] = Inr (concat (map ms_records shards))"
proof -
  obtain shards where s: "shard_inventory [sample_record] 1048576 = Inr shards"
    using shard_inventory_returns [of 1048576 "[sample_record]"] sample_record_fits by auto
  with shard_inventory_partition [OF s] show ?thesis by blast
qed

end
