(* ===== verification/GatewayFacts.thy ===== *)
theory GatewayFacts
  imports Gateway Trace RecordsCodec
begin

text \<open>
  The S3 gateway against its clients.  The locale \<open>gateway_family\<close> is what the lease manager,
  the planner and the operation manager rely on when they are confined to a set of S3 calls; the
  locale \<open>gateway_results\<close> is what they rely on about answers.  Both are interpreted on
  \<open>s3_gateway\<close> for every client and policy.
\<close>

section \<open>Which calls the operations make\<close>

lemma gateway_check_deadline_keeps [keeps]:
  "env_ok P allowed env \<Longrightarrow> preserves P (gateway_check_deadline env policy started)"
  unfolding gateway_check_deadline_def by (intro keeps)

lemma inventory_page_keeps:
  assumes ok: "env_ok P allowed env" and chk: "preserves P chk"
    and al: "\<And>n t. allowed (ListObjectsV2 (bucket policy) prefix n t)"
  shows "preserves P (inventory_page env policy chk started prefix token)"
  unfolding inventory_page_def by (intro keeps gateway_check_deadline_keeps [OF ok] chk env_okD [OF ok] al)

lemma inventory_pages_keeps:
  assumes ok: "env_ok P allowed env" and chk: "preserves P chk"
    and al: "\<And>n t. allowed (ListObjectsV2 (bucket policy) prefix n t)"
  shows "preserves P (inventory_pages env policy chk started prefix n token seen rs bytes_sum)"
proof (induction n arbitrary: token seen rs bytes_sum)
  case 0
  show ?case by (simp only: inventory_pages.simps) (intro keeps inventory_page_keeps [OF ok chk] al)
next
  case (Suc n)
  show ?case by (simp only: inventory_pages.simps) (intro keeps inventory_page_keeps [OF ok chk] al Suc.IH)
qed

lemma s3_inventory_keeps:
  assumes ok: "env_ok P allowed env" and chk: "preserves P chk"
    and al: "\<And>n t. allowed (ListObjectsV2 (bucket policy) prefix n t)"
  shows "preserves P (s3_inventory env policy chk prefix)"
  unfolding s3_inventory_def by (intro keeps env_okD [OF ok] inventory_pages_keeps [OF ok chk] al)

lemma read_control_keeps:
  assumes ok: "env_ok P allowed env" and chk: "preserves P chk" and al: "allowed (GetObject (bucket policy) key)"
  shows "preserves P (read_control env policy chk key n)"
  unfolding read_control_def get_control_def read_body_def by (intro keeps env_okD [OF ok] chk al)

lemma write_control_keeps:
  assumes ok: "env_ok P allowed env" and chk: "preserves P chk" and get: "allowed (GetObject (bucket policy) key)"
    and put: "allowed (PutObject (bucket policy) key body condition)"
  shows "preserves P (write_control env policy chk key body condition)"
  unfolding write_control_def by (intro keeps env_okD [OF ok] chk read_control_keeps [OF ok chk] get put)

lemma list_controls_keeps:
  assumes ok: "env_ok P allowed env" and chk: "preserves P chk"
    and al: "\<And>n. allowed (ListObjectsV2 (bucket policy) prefix n None)"
  shows "preserves P (list_controls env policy chk prefix n)"
  unfolding list_controls_def by (intro keeps env_okD [OF ok] chk al)

lemma head_record_keeps:
  assumes ok: "env_ok P allowed env" and chk: "preserves P chk" and al: "allowed (HeadObject (bucket policy) (or_key r))"
  shows "preserves P (head_record env policy chk r)"
  unfolding head_record_def by (intro keeps env_okD [OF ok] chk al)

lemma preserves_bindA_liftA:
  "(\<And>x. r = Inr x \<Longrightarrow> preserves P (f x)) \<Longrightarrow> preserves P (bindA (liftA r) f)"
  by (cases r) (simp_all add: preserves_def bindA_def liftA_def)

lemma preserves_guarded: "(\<not> b \<Longrightarrow> preserves P k) \<Longrightarrow> preserves P (seqA (guardA b e) k)"
  by (cases b) (simp_all add: preserves_def seqA_def bindA_def guardA_def raiseA_def retA_def)

definition owned_batch :: "checkpoint_policy \<Rightarrow> object_record list \<Rightarrow> string \<Rightarrow> bool" where
  \<comment> \<open>what a delete request requires of its records: one owned prefix, and a bounded number of keys\<close>
  "owned_batch policy rs p \<longleftrightarrow>
     rs \<noteq> [] \<and> int (length rs) \<le> max_delete_keys (bounds policy) \<and> (\<forall>r\<in>set rs. validate_data_key policy (or_key r) = Inr p)"

lemma delete_batch_owned:
  assumes "ordered \<noteq> []" "\<not> int (length ordered) > max_delete_keys (bounds policy)"
    and "mapE (\<lambda>r. validate_data_key policy (or_key r)) ordered = Inr prefixes" "length (remdups prefixes) = 1"
  obtains p where "owned_batch policy ordered p"
proof -
  from assms(4) obtain p where "remdups prefixes = [p]" by (metis One_nat_def length_0_conv length_Suc_conv)
  then have p: "set prefixes = {p}" by (metis empty_set list.simps(15) set_remdups)
  from assms(3) have "list_all2 (\<lambda>r q. validate_data_key policy (or_key r) = Inr q) ordered prefixes" by (rule mapE_all2)
  then have "\<forall>r\<in>set ordered. validate_data_key policy (or_key r) = Inr p"
    using p by (auto simp: list_all2_conv_all_nth in_set_conv_nth) (metis nth_mem singletonD)
  with assms(1,2) have "owned_batch policy ordered p" by (simp add: owned_batch_def)
  then show thesis by (rule that)
qed

lemma delete_records_keeps:
  assumes ok: "env_ok P allowed env" and chk: "preserves P chk"
    and al: "\<And>ordered p. canonical_records rs = Inr ordered \<Longrightarrow> owned_batch policy ordered p \<Longrightarrow>
      allowed (DeleteObjects (bucket policy) (map or_key ordered))"
  shows "preserves P (delete_records env policy chk rs)"
  unfolding delete_records_def
proof (rule preserves_bindA_liftA, rule preserves_guarded, rule preserves_bindA_liftA, rule preserves_guarded)
  fix ordered prefixes
  assume c: "catchE (canonical_records rs) (\<lambda>e. case e of RecordFailure c \<Rightarrow> gateway_failure c | _ \<Rightarrow> e) = Inr ordered"
    and n: "\<not> (ordered = [] \<or> int (length ordered) > max_delete_keys (bounds policy))"
    and ps: "mapE (\<lambda>r. validate_data_key policy (or_key r)) ordered = Inr prefixes" "\<not> length (remdups prefixes) \<noteq> 1"
  from c have c': "canonical_records rs = Inr ordered" by (simp add: catchE_def split: sum.splits)
  from n ps obtain p where "owned_batch policy ordered p" using delete_batch_owned [of ordered policy prefixes] by auto
  from al [OF c' this]
  show "preserves P (seqA chk (bindA (mapexnA (env_s3 env (DeleteObjects (bucket policy) (map or_key ordered)))
      (else_code (gateway_failure ''delete_failed''))) (\<lambda>response. liftA (check_deleted (map or_key ordered) response))))"
    by (intro keeps env_okD [OF ok] chk)
qed


section \<open>What an inventory holds\<close>

definition listed :: "string \<Rightarrow> object_record \<Rightarrow> bool" where
  "listed prefix r \<longleftrightarrow> record_ok r \<and> startswith (or_key r) prefix \<and> or_key r \<noteq> prefix"

definition inventory_sound :: "checkpoint_policy \<Rightarrow> string \<Rightarrow> object_record list \<Rightarrow> bool" where
  \<comment> \<open>sorted by key, inside the prefix, well formed and within the policy's bounds\<close>
  "inventory_sound policy prefix rs \<longleftrightarrow>
     sorted_wrt key_less rs \<and> list_all (listed prefix) rs \<and>
     int (length rs) \<le> max 0 (max_objects (bounds policy)) \<and> sum_list (map or_size rs) \<le> max 0 (max_bytes (bounds policy))"

lemma inventory_record_listed: "inventory_record prefix item = Inr r \<Longrightarrow> listed prefix r"
  by (auto simp: inventory_record_def listed_def inr_iffs make_object_record_Inr make_object_record_ok split: if_splits)

definition collected :: "checkpoint_policy \<Rightarrow> string \<Rightarrow> object_record list \<Rightarrow> int \<Rightarrow> bool" where
  \<comment> \<open>the invariant of the paging loop\<close>
  "collected policy prefix rs n \<longleftrightarrow>
     list_all (listed prefix) rs \<and> n = sum_list (map or_size rs) \<and>
     int (length rs) \<le> max 0 (max_objects (bounds policy)) \<and> n \<le> max 0 (max_bytes (bounds policy))"

lemma inventory_items_collected:
  "inventory_items policy prefix items rs n = Inr (rs', n') \<Longrightarrow> collected policy prefix rs n \<Longrightarrow> collected policy prefix rs' n'"
proof (induction items arbitrary: rs n)
  case (Cons item items)
  from Cons.prems(1) obtain r where r: "inventory_record prefix item = Inr r"
    and le: "int (length rs) + 1 \<le> max_objects (bounds policy)" "n + or_size r \<le> max_bytes (bounds policy)"
    and rest: "inventory_items policy prefix items (rs @ [r]) (n + or_size r) = Inr (rs', n')"
    by (auto simp: inr_iffs not_less split: if_splits)
  have "collected policy prefix (rs @ [r]) (n + or_size r)"
    using Cons.prems(2) le inventory_record_listed [OF r] by (simp add: collected_def)
  with rest show ?case by (rule Cons.IH)
qed simp

lemma inventory_pages_collected:
  "inventory_pages env policy chk started prefix n token seen rs b w = (Inr rs', w') \<Longrightarrow>
   collected policy prefix rs b \<Longrightarrow> \<exists>b'. collected policy prefix rs' b'"
proof (induction n arbitrary: token seen rs b w)
  case (Suc n)
  from Suc.prems(1) obtain contents rs1 b1 where items: "inventory_items policy prefix contents rs b = Inr (rs1, b1)"
    and cont: "rs' = rs1 \<or> (\<exists>t s v. inventory_pages env policy chk started prefix n t s rs1 b1 v = (Inr rs', w'))"
    by (auto simp: inr_iffs split: if_splits) blast+
  from inventory_items_collected [OF items Suc.prems(2)] have "collected policy prefix rs1 b1" .
  with cont Suc.IH show ?case by blast
qed (simp add: inr_iffs)

lemma s3_inventory_sound: "s3_inventory env policy chk prefix w = (Inr rs, w') \<Longrightarrow> inventory_sound policy prefix rs"
proof -
  assume "s3_inventory env policy chk prefix w = (Inr rs, w')"
  then obtain started n w1 raw w2 where pages: "inventory_pages env policy chk started prefix n None [] [] 0 w1 = (Inr raw, w2)"
    and rs: "canonical_records raw = Inr rs"
    by (auto simp: s3_inventory_def inr_iffs)
  obtain b where c: "collected policy prefix raw b"
    using inventory_pages_collected [OF pages] by (auto simp: collected_def)
  from canonical_records_sorted [OF rs] have s: "sorted_wrt key_less rs" "mset rs = mset raw" by auto
  have "sum_list (map or_size rs) = sum_list (map or_size raw)"
    using s(2) by (metis mset_map sum_mset_sum_list)
  moreover have "set rs = set raw" "length rs = length raw" using s(2) by (auto dest: mset_eq_setD mset_eq_length)
  ultimately show ?thesis using c s(1) by (auto simp: inventory_sound_def collected_def list_all_iff)
qed

section \<open>How many requests an inventory sends\<close>

definition at_most :: "nat \<Rightarrow> ('w \<times> s3_call list, 'a) act \<Rightarrow> bool" where
  "at_most n m \<longleftrightarrow> (\<forall>w l. length (snd (snd (m (w, l)))) \<le> length l + n)"

lemma at_most_bindA: "at_most i m \<Longrightarrow> (\<And>x. at_most j (f x)) \<Longrightarrow> at_most (i + j) (bindA m f)"
  unfolding at_most_def
proof (intro allI)
  fix w l
  assume a: "\<forall>w l. length (snd (snd (m (w, l)))) \<le> length l + i" "\<And>x. \<forall>w l. length (snd (snd (f x (w, l)))) \<le> length l + j"
  obtain r w1 l1 where m: "m (w, l) = (r, (w1, l1))" by (metis prod.exhaust)
  with a(1) have l1: "length l1 \<le> length l + i" by (metis snd_conv)
  show "length (snd (snd (bindA m f (w, l)))) \<le> length l + (i + j)"
  proof (cases r)
    case (Inr x)
    have "length (snd (snd (f x (w1, l1)))) \<le> length l1 + j" using a(2) by blast
    then show ?thesis using m Inr l1 by (simp add: act_simps)
  qed (use m l1 in \<open>simp add: act_simps\<close>)
qed

lemma at_most_0:
  "at_most 0 (retA x)" "at_most 0 (raiseA e)" "at_most 0 (liftA r)" "at_most 0 (guardA b e)" "at_most 0 (onW a)"
  by (auto simp: at_most_def retA_def raiseA_def liftA_def guardA_def onW_def split: prod.split)

lemma at_most_le: "at_most i m \<Longrightarrow> i \<le> j \<Longrightarrow> at_most j m"
  unfolding at_most_def by (meson add_left_mono order_trans)

lemma at_most_mapexnA: "at_most i m \<Longrightarrow> at_most i (mapexnA m h)"
  unfolding at_most_def
proof (intro allI)
  fix w l
  assume a: "\<forall>w l. length (snd (snd (m (w, l)))) \<le> length l + i"
  obtain r s where m: "m (w, l) = (r, s)" by (metis prod.exhaust)
  with a have "length (snd s) \<le> length l + i" by (metis snd_conv)
  with m show "length (snd (snd (mapexnA m h (w, l)))) \<le> length l + i"
    by (cases r) (simp_all add: act_simps)
qed

lemma at_most_seqA: "at_most i m \<Longrightarrow> at_most j k \<Longrightarrow> at_most (i + j) (seqA m k)"
  unfolding seqA_def by (rule at_most_bindA)

lemma at_most_s3: "at_most 1 (env_s3 (traced env) c)"
  by (auto simp: at_most_def traced_def split: prod.split)

lemma inventory_page_once: "at_most 1 (inventory_page (traced env) policy (onW chk) started prefix token)"
proof -
  have clock: "at_most 0 (gateway_check_deadline (traced env) policy started)"
    unfolding gateway_check_deadline_def
    using at_most_bindA [OF at_most_mapexnA [OF at_most_0(5)] at_most_0(4)] by (simp add: traced_def)
  note chk = at_most_0(5) [of chk]
  show ?thesis
    unfolding inventory_page_def
    using at_most_seqA [OF clock at_most_seqA [OF chk at_most_bindA [OF at_most_mapexnA [OF at_most_s3]
          at_most_seqA [OF chk at_most_seqA [OF clock at_most_0(1)]]]]] by simp
qed

lemma at_most_liftA_bindA: "(\<And>x. r = Inr x \<Longrightarrow> at_most n (f x)) \<Longrightarrow> at_most n (bindA (liftA r) f)"
  by (cases r) (auto simp: at_most_def bindA_def liftA_def)

lemma inventory_pages_at_most:
  "at_most (Suc n) (inventory_pages (traced env) policy (onW chk) started prefix n token seen rs b)"
proof (induction n arbitrary: token seen rs b)
  case 0
  show ?case using at_most_bindA [OF inventory_page_once at_most_0(2)] by simp
next
  case (Suc n)
  have ends: "at_most j (retA x)" "at_most j (raiseA e)" for j x e
    using at_most_le [OF at_most_0(1)] at_most_le [OF at_most_0(2)] by simp_all
  have "at_most (1 + Suc n) (inventory_pages (traced env) policy (onW chk) started prefix (Suc n) token seen rs b)"
    unfolding inventory_pages.simps
    by (rule at_most_bindA [OF inventory_page_once])
      (auto simp: ends Suc.IH split: pyval.split prod.split intro!: at_most_liftA_bindA)
  then show ?case by simp
qed


section \<open>Interfaces\<close>

locale gateway_family =
  fixes G :: "('w, unit) act \<Rightarrow> 'w gateway" and env :: "'w env" and P :: "'w \<Rightarrow> bool"
    and allowed :: "s3_call \<Rightarrow> bool" and bk :: string
  assumes env: "env_ok P allowed env"
    and inventory: "preserves P chk \<Longrightarrow> (\<And>n t. allowed (ListObjectsV2 bk prefix n t)) \<Longrightarrow> preserves P (gw_inventory (G chk) prefix)"
    and read: "preserves P chk \<Longrightarrow> allowed (GetObject bk key) \<Longrightarrow> preserves P (gw_read_control (G chk) key n)"
    and create: "preserves P chk \<Longrightarrow> allowed (GetObject bk key) \<Longrightarrow> allowed (PutObject bk key body IfNoneMatch) \<Longrightarrow>
      preserves P (gw_create_control (G chk) key body)"
    and replace: "preserves P chk \<Longrightarrow> allowed (GetObject bk key) \<Longrightarrow> allowed (PutObject bk key body (IfMatch (quoted etag))) \<Longrightarrow>
      preserves P (gw_replace_lease (G chk) key etag body)"
    and listing: "preserves P chk \<Longrightarrow> (\<And>n. allowed (ListObjectsV2 bk prefix n None)) \<Longrightarrow> preserves P (gw_list_controls (G chk) prefix n)"
    and head: "preserves P chk \<Longrightarrow> allowed (HeadObject bk (or_key r)) \<Longrightarrow> preserves P (gw_head_record (G chk) r)"
    and delete: "preserves P chk \<Longrightarrow>
      (\<And>ordered. canonical_records rs = Inr ordered \<Longrightarrow> allowed (DeleteObjects bk (map or_key ordered))) \<Longrightarrow>
      preserves P (gw_delete_records (G chk) rs)"

interpretation s3_calls: gateway_family "s3_gateway (traced env) policy" "traced env" "logs allowed" allowed "bucket policy"
  for env :: "'w env" and policy allowed
proof unfold_locales
  note ok = traced_ok [of allowed env]
  show "env_ok (logs allowed) allowed (traced env)" by (rule ok)
  fix chk :: "('w \<times> s3_call list, unit) act" and prefix key body etag n and r :: object_record and rs
  assume chk: "preserves (logs allowed) chk"
  show "(\<And>n t. allowed (ListObjectsV2 (bucket policy) prefix n t)) \<Longrightarrow>
      preserves (logs allowed) (gw_inventory (s3_gateway (traced env) policy chk) prefix)"
    by (simp add: s3_gateway_def s3_inventory_keeps [OF ok chk])
  show "allowed (GetObject (bucket policy) key) \<Longrightarrow>
      preserves (logs allowed) (gw_read_control (s3_gateway (traced env) policy chk) key n)"
    by (simp add: s3_gateway_def read_control_keeps [OF ok chk])
  show "allowed (GetObject (bucket policy) key) \<Longrightarrow> allowed (PutObject (bucket policy) key body IfNoneMatch) \<Longrightarrow>
      preserves (logs allowed) (gw_create_control (s3_gateway (traced env) policy chk) key body)"
    by (simp add: s3_gateway_def create_control_def write_control_keeps [OF ok chk])
  show "allowed (GetObject (bucket policy) key) \<Longrightarrow> allowed (PutObject (bucket policy) key body (IfMatch (quoted etag))) \<Longrightarrow>
      preserves (logs allowed) (gw_replace_lease (s3_gateway (traced env) policy chk) key etag body)"
    by (simp add: s3_gateway_def replace_lease_def write_control_keeps [OF ok chk] keeps)
  show "(\<And>n. allowed (ListObjectsV2 (bucket policy) prefix n None)) \<Longrightarrow>
      preserves (logs allowed) (gw_list_controls (s3_gateway (traced env) policy chk) prefix n)"
    by (simp add: s3_gateway_def list_controls_keeps [OF ok chk])
  show "allowed (HeadObject (bucket policy) (or_key r)) \<Longrightarrow>
      preserves (logs allowed) (gw_head_record (s3_gateway (traced env) policy chk) r)"
    by (simp add: s3_gateway_def head_record_keeps [OF ok chk])
  show "(\<And>ordered. canonical_records rs = Inr ordered \<Longrightarrow> allowed (DeleteObjects (bucket policy) (map or_key ordered))) \<Longrightarrow>
      preserves (logs allowed) (gw_delete_records (s3_gateway (traced env) policy chk) rs)"
    by (simp add: s3_gateway_def delete_records_keeps [OF ok chk])
qed

lemma write_control_readback:
  assumes "write_control env policy chk key body condition w = (Inr etag, w')"
  shows "\<exists>w1. read_control env policy chk key (int (length body)) w1 = (Inr (body, etag), w')"
  using assms by (auto simp: write_control_def inr_iffs split: if_splits)

lemma read_control_bounds:
  assumes "read_control env policy chk key n w = (Inr (body, etag), w')"
  shows "control_key key" "int (length body) \<le> n" "etag_pattern etag"
proof -
  from assms have "validate_control_key key = Inr ()" by (auto simp: read_control_def inr_iffs)
  then show "control_key key" by (simp add: validate_control_key_def)
  from assms obtain d w1 w2 where "read_body chk d n w1 = (Inr (body, etag), w2)"
    by (auto simp: read_control_def inr_iffs)
  then show "int (length body) \<le> n" "etag_pattern etag"
    by (auto simp: read_body_def parse_etag_def Let_def inr_iffs split: if_splits)
qed

lemma mapE_listed_key: "mapE (listed_key prefix) contents = Inr ks \<Longrightarrow> k \<in> set ks \<Longrightarrow> startswith k prefix"
  by (induction contents arbitrary: ks) (auto simp: listed_key_def inr_iffs split: if_splits pyval.splits)

lemma list_controls_below:
  assumes "list_controls env policy chk prefix n w = (Inr ks, w')" "k \<in> set ks"
  shows "startswith k prefix"
proof -
  from assms(1) obtain contents ks' where "mapE (listed_key prefix) contents = Inr ks'" "ks = sort ks'"
    by (auto simp: list_controls_def inr_iffs split: if_splits pyval.splits)
  with assms(2) show ?thesis using mapE_listed_key by simp
qed

locale gateway_results =
  fixes gw :: "'w gateway" and policy :: checkpoint_policy
  assumes inventory_sound: "gw_inventory gw prefix w = (Inr rs, w') \<Longrightarrow> inventory_sound policy prefix rs"
    and read_bounds: "gw_read_control gw key n w = (Inr (body, etag), w') \<Longrightarrow> control_key key \<and> int (length body) \<le> n \<and> etag_pattern etag"
    and create_readback: "gw_create_control gw key body w = (Inr etag, w') \<Longrightarrow>
      \<exists>w1. gw_read_control gw key (int (length body)) w1 = (Inr (body, etag), w')"
    and replace_readback: "gw_replace_lease gw key old body w = (Inr etag, w') \<Longrightarrow>
      \<exists>w1. gw_read_control gw key (int (length body)) w1 = (Inr (body, etag), w')"
    and listed_below: "gw_list_controls gw prefix n w = (Inr ks, w') \<Longrightarrow> k \<in> set ks \<Longrightarrow> startswith k prefix"

interpretation s3_results: gateway_results "s3_gateway env policy chk" policy for env policy chk
  by unfold_locales
    (auto simp: s3_gateway_def create_control_def replace_lease_def inr_iffs dest: s3_inventory_sound read_control_bounds
      write_control_readback list_controls_below)

end
