(* ===== verification/PolicyFacts.thy ===== *)
theory PolicyFacts
  imports Policy
begin

text \<open>
  Facts about the registry.  A policy that \<open>parse_policy\<close> accepts is the fixed five-entry
  inventory (\<open>registry_ok\<close>): every field but the retirement of a durable stream is determined.
  Hence prefix ownership is unambiguous: an exact prefix that \<open>match_prefix\<close> accepts is owned by
  one entry and contains no other owned prefix, so that listing or deleting below it cannot reach
  another checkpoint or the control prefix.
\<close>

section \<open>Accepted entries\<close>

definition expects :: "(string \<times> pyval) list \<Rightarrow> string \<Rightarrow> string \<Rightarrow> bool" where
  "expects ex k s \<longleftrightarrow> map_of ex k = Some (PStr s)"

definition retirement_ok :: "checkpoint_entry \<Rightarrow> bool" where
  \<comment> \<open>an active entry carries no retirement, a retired one a clock and a safe review identifier\<close>
  "retirement_ok e \<longleftrightarrow>
     (if lifecycle e = ''active'' then retired_at e = PNone \<and> retirement_review e = PNone
      else lifecycle e = ''retired'' \<and> durability e = ''durable_stream'' \<and>
           is_exact_utc (retired_at e) \<and> datetime_in_range (retired_at e) \<and> is_str (retirement_review e) \<and> safe_review (str_val (retirement_review e)))"

definition entry_ok :: "string \<times> (string \<times> pyval) list \<Rightarrow> checkpoint_entry \<Rightarrow> bool" where
  "entry_ok = (\<lambda>(cid, ex) e.
     checkpoint_id e = cid \<and> expects ex ''prefix'' (entry_prefix e) \<and> expects ex ''owner'' (owner e) \<and>
     expects ex ''workload'' (workload e) \<and> expects ex ''source'' (source e) \<and> expects ex ''sink'' (sink e) \<and>
     expects ex ''durability'' (durability e) \<and> expects ex ''recovery_class'' (recovery_class e) \<and>
     expects ex ''sink_disposition'' (sink_disposition e) \<and> expects ex ''concurrent_writers'' (concurrent_writers e) \<and>
     expects ex ''retirement_authorization'' (retirement_authorization e) \<and>
     map_of ex ''terminal_states'' = Some (strs (terminal_states e)) \<and>
     map_of ex ''retention_seconds'' = Some (PInt (retention_seconds e)) \<and>
     map_of ex ''scales'' = (if scales e = [] then None else Some (strs (scales e))) \<and>
     retirement_ok e)"

definition registry_ok :: "checkpoint_policy \<Rightarrow> bool" where
  "registry_ok p \<longleftrightarrow>
     version p = 1 \<and> bucket p = ''checkpoints'' \<and> control_prefix p = ''_retention/'' \<and>
     lease p = \<lparr>heartbeat_seconds = 60, ttl_seconds = 600, future_tolerance_seconds = 300, quiescence_seconds = 900\<rparr> \<and>
     bounds p = \<lparr>max_pages = 100, max_objects = 100000, max_bytes = 10737418240, max_delete_keys = 1000,
                 max_active_seconds = 900, max_summary_bytes = 65536, max_manifest_shard_bytes = 1048576\<rparr> \<and>
     list_all2 (\<lambda>x (k, e). k = checkpoint_id e \<and> entry_ok x e) expected_entries (entries p)"

lemma strs_inject [simp]: "strs xs = strs ys \<longleftrightarrow> xs = ys"
  by (simp add: strs_def inj_map_eq_map inj_def)

lemma check_expected_fields_str:
  "check_expected_fields raw ex = Inr u \<Longrightarrow> map_of ex k = Some (PStr s) \<Longrightarrow>
   k \<notin> {''terminal_states'', ''retention_seconds'', ''scales''} \<Longrightarrow> raw_item raw k = PStr s"
  by (induction raw ex rule: check_expected_fields.induct) (auto split: if_splits simp: bindE_eq_Inr)

lemma parse_retirement_ok:
  "parse_retirement (PStr life) raw = Inr (ra, rr) \<Longrightarrow> life \<in> {''active'', ''retired''} \<Longrightarrow>
   (if life = ''active'' then ra = PNone \<and> rr = PNone
    else is_exact_utc ra \<and> datetime_in_range ra \<and> is_str rr \<and> safe_review (str_val rr))"
  by (auto simp: parse_retirement_def Let_def split: if_splits option.splits dest: parse_utc_range simp del: datetime_in_range_utc)

lemma expected_entries_known:
  "map_of expected_entries cid = Some ex \<Longrightarrow> (cid, ex) \<in> set expected_entries"
  by (rule map_of_SomeD)

definition text_fields :: "string list" where
  "text_fields = [''prefix'', ''owner'', ''workload'', ''source'', ''sink'', ''durability'', ''recovery_class'',
     ''sink_disposition'', ''concurrent_writers'', ''retirement_authorization'']"

definition expected_shape :: "(string \<times> pyval) list \<Rightarrow> bool" where
  "expected_shape ex \<longleftrightarrow>
     list_all (\<lambda>k. case map_of ex k of Some v \<Rightarrow> is_str v | None \<Rightarrow> False) text_fields \<and>
     map_of ex ''scales'' \<in> {None, Some (strs [''tiny'', ''small'', ''medium''])} \<and>
     (case map_of ex ''retention_seconds'' of Some v \<Rightarrow> is_int v | None \<Rightarrow> False)"

lemma expected_entries_shape: "list_all (\<lambda>x. expected_shape (snd x)) expected_entries"
  by code_simp

lemma expected_entry_shape: "(cid, ex) \<in> set expected_entries \<Longrightarrow> expected_shape ex"
  using expected_entries_shape unfolding list_all_iff by (metis snd_conv)

lemma expected_shapeD:
  assumes "expected_shape ex"
  shows expected_text_field: "k \<in> set text_fields \<Longrightarrow> \<exists>s. map_of ex k = Some (PStr s)"
    and expected_scales: "map_of ex ''scales'' = None \<or> map_of ex ''scales'' = Some (strs [''tiny'', ''small'', ''medium''])"
    and expected_retention: "\<exists>n. map_of ex ''retention_seconds'' = Some (PInt n)"
  using assms unfolding expected_shape_def list_all_iff
  by (fastforce simp: is_str_iff is_int_iff split: option.split_asm)+

lemma require_exact_int_Inr: "require_exact_int v n c = Inr u \<longleftrightarrow> v = PInt n"
  by (cases v) (simp_all add: require_exact_int_def)

lemma require_str_list_Inr: "require_str_list v = Inr ss \<Longrightarrow> v = PList (map PStr ss)"
  by (cases v) (auto simp: require_str_list_def list_all_iff o_def intro!: map_idI [symmetric] split: if_splits)

lemma parse_known_entry_ok:
  assumes "parse_known_entry cid ex raw = Inr e" "(cid, ex) \<in> set expected_entries"
  shows "entry_ok (cid, ex) e"
proof -
  note shape = expected_entry_shape [OF assms(2)]
  define durable where "durable \<longleftrightarrow> map_of ex ''durability'' = Some (PStr ''durable_stream'')"
  define life where "life = raw_item raw ''lifecycle''"
  from assms(1) obtain retirement states ss u where
    life: "life \<in> (if durable then {PStr ''active'', PStr ''retired''} else {PStr ''active''})"
    and ret: "(if durable then parse_retirement life raw else Inr (PNone, PNone)) = Inr retirement"
    and st: "Some (strs states) = map_of ex ''terminal_states''"
    and rt: "raw_item raw ''retention_seconds'' = PInt (case map_of ex ''retention_seconds'' of Some x \<Rightarrow> int_val x | None \<Rightarrow> 0)"
    and sc: "parse_scales ex raw = Inr ss"
    and chk: "check_expected_fields raw ex = Inr u"
    and e: "e = build_entry cid raw (str_val life) retirement states ss"
    unfolding parse_known_entry_def Let_def durable_def [symmetric] life_def [symmetric]
    by (simp only: inr_iffs require_exact_int_Inr sum.inject not_not) blast
  have fld: "expects ex k (str_val (raw_item raw k))" if "k \<in> set text_fields" for k
    using expected_text_field [OF shape that] check_expected_fields_str [OF chk, of k] that
    by (auto simp: expects_def text_fields_def)
  have scs: "map_of ex ''scales'' = (if ss = [] then None else Some (strs ss))"
    using sc expected_scales [OF shape] by (auto simp: parse_scales_def bindE_eq_Inr split: if_splits)
  have "retirement_ok e"
    using life ret fld [of "''durability''"]
    by (cases retirement)
       (auto simp: e build_entry_def retirement_ok_def durable_def expects_def text_fields_def
             dest: parse_retirement_ok split: if_splits)
  moreover have "list_all (\<lambda>k. expects ex k (str_val (raw_item raw k))) text_fields"
    by (simp add: list_all_iff fld)
  moreover obtain n where "map_of ex ''retention_seconds'' = Some (PInt n)"
    using expected_retention [OF shape] by blast
  ultimately show ?thesis
    using st rt scs by (simp add: entry_ok_def e build_entry_def text_fields_def)
qed

lemma parse_entry_ok:
  assumes "parse_entry v = Inr e"
  shows "\<exists>ex. map_of expected_entries (checkpoint_id e) = Some ex \<and> entry_ok (checkpoint_id e, ex) e"
proof -
  obtain raw cid ex where "map_of expected_entries cid = Some ex" "parse_known_entry cid ex raw = Inr e"
    using assms by (auto simp: parse_entry_def inr_iffs)
  moreover from this have "entry_ok (cid, ex) e"
    by (blast intro: parse_known_entry_ok expected_entries_known)
  ultimately show ?thesis by (auto simp: entry_ok_def)
qed

section \<open>Accepted registries\<close>

lemma check_int_fields_Inr:
  "check_int_fields d kns code = Inr u \<Longrightarrow> (k, n) \<in> set kns \<Longrightarrow> raw_item d k = PInt n"
  by (induction d kns code rule: check_int_fields.induct) (auto simp: inr_iffs require_exact_int_Inr)

lemma expected_ids_distinct: "distinct (map fst expected_entries)"
  by code_simp

lemma entries_in_order:
  assumes "mapE (\<lambda>m. parse_entry (PDict m)) ms = Inr es" "map checkpoint_id es = map fst expected_entries"
  shows "list_all2 entry_ok expected_entries es"
proof (rule list_all2_all_nthI)
  show len: "length expected_entries = length es" using assms(2) by (metis length_map)
  fix i assume i: "i < length expected_entries"
  have "list_all2 (\<lambda>m e. parse_entry (PDict m) = Inr e) ms es" using mapE_all2 [OF assms(1)] .
  then have "parse_entry (PDict (ms ! i)) = Inr (es ! i)"
    using i len by (simp add: list_all2_conv_all_nth)
  from parse_entry_ok [OF this] obtain ex where
    ex: "map_of expected_entries (checkpoint_id (es ! i)) = Some ex" "entry_ok (checkpoint_id (es ! i), ex) (es ! i)"
    by blast
  moreover have "checkpoint_id (es ! i) = fst (expected_entries ! i)"
    using assms(2) i len by (metis nth_map)
  moreover have "map_of expected_entries (fst (expected_entries ! i)) = Some (snd (expected_entries ! i))"
    using i expected_ids_distinct by simp
  ultimately show "entry_ok (expected_entries ! i) (es ! i)" by (metis option.inject prod.collapse)
qed

lemma parse_raw_policy_registry_ok:
  assumes "parse_raw_policy raw = Inr p"
  shows "registry_ok p"
proof -
  from assms obtain lv bv ms es u v where
    l: "check_int_fields lv lease_values ''invalid_lease_policy'' = Inr u"
    and b: "check_int_fields bv bound_values ''invalid_bound'' = Inr v"
    and es: "mapE (\<lambda>m. parse_entry (PDict m)) ms = Inr es" "map checkpoint_id es = map fst expected_entries"
    and p: "p = \<lparr>version = 1, bucket = ''checkpoints'', control_prefix = ''_retention/'',
              lease = \<lparr>heartbeat_seconds = int_val (raw_item lv ''heartbeat_seconds''),
                       ttl_seconds = int_val (raw_item lv ''ttl_seconds''),
                       future_tolerance_seconds = int_val (raw_item lv ''future_tolerance_seconds''),
                       quiescence_seconds = int_val (raw_item lv ''quiescence_seconds'')\<rparr>,
              bounds = \<lparr>max_pages = int_val (raw_item bv ''max_pages''),
                        max_objects = int_val (raw_item bv ''max_objects''),
                        max_bytes = int_val (raw_item bv ''max_bytes''),
                        max_delete_keys = int_val (raw_item bv ''max_delete_keys''),
                        max_active_seconds = int_val (raw_item bv ''max_active_seconds''),
                        max_summary_bytes = int_val (raw_item bv ''max_summary_bytes''),
                        max_manifest_shard_bytes = int_val (raw_item bv ''max_manifest_shard_bytes'')\<rparr>,
              entries = map (\<lambda>e. (checkpoint_id e, e)) es\<rparr>"
    unfolding parse_raw_policy_def by (simp only: inr_iffs sum.inject not_not) blast
  have "list_all (\<lambda>(k, n). raw_item lv k = PInt n) lease_values"
    using check_int_fields_Inr [OF l] by (auto simp: list_all_iff)
  moreover have "list_all (\<lambda>(k, n). raw_item bv k = PInt n) bound_values"
    using check_int_fields_Inr [OF b] by (auto simp: list_all_iff)
  moreover have "list_all2 (\<lambda>x (k, e). k = checkpoint_id e \<and> entry_ok x e) expected_entries (entries p)"
    using entries_in_order [OF es] by (simp add: p list_all2_map2)
  ultimately show ?thesis
    by (simp add: registry_ok_def p lease_values_def bound_values_def)
qed

section \<open>Ownership of prefixes\<close>

definition registry_layout :: "(string \<times> string \<times> string \<times> string list) list" where
  "registry_layout =
     [(''streaming-events-v1'', ''events/'', ''durable_stream'', []),
      (''streaming-event-windows-v1'', ''event_windows/'', ''durable_stream'', []),
      (''streaming-online-retail-cdc-v1'', ''online_retail_cdc/'', ''durable_stream'', []),
      (''streaming-gh-archive-file-v1'', generation_template, ''generation_reproducibility'', [''tiny'', ''small'', ''medium'']),
      (''go-live-streaming-test-v1'', scratch_template, ''disposable_acceptance'', [])]"

definition layout_of :: "string \<times> (string \<times> pyval) list \<Rightarrow> string \<times> string \<times> string \<times> string list" where
  "layout_of = (\<lambda>(cid, ex).
     (cid, str_val (the (map_of ex ''prefix'')), str_val (the (map_of ex ''durability'')),
      case map_of ex ''scales'' of None \<Rightarrow> [] | Some v \<Rightarrow> map str_val (list_val v)))"

lemma layout_expected: "map layout_of expected_entries = registry_layout"
  by code_simp

lemma entry_ok_layout: "entry_ok x e \<Longrightarrow> layout_of x = (checkpoint_id e, entry_prefix e, durability e, scales e)"
  by (cases x) (auto simp: entry_ok_def layout_of_def expects_def strs_def o_def)

lemma registry_ok_layout:
  assumes "registry_ok p"
  shows "map (\<lambda>(_, e). (checkpoint_id e, entry_prefix e, durability e, scales e)) (entries p) = registry_layout"
    and "map fst (entries p) = map fst registry_layout"
proof -
  have "list_all2 (\<lambda>x (k, e). k = checkpoint_id e \<and> entry_ok x e) expected_entries (entries p)"
    using assms by (simp add: registry_ok_def)
  then have "list_all2 (\<lambda>x (k, e). k = checkpoint_id e \<and> layout_of x = (checkpoint_id e, entry_prefix e, durability e, scales e))
     expected_entries (entries p)"
    by (rule list_all2_mono) (auto dest: entry_ok_layout)
  then have "map layout_of expected_entries = map (\<lambda>(_, e). (checkpoint_id e, entry_prefix e, durability e, scales e)) (entries p)
     \<and> map fst (entries p) = map fst (map layout_of expected_entries)"
    by (induction rule: list_all2_induct) (auto simp del: map_map)
  then show "map (\<lambda>(_, e). (checkpoint_id e, entry_prefix e, durability e, scales e)) (entries p) = registry_layout"
    "map fst (entries p) = map fst registry_layout"
    by (simp_all add: layout_expected)
qed

definition families :: "(string \<times> nat) list" where
  \<comment> \<open>the literal beginnings of the owned prefixes, and the length of a prefix of the family\<close>
  "families =
     [(''events/'', 7), (''event_windows/'', 14), (''online_retail_cdc/'', 18),
      (''gh_events_file/tiny/'', 118), (''gh_events_file/small/'', 119), (''gh_events_file/medium/'', 120),
      (''streaming_test/'', 52)]"

definition in_family :: "string \<Rightarrow> string \<times> nat \<Rightarrow> bool" where
  "in_family s = (\<lambda>(root, n). startswith s root \<and> length s = n)"

lemma match_lit_append: "match_classes (lit w @ cs) s \<Longrightarrow> startswith s w"
  by (induction w arbitrary: s)
     (auto simp: lit_def is_char_def match_classes_def list_all2_Cons1)

lemma lit_append: "lit (v @ w) = lit v @ lit w"
  by (simp add: lit_def)

lemma match_generation_family:
  assumes "match_generation s = Some (sc, g)"
  shows "\<exists>f\<in>set families. in_family s f" "sc \<in> {''tiny'', ''small'', ''medium''}"
proof -
  from assms have m: "match_classes (generation_classes sc) s" and sc: "sc \<in> {''tiny'', ''small'', ''medium''}"
    by (auto simp: match_generation_def Let_def find_Some_iff nth_Cons' split: option.split_asm if_splits)
  then show "sc \<in> {''tiny'', ''small'', ''medium''}" by blast
  have "startswith s (''gh_events_file/'' @ sc @ ''/'')"
    using m match_lit_append [of "''gh_events_file/'' @ sc @ ''/''" _ s]
    by (simp only: generation_classes_def lit_append append_assoc)
  moreover have "length s = 114 + length sc"
    using match_classes_length [OF m] by (simp add: generation_classes_def lit_def hex_classes_def)
  ultimately show "\<exists>f\<in>set families. in_family s f"
    using sc by (auto simp: families_def in_family_def)
qed

lemma match_scratch_family:
  assumes "match_scratch s = Some g"
  shows "in_family s (''streaming_test/'', 52)"
proof -
  have m: "match_classes scratch_classes s" using assms by (simp add: match_scratch_def split: if_splits)
  then show ?thesis
    using match_lit_append [of "''streaming_test/''" _ s] match_classes_length [OF m]
    by (simp add: in_family_def scratch_classes_def) (simp add: lit_def hex_classes_def)
qed

lemma match_entries_family:
  assumes "match_entries es s = Inr m"
    and "list_all (\<lambda>(_, e). entry_prefix e = scratch_template \<or> scales e \<noteq> [] \<or> (\<exists>f\<in>set families. in_family (entry_prefix e) f)) es"
  shows "matched_prefix m = s \<and> (\<exists>f\<in>set families. in_family s f)"
  using assms
proof (induction es s rule: match_entries.induct)
  case (2 k entry es s)
  have fam: "in_family s (''streaming_test/'', 52) \<Longrightarrow> \<exists>f\<in>set families. in_family s f"
    by (auto simp: families_def)
  show ?case
    using "2.prems" "2.IH" match_scratch_family [of s] match_generation_family(1) [of s] fam
    by (auto split: if_splits option.splits)
qed simp

lemma registry_entry_families:
  assumes "registry_ok p"
  shows "list_all (\<lambda>(_, e). entry_prefix e = scratch_template \<or> scales e \<noteq> [] \<or>
           (\<exists>f\<in>set families. in_family (entry_prefix e) f)) (entries p)"
proof -
  have "list_all (\<lambda>(_, pre, _, scs). pre = scratch_template \<or> scs \<noteq> [] \<or> list_ex (in_family pre) families) registry_layout"
    by code_simp
  then show ?thesis
    unfolding registry_ok_layout(1) [OF assms, symmetric] list_ex_iff
    by (simp add: list.pred_map o_def case_prod_unfold)
qed

lemma match_prefix_family:
  assumes "registry_ok p" "match_prefix p v = Inr m"
  shows "v = PStr (matched_prefix m)" "\<exists>f\<in>set families. in_family (matched_prefix m) f"
proof -
  from assms(2) obtain s where v: "v = PStr s" and m: "match_entries (entries p) s = Inr m"
    by (auto simp: match_prefix_def inr_iffs validate_concrete_prefix_def)
  with match_entries_family [OF m registry_entry_families [OF assms(1)]]
  show "v = PStr (matched_prefix m)" "\<exists>f\<in>set families. in_family (matched_prefix m) f" by simp_all
qed

lemma families_apart:
  assumes "f \<in> set families" "g \<in> set families" "in_family s f" "in_family t g" "startswith s t"
  shows "s = t"
proof -
  have "list_all (\<lambda>(r, n). list_all (\<lambda>(q, k). startswith r q \<longrightarrow> r = q \<and> n = k) families) families"
    by code_simp
  then have apart: "startswith r q \<Longrightarrow> n = k" if "(r, n) \<in> set families" "(q, k) \<in> set families" for r q n k
    using that by (fastforce simp: list_all_iff)
  obtain r n q k where f: "f = (r, n)" and g: "g = (q, k)" by (cases f; cases g)
  have s: "startswith s r" "length s = n" and t: "startswith t q" "length t = k"
    using assms(3,4) by (simp_all add: in_family_def f g)
  have "startswith r q \<or> startswith q r"
    using s(1) startswith_trans [OF assms(5) t(1)] by (rule startswith_comparable)
  then have "n = k" using apart assms(1,2) unfolding f g by blast
  with s t assms(5) show ?thesis by (auto simp: startswith_def)
qed

lemma families_uncontrolled:
  "f \<in> set families \<Longrightarrow> in_family s f \<Longrightarrow> \<not> startswith s ''_retention/'' \<and> \<not> startswith ''_retention/'' s"
  by (auto simp: families_def in_family_def startswith_iff)

end
