(* ===== verification/Registry.thy ===== *)
theory Registry
  imports PolicyFacts
begin

text \<open>
  The registry the repository ships, \<^verbatim>\<open>checkpoints/retention-policy.yaml\<close>, as the node tree a
  YAML parser gives for it, the policy \<open>parse_policy\<close> makes of it, and the properties of the
  registry parser.
\<close>

section \<open>The shipped document\<close>

definition ystr :: "string \<Rightarrow> ynode" where
  "ystr s = YScalar (Inr (PStr s))"

definition yint :: "int \<Rightarrow> ynode" where
  "yint i = YScalar (Inr (PInt i))"

definition ymap :: "(string \<times> ynode) list \<Rightarrow> ynode" where
  "ymap kvs = YMap (map (\<lambda>(k, v). (ystr k, v)) kvs)"

definition shipped_lease :: ynode where
  "shipped_lease = ymap [(''heartbeat_seconds'', yint 60),
     (''ttl_seconds'', yint 600),
     (''future_tolerance_seconds'', yint 300),
     (''quiescence_seconds'', yint 900)]"

definition shipped_bounds :: ynode where
  "shipped_bounds = ymap [(''max_pages'', yint 100),
     (''max_objects'', yint 100000),
     (''max_bytes'', yint 10737418240),
     (''max_delete_keys'', yint 1000),
     (''max_active_seconds'', yint 900),
     (''max_summary_bytes'', yint 65536),
     (''max_manifest_shard_bytes'', yint 1048576)]"

definition shipped_checkpoints :: "ynode list" where
  "shipped_checkpoints =
    [ymap [(''checkpoint_id'', ystr ''streaming-events-v1''),
       (''prefix'', ystr ''events/''),
       (''owner'', ystr ''Streaming Data Engineering''),
       (''workload'', ystr ''streaming_ingest-events-spark-iceberg''),
       (''source'', ystr ''redpanda:events''),
       (''sink'', ystr ''lakehouse.bronze.events''),
       (''lifecycle'', ystr ''active''),
       (''retired_at'', YScalar (Inr PNone)),
       (''retirement_review'', YScalar (Inr PNone)),
       (''durability'', ystr ''durable_stream''),
       (''terminal_states'', YSeq [ystr ''stopped'', ystr ''retired'']),
       (''retention_seconds'', yint 2592000),
       (''recovery_class'', ystr ''coordinated_replay''),
       (''sink_disposition'', ystr ''snapshot_or_reset''),
       (''concurrent_writers'', ystr ''forbidden''),
       (''retirement_authorization'', ystr ''required'')],
     ymap [(''checkpoint_id'', ystr ''streaming-event-windows-v1''),
       (''prefix'', ystr ''event_windows/''),
       (''owner'', ystr ''Streaming Data Engineering''),
       (''workload'', ystr ''streaming_windows-events-spark-iceberg''),
       (''source'', ystr ''redpanda:events''),
       (''sink'', ystr ''lakehouse.gold.event_windows''),
       (''lifecycle'', ystr ''active''),
       (''retired_at'', YScalar (Inr PNone)),
       (''retirement_review'', YScalar (Inr PNone)),
       (''durability'', ystr ''durable_stream''),
       (''terminal_states'', YSeq [ystr ''stopped'', ystr ''retired'']),
       (''retention_seconds'', yint 2592000),
       (''recovery_class'', ystr ''coordinated_replay''),
       (''sink_disposition'', ystr ''snapshot_or_reset''),
       (''concurrent_writers'', ystr ''forbidden''),
       (''retirement_authorization'', ystr ''required'')],
     ymap [(''checkpoint_id'', ystr ''streaming-online-retail-cdc-v1''),
       (''prefix'', ystr ''online_retail_cdc/''),
       (''owner'', ystr ''Streaming Data Engineering''),
       (''workload'', ystr ''cdc_streaming-online_retail-spark-iceberg''),
       (''source'', ystr ''redpanda:online_retail_cdc''),
       (''sink'', ystr ''lakehouse.silver.online_retail_cdc''),
       (''lifecycle'', ystr ''active''),
       (''retired_at'', YScalar (Inr PNone)),
       (''retirement_review'', YScalar (Inr PNone)),
       (''durability'', ystr ''durable_stream''),
       (''terminal_states'', YSeq [ystr ''stopped'', ystr ''retired'']),
       (''retention_seconds'', yint 2592000),
       (''recovery_class'', ystr ''coordinated_replay''),
       (''sink_disposition'', ystr ''snapshot_or_reset''),
       (''concurrent_writers'', ystr ''forbidden''),
       (''retirement_authorization'', ystr ''required'')],
     ymap [(''checkpoint_id'', ystr ''streaming-gh-archive-file-v1''),
       (''prefix'', ystr ''gh_events_file/{scale}/{publication_id}/{manifest_sha256}/''),
       (''scales'', YSeq [ystr ''tiny'', ystr ''small'', ystr ''medium'']),
       (''owner'', ystr ''Streaming Data Engineering Education''),
       (''workload'', ystr ''streaming_ingest-gh_archive-spark-iceberg''),
       (''source'', ystr ''resolver:gh_archive''),
       (''sink'', ystr ''lakehouse.bronze.gh_events_stream''),
       (''lifecycle'', ystr ''active''),
       (''durability'', ystr ''generation_reproducibility''),
       (''terminal_states'', YSeq [ystr ''completed'', ystr ''stopped'']),
       (''retention_seconds'', yint 1209600),
       (''recovery_class'', ystr ''exact_generation_replay''),
       (''sink_disposition'', ystr ''reset_required''),
       (''concurrent_writers'', ystr ''forbidden''),
       (''retirement_authorization'', ystr ''not_applicable'')],
     ymap [(''checkpoint_id'', ystr ''go-live-streaming-test-v1''),
       (''prefix'', ystr ''streaming_test/{run_uuid}/''),
       (''owner'', ystr ''Lab Acceptance Engineering''),
       (''workload'', ystr ''go-live-streaming-test''),
       (''source'', ystr ''bounded_synthetic''),
       (''sink'', ystr ''s3a://lakehouse/bronze/streaming_test''),
       (''lifecycle'', ystr ''active''),
       (''durability'', ystr ''disposable_acceptance''),
       (''terminal_states'', YSeq [ystr ''successful'', ystr ''stopped'']),
       (''retention_seconds'', yint 86400),
       (''recovery_class'', ystr ''disposable_recreate''),
       (''sink_disposition'', ystr ''reset_required''),
       (''concurrent_writers'', ystr ''forbidden''),
       (''retirement_authorization'', ystr ''not_applicable'')]]"

definition shipped_registry :: ynode where
  "shipped_registry =
     ymap [(''version'', yint 1), (''bucket'', ystr ''checkpoints''), (''control_prefix'', ystr ''_retention/''),
       (''lease'', shipped_lease), (''bounds'', shipped_bounds), (''checkpoints'', YSeq shipped_checkpoints)]"

definition shipped_yaml :: "string \<Rightarrow> ynode res" where
  "shipped_yaml text = Inr shipped_registry"

definition shipped_durable :: "string \<Rightarrow> string \<Rightarrow> string \<Rightarrow> string \<Rightarrow> string \<Rightarrow> checkpoint_entry" where
  "shipped_durable cid pre work src snk =
     \<lparr>checkpoint_id = cid, entry_prefix = pre, owner = ''Streaming Data Engineering'', workload = work, source = src, sink = snk,
      lifecycle = ''active'', durability = ''durable_stream'', terminal_states = [''stopped'', ''retired''],
      retention_seconds = 2592000, recovery_class = ''coordinated_replay'', sink_disposition = ''snapshot_or_reset'',
      concurrent_writers = ''forbidden'', retirement_authorization = ''required'', retired_at = PNone,
      retirement_review = PNone, scales = []\<rparr>"

definition shipped_generation :: checkpoint_entry where
  "shipped_generation =
     \<lparr>checkpoint_id = ''streaming-gh-archive-file-v1'', entry_prefix = generation_template,
      owner = ''Streaming Data Engineering Education'', workload = ''streaming_ingest-gh_archive-spark-iceberg'',
      source = ''resolver:gh_archive'', sink = ''lakehouse.bronze.gh_events_stream'', lifecycle = ''active'',
      durability = ''generation_reproducibility'', terminal_states = [''completed'', ''stopped''],
      retention_seconds = 1209600, recovery_class = ''exact_generation_replay'', sink_disposition = ''reset_required'',
      concurrent_writers = ''forbidden'', retirement_authorization = ''not_applicable'', retired_at = PNone,
      retirement_review = PNone, scales = [''tiny'', ''small'', ''medium'']\<rparr>"

definition shipped_scratch :: checkpoint_entry where
  "shipped_scratch =
     \<lparr>checkpoint_id = ''go-live-streaming-test-v1'', entry_prefix = scratch_template, owner = ''Lab Acceptance Engineering'',
      workload = ''go-live-streaming-test'', source = ''bounded_synthetic'',
      sink = ''s3a://lakehouse/bronze/streaming_test'', lifecycle = ''active'', durability = ''disposable_acceptance'',
      terminal_states = [''successful'', ''stopped''], retention_seconds = 86400, recovery_class = ''disposable_recreate'',
      sink_disposition = ''reset_required'', concurrent_writers = ''forbidden'',
      retirement_authorization = ''not_applicable'', retired_at = PNone, retirement_review = PNone, scales = []\<rparr>"

definition shipped_policy :: checkpoint_policy where
  "shipped_policy =
     \<lparr>version = 1, bucket = ''checkpoints'', control_prefix = ''_retention/'',
      lease = \<lparr>heartbeat_seconds = 60, ttl_seconds = 600, future_tolerance_seconds = 300, quiescence_seconds = 900\<rparr>,
      bounds = \<lparr>max_pages = 100, max_objects = 100000, max_bytes = 10737418240, max_delete_keys = 1000,
                max_active_seconds = 900, max_summary_bytes = 65536, max_manifest_shard_bytes = 1048576\<rparr>,
      entries = map (\<lambda>e. (checkpoint_id e, e))
        [shipped_durable ''streaming-events-v1'' ''events/'' ''streaming_ingest-events-spark-iceberg'' ''redpanda:events''
           ''lakehouse.bronze.events'',
         shipped_durable ''streaming-event-windows-v1'' ''event_windows/'' ''streaming_windows-events-spark-iceberg''
           ''redpanda:events'' ''lakehouse.gold.event_windows'',
         shipped_durable ''streaming-online-retail-cdc-v1'' ''online_retail_cdc/''
           ''cdc_streaming-online_retail-spark-iceberg'' ''redpanda:online_retail_cdc''
           ''lakehouse.silver.online_retail_cdc'',
         shipped_generation, shipped_scratch]\<rparr>"

lemma shipped_policy_parses: "parse_policy shipped_yaml (PStr []) = Inr shipped_policy"
  by code_simp

lemma shipped_match_events:
  "match_prefix shipped_policy (PStr ''events/'') =
   Inr \<lparr>matched_id = ''streaming-events-v1'', matched_prefix = ''events/'', generation = []\<rparr>"
  by code_simp

lemma parse_policy_raw:
  assumes "parse_policy yaml v = Inr p"
  shows "\<exists>raw. parse_raw_policy raw = Inr p"
  using assms by (auto simp: parse_policy_def inr_iffs)

lemma parsed_registry_ok: "parse_policy yaml v = Inr p \<Longrightarrow> registry_ok p"
  using parse_policy_raw parse_raw_policy_registry_ok by blast

lemma shipped_registry_ok [simp]: "registry_ok shipped_policy"
  by (rule parsed_registry_ok [OF shipped_policy_parses])

section \<open>Properties of the registry parser\<close>

text \<open>C24. A registry text that \<open>parse_policy\<close> accepts, whatever the YAML library makes of it, is the
  fixed inventory: the exact lease and bound values, the five checkpoints in order with their expected
  prefix, owner, source, sink, durability, terminal states and retention, and a retirement clock and
  review identifier exactly on the retired durable streams.\<close>

theorem parse_policy_exact_registry:
  "parse_policy yaml text = Inr p \<Longrightarrow> registry_ok p"
  by (rule parsed_registry_ok)

theorem parse_policy_exact_registry_witness:
  "parse_policy shipped_yaml (PStr []) = Inr shipped_policy \<and> registry_ok shipped_policy"
  using shipped_policy_parses parse_policy_exact_registry [OF shipped_policy_parses] by blast

text \<open>Ownership is unambiguous under a parsed registry: an exact prefix accepted by
  \<open>match_prefix\<close> lies outside the control prefix and does not contain it, and no other accepted
  prefix lies below it, so that a listing or deletion below one checkpoint reaches no other.\<close>

theorem match_prefix_isolated:
  assumes "parse_policy yaml text = Inr p" "match_prefix p v = Inr m" "match_prefix p w = Inr n"
    and "startswith (matched_prefix n) (matched_prefix m)"
  shows "n = m \<and> w = v \<and> \<not> startswith (matched_prefix m) (control_prefix p) \<and>
         \<not> startswith (control_prefix p) (matched_prefix m)"
proof -
  have ok: "registry_ok p" by (rule parsed_registry_ok [OF assms(1)])
  note m = match_prefix_family [OF ok assms(2)] and n = match_prefix_family [OF ok assms(3)]
  obtain f g where f: "f \<in> set families" "in_family (matched_prefix m) f"
    and g: "g \<in> set families" "in_family (matched_prefix n) g"
    using m(2) n(2) by blast
  have eq: "matched_prefix n = matched_prefix m"
    by (rule families_apart [OF g(1) f(1) g(2) f(2) assms(4)])
  then have "w = v" using m(1) n(1) by simp
  moreover have "control_prefix p = ''_retention/''" using ok by (simp add: registry_ok_def)
  ultimately show ?thesis using families_uncontrolled [OF f] assms(2,3) by simp
qed

theorem match_prefix_isolated_witness:
  "\<exists>m. match_prefix shipped_policy (PStr ''events/'') = Inr m \<and>
       \<not> startswith (matched_prefix m) (control_prefix shipped_policy)"
  using match_prefix_isolated [OF shipped_policy_parses shipped_match_events shipped_match_events startswith_refl]
    shipped_match_events by blast

end
