(* ===== verification/GatewayProps.thy ===== *)
theory GatewayProps
  imports GatewayFacts Registry
begin

text \<open>
  Properties of the S3 gateway, for every S3 client: inventories are bounded, confined and ordered and
  end after a bounded number of requests; a write is acknowledged only after it was read back; delete
  requests name one owned prefix and reach no control object.
\<close>

section \<open>A scripted client\<close>

definition scripted :: "(s3_call \<Rightarrow> pyval res) \<Rightarrow> int \<Rightarrow> string \<Rightarrow> unit env" where
  \<comment> \<open>answers every call from a script, with fixed clocks and identifiers\<close>
  "scripted script now epoch =
     \<lparr>env_s3 = (\<lambda>c. liftA (script c)), env_now = retA (utc now), env_monotonic = retA 0, env_uuid4 = retA epoch\<rparr>"

definition sample_page :: "s3_call \<Rightarrow> pyval res" where
  "sample_page c = Inr (PDict (sdict
     [(''Contents'', PList [PDict (sdict
         [(''Key'', PStr ''events/commits/0''), (''ETag'', PStr (replicate 32 (CHR ''a''))), (''Size'', PInt 12),
          (''LastModified'', utc 63800000000)])]),
      (''IsTruncated'', PBool False)]))"

section \<open>Inventory\<close>

text \<open>C26. Whatever a client answers, an inventory that is returned lists well-formed objects strictly
  below the requested prefix, in strictly increasing key order, within the object and byte bounds of
  the policy.\<close>

theorem inventory_answers_sound:
  assumes "s3_inventory env policy chk prefix w = (Inr rs, w')"
  shows "inventory_sound policy prefix rs"
  using s3_results.inventory_sound [of env policy chk prefix w rs w'] assms by (simp add: s3_gateway_def)

theorem inventory_answers_sound_witness:
  "\<exists>r. s3_inventory (scripted sample_page 0 []) shipped_policy (retA ()) ''events/'' () = (Inr [r], ()) \<and>
       inventory_sound shipped_policy ''events/'' [r]"
proof -
  let ?r = "\<lparr>or_key = ''events/commits/0'', or_etag = replicate 32 (CHR ''a''), or_size = 12, or_modified = 63800000000\<rparr>"
  have "s3_inventory (scripted sample_page 0 []) shipped_policy (retA ()) ''events/'' () = (Inr [?r], ())"
    by code_simp
  with inventory_answers_sound [OF this] show ?thesis by blast
qed

text \<open>C31. The paging loop ends: an inventory sends at most one request more than the policy's page
  bound, whatever pages and continuation tokens the client answers.\<close>

theorem inventory_requests_bounded:
  "length (calls (s3_inventory (traced env) policy (onW chk) prefix) w) \<le> nat (max_pages (bounds policy)) + 1"
proof -
  have "at_most (0 + (0 + (Suc (nat (max_pages (bounds policy))) + 0))) (s3_inventory (traced env) policy (onW chk) prefix)"
    unfolding s3_inventory_def
    by (intro at_most_bindA at_most_0 inventory_pages_at_most) (simp add: traced_def at_most_0)
  then show ?thesis unfolding at_most_def calls_def by (metis Suc_eq_plus1 add.right_neutral add_0 list.size(3))
qed

section \<open>Control objects\<close>

text \<open>A control write is acknowledged only when the object was read back under its key with
  exactly the written bytes and the ETag that is returned, inside the key grammar and the size bound.\<close>

theorem create_control_read_back:
  assumes "create_control env policy chk key body w = (Inr etag, w')"
  shows "\<exists>w1. read_control env policy chk key (int (length body)) w1 = (Inr (body, etag), w') \<and>
    control_key key \<and> etag_pattern etag \<and> int (length body) \<le> control_bound policy key"
proof -
  obtain w1 where r: "read_control env policy chk key (int (length body)) w1 = (Inr (body, etag), w')"
    using write_control_readback [OF assms [unfolded create_control_def]] by blast
  moreover have "int (length body) \<le> control_bound policy key"
    using assms by (auto simp: create_control_def write_control_def inr_iffs)
  ultimately show ?thesis using read_control_bounds [OF r] by blast
qed


definition sample_etag :: string where
  "sample_etag = replicate 32 (CHR ''b'')"

definition sample_lease_key :: string where
  "sample_lease_key = ''_retention/leases/streaming-events-v1.json''"

definition echo :: "string \<Rightarrow> s3_call \<Rightarrow> pyval res" where
  \<comment> \<open>accepts every write and reads the given body back\<close>
  "echo body c =
     (case c of
        GetObject _ _ \<Rightarrow> Inr (PDict (sdict [(''Body'', PStream (Some body) True), (''ContentLength'', PInt (int (length body))),
                                             (''ETag'', PStr sample_etag)]))
      | _ \<Rightarrow> Inr (PDict (sdict [(''ETag'', PStr sample_etag)])))"

theorem create_control_read_back_witness:
  "\<exists>w1. read_control (scripted (echo ''{}'') 0 []) shipped_policy (retA ()) sample_lease_key 2 w1 =
     (Inr (''{}'', sample_etag), ())"
proof -
  have "create_control (scripted (echo ''{}'') 0 []) shipped_policy (retA ()) sample_lease_key ''{}'' () = (Inr sample_etag, ())"
    by code_simp
  from create_control_read_back [OF this] show ?thesis by simp
qed

section \<open>Deletions\<close>

lemma data_key_entries_spec:
  "data_key_entries policy es key = Inr p \<Longrightarrow> startswith key p \<and> key \<noteq> p \<and> (\<exists>m. match_prefix policy (PStr p) = Inr m)"
proof (induction es)
  case (Cons x es)
  obtain k e where x: "x = (k, e)" by (cases x)
  have pre: "startswith key (entry_data_prefix t key)" for t
    by (auto simp: entry_data_prefix_def startswith_def min_def split: option.split)
  show ?case
    using Cons pre by (auto simp: x Let_def split: if_splits sum.splits exn.splits)
qed simp

lemma validate_data_key_spec:
  "validate_data_key policy key = Inr p \<Longrightarrow> startswith key p \<and> key \<noteq> p \<and> (\<exists>m. match_prefix policy (PStr p) = Inr m)"
  unfolding validate_data_key_def by (rule data_key_entries_spec)

lemma delete_calls:
  assumes "c \<in> set (calls (delete_records (traced env) policy (onW chk) rs) w)"
  obtains ordered p where "canonical_records rs = Inr ordered" "owned_batch policy ordered p"
    "c = DeleteObjects (bucket policy) (map or_key ordered)"
proof -
  let ?al = "\<lambda>c. \<exists>ordered p. canonical_records rs = Inr ordered \<and> owned_batch policy ordered p \<and>
    c = DeleteObjects (bucket policy) (map or_key ordered)"
  have "preserves (logs ?al) (delete_records (traced env) policy (onW chk) rs)"
    by (rule delete_records_keeps [OF traced_ok]) (auto intro: keeps)
  from calls_allowed [OF this, of w] assms have "?al c" unfolding list_all_iff by (rule bspec)
  then show thesis using that by blast
qed

text \<open>C4. A delete request is confined: whatever records it is given, \<open>delete_records\<close> sends nothing but one
  multi-object delete in the policy's bucket, of at most the allowed number of keys, all of them given
  records and all strictly below one prefix that the policy owns.\<close>

theorem delete_records_confined:
  assumes "c \<in> set (calls (delete_records (traced env) policy (onW chk) rs) w)"
  shows "\<exists>ks p m. c = DeleteObjects (bucket policy) ks \<and> set ks = or_key ` set rs \<and> ks \<noteq> [] \<and>
    int (length ks) \<le> max_delete_keys (bounds policy) \<and> match_prefix policy (PStr p) = Inr m \<and>
    (\<forall>k\<in>set ks. startswith k p \<and> k \<noteq> p)"
proof -
  from delete_calls [OF assms] obtain ordered p where
    o: "canonical_records rs = Inr ordered" "owned_batch policy ordered p" "c = DeleteObjects (bucket policy) (map or_key ordered)" .
  have ordered: "set ordered = set rs" using canonical_records_sorted(2) [OF o(1)] by (rule mset_eq_setD)
  have below: "\<forall>r\<in>set ordered. startswith (or_key r) p \<and> or_key r \<noteq> p \<and> (\<exists>m. match_prefix policy (PStr p) = Inr m)"
    using o(2) validate_data_key_spec unfolding owned_batch_def by blast
  moreover have ne: "ordered \<noteq> []" "int (length ordered) \<le> max_delete_keys (bounds policy)" using o(2) by (simp_all add: owned_batch_def)
  ultimately obtain m where "match_prefix policy (PStr p) = Inr m" by (metis list.set_sel(1))
  with o(3) ordered below ne show ?thesis by (intro exI [of _ "map or_key ordered"] exI [of _ p] exI [of _ m]) auto
qed

definition event_record :: object_record where
  "event_record = \<lparr>or_key = ''events/commits/0'', or_etag = sample_etag, or_size = 12, or_modified = 63800000000\<rparr>"

theorem delete_records_confined_witness:
  "\<exists>ks p m. DeleteObjects ''checkpoints'' [''events/commits/0''] = DeleteObjects (bucket shipped_policy) ks \<and>
     match_prefix shipped_policy (PStr p) = Inr m \<and> (\<forall>k\<in>set ks. startswith k p \<and> k \<noteq> p)"
proof -
  have "DeleteObjects ''checkpoints'' [''events/commits/0''] \<in>
    set (calls (delete_records (traced (scripted sample_page 0 [])) shipped_policy (onW (retA ())) [event_record]) ())"
    by code_simp
  from delete_records_confined [OF this] show ?thesis by blast
qed

lemma strip_prefix_Some: "strip_prefix p s = Some r \<Longrightarrow> s = p @ r"
  by (induction p s rule: strip_prefix.induct) (auto split: if_splits)

lemma after_prefix_startswith: "after_prefix p s k \<Longrightarrow> startswith s p"
  by (cases "strip_prefix p s") (auto simp: after_prefix_def startswith_iff dest: strip_prefix_Some)

text \<open>Control objects are out of reach of deletion: under a parsed registry no key of the control
  grammar is a data key, so that a batch that contains one is refused before any request is sent.\<close>

theorem control_objects_not_deletable:
  assumes "parse_policy yaml text = Inr policy" "control_key (or_key r)" "r \<in> set rs"
  shows "calls (delete_records (traced env) policy (onW chk) rs) w = []"
proof (rule ccontr)
  assume "calls (delete_records (traced env) policy (onW chk) rs) w \<noteq> []"
  then obtain c where "c \<in> set (calls (delete_records (traced env) policy (onW chk) rs) w)" by (meson last_in_set)
  from delete_calls [OF this] obtain ordered p where
    o: "canonical_records rs = Inr ordered" "owned_batch policy ordered p" "c = DeleteObjects (bucket policy) (map or_key ordered)" .
  have "r \<in> set ordered" using canonical_records_sorted(2) [OF o(1)] assms(3) by (metis mset_eq_setD)
  then have "validate_data_key policy (or_key r) = Inr p" using o(2) by (simp add: owned_batch_def)
  from validate_data_key_spec [OF this] obtain m where p: "startswith (or_key r) p" "match_prefix policy (PStr p) = Inr m" by blast
  have reg: "registry_ok policy" by (rule parsed_registry_ok [OF assms(1)])
  from match_prefix_family [OF reg p(2)] obtain f where "p = matched_prefix m" "f \<in> set families" "in_family p f" by auto
  moreover have "startswith (or_key r) ''_retention/''"
    using assms(2) unfolding control_key_def by (rule after_prefix_startswith)
  ultimately show False using startswith_comparable [OF p(1)] families_uncontrolled by blast
qed


theorem control_objects_not_deletable_witness:
  "calls (delete_records (traced (scripted sample_page 0 [])) shipped_policy (onW (retA ()))
     [event_record\<lparr>or_key := sample_lease_key\<rparr>]) () = []"
proof (rule control_objects_not_deletable [OF shipped_policy_parses])
  show "control_key (or_key (event_record\<lparr>or_key := sample_lease_key\<rparr>))" by code_simp
qed simp

lemma mapping_keys_set: "length (mapping_keys items) = length items \<Longrightarrow>
  mapping_keys items = map (\<lambda>v. dget_none (dict_val v) ''Key'') items"
  unfolding mapping_keys_def by (metis filter_id_conv length_filter_less length_map less_irrefl)

lemma distinct_strs: "py_distinct xs \<Longrightarrow> list_all is_str xs \<Longrightarrow> distinct (map str_val xs)"
proof (induction xs)
  case (Cons x xs)
  have "str_val x \<notin> str_val ` set xs"
  proof
    assume "str_val x \<in> str_val ` set xs"
    then obtain y where "y \<in> set xs" "str_val y = str_val x" by auto
    moreover from this Cons.prems have "PStr (str_val x) = x" "PStr (str_val y) = y"
      by (metis PStr_str_val list_all_iff list.set_intros)+
    ultimately have "list_ex (py_eq x) xs" unfolding list_ex_iff by (metis py_eq_PStr)
    then show False using Cons.prems(1) by simp
  qed
  with Cons show ?case by simp
qed simp

lemma disjoint_strs:
  assumes "\<not> list_ex (\<lambda>k. list_ex (py_eq k) es) ds" "list_all is_str ds" "list_all is_str es"
  shows "set (map str_val ds) \<inter> set (map str_val es) = {}"
proof (rule ccontr)
  assume "set (map str_val ds) \<inter> set (map str_val es) \<noteq> {}"
  then obtain x y where "x \<in> set ds" "y \<in> set es" "str_val x = str_val y" by auto
  moreover from this assms(2,3) have "PStr (str_val x) = x" "PStr (str_val y) = y"
    by (metis PStr_str_val list_all_iff)+
  ultimately have "list_ex (\<lambda>k. list_ex (py_eq k) es) ds" unfolding list_ex_iff by (metis py_eq_PStr)
  with assms(1) show False by simp
qed

definition answered :: "pyval \<Rightarrow> string \<Rightarrow> string list" where
  \<comment> \<open>the string keys a multi-object delete reports under \<open>field\<close>\<close>
  "answered response field =
     map str_val (filter is_str (map (\<lambda>v. dget_none (dict_val v) ''Key'') (list_val (dget_none (dict_val response) field))))"

text \<open>C30. The answer to a multi-object delete is never over-reported: success means that exactly the
  requested keys were answered as deleted and no error was answered; a partial failure names a repetition-free
  subset of the requested keys, all of them answered as deleted.\<close>

theorem check_deleted_exact:
  "(check_deleted expected response = Inr ks \<longrightarrow>
      ks = expected \<and> set (answered response ''Deleted'') = set expected \<and> answered response ''Errors'' = []) \<and>
   (check_deleted expected response = Inl (GatewayFailure ''delete_partial'' ks) \<longrightarrow>
      distinct ks \<and> set ks \<subseteq> set expected \<and> ks = answered response ''Deleted'' \<and>
      set ks \<inter> set (answered response ''Errors'') = {})"
proof -
  let ?R = "check_deleted expected response"
  have "?thesis" if "\<exists>ks. ?R = Inr ks \<or> ?R = Inl (GatewayFailure ''delete_partial'' ks)"
  proof -
    from that obtain d deleted errors ds es where resp: "response = PDict d" "dget_none d ''Deleted'' = PList deleted"
      "dget_or d ''Errors'' (PList []) = PList errors" and ds: "ds = mapping_keys deleted" "length ds = length deleted"
      and es: "es = mapping_keys errors" "length es = length errors" and dist: "py_distinct ds"
      and str: "list_all is_str ds" "list_all is_str es" and disj: "\<not> list_ex (\<lambda>k. list_ex (py_eq k) es) ds"
      and sub: "list_all (\<lambda>k. str_val k \<in> set expected) ds"
      and R: "?R = (if errors \<noteq> [] \<or> length ds \<noteq> length expected \<or> set (map str_val ds) \<noteq> set expected
                   then Inl (GatewayFailure ''delete_partial'' (map str_val ds)) else Inr expected)"
      by (auto simp: check_deleted_def gateway_failure_def Let_def list_all_iff list_ex_iff split: pyval.splits if_splits)
    have answered: "answered response ''Deleted'' = map str_val ds" "answered response ''Errors'' = map str_val es"
      using resp ds es str
      by (simp_all add: answered_def mapping_keys_set dget_or_def dget_none_def list_all_iff filter_id_conv split: option.splits)
    have "distinct (map str_val ds)" by (rule distinct_strs [OF dist str(1)])
    moreover have "set (map str_val ds) \<inter> set (map str_val es) = {}"
      by (rule disjoint_strs [OF disj str])
    moreover have "errors = [] \<Longrightarrow> es = []" using es by simp
    ultimately show ?thesis using R sub answered by (auto simp: list_all_iff split: if_splits)
  qed
  then show ?thesis by blast
qed


theorem check_deleted_exact_witness:
  "set [''events/a''] \<subseteq> set [''events/a'', ''events/b''] \<and>
   [''events/a''] = answered (PDict (sdict [(''Deleted'', PList [PDict (sdict [(''Key'', PStr ''events/a'')])])])) ''Deleted''"
proof -
  have "check_deleted [''events/a'', ''events/b''] (PDict (sdict [(''Deleted'', PList [PDict (sdict [(''Key'', PStr ''events/a'')])])])) =
    Inl (GatewayFailure ''delete_partial'' [''events/a''])"
    by code_simp
  with check_deleted_exact [of "[''events/a'', ''events/b'']" "PDict (sdict [(''Deleted'', PList [PDict (sdict [(''Key'', PStr ''events/a'')])])])"
      "[''events/a'']"]
  show ?thesis by blast
qed

end
