(* ===== verification/JsonDecoded.thy ===== *)
theory JsonDecoded
  imports RecordsCodec
begin

text \<open>
  What a JSON text decodes to, under either object hook of the sources: no dictionary of the value has
  a key twice.  The locale \<open>object_reader\<close> states what the scanner relies on; it is interpreted on
  the two hooks.
\<close>

lemma list_Inl_Inr: "(case xs of [] \<Rightarrow> Inl e | c # q \<Rightarrow> f c q) = Inr y \<longleftrightarrow> (\<exists>c q. xs = c # q \<and> f c q = Inr y)"
  by (cases xs) simp_all

lemma prod_Inr: "(case p of (a, b) \<Rightarrow> f a b) = Inr y \<longleftrightarrow> (\<exists>a b. p = (a, b) \<and> f a b = Inr y)"
  by (cases p) simp

lemma number_cases:
  "(if a then None else Some (if c then bindE m (\<lambda>v. Inr (v, t)) else Inr (f, t'))) = Some (Inr (v, r)) \<Longrightarrow> m = Inr v \<or> v = f"
  by (auto simp: bindE_eq_Inr split: if_splits)

lemma number_distinct: "scan_number s = Some (Inr (v, r)) \<Longrightarrow> keys_distinct v"
  unfolding scan_number_def Let_def
  by (drule number_cases) (auto simp: number_int_def number_float_def Let_def split: if_splits)

locale object_reader =
  fixes ho :: object_hook and hc :: "pyval res"
  assumes hook: "ho ps = Inr v \<Longrightarrow> list_all (\<lambda>(k, x). is_str k \<and> keys_distinct x) ps \<Longrightarrow> keys_distinct v"
    and const_value: "hc = Inr v \<Longrightarrow> keys_distinct v"
begin

lemma literal_distinct: "scan_literal hc s = Inr (v, r) \<Longrightarrow> keys_distinct v"
  by (auto simp: scan_literal_def inr_iffs dest: const_value number_distinct split: if_splits option.splits)

lemma scanned_distinct:
  "scan_value ho hc n s = Inr (v, r) \<Longrightarrow> keys_distinct v"
  "scan_elems ho hc n s acc = Inr (v, r) \<Longrightarrow> list_all keys_distinct acc \<Longrightarrow> keys_distinct v"
  "scan_members ho hc n s d = Inr (v, r) \<Longrightarrow> list_all (\<lambda>(k, x). is_str k \<and> keys_distinct x) d \<Longrightarrow> keys_distinct v"
proof (induction n arbitrary: s v r acc d)
  case 0
  {
    case 1 then show ?case by simp
  next
    case 2 then show ?case by simp
  next
    case 3 then show ?case by simp
  }
next
  case (Suc n)
  {
    case 1
    then show ?case
      using Suc.IH(2) [of _ "[]"] Suc.IH(3) [of _ "[]"] hook [of "[]"] literal_distinct
      by (auto simp: inr_iffs Let_def split: list.splits if_splits)
  next
    case 2
    then obtain x q c p where x: "scan_value ho hc n s = Inr (x, q)" "skip_ws q = c # p"
      and cont: "v = PList (acc @ [x]) \<or> scan_elems ho hc n (skip_ws p) (acc @ [x]) = Inr (v, r)"
      by (auto simp: list_Inl_Inr prod_Inr inr_iffs split: if_split_asm)
    have "list_all keys_distinct (acc @ [x])" using 2(2) Suc.IH(1) [OF x(1)] by simp
    then show ?case using cont Suc.IH(2) by auto
  next
    case 3
    then obtain k x c p t where x: "scan_value ho hc n t = Inr (x, p)"
      and cont: "ho (d @ [(PStr k, x)]) = Inr v \<or> (\<exists>u. scan_members ho hc n u (d @ [(PStr k, x)]) = Inr (v, r))"
      by (auto simp: list_Inl_Inr prod_Inr inr_iffs Let_def split: if_split_asm) blast+
    have "list_all (\<lambda>(k, x). is_str k \<and> keys_distinct x) (d @ [(PStr k, x)])" using 3(2) Suc.IH(1) [OF x] by simp
    then show ?case using cont Suc.IH(3) hook by blast
  }
qed

lemma loads_distinct: "loads ho hc body = Inr v \<Longrightarrow> keys_distinct v"
  by (auto simp: loads_def loads_text_def inr_iffs simp del: scan_value.simps dest: scanned_distinct(1) split: option.splits if_splits)

end

interpretation unique: object_reader "unique_object e" "Inl e'" for e e'
  by unfold_locales (auto simp: unique_object_def list_all_iff split: if_splits)

lemma dset_distinct:
  "distinct (map fst d) \<Longrightarrow> list_all (\<lambda>(_, x). keys_distinct x) d \<Longrightarrow> keys_distinct v \<Longrightarrow>
   distinct (map fst (dset d k v)) \<and> list_all (\<lambda>(_, x). keys_distinct x) (dset d k v)"
proof (induction d k v rule: dset.induct)
  case (2 k' v' d k v)
  have "fst ` set (dset d k v) \<subseteq> insert (PStr k) (fst ` set d)"
    using dkeys_dset [of d k v] by (metis dkeys_def list.set_map set_append list.simps(15) empty_set Un_insert_right sup_bot_right order_refl subset_insertI)
  with 2 show ?case by auto
qed simp

lemma foldl_dset_distinct:
  "list_all (\<lambda>(k, x). is_str k \<and> keys_distinct x) ps \<Longrightarrow> keys_distinct (PDict d) \<Longrightarrow>
   keys_distinct (PDict (foldl (\<lambda>d (k, v). dset d (str_val k) v) d ps))"
proof (induction ps arbitrary: d)
  case (Cons p ps)
  obtain k x where p: "p = (k, x)" by (cases p)
  have "keys_distinct (PDict (dset d (str_val k) x))" using Cons.prems dset_distinct p by simp
  with Cons p show ?case by simp
qed simp

interpretation plain: object_reader plain_object "Inr (PFloat None)"
proof unfold_locales
  fix ps v assume "plain_object ps = Inr v" "list_all (\<lambda>(k, x). is_str k \<and> keys_distinct x) ps"
  then show "keys_distinct v" using foldl_dset_distinct [of ps "[]"] by (simp add: plain_object_def)
qed simp

lemma plain_loads_distinct: "plain_loads body = Inr v \<Longrightarrow> keys_distinct v"
  unfolding plain_loads_def by (rule plain.loads_distinct)

lemma decode_exact_json_distinct: "decode_exact_json body sch n depth = Inr d \<Longrightarrow> keys_distinct (PDict d)"
  by (auto simp: decode_exact_json_def inr_iffs catchE_def simp del: keys_distinct.simps dest: unique.loads_distinct split: sum.splits if_splits)

lemma decode_exact_json_keys: "decode_exact_json body sch n depth = Inr d \<Longrightarrow> keys_exactly d (map fst sch) \<and> check_schema d sch = Inr ()"
  by (auto simp: decode_exact_json_def inr_iffs split: if_splits)

lemma check_schema_types: "check_schema d sch = Inr () \<Longrightarrow> (k, ts) \<in> set sch \<Longrightarrow> list_ex (has_type (dget_none d k)) ts"
  by (induction d sch rule: check_schema.induct) (auto split: if_splits)

end
