(* ===== verification/LeaseFacts.thy ===== *)
theory LeaseFacts
  imports Leases GatewayProps JsonDecoded
begin

text \<open>
  Facts about the lease manager.  Confinement is proved once in \<open>gateway_family\<close> and holds for the
  S3 gateway by interpretation; the lifecycle of a lease is the step relation \<open>lease_step\<close>, which
  the three operations refine.
\<close>

section \<open>Confinement\<close>

lemma preserves_bindA_known: "(\<And>x. r = Inr x \<Longrightarrow> preserves P (f x)) \<Longrightarrow> preserves P (bindA (liftA r) f)"
  by (rule preserves_bindA_liftA)

lemma validate_identity_request_Inr:
  "validate_identity_request policy cid prefix epoch = Inr m \<Longrightarrow>
   match_prefix policy prefix = Inr m \<and> cid = PStr (matched_id m) \<and> (epoch = PNone \<or> (\<exists>s. epoch = PStr s \<and> uuid_shape s))"
  by (auto simp: validate_identity_request_def inr_iffs is_str_iff split: if_splits)

lemma validate_acquire_Inr:
  "validate_acquire policy req = Inr m \<Longrightarrow>
   match_prefix policy (aq_prefix req) = Inr m \<and> aq_checkpoint_id req = PStr (matched_id m) \<and>
   (\<exists>e. map_of (entries policy) (matched_id m) = Some e \<and> aq_workload req = PStr (workload e)) \<and>
   (\<exists>owner session. aq_owner_id req = PStr owner \<and> aq_session_id req = PStr session)"
  by (auto simp: validate_acquire_def policy_entry_def inr_iffs is_str_iff split: if_splits option.splits
      dest: validate_identity_request_Inr)

lemma validate_terminal_Inr:
  "validate_terminal policy req = Inr cid \<Longrightarrow>
   hr_checkpoint_id req = PStr cid \<and> is_dict (tr_evidence req) \<and>
   (\<exists>m e allowed. match_prefix policy (hr_prefix req) = Inr m \<and> matched_id m = cid \<and> map_of (entries policy) cid = Some e \<and>
      expected_states (durability e) = Some allowed \<and> in_states (tr_state req) allowed \<and>
      py_eq (dget_none (dict_val (tr_evidence req)) ''generation'') (PDict (generation m)))"
  by (auto simp: validate_terminal_def policy_entry_def Let_def inr_iffs split: if_splits option.splits
      dest: validate_identity_request_Inr)

context gateway_family
begin

lemma exact_now_keeps: "preserves P (exact_now env)"
  unfolding exact_now_def by (intro keeps env_okD [OF env])

lemma acquire_keeps:
  assumes chk: "preserves P chk"
    and al: "\<And>m. validate_acquire policy req = Inr m \<Longrightarrow> allowed (GetObject bk (lease_key (matched_id m)))"
      "\<And>m body c. validate_acquire policy req = Inr m \<Longrightarrow> c \<noteq> NoCondition \<Longrightarrow> allowed (PutObject bk (lease_key (matched_id m)) body c)"
  shows "preserves P (acquire env (G chk) policy req)"
  unfolding acquire_def Let_def
  by (rule preserves_bindA_known)
    (intro keeps exact_now_keeps env_okD [OF env] read [OF chk] create [OF chk] replace [OF chk] al put_condition.distinct; assumption)

lemma transition_keeps:
  assumes chk: "preserves P chk" and get: "allowed (GetObject bk (lease_key cid))"
    and put: "\<And>body c. c \<noteq> NoCondition \<Longrightarrow> allowed (PutObject bk (lease_key cid) body c)"
  shows "preserves P (read_current (G chk) policy cid prefix epoch)"
    "preserves P (transition_locked env (G chk) policy cid prefix epoch state evidence)"
proof -
  show r: "preserves P (read_current (G chk) policy cid prefix epoch)"
    unfolding read_current_def by (intro keeps read [OF chk] get)
  show "preserves P (transition_locked env (G chk) policy cid prefix epoch state evidence)"
    unfolding transition_locked_def
    by (intro keeps exact_now_keeps r replace [OF chk] get put put_condition.distinct)
qed

lemma heartbeat_keeps:
  assumes chk: "preserves P chk"
    and al: "\<And>m. match_prefix policy (hr_prefix req) = Inr m \<Longrightarrow> hr_checkpoint_id req = PStr (matched_id m) \<Longrightarrow>
        allowed (GetObject bk (lease_key (matched_id m)))"
      "\<And>m body c. match_prefix policy (hr_prefix req) = Inr m \<Longrightarrow> hr_checkpoint_id req = PStr (matched_id m) \<Longrightarrow>
        c \<noteq> NoCondition \<Longrightarrow> allowed (PutObject bk (lease_key (matched_id m)) body c)"
  shows "preserves P (heartbeat env (G chk) policy req)"
  unfolding heartbeat_def
proof (rule preserves_bindA_known)
  fix m assume "validate_identity_request policy (hr_checkpoint_id req) (hr_prefix req) (hr_epoch req) = Inr m"
  then have m: "match_prefix policy (hr_prefix req) = Inr m" "hr_checkpoint_id req = PStr (matched_id m)"
    using validate_identity_request_Inr by blast+
  show "preserves P (bindA (liftA (hold (matched_id m))) (\<lambda>_.
      transition_locked env (G chk) policy (matched_id m) (hr_prefix req) (hr_epoch req) (PStr ''active'') PNone))"
    by (intro keeps transition_keeps [OF chk] al [OF m])
qed

lemma persist_terminal_keeps:
  assumes chk: "preserves P chk" and get: "allowed (GetObject bk (terminal_key cid))"
    and put: "\<And>body c. c \<noteq> NoCondition \<Longrightarrow> allowed (PutObject bk (terminal_key cid) body c)"
  shows "preserves P (persist_terminal (G chk) policy cid req body)"
  unfolding persist_terminal_def Let_def
  by (intro keeps read [OF chk] create [OF chk] replace [OF chk] get put put_condition.distinct)

lemma terminal_keeps:
  assumes chk: "preserves P chk"
    and al: "\<And>cid k. hr_checkpoint_id req = PStr cid \<Longrightarrow> k \<in> {lease_key cid, terminal_key cid} \<Longrightarrow> allowed (GetObject bk k)"
      "\<And>cid k body c. hr_checkpoint_id req = PStr cid \<Longrightarrow> k \<in> {lease_key cid, terminal_key cid} \<Longrightarrow>
        c \<noteq> NoCondition \<Longrightarrow> allowed (PutObject bk k body c)"
  shows "preserves P (terminal env (G chk) policy req)"
  unfolding terminal_def terminal_locked_def
proof (rule preserves_bindA_known)
  fix cid assume "validate_terminal policy req = Inr cid"
  then have cid: "hr_checkpoint_id req = PStr cid" using validate_terminal_Inr by blast
  have k: "lease_key cid \<in> {lease_key cid, terminal_key cid}" "terminal_key cid \<in> {lease_key cid, terminal_key cid}" by simp_all
  note t = transition_keeps [OF chk al(1) [OF cid k(1)] al(2) [OF cid k(1)]]
    persist_terminal_keeps [OF chk al(1) [OF cid k(2)] al(2) [OF cid k(2)]]
  show "preserves P (bindA (read_current (G chk) policy cid (hr_prefix req) (hr_epoch req)) (\<lambda>(current, current_body, current_etag).
     bindA (if dget_none current ''state'' = PStr ''active''
            then transition_locked env (G chk) policy cid (hr_prefix req) (hr_epoch req) (tr_state req) (tr_evidence req)
            else if dget_none current ''state'' = tr_state req \<and> py_eq (dget_none current ''terminal_evidence'') (tr_evidence req)
            then retA \<lparr>lr_epoch = str_val (hr_epoch req), lr_etag = current_etag, lr_body = current_body\<rparr>
            else raiseA (LeaseFailure ''lease_not_active'')) (\<lambda>result.
     seqA (persist_terminal (G chk) policy cid req (lr_body result)) (retA result))))"
    by (intro keeps t)
qed

end

definition lease_call :: "string \<Rightarrow> pyval \<Rightarrow> s3_call \<Rightarrow> bool" where
  \<comment> \<open>reads and conditional writes of the control records of one checkpoint\<close>
  "lease_call bk cid c =
     (let keys = [lease_key (str_val cid), terminal_key (str_val cid)] in
      case c of
        GetObject b k \<Rightarrow> b = bk \<and> k \<in> set keys
      | PutObject b k body condition \<Rightarrow> b = bk \<and> k \<in> set keys \<and> condition \<noteq> NoCondition
      | _ \<Rightarrow> False)"

section \<open>The lifecycle of a lease\<close>

record lease_view =
  lv_checkpoint :: string
  lv_prefix :: string
  lv_epoch :: string
  lv_owner :: string
  lv_session :: string
  lv_workload :: string
  lv_state :: string
  lv_acquired :: int
  lv_heartbeat :: int

definition lease_view :: "pydict \<Rightarrow> lease_view" where
  "lease_view d =
     \<lparr>lv_checkpoint = str_val (dget_none d ''checkpoint_id''), lv_prefix = str_val (dget_none d ''prefix''),
      lv_epoch = str_val (dget_none d ''epoch''), lv_owner = str_val (dget_none d ''owner_id''),
      lv_session = str_val (dget_none d ''session_id''), lv_workload = str_val (dget_none d ''workload''),
      lv_state = str_val (dget_none d ''state''), lv_acquired = lease_clock d ''acquired_at'',
      lv_heartbeat = lease_clock d ''heartbeat_at''\<rparr>"

inductive lease_step :: "checkpoint_policy \<Rightarrow> lease_view option \<Rightarrow> lease_view \<Rightarrow> bool" for policy where
  acquired: "lv_state v = ''active'' \<Longrightarrow> lv_heartbeat v = lv_acquired v \<Longrightarrow> uuid_shape (lv_epoch v) \<Longrightarrow>
    match_prefix policy (PStr (lv_prefix v)) = Inr m \<Longrightarrow> matched_id m = lv_checkpoint v \<Longrightarrow>
    (\<forall>u. old = Some u \<longrightarrow> lv_state u \<noteq> ''active'') \<Longrightarrow> lease_step policy old v"
| beaten: "lv_state u = ''active'' \<Longrightarrow> lease_step policy (Some u) (u\<lparr>lv_heartbeat := t\<rparr>)"
| ended: "lv_state u = ''active'' \<Longrightarrow> s \<in> set [''stopped'', ''completed'', ''retired''] \<Longrightarrow>
    lease_step policy (Some u) (u\<lparr>lv_state := s, lv_heartbeat := t\<rparr>)"

definition clock_in_range :: "'w env \<Rightarrow> bool" where
  \<comment> \<open>the clock gives values of the type \<^verbatim>\<open>datetime\<close>\<close>
  "clock_in_range env \<longleftrightarrow> (\<forall>w v w'. env_now env w = (Inr v, w') \<longrightarrow> datetime_in_range v)"

lemma exact_now_Inr: "exact_now env w = (Inr t, w') \<Longrightarrow> clock_in_range env \<Longrightarrow> 0 \<le> t \<and> t < max_secs"
  by (auto simp: exact_now_def inr_iffs clock_in_range_def is_exact_utc_iff simp del: split_paired_Ex) (metis datetime_in_range_utc)+

lemma acquire_Inr:
  assumes "acquire env gw policy req w = (Inr res, w')"
  obtains m now w1 w2 expires where "validate_acquire policy req = Inr m" "exact_now env w1 = (Inr now, w2)"
    "uuid_shape (lr_epoch res)" "add_seconds now (ttl_seconds (lease policy)) = Inr expires"
    "canonical_json_bytes (new_lease req (matched_id m) (lr_epoch res) now expires) (max_summary_bytes (bounds policy)) max_json_nodes
       = Inr (lr_body res)"
    "(\<exists>e w3. gw_read_control gw (lease_key (matched_id m)) (max_summary_bytes (bounds policy)) w2 = (Inl e, w3) \<and>
        exn_code e = Some ''control_missing'') \<or>
     (\<exists>body etag w3 d. gw_read_control gw (lease_key (matched_id m)) (max_summary_bytes (bounds policy)) w2 = (Inr (body, etag), w3) \<and>
        decode_lease policy body = Inr d \<and> acquire_check policy req m now d = Inr ())"
  using assms by (auto simp: acquire_def Let_def inr_iffs tryA_Inr split: if_splits option.splits)

definition lease_fields_ok :: "pydict \<Rightarrow> int \<Rightarrow> int \<Rightarrow> bool" where
  \<comment> \<open>a lease record as the manager writes it, with its acquisition and heartbeat times\<close>
  "lease_fields_ok d a h \<longleftrightarrow>
     keys_distinct (PDict d) \<and> keys_exactly d (map fst lease_schema) \<and>
     list_all (\<lambda>k. is_str (dget_none d k)) [''checkpoint_id'', ''prefix'', ''owner_id'', ''session_id'', ''workload''] \<and>
     dget_none d ''schema_version'' = PInt 1 \<and> in_states (dget_none d ''state'') lease_states \<and>
     is_str (dget_none d ''epoch'') \<and> uuid_shape (str_val (dget_none d ''epoch'')) \<and>
     (is_dict (dget_none d ''terminal_evidence'') \<or> dget_none d ''terminal_evidence'' = PNone) \<and>
     parse_utc (dget_none d ''acquired_at'') = Some a \<and> parse_utc (dget_none d ''heartbeat_at'') = Some h \<and>
     parse_utc (dget_none d ''expires_at'') = Some (h + 600)"

lemma parse_utc_is_str: "parse_utc v = Some t \<Longrightarrow> is_str v"
  by (cases v) (simp_all add: parse_utc_def)

lemma parse_utc_format: "0 \<le> t \<Longrightarrow> t < max_secs \<Longrightarrow> parse_utc (PStr (format_utc t)) = Some t"
  by (simp add: parse_utc_def)

lemma lease_fields_view:
  assumes "lease_fields_ok d a h" "\<And>k. dget d' k = map_option (\<lambda>v. sort_keys (untuple v)) (dget d k)"
  shows "lease_view d' = lease_view d" "lease_clock d' ''expires_at'' = h + 600" "lease_clock d' ''heartbeat_at'' = h"
    "lease_clock d' ''acquired_at'' = a" "dget_none d' ''state'' = dget_none d ''state''" "dget_none d' ''schema_version'' = PInt 1"
    "dget_none d' ''epoch'' = dget_none d ''epoch''" "is_str (dget_none d' ''owner_id'')" "is_str (dget_none d' ''session_id'')"
    "is_str (dget_none d' ''workload'')"
    "\<not> list_ex (\<lambda>k. parse_utc (dget_none d' k) = None) [''acquired_at'', ''heartbeat_at'', ''expires_at'']"
proof -
  have get: "dget_none d' k = sort_keys (untuple (dget_none d k))" for k
    by (simp add: dget_none_def assms(2) split: option.split)
  have str: "dget_none d' k = dget_none d k" if "is_str (dget_none d k)" for k
    using that by (auto simp: get is_str_iff)
  note f = assms(1) [unfolded lease_fields_ok_def]
  have strs: "is_str (dget_none d k)"
    if "k \<in> set [''checkpoint_id'', ''prefix'', ''owner_id'', ''session_id'', ''workload'', ''state'', ''epoch'', ''acquired_at'', ''heartbeat_at'', ''expires_at'']"
    for k
    using f that parse_utc_is_str by (auto simp: in_states_def)
  have same: "dget_none d' k = dget_none d k"
    if "k \<in> set [''checkpoint_id'', ''prefix'', ''owner_id'', ''session_id'', ''workload'', ''state'', ''epoch'', ''acquired_at'', ''heartbeat_at'', ''expires_at'']"
    for k
    using str strs that by blast
  show "lease_view d' = lease_view d" by (simp add: lease_view_def lease_clock_def same)
  show "lease_clock d' ''expires_at'' = h + 600" "lease_clock d' ''heartbeat_at'' = h" "lease_clock d' ''acquired_at'' = a"
    using f by (simp_all add: lease_clock_def same)
  show "dget_none d' ''state'' = dget_none d ''state''" "dget_none d' ''epoch'' = dget_none d ''epoch''" by (simp_all add: same)
  show "dget_none d' ''schema_version'' = PInt 1" using f by (simp add: get)
  show "is_str (dget_none d' ''owner_id'')" "is_str (dget_none d' ''session_id'')" "is_str (dget_none d' ''workload'')"
    by (simp_all add: same strs)
  show "\<not> list_ex (\<lambda>k. parse_utc (dget_none d' k) = None) [''acquired_at'', ''heartbeat_at'', ''expires_at'']"
    using f by (simp add: same)
qed

lemma decode_lease_written:
  assumes ok: "registry_ok policy" and f: "lease_fields_ok d a h"
    and body: "canonical_json_bytes (PDict d) (max_summary_bytes (bounds policy)) max_json_nodes = Inr body"
  shows "\<exists>d'. lease_view d' = lease_view d \<and> lease_clock d' ''heartbeat_at'' = h \<and> dget_none d' ''state'' = dget_none d ''state'' \<and>
    decode_lease policy body = (if a \<le> h then Inr d' else Inl (LeaseFailure ''lease_malformed'')) \<and>
    sort_keys (untuple (PDict d)) = PDict d'"
proof -
  have bound: "max_summary_bytes (bounds policy) = max_json_bytes" "ttl_seconds (lease policy) = 600"
    using ok by (simp_all add: registry_ok_def max_json_bytes_def)
  have types: "list_ex (has_type (untuple (dget_none d k))) ts" if "(k, ts) \<in> set lease_schema" for k ts
    using that f
    by (auto simp: lease_schema_def lease_fields_ok_def in_states_def is_str_iff is_dict_iff dest!: parse_utc_is_str)
  obtain d' where d': "decode_exact_json body lease_schema max_json_bytes max_json_depth = Inr d'"
    "\<And>k. dget d' k = map_option (\<lambda>v. sort_keys (untuple v)) (dget d k)" "sort_keys (untuple (PDict d)) = PDict d'"
    using decode_canonical [OF body [unfolded bound, folded canonical_json_def] _ _ types] f unfolding lease_fields_ok_def by blast
  note v = lease_fields_view [OF f d'(2)]
  show ?thesis
  proof (intro exI [of _ d'] conjI)
    show "sort_keys (untuple (PDict d)) = PDict d'" by (rule d'(3))
    show "decode_lease policy body = (if a \<le> h then Inr d' else Inl (LeaseFailure ''lease_malformed''))"
      using v f d'(1) by (auto simp: decode_lease_def bound catchE_def lease_fields_ok_def in_states_def)
  qed (use v in simp_all)
qed

lemma new_lease_fields:
  assumes "registry_ok policy" "validate_acquire policy req = Inr m" "uuid_shape epoch" "0 \<le> now" "now + 600 < max_secs"
  obtains d where "new_lease req (matched_id m) epoch now (now + 600) = PDict d" "lease_fields_ok d now now"
    "lease_view d = \<lparr>lv_checkpoint = matched_id m, lv_prefix = matched_prefix m, lv_epoch = epoch, lv_owner = str_val (aq_owner_id req),
       lv_session = str_val (aq_session_id req), lv_workload = str_val (aq_workload req), lv_state = ''active'',
       lv_acquired = now, lv_heartbeat = now\<rparr>" "dget_none d ''state'' = PStr ''active''"
proof -
  from validate_acquire_Inr [OF assms(2)] obtain wl owner session where r: "match_prefix policy (aq_prefix req) = Inr m"
    "aq_workload req = PStr wl" "aq_owner_id req = PStr owner" "aq_session_id req = PStr session" by blast
  have p: "aq_prefix req = PStr (matched_prefix m)" using match_prefix_family [OF assms(1) r(1)] by simp
  define d where "d = dict_val (new_lease req (matched_id m) epoch now (now + 600))"
  have clocks: "parse_utc (PStr (format_utc now)) = Some now" "parse_utc (PStr (format_utc (now + 600))) = Some (now + 600)"
    using assms(4,5) by (simp_all add: parse_utc_format)
  show thesis
  proof (rule that)
    show "new_lease req (matched_id m) epoch now (now + 600) = PDict d" by (simp add: d_def new_lease_def)
    show "lease_fields_ok d now now"
      using clocks assms(3)
      by (simp add: d_def new_lease_def lease_fields_ok_def lease_schema_def keys_exactly_def r p dget_none_def in_states_def lease_states_def)
    show "lease_view d = \<lparr>lv_checkpoint = matched_id m, lv_prefix = matched_prefix m, lv_epoch = epoch, lv_owner = str_val (aq_owner_id req),
       lv_session = str_val (aq_session_id req), lv_workload = str_val (aq_workload req), lv_state = ''active'',
       lv_acquired = now, lv_heartbeat = now\<rparr>"
      using clocks by (simp add: d_def new_lease_def lease_view_def p dget_none_def lease_clock_def)
    show "dget_none d ''state'' = PStr ''active''" by (simp add: d_def new_lease_def dget_none_def)
  qed
qed

lemma decode_lease_Inr:
  assumes "registry_ok policy" "decode_lease policy body = Inr d"
  obtains a h where "lease_fields_ok d a h" "a \<le> h"
proof -
  from assms(2) have dec: "decode_exact_json body lease_schema (max_summary_bytes (bounds policy)) max_json_depth = Inr d"
    by (auto simp: decode_lease_def inr_iffs Let_def split: if_splits)
  have ttl: "ttl_seconds (lease policy) = 600" using assms(1) by (simp add: registry_ok_def)
  note ks = decode_exact_json_keys [OF dec]
  have types: "list_ex (has_type (dget_none d k)) ts" if "(k, ts) \<in> set lease_schema" for k ts
    using check_schema_types ks that by blast
  have str: "is_str (dget_none d k)" if "(k, [TStr]) \<in> set lease_schema" for k
    using types [OF that] by (cases "dget_none d k") simp_all
  have ev: "is_dict (dget_none d ''terminal_evidence'') \<or> dget_none d ''terminal_evidence'' = PNone"
    using types [of "''terminal_evidence''" "[TDict, TNone]"] by (cases "dget_none d ''terminal_evidence''") (simp_all add: lease_schema_def)
  have ver: "is_int (dget_none d ''schema_version'')"
    using types [of "''schema_version''" "[TInt]"] by (cases "dget_none d ''schema_version''") (simp_all add: lease_schema_def)
  from assms(2) obtain a h where c: "parse_utc (dget_none d ''acquired_at'') = Some a" "parse_utc (dget_none d ''heartbeat_at'') = Some h"
    "parse_utc (dget_none d ''expires_at'') = Some (h + 600)" "a \<le> h" "py_eq (dget_none d ''schema_version'') (PInt 1)"
    "str_val (dget_none d ''state'') \<in> set lease_states" "uuid_shape (str_val (dget_none d ''epoch''))"
    by (auto simp: decode_lease_def inr_iffs Let_def lease_clock_def ttl split: if_splits) (metis add.commute diff_add_cancel)
  have "dget_none d ''schema_version'' = PInt 1" using c(5) ver by (cases "dget_none d ''schema_version''") simp_all
  then have "lease_fields_ok d a h"
    using ks c ev str decode_exact_json_distinct [OF dec] unfolding lease_fields_ok_def in_states_def
    by (simp add: lease_schema_def)
  then show thesis using c(4) by (rule that)
qed

definition observed_lease :: "'w gateway \<Rightarrow> checkpoint_policy \<Rightarrow> string \<Rightarrow> lease_view option \<Rightarrow> bool" where
  \<comment> \<open>what a read of the lease record gave: nothing, or a valid lease\<close>
  "observed_lease gw policy cid old \<longleftrightarrow>
     (\<exists>n w1 w2.
        case old of
          None \<Rightarrow> \<exists>e. gw_read_control gw (lease_key cid) n w1 = (Inl e, w2) \<and> exn_code e = Some ''control_missing''
        | Some u \<Rightarrow> \<exists>body etag d. gw_read_control gw (lease_key cid) n w1 = (Inr (body, etag), w2) \<and>
            decode_lease policy body = Inr d \<and> lease_view d = u)"

lemma acquire_check_ended:
  "acquire_check policy req m now d = Inr u \<Longrightarrow> is_str (dget_none d ''state'') \<Longrightarrow> str_val (dget_none d ''state'') \<noteq> ''active''"
  by (auto simp: acquire_check_def Let_def inr_iffs is_str_iff split: if_splits)

lemma decoded_state_str: "registry_ok policy \<Longrightarrow> decode_lease policy body = Inr d \<Longrightarrow> is_str (dget_none d ''state'')"
  by (erule (1) decode_lease_Inr) (simp add: lease_fields_ok_def in_states_def)

lemma observed_Some:
  "gw_read_control gw (lease_key cid) n w1 = (Inr (body, etag), w2) \<Longrightarrow> decode_lease policy body = Inr d \<Longrightarrow>
   observed_lease gw policy cid (Some (lease_view d))"
  unfolding observed_lease_def option.case by blast

lemma acquire_observed:
  assumes ok: "registry_ok policy"
    and seen: "(\<exists>e w3. gw_read_control gw (lease_key cid) n w2 = (Inl e, w3) \<and> exn_code e = Some ''control_missing'') \<or>
      (\<exists>body etag w3 d. gw_read_control gw (lease_key cid) n w2 = (Inr (body, etag), w3) \<and>
        decode_lease policy body = Inr d \<and> acquire_check policy req m now d = Inr ())"
  obtains old where "observed_lease gw policy cid old" "\<forall>u. old = Some u \<longrightarrow> lv_state u \<noteq> ''active''"
  using seen
proof (elim disjE exE conjE)
  fix e w3 assume "gw_read_control gw (lease_key cid) n w2 = (Inl e, w3)" "exn_code e = Some ''control_missing''"
  then have "observed_lease gw policy cid None" unfolding observed_lease_def option.case by blast
  then show thesis using that [of None] by simp
next
  fix body etag w3 d
  assume r: "gw_read_control gw (lease_key cid) n w2 = (Inr (body, etag), w3)" "decode_lease policy body = Inr d"
    "acquire_check policy req m now d = Inr ()"
  have "lv_state (lease_view d) \<noteq> ''active''"
    using acquire_check_ended [OF r(3) decoded_state_str [OF ok r(2)]] by (simp add: lease_view_def)
  then show thesis using that [of "Some (lease_view d)"] observed_Some [OF r(1,2)] by simp
qed

lemma acquired_lease:
  assumes ok: "registry_ok policy" and clock: "clock_in_range env" and run: "acquire env gw policy req w = (Inr res, w')"
  obtains old d m where "validate_acquire policy req = Inr m" "observed_lease gw policy (matched_id m) old"
    "decode_lease policy (lr_body res) = Inr d" "lease_step policy old (lease_view d)" "lv_epoch (lease_view d) = lr_epoch res"
    "lv_checkpoint (lease_view d) = matched_id m" "dget_none d ''state'' = PStr ''active''"
proof -
  from run obtain m now w1 w2 expires where m: "validate_acquire policy req = Inr m" and now: "exact_now env w1 = (Inr now, w2)"
    and epoch: "uuid_shape (lr_epoch res)" and ex: "add_seconds now (ttl_seconds (lease policy)) = Inr expires"
    and body: "canonical_json_bytes (new_lease req (matched_id m) (lr_epoch res) now expires) (max_summary_bytes (bounds policy)) max_json_nodes
       = Inr (lr_body res)"
    and seen: "(\<exists>e w3. gw_read_control gw (lease_key (matched_id m)) (max_summary_bytes (bounds policy)) w2 = (Inl e, w3) \<and>
        exn_code e = Some ''control_missing'') \<or>
     (\<exists>body etag w3 d. gw_read_control gw (lease_key (matched_id m)) (max_summary_bytes (bounds policy)) w2 = (Inr (body, etag), w3) \<and>
        decode_lease policy body = Inr d \<and> acquire_check policy req m now d = Inr ())"
    by (rule acquire_Inr)
  have ttl: "ttl_seconds (lease policy) = 600" using ok by (simp add: registry_ok_def)
  have t: "0 \<le> now" "now + 600 < max_secs" "expires = now + 600"
    using exact_now_Inr [OF now clock] ex by (auto simp: add_seconds_def ttl split: if_splits)
  obtain d0 where d0: "new_lease req (matched_id m) (lr_epoch res) now (now + 600) = PDict d0" "lease_fields_ok d0 now now"
    "lease_view d0 = \<lparr>lv_checkpoint = matched_id m, lv_prefix = matched_prefix m, lv_epoch = lr_epoch res, lv_owner = str_val (aq_owner_id req),
       lv_session = str_val (aq_session_id req), lv_workload = str_val (aq_workload req), lv_state = ''active'',
       lv_acquired = now, lv_heartbeat = now\<rparr>" "dget_none d0 ''state'' = PStr ''active''"
    by (rule new_lease_fields [OF ok m epoch t(1,2)])
  obtain d where d: "lease_view d = lease_view d0" "decode_lease policy (lr_body res) = Inr d" "dget_none d ''state'' = PStr ''active''"
    using decode_lease_written [OF ok d0(2) body [unfolded t(3) d0(1)]] d0(4) by auto
  have mp: "match_prefix policy (PStr (matched_prefix m)) = Inr m"
    using validate_acquire_Inr [OF m] match_prefix_family(1) [OF ok, of "aq_prefix req" m] by auto
  obtain old where old: "observed_lease gw policy (matched_id m) old" "\<forall>u. old = Some u \<longrightarrow> lv_state u \<noteq> ''active''"
    by (rule acquire_observed [OF ok seen])
  have "lease_step policy old (lease_view d)"
    unfolding d(1) by (rule lease_step.acquired [of _ _ m]) (use d0(3) epoch mp old(2) in simp_all)
  with m old(1) d show thesis using d0(3) by (intro that) simp_all
qed

lemma transitioned_lease:
  assumes ok: "registry_ok policy" and clock: "clock_in_range env"
    and run: "transition_locked env gw policy cid prefix epoch state evidence w = (Inr res, w')"
    and st: "in_states state lease_states" and ev: "is_dict evidence \<or> evidence = PNone" "keys_distinct evidence"
  obtains u t where "observed_lease gw policy cid (Some u)" "lv_state u = ''active''" "lv_checkpoint u = cid"
    "lv_acquired u \<le> t \<Longrightarrow> \<exists>d. decode_lease policy (lr_body res) = Inr d \<and>
       lease_view d = u\<lparr>lv_state := str_val state, lv_heartbeat := t\<rparr>"
    "t < lv_acquired u \<Longrightarrow> decode_lease policy (lr_body res) = Inl (LeaseFailure ''lease_malformed'')"
proof -
  from run obtain now w1 w2 w3 current body etag expires where now: "exact_now env w1 = (Inr now, w2)"
    and rc: "read_current gw policy cid prefix epoch w2 = (Inr (current, body, etag), w3)"
    and act: "dget_none current ''state'' = PStr ''active''" and ex: "add_seconds now (ttl_seconds (lease policy)) = Inr expires"
    and nb: "canonical_json_bytes (PDict (next_lease current now expires state evidence)) (max_summary_bytes (bounds policy)) max_json_nodes
      = Inr (lr_body res)"
    by (auto simp: transition_locked_def inr_iffs split: if_splits)
  from rc have r: "\<exists>n. gw_read_control gw (lease_key cid) n w2 = (Inr (body, etag), w3)" "decode_lease policy body = Inr current"
    "dget_none current ''checkpoint_id'' = PStr cid"
    by (auto simp: read_current_def require_identity_def inr_iffs split: if_splits)
  have ttl: "ttl_seconds (lease policy) = 600" using ok by (simp add: registry_ok_def)
  have t: "0 \<le> now" "now + 600 < max_secs" "expires = now + 600"
    using exact_now_Inr [OF now clock] ex by (auto simp: add_seconds_def ttl split: if_splits)
  obtain a h where f: "lease_fields_ok current a h" by (rule decode_lease_Inr [OF ok r(2)])
  let ?next = "next_lease current now expires state evidence"
  have clocks: "parse_utc (PStr (format_utc now)) = Some now" "parse_utc (PStr (format_utc (now + 600))) = Some (now + 600)"
    using t by (simp_all add: parse_utc_format)
  have get: "dget_none ?next k = (if k = ''terminal_evidence'' then evidence else if k = ''state'' then state
     else if k = ''expires_at'' then PStr (format_utc expires) else if k = ''heartbeat_at'' then PStr (format_utc now) else dget_none current k)" for k
    by (simp add: next_lease_def dget_none_def dget_dset)
  have "keys_distinct (PDict ?next)"
    using f st ev unfolding next_lease_def lease_fields_ok_def in_states_def is_str_iff
    by (auto intro!: dset_distinct [THEN conjunct1] dset_distinct [THEN conjunct2])
  moreover have "keys_exactly ?next (map fst lease_schema)"
  proof -
    have "keys_exactly current (map fst lease_schema)" using f by (simp add: lease_fields_ok_def)
    then have "set (dkeys current) = PStr ` set (map fst lease_schema)" by (simp add: keys_exactly_def)
    then show ?thesis unfolding keys_exactly_def next_lease_def dkeys_dset by (auto simp: lease_schema_def)
  qed
  ultimately have "lease_fields_ok ?next a now"
    using f st ev clocks t(3) unfolding lease_fields_ok_def get by simp
  note w = decode_lease_written [OF ok this nb]
  have v: "lease_view ?next = (lease_view current)\<lparr>lv_state := str_val state, lv_heartbeat := now\<rparr>"
    using clocks by (simp add: lease_view_def get lease_clock_def)
  have a: "lv_acquired (lease_view current) = a" using f by (simp add: lease_view_def lease_clock_def lease_fields_ok_def)
  show thesis
  proof (rule that [of "lease_view current" now])
    show "observed_lease gw policy cid (Some (lease_view current))" using r(1) by (auto intro: observed_Some [OF _ r(2)])
    show "lv_state (lease_view current) = ''active''" "lv_checkpoint (lease_view current) = cid" using act r(3) by (simp_all add: lease_view_def)
    show "lv_acquired (lease_view current) \<le> now \<Longrightarrow> \<exists>d. decode_lease policy (lr_body res) = Inr d \<and>
       lease_view d = (lease_view current)\<lparr>lv_state := str_val state, lv_heartbeat := now\<rparr>"
      using w v a by auto
    show "now < lv_acquired (lease_view current) \<Longrightarrow> decode_lease policy (lr_body res) = Inl (LeaseFailure ''lease_malformed'')"
      using w a by auto
  qed
qed

end
