(* ===== verification/LeaseProps.thy ===== *)
theory LeaseProps
  imports LeaseFacts
begin

text \<open>
  Properties of the lease manager, for every gateway that satisfies its contract and, where requests
  are counted, for the S3 gateway over every client.
\<close>

section \<open>A one-object store\<close>

definition one_object :: "string \<Rightarrow> int \<Rightarrow> string \<Rightarrow> string option env" where
  \<comment> \<open>a store that holds at most one object, with the given ETag, clock and identifiers\<close>
  "one_object etag now epoch =
     \<lparr>env_s3 = (\<lambda>c w. case c of
          GetObject _ _ \<Rightarrow>
            (case w of
               None \<Rightarrow> (Inl (ClientError (PDict (sdict [(''Error'', PDict (sdict [(''Code'', PStr ''NoSuchKey'')]))]))), w)
             | Some body \<Rightarrow> (Inr (PDict (sdict [(''Body'', PStream (Some body) True), (''ContentLength'', PInt (int (length body))),
                                                 (''ETag'', PStr etag)])), w))
        | PutObject _ _ body _ \<Rightarrow> (Inr (PDict (sdict [(''ETag'', PStr etag)])), Some body)
        | _ \<Rightarrow> (Inl (OtherExn ''NotImplementedError''), w)),
      env_now = retA (utc now), env_monotonic = retA 0, env_uuid4 = retA epoch\<rparr>"

lemma parse_etag_plain:
  assumes "etag_pattern etag"
  shows "parse_etag (PStr etag) = Inr etag"
proof -
  from assms obtain c r where "etag = c # r" "hex_char c"
    by (cases etag) (auto simp: etag_pattern_def match_hex_classes numeral_eq_Suc)
  then have "\<not> startswith etag [CHR 0x22]" by (auto simp: char_class_defs)
  with assms show ?thesis by (simp add: parse_etag_def)
qed

lemma one_object_read:
  assumes "validate_control_key key = Inr ()" "1 \<le> n" "n \<le> control_bound policy key" "etag_pattern etag" "int (length body) \<le> n"
  shows "read_control (one_object etag now epoch) policy (retA ()) key n (Some body) = (Inr (body, etag), Some body)"
  using assms
  by (simp add: read_control_def get_control_def read_body_def one_object_def bindA_def seqA_def guardA_def tryA_def mapexnA_def retA_def
      liftA_def dget_none_def parse_etag_plain Let_def)

lemma one_object_missing:
  assumes "validate_control_key key = Inr ()" "1 \<le> n" "n \<le> control_bound policy key"
  shows "read_control (one_object etag now epoch) policy (retA ()) key n None = (Inl (gateway_failure ''control_missing''), None)"
  using assms
  by (simp add: read_control_def get_control_def one_object_def bindA_def seqA_def guardA_def tryA_def retA_def raiseA_def
      liftA_def client_error_in_def dget_none_def dget_or_def Let_def)

lemma one_object_write:
  assumes "validate_control_key key = Inr ()" "body \<noteq> []" "int (length body) \<le> control_bound policy key" "etag_pattern etag"
  shows "write_control (one_object etag now epoch) policy (retA ()) key body cond w = (Inr etag, Some body)"
proof -
  have "1 \<le> int (length body)" using assms(2) by (cases body) simp_all
  with one_object_read [OF assms(1) this assms(3,4)] show ?thesis
    using assms
    by (simp add: write_control_def act_run(3,8) seqA_def bindA_def mapexnA_def tryA_def one_object_def retA_def liftA_def guardA_def
        response_etag_def dget_none_def parse_etag_plain)
qed

definition sample_store :: "string option env" where
  "sample_store = one_object sample_etag 60 ''11111111-2222-4333-8444-555555555555''"

definition sample_gateway :: "string option gateway" where
  "sample_gateway = s3_gateway sample_store shipped_policy (retA ())"

definition sample_acquire :: acquire_request where
  "sample_acquire =
     \<lparr>aq_checkpoint_id = PStr ''streaming-events-v1'', aq_prefix = PStr ''events/'',
      aq_workload = PStr ''streaming_ingest-events-spark-iceberg'', aq_owner_id = PStr ''spark-driver-1'',
      aq_session_id = PStr ''session-1''\<rparr>"

lemma sample_clock: "clock_in_range sample_store"
  by (simp add: clock_in_range_def sample_store_def one_object_def retA_def max_secs_def)

lemma sample_steps:
  "validate_acquire shipped_policy sample_acquire = Inr \<lparr>matched_id = ''streaming-events-v1'', matched_prefix = ''events/'', generation = []\<rparr>"
  "hold ''streaming-events-v1'' = Inr ()" "validate_control_key (lease_key ''streaming-events-v1'') = Inr ()"
  "control_bound shipped_policy (lease_key ''streaming-events-v1'') = 65536" "etag_pattern sample_etag"
  "uuid_shape ''11111111-2222-4333-8444-555555555555''"
  by code_simp+

lemma civil_first: "civil_of_days 0 = (1, 1, 1)"
  by (simp add: civil_of_days_def year_doy_def month_lengths_def is_leap_def)

lemma dec_nat_one_digit: "n < 10 \<Longrightarrow> dec_nat n = [digit_of n]"
  by (subst dec_nat.simps) simp

lemma dec_nat_two_digits: "10 \<le> n \<Longrightarrow> n < 100 \<Longrightarrow> dec_nat n = [digit_of (n div 10), digit_of (n mod 10)]"
  by (subst dec_nat.simps) (simp add: dec_nat_one_digit)

lemma digits_01: "digit_of 0 = CHR ''0''" "digit_of 1 = CHR ''1''" "digit_of (Suc 0) = CHR ''1''"
  by code_simp+

lemma sample_times: "format_utc 60 = ''0001-01-01T00:01:00Z''" "format_utc 660 = ''0001-01-01T00:11:00Z''"
  by (simp_all add: format_utc_def civil_first dec_nat_one_digit dec_nat_two_digits zero_pad_def digits_01 numeral_3_eq_3)

definition sample_epoch :: string where
  "sample_epoch = ''11111111-2222-4333-8444-555555555555''"

definition sample_lease :: pyval where
  "sample_lease = PDict (sdict
     [(''acquired_at'', PStr ''0001-01-01T00:01:00Z''), (''checkpoint_id'', PStr ''streaming-events-v1''), (''epoch'', PStr sample_epoch),
      (''expires_at'', PStr ''0001-01-01T00:11:00Z''), (''heartbeat_at'', PStr ''0001-01-01T00:01:00Z''),
      (''owner_id'', PStr ''spark-driver-1''), (''prefix'', PStr ''events/''), (''schema_version'', PInt 1),
      (''session_id'', PStr ''session-1''), (''state'', PStr ''active''), (''terminal_evidence'', PNone),
      (''workload'', PStr ''streaming_ingest-events-spark-iceberg'')])"

lemma sample_new_lease: "new_lease sample_acquire ''streaming-events-v1'' sample_epoch 60 660 = sample_lease"
  by (simp add: new_lease_def sample_lease_def sample_times sample_acquire_def)

lemma sample_body:
  obtains body where "canonical_json_bytes sample_lease 65536 max_json_nodes = Inr body" "body \<noteq> []" "int (length body) \<le> 65536"
proof -
  have "(case canonical_json_bytes sample_lease 65536 max_json_nodes of Inr b \<Rightarrow> b \<noteq> [] | _ \<Rightarrow> False)" by code_simp
  then obtain body where b: "canonical_json_bytes sample_lease 65536 max_json_nodes = Inr body" "body \<noteq> []" by (auto split: sum.splits)
  moreover from b(1) have "int (length body) \<le> 65536"
    by (auto simp: canonical_json_bytes_def inr_iffs Let_def split: if_splits)
  ultimately show thesis by (rule that)
qed

lemma sample_acquires:
  obtains body where "acquire sample_store sample_gateway shipped_policy sample_acquire None =
    (Inr \<lparr>lr_epoch = sample_epoch, lr_etag = sample_etag, lr_body = body\<rparr>, Some body)" "body \<noteq> []" "int (length body) \<le> 65536"
proof -
  obtain body where b: "canonical_json_bytes sample_lease 65536 max_json_nodes = Inr body" "body \<noteq> []" "int (length body) \<le> 65536"
    by (rule sample_body)
  note st = sample_steps [folded sample_epoch_def]
  have bounds: "max_summary_bytes (bounds shipped_policy) = 65536" "ttl_seconds (lease shipped_policy) = 600" by (simp_all add: shipped_policy_def)
  have rd: "gw_read_control sample_gateway (lease_key ''streaming-events-v1'') 65536 None = (Inl (gateway_failure ''control_missing''), None)"
    unfolding sample_gateway_def sample_store_def s3_gateway_def using one_object_missing [OF st(3)] st(4) by simp
  have wr: "gw_create_control sample_gateway (lease_key ''streaming-events-v1'') body None = (Inr sample_etag, Some body)"
    unfolding sample_gateway_def sample_store_def s3_gateway_def
    using one_object_write [OF st(3) b(2) _ st(5)] b(3) st(4) by (simp add: create_control_def)
  have clock: "exact_now sample_store w = (Inr 60, w)" "env_uuid4 sample_store w = (Inr sample_epoch, w)" for w
    by (simp_all add: exact_now_def sample_store_def one_object_def sample_epoch_def act_simps)
  have "acquire sample_store sample_gateway shipped_policy sample_acquire None =
    (Inr \<lparr>lr_epoch = sample_epoch, lr_etag = sample_etag, lr_body = body\<rparr>, Some body)"
    unfolding acquire_def Let_def
    by (simp add: act_run st clock rd wr bounds sample_new_lease b(1) add_seconds_def max_secs_def gateway_failure_def)
  then show thesis using b(2,3) by (rule that)
qed

lemma sample_lease_decodes:
  assumes "canonical_json_bytes sample_lease 65536 max_json_nodes = Inr body"
  shows "decode_lease shipped_policy body = Inr (dict_val sample_lease)"
proof (rule new_lease_fields [OF shipped_registry_ok sample_steps(1) sample_steps(6)])
  show "0 \<le> (60 :: int)" "60 + 600 < max_secs" by (simp_all add: max_secs_def)
  fix d
  assume "new_lease sample_acquire (matched_id \<lparr>matched_id = ''streaming-events-v1'', matched_prefix = ''events/'', generation = []\<rparr>)
    ''11111111-2222-4333-8444-555555555555'' 60 (60 + 600) = PDict d"
  then have d: "PDict d = sample_lease" using sample_new_lease by (simp add: sample_epoch_def)
  assume "lease_fields_ok d 60 60"
  moreover have "sort_keys (untuple sample_lease) = sample_lease" by code_simp
  moreover have "max_summary_bytes (bounds shipped_policy) = 65536" by (simp add: shipped_policy_def)
  ultimately show ?thesis
    using decode_lease_written [OF shipped_registry_ok, of d 60 60 body] assms unfolding d by auto (metis dict_val.simps(1))
qed

definition sample_heartbeat :: heartbeat_request where
  "sample_heartbeat = \<lparr>hr_checkpoint_id = PStr ''streaming-events-v1'', hr_prefix = PStr ''events/'', hr_epoch = PStr sample_epoch\<rparr>"

lemma sample_heartbeats:
  assumes b: "canonical_json_bytes sample_lease 65536 max_json_nodes = Inr body" "body \<noteq> []" "int (length body) \<le> 65536"
  shows "heartbeat sample_store sample_gateway shipped_policy sample_heartbeat (Some body) =
    (Inr \<lparr>lr_epoch = sample_epoch, lr_etag = sample_etag, lr_body = body\<rparr>, Some body)"
proof -
  note st = sample_steps
  have bounds: "max_summary_bytes (bounds shipped_policy) = 65536" "ttl_seconds (lease shipped_policy) = 600" by (simp_all add: shipped_policy_def)
  have rd: "gw_read_control sample_gateway (lease_key ''streaming-events-v1'') 65536 (Some body) = (Inr (body, sample_etag), Some body)"
    unfolding sample_gateway_def sample_store_def s3_gateway_def using one_object_read [OF st(3) _ _ st(5)] st(4) b(3) by simp
  have wr: "gw_replace_lease sample_gateway (lease_key ''streaming-events-v1'') sample_etag body (Some body) = (Inr sample_etag, Some body)"
    unfolding sample_gateway_def sample_store_def s3_gateway_def
    using one_object_write [OF st(3) b(2) _ st(5)] b(3) st(4,5) by (simp add: replace_lease_def act_run)
  have clock: "exact_now sample_store w = (Inr 60, w)" for w
    by (simp add: exact_now_def sample_store_def one_object_def act_simps)
  have v: "validate_identity_request shipped_policy (hr_checkpoint_id sample_heartbeat) (hr_prefix sample_heartbeat) (hr_epoch sample_heartbeat) =
    Inr \<lparr>matched_id = ''streaming-events-v1'', matched_prefix = ''events/'', generation = []\<rparr>" by code_simp
  have id: "require_identity (dict_val sample_lease) (PStr ''streaming-events-v1'') (hr_prefix sample_heartbeat) = Inr ()" by code_simp
  have ep: "py_eq (dget_none (dict_val sample_lease) ''epoch'') (hr_epoch sample_heartbeat)" "dget_none (dict_val sample_lease) ''state'' = PStr ''active''"
    "str_val (hr_epoch sample_heartbeat) = sample_epoch" by code_simp+
  have nx: "PDict (next_lease (dict_val sample_lease) 60 660 (PStr ''active'') PNone) = sample_lease"
    by (simp add: next_lease_def sample_lease_def sample_times)
  show ?thesis
    unfolding heartbeat_def transition_locked_def read_current_def
    by (simp add: act_run st v clock rd wr bounds sample_lease_decodes [OF b(1)] id ep nx b(1) add_seconds_def max_secs_def)
qed

section \<open>Properties\<close>

text \<open>C29. The lease manager touches nothing but the two control records of the checkpoint it is asked
  about, and writes them only conditionally: no operation lists, heads or deletes an object or writes any
  other key, whatever the client answers.\<close>

theorem lease_manager_confined:
  "list_all (lease_call (bucket policy) (aq_checkpoint_id aq))
     (calls (acquire (traced env) (s3_gateway (traced env) policy (onW chk)) policy aq) w) \<and>
   list_all (lease_call (bucket policy) (hr_checkpoint_id hr))
     (calls (heartbeat (traced env) (s3_gateway (traced env) policy (onW chk)) policy hr) w) \<and>
   list_all (lease_call (bucket policy) (hr_checkpoint_id tr))
     (calls (terminal (traced env) (s3_gateway (traced env) policy (onW chk)) policy tr) w)"
proof (intro conjI)
  have chk: "preserves (logs al) (onW chk)" for al by (rule keeps)
  show "list_all (lease_call (bucket policy) (aq_checkpoint_id aq))
     (calls (acquire (traced env) (s3_gateway (traced env) policy (onW chk)) policy aq) w)"
    by (rule calls_allowed, rule s3_calls.acquire_keeps [OF chk]) (auto simp: lease_call_def dest!: validate_acquire_Inr)
  show "list_all (lease_call (bucket policy) (hr_checkpoint_id hr))
     (calls (heartbeat (traced env) (s3_gateway (traced env) policy (onW chk)) policy hr) w)"
    by (rule calls_allowed, rule s3_calls.heartbeat_keeps [OF chk]) (auto simp: lease_call_def)
  show "list_all (lease_call (bucket policy) (hr_checkpoint_id tr))
     (calls (terminal (traced env) (s3_gateway (traced env) policy (onW chk)) policy tr) w)"
    by (rule calls_allowed, rule s3_calls.terminal_keeps [OF chk]) (auto simp: lease_call_def)
qed



section \<open>The lifecycle\<close>

text \<open>C27. \<open>acquire\<close> refines the lifecycle: when it returns, the body it wrote decodes to an active
  lease with the returned epoch that is a lifecycle step from what it observed, that is, from no record or
  from a lease that was not active.\<close>

theorem acquire_refines_lifecycle:
  assumes "parse_policy yaml text = Inr policy" "clock_in_range env" "acquire env gw policy req w = (Inr res, w')"
  shows "\<exists>old d. observed_lease gw policy (str_val (aq_checkpoint_id req)) old \<and> decode_lease policy (lr_body res) = Inr d \<and>
    lease_step policy old (lease_view d) \<and> lv_epoch (lease_view d) = lr_epoch res \<and>
    PStr (lv_checkpoint (lease_view d)) = aq_checkpoint_id req"
proof (rule acquired_lease [OF parsed_registry_ok [OF assms(1)] assms(2,3)])
  fix old d m
  assume m: "validate_acquire policy req = Inr m" and rest: "observed_lease gw policy (matched_id m) old"
    "decode_lease policy (lr_body res) = Inr d" "lease_step policy old (lease_view d)" "lv_epoch (lease_view d) = lr_epoch res"
    "lv_checkpoint (lease_view d) = matched_id m"
  have "aq_checkpoint_id req = PStr (matched_id m)" using validate_acquire_Inr [OF m] by simp
  with rest show ?thesis by auto
qed

theorem acquire_refines_lifecycle_witness:
  "\<exists>body d old. lease_step shipped_policy old (lease_view d) \<and> decode_lease shipped_policy body = Inr d \<and>
     lv_epoch (lease_view d) = sample_epoch"
proof (rule sample_acquires)
  fix body
  assume "acquire sample_store sample_gateway shipped_policy sample_acquire None =
    (Inr \<lparr>lr_epoch = sample_epoch, lr_etag = sample_etag, lr_body = body\<rparr>, Some body)"
  from acquire_refines_lifecycle [OF shipped_policy_parses sample_clock this] show ?thesis by auto
qed

text \<open>C6. Leases exclude each other: as long as the record an \<open>acquire\<close> wrote is what a gateway
  reads, no \<open>acquire\<close> for that checkpoint succeeds through it, by whatever owner and at whatever
  time; an expired active lease is never taken over.\<close>

theorem acquire_exclusive:
  assumes "parse_policy yaml text = Inr policy" "clock_in_range env" "acquire env gw policy req w = (Inr res, w')"
    and "aq_checkpoint_id req2 = aq_checkpoint_id req"
    and "\<forall>n w1. \<exists>etag w2. gw_read_control gw2 (lease_key (str_val (aq_checkpoint_id req))) n w1 = (Inr (lr_body res, etag), w2)"
  shows "\<exists>e. fst (acquire env2 gw2 policy req2 w2) = Inl e"
proof (rule ccontr)
  assume "\<nexists>e. fst (acquire env2 gw2 policy req2 w2) = Inl e"
  then obtain res2 w3 where run2: "acquire env2 gw2 policy req2 w2 = (Inr res2, w3)"
    by (cases "acquire env2 gw2 policy req2 w2"; cases "fst (acquire env2 gw2 policy req2 w2)") auto
  have ok: "registry_ok policy" by (rule parsed_registry_ok [OF assms(1)])
  obtain old d m where m: "validate_acquire policy req = Inr m" and d: "decode_lease policy (lr_body res) = Inr d"
    "dget_none d ''state'' = PStr ''active''"
    by (rule acquired_lease [OF ok assms(2,3)])
  obtain m2 now wa wb where m2: "validate_acquire policy req2 = Inr m2"
    and seen: "(\<exists>e w3. gw_read_control gw2 (lease_key (matched_id m2)) (max_summary_bytes (bounds policy)) wb = (Inl e, w3) \<and>
        exn_code e = Some ''control_missing'') \<or>
     (\<exists>body etag w3 d. gw_read_control gw2 (lease_key (matched_id m2)) (max_summary_bytes (bounds policy)) wb = (Inr (body, etag), w3) \<and>
        decode_lease policy body = Inr d \<and> acquire_check policy req2 m2 now d = Inr ())"
    by (rule acquire_Inr [OF run2])
  have "str_val (aq_checkpoint_id req) = matched_id m2"
    using validate_acquire_Inr [OF m] validate_acquire_Inr [OF m2] assms(4) by auto
  then obtain etag wc where "gw_read_control gw2 (lease_key (matched_id m2)) (max_summary_bytes (bounds policy)) wb = (Inr (lr_body res, etag), wc)"
    using assms(5) by metis
  with seen d(1) have "acquire_check policy req2 m2 now d = Inr ()" by auto
  from acquire_check_ended [OF this] d(2) show False by simp
qed


definition holding :: "string \<Rightarrow> string option gateway" where
  \<comment> \<open>a gateway that reads the given lease, whatever it is asked\<close>
  "holding body = sample_gateway\<lparr>gw_read_control := (\<lambda>_ _. retA (body, sample_etag))\<rparr>"

theorem acquire_exclusive_witness:
  "\<exists>body e. fst (acquire sample_store (holding body) shipped_policy sample_acquire None) = Inl e"
proof (rule sample_acquires)
  fix body
  assume a: "acquire sample_store sample_gateway shipped_policy sample_acquire None =
    (Inr \<lparr>lr_epoch = sample_epoch, lr_etag = sample_etag, lr_body = body\<rparr>, Some body)"
  have "\<exists>e. fst (acquire sample_store (holding body) shipped_policy sample_acquire None) = Inl e"
    by (rule acquire_exclusive [OF shipped_policy_parses sample_clock a]) (simp_all add: holding_def retA_def)
  then show ?thesis by blast
qed




end
