(* ===== verification/Planner.thy ===== *)
theory Planner
  imports Leases
begin

text \<open>
  \<^verbatim>\<open>scripts/checkpoints/planner.py\<close>: dry-run planning.  The planner reads the inventory and
  the two control records of a checkpoint, evaluates them and binds the outcome into a plan
  artifact.  The local writer of the artifact file is not modelled.
\<close>

section \<open>Data\<close>

record plan_request =
  pq_checkpoint_id :: pyval
  pq_prefix :: pyval
  pq_actor :: pyval
  pq_evaluated_at :: pyval

definition terminal_schema :: schema where
  "terminal_schema =
     [(''checkpoint_id'', [TStr]), (''exclusive_run'', [TBool]), (''generation'', [TDict]), (''occurred_at'', [TStr]),
      (''prefix'', [TStr]), (''recovery_approved'', [TBool]), (''schema_version'', [TInt]),
      (''sink_disposition_approved'', [TBool]), (''source_available'', [TBool]), (''state'', [TStr]), (''successful'', [TBool])]"

definition retired_terminal_schema :: schema where
  "retired_terminal_schema = terminal_schema @ [(''retirement_review'', [TStr])]"

definition max_plan_nodes :: int where "max_plan_nodes = 600128"
definition max_plan_bytes :: int where "max_plan_bytes = 134217728"

section \<open>Control records\<close>

fun decode_failure :: "exn \<Rightarrow> bool" where
  \<comment> \<open>\<^verbatim>\<open>except (KeyError, TypeError, ValueError, ...)\<close>\<close>
  "decode_failure (OtherExn n) = (n \<in> set [''KeyError'', ''TypeError'', ''ValueError'', ''UnicodeError'', ''JSONDecodeError''])"
| "decode_failure e = is_value_error e"

definition plan_decode_lease :: "string \<Rightarrow> string \<Rightarrow> lease_facts res" where
  "plan_decode_lease body etag =
     catchE
       (bindE (decode_exact_json body lease_schema max_json_bytes max_json_depth) (\<lambda>v.
        if \<not> py_eq (dget_none v ''schema_version'') (PInt 1) then Inl (OtherExn ''ValueError'')
        else case (parse_utc (dget_none v ''acquired_at''), parse_utc (dget_none v ''heartbeat_at''), parse_utc (dget_none v ''expires_at'')) of
               (Some acquired, Some beat, Some expires) \<Rightarrow>
                 Inr \<lparr>lf_checkpoint_id = dget_none v ''checkpoint_id'', lf_prefix = dget_none v ''prefix'',
                      lf_state = dget_none v ''state'', lf_acquired_at = utc acquired, lf_heartbeat_at = utc beat,
                      lf_expires_at = utc expires, lf_etag = PStr etag, lf_conflicting = PBool False, lf_malformed = PBool False\<rparr>
             | _ \<Rightarrow> Inl (OtherExn ''ValueError'')))
       (\<lambda>e. if decode_failure e then PlanFailure ''lease_malformed'' else e)"

definition plan_decode_terminal :: "string \<Rightarrow> pyval \<Rightarrow> pyval \<Rightarrow> terminal_facts res" where
  "plan_decode_terminal body cid prefix =
     catchE
       (bindE (case decode_exact_json body terminal_schema max_json_bytes max_json_depth of
                 Inl (RecordFailure _) \<Rightarrow> decode_exact_json body retired_terminal_schema max_json_bytes max_json_depth
               | r \<Rightarrow> r) (\<lambda>v.
        if \<not> py_eq (dget_none v ''schema_version'') (PInt 1) then Inl (OtherExn ''ValueError'')
        else case parse_utc (dget_none v ''occurred_at'') of
               None \<Rightarrow> Inl (OtherExn ''ValueError'')
             | Some occurred \<Rightarrow>
                 if \<not> py_eq (dget_none v ''checkpoint_id'') cid \<or> \<not> py_eq (dget_none v ''prefix'') prefix
                 then Inl (PlanFailure ''terminal_identity_mismatch'')
                 else Inr \<lparr>tf_state = dget_none v ''state'', tf_occurred_at = utc occurred,
                        tf_recovery_approved = dget_none v ''recovery_approved'', tf_source_available = dget_none v ''source_available'',
                        tf_sink_disposition_approved = dget_none v ''sink_disposition_approved'',
                        tf_retirement_review = dget_none v ''retirement_review'', tf_generation = dget_none v ''generation'',
                        tf_exclusive_run = dget_none v ''exclusive_run'', tf_successful = dget_none v ''successful''\<rparr>))
       (\<lambda>e. case e of PlanFailure _ \<Rightarrow> e | _ \<Rightarrow> if decode_failure e then PlanFailure ''terminal_malformed'' else e)"

definition optional_control ::
  "'w gateway \<Rightarrow> checkpoint_policy \<Rightarrow> string \<Rightarrow> (string \<Rightarrow> string \<Rightarrow> 'a res) \<Rightarrow> ('w, 'a option) act" where
  "optional_control gw policy key decode =
     tryA (gw_read_control gw key (max_summary_bytes (bounds policy)))
       (\<lambda>e. if is_gateway e \<and> exn_code e = Some ''control_missing'' then retA None
            else if is_gateway e \<and> exn_code e \<noteq> Some ''operation_deadline'' then raiseA (PlanFailure ''control_read_failed'')
            else raiseA e)
       (\<lambda>(body, etag). bindA (liftA (decode body etag)) (\<lambda>x. retA (Some x)))"

definition validate_plan_request :: "checkpoint_policy \<Rightarrow> plan_request \<Rightarrow> matched_checkpoint res" where
  "validate_plan_request policy req =
     bindE (catchE (match_prefix policy (pq_prefix req)) (\<lambda>e. if is_policy e then PlanFailure ''identity_invalid'' else e)) (\<lambda>matched.
     if \<not> py_eq (pq_checkpoint_id req) (PStr (matched_id matched)) then Inl (PlanFailure ''identity_invalid'')
     else if \<not> is_str (pq_actor req) \<or> \<not> identity_pattern (str_val (pq_actor req)) then Inl (PlanFailure ''actor_invalid'')
     else if \<not> is_exact_utc (pq_evaluated_at req) then Inl (PlanFailure ''clock_invalid'')
     else Inr matched)"

section \<open>Planning\<close>

definition newest_modified :: "object_record list \<Rightarrow> int" where
  \<comment> \<open>\<^verbatim>\<open>max(record.last_modified for record in records)\<close> of a non-empty inventory\<close>
  "newest_modified rs = foldr (\<lambda>r m. max (or_modified r) m) (tl rs) (or_modified (hd rs))"

definition summarize :: "object_record list \<Rightarrow> string \<Rightarrow> inventory_summary" where
  "summarize rs digest =
     \<lparr>object_count = PInt (int (length rs)), total_bytes = PInt (sum_list (map or_size rs)),
      newest_last_modified = utc (newest_modified rs), inv_sha256 = PStr digest,
      changed_since_plan = PBool False, partial_retry_confined = PBool True\<rparr>"

definition optional_utc :: "int option \<Rightarrow> pyval" where
  "optional_utc v = (case v of None \<Rightarrow> PNone | Some t \<Rightarrow> PStr (format_utc t))"

definition plan_summary ::
  "plan_request \<Rightarrow> string \<Rightarrow> object_record list \<Rightarrow> string \<Rightarrow> manifest_shard list \<Rightarrow> retention_decision \<Rightarrow> pydict" where
  "plan_summary req cid rs digest shards decision = sdict
     [(''actor'', pq_actor req), (''checkpoint_id'', PStr cid),
      (''decision'', PStr (if eligible decision then ''eligible'' else ''refused'')),
      (''eligible_after'', optional_utc (eligible_after decision)),
      (''evaluated_at'', PStr (format_utc (utc_secs (pq_evaluated_at req)))),
      (''inventory'', PDict (sdict
         [(''newest_last_modified'', PStr (format_utc (newest_modified rs))), (''object_count'', PInt (int (length rs))),
          (''sha256'', PStr digest), (''total_bytes'', PInt (sum_list (map or_size rs)))])),
      (''manifest_shards'', PTuple (map (\<lambda>s. PStr (ms_sha256 s)) shards)),
      (''policy_sha256'', PStr (dec_policy_sha256 decision)), (''prefix'', pq_prefix req),
      (''prefix_sha256'', PStr (sha256 (str_val (pq_prefix req)))),
      (''refusal_codes'', PTuple (map PStr (refusal_codes decision))),
      (''retention_anchor'', optional_utc (retention_anchor_at decision)), (''schema_version'', PInt 1)]"

definition bind_plan ::
  "checkpoint_policy \<Rightarrow> plan_request \<Rightarrow> string \<Rightarrow> object_record list \<Rightarrow> lease_facts option \<Rightarrow> terminal_facts option \<Rightarrow> plan_artifact res" where
  \<comment> \<open>\<^verbatim>\<open>plan\<close> after its reads: evaluation, shards, summary and artifact\<close>
  "bind_plan policy req cid rs lf tf =
     bindE (inventory_sha256 rs) (\<lambda>digest.
     bindE (evaluate_retention policy \<lparr>ev_prefix = pq_prefix req, evaluated_at = pq_evaluated_at req, ev_lease = lf,
              ev_terminal = tf, ev_inventory = summarize rs digest\<rparr>) (\<lambda>decision.
     bindE (shard_inventory rs (max_manifest_shard_bytes (bounds policy))) (\<lambda>shards.
     bindE (mapE (\<lambda>s. plain_loads (ms_body s)) shards) (\<lambda>values.
     let summary = plan_summary req cid rs digest shards decision in
     bindE (catchE (canonical_json_bytes
                      (PDict (sdict [(''schema_version'', PInt 1), (''summary'', PDict summary), (''shards'', PList values)]))
                      max_plan_bytes max_plan_nodes)
              (\<lambda>e. if is_record e then PlanFailure ''plan_body_invalid'' else e)) (\<lambda>body.
     make_plan_artifact summary shards body (sha256 body))))))"

definition plan :: "'w gateway \<Rightarrow> checkpoint_policy \<Rightarrow> plan_request \<Rightarrow> ('w, plan_artifact) act" where
  "plan gw policy req =
     bindA (liftA (validate_plan_request policy req)) (\<lambda>matched.
     bindA (mapexnA (gw_inventory gw (str_val (pq_prefix req)))
              (\<lambda>e. if is_gateway e \<and> exn_code e \<noteq> Some ''operation_deadline'' then PlanFailure ''inventory_failed'' else e)) (\<lambda>rs.
     if rs = [] then raiseA (PlanFailure ''inventory_empty'')
     else
     bindA (optional_control gw policy (lease_key (matched_id matched)) plan_decode_lease) (\<lambda>lf.
     bindA (if (case lf of None \<Rightarrow> False | Some l \<Rightarrow> lf_state l = PStr ''active'') then retA None
            else optional_control gw policy (terminal_key (matched_id matched))
                   (\<lambda>body _. plan_decode_terminal body (pq_checkpoint_id req) (pq_prefix req))) (\<lambda>tf.
     liftA (bind_plan policy req (matched_id matched) rs lf tf)))))"

end
