(* ===== verification/Metrics.thy ===== *)
theory Metrics
  imports PyVal
begin

text \<open>
  \<^verbatim>\<open>scripts/checkpoints/metrics.py\<close>: the closed label tables of the retention metrics and the
  renderer of the Prometheus text.  A snapshot has the type the source annotates, a mapping from
  metric names to mappings from label tuples to numbers, as association lists without repeated keys;
  a value keeps its dynamic type, which the renderer tests.  The properties: a rendered body is
  within its bound and consists of one line per sample, in order, each of a known metric with a known
  label; the renderer fails exactly when a sample leaves the tables or the body leaves the bound.
\<close>

definition metric_checkpoint_ids :: "string list" where
  "metric_checkpoint_ids =
     [''streaming-events-v1'', ''streaming-event-windows-v1'', ''streaming-online-retail-cdc-v1'',
      ''streaming-gh-archive-file-v1'', ''go-live-streaming-test-v1'']"

definition metric_decisions :: "string list" where
  "metric_decisions = [''eligible'', ''refused'', ''not_ready'', ''partial'', ''completed'']"

definition metric_refusals :: "string list" where
  "metric_refusals =
     [''clock_overflow'', ''concrete_prefix_required'', ''control_read_failed'', ''exclusive_run_required'',
      ''future_clock'', ''generation_identity_mismatch'', ''invalid_fact_type'', ''invalid_lease_terminal_state'',
      ''invalid_terminal_state'', ''invalid_utc_timestamp'', ''inventory_invalid'', ''inventory_empty'',
      ''inventory_failed'', ''lease_active'', ''lease_clock_invalid'', ''lease_missing'', ''lease_conflicting'',
      ''lease_etag_invalid'', ''lease_expired_active_uncertain'', ''lease_identity_mismatch'', ''lease_malformed'',
      ''lease_state_invalid'', ''lease_terminal_clock_conflict'', ''object_after_terminal'',
      ''partial_retry_broadened'', ''recovery_not_approved'', ''registry_active_durable'',
      ''registry_retirement_review_invalid'', ''registry_retirement_review_missing'', ''retention_quarantine'',
      ''retirement_clock_missing'', ''retirement_review_mismatch'', ''retirement_review_missing'',
      ''sink_disposition_not_approved'', ''source_unavailable'', ''successful_run_required'', ''terminal_missing'',
      ''terminal_identity_mismatch'', ''terminal_malformed'', ''inventory_changed'', ''policy_drift'',
      ''revalidation_mismatch'']"

definition metric_outcomes :: "string list" where
  "metric_outcomes = [''backend_failure'', ''capability_failed'', ''invalid_request'', ''metrics_saturated'',
     ''timeout'', ''unauthorized'']"

definition metric_contracts :: "(string \<times> (string \<times> string list)) list" where
  "metric_contracts =
     [(''checkpoint_retention_objects'', (''checkpoint_id'', metric_checkpoint_ids)),
      (''checkpoint_retention_bytes'', (''checkpoint_id'', metric_checkpoint_ids)),
      (''checkpoint_retention_eligible_bytes'', (''checkpoint_id'', metric_checkpoint_ids)),
      (''checkpoint_retention_lease_heartbeat_age_seconds'', (''checkpoint_id'', metric_checkpoint_ids)),
      (''checkpoint_retention_last_success_unixtime'', (''checkpoint_id'', metric_checkpoint_ids)),
      (''checkpoint_retention_plans_total'', (''decision'', metric_decisions)),
      (''checkpoint_retention_refusals_total'', (''refusal_code'', metric_refusals)),
      (''checkpoint_retention_prepared_total'', (''outcome'', metric_decisions)),
      (''checkpoint_retention_deleted_objects_total'', (''outcome'', metric_decisions)),
      (''checkpoint_retention_deleted_bytes_total'', (''outcome'', metric_decisions)),
      (''checkpoint_retention_partial_total'', (''outcome'', metric_decisions)),
      (''checkpoint_retention_request_failures_total'', (''outcome'', metric_outcomes))]"

type_synonym samples = "(string list \<times> pyval) list"
type_synonym snapshot = "(string \<times> samples) list"

section \<open>Numbers in the text format\<close>

definition round_half_even :: "rat \<Rightarrow> int" where
  "round_half_even q =
     (let f = \<lfloor>q\<rfloor>; r = q - of_int f
      in if r < 1 / 2 \<or> (r = 1 / 2 \<and> even f) then f else f + 1)"

fun decimal_exponent :: "nat \<Rightarrow> int \<Rightarrow> rat \<Rightarrow> int" where
  \<comment> \<open>the exponent \<open>e\<close> with \<open>10 ^ e \<le> q < 10 ^ (e + 1)\<close>; 400 steps cover the range of a float\<close>
  "decimal_exponent 0 e q = e"
| "decimal_exponent (Suc n) e q =
     (if q \<ge> 10 then decimal_exponent n (e + 1) (q / 10)
      else if q < 1 then decimal_exponent n (e - 1) (q * 10) else e)"

definition pow10 :: "int \<Rightarrow> rat" where
  "pow10 e = (if 0 \<le> e then 10 ^ nat e else 1 / 10 ^ nat (- e))"

definition strip_zeros :: "string \<Rightarrow> string" where
  "strip_zeros s = rev (dropWhile (\<lambda>c. c = CHR ''0'') (rev s))"

definition with_point :: "string \<Rightarrow> string \<Rightarrow> string" where
  "with_point a b = (let b' = strip_zeros b in if b' = [] then a else a @ ''.'' @ b')"

definition format_g17 :: "rat \<Rightarrow> string" where
  \<comment> \<open>\<^verbatim>\<open>format(q, ".17g")\<close> for a finite non-negative float\<close>
  "format_g17 q =
     (if q = 0 then ''0''
      else let e0 = decimal_exponent 400 0 q;
               n0 = round_half_even (q * pow10 (16 - e0));
               (e, n) = (if n0 \<ge> 10 ^ 17 then (e0 + 1, n0 div 10) else (e0, n0));
               ds = dec_nat (nat n)
           in if - 4 \<le> e \<and> e < 17
              then (if e \<ge> 0 then with_point (take (nat e + 1) ds) (drop (nat e + 1) ds)
                    else with_point ''0'' (replicate (nat (- e - 1)) (CHR ''0'') @ ds))
              else with_point (take 1 ds) (drop 1 ds) @ ''e'' @ (if e < 0 then ''-'' else ''+'') @
                   zero_pad 2 (dec_nat (nat \<bar>e\<bar>)))"

section \<open>The renderer\<close>

fun sample_value :: "pyval \<Rightarrow> string option" where
  \<comment> \<open>the text of a finite non-negative \<^verbatim>\<open>int\<close> or \<^verbatim>\<open>float\<close>\<close>
  "sample_value (PInt i) = (if i < 0 then None else Some (dec_int i))"
| "sample_value (PFloat (Some q)) = (if q < 0 then None else Some (format_g17 q))"
| "sample_value _ = None"

definition render_sample :: "string \<Rightarrow> string \<times> string list \<Rightarrow> string list \<times> pyval \<Rightarrow> string res" where
  "render_sample metric = (\<lambda>(label_name, allowed) (labels, value).
     case (labels, sample_value value) of
       ([label], Some text) \<Rightarrow>
         if label \<in> set allowed
         then Inr (metric @ ''{'' @ label_name @ ''='' @ [CHR 0x22] @ label @ [CHR 0x22] @ ''} '' @ text @ [CHR 0x0A])
         else Inl (MetricsFailure ''metric_value_invalid'')
     | _ \<Rightarrow> Inl (MetricsFailure ''metric_value_invalid''))"

definition render_metric :: "string \<times> samples \<Rightarrow> string list res" where
  "render_metric = (\<lambda>(metric, values).
     case map_of metric_contracts metric of
       None \<Rightarrow> Inl (MetricsFailure ''metric_unknown'')
     | Some contract \<Rightarrow> mapE (render_sample metric contract) (sort_key fst values))"

definition render_metrics :: "snapshot \<Rightarrow> int \<Rightarrow> string res" where
  "render_metrics snap max_body =
     (if max_body < 1 then Inl (MetricsFailure ''metrics_invalid'')
      else bindE (mapE render_metric (sort_key fst snap)) (\<lambda>lines.
        let body = concat (concat lines)
        in if int (length body) > max_body then Inl (MetricsFailure ''metrics_body_bound'') else Inr body))"

section \<open>Samples within the tables\<close>

definition sample_ok :: "string \<times> string list \<Rightarrow> string list \<times> pyval \<Rightarrow> bool" where
  "sample_ok = (\<lambda>(_, allowed) (labels, value).
     (\<exists>label \<in> set allowed. labels = [label]) \<and> sample_value value \<noteq> None)"

definition snapshot_ok :: "snapshot \<Rightarrow> bool" where
  "snapshot_ok snap \<longleftrightarrow>
     list_all (\<lambda>(metric, values).
       case map_of metric_contracts metric of None \<Rightarrow> False | Some contract \<Rightarrow> list_all (sample_ok contract) values) snap"

definition metric_line :: "string \<Rightarrow> bool" where
  \<comment> \<open>a line of the text format with a known metric and one of its labels\<close>
  "metric_line line \<longleftrightarrow>
     (\<exists>(metric, label_name, allowed) \<in> set metric_contracts. \<exists>label \<in> set allowed. \<exists>value text.
        sample_value value = Some text \<and>
        line = metric @ ''{'' @ label_name @ ''='' @ [CHR 0x22] @ label @ [CHR 0x22] @ ''} '' @ text @ [CHR 0x0A])"

lemma render_sample_Inr:
  "(\<exists>line. render_sample metric contract s = Inr line) \<longleftrightarrow> sample_ok contract s"
  by (cases contract; cases s)
     (auto simp: render_sample_def sample_ok_def split: list.splits option.splits if_splits)

lemma render_sample_line:
  "map_of metric_contracts metric = Some contract \<Longrightarrow> render_sample metric contract s = Inr line \<Longrightarrow> metric_line line"
  by (cases contract; cases s)
     (force simp: render_sample_def metric_line_def dest: map_of_SomeD split: list.splits option.splits if_splits)

lemma render_metric_Inr:
  "(\<exists>lines. render_metric mv = Inr lines) \<longleftrightarrow>
   (case map_of metric_contracts (fst mv) of None \<Rightarrow> False | Some contract \<Rightarrow> list_all (sample_ok contract) (snd mv))"
  by (cases mv) (simp add: render_metric_def mapE_Inr_iff render_sample_Inr list_all_iff split: option.split)

lemma render_metric_lines:
  "render_metric mv = Inr lines \<Longrightarrow> line \<in> set lines \<Longrightarrow> metric_line line"
  by (cases mv) (auto simp: render_metric_def inr_iffs dest!: mapE_Inr_set intro: render_sample_line)

lemma render_metric_count: "render_metric mv = Inr lines \<Longrightarrow> length lines = length (snd mv)"
  by (cases mv) (auto simp: render_metric_def inr_iffs dest: mapE_length)

lemma render_all_Inr: "(\<exists>lines. mapE render_metric (sort_key fst snap) = Inr lines) \<longleftrightarrow> snapshot_ok snap"
  by (simp add: mapE_Inr_iff render_metric_Inr snapshot_ok_def list_all_iff case_prod_unfold)

lemma length_concat_mapE:
  "mapE render_metric xs = Inr lines \<Longrightarrow> length (concat lines) = sum_list (map (\<lambda>mv. length (snd mv)) xs)"
  by (induction xs arbitrary: lines) (auto simp: bindE_eq_Inr render_metric_count)

lemma render_sample_errors: "render_sample metric contract s = Inl e \<Longrightarrow> e = MetricsFailure ''metric_value_invalid''"
  by (cases contract; cases s)
     (auto simp: render_sample_def split: list.split_asm option.split_asm if_splits)

lemma render_metric_errors: "render_metric mv = Inl e \<Longrightarrow> e \<noteq> MetricsFailure ''metrics_body_bound''"
  by (cases mv)
     (auto simp: render_metric_def split: option.split_asm dest!: mapE_Inl_set render_sample_errors)

section \<open>Properties of the renderer\<close>

text \<open>C25. A rendered metrics body is within its byte bound and is one line per sample of the snapshot,
  each for a metric of the contract table with a label value of that metric's closed vocabulary and a
  finite non-negative number: no request can make the service publish a label of its own.\<close>

theorem render_metrics_closed:
  assumes "render_metrics snap n = Inr body"
  shows "int (length body) \<le> n \<and>
    (\<exists>lines. body = concat lines \<and> list_all metric_line lines \<and>
       length lines = sum_list (map (\<lambda>mv. length (snd mv)) snap))"
proof -
  from assms obtain ls where ls: "mapE render_metric (sort_key fst snap) = Inr ls"
    and b: "int (length body) \<le> n" "body = concat (concat ls)"
    by (auto simp: render_metrics_def Let_def inr_iffs)
  have "list_all metric_line (concat ls)"
    using mapE_Inr_set [OF ls] render_metric_lines by (fastforce simp: list_all_iff)
  moreover have "length (concat ls) = sum_list (map (\<lambda>mv. length (snd mv)) snap)"
    using length_concat_mapE [OF ls] by (simp only: sum_list_sort_key)
  ultimately show ?thesis using b by blast
qed

definition sample_snapshot :: snapshot where
  "sample_snapshot =
     [(''checkpoint_retention_refusals_total'', [([''lease_missing''], PInt 3), ([''future_clock''], PInt 12)])]"

theorem render_metrics_closed_witness:
  "\<exists>body. render_metrics sample_snapshot 65536 = Inr body \<and> int (length body) \<le> 65536"
proof -
  have "(case render_metrics sample_snapshot 65536 of Inr _ \<Rightarrow> True | Inl _ \<Rightarrow> False)" by code_simp
  then obtain body where "render_metrics sample_snapshot 65536 = Inr body" by (auto split: sum.splits)
  with render_metrics_closed [OF this] show ?thesis by blast
qed

text \<open>The renderer fails only for a snapshot outside the tables or a body over the bound: a snapshot
  whose metrics, labels and numbers are all admissible gives its text, or the bound error and no other.\<close>

theorem render_metrics_complete:
  assumes "1 \<le> n"
  shows "snapshot_ok snap \<longleftrightarrow>
    (\<exists>body. render_metrics snap n = Inr body) \<or> render_metrics snap n = Inl (MetricsFailure ''metrics_body_bound'')"
proof (cases "mapE render_metric (sort_key fst snap)")
  case (Inr ls)
  then have "snapshot_ok snap" using render_all_Inr by blast
  with Inr assms show ?thesis by (simp add: render_metrics_def Let_def)
next
  case (Inl e)
  then have "\<not> snapshot_ok snap" using render_all_Inr by (metis Inl_Inr_False)
  from Inl obtain mv where "render_metric mv = Inl e" by (blast dest: mapE_Inl_set)
  then have "e \<noteq> MetricsFailure ''metrics_body_bound''" by (rule render_metric_errors)
  with \<open>\<not> snapshot_ok snap\<close> Inl assms show ?thesis by (simp add: render_metrics_def)
qed

theorem render_metrics_complete_witness:
  "(1 :: int) \<le> 65536 \<and> snapshot_ok sample_snapshot"
proof -
  have "(case render_metrics sample_snapshot 65536 of Inr _ \<Rightarrow> True | Inl _ \<Rightarrow> False)" by code_simp
  then have "\<exists>body. render_metrics sample_snapshot 65536 = Inr body" by (auto split: sum.splits)
  then show ?thesis using render_metrics_complete [of 65536 sample_snapshot] by simp
qed

end
