(* ===== verification/EvaluateFacts.thy ===== *)
theory EvaluateFacts
  imports Evaluate Registry JsonSize Metrics
begin

text \<open>
  Facts about the retention evaluator: the specification \<open>retention_safe\<close> of when a checkpoint
  may be deleted, stated without refusal codes, and the proof that \<open>evaluate_retention\<close> decides
  exactly it; the closed vocabulary of the refusal codes; the canonical plan and its round trip.
\<close>

section \<open>What a deletion requires\<close>

definition lease_quiet ::
  "lease_policy \<Rightarrow> matched_checkpoint \<Rightarrow> int \<Rightarrow> string \<Rightarrow> int \<Rightarrow> lease_facts \<Rightarrow> bool" where
  \<comment> \<open>the lease is well formed, terminal in \<open>state\<close>, expired up to the tolerance, and older than the terminal event\<close>
  "lease_quiet lp matched now state occurred l \<longleftrightarrow>
     lf_malformed l = PBool False \<and> lf_conflicting l = PBool False \<and>
     lf_checkpoint_id l = PStr (matched_id matched) \<and> lf_prefix l = PStr (matched_prefix matched) \<and>
     lf_state l = PStr state \<and>
     (\<exists>e. lf_etag l = PStr e \<and> e \<noteq> [] \<and> length e \<le> 128) \<and>
     (\<exists>acquired heartbeat. lf_acquired_at l = utc acquired \<and> lf_heartbeat_at l = utc heartbeat \<and>
        lf_expires_at l = utc (heartbeat + ttl_seconds lp) \<and> 0 \<le> ttl_seconds lp \<and>
        acquired \<le> heartbeat \<and> heartbeat \<le> occurred \<and>
        acquired \<le> now + future_tolerance_seconds lp \<and> heartbeat \<le> now + future_tolerance_seconds lp \<and>
        heartbeat + ttl_seconds lp \<le> now + future_tolerance_seconds lp)"

definition terminal_approved ::
  "lease_policy \<Rightarrow> matched_checkpoint \<Rightarrow> checkpoint_entry \<Rightarrow> int \<Rightarrow> string \<Rightarrow> int \<Rightarrow> terminal_facts \<Rightarrow> bool" where
  "terminal_approved lp matched entry now state occurred t \<longleftrightarrow>
     tf_state t = PStr state \<and> state \<in> set (terminal_states entry) \<and>
     tf_occurred_at t = utc occurred \<and> occurred \<le> now + future_tolerance_seconds lp \<and>
     tf_recovery_approved t = PBool True \<and> tf_source_available t = PBool True \<and>
     tf_sink_disposition_approved t = PBool True \<and> is_bool (tf_exclusive_run t) \<and> is_bool (tf_successful t) \<and>
     (durability entry = ''durable_stream'' \<and> lifecycle entry = ''retired'' \<longrightarrow>
        (\<exists>r ra. tf_retirement_review t = PStr r \<and> retirement_review entry = PStr r \<and> safe_review r \<and>
           retired_at entry = utc ra \<and> ra \<le> now + future_tolerance_seconds lp)) \<and>
     (durability entry \<in> {''generation_reproducibility'', ''disposable_acceptance''} \<longrightarrow>
        (\<exists>g. tf_generation t = PDict g \<and> py_eq (PDict g) (PDict (generation matched)))) \<and>
     (durability entry = ''disposable_acceptance'' \<longrightarrow>
        tf_exclusive_run t = PBool True \<and> tf_successful t = PBool True)"

definition inventory_stable ::
  "checkpoint_policy \<Rightarrow> int \<Rightarrow> int \<Rightarrow> inventory_summary \<Rightarrow> bool" where
  "inventory_stable policy now occurred iv \<longleftrightarrow>
     (\<exists>n b h newest. object_count iv = PInt n \<and> 1 \<le> n \<and> n \<le> max_objects (bounds policy) \<and>
        total_bytes iv = PInt b \<and> 1 \<le> b \<and> b \<le> max_bytes (bounds policy) \<and>
        inv_sha256 iv = PStr h \<and> sha256_pattern h \<and>
        newest_last_modified iv = utc newest \<and> newest \<le> occurred \<and>
        newest \<le> now + future_tolerance_seconds (lease policy)) \<and>
     changed_since_plan iv = PBool False \<and> partial_retry_confined iv = PBool True"

definition retention_elapsed ::
  "checkpoint_entry \<Rightarrow> int \<Rightarrow> lease_facts \<Rightarrow> terminal_facts \<Rightarrow> inventory_summary \<Rightarrow> bool" where
  \<comment> \<open>every recorded clock is at least the retention period ago\<close>
  "retention_elapsed entry now l t iv \<longleftrightarrow>
     list_all (\<lambda>v. is_exact_utc v \<and> utc_secs v + retention_seconds entry \<le> now) (anchor_values entry (Some l) (Some t) iv)"

definition retention_safe :: "checkpoint_policy \<Rightarrow> evaluation_input \<Rightarrow> bool" where
  "retention_safe policy facts \<longleftrightarrow>
     (\<exists>matched entry l t now state occurred.
        match_prefix policy (ev_prefix facts) = Inr matched \<and>
        map_of (entries policy) (matched_id matched) = Some entry \<and>
        evaluated_at facts = utc now \<and> ev_lease facts = Some l \<and> ev_terminal facts = Some t \<and>
        (case expected_states (durability entry) of Some states \<Rightarrow> state \<in> set states | None \<Rightarrow> False) \<and>
        \<not> (durability entry = ''durable_stream'' \<and> lifecycle entry = ''active'') \<and>
        lease_quiet (lease policy) matched now state occurred l \<and>
        terminal_approved (lease policy) matched entry now state occurred t \<and>
        inventory_stable policy now occurred (ev_inventory facts) \<and>
        retention_elapsed entry now l t (ev_inventory facts) \<and>
        safe_add_seconds (retention_anchor entry (Some l) (Some t) (ev_inventory facts)) (retention_seconds entry) \<noteq> None)"

lemma retention_safeI:
  assumes "match_prefix policy (ev_prefix facts) = Inr matched" "map_of (entries policy) (matched_id matched) = Some entry"
    "evaluated_at facts = utc now" "ev_lease facts = Some l" "ev_terminal facts = Some t"
    "expected_states (durability entry) = Some states" "state \<in> set states"
    "\<not> (durability entry = ''durable_stream'' \<and> lifecycle entry = ''active'')"
    "lease_quiet (lease policy) matched now state occurred l"
    "terminal_approved (lease policy) matched entry now state occurred t"
    "inventory_stable policy now occurred (ev_inventory facts)" "retention_elapsed entry now l t (ev_inventory facts)"
    "safe_add_seconds (retention_anchor entry (Some l) (Some t) (ev_inventory facts)) (retention_seconds entry) \<noteq> None"
  shows "retention_safe policy facts"
  unfolding retention_safe_def using assms
  by (intro exI [of _ matched] exI [of _ entry] exI [of _ l] exI [of _ t] exI [of _ now] exI [of _ state] exI [of _ occurred]) simp

lemma retention_safeE:
  assumes "retention_safe policy facts"
  obtains matched entry l t now state states occurred where
    "match_prefix policy (ev_prefix facts) = Inr matched" "map_of (entries policy) (matched_id matched) = Some entry"
    "evaluated_at facts = utc now" "ev_lease facts = Some l" "ev_terminal facts = Some t"
    "expected_states (durability entry) = Some states" "state \<in> set states"
    "\<not> (durability entry = ''durable_stream'' \<and> lifecycle entry = ''active'')"
    "lease_quiet (lease policy) matched now state occurred l"
    "terminal_approved (lease policy) matched entry now state occurred t"
    "inventory_stable policy now occurred (ev_inventory facts)" "retention_elapsed entry now l t (ev_inventory facts)"
    "safe_add_seconds (retention_anchor entry (Some l) (Some t) (ev_inventory facts)) (retention_seconds entry) \<noteq> None"
  using assms unfolding retention_safe_def by (elim exE conjE) (auto split: option.split_asm)

section \<open>When a check refuses nothing\<close>

lemma codes_if_Nil [simp]: "codes_if b c = [] \<longleftrightarrow> \<not> b"
  by (simp add: codes_if_def)

lemma clock_codes_Nil:
  "clock_codes nv (utc now) tol v = [] \<longleftrightarrow> (\<exists>t. v = utc t \<and> (nv \<longrightarrow> t \<le> now + tol))"
  by (auto simp: clock_codes_def is_future_clock_def is_exact_utc_iff)

lemma is_exact_utcE: "is_exact_utc v \<Longrightarrow> v = utc (utc_secs v)"
  by (auto simp: is_exact_utc_iff)

lemma utc_inject [simp]: "utc s = utc t \<longleftrightarrow> s = t"
  by (simp add: utc_def)

lemma not_true_bool: "is_bool v \<Longrightarrow> v \<noteq> PBool True \<longleftrightarrow> v = PBool False"
  by (cases v) auto

lemma evaluate_inventory_Nil:
  assumes "evaluated_at facts = utc now"
  shows "evaluate_inventory policy facts True iv = [] \<and>
         \<not> (is_exact_utc (newest_last_modified iv) \<and> utc_secs (newest_last_modified iv) > occurred) \<longleftrightarrow>
         inventory_stable policy now occurred iv"
  unfolding evaluate_inventory_def assms
  by (auto simp: clock_codes_Nil inventory_stable_def is_str_iff is_int_iff is_bool_iff not_less)

lemma expected_states_terminal: "expected_states d = Some states \<Longrightarrow> s \<in> set states \<Longrightarrow>
   s \<noteq> ''active'' \<and> s \<in> set [''stopped'', ''completed'', ''retired'']"
  by (auto simp: expected_states_def split: if_splits)

lemma lease_identity:
  "ev_prefix facts = PStr p \<Longrightarrow>
   \<not> (\<not> is_str (lf_checkpoint_id l) \<or> \<not> is_str (lf_prefix l) \<or> lf_checkpoint_id l \<noteq> PStr cid \<or>
      \<not> py_eq (lf_prefix l) (ev_prefix facts)) \<longleftrightarrow> lf_checkpoint_id l = PStr cid \<and> lf_prefix l = PStr p"
  by auto

lemma lease_state_codes:
  assumes "expected_states d = Some states" "X \<noteq> []"
  shows "(if v = PStr ''active'' then X else codes_if (\<not> in_states v [''stopped'', ''completed'', ''retired'']) c) = [] \<and>
      in_states v states \<and> in_states w states \<and> v = w \<longleftrightarrow>
      (\<exists>state \<in> set states. v = PStr state \<and> w = PStr state)"
  using expected_states_terminal [OF assms(1)] assms(2)
  by (cases v; cases w) (simp add: in_states_def codes_if_def; blast)+

lemma lease_clocks_Nil:
  "clock_codes True (utc now) tol acq = [] \<and> clock_codes True (utc now) tol hb = [] \<and> clock_codes True (utc now) tol ex = [] \<and>
   (is_exact_utc acq \<longrightarrow> is_exact_utc hb \<longrightarrow> is_exact_utc ex \<longrightarrow>
      utc_secs acq \<le> utc_secs hb \<and> utc_secs hb \<le> utc_secs ex \<and> utc_secs ex - utc_secs hb = ttl) \<and>
   (is_exact_utc hb \<longrightarrow> utc_secs hb \<le> occurred) \<longleftrightarrow>
   (\<exists>a h. acq = utc a \<and> hb = utc h \<and> ex = utc (h + ttl) \<and> 0 \<le> ttl \<and> a \<le> h \<and> h \<le> occurred \<and>
      a \<le> now + tol \<and> h \<le> now + tol \<and> h + ttl \<le> now + tol)"
  by (auto simp: clock_codes_Nil)

lemma etag_Nil: "\<not> (\<not> is_str v \<or> str_val v = [] \<or> length (str_val v) > 128) \<longleftrightarrow> (\<exists>e. v = PStr e \<and> e \<noteq> [] \<and> length e \<le> 128)"
  by (cases v) auto

lemma flags_Nil:
  "\<not> (\<not> is_bool v \<or> \<not> is_bool w) \<and> v \<noteq> PBool True \<and> w \<noteq> PBool True \<longleftrightarrow> v = PBool False \<and> w = PBool False"
  by (cases v; cases w) auto

lemma evaluate_lease_Nil:
  assumes now: "evaluated_at facts = utc now" and pre: "ev_prefix facts = PStr (matched_prefix matched)"
    and t: "is_exact_utc (tf_occurred_at t)"
  shows "evaluate_lease policy facts matched entry True l (Some t) = Inr [] \<longleftrightarrow>
         (\<exists>state states. expected_states (durability entry) = Some states \<and> state \<in> set states \<and> tf_state t = PStr state \<and>
            lease_quiet (lease policy) matched now state (utc_secs (tf_occurred_at t)) l)"
proof (cases "expected_states (durability entry)")
  case None
  then show ?thesis by (simp add: evaluate_lease_def Let_def)
next
  case (Some states)
  let ?tol = "future_tolerance_seconds (lease policy)"
  have "evaluate_lease policy facts matched entry True l (Some t) = Inr [] \<longleftrightarrow>
     (\<not> (\<not> is_bool (lf_malformed l) \<or> \<not> is_bool (lf_conflicting l)) \<and> lf_malformed l \<noteq> PBool True \<and> lf_conflicting l \<noteq> PBool True) \<and>
     (lf_checkpoint_id l = PStr (matched_id matched) \<and> lf_prefix l = PStr (matched_prefix matched)) \<and>
     \<not> (\<not> is_str (lf_etag l) \<or> str_val (lf_etag l) = [] \<or> length (str_val (lf_etag l)) > 128) \<and>
     (clock_codes True (utc now) ?tol (lf_acquired_at l) = [] \<and> clock_codes True (utc now) ?tol (lf_heartbeat_at l) = [] \<and>
      clock_codes True (utc now) ?tol (lf_expires_at l) = [] \<and>
      (is_exact_utc (lf_acquired_at l) \<longrightarrow> is_exact_utc (lf_heartbeat_at l) \<longrightarrow> is_exact_utc (lf_expires_at l) \<longrightarrow>
         utc_secs (lf_acquired_at l) \<le> utc_secs (lf_heartbeat_at l) \<and> utc_secs (lf_heartbeat_at l) \<le> utc_secs (lf_expires_at l) \<and>
         utc_secs (lf_expires_at l) - utc_secs (lf_heartbeat_at l) = ttl_seconds (lease policy)) \<and>
      (is_exact_utc (lf_heartbeat_at l) \<longrightarrow> utc_secs (lf_heartbeat_at l) \<le> utc_secs (tf_occurred_at t))) \<and>
     ((if lf_state l = PStr ''active'' then [''lease_active'']
       else codes_if (\<not> in_states (lf_state l) [''stopped'', ''completed'', ''retired'']) ''lease_state_invalid'') = [] \<and>
      in_states (lf_state l) states \<and> in_states (tf_state t) states \<and> lf_state l = tf_state t)"
    using t unfolding evaluate_lease_def Let_def Some now pre
    by (auto simp: not_less in_states_def)
  also have "\<dots> \<longleftrightarrow> (\<exists>state. state \<in> set states \<and> tf_state t = PStr state \<and>
            lease_quiet (lease policy) matched now state (utc_secs (tf_occurred_at t)) l)"
    unfolding flags_Nil etag_Nil lease_clocks_Nil lease_state_codes [OF Some list.distinct(2)] lease_quiet_def
    by blast
  finally show ?thesis using Some by simp
qed

lemma retired_codes_Nil:
  assumes "evaluated_at facts = utc now"
  shows "retired_codes policy facts entry t = [] \<longleftrightarrow>
    (\<exists>r ra. tf_retirement_review t = PStr r \<and> retirement_review entry = PStr r \<and> safe_review r \<and>
       retired_at entry = utc ra \<and> ra \<le> now + future_tolerance_seconds (lease policy))"
  unfolding retired_codes_def assms
  by (cases "retirement_review entry"; cases "is_exact_utc (retired_at entry)")
     (auto simp: is_exact_utc_iff is_future_clock_def safe_review_def codes_if_def)

lemma generation_mismatch_iff:
  "\<not> generation_mismatch t matched \<longleftrightarrow> (\<exists>g. tf_generation t = PDict g \<and> py_eq (PDict g) (PDict (generation matched)))"
  by (auto simp: generation_mismatch_def is_dict_iff simp del: py_eq.simps)

lemma evaluate_terminal_Nil:
  assumes now: "evaluated_at facts = utc now"
  shows "evaluate_terminal policy facts entry matched t = [] \<longleftrightarrow>
    (\<exists>state occurred. terminal_approved (lease policy) matched entry now state occurred t)"
proof -
  have "evaluate_terminal policy facts entry matched t = [] \<longleftrightarrow>
     (\<exists>occurred. tf_occurred_at t = utc occurred \<and> occurred \<le> now + future_tolerance_seconds (lease policy)) \<and>
     (\<exists>state. tf_state t = PStr state \<and> state \<in> set (terminal_states entry)) \<and>
     tf_recovery_approved t = PBool True \<and> tf_source_available t = PBool True \<and>
     tf_sink_disposition_approved t = PBool True \<and> is_bool (tf_exclusive_run t) \<and> is_bool (tf_successful t) \<and>
     (durability entry = ''durable_stream'' \<and> lifecycle entry = ''retired'' \<longrightarrow> retired_codes policy facts entry t = []) \<and>
     (durability entry \<in> {''generation_reproducibility'', ''disposable_acceptance''} \<longrightarrow> \<not> generation_mismatch t matched) \<and>
     (durability entry = ''disposable_acceptance'' \<longrightarrow> tf_exclusive_run t = PBool True \<and> tf_successful t = PBool True)"
    unfolding evaluate_terminal_def now
    by (auto simp: clock_codes_Nil in_states_def is_str_iff)
  then show ?thesis
    unfolding retired_codes_Nil [OF now] generation_mismatch_iff terminal_approved_def by blast
qed

lemma retention_anchor_Max:
  "retention_anchor entry l t iv =
     (let vs = anchor_values entry l t iv
      in if list_all is_exact_utc vs then Some (Max (utc_secs ` set vs)) else None)"
proof -
  have "fold max (map utc_secs (tl vs)) (utc_secs (hd vs)) = Max (utc_secs ` set vs)" if "vs \<noteq> []" for vs
  proof -
    have "utc_secs ` set vs = set (utc_secs (hd vs) # map utc_secs (tl vs))" using that by (cases vs) auto
    then show ?thesis by (simp only: Max.set_eq_fold)
  qed
  moreover have "anchor_values entry l t iv \<noteq> []" by (simp add: anchor_values_def)
  ultimately show ?thesis by (simp add: retention_anchor_def Let_def)
qed

lemma retention_elapsed_iff:
  assumes "list_all is_exact_utc (anchor_values entry (Some l) (Some t) iv)"
  shows "retention_elapsed entry now l t iv \<and>
         safe_add_seconds (retention_anchor entry (Some l) (Some t) iv) (retention_seconds entry) \<noteq> None \<longleftrightarrow>
         (\<exists>a. safe_add_seconds (retention_anchor entry (Some l) (Some t) iv) (retention_seconds entry) = Some a \<and> a \<le> now)"
proof -
  let ?vs = "anchor_values entry (Some l) (Some t) iv"
  have "Max (utc_secs ` set ?vs) \<le> now - r \<longleftrightarrow> (\<forall>v\<in>set ?vs. utc_secs v \<le> now - r)" for r
    by (subst Max_le_iff) (auto simp: anchor_values_def)
  then have "retention_elapsed entry now l t iv \<longleftrightarrow> Max (utc_secs ` set ?vs) + retention_seconds entry \<le> now"
    using assms by (simp add: retention_elapsed_def list_all_iff le_diff_eq)
  then show ?thesis
    using assms by (auto simp: retention_anchor_Max safe_add_seconds_def)
qed

lemma anchors_exact:
  assumes "lease_quiet lp matched now state occurred l" "terminal_approved lp matched entry now state' occurred' t"
    and "inventory_stable policy now'' occurred'' iv"
  shows "list_all is_exact_utc (anchor_values entry (Some l) (Some t) iv)"
proof -
  have "is_exact_utc (lf_heartbeat_at l)" using assms(1) unfolding lease_quiet_def by fastforce
  moreover have "is_exact_utc (tf_occurred_at t)"
    "durability entry = ''durable_stream'' \<and> lifecycle entry = ''retired'' \<Longrightarrow> is_exact_utc (retired_at entry)"
    using assms(2) unfolding terminal_approved_def by fastforce+
  moreover have "is_exact_utc (newest_last_modified iv)" using assms(3) unfolding inventory_stable_def by fastforce
  ultimately show ?thesis by (simp add: anchor_values_def)
qed

lemma refusals_complete_Nil:
  assumes "evaluated_at facts = utc now" "ev_lease facts = Some l" "ev_terminal facts = Some t"
  shows "refusals policy facts matched entry = Inr [] \<longleftrightarrow>
    evaluate_lease policy facts matched entry True l (Some t) = Inr [] \<and>
    evaluate_inventory policy facts True (ev_inventory facts) = [] \<and>
    evaluate_terminal policy facts entry matched t = [] \<and>
    \<not> (is_exact_utc (tf_occurred_at t) \<and> is_exact_utc (newest_last_modified (ev_inventory facts)) \<and>
       utc_secs (newest_last_modified (ev_inventory facts)) > utc_secs (tf_occurred_at t)) \<and>
    \<not> (retention_anchor entry (Some l) (Some t) (ev_inventory facts) \<noteq> None \<and>
       safe_add_seconds (retention_anchor entry (Some l) (Some t) (ev_inventory facts)) (retention_seconds entry) = None) \<and>
    \<not> (durability entry = ''durable_stream'' \<and> lifecycle entry = ''active'') \<and>
    (case safe_add_seconds (retention_anchor entry (Some l) (Some t) (ev_inventory facts)) (retention_seconds entry) of
       None \<Rightarrow> True | Some a \<Rightarrow> a \<le> now)"
  unfolding refusals_def Let_def assms
  by (auto simp: bindE_eq_Inr not_less split: option.splits)

lemma refusals_Nil:
  assumes matched: "match_prefix policy (ev_prefix facts) = Inr matched" "ev_prefix facts = PStr (matched_prefix matched)"
    "map_of (entries policy) (matched_id matched) = Some entry"
    and f: "evaluated_at facts = utc now" "ev_lease facts = Some l" "ev_terminal facts = Some t"
  shows "refusals policy facts matched entry = Inr [] \<longleftrightarrow> retention_safe policy facts"
proof
  assume "refusals policy facts matched entry = Inr []"
  note r = this [unfolded refusals_complete_Nil [OF f]]
  obtain state occurred where t: "terminal_approved (lease policy) matched entry now state occurred t"
    using r evaluate_terminal_Nil [OF f(1)] by blast
  then have occ: "tf_occurred_at t = utc occurred" "tf_state t = PStr state" by (simp_all add: terminal_approved_def)
  have "evaluate_inventory policy facts True (ev_inventory facts) = [] \<and>
    \<not> (is_exact_utc (newest_last_modified (ev_inventory facts)) \<and> utc_secs (newest_last_modified (ev_inventory facts)) > occurred)"
    using r occ by simp
  then have i: "inventory_stable policy now occurred (ev_inventory facts)"
    unfolding evaluate_inventory_Nil [OF f(1)] .
  have le: "evaluate_lease policy facts matched entry True l (Some t) = Inr []" using r by blast
  obtain states where l: "expected_states (durability entry) = Some states" "state \<in> set states"
      "lease_quiet (lease policy) matched now state occurred l"
    using le evaluate_lease_Nil [OF f(1) matched(2), of t policy entry l] occ by auto
  note ex = anchors_exact [OF l(3) t i]
  have "retention_anchor entry (Some l) (Some t) (ev_inventory facts) \<noteq> None"
    using ex by (simp add: retention_anchor_def Let_def)
  then obtain a where "safe_add_seconds (retention_anchor entry (Some l) (Some t) (ev_inventory facts)) (retention_seconds entry) = Some a" "a \<le> now"
    using r by (auto split: option.split_asm)
  then have el: "retention_elapsed entry now l t (ev_inventory facts)"
      "safe_add_seconds (retention_anchor entry (Some l) (Some t) (ev_inventory facts)) (retention_seconds entry) \<noteq> None"
    using retention_elapsed_iff [OF ex] by blast+
  show "retention_safe policy facts"
    unfolding retention_safe_def using matched f l t i el r by fastforce
next
  assume "retention_safe policy facts"
  then obtain state occurred states where
    l: "expected_states (durability entry) = Some states" "state \<in> set states"
      "lease_quiet (lease policy) matched now state occurred l"
    and d: "\<not> (durability entry = ''durable_stream'' \<and> lifecycle entry = ''active'')"
    and t: "terminal_approved (lease policy) matched entry now state occurred t"
    and i: "inventory_stable policy now occurred (ev_inventory facts)"
    and el: "retention_elapsed entry now l t (ev_inventory facts)"
      "safe_add_seconds (retention_anchor entry (Some l) (Some t) (ev_inventory facts)) (retention_seconds entry) \<noteq> None"
    unfolding retention_safe_def using matched f by (auto split: option.split_asm)
  have occ: "tf_occurred_at t = utc occurred" "tf_state t = PStr state" using t by (simp_all add: terminal_approved_def)
  have "evaluate_lease policy facts matched entry True l (Some t) = Inr []"
    using evaluate_lease_Nil [OF f(1) matched(2), of t policy entry l] l occ by simp
  moreover have "evaluate_terminal policy facts entry matched t = []"
    using t evaluate_terminal_Nil [OF f(1)] by blast
  moreover note evaluate_inventory_Nil [OF f(1), THEN iffD2, OF i]
  moreover obtain a where "safe_add_seconds (retention_anchor entry (Some l) (Some t) (ev_inventory facts)) (retention_seconds entry) = Some a" "a \<le> now"
    using el retention_elapsed_iff [OF anchors_exact [OF l(3) t i]] by blast
  ultimately show "refusals policy facts matched entry = Inr []"
    unfolding refusals_complete_Nil [OF f] using d occ by simp
qed

lemma match_entries_exact: "match_entries es s = Inr m \<Longrightarrow> matched_prefix m = s"
  by (induction es s rule: match_entries.induct) (auto split: if_splits option.split_asm prod.split_asm)

lemma match_prefix_exact: "match_prefix p v = Inr m \<Longrightarrow> v = PStr (matched_prefix m)"
  by (auto simp: match_prefix_def inr_iffs validate_concrete_prefix_def match_entries_exact)

lemma evaluate_retention_Inr:
  assumes "evaluate_retention policy facts = Inr d"
  obtains matched entry raw where
    "match_prefix policy (ev_prefix facts) = Inr matched"
    "map_of (entries policy) (matched_id matched) = Some entry"
    "refusals policy facts matched entry = Inr raw" "refusal_codes d = remdups_first raw"
    "eligible d = (refusal_codes d = [])"
    "retention_anchor_at d = retention_anchor entry (ev_lease facts) (ev_terminal facts) (ev_inventory facts)"
    "eligible_after d = safe_add_seconds (retention_anchor_at d) (retention_seconds entry)"
    "ints_ok (plan_payload policy facts matched entry (refusal_codes d))"
    "plan_json d = dumps (plan_payload policy facts matched entry (refusal_codes d))"
    "plan_sha256 d = sha256 (plan_json d)" "int (length (plan_json d)) \<le> max_summary_bytes (bounds policy)"
proof -
  from assms obtain matched entry raw json where
    m: "match_prefix policy (ev_prefix facts) = Inr matched" "map_of (entries policy) (matched_id matched) = Some entry"
      "refusals policy facts matched entry = Inr raw"
    and j: "dumps_res (plan_payload policy facts matched entry (remdups_first raw)) = Inr json"
      "int (length json) \<le> max_summary_bytes (bounds policy)"
    and d: "d = \<lparr>eligible = (remdups_first raw = []), refusal_codes = remdups_first raw,
              retention_anchor_at = retention_anchor entry (ev_lease facts) (ev_terminal facts) (ev_inventory facts),
              eligible_after = safe_add_seconds (retention_anchor entry (ev_lease facts) (ev_terminal facts) (ev_inventory facts))
                (retention_seconds entry),
              dec_policy_sha256 = policy_sha256 policy, plan_json = json, plan_sha256 = sha256 json\<rparr>"
    unfolding evaluate_retention_def Let_def
    by (simp only: inr_iffs not_less sum.inject) blast
  from j(1) have "ints_ok (plan_payload policy facts matched entry (remdups_first raw))"
    "json = dumps (plan_payload policy facts matched entry (remdups_first raw))"
    by (simp_all add: dumps_res_def split: if_splits)
  with that [OF m] j d show thesis by simp
qed

lemma refusals_Nil_iff:
  assumes m: "match_prefix policy (ev_prefix facts) = Inr matched" "ev_prefix facts = PStr (matched_prefix matched)"
    "map_of (entries policy) (matched_id matched) = Some entry"
  shows "refusals policy facts matched entry = Inr [] \<longleftrightarrow> retention_safe policy facts"
proof (cases "is_exact_utc (evaluated_at facts) \<and> ev_lease facts \<noteq> None \<and> ev_terminal facts \<noteq> None")
  case False
  then have "refusals policy facts matched entry \<noteq> Inr []"
    by (auto simp: refusals_def Let_def inr_iffs split: option.split_asm)
  moreover have "\<not> retention_safe policy facts" using False by (auto elim!: retention_safeE)
  ultimately show ?thesis by simp
next
  case True
  then show ?thesis using refusals_Nil [OF m] by (auto simp: is_exact_utc_iff)
qed

lemma evaluate_retention_safe:
  "evaluate_retention policy facts = Inr d \<Longrightarrow> eligible d \<longleftrightarrow> retention_safe policy facts"
  by (erule evaluate_retention_Inr) (simp flip: refusals_Nil_iff [OF _ match_prefix_exact])

lemma retention_safe_mono:
  assumes "retention_safe policy facts" "evaluated_at facts = utc now" "now \<le> later"
  shows "retention_safe policy (facts\<lparr>evaluated_at := utc later\<rparr>)"
  using assms(1)
proof (rule retention_safeE)
  fix matched entry l t now' state states occurred
  assume a: "match_prefix policy (ev_prefix facts) = Inr matched" "map_of (entries policy) (matched_id matched) = Some entry"
    "evaluated_at facts = utc now'" "ev_lease facts = Some l" "ev_terminal facts = Some t"
    "expected_states (durability entry) = Some states" "state \<in> set states"
    "\<not> (durability entry = ''durable_stream'' \<and> lifecycle entry = ''active'')"
    and b: "lease_quiet (lease policy) matched now' state occurred l"
      "terminal_approved (lease policy) matched entry now' state occurred t"
      "inventory_stable policy now' occurred (ev_inventory facts)" "retention_elapsed entry now' l t (ev_inventory facts)"
    and c: "safe_add_seconds (retention_anchor entry (Some l) (Some t) (ev_inventory facts)) (retention_seconds entry) \<noteq> None"
  have n: "now' \<le> later" using a(3) assms(2,3) by simp
  have "lease_quiet (lease policy) matched later state occurred l" using b(1) n unfolding lease_quiet_def by fastforce
  moreover have "terminal_approved (lease policy) matched entry later state occurred t"
    using b(2) n unfolding terminal_approved_def by fastforce
  moreover have "inventory_stable policy later occurred (ev_inventory facts)"
    using b(3) n unfolding inventory_stable_def by fastforce
  moreover have "retention_elapsed entry later l t (ev_inventory facts)"
    using b(4) n unfolding retention_elapsed_def by (auto simp: list_all_iff)
  ultimately show ?thesis
    using a c by (intro retention_safeI [of policy _ matched entry later l t states state occurred]) simp_all
qed

section \<open>The vocabulary of refusals\<close>

definition known_refusal :: "string \<Rightarrow> bool" where
  "known_refusal c \<longleftrightarrow> c \<in> set metric_refusals"

lemma known_refusal_table:
  "list_all known_refusal
     [''invalid_fact_type'', ''lease_malformed'', ''lease_conflicting'', ''lease_identity_mismatch'', ''lease_etag_invalid'',
      ''invalid_utc_timestamp'', ''future_clock'', ''lease_clock_invalid'', ''lease_active'', ''lease_expired_active_uncertain'',
      ''lease_state_invalid'', ''invalid_lease_terminal_state'', ''lease_terminal_clock_conflict'', ''inventory_invalid'',
      ''inventory_changed'', ''partial_retry_broadened'', ''retirement_review_missing'', ''retirement_clock_missing'',
      ''registry_retirement_review_missing'', ''registry_retirement_review_invalid'', ''retirement_review_mismatch'',
      ''invalid_terminal_state'', ''recovery_not_approved'', ''source_unavailable'', ''sink_disposition_not_approved'',
      ''generation_identity_mismatch'', ''exclusive_run_required'', ''successful_run_required'', ''lease_missing'',
      ''terminal_missing'', ''object_after_terminal'', ''clock_overflow'', ''registry_active_durable'', ''retention_quarantine'']"
  by code_simp

lemmas known_refusals [simp] = known_refusal_table [unfolded list.pred_inject]

lemma codes_if_known [simp]: "known_refusal c \<Longrightarrow> list_all known_refusal (codes_if b c)"
  by (simp add: codes_if_def)

lemma clock_codes_known [simp]: "list_all known_refusal (clock_codes nv now tol v)"
  by (simp add: clock_codes_def)

lemma refusals_known: "refusals policy facts matched entry = Inr codes \<Longrightarrow> list_all known_refusal codes"
  by (auto simp: refusals_def Let_def inr_iffs evaluate_lease_def evaluate_inventory_def evaluate_terminal_def retired_codes_def
           split: option.split_asm)

section \<open>The plan text\<close>

definition count_in_range :: "pyval \<Rightarrow> bool" where
  \<comment> \<open>an integer short enough to be printed\<close>
  "count_in_range v \<longleftrightarrow> (case v of PInt i \<Rightarrow> int_ok i | _ \<Rightarrow> True)"

definition facts_in_range :: "evaluation_input \<Rightarrow> bool" where
  "facts_in_range facts \<longleftrightarrow>
     datetime_in_range (evaluated_at facts) \<and> datetime_in_range (newest_last_modified (ev_inventory facts)) \<and>
     (case ev_lease facts of None \<Rightarrow> True | Some l \<Rightarrow> datetime_in_range (lf_heartbeat_at l)) \<and>
     (case ev_terminal facts of None \<Rightarrow> True | Some t \<Rightarrow> datetime_in_range (tf_occurred_at t)) \<and>
     count_in_range (object_count (ev_inventory facts)) \<and> count_in_range (total_bytes (ev_inventory facts))"

lemma json_len_stamp: "datetime_in_range v \<Longrightarrow> json_len (format_utc_or_none v) \<le> 122"
  using length_json_string [of "format_utc (utc_secs v)"] length_format_utc [of "utc_secs v"]
  by (cases v) (auto simp: format_utc_or_none_def datetime_in_range_def)

lemma safe_add_in_range: "datetime_in_range (opt_utc (safe_add_seconds a n))"
  by (auto simp: safe_add_seconds_def opt_utc_def datetime_in_range_def utc_def split: option.split)

lemma json_len_PStr: "json_len (PStr s) \<le> 6 * length s + 2"
  using length_json_string [of s] by simp

lemma json_len_int: "int_ok i \<Longrightarrow> json_len (PInt i) \<le> 4301"
  using length_dec_int [of i] by (simp add: max_int_digits_def)

lemma known_refusal_short: "known_refusal c \<Longrightarrow> length c \<le> 40"
proof -
  have "list_all (\<lambda>c. length c \<le> 40) metric_refusals" by code_simp
  then show "known_refusal c \<Longrightarrow> length c \<le> 40" by (simp add: known_refusal_def list_all_iff)
qed

lemma json_len_codes:
  assumes "list_all known_refusal codes" "distinct codes"
  shows "json_len (PList (map PStr codes)) \<le> 11000"
proof -
  have "set codes \<subseteq> set metric_refusals" using assms(1) by (auto simp: list_all_iff known_refusal_def)
  then have "length codes \<le> card (set metric_refusals)"
    using assms(2) by (metis List.finite_set card_mono distinct_card)
  also have "\<dots> \<le> 42" by (rule order_trans [OF card_length]) (simp add: metric_refusals_def)
  finally have n: "length codes \<le> 42" .
  have "json_len_elems (map PStr codes) \<le> 242 * length codes"
    using assms(1)
  proof (induction codes)
    case (Cons c codes)
    then show ?case using json_len_PStr [of c] known_refusal_short [of c] by simp
  qed simp
  then show ?thesis using n by simp
qed

lemma plan_payload_json_ok:
  "ints_ok (plan_payload policy facts matched entry codes) \<Longrightarrow> json_ok (plan_payload policy facts matched entry codes)"
  by (auto simp: plan_payload_def Let_def format_utc_or_none_def is_int_iff is_str_iff list_all_iff)

lemma anchor_in_range:
  assumes "facts_in_range facts" "datetime_in_range (retired_at entry)"
  shows "datetime_in_range (opt_utc (retention_anchor entry (ev_lease facts) (ev_terminal facts) (ev_inventory facts)))"
proof -
  let ?vs = "anchor_values entry (ev_lease facts) (ev_terminal facts) (ev_inventory facts)"
  have vs: "list_all datetime_in_range ?vs"
    using assms by (auto simp: facts_in_range_def anchor_values_def split: option.splits)
  have "0 \<le> Max (utc_secs ` set ?vs) \<and> Max (utc_secs ` set ?vs) < max_secs" if "list_all is_exact_utc ?vs"
  proof -
    have "Max (utc_secs ` set ?vs) \<in> utc_secs ` set ?vs" by (rule Max_in) (simp, simp add: anchor_values_def)
    then obtain v where v: "v \<in> set ?vs" "Max (utc_secs ` set ?vs) = utc_secs v" by auto
    with vs that have "datetime_in_range v" "is_exact_utc v" by (simp_all add: list_all_iff)
    then show ?thesis unfolding v(2) by (auto simp: is_exact_utc_iff)
  qed
  then show ?thesis by (auto simp: retention_anchor_Max Let_def opt_utc_def datetime_in_range_def utc_def)
qed

lemma plan_payload_len:
  assumes "facts_in_range facts" "datetime_in_range (retired_at entry)" "length (matched_id matched) \<le> 40"
    "length (matched_prefix matched) \<le> 120" "list_all known_refusal codes" "distinct codes"
  shows "json_len (plan_payload policy facts matched entry codes) \<le> 65536"
    "ints_ok (plan_payload policy facts matched entry codes)"
proof -
  let ?iv = "ev_inventory facts"
  let ?a = "retention_anchor entry (ev_lease facts) (ev_terminal facts) ?iv"
  have cnt: "json_len (if is_int v then v else PNone) \<le> 4301" if "count_in_range v" for v
    using that json_len_int by (cases v) (auto simp: count_in_range_def)
  have sha: "json_len (if is_str v \<and> sha256_pattern (str_val v) then v else PNone) \<le> 386" for v
    using json_len_PStr [of "str_val v"] by (cases v) (auto simp: sha256_pattern_def match_hex_classes)
  have stamps: "datetime_in_range (evaluated_at facts)" "datetime_in_range (newest_last_modified ?iv)"
    "count_in_range (object_count ?iv)" "count_in_range (total_bytes ?iv)"
    using assms(1) by (simp_all add: facts_in_range_def)
  note parts = json_len_PStr [of "matched_id matched"] json_len_PStr [of "matched_prefix matched"]
    json_len_PStr [of "policy_sha256 policy"] json_len_codes [OF assms(5,6)]
    json_len_stamp [OF stamps(1)] json_len_stamp [OF stamps(2)] json_len_stamp [OF anchor_in_range [OF assms(1,2)]]
    json_len_stamp [OF safe_add_in_range [of ?a "retention_seconds entry"]]
    cnt [OF stamps(3)] cnt [OF stamps(4)] sha [of "inv_sha256 ?iv"]
  have keys: "length (json_string k) \<le> 200" if "length k \<le> 30" for k using length_json_string [of k] that by simp
  show "json_len (plan_payload policy facts matched entry codes) \<le> 65536"
    using parts assms(3,4) unfolding plan_payload_def Let_def sdict_simps json_len.simps json_len_members.simps
    by (simp add: policy_sha256_def json_string_def json_escape_def del: json_len.simps(1-3))
  show "ints_ok (plan_payload policy facts matched entry codes)"
    using stamps(3,4)
    by (auto simp: plan_payload_def Let_def format_utc_or_none_def count_in_range_def list_all_iff is_int_iff is_str_iff)
qed

lemma match_entries_owner: "match_entries es s = Inr m \<Longrightarrow> \<exists>x\<in>set es. matched_id m = checkpoint_id (snd x)"
  by (induction es s rule: match_entries.induct) (auto split: if_splits option.split_asm prod.split_asm)

lemma registry_entry:
  assumes "registry_ok p" "match_prefix p v = Inr m"
  obtains e where "map_of (entries p) (matched_id m) = Some e" "checkpoint_id e = matched_id m"
    "(matched_id m, entry_prefix e, durability e, scales e) \<in> set registry_layout" "datetime_in_range (retired_at e)"
proof -
  have l2: "list_all2 (\<lambda>x (k, e). k = checkpoint_id e \<and> entry_ok x e) expected_entries (entries p)"
    using assms(1) by (simp add: registry_ok_def)
  obtain k e where e: "(k, e) \<in> set (entries p)" "matched_id m = checkpoint_id e"
    using assms(2) match_entries_owner by (fastforce simp: match_prefix_def inr_iffs)
  then obtain x where x: "k = checkpoint_id e" "entry_ok x e"
    using l2 by (metis (mono_tags, lifting) in_set_conv_nth list_all2_conv_all_nth case_prod_conv)
  have "distinct (map fst (entries p))"
    unfolding registry_ok_layout(2) [OF assms(1)] by code_simp
  then have "map_of (entries p) (matched_id m) = Some e" using e x by simp
  moreover have "(matched_id m, entry_prefix e, durability e, scales e) \<in> set registry_layout"
    unfolding registry_ok_layout(1) [OF assms(1), symmetric] using e by force
  moreover have "datetime_in_range (retired_at e)"
    using x(2) by (auto simp: entry_ok_def retirement_ok_def datetime_in_range_def split: if_splits)
  ultimately show thesis using that e x by simp
qed

lemma layout_bounds:
  assumes "(cid, pre, dur, scs) \<in> set registry_layout"
  shows "length cid \<le> 40" "\<exists>states. expected_states dur = Some states"
proof -
  have "list_all (\<lambda>(cid, _, dur, _). length cid \<le> 40 \<and> expected_states dur \<noteq> None) registry_layout" by code_simp
  then show "length cid \<le> 40" "\<exists>states. expected_states dur = Some states" using assms by (auto simp: list_all_iff)
qed

lemma families_short: "f \<in> set families \<Longrightarrow> in_family s f \<Longrightarrow> length s \<le> 120"
  by (auto simp: families_def in_family_def)

lemma evaluate_retention_returns:
  assumes ok: "registry_ok p" and m: "match_prefix p (ev_prefix facts) = Inr matched" and range: "facts_in_range facts"
  shows "\<exists>d. evaluate_retention p facts = Inr d"
proof -
  obtain e where e: "map_of (entries p) (matched_id matched) = Some e"
    "(matched_id matched, entry_prefix e, durability e, scales e) \<in> set registry_layout" "datetime_in_range (retired_at e)"
    using registry_entry [OF ok m] by metis
  obtain states where "expected_states (durability e) = Some states" using layout_bounds(2) [OF e(2)] by blast
  then obtain raw where raw: "refusals p facts matched e = Inr raw"
    by (cases "ev_lease facts") (auto simp: refusals_def Let_def evaluate_lease_def)
  have codes: "list_all known_refusal (remdups_first raw)" "distinct (remdups_first raw)"
    using refusals_known [OF raw] by (simp_all add: list_all_iff)
  have len: "length (matched_prefix matched) \<le> 120"
    using match_prefix_family(2) [OF ok m] families_short by blast
  note pl = plan_payload_len [OF range e(3) layout_bounds(1) [OF e(2)] len codes]
  have "max_summary_bytes (bounds p) = 65536" using ok by (simp add: registry_ok_def)
  then show ?thesis
    using pl [of p] by (simp add: evaluate_retention_def m e(1) raw Let_def dumps_res_def length_dumps not_less)
qed

section \<open>A run of the acceptance test\<close>

definition sample_prefix :: string where
  "sample_prefix = ''streaming_test/0a1b2c3d-0000-4000-8000-0123456789ab/''"

definition sample_run :: pydict where
  "sample_run = sdict [(''run_uuid'', PStr ''0a1b2c3d-0000-4000-8000-0123456789ab'')]"

definition sample_lease :: lease_facts where
  "sample_lease =
     \<lparr>lf_checkpoint_id = PStr ''go-live-streaming-test-v1'', lf_prefix = PStr sample_prefix, lf_state = PStr ''stopped'',
      lf_acquired_at = utc 63900000000, lf_heartbeat_at = utc 63900000060, lf_expires_at = utc 63900000660,
      lf_etag = PStr ''etag'', lf_conflicting = PBool False, lf_malformed = PBool False\<rparr>"

definition sample_terminal :: terminal_facts where
  "sample_terminal =
     \<lparr>tf_state = PStr ''stopped'', tf_occurred_at = utc 63900000120, tf_recovery_approved = PBool True,
      tf_source_available = PBool True, tf_sink_disposition_approved = PBool True, tf_retirement_review = PNone,
      tf_generation = PDict sample_run, tf_exclusive_run = PBool True, tf_successful = PBool True\<rparr>"

definition sample_facts :: "int \<Rightarrow> evaluation_input" where
  "sample_facts now =
     \<lparr>ev_prefix = PStr sample_prefix, evaluated_at = utc now, ev_lease = Some sample_lease, ev_terminal = Some sample_terminal,
      ev_inventory = \<lparr>object_count = PInt 3, total_bytes = PInt 120, newest_last_modified = utc 63900000090,
        inv_sha256 = PStr (sha256 []), changed_since_plan = PBool False, partial_retry_confined = PBool True\<rparr>\<rparr>"

lemma sample_match:
  "match_prefix shipped_policy (PStr sample_prefix) =
   Inr \<lparr>matched_id = ''go-live-streaming-test-v1'', matched_prefix = sample_prefix, generation = sample_run\<rparr>"
  by code_simp

lemma sample_entry: "map_of (entries shipped_policy) ''go-live-streaming-test-v1'' = Some shipped_scratch"
  by code_simp

lemma sample_in_range: "0 \<le> now \<Longrightarrow> now < max_secs \<Longrightarrow> facts_in_range (sample_facts now)"
  by (simp add: facts_in_range_def sample_facts_def sample_lease_def sample_terminal_def count_in_range_def int_ok_def
      max_secs_def dec_nat.simps max_int_digits_def)

lemma sample_returns:
  assumes "0 \<le> now" "now < max_secs"
  obtains d where "evaluate_retention shipped_policy (sample_facts now) = Inr d"
proof -
  have "match_prefix shipped_policy (ev_prefix (sample_facts now)) =
      Inr \<lparr>matched_id = ''go-live-streaming-test-v1'', matched_prefix = sample_prefix, generation = sample_run\<rparr>"
    by (simp add: sample_facts_def sample_match)
  from evaluate_retention_returns [OF shipped_registry_ok this sample_in_range [OF assms]] show thesis using that by blast
qed

lemma sample_safe:
  assumes "63900086520 \<le> now"
  shows "retention_safe shipped_policy (sample_facts now)"
proof -
  have m: "match_prefix shipped_policy (ev_prefix (sample_facts now)) =
      Inr \<lparr>matched_id = ''go-live-streaming-test-v1'', matched_prefix = sample_prefix, generation = sample_run\<rparr>"
    by (simp add: sample_facts_def sample_match)
  have tol: "lease shipped_policy = \<lparr>heartbeat_seconds = 60, ttl_seconds = 600, future_tolerance_seconds = 300, quiescence_seconds = 900\<rparr>"
    and bnd: "max_objects (bounds shipped_policy) = 100000" "max_bytes (bounds shipped_policy) = 10737418240"
    by (simp_all add: shipped_policy_def)
  have st: "expected_states (durability shipped_scratch) = Some [''stopped'']" by code_simp
  have dur: "durability shipped_scratch = ''disposable_acceptance''" "retention_seconds shipped_scratch = 86400"
    "''stopped'' \<in> set (terminal_states shipped_scratch)"
    by (simp_all add: shipped_scratch_def)
  have gen: "py_eq (PDict sample_run) (PDict sample_run)" by (simp add: sample_run_def)
  have "sha256_pattern (sha256 [])" by (simp add: sha256_pattern_def match_hex_classes)
  then have i: "inventory_stable shipped_policy now 63900000120 (ev_inventory (sample_facts now))"
    using assms by (simp add: inventory_stable_def sample_facts_def bnd tol)
  have l: "lease_quiet (lease shipped_policy)
      \<lparr>matched_id = ''go-live-streaming-test-v1'', matched_prefix = sample_prefix, generation = sample_run\<rparr> now ''stopped'' 63900000120 sample_lease"
    using assms by (simp add: lease_quiet_def sample_lease_def tol)
  have t: "terminal_approved (lease shipped_policy)
      \<lparr>matched_id = ''go-live-streaming-test-v1'', matched_prefix = sample_prefix, generation = sample_run\<rparr>
      shipped_scratch now ''stopped'' 63900000120 sample_terminal"
    using assms gen by (simp add: terminal_approved_def sample_terminal_def tol dur del: py_eq.simps)
  have "anchor_values shipped_scratch (Some sample_lease) (Some sample_terminal) (ev_inventory (sample_facts now)) =
      [utc 63900000090, utc 63900000060, utc 63900000120]"
    by (simp add: anchor_values_def sample_facts_def sample_lease_def sample_terminal_def dur)
  then have e: "retention_elapsed shipped_scratch now sample_lease sample_terminal (ev_inventory (sample_facts now))"
    "safe_add_seconds (retention_anchor shipped_scratch (Some sample_lease) (Some sample_terminal) (ev_inventory (sample_facts now)))
       (retention_seconds shipped_scratch) \<noteq> None"
    using assms by (simp_all add: retention_elapsed_def retention_anchor_def safe_add_seconds_def max_secs_def dur)
  show ?thesis
    by (rule retention_safeI [OF m _ _ _ _ st _ _ l t i e]) (simp_all add: sample_entry sample_facts_def dur)
qed

section \<open>Properties of the evaluator\<close>

text \<open>C1. \<open>evaluate_retention\<close> decides exactly the specification of a safe deletion: it finds a
  prefix eligible if and only if the prefix is owned, the entry is not an active durable stream, the
  lease is well formed, expired and in the terminal state of the terminal record, the terminal record
  approves the deletion, the inventory is within bounds, unchanged and older than the terminal event,
  and the retention period has elapsed since every recorded clock.\<close>

theorem evaluate_retention_decides:
  assumes "evaluate_retention policy facts = Inr d"
  shows "eligible d \<longleftrightarrow> retention_safe policy facts"
  using assms by (rule evaluate_retention_safe)

theorem evaluate_retention_decides_witness:
  "\<exists>d. evaluate_retention shipped_policy (sample_facts 63900090000) = Inr d \<and> eligible d"
proof -
  obtain d where "evaluate_retention shipped_policy (sample_facts 63900090000) = Inr d"
    by (rule sample_returns [of 63900090000]) (simp_all add: max_secs_def)
  then show ?thesis using evaluate_retention_decides sample_safe [of 63900090000] by fastforce
qed

text \<open>Eligibility is stable: with the same facts, a prefix eligible at one evaluation time is
  eligible at every later one, so that a decision does not depend on when in the quarantine window
  after eligibility it is taken.\<close>

theorem eligibility_stable:
  assumes "evaluate_retention policy facts = Inr d" "eligible d" "evaluated_at facts = utc now" "now \<le> later"
    and "evaluate_retention policy (facts\<lparr>evaluated_at := utc later\<rparr>) = Inr d'"
  shows "eligible d'"
proof -
  have "retention_safe policy facts" using evaluate_retention_safe assms(1,2) by blast
  then have "retention_safe policy (facts\<lparr>evaluated_at := utc later\<rparr>)" by (rule retention_safe_mono [OF _ assms(3,4)])
  then show ?thesis using evaluate_retention_safe assms(5) by blast
qed

theorem eligibility_stable_witness:
  "\<exists>d. evaluate_retention shipped_policy (sample_facts 63900190000) = Inr d \<and> eligible d"
proof -
  obtain d where d: "evaluate_retention shipped_policy (sample_facts 63900090000) = Inr d"
    by (rule sample_returns [of 63900090000]) (simp_all add: max_secs_def)
  obtain d' where d': "evaluate_retention shipped_policy (sample_facts 63900190000) = Inr d'"
    by (rule sample_returns [of 63900190000]) (simp_all add: max_secs_def)
  have f: "(sample_facts 63900090000)\<lparr>evaluated_at := utc 63900190000\<rparr> = sample_facts 63900190000"
    "evaluated_at (sample_facts 63900090000) = utc 63900090000"
    by (simp_all add: sample_facts_def)
  have "eligible d" using evaluate_retention_safe [OF d] sample_safe [of 63900090000] by simp
  from eligibility_stable [OF d this f(2) _ d' [folded f(1)]] d' show ?thesis by simp
qed

text \<open>C23. The evaluator is total on a parsed registry: for an owned prefix, time stamps in the range of
  \<^verbatim>\<open>datetime\<close> and printable counts it returns a decision; neither the bound on the plan text nor a
  missing state table can make it raise.\<close>

theorem evaluate_retention_total:
  assumes "parse_policy yaml text = Inr p" "match_prefix p (ev_prefix facts) = Inr matched" "facts_in_range facts"
  shows "\<exists>d. evaluate_retention p facts = Inr d"
  using evaluate_retention_returns [OF parsed_registry_ok [OF assms(1)] assms(2,3)] .

theorem evaluate_retention_total_witness:
  "\<exists>d. evaluate_retention shipped_policy (sample_facts 0) = Inr d"
proof -
  have "match_prefix shipped_policy (ev_prefix (sample_facts 0)) =
      Inr \<lparr>matched_id = ''go-live-streaming-test-v1'', matched_prefix = sample_prefix, generation = sample_run\<rparr>"
    by (simp add: sample_facts_def sample_match)
  moreover have "facts_in_range (sample_facts 0)" by (rule sample_in_range) (simp_all add: max_secs_def)
  ultimately show ?thesis by (rule evaluate_retention_total [OF shipped_policy_parses])
qed

text \<open>The refusal codes of a decision are pairwise distinct and all belong to the label table of the
  metrics, and the decision is \<open>eligible\<close> exactly when there is none.\<close>

theorem refusal_codes_closed:
  assumes "evaluate_retention policy facts = Inr d"
  shows "distinct (refusal_codes d) \<and> set (refusal_codes d) \<subseteq> set metric_refusals \<and> (eligible d \<longleftrightarrow> refusal_codes d = [])"
proof -
  obtain matched entry raw where "refusals policy facts matched entry = Inr raw" "refusal_codes d = remdups_first raw"
    "eligible d = (refusal_codes d = [])"
    using evaluate_retention_Inr [OF assms] by metis
  with refusals_known show ?thesis by (auto simp: list_all_iff known_refusal_def)
qed

theorem refusal_codes_closed_witness:
  "\<exists>d. evaluate_retention shipped_policy (sample_facts 0) = Inr d \<and> set (refusal_codes d) \<subseteq> set metric_refusals"
proof -
  obtain d where d: "evaluate_retention shipped_policy (sample_facts 0) = Inr d"
    by (rule sample_returns [of 0]) (simp_all add: max_secs_def)
  with refusal_codes_closed [OF d] show ?thesis by blast
qed

text \<open>The plan text is canonical JSON within the summary bound that reads back as the plan object,
  and its digest is the digest of that text: the plan's decision field says \<open>eligible\<close> exactly
  when the decision does.\<close>

theorem plan_json_roundtrip:
  assumes "evaluate_retention policy facts = Inr d"
  shows "int (length (plan_json d)) \<le> max_summary_bytes (bounds policy) \<and> plan_sha256 d = sha256 (plan_json d) \<and>
    (\<exists>plan. plain_loads (plan_json d) = Inr (sort_keys (PDict plan)) \<and>
       dget plan ''decision'' = Some (PStr (if eligible d then ''eligible'' else ''refused'')) \<and>
       dget plan ''prefix'' = Some (ev_prefix facts) \<and>
       dget plan ''refusal_codes'' = Some (PList (map PStr (refusal_codes d))))"
proof -
  obtain matched entry where m: "match_prefix policy (ev_prefix facts) = Inr matched" "eligible d = (refusal_codes d = [])"
    and p: "ints_ok (plan_payload policy facts matched entry (refusal_codes d))"
      "plan_json d = dumps (plan_payload policy facts matched entry (refusal_codes d))"
      "plan_sha256 d = sha256 (plan_json d)" "int (length (plan_json d)) \<le> max_summary_bytes (bounds policy)"
    using evaluate_retention_Inr [OF assms] by metis
  obtain plan where plan: "plan_payload policy facts matched entry (refusal_codes d) = PDict plan"
    by (simp add: plan_payload_def Let_def)
  have "plain_loads (plan_json d) = Inr (sort_keys (PDict plan))"
    using plain_loads_dumps [OF plan_payload_json_ok [OF p(1)]] p(2) plan by simp
  moreover have "dget plan ''decision'' = Some (PStr (if eligible d then ''eligible'' else ''refused''))"
    "dget plan ''prefix'' = Some (ev_prefix facts)" "dget plan ''refusal_codes'' = Some (PList (map PStr (refusal_codes d)))"
    using plan m match_prefix_exact [OF m(1)] by (auto simp: plan_payload_def Let_def)
  ultimately show ?thesis using p by blast
qed

theorem plan_json_roundtrip_witness:
  "\<exists>d plan. evaluate_retention shipped_policy (sample_facts 63900090000) = Inr d \<and>
     plain_loads (plan_json d) = Inr (sort_keys (PDict plan)) \<and> dget plan ''decision'' = Some (PStr ''eligible'')"
proof -
  obtain d where d: "evaluate_retention shipped_policy (sample_facts 63900090000) = Inr d"
    by (rule sample_returns [of 63900090000]) (simp_all add: max_secs_def)
  have "eligible d" using evaluate_retention_safe [OF d] sample_safe [of 63900090000] by simp
  with plan_json_roundtrip [OF d] d show ?thesis by auto
qed

text \<open>C9. An active durable stream is never deletable: under a parsed registry, whatever facts are
  supplied about its lease, terminal record and inventory, the decision for the prefix of an active
  durable entry is a refusal that says so.\<close>

theorem active_durable_refused:
  assumes "parse_policy yaml text = Inr p" "evaluate_retention p facts = Inr d"
    and "match_prefix p (ev_prefix facts) = Inr matched" "map_of (entries p) (matched_id matched) = Some e"
    and "durability e = ''durable_stream''" "lifecycle e = ''active''"
  shows "\<not> eligible d \<and> ''registry_active_durable'' \<in> set (refusal_codes d)"
proof -
  obtain raw where "refusals p facts matched e = Inr raw" "refusal_codes d = remdups_first raw" "eligible d = (refusal_codes d = [])"
    using evaluate_retention_Inr [OF assms(2)] assms(3,4) by (metis Inr_inject option.inject)
  then show ?thesis using assms(5,6) by (auto simp: refusals_def Let_def inr_iffs)
qed

theorem active_durable_refused_witness:
  "\<exists>d. evaluate_retention shipped_policy ((sample_facts 63900090000)\<lparr>ev_prefix := PStr ''events/''\<rparr>) = Inr d \<and>
     \<not> eligible d"
proof -
  let ?f = "(sample_facts 63900090000)\<lparr>ev_prefix := PStr ''events/''\<rparr>"
  have m: "match_prefix shipped_policy (ev_prefix ?f) =
      Inr \<lparr>matched_id = ''streaming-events-v1'', matched_prefix = ''events/'', generation = []\<rparr>"
    by (simp add: shipped_match_events)
  have "facts_in_range (sample_facts 63900090000)" by (rule sample_in_range) (simp_all add: max_secs_def)
  then have "facts_in_range ?f" by (simp add: facts_in_range_def)
  then obtain d where d: "evaluate_retention shipped_policy ?f = Inr d"
    using evaluate_retention_returns [OF shipped_registry_ok m] by blast
  obtain e where e: "map_of (entries shipped_policy) ''streaming-events-v1'' = Some e"
    "durability e = ''durable_stream''" "lifecycle e = ''active''"
    by (simp add: shipped_policy_def shipped_durable_def)
  have "map_of (entries shipped_policy)
      (matched_id \<lparr>matched_id = ''streaming-events-v1'', matched_prefix = ''events/'', generation = []\<rparr>) = Some e"
    using e by simp
  from active_durable_refused [OF shipped_policy_parses d m this e(2,3)] d show ?thesis by blast
qed

end
