(* ===== verification/LeasePlan.thy ===== *)
theory LeasePlan
  imports LeaseProps Planner EvaluateFacts
begin

text \<open>
  The lease manager and the planner together: what one writes into the control records of a
  checkpoint, the other reads back as the facts the evaluator decides on.
\<close>

section \<open>Terminal records\<close>

lemma persist_terminal_Inr:
  assumes "persist_terminal gw policy cid req lease_body w = (Inr (), w')"
  obtains d body w1 where "decode_lease policy lease_body = Inr d"
    "\<not> list_ex (\<lambda>f. \<not> is_bool (dget_none (terminal_value (PStr cid) (hr_prefix req) (tr_state req) (dict_val (tr_evidence req))
        (dget_none d ''heartbeat_at'')) f)) terminal_flags"
    "canonical_json_bytes (PDict (terminal_value (PStr cid) (hr_prefix req) (tr_state req) (dict_val (tr_evidence req))
        (dget_none d ''heartbeat_at''))) (max_summary_bytes (bounds policy)) max_json_nodes = Inr body"
    "(\<exists>n etag. gw_read_control gw (terminal_key cid) n w1 = (Inr (body, etag), w')) \<or>
     (\<exists>etag. gw_create_control gw (terminal_key cid) body w1 = (Inr etag, w')) \<or>
     (\<exists>old etag. gw_replace_lease gw (terminal_key cid) old body w1 = (Inr etag, w'))"
  using assms by (auto simp: persist_terminal_def Let_def inr_iffs tryA_Inr split: if_splits) metis+

context gateway_results
begin

lemma terminal_persisted:
  assumes "terminal env gw policy req w = (Inr res, w')"
  obtains cid d body n etag w1 where "validate_terminal policy req = Inr cid" "decode_lease policy (lr_body res) = Inr d"
    "\<not> list_ex (\<lambda>f. \<not> is_bool (dget_none (terminal_value (PStr cid) (hr_prefix req) (tr_state req) (dict_val (tr_evidence req))
        (dget_none d ''heartbeat_at'')) f)) terminal_flags"
    "canonical_json_bytes (PDict (terminal_value (PStr cid) (hr_prefix req) (tr_state req) (dict_val (tr_evidence req))
        (dget_none d ''heartbeat_at''))) (max_summary_bytes (bounds policy)) max_json_nodes = Inr body"
    "gw_read_control gw (terminal_key cid) n w1 = (Inr (body, etag), w')"
proof -
  from assms obtain cid w2 where cid: "validate_terminal policy req = Inr cid"
    and p: "persist_terminal gw policy cid req (lr_body res) w2 = (Inr (), w')"
    by (auto simp: terminal_def terminal_locked_def inr_iffs)
  from p show thesis
  proof (rule persist_terminal_Inr)
    fix d body w1
    assume d: "decode_lease policy (lr_body res) = Inr d"
      "\<not> list_ex (\<lambda>f. \<not> is_bool (dget_none (terminal_value (PStr cid) (hr_prefix req) (tr_state req) (dict_val (tr_evidence req))
        (dget_none d ''heartbeat_at'')) f)) terminal_flags"
      "canonical_json_bytes (PDict (terminal_value (PStr cid) (hr_prefix req) (tr_state req) (dict_val (tr_evidence req))
        (dget_none d ''heartbeat_at''))) (max_summary_bytes (bounds policy)) max_json_nodes = Inr body"
      and w: "(\<exists>n etag. gw_read_control gw (terminal_key cid) n w1 = (Inr (body, etag), w')) \<or>
       (\<exists>etag. gw_create_control gw (terminal_key cid) body w1 = (Inr etag, w')) \<or>
       (\<exists>old etag. gw_replace_lease gw (terminal_key cid) old body w1 = (Inr etag, w'))"
    from w obtain n etag w1 where "gw_read_control gw (terminal_key cid) n w1 = (Inr (body, etag), w')"
      using create_readback replace_readback by metis
    with cid d show thesis by (rule that)
  qed
qed

end

end
