(* ===== verification/PlanFacts.thy ===== *)
theory PlanFacts
  imports Planner GatewayFacts EvaluateFacts
begin

text \<open>
  Facts about the planner: which requests it sends, and that a plan it returns binds the inventory it
  read, the digest of it and the decision of the evaluator on the facts it read.
\<close>

section \<open>Requests\<close>

context gateway_family
begin

lemma optional_control_keeps:
  assumes chk: "preserves P chk" and get: "allowed (GetObject bk key)"
  shows "preserves P (optional_control (G chk) policy key decode)"
  unfolding optional_control_def by (intro keeps read [OF chk] get)

lemma plan_keeps:
  assumes chk: "preserves P chk" and lists: "\<And>n t. allowed (ListObjectsV2 bk (str_val (pq_prefix req)) n t)"
    and gets: "\<And>m. validate_plan_request policy req = Inr m \<Longrightarrow> allowed (GetObject bk (lease_key (matched_id m)))"
      "\<And>m. validate_plan_request policy req = Inr m \<Longrightarrow> allowed (GetObject bk (terminal_key (matched_id m)))"
  shows "preserves P (plan (G chk) policy req)"
  unfolding plan_def
proof (rule preserves_bindA_liftA)
  fix m assume m: "validate_plan_request policy req = Inr m"
  show "preserves P (bindA (mapexnA (gw_inventory (G chk) (str_val (pq_prefix req)))
              (\<lambda>e. if is_gateway e \<and> exn_code e \<noteq> Some ''operation_deadline'' then PlanFailure ''inventory_failed'' else e)) (\<lambda>rs.
     if rs = [] then raiseA (PlanFailure ''inventory_empty'')
     else
     bindA (optional_control (G chk) policy (lease_key (matched_id m)) plan_decode_lease) (\<lambda>lf.
     bindA (if (case lf of None \<Rightarrow> False | Some l \<Rightarrow> lf_state l = PStr ''active'') then retA None
            else optional_control (G chk) policy (terminal_key (matched_id m))
                   (\<lambda>body _. plan_decode_terminal body (pq_checkpoint_id req) (pq_prefix req))) (\<lambda>tf.
     liftA (bind_plan policy req (matched_id m) rs lf tf)))))"
    by (intro keeps inventory [OF chk] lists optional_control_keeps [OF chk] gets [OF m])
qed

end

definition plan_call :: "string \<Rightarrow> plan_request \<Rightarrow> s3_call \<Rightarrow> bool" where
  \<comment> \<open>listing the requested prefix and reading the two control records of the checkpoint\<close>
  "plan_call bk req c =
     (case c of
        ListObjectsV2 b p n t \<Rightarrow> b = bk \<and> PStr p = pq_prefix req
      | GetObject b k \<Rightarrow> b = bk \<and> k \<in> set [lease_key (str_val (pq_checkpoint_id req)), terminal_key (str_val (pq_checkpoint_id req))]
      | _ \<Rightarrow> False)"

lemma match_prefix_str: "match_prefix policy v = Inr m \<Longrightarrow> is_str v"
  by (cases v) (auto simp: match_prefix_def validate_concrete_prefix_def inr_iffs)

lemma validate_plan_request_Inr:
  assumes "validate_plan_request policy req = Inr m"
  shows "match_prefix policy (pq_prefix req) = Inr m" "pq_checkpoint_id req = PStr (matched_id m)" "is_exact_utc (pq_evaluated_at req)"
    "is_str (pq_prefix req)" "\<exists>actor. pq_actor req = PStr actor \<and> identity_pattern actor"
proof -
  from assms show m: "match_prefix policy (pq_prefix req) = Inr m" and "pq_checkpoint_id req = PStr (matched_id m)"
    "is_exact_utc (pq_evaluated_at req)" "\<exists>actor. pq_actor req = PStr actor \<and> identity_pattern actor"
    by (auto simp: validate_plan_request_def inr_iffs is_str_iff split: if_splits)
  from m show "is_str (pq_prefix req)" by (rule match_prefix_str)
qed

text \<open>Planning is a dry run: whatever the client answers, it lists the requested prefix and reads the
  two control records of the checkpoint, and sends nothing else; in particular it writes and deletes
  nothing.\<close>

theorem plan_read_only:
  "list_all (plan_call (bucket policy) req) (calls (plan (s3_gateway (traced env) policy (onW chk)) policy req) w)"
proof (cases "validate_plan_request policy req")
  case (Inr m)
  note v = validate_plan_request_Inr [OF Inr]
  have "preserves (logs (plan_call (bucket policy) req)) (plan (s3_gateway (traced env) policy (onW chk)) policy req)"
    by (rule s3_calls.plan_keeps) (use Inr v in \<open>auto simp: plan_call_def intro: keeps\<close>)
  then show ?thesis by (rule calls_allowed)
qed (simp add: plan_def calls_def bindA_def liftA_def)

section \<open>What a plan binds\<close>

lemma hex64_sha256 [simp]: "hex64 (sha256 s)"
  by (simp add: hex64_def match_hex_classes)

definition control_observed :: "'w gateway \<Rightarrow> checkpoint_policy \<Rightarrow> string \<Rightarrow> (string \<Rightarrow> string \<Rightarrow> 'a res) \<Rightarrow> 'a option \<Rightarrow> bool" where
  \<comment> \<open>a read of the control record found it missing, or found a body that decodes to the value\<close>
  "control_observed gw policy key decode x \<longleftrightarrow>
     (\<exists>w w'.
        case x of
          None \<Rightarrow> \<exists>ks. gw_read_control gw key (max_summary_bytes (bounds policy)) w = (Inl (GatewayFailure ''control_missing'' ks), w')
        | Some v \<Rightarrow> \<exists>body etag. gw_read_control gw key (max_summary_bytes (bounds policy)) w = (Inr (body, etag), w') \<and> decode body etag = Inr v)"

lemma is_gateway_iff: "is_gateway e \<longleftrightarrow> (\<exists>c ks. e = GatewayFailure c ks)"
  by (cases e) simp_all

lemma optional_control_observed:
  "optional_control gw policy key decode w = (Inr x, w') \<Longrightarrow> control_observed gw policy key decode x"
  unfolding optional_control_def control_observed_def
  by (auto simp: tryA_Inr inr_iffs is_gateway_iff split: if_splits) blast+

definition plan_facts :: "plan_request \<Rightarrow> object_record list \<Rightarrow> string \<Rightarrow> lease_facts option \<Rightarrow> terminal_facts option \<Rightarrow> evaluation_input" where
  "plan_facts req rs digest lf tf =
     \<lparr>ev_prefix = pq_prefix req, evaluated_at = pq_evaluated_at req, ev_lease = lf, ev_terminal = tf, ev_inventory = summarize rs digest\<rparr>"

lemma freeze_mapping_dget:
  "freeze_mapping d = Inr d' \<Longrightarrow> dget d k = Some (PStr s) \<Longrightarrow> dget d' k = Some (PStr s)"
proof (induction d arbitrary: d')
  case (Cons p d)
  obtain k' x where p: "p = (k', x)" by (cases p)
  from Cons.prems(1) obtain y d'' where y: "deep_freeze x = Inr y" "freeze_mapping d = Inr d''" "d' = (k', y) # d''"
    by (auto simp: p inr_iffs)
  show ?case
  proof (cases "k' = PStr k")
    case True
    with Cons.prems(2) have "x = PStr s" by (simp add: p)
    with y True show ?thesis by (simp add: deep_freeze.simps)
  next
    case False
    with Cons p y show ?thesis by (cases k') simp_all
  qed
qed simp

lemma bind_plan_Inr:
  assumes "bind_plan policy req cid rs lf tf = Inr a"
  obtains digest decision shards where "inventory_sha256 rs = Inr digest"
    "evaluate_retention policy (plan_facts req rs digest lf tf) = Inr decision"
    "shard_inventory rs (max_manifest_shard_bytes (bounds policy)) = Inr shards"
    "pa_shards a = shards" "pa_sha256 a = sha256 (pa_body a)"
    "freeze_mapping (plan_summary req cid rs digest shards decision) = Inr (pa_summary a)"
  using assms
  by (auto simp: bind_plan_def make_plan_artifact_def Let_def inr_iffs plan_facts_def split: if_splits)

context gateway_results
begin

lemma planned:
  assumes "plan gw policy req w = (Inr a, w')"
  obtains m rs lf tf digest decision where "validate_plan_request policy req = Inr m"
    "inventory_sound policy (str_val (pq_prefix req)) rs" "rs \<noteq> []"
    "control_observed gw policy (lease_key (matched_id m)) plan_decode_lease lf"
    "(\<exists>l. lf = Some l \<and> lf_state l = PStr ''active'' \<and> tf = None) \<or>
     control_observed gw policy (terminal_key (matched_id m)) (\<lambda>body _. plan_decode_terminal body (pq_checkpoint_id req) (pq_prefix req)) tf"
    "inventory_sha256 rs = Inr digest" "evaluate_retention policy (plan_facts req rs digest lf tf) = Inr decision"
    "concat (map ms_records (pa_shards a)) = rs" "pa_sha256 a = sha256 (pa_body a)"
    "freeze_mapping (plan_summary req (matched_id m) rs digest (pa_shards a) decision) = Inr (pa_summary a)"
proof -
  let ?terminal = "\<lambda>body (_ :: string). plan_decode_terminal body (pq_checkpoint_id req) (pq_prefix req)"
  from assms obtain m rs lf tf w1 w2 w3 w4 where m: "validate_plan_request policy req = Inr m"
    and rs: "gw_inventory gw (str_val (pq_prefix req)) w1 = (Inr rs, w2)" "rs \<noteq> []"
    and lf: "optional_control gw policy (lease_key (matched_id m)) plan_decode_lease w2 = (Inr lf, w3)"
    and tf: "(if (case lf of None \<Rightarrow> False | Some l \<Rightarrow> lf_state l = PStr ''active'') then retA None
              else optional_control gw policy (terminal_key (matched_id m)) ?terminal) w3 = (Inr tf, w4)"
    and a: "bind_plan policy req (matched_id m) rs lf tf = Inr a"
    unfolding plan_def inr_iffs by blast
  have tf': "(\<exists>l. lf = Some l \<and> lf_state l = PStr ''active'' \<and> tf = None) \<or>
     control_observed gw policy (terminal_key (matched_id m)) ?terminal tf"
    using tf optional_control_observed by (cases lf) (auto simp: inr_iffs split: if_splits)
  have sound: "inventory_sound policy (str_val (pq_prefix req)) rs" by (rule inventory_sound [OF rs(1)])
  from a show thesis
  proof (rule bind_plan_Inr)
    fix digest decision shards
    assume s: "shard_inventory rs (max_manifest_shard_bytes (bounds policy)) = Inr shards" "pa_shards a = shards"
    have "canonical_records rs = Inr rs" using sound by (simp add: canonical_records_sorted_id inventory_sound_def)
    then have "concat (map ms_records (pa_shards a)) = rs" using shard_inventory_parts [OF s(1)] s(2) by simp
    then show "inventory_sha256 rs = Inr digest \<Longrightarrow> evaluate_retention policy (plan_facts req rs digest lf tf) = Inr decision \<Longrightarrow>
      pa_sha256 a = sha256 (pa_body a) \<Longrightarrow>
      freeze_mapping (plan_summary req (matched_id m) rs digest shards decision) = Inr (pa_summary a) \<Longrightarrow> thesis"
      using that [OF m sound rs(2) optional_control_observed [OF lf] tf'] s(2) by blast
  qed
qed

end

end
