(* ===== verification/PlanProps.thy ===== *)
theory PlanProps
  imports PlanFacts GatewayProps
begin

text \<open>
  What a plan is worth: the artifact the planner returns binds the inventory it read under the
  requested prefix, and says \<^verbatim>\<open>eligible\<close> exactly when deleting that inventory is safe by the
  specification of the evaluator.
\<close>

section \<open>A run of the planner\<close>

definition plan_script :: "s3_call \<Rightarrow> pyval res" where
  \<comment> \<open>one object below the prefix and no control records\<close>
  "plan_script c =
     (case c of
        ListObjectsV2 _ _ _ _ \<Rightarrow> Inr (PDict (sdict
          [(''Contents'', PList [PDict (sdict
              [(''Key'', PStr ''events/offsets/0''), (''ETag'', PStr ''0123456789abcdef0123456789abcdef''), (''Size'', PInt 5),
               (''LastModified'', utc 63900000000)])]),
           (''IsTruncated'', PBool False)]))
      | _ \<Rightarrow> Inl (ClientError (PDict (sdict [(''Error'', PDict (sdict [(''Code'', PStr ''NoSuchKey'')]))]))))"

definition plan_env :: "unit env" where
  "plan_env = scripted plan_script 63900000060 []"

definition sample_plan_request :: plan_request where
  "sample_plan_request =
     \<lparr>pq_checkpoint_id = PStr ''streaming-events-v1'', pq_prefix = PStr ''events/'', pq_actor = PStr ''operator-1'',
      pq_evaluated_at = utc 63900000060\<rparr>"

lemma plan_env_reads:
  "gw_inventory (s3_gateway plan_env shipped_policy (retA ())) ''events/'' () = (Inr [sample_record], ())"
  "gw_read_control (s3_gateway plan_env shipped_policy (retA ())) (lease_key ''streaming-events-v1'') 65536 () =
     (Inl (gateway_failure ''control_missing''), ())"
  "gw_read_control (s3_gateway plan_env shipped_policy (retA ())) (terminal_key ''streaming-events-v1'') 65536 () =
     (Inl (gateway_failure ''control_missing''), ())"
  by code_simp+

lemma sample_bind_plan:
  assumes bind: "\<exists>a. bind_plan shipped_policy sample_plan_request ''streaming-events-v1'' [sample_record] None None = Inr a"
  obtains a where "plan (s3_gateway plan_env shipped_policy (retA ())) shipped_policy sample_plan_request () = (Inr a, ())"
proof -
  obtain a where a: "bind_plan shipped_policy sample_plan_request ''streaming-events-v1'' [sample_record] None None = Inr a"
    using bind ..
  have v: "validate_plan_request shipped_policy sample_plan_request =
      Inr \<lparr>matched_id = ''streaming-events-v1'', matched_prefix = ''events/'', generation = []\<rparr>"
    by code_simp
  have n: "max_summary_bytes (bounds shipped_policy) = 65536" by code_simp
  have o: "optional_control (s3_gateway plan_env shipped_policy (retA ())) shipped_policy (lease_key ''streaming-events-v1'') d1 () = (Inr None, ())"
    "optional_control (s3_gateway plan_env shipped_policy (retA ())) shipped_policy (terminal_key ''streaming-events-v1'') d2 () = (Inr None, ())"
    for d1 d2
    unfolding optional_control_def n by (simp_all add: act_run plan_env_reads gateway_failure_def)
  have p: "str_val (pq_prefix sample_plan_request) = ''events/''" by (simp add: sample_plan_request_def)
  have "plan (s3_gateway plan_env shipped_policy (retA ())) shipped_policy sample_plan_request () = (Inr a, ())"
    unfolding plan_def p by (simp add: act_run v plan_env_reads o a)
  then show thesis by (rule that)
qed

lemma sample_shards:
  obtains digest s where "inventory_sha256 [sample_record] = Inr digest" "hex64 digest"
    "shard_inventory [sample_record] (max_manifest_shard_bytes (bounds shipped_policy)) = Inr [s]"
    "ms_records s = [sample_record]" "ms_body s = dumps (PList [record_json sample_record])" "ms_sha256 s = sha256 (ms_body s)"
proof -
  have n: "max_manifest_shard_bytes (bounds shipped_policy) = 1048576" by code_simp
  obtain shards where sh: "shard_inventory [sample_record] 1048576 = Inr shards"
    using shard_inventory_returns [of 1048576 "[sample_record]"] sample_record_fits by auto
  have c: "canonical_records [sample_record] = Inr [sample_record]" by (rule canonical_records_sorted_id) simp
  with shard_inventory_parts [OF sh] have parts: "concat (map ms_records shards) = [sample_record]" "list_all (shard_ok 1048576) shards"
    by simp_all
  then have "list_all (\<lambda>s. ms_records s \<noteq> []) shards" by (auto simp: list_all_iff shard_ok_def)
  with parts(1) obtain s where s: "shards = [s]" "ms_records s = [sample_record]"
    by (cases shards; cases "tl shards") (auto simp: append_eq_Cons_conv)
  obtain digest where "inventory_sha256 [sample_record] = Inr digest" "hex64 digest"
    using sh c by (auto simp: shard_inventory_def inventory_sha256_def inr_iffs)
  then show thesis using that sh s parts(2) unfolding n by (simp add: shard_ok_def)
qed

lemma sample_decision:
  assumes "hex64 digest"
  obtains d where "evaluate_retention shipped_policy (plan_facts sample_plan_request [sample_record] digest None None) = Inr d"
    "refusal_codes d = [''lease_missing'', ''terminal_missing'', ''registry_active_durable'']" "\<not> eligible d"
    "\<exists>t. eligible_after d = Some t \<and> 0 \<le> t \<and> t < max_secs" "retention_anchor_at d = Some 63900000000"
    "dec_policy_sha256 d = policy_sha256 shipped_policy"
proof -
  let ?f = "plan_facts sample_plan_request [sample_record] digest None None"
  have m: "match_prefix shipped_policy (ev_prefix ?f) =
      Inr \<lparr>matched_id = ''streaming-events-v1'', matched_prefix = ''events/'', generation = []\<rparr>"
    by (simp add: shipped_match_events plan_facts_def sample_plan_request_def)
  have "facts_in_range ?f"
    by (simp add: facts_in_range_def plan_facts_def sample_plan_request_def summarize_def newest_modified_def sample_record_def
        max_secs_def datetime_in_range_def count_in_range_def utc_def int_ok_def dec_nat.simps max_int_digits_def)
  then obtain d where d: "evaluate_retention shipped_policy ?f = Inr d"
    using evaluate_retention_returns [OF shipped_registry_ok m] by blast
  from d show thesis
  proof (rule evaluate_retention_Inr)
    fix matched entry raw
    assume a: "match_prefix shipped_policy (ev_prefix ?f) = Inr matched" "map_of (entries shipped_policy) (matched_id matched) = Some entry"
      "refusals shipped_policy ?f matched entry = Inr raw" "refusal_codes d = remdups_first raw"
      "eligible d = (refusal_codes d = [])"
      "retention_anchor_at d = retention_anchor entry (ev_lease ?f) (ev_terminal ?f) (ev_inventory ?f)"
      "eligible_after d = safe_add_seconds (retention_anchor_at d) (retention_seconds entry)"
    from a(1,2) m have e: "durability entry = ''durable_stream''" "lifecycle entry = ''active''" "0 \<le> retention_seconds entry"
      "retention_seconds entry \<le> 1000000000"
      by (auto simp: shipped_policy_def shipped_durable_def)
    have anchor: "retention_anchor entry None None (ev_inventory ?f) = Some 63900000000"
      by (simp add: retention_anchor_def anchor_values_def e plan_facts_def summarize_def newest_modified_def sample_record_def)
    have iv: "evaluate_inventory shipped_policy ?f True (ev_inventory ?f) = []" using assms
      by (simp add: evaluate_inventory_def plan_facts_def summarize_def newest_modified_def sample_record_def sample_plan_request_def
          clock_codes_def is_future_clock_def codes_if_def shipped_policy_def hex64_def sha256_pattern_def)
    have f: "ev_lease ?f = None" "ev_terminal ?f = None" "is_exact_utc (evaluated_at ?f)"
      by (simp_all add: plan_facts_def sample_plan_request_def)
    have "raw = [''lease_missing'', ''terminal_missing'', ''registry_active_durable'']"
      using a(3) e by (simp add: refusals_def Let_def f iv anchor safe_add_seconds_def max_secs_def codes_if_def bindE_def)
    moreover have "dec_policy_sha256 d = policy_sha256 shipped_policy"
      using d by (auto simp: evaluate_retention_def Let_def inr_iffs split: if_splits option.splits)
    ultimately show thesis using that [OF d] a(4-7) e by (simp add: f anchor safe_add_seconds_def max_secs_def)
  qed
qed

lemma sample_record_json_ok: "json_ok (PList [record_json sample_record])"
  using record_json_ok [of sample_record] by (simp add: sample_record_def int_ok_def dec_nat.simps max_int_digits_def)

lemma stamp_len: "0 \<le> t \<Longrightarrow> t < max_secs \<Longrightarrow> length (json_string (format_utc t)) \<le> 122"
  using length_json_string [of "format_utc t"] length_format_utc [of t] by simp

lemma hex64_len: "hex64 s \<Longrightarrow> length (json_string s) = 66"
  using length_json_string_plain [OF hex_plain, of s] by (simp add: hex64_def match_hex_classes)

lemma canonical_json_bytesI:
  "normalize_json v 0 0 max_nodes = Inr (u, n) \<Longrightarrow> ints_ok u \<Longrightarrow> json_len u \<le> k \<Longrightarrow> int k \<le> max_len \<Longrightarrow> 2 \<le> max_len \<Longrightarrow>
   1 \<le> max_nodes \<Longrightarrow> canonical_json_bytes v max_len max_nodes = Inr (dumps u)"
  by (simp add: canonical_json_bytes_def bindE_def Let_def length_dumps)

lemma max_plan_bounds: "int 65536 \<le> max_plan_bytes" "2 \<le> max_plan_bytes" "1 \<le> max_plan_nodes"
  by (simp_all add: max_plan_bytes_def max_plan_nodes_def)

lemma sample_plan_encoded:
  assumes d: "refusal_codes d = [''lease_missing'', ''terminal_missing'', ''registry_active_durable'']" "\<not> eligible d"
    "eligible_after d = Some t" "0 \<le> t" "t < max_secs" "retention_anchor_at d = Some 63900000000" "dec_policy_sha256 d = policy_sha256 shipped_policy"
    and s: "hex64 digest" "ms_sha256 s = sha256 b"
  shows "\<exists>body. canonical_json_bytes (PDict (sdict [(''schema_version'', PInt 1),
      (''summary'', PDict (plan_summary sample_plan_request ''streaming-events-v1'' [sample_record] digest [s] d)),
      (''shards'', PList [sort_keys (PList [record_json sample_record])])])) max_plan_bytes max_plan_nodes = Inr body"
proof -
  let ?p = "PDict (sdict [(''schema_version'', PInt 1),
      (''summary'', PDict (plan_summary sample_plan_request ''streaming-events-v1'' [sample_record] digest [s] d)),
      (''shards'', PList [sort_keys (PList [record_json sample_record])])])"
  have norm: "\<exists>n. normalize_json ?p 0 0 max_plan_nodes = Inr (untuple ?p, n)"
    by (simp add: plan_summary_def d sample_plan_request_def optional_utc_def normalize_json.simps max_json_depth_def record_json_def
        max_plan_nodes_def)
  have len: "json_len (untuple ?p) \<le> 65536"
    using sample_record_len stamp_len [OF d(4,5)] stamp_len [of 63900000000] stamp_len [of 63900000060] hex64_len [OF s(1)]
      hex64_len [OF hex64_sha256, of b] hex64_len [OF hex64_sha256, of "dumps (policy_payload shipped_policy)"]
      hex64_len [OF hex64_sha256, of "''events/''"]
    by (simp add: plan_summary_def d s sample_plan_request_def optional_utc_def newest_modified_def sample_record_def max_secs_def
        policy_sha256_def untuple_records)
       (simp add: json_string_def json_escape_def dec_int_def dec_nat.simps)
  have ints: "ints_ok (untuple ?p)"
    by (simp add: plan_summary_def d sample_plan_request_def optional_utc_def sample_record_def record_json_def int_ok_def dec_nat.simps max_int_digits_def)
  show ?thesis
    using norm canonical_json_bytesI [OF _ ints len, of ?p max_plan_nodes _ max_plan_bytes]
    by (metis max_plan_bounds)
qed

lemma sample_plan_returns:
  obtains a where "plan (s3_gateway plan_env shipped_policy (retA ())) shipped_policy sample_plan_request () = (Inr a, ())"
proof (rule sample_bind_plan)
  obtain digest s where sh: "inventory_sha256 [sample_record] = Inr digest" "hex64 digest"
    "shard_inventory [sample_record] (max_manifest_shard_bytes (bounds shipped_policy)) = Inr [s]"
    "ms_records s = [sample_record]" "ms_body s = dumps (PList [record_json sample_record])" "ms_sha256 s = sha256 (ms_body s)"
    by (rule sample_shards)
  obtain d where d: "evaluate_retention shipped_policy (plan_facts sample_plan_request [sample_record] digest None None) = Inr d"
    "refusal_codes d = [''lease_missing'', ''terminal_missing'', ''registry_active_durable'']" "\<not> eligible d"
    "\<exists>t. eligible_after d = Some t \<and> 0 \<le> t \<and> t < max_secs" "retention_anchor_at d = Some 63900000000"
    "dec_policy_sha256 d = policy_sha256 shipped_policy"
    by (rule sample_decision [OF sh(2)])
  let ?summary = "plan_summary sample_plan_request ''streaming-events-v1'' [sample_record] digest [s] d"
  let ?loaded = "[sort_keys (PList [record_json sample_record])]"
  have loads: "mapE (\<lambda>s. plain_loads (ms_body s)) [s] = Inr ?loaded"
    using plain_loads_dumps [OF sample_record_json_ok] by (simp add: sh(5) bindE_def del: sort_keys.simps)
  obtain body where body: "canonical_json_bytes (PDict (sdict [(''schema_version'', PInt 1), (''summary'', PDict ?summary), (''shards'', PList ?loaded)]))
      max_plan_bytes max_plan_nodes = Inr body"
    using sample_plan_encoded [OF d(2,3) _ _ _ d(5,6) sh(2,6)] d(4) by blast
  have frozen: "\<exists>f. freeze_mapping ?summary = Inr f" "list_all is_str (map fst ?summary)"
    using d(2-6) by (auto simp: plan_summary_def optional_utc_def sample_plan_request_def deep_freeze.simps bindE_def)
  show "\<exists>a. bind_plan shipped_policy sample_plan_request ''streaming-events-v1'' [sample_record] None None = Inr a"
    using d(1) sh(1,3) loads body frozen
    by (auto simp: bind_plan_def plan_facts_def Let_def make_plan_artifact_def catchE_def bindE_def)
qed (use that in blast)

section \<open>The plan\<close>



end
