(* ===== verification/LeaseRecords.thy ===== *)
theory LeaseRecords
  imports LeasePlan PlanProps
begin

text \<open>
  The terminal record across components: the record that \<open>terminal\<close> of the lease manager writes
  passes the planner's decoder with the facts the caller gave as evidence, and never carries a
  retirement review.
\<close>

lemma keys_distinct_dget: "keys_distinct (PDict d) \<Longrightarrow> dget d k = Some v \<Longrightarrow> keys_distinct v"
  by (auto simp: dget_map_of list_all_iff dest!: map_of_SomeD)

lemma terminal_value_decodes:
  fixes policy cid prefix state evidence occurred
  defines "v \<equiv> terminal_value (PStr cid) (PStr prefix) state evidence occurred"
  assumes ok: "registry_ok policy"
    and body: "canonical_json_bytes (PDict v) (max_summary_bytes (bounds policy)) max_json_nodes = Inr body"
    and flags: "\<not> list_ex (\<lambda>f. \<not> is_bool (dget_none v f)) terminal_flags"
    and st: "is_str state" and g: "is_dict (dget_none evidence ''generation'')" and kd: "keys_distinct (PDict evidence)"
    and t: "parse_utc occurred = Some h"
  shows "plan_decode_terminal body (PStr cid) (PStr prefix) =
    Inr \<lparr>tf_state = state, tf_occurred_at = utc h, tf_recovery_approved = dget_none v ''recovery_approved'',
      tf_source_available = dget_none v ''source_available'', tf_sink_disposition_approved = dget_none v ''sink_disposition_approved'',
      tf_retirement_review = PNone, tf_generation = sort_keys (untuple (dget_none evidence ''generation'')),
      tf_exclusive_run = dget_none v ''exclusive_run'', tf_successful = dget_none v ''successful''\<rparr>"
proof -
  have bound: "max_summary_bytes (bounds policy) = max_json_bytes"
    using ok by (simp add: registry_ok_def max_json_bytes_def)
  have "list_all (\<lambda>f. is_bool (dget_none v f)) terminal_flags" using flags by (simp add: list_ex_iff list_all_iff)
  then obtain b1 b2 b3 b4 b5 where b: "dget_or evidence ''exclusive_run'' (PBool False) = PBool b1"
    "dget_or evidence ''recovery_approved'' (PBool False) = PBool b2" "dget_or evidence ''sink_disposition_approved'' (PBool False) = PBool b3"
    "dget_or evidence ''source_available'' (PBool False) = PBool b4" "dget_or evidence ''successful'' (PBool False) = PBool b5"
    unfolding v_def terminal_value_def terminal_flags_def by (simp add: is_bool_iff dget_none_def) blast
  from st g parse_utc_is_str [OF t] obtain s gd o' where sgo: "state = PStr s" "dget_none evidence ''generation'' = PDict gd" "occurred = PStr o'"
    by (auto simp: is_str_iff is_dict_iff)
  then have "dget evidence ''generation'' = Some (PDict gd)" by (simp add: dget_none_def split: option.splits)
  then have gd: "keys_distinct (PDict gd)" by (rule keys_distinct_dget [OF kd])
  have v: "v = sdict [(''checkpoint_id'', PStr cid), (''exclusive_run'', PBool b1), (''generation'', PDict gd), (''occurred_at'', PStr o'),
      (''prefix'', PStr prefix), (''recovery_approved'', PBool b2), (''schema_version'', PInt 1), (''sink_disposition_approved'', PBool b3),
      (''source_available'', PBool b4), (''state'', PStr s), (''successful'', PBool b5)]"
    unfolding v_def terminal_value_def b sgo ..
  have types: "list_all (\<lambda>(k, ts). list_ex (has_type (untuple (dget_none v k))) ts) terminal_schema"
    unfolding v terminal_schema_def by (simp add: dget_none_def)
  have ty: "list_ex (has_type (untuple (dget_none v k))) ts" if "(k, ts) \<in> set terminal_schema" for k ts
    using types that unfolding list_all_iff by fast
  have keys: "keys_exactly v (map fst terminal_schema)"
    unfolding v terminal_schema_def by (simp add: keys_exactly_def dkeys_def)
  have "keys_distinct (PDict v)" using gd unfolding v by simp
  then obtain d' where d': "decode_exact_json body terminal_schema max_json_bytes max_json_depth = Inr d'"
    "\<And>k. dget d' k = map_option (\<lambda>v. sort_keys (untuple v)) (dget v k)"
    using decode_canonical [OF body [unfolded bound, folded canonical_json_def] _ keys ty] by blast
  show ?thesis using t unfolding sgo plan_decode_terminal_def d'(1)
    by (simp add: catchE_def dget_none_def d'(2) v)
qed

section \<open>Across the components\<close>

definition retired_stream :: "checkpoint_policy \<Rightarrow> string \<Rightarrow> bool" where
  "retired_stream policy cid \<longleftrightarrow> (\<exists>e. map_of (entries policy) cid = Some e \<and> durability e = ''durable_stream'' \<and> lifecycle e = ''retired'')"

lemma retired_needs_review:
  assumes "match_prefix policy (ev_prefix facts) = Inr m" "retired_stream policy (matched_id m)" "ev_terminal facts = Some t"
    "tf_retirement_review t = PNone"
  shows "\<not> retention_safe policy facts"
proof
  assume "retention_safe policy facts"
  then show False
  proof (rule retention_safeE)
    fix matched entry l t' now state states occurred
    assume a: "match_prefix policy (ev_prefix facts) = Inr matched" "map_of (entries policy) (matched_id matched) = Some entry"
      "ev_terminal facts = Some t'" "terminal_approved (lease policy) matched entry now state occurred t'"
    from a(1-3) assms have "durability entry = ''durable_stream''" "lifecycle entry = ''retired''" "t' = t"
      by (auto simp: retired_stream_def)
    with a(4) assms(4) show False by (simp add: terminal_approved_def)
  qed
qed


definition sample_evidence :: pydict where
  "sample_evidence = sdict [(''generation'', PDict []), (''successful'', PBool True)]"

definition sample_terminal_request :: terminal_request where
  "sample_terminal_request = \<lparr>hr_checkpoint_id = PStr ''streaming-events-v1'', hr_prefix = PStr ''events/'', hr_epoch = PStr sample_epoch,
     tr_state = PStr ''stopped'', tr_evidence = PDict sample_evidence\<rparr>"

definition sample_stopped :: pyval where
  "sample_stopped = PDict (sdict
     [(''acquired_at'', PStr ''0001-01-01T00:01:00Z''), (''checkpoint_id'', PStr ''streaming-events-v1''), (''epoch'', PStr sample_epoch),
      (''expires_at'', PStr ''0001-01-01T00:11:00Z''), (''heartbeat_at'', PStr ''0001-01-01T00:01:00Z''),
      (''owner_id'', PStr ''spark-driver-1''), (''prefix'', PStr ''events/''), (''schema_version'', PInt 1),
      (''session_id'', PStr ''session-1''), (''state'', PStr ''stopped''), (''terminal_evidence'', PDict sample_evidence),
      (''workload'', PStr ''streaming_ingest-events-spark-iceberg'')])"

lemma sample_next: "PDict (next_lease (dict_val LeaseProps.sample_lease) 60 660 (PStr ''stopped'') (PDict sample_evidence)) = sample_stopped"
  by (simp add: next_lease_def sample_stopped_def LeaseProps.sample_lease_def sample_times)

definition sample_terminal_value :: pyval where
  "sample_terminal_value = PDict (terminal_value (PStr ''streaming-events-v1'') (PStr ''events/'') (PStr ''stopped'') sample_evidence
     (PStr ''0001-01-01T00:01:00Z''))"

lemma sample_bodies:
  obtains body sbody tbody where "canonical_json_bytes LeaseProps.sample_lease 65536 max_json_nodes = Inr body" "int (length body) \<le> 65536"
    "canonical_json_bytes sample_stopped 65536 max_json_nodes = Inr sbody" "sbody \<noteq> []" "int (length sbody) \<le> 65536"
    "canonical_json_bytes sample_terminal_value 65536 max_json_nodes = Inr tbody" "tbody \<noteq> []" "int (length tbody) \<le> 65536" "sbody \<noteq> tbody"
proof -
  obtain body where b: "canonical_json_bytes LeaseProps.sample_lease 65536 max_json_nodes = Inr body" "body \<noteq> []" "int (length body) \<le> 65536"
    by (rule sample_body)
  have "(case (canonical_json_bytes sample_stopped 65536 max_json_nodes, canonical_json_bytes sample_terminal_value 65536 max_json_nodes) of
      (Inr s, Inr t) \<Rightarrow> s \<noteq> [] \<and> t \<noteq> [] \<and> s \<noteq> t | _ \<Rightarrow> False)"
    by code_simp
  then obtain sbody tbody where st: "canonical_json_bytes sample_stopped 65536 max_json_nodes = Inr sbody" "sbody \<noteq> []"
    "canonical_json_bytes sample_terminal_value 65536 max_json_nodes = Inr tbody" "tbody \<noteq> []" "sbody \<noteq> tbody"
    by (auto split: sum.splits)
  moreover from st have "int (length sbody) \<le> 65536" "int (length tbody) \<le> 65536"
    by (auto simp: canonical_json_bytes_def inr_iffs Let_def split: if_splits)
  ultimately show thesis using b that by blast
qed

lemma sample_stopped_decodes:
  assumes "canonical_json_bytes sample_stopped 65536 max_json_nodes = Inr body"
  shows "decode_lease shipped_policy body = Inr (dict_val sample_stopped)"
proof -
  have clocks: "parse_utc (PStr ''0001-01-01T00:01:00Z'') = Some 60" "parse_utc (PStr ''0001-01-01T00:11:00Z'') = Some 660"
    using parse_utc_format [of 60] parse_utc_format [of 660] by (simp_all add: sample_times max_secs_def)
  have "uuid_shape sample_epoch" by code_simp
  then have f: "lease_fields_ok (dict_val sample_stopped) 60 60" using clocks
    by (simp add: lease_fields_ok_def sample_stopped_def dget_none_def keys_exactly_def dkeys_def lease_schema_def in_states_def lease_states_def
        sample_evidence_def)
  have "sort_keys (untuple sample_stopped) = sample_stopped" by code_simp
  moreover have "PDict (dict_val sample_stopped) = sample_stopped" by (simp add: sample_stopped_def)
  moreover have "max_summary_bytes (bounds shipped_policy) = 65536" by (simp add: shipped_policy_def)
  ultimately show ?thesis using decode_lease_written [OF shipped_registry_ok f, of body] assms by auto (metis dict_val.simps(1))
qed

lemma sample_terminates:
  obtains body res w' where "terminal sample_store sample_gateway shipped_policy sample_terminal_request (Some body) = (Inr res, w')"
proof (rule sample_bodies)
  fix body sbody tbody
  assume b: "canonical_json_bytes LeaseProps.sample_lease 65536 max_json_nodes = Inr body" "int (length body) \<le> 65536"
    and s: "canonical_json_bytes sample_stopped 65536 max_json_nodes = Inr sbody" "sbody \<noteq> []" "int (length sbody) \<le> 65536"
    and t: "canonical_json_bytes sample_terminal_value 65536 max_json_nodes = Inr tbody" "tbody \<noteq> []" "int (length tbody) \<le> 65536" "sbody \<noteq> tbody"
  note st = sample_steps
  have tk: "validate_control_key (terminal_key ''streaming-events-v1'') = Inr ()"
    "control_bound shipped_policy (terminal_key ''streaming-events-v1'') = 65536" by code_simp+
  have bounds: "max_summary_bytes (bounds shipped_policy) = 65536" "ttl_seconds (lease shipped_policy) = 600" by (simp_all add: shipped_policy_def)
  have rd: "gw_read_control sample_gateway (lease_key ''streaming-events-v1'') 65536 (Some body) = (Inr (body, sample_etag), Some body)"
    "gw_read_control sample_gateway (terminal_key ''streaming-events-v1'') 65536 (Some sbody) = (Inr (sbody, sample_etag), Some sbody)"
    unfolding sample_gateway_def sample_store_def s3_gateway_def
    using one_object_read [OF st(3) _ _ st(5)] one_object_read [OF tk(1) _ _ st(5)] st(4) tk(2) b(2) s(3) by simp_all
  have wr: "gw_replace_lease sample_gateway (lease_key ''streaming-events-v1'') sample_etag sbody (Some body) = (Inr sample_etag, Some sbody)"
    "gw_replace_lease sample_gateway (terminal_key ''streaming-events-v1'') sample_etag tbody (Some sbody) = (Inr sample_etag, Some tbody)"
    unfolding sample_gateway_def sample_store_def s3_gateway_def
    using one_object_write [OF st(3) s(2) _ st(5)] one_object_write [OF tk(1) t(2) _ st(5)] s(3) t(3) st(4,5) tk(2)
    by (simp_all add: replace_lease_def act_run)
  have clock: "exact_now sample_store w = (Inr 60, w)" for w
    by (simp add: exact_now_def sample_store_def one_object_def act_simps)
  let ?r = sample_terminal_request
  have v: "validate_terminal shipped_policy ?r = Inr ''streaming-events-v1''" by code_simp
  have id: "require_identity (dict_val LeaseProps.sample_lease) (PStr ''streaming-events-v1'') (hr_prefix ?r) = Inr ()"
    "py_eq (dget_none (dict_val LeaseProps.sample_lease) ''epoch'') (hr_epoch ?r)"
    "dget_none (dict_val LeaseProps.sample_lease) ''state'' = PStr ''active''" by code_simp+
  have r: "tr_state ?r = PStr ''stopped''" "tr_evidence ?r = PDict sample_evidence" "hr_prefix ?r = PStr ''events/''"
    by (simp_all add: sample_terminal_request_def)
  have tv: "PDict (terminal_value (PStr ''streaming-events-v1'') (PStr ''events/'') (PStr ''stopped'') sample_evidence
      (dget_none (dict_val sample_stopped) ''heartbeat_at'')) = sample_terminal_value"
    by (simp add: sample_terminal_value_def sample_stopped_def dget_none_def)
  have fl: "\<not> list_ex (\<lambda>f. \<not> is_bool (dget_none (terminal_value (PStr ''streaming-events-v1'') (PStr ''events/'') (PStr ''stopped'') sample_evidence
      (dget_none (dict_val sample_stopped) ''heartbeat_at'')) f)) terminal_flags" by code_simp
  have rc: "read_current sample_gateway shipped_policy ''streaming-events-v1'' (hr_prefix ?r) (hr_epoch ?r) (Some body) =
      (Inr (dict_val LeaseProps.sample_lease, body, sample_etag), Some body)"
    unfolding read_current_def by (simp add: act_run rd bounds LeaseProps.sample_lease_decodes [OF b(1)] id)
  have tr: "transition_locked sample_store sample_gateway shipped_policy ''streaming-events-v1'' (hr_prefix ?r) (hr_epoch ?r) (PStr ''stopped'')
      (PDict sample_evidence) (Some body) = (Inr \<lparr>lr_epoch = str_val (hr_epoch ?r), lr_etag = sample_etag, lr_body = sbody\<rparr>, Some sbody)"
    unfolding transition_locked_def by (simp add: act_run clock rc id bounds wr sample_next s(1) add_seconds_def max_secs_def)
  have ps: "persist_terminal sample_gateway shipped_policy ''streaming-events-v1'' ?r sbody (Some sbody) = (Inr (), Some tbody)"
    unfolding persist_terminal_def Let_def r dict_val.simps
    by (simp add: act_run sample_stopped_decodes [OF s(1)] fl tv t(1) bounds rd wr t(4))
  have "terminal sample_store sample_gateway shipped_policy ?r (Some body) =
      (Inr \<lparr>lr_epoch = str_val (hr_epoch ?r), lr_etag = sample_etag, lr_body = sbody\<rparr>, Some tbody)"
    unfolding terminal_def terminal_locked_def r(1,2) by (simp add: act_run v rc id tr ps)
  then show thesis by (rule that)
qed


end
