(* ===== verification/OpsControl.thy ===== *)
theory OpsControl
  imports Planner
begin

text \<open>
  \<^verbatim>\<open>scripts/checkpoints/operations.py\<close>, first part: the manager's parameters, its clocks, its
  immutable control writes and the result shards that classify every planned object.  The manager is
  given its gateway as a function of the deadline check in force, as
  \<^verbatim>\<open>S3Gateway.operation_deadline\<close> provides it.  Requests hold the strings their annotations
  name; decoded JSON keeps its dynamic types.
\<close>

section \<open>Data\<close>

record 'w op_manager =
  om_env :: "'w env" \<comment> \<open>the clocks\<close>
  om_gateway :: "('w, unit) act \<Rightarrow> 'w gateway"
  om_policy_sha256 :: string
  om_quiescence_seconds :: int
  om_max_summary_bytes :: int
  om_max_result_shard_bytes :: int
  om_max_delete_keys :: int
  om_revalidate :: "('w gateway \<Rightarrow> string \<Rightarrow> int \<Rightarrow> ('w, plan_artifact) act) option"
  om_locks :: bool
  om_max_active_seconds :: int

record prepare_request =
  pr_operation_id :: string
  pr_artifact :: plan_artifact
  pr_plan_sha256 :: string
  pr_review :: string
  pr_actor :: string

record apply_request =
  ar_operation_id :: string
  ar_plan_sha256 :: string
  ar_confirm_prefix :: string

record operation_status =
  os_operation_id :: string
  os_state :: string
  os_body :: string

definition op_failure :: "string \<Rightarrow> exn" where
  "op_failure c = OperationFailure c False"

definition make_manager :: "'w op_manager \<Rightarrow> 'w op_manager res" where
  \<comment> \<open>the check of \<^verbatim>\<open>OperationManager.__init__\<close>\<close>
  "make_manager m = (if hex64 (om_policy_sha256 m) then Inr m else Inl (op_failure ''policy_digest_invalid''))"

definition disposable_prefix :: "string \<Rightarrow> bool" where
  \<comment> \<open>\<^verbatim>\<open>_DISPOSABLE_PREFIX.fullmatch\<close>\<close>
  "disposable_prefix s \<longleftrightarrow> match_classes (lit ''streaming_test/'' @ uuid_any @ lit ''/'') s"

definition fullmatch_or :: "(string \<Rightarrow> bool) \<Rightarrow> pyval \<Rightarrow> bool res" where
  \<comment> \<open>\<^verbatim>\<open>PATTERN.fullmatch(value or "") is not None\<close>\<close>
  "fullmatch_or p v =
     (if \<not> py_truthy v then Inr (p [])
      else case v of PStr s \<Rightarrow> Inr (p s) | _ \<Rightarrow> Inl (OtherExn ''TypeError''))"

definition tombstone_base :: "string \<Rightarrow> string" where
  "tombstone_base opid = ''_retention/tombstones/'' @ opid"

section \<open>Clocks\<close>

definition op_exact_now :: "'w op_manager \<Rightarrow> ('w, int) act" where
  "op_exact_now m =
     bindA (mapexnA (env_now (om_env m)) (else_code (op_failure ''clock_failed''))) (\<lambda>v.
     if is_exact_utc v then retA (utc_secs v) else raiseA (op_failure ''clock_invalid''))"

definition start_deadline :: "'w op_manager \<Rightarrow> ('w, rat) act" where
  "start_deadline m = mapexnA (env_monotonic (om_env m)) (else_code (op_failure ''clock_failed''))"

definition check_deadline :: "'w op_manager \<Rightarrow> rat \<Rightarrow> int option \<Rightarrow> ('w, unit) act" where
  "check_deadline m started max_seconds =
     bindA (mapexnA (env_monotonic (om_env m)) (else_code (op_failure ''clock_failed''))) (\<lambda>t.
     guardA (t - started < 0 \<or>
             t - started > of_int (case max_seconds of None \<Rightarrow> om_max_active_seconds m | Some n \<Rightarrow> n))
       (op_failure ''operation_deadline''))"

section \<open>Control objects\<close>

definition op_error :: "string \<Rightarrow> exn \<Rightarrow> exn" where
  \<comment> \<open>interrupts pass, deadlines stay deadlines, anything else becomes \<open>code\<close>\<close>
  "op_error code e =
     (if e = Interrupt then e
      else if exn_code e = Some ''operation_deadline'' then op_failure ''operation_deadline''
      else op_failure code)"

definition ops_read_control :: "'w gateway \<Rightarrow> string \<Rightarrow> int \<Rightarrow> string \<Rightarrow> ('w, string) act" where
  "ops_read_control gw key bound code =
     mapexnA (bindA (gw_read_control gw key bound) (\<lambda>(body, _). retA body)) (op_error code)"

definition same_body :: "'w gateway \<Rightarrow> string \<Rightarrow> string \<Rightarrow> int \<Rightarrow> (exn \<Rightarrow> exn) \<Rightarrow> ('w, unit) act" where
  \<comment> \<open>the object a failed create may have met must be the identical one\<close>
  "same_body gw key body bound handler =
     bindA (mapexnA (gw_read_control gw key bound) handler) (\<lambda>(existing, _).
     guardA (existing \<noteq> body) (op_failure ''control_conflict''))"

definition create_identical :: "'w gateway \<Rightarrow> string \<Rightarrow> string \<Rightarrow> int \<Rightarrow> ('w, unit) act" where
  "create_identical gw key body bound =
     seqA (tryA (gw_create_control gw key body)
             (\<lambda>e. if e = Interrupt then raiseA e
                  else if exn_code e = Some ''operation_deadline'' then raiseA (op_failure ''operation_deadline'')
                  else if is_gateway e
                  then same_body gw key body bound (\<lambda>r. if is_gateway r then op_error ''control_create_failed'' r else r)
                  else same_body gw key body bound (op_error ''control_create_failed''))
             (\<lambda>_. retA ()))
       (bindA (mapexnA (gw_read_control gw key bound)
                 (\<lambda>e. if is_gateway e then op_error ''control_readback_failed'' e
                      else else_code (op_failure ''control_readback_failed'') e)) (\<lambda>(readback, _).
        guardA (readback \<noteq> body) (op_failure ''control_readback_mismatch'')))"

definition list_attempts :: "'w gateway \<Rightarrow> string \<Rightarrow> ('w, string list) act" where
  "list_attempts gw opid =
     mapexnA (gw_list_controls gw (tombstone_base opid @ ''/results/attempts/'') 1024) (op_error ''status_read_failed'')"

section \<open>Result shards\<close>

definition record_digest :: "object_record \<Rightarrow> string res" where
  \<comment> \<open>\<^verbatim>\<open>_record_sha256\<close>\<close>
  "record_digest r = bindE (canonical_json (record_json r)) (\<lambda>body. Inr (sha256 body))"

definition classify :: "string list \<Rightarrow> string list \<Rightarrow> string \<Rightarrow> pyval" where
  "classify deleted failed digest = PDict (sdict
     [(''object_sha256'', PStr digest),
      (''outcome'', PStr (if digest \<in> set deleted then ''deleted'' else if digest \<in> set failed then ''failed'' else ''unattempted''))])"

fun result_chunks :: "int \<Rightarrow> pyval list \<Rightarrow> pyval list list \<Rightarrow> pyval list \<Rightarrow> int \<Rightarrow> pyval list list res" where
  \<comment> \<open>finished chunks, the current chunk and its encoded length\<close>
  "result_chunks max_len [] chunks current n = Inr (if current = [] then chunks else chunks @ [current])"
| "result_chunks max_len (v # vs) chunks current n =
     bindE (canonical_json_bytes v 256 max_json_nodes) (\<lambda>encoded.
       let added = int (length encoded) + (if current = [] then 0 else 1);
           flush = current \<noteq> [] \<and> n + added > max_len;
           chunks' = (if flush then chunks @ [current] else chunks);
           current' = (if flush then [] else current);
           n' = (if flush then 2 else n);
           added' = (if flush then int (length encoded) else added)
       in if n' + added' > max_len then Inl (op_failure ''result_shard_bound'')
          else result_chunks max_len vs chunks' (current' @ [v]) (n' + added'))"

definition write_result_shards ::
  "'w op_manager \<Rightarrow> 'w gateway \<Rightarrow> string \<Rightarrow> pyval list \<Rightarrow> rat \<Rightarrow> int option \<Rightarrow> ('w, string list) act" where
  "write_result_shards m gw opid values started deadline =
     (let max_len = om_max_result_shard_bytes m in
     bindA (liftA (result_chunks max_len values [] [] 2)) (\<lambda>chunks.
     mapA (\<lambda>chunk.
       bindA (liftA (canonical_json_bytes (PList chunk) max_len (int (length chunk) * 4 + 8))) (\<lambda>body.
       let digest = sha256 body in
       seqA (create_identical gw (tombstone_base opid @ ''/results/shards/'' @ digest @ ''.json'') body max_len) (
       seqA (check_deadline m started deadline) (retA digest)))) chunks))"

definition classification_ok :: "pyval \<Rightarrow> (string \<times> string) list \<Rightarrow> (string \<times> string) res" where
  \<comment> \<open>one element of a result shard, given those read before\<close>
  "classification_ok v observed =
     (case v of
        PDict d \<Rightarrow>
          (case dget_none d ''object_sha256'' of
             PStr digest \<Rightarrow>
               if \<not> keys_exactly d [''object_sha256'', ''outcome''] \<or> \<not> hex64 digest then Inl (op_failure ''status_invalid'')
               else if unhashable (dget_none d ''outcome'') then Inl (OtherExn ''TypeError'')
               else if \<not> in_states (dget_none d ''outcome'') [''deleted'', ''failed'', ''unattempted''] \<or> digest \<in> fst ` set observed
               then Inl (op_failure ''status_invalid'')
               else Inr (digest, str_val (dget_none d ''outcome''))
           | _ \<Rightarrow> Inl (op_failure ''status_invalid''))
      | _ \<Rightarrow> Inl (op_failure ''status_invalid''))"

fun observe :: "pyval list \<Rightarrow> (string \<times> string) list \<Rightarrow> (string \<times> string) list res" where
  "observe [] observed = Inr observed"
| "observe (v # vs) observed = bindE (classification_ok v observed) (\<lambda>p. observe vs (observed @ [p]))"

fun read_result_shards ::
  "'w op_manager \<Rightarrow> 'w gateway \<Rightarrow> string \<Rightarrow> string list \<Rightarrow> (string \<times> string) list \<Rightarrow> ('w, (string \<times> string) list) act" where
  "read_result_shards m gw base [] observed = retA observed"
| "read_result_shards m gw base (digest # digests) observed =
     bindA (ops_read_control gw (base @ ''/results/shards/'' @ digest @ ''.json'') (om_max_result_shard_bytes m) ''status_invalid'') (\<lambda>body.
     if sha256 body \<noteq> digest then raiseA (op_failure ''status_invalid'')
     else
     bindA (liftA (catchE (plain_loads body) (\<lambda>e. if e = OtherExn ''JSONDecodeError'' then op_failure ''status_invalid'' else e))) (\<lambda>v.
     case v of
       PList values \<Rightarrow>
         if canonical_json_bytes v (om_max_result_shard_bytes m) (max 4096 (int (length values) * 4 + 8)) \<noteq> Inr body
         then raiseA (op_failure ''status_invalid'')
         else bindA (liftA (observe values observed)) (read_result_shards m gw base digests)
     | _ \<Rightarrow> raiseA (op_failure ''status_invalid'')))"

definition outcome_digests :: "string \<Rightarrow> (string \<times> string) list \<Rightarrow> string list" where
  "outcome_digests o' observed = map fst (filter (\<lambda>(_, x). x = o') observed)"

definition sized :: "(string \<times> object_record) list \<Rightarrow> string list \<Rightarrow> int" where
  \<comment> \<open>the bytes of the digests under the dictionary from digests to records (a later equal key wins)\<close>
  "sized by_digest ds =
     sum_list (map (\<lambda>d. case map_of (rev by_digest) d of None \<Rightarrow> 0 | Some r \<Rightarrow> or_size r) ds)"

definition totals_ok :: "(string \<times> object_record) list \<Rightarrow> (string \<times> string) list \<Rightarrow> pydict \<Rightarrow> bool" where
  \<comment> \<open>the totals of a status against its classification\<close>
  "totals_ok by_digest observed status \<longleftrightarrow>
     (let deleted = outcome_digests ''deleted'' observed in
      py_eq (PInt (int (length deleted))) (dget_none status ''deleted_objects'') \<and>
      py_eq (PInt (int (length by_digest))) (dget_none status ''planned_objects'') \<and>
      py_eq (PInt (sized by_digest deleted)) (dget_none status ''deleted_bytes'') \<and>
      py_eq (PInt (sized by_digest (filter (\<lambda>d. d \<notin> set deleted) (remdups (map fst by_digest))))) (dget_none status ''remaining_bytes''))"

definition read_result_classification ::
  "'w op_manager \<Rightarrow> 'w gateway \<Rightarrow> string \<Rightarrow> pydict \<Rightarrow> object_record list \<Rightarrow> ('w, (string \<times> string) list) act" where
  "read_result_classification m gw base status records =
     (case dget_none status ''result_shards'' of
        PList digests \<Rightarrow>
          if digests = [] \<or> list_ex (\<lambda>v. \<not> is_str v \<or> \<not> hex64 (str_val v)) digests then raiseA (op_failure ''status_invalid'')
          else
          bindA (liftA (mapE record_digest records)) (\<lambda>expected.
          bindA (read_result_shards m gw base (map str_val digests) []) (\<lambda>observed.
          if fst ` set observed \<noteq> set expected \<or> \<not> totals_ok (zip expected records) observed status
          then raiseA (op_failure ''status_invalid'')
          else retA observed))
      | _ \<Rightarrow> raiseA (op_failure ''status_invalid''))"

end
