(* ===== verification/OpsHistory.thy ===== *)
theory OpsHistory
  imports OpsControl
begin

text \<open>
  \<^verbatim>\<open>scripts/checkpoints/operations.py\<close>, second part: the prepared record, the bound manifest,
  the append-only history of attempts and its audits.  \<open>latest_status\<close> reads every attempt of an
  operation, checks each one alone and then the history as a whole.
\<close>

section \<open>Prepared record and manifest\<close>

definition prepared_keys :: "string list" where
  "prepared_keys =
     [''actor'', ''checkpoint_id'', ''evaluated_at'', ''inventory_sha256'', ''manifest_shards'', ''operation_id'',
      ''plan_sha256'', ''policy_sha256'', ''prefix'', ''prefix_sha256'', ''prepared_at'', ''review'', ''schema_version'']"

definition str_matches :: "(string \<Rightarrow> bool) \<Rightarrow> pyval \<Rightarrow> bool" where
  "str_matches p v \<longleftrightarrow> is_str v \<and> p (str_val v)"

definition disposable_id :: string where
  "disposable_id = ''go-live-streaming-test-v1''"

definition prepared_ok :: "'w op_manager \<Rightarrow> string \<Rightarrow> string \<Rightarrow> pydict \<Rightarrow> bool" where
  \<comment> \<open>the checks of \<^verbatim>\<open>_decode_prepared\<close> that raise \<^verbatim>\<open>ValueError\<close> or \<^verbatim>\<open>TypeError\<close>\<close>
  "prepared_ok m body opid d \<longleftrightarrow>
     keys_exactly d prepared_keys \<and>
     canonical_json_bytes (PDict d) (om_max_summary_bytes m) max_json_nodes = Inr body \<and>
     py_eq (dget_none d ''schema_version'') (PInt 1) \<and> dget_none d ''operation_id'' = PStr opid \<and>
     str_matches identity_pattern (dget_none d ''actor'') \<and> str_matches identity_pattern (dget_none d ''review'') \<and>
     dget_none d ''checkpoint_id'' = PStr disposable_id \<and>
     str_matches (\<lambda>p. isascii p \<and> disposable_prefix p) (dget_none d ''prefix'') \<and>
     dget_none d ''prefix_sha256'' = PStr (sha256 (str_val (dget_none d ''prefix''))) \<and>
     str_matches hex64 (dget_none d ''plan_sha256'') \<and> str_matches hex64 (dget_none d ''policy_sha256'') \<and>
     str_matches hex64 (dget_none d ''inventory_sha256'') \<and>
     is_list (dget_none d ''manifest_shards'') \<and>
     (let shards = list_val (dget_none d ''manifest_shards'')
      in shards \<noteq> [] \<and> list_all (str_matches hex64) shards \<and> distinct (map str_val shards)) \<and>
     (case (parse_utc (dget_none d ''evaluated_at''), parse_utc (dget_none d ''prepared_at'')) of
        (Some evaluated, Some prepared) \<Rightarrow> evaluated \<le> prepared
      | _ \<Rightarrow> False)"

definition op_decode_error :: "string \<Rightarrow> exn \<Rightarrow> exn" where
  "op_decode_error code e = (if decode_failure e then op_failure code else e)"

definition decode_prepared :: "'w op_manager \<Rightarrow> string \<Rightarrow> string \<Rightarrow> pydict res" where
  "decode_prepared m body opid =
     bindE (catchE (plain_loads body) (op_decode_error ''prepared_invalid'')) (\<lambda>v.
     case v of
       PDict d \<Rightarrow>
         if \<not> prepared_ok m body opid d then Inl (op_failure ''prepared_invalid'')
         else if dget_none d ''policy_sha256'' \<noteq> PStr (om_policy_sha256 m) then Inl (op_failure ''policy_drift'')
         else Inr d
     | _ \<Rightarrow> Inl (op_failure ''prepared_invalid''))"

definition existing_prepared :: "'w op_manager \<Rightarrow> 'w gateway \<Rightarrow> string \<Rightarrow> string \<Rightarrow> ('w, pydict option) act" where
  "existing_prepared m gw key opid =
     tryA (gw_read_control gw key (om_max_summary_bytes m))
       (\<lambda>e. if (is_gateway e \<and> exn_code e = Some ''control_missing'') \<or> e = OtherExn ''KeyError'' then retA None
            else raiseA (op_error ''prepared_read_failed'' e))
       (\<lambda>(body, _). bindA (liftA (decode_prepared m body opid)) (\<lambda>d. retA (Some d)))"

definition manifest_record :: "pyval \<Rightarrow> object_record res" where
  "manifest_record v =
     (case v of
        PDict d \<Rightarrow>
          if \<not> keys_exactly d [''etag'', ''key'', ''last_modified'', ''size_bytes''] then Inl (OtherExn ''ValueError'')
          else make_object_record (dget_none d ''key'') (dget_none d ''etag'') (dget_none d ''size_bytes'')
                 (case parse_utc (dget_none d ''last_modified'') of None \<Rightarrow> PNone | Some t \<Rightarrow> utc t)
      | _ \<Rightarrow> Inl (OtherExn ''ValueError''))"

definition manifest_records :: "'w op_manager \<Rightarrow> string \<Rightarrow> object_record list res" where
  \<comment> \<open>one shard of the manifest\<close>
  "manifest_records m body =
     bindE (catchE
              (bindE (plain_loads body) (\<lambda>v.
               case v of
                 PList values \<Rightarrow> bindE (mapE manifest_record values) (\<lambda>rs. Inr (values, rs))
               | _ \<Rightarrow> Inl (OtherExn ''ValueError'')))
              (op_decode_error ''manifest_invalid'')) (\<lambda>(values, rs).
     if canonical_json_bytes (PList values) (om_max_result_shard_bytes m) (max 4096 (int (length values) * 8 + 8)) \<noteq> Inr body
     then Inl (op_failure ''manifest_invalid'')
     else Inr rs)"

fun any_unmatched :: "(string \<Rightarrow> bool) \<Rightarrow> pyval list \<Rightarrow> bool res" where
  "any_unmatched p [] = Inr False"
| "any_unmatched p (v # vs) = bindE (fullmatch_or p v) (\<lambda>ok. if ok then any_unmatched p vs else Inr True)"

fun read_manifest_shards :: "'w op_manager \<Rightarrow> 'w gateway \<Rightarrow> string \<Rightarrow> (int \<times> string) list \<Rightarrow> ('w, object_record list) act" where
  "read_manifest_shards m gw base [] = retA []"
| "read_manifest_shards m gw base ((index, digest) # shards) =
     bindA (ops_read_control gw (base @ ''/manifest/'' @ dec_int index @ ''-'' @ digest @ ''.json'') 1048576 ''manifest_read_failed'') (\<lambda>body.
     if sha256 body \<noteq> digest then raiseA (op_failure ''manifest_digest_mismatch'')
     else
     bindA (liftA (manifest_records m body)) (\<lambda>rs.
     bindA (read_manifest_shards m gw base shards) (\<lambda>rest. retA (rs @ rest))))"

definition read_manifest :: "'w op_manager \<Rightarrow> 'w gateway \<Rightarrow> string \<Rightarrow> pyval \<Rightarrow> ('w, object_record list) act" where
  "read_manifest m gw base shards =
     (case shards of
        PList digests \<Rightarrow>
          bindA (liftA (any_unmatched hex64 digests)) (\<lambda>bad.
          if bad then raiseA (op_failure ''prepared_invalid'')
          else
          bindA (read_manifest_shards m gw base (enum_from 0 (map str_val digests))) (\<lambda>rs.
          if rs = [] then raiseA (op_failure ''manifest_empty'') else retA rs))
      | _ \<Rightarrow> raiseA (op_failure ''prepared_invalid''))"

definition read_bound_manifest :: "'w op_manager \<Rightarrow> 'w gateway \<Rightarrow> string \<Rightarrow> pydict \<Rightarrow> ('w, object_record list) act" where
  "read_bound_manifest m gw base prepared =
     bindA (read_manifest m gw base (dget_none prepared ''manifest_shards'')) (\<lambda>records.
     bindA (liftA (inventory_sha256 records)) (\<lambda>digest.
     if dget_none prepared ''inventory_sha256'' \<noteq> PStr digest then raiseA (op_failure ''status_invalid'') else retA records))"

section \<open>Attempts\<close>

definition attempt_value ::
  "int \<Rightarrow> string \<Rightarrow> pyval \<Rightarrow> string \<Rightarrow> pyval \<Rightarrow> int \<Rightarrow> object_record list \<Rightarrow> object_record list \<Rightarrow> pyval \<Rightarrow> int \<Rightarrow> int \<Rightarrow>
   pyval \<Rightarrow> string list \<Rightarrow> int \<Rightarrow> pydict" where
  "attempt_value sequence opid cid state plan_sha planned deleted remaining primary heads deletes postflight shards occurred = sdict
     [(''attempt_sequence'', PInt sequence), (''deleted_bytes'', PInt (sum_list (map or_size deleted))),
      (''deleted_objects'', PInt (int (length deleted))), (''delete_requests'', PInt deletes), (''checkpoint_id'', cid),
      (''head_requests'', PInt heads), (''occurred_at'', PStr (format_utc occurred)), (''operation_id'', PStr opid),
      (''plan_sha256'', plan_sha), (''planned_objects'', PInt planned),
      (''postflight_inventory_sha256'', postflight), (''primary_category'', primary),
      (''remaining_bytes'', PInt (sum_list (map or_size remaining))),
      (''remaining_objects'', PInt (int (length remaining))), (''result_shards'', PTuple (map PStr shards)),
      (''schema_version'', PInt 1), (''state'', PStr state)]"

definition attempt_key :: "string \<Rightarrow> int \<Rightarrow> string \<Rightarrow> string" where
  "attempt_key opid sequence digest =
     tombstone_base opid @ ''/results/attempts/'' @ zero_pad 6 (dec_int sequence) @ ''-'' @ digest @ ''.json''"

record attempt =
  \<comment> \<open>the keyword arguments of \<^verbatim>\<open>_record_status\<close>\<close>
  at_state :: string
  at_deleted :: "object_record list"
  at_primary :: pyval
  at_heads :: int
  at_deletes :: int
  at_postflight :: pyval
  at_deadline :: "int option"
  at_occurred :: "int option"
  at_failed :: "object_record list"

definition record_status ::
  "'w op_manager \<Rightarrow> 'w gateway \<Rightarrow> string \<Rightarrow> pyval \<Rightarrow> pyval \<Rightarrow> object_record list \<Rightarrow> rat \<Rightarrow> attempt \<Rightarrow> ('w, operation_status) act" where
  "record_status m gw opid cid plan_sha planned started a =
     bindA (liftA (mapE record_digest (at_deleted a))) (\<lambda>deleted_digests.
     bindA (liftA (mapE record_digest (at_failed a))) (\<lambda>failed_digests.
     bindA (liftA (mapE record_digest planned)) (\<lambda>digests.
     bindA (write_result_shards m gw opid (map (classify deleted_digests failed_digests) digests) started (at_deadline a)) (\<lambda>shards.
     let marked = zip digests planned;
         deleted = map snd (filter (\<lambda>(d, _). d \<in> set deleted_digests) marked);
         remaining = map snd (filter (\<lambda>(d, _). d \<notin> set deleted_digests) marked) in
     bindA (list_attempts gw opid) (\<lambda>ks.
     let sequence = int (length ks) + 1 in
     seqA (guardA (sequence > 1024) (op_failure ''attempt_bound'')) (
     bindA (case at_occurred a of None \<Rightarrow> op_exact_now m | Some t \<Rightarrow> retA t) (\<lambda>occurred.
     bindA (liftA (canonical_json_bytes
              (PDict (attempt_value sequence opid cid (at_state a) plan_sha (int (length planned)) deleted remaining (at_primary a)
                        (at_heads a) (at_deletes a) (at_postflight a) shards occurred))
              (om_max_summary_bytes m) max_json_nodes)) (\<lambda>body.
     seqA (create_identical gw (attempt_key opid sequence (sha256 body)) body (om_max_summary_bytes m)) (
     seqA (check_deadline m started (at_deadline a)) (
     retA \<lparr>os_operation_id = opid, os_state = at_state a, os_body = body\<rparr>))))))))))"

section \<open>Audits\<close>

definition audit_status_keys :: "string list" where
  "audit_status_keys =
     [''attempt_sequence'', ''state'', ''deleted_bytes'', ''deleted_objects'', ''delete_requests'', ''head_requests'',
      ''occurred_at'', ''plan_sha256'', ''planned_objects'', ''remaining_bytes'', ''postflight_inventory_sha256'',
      ''primary_category'', ''remaining_objects'', ''result_shards'']"

definition audit_prepared_keys :: "string list" where
  "audit_prepared_keys =
     [''actor'', ''checkpoint_id'', ''manifest_shards'', ''evaluated_at'', ''policy_sha256'', ''prepared_at'',
      ''prefix_sha256'', ''review'']"

definition attempt_id :: "string \<Rightarrow> pyval \<Rightarrow> string \<Rightarrow> string" where
  "attempt_id opid sequence body = uuid5 opid (dec_int (int_val sequence) @ '':'' @ sha256 body)"

definition audit_value :: "string \<Rightarrow> pydict \<Rightarrow> pydict \<Rightarrow> string \<Rightarrow> pydict" where
  "audit_value opid prepared v body = sdict
     [(''actor'', dget_none prepared ''actor''), (''attempt_id'', PStr (attempt_id opid (dget_none v ''attempt_sequence'') body)),
      (''attempt_sequence'', dget_none v ''attempt_sequence''),
      (''capability_profile'', PStr ''minio-2025-09-manual-verified-readback''),
      (''checkpoint_id'', dget_none prepared ''checkpoint_id''), (''decision'', dget_none v ''state''),
      (''deleted_bytes'', dget_none v ''deleted_bytes''), (''deleted_objects'', dget_none v ''deleted_objects''),
      (''delete_requests'', dget_none v ''delete_requests''), (''head_requests'', dget_none v ''head_requests''),
      (''manifest_shards'', dget_none prepared ''manifest_shards''), (''evaluated_at'', dget_none prepared ''evaluated_at''),
      (''occurred_at'', dget_none v ''occurred_at''), (''operation_id'', PStr opid), (''plan_sha256'', dget_none v ''plan_sha256''),
      (''planned_objects'', dget_none v ''planned_objects''),
      (''planned_bytes'', PInt (int_val (dget_none v ''deleted_bytes'') + int_val (dget_none v ''remaining_bytes''))),
      (''policy_sha256'', dget_none prepared ''policy_sha256''),
      (''postflight_inventory_sha256'', dget_none v ''postflight_inventory_sha256''),
      (''prepared_at'', dget_none prepared ''prepared_at''), (''prefix_sha256'', dget_none prepared ''prefix_sha256''),
      (''primary_category'', dget_none v ''primary_category''),
      (''refusal_codes'', PList (if dget_none v ''primary_category'' = PNone then [] else [dget_none v ''primary_category''])),
      (''remaining_bytes'', dget_none v ''remaining_bytes''), (''remaining_objects'', dget_none v ''remaining_objects''),
      (''review'', dget_none prepared ''review''), (''result_sha256'', PStr (sha256 body)),
      (''result_shards'', dget_none v ''result_shards''), (''schema_version'', PInt 1)]"

definition audit_key :: "string \<Rightarrow> string \<Rightarrow> string" where
  "audit_key opid aid = ''_retention/audits/'' @ opid @ ''/'' @ aid @ ''.json''"

definition audit_fields :: "string \<Rightarrow> pydict \<Rightarrow> pydict res" where
  \<comment> \<open>the status of an audit, with the failures of its subscriptions\<close>
  "audit_fields body prepared =
     bindE (plain_loads body) (\<lambda>v.
     case v of
       PDict d \<Rightarrow>
         if list_ex (\<lambda>k. dget d k = None) audit_status_keys \<or> list_ex (\<lambda>k. dget prepared k = None) audit_prepared_keys
         then Inl (OtherExn ''KeyError'')
         else if \<not> is_int (dget_none d ''deleted_bytes'') \<or> \<not> is_int (dget_none d ''remaining_bytes'') then Inl (OtherExn ''TypeError'')
         else Inr d
     | _ \<Rightarrow> Inl (OtherExn ''TypeError''))"

definition ensure_audit :: "'w op_manager \<Rightarrow> 'w gateway \<Rightarrow> string \<Rightarrow> operation_status \<Rightarrow> pydict \<Rightarrow> ('w, unit) act" where
  "ensure_audit m gw opid status prepared =
     (let body = os_body status; max_len = om_max_summary_bytes m in
     bindA (liftA (audit_fields body prepared)) (\<lambda>v.
     bindA (liftA (canonical_json_bytes (PDict (audit_value opid prepared v body)) max_len max_json_nodes)) (\<lambda>audit_body.
     let key = audit_key opid (attempt_id opid (dget_none v ''attempt_sequence'') body) in
     tryA (gw_read_control gw key max_len)
       (\<lambda>e. if e = OtherExn ''KeyError'' \<or> (is_gateway e \<and> exn_code e = Some ''control_missing'')
            then create_identical gw key audit_body max_len
            else raiseA (if is_gateway e then op_error ''audit_read_failed'' e else e))
       (\<lambda>(existing, _). guardA (existing \<noteq> audit_body) (op_failure ''control_conflict'')))))"


section \<open>The history of an operation\<close>

definition status_states :: "string list" where
  "status_states = [''prepared'', ''not_ready'', ''partial'', ''completed'', ''refused'']"

definition status_keys :: "string list" where
  "status_keys =
     [''checkpoint_id'', ''attempt_sequence'', ''deleted_bytes'', ''deleted_objects'', ''delete_requests'', ''head_requests'',
      ''occurred_at'', ''operation_id'', ''plan_sha256'', ''planned_objects'', ''postflight_inventory_sha256'',
      ''primary_category'', ''remaining_bytes'', ''remaining_objects'', ''result_shards'', ''schema_version'', ''state'']"

definition primary_categories :: "string \<Rightarrow> string list" where
  \<comment> \<open>\<^verbatim>\<open>_STATUS_PRIMARY_CATEGORIES\<close>\<close>
  "primary_categories s =
     (case map_of
        [(''not_ready'', [''quiescence_not_ready'']),
         (''partial'', [''delete_partial'', ''head_mismatch'', ''operation_deadline'', ''postflight_not_empty'']),
         (''refused'', [''delete_partial'', ''head_mismatch'', ''operation_deadline'', ''revalidation_failed'', ''revalidation_mismatch''])] s of
        None \<Rightarrow> [] | Some cs \<Rightarrow> cs)"

definition int_at_least :: "int \<Rightarrow> pyval \<Rightarrow> bool" where
  "int_at_least n v \<longleftrightarrow> is_int v \<and> n \<le> int_val v"

definition status_counts_ok :: "pydict \<Rightarrow> bool" where
  "status_counts_ok v \<longleftrightarrow>
     int_at_least 0 (dget_none v ''deleted_objects'') \<and> int_at_least 0 (dget_none v ''deleted_bytes'') \<and>
     int_at_least 1 (dget_none v ''planned_objects'') \<and> int_at_least 0 (dget_none v ''remaining_objects'') \<and>
     int_val (dget_none v ''deleted_objects'') + int_val (dget_none v ''remaining_objects'') = int_val (dget_none v ''planned_objects'') \<and>
     int_at_least 0 (dget_none v ''remaining_bytes'') \<and> int_at_least 1 (dget_none v ''attempt_sequence'') \<and>
     parse_utc (dget_none v ''occurred_at'') \<noteq> None \<and>
     int_at_least 0 (dget_none v ''head_requests'') \<and> int_at_least 0 (dget_none v ''delete_requests'')"

definition status_primary_ok :: "string \<Rightarrow> pyval \<Rightarrow> bool" where
  "status_primary_ok state primary \<longleftrightarrow>
     (if state \<in> set [''prepared'', ''completed''] then primary = PNone
      else is_str primary \<and> str_val primary \<in> set (primary_categories state))"

definition status_shape :: "string \<Rightarrow> string \<Rightarrow> pydict \<Rightarrow> string \<Rightarrow> bool \<Rightarrow> pydict \<Rightarrow> bool res" where
  \<comment> \<open>the conditions of \<^verbatim>\<open>_latest_status\<close> on one attempt, in the order in which they may raise\<close>
  "status_shape opid key prepared body canonical v =
     (let state = dget_none v ''state''; shards = dget_none v ''result_shards''; post = dget_none v ''postflight_inventory_sha256'' in
      if unhashable state then Inl (OtherExn ''TypeError'')
      else if \<not> in_states state status_states \<or> \<not> keys_exactly v status_keys \<or> \<not> canonical \<or>
              \<not> py_eq (dget_none v ''schema_version'') (PInt 1) \<or>
              \<not> str_matches identity_pattern (dget_none v ''checkpoint_id'') \<or>
              \<not> str_matches hex64 (dget_none v ''plan_sha256'') \<or> \<not> status_counts_ok v \<or>
              \<not> is_list shards \<or> list_val shards = [] then Inr False
      else if list_ex unhashable (list_val shards) then Inl (OtherExn ''TypeError'')
      else if \<not> list_all (str_matches hex64) (list_val shards) \<or> \<not> distinct (map str_val (list_val shards)) \<or>
              \<not> status_primary_ok (str_val state) (dget_none v ''primary_category'') then Inr False
      else bindE (if post = PNone then Inr True else fullmatch_or hex64 post) (\<lambda>post_ok.
        Inr (post_ok \<and> dget_none v ''operation_id'' = PStr opid \<and>
             py_eq (dget_none v ''checkpoint_id'') (dget_none prepared ''checkpoint_id'') \<and>
             py_eq (dget_none v ''plan_sha256'') (dget_none prepared ''plan_sha256'') \<and>
             endswith key (''/'' @ zero_pad 6 (dec_int (int_val (dget_none v ''attempt_sequence''))) @ ''-'' @ sha256 body @ ''.json''))))"

definition empty_inventory_sha256 :: string where
  \<comment> \<open>\<^verbatim>\<open>inventory_sha256(())\<close>\<close>
  "empty_inventory_sha256 = sha256 ''[]''"

definition status_outcomes_ok :: "pydict \<Rightarrow> (string \<times> string) list \<Rightarrow> object_record list \<Rightarrow> bool" where
  \<comment> \<open>the conditions on an attempt together with its classification\<close>
  "status_outcomes_ok v observed records \<longleftrightarrow>
     (let state = str_val (dget_none v ''state''); deleted = outcome_digests ''deleted'' observed; outcomes = snd ` set observed in
      (state \<in> set [''prepared'', ''not_ready''] \<longrightarrow>
         outcomes = {''unattempted''} \<and> deleted = [] \<and> int_val (dget_none v ''deleted_bytes'') = 0 \<and>
         int_val (dget_none v ''head_requests'') = 0 \<and> int_val (dget_none v ''delete_requests'') = 0 \<and>
         dget_none v ''postflight_inventory_sha256'' = PNone) \<and>
      (state = ''not_ready'' \<longrightarrow> dget_none v ''primary_category'' = PStr ''quiescence_not_ready'') \<and>
      (state = ''partial'' \<longrightarrow> deleted \<noteq> []) \<and>
      (state = ''completed'' \<longrightarrow>
         outcomes = {''deleted''} \<and> length deleted = length records \<and> int_val (dget_none v ''remaining_objects'') = 0 \<and>
         int_val (dget_none v ''remaining_bytes'') = 0 \<and>
         dget_none v ''postflight_inventory_sha256'' = PStr empty_inventory_sha256))"

record history_item =
  hi_sequence :: int
  hi_value :: pydict
  hi_deleted :: "string list"
  hi_status :: operation_status

definition parse_status :: "'w op_manager \<Rightarrow> string \<Rightarrow> (pydict \<times> bool) res" where
  \<comment> \<open>the guarded reading of one attempt: its fields and whether its text is canonical\<close>
  "parse_status m body =
     bindE (catchE (plain_loads body) (\<lambda>e. if e = OtherExn ''JSONDecodeError'' then op_failure ''status_invalid'' else e)) (\<lambda>v.
     case v of
       PDict d \<Rightarrow>
         if dget d ''state'' = None \<or> dget d ''deleted_objects'' = None then Inl (op_failure ''status_invalid'')
         else bindE (canonical_json_bytes v (om_max_summary_bytes m) max_json_nodes) (\<lambda>c. Inr (d, c = body))
     | _ \<Rightarrow> Inl (op_failure ''status_invalid''))"

definition read_attempt ::
  "'w op_manager \<Rightarrow> 'w gateway \<Rightarrow> string \<Rightarrow> pydict \<Rightarrow> object_record list \<Rightarrow> string \<Rightarrow> ('w, history_item) act" where
  "read_attempt m gw opid prepared records key =
     bindA (ops_read_control gw key (om_max_summary_bytes m) ''status_invalid'') (\<lambda>body.
     bindA (liftA (parse_status m body)) (\<lambda>(v, canonical).
     bindA (liftA (status_shape opid key prepared body canonical v)) (\<lambda>ok.
     if \<not> ok then raiseA (op_failure ''status_invalid'')
     else
     bindA (read_result_classification m gw (tombstone_base opid) v records) (\<lambda>observed.
     if \<not> status_outcomes_ok v observed records then raiseA (op_failure ''status_invalid'')
     else retA \<lparr>hi_sequence = int_val (dget_none v ''attempt_sequence''), hi_value = v,
                hi_deleted = outcome_digests ''deleted'' observed,
                hi_status = \<lparr>os_operation_id = opid, os_state = str_val (dget_none v ''state''), os_body = body\<rparr>\<rparr>))))"

definition state_rank :: "string \<Rightarrow> int" where
  "state_rank s =
     (case map_of [(''prepared'', 0), (''not_ready'', 1), (''refused'', 2), (''partial'', 2), (''completed'', 3)] s of
        None \<Rightarrow> -1 | Some r \<Rightarrow> r)"

definition hi_state :: "history_item \<Rightarrow> string" where
  "hi_state i = str_val (dget_none (hi_value i) ''state'')"

definition hi_occurred :: "history_item \<Rightarrow> int" where
  "hi_occurred i = (case parse_utc (dget_none (hi_value i) ''occurred_at'') of None \<Rightarrow> 0 | Some t \<Rightarrow> t)"

fun history_steps_ok :: "nat \<Rightarrow> bool \<Rightarrow> string list \<Rightarrow> int option \<Rightarrow> int \<Rightarrow> history_item list \<Rightarrow> bool" where
  \<comment> \<open>the loop over the history: number of records, first item, deleted digests, time and rank of the item before\<close>
  "history_steps_ok n first last_deleted last_occurred last_rank [] = True"
| "history_steps_ok n first last_deleted last_occurred last_rank (i # is) =
     (\<not> (\<not> first \<and> hi_state i = ''prepared'') \<and> \<not> state_rank (hi_state i) < last_rank \<and>
      set last_deleted \<subseteq> set (hi_deleted i) \<and>
      \<not> (case last_occurred of None \<Rightarrow> False | Some t \<Rightarrow> hi_occurred i < t) \<and>
      \<not> (hi_state i = ''not_ready'' \<and> hi_deleted i \<noteq> []) \<and>
      \<not> (hi_state i = ''partial'' \<and> hi_deleted i = []) \<and>
      \<not> (hi_state i = ''completed'' \<and> length (hi_deleted i) \<noteq> n) \<and>
      history_steps_ok n False (hi_deleted i) (Some (hi_occurred i)) (state_rank (hi_state i)) is)"

definition history_ok :: "nat \<Rightarrow> history_item list \<Rightarrow> bool" where
  "history_ok n is \<longleftrightarrow>
     map hi_sequence is = map int [1..<length is + 1] \<and> hi_state (hd is) = ''prepared'' \<and>
     history_steps_ok n True [] None (-1) is \<and> list_all (\<lambda>i. hi_state i \<noteq> ''completed'') (butlast is)"

definition latest_status ::
  "'w op_manager \<Rightarrow> 'w gateway \<Rightarrow> string \<Rightarrow> bool \<Rightarrow> pydict \<Rightarrow> object_record list \<Rightarrow> bool \<Rightarrow> ('w, operation_status option) act" where
  "latest_status m gw opid required prepared records repair_audits =
     bindA (list_attempts gw opid) (\<lambda>ks.
     bindA (mapA (read_attempt m gw opid prepared records) ks) (\<lambda>items.
     if items = [] then (if required then raiseA (op_failure ''status_missing'') else retA None)
     else
     let ordered = sort_key hi_sequence items in
     if \<not> history_ok (length records) ordered then raiseA (op_failure ''status_ambiguous'')
     else
     seqA (forA (if repair_audits then ordered else []) (\<lambda>i. ensure_audit m gw opid (hi_status i) prepared)) (
     retA (Some (hi_status (last ordered))))))"

end
