(* ===== verification/Operations.thy ===== *)
theory Operations
  imports OpsHistory Trace
begin

text \<open>
  \<^verbatim>\<open>scripts/checkpoints/operations.py\<close>, third part: \<^verbatim>\<open>prepare\<close>, \<^verbatim>\<open>apply\<close>
  and \<^verbatim>\<open>status\<close>.  The local variables that the exception handler of \<^verbatim>\<open>_apply_locked\<close>
  reads (deleted records, request counters, current batch and record) are the record \<open>sweep\<close>; the
  deletion loop is an action over the world paired with it, so that they survive an exception.
\<close>

section \<open>Actions with local variables\<close>

definition updS :: "('s \<Rightarrow> 's) \<Rightarrow> ('w \<times> 's, unit) act" where
  "updS f = (\<lambda>(w, s). (Inr (), (w, f s)))"

definition runS :: "('w \<times> 's, 'a) act \<Rightarrow> 's \<Rightarrow> ('w, 'a res \<times> 's) act" where
  \<comment> \<open>the outcome and the final local variables\<close>
  "runS m s w = (case m (w, s) of (r, (w', s')) \<Rightarrow> (Inr (r, s'), w'))"

section \<open>Prepare\<close>

fun iter_values :: "pyval \<Rightarrow> pyval list option" where
  \<comment> \<open>the elements of a JSON value that has a length\<close>
  "iter_values (PList xs) = Some xs"
| "iter_values (PDict d) = Some (map fst d)"
| "iter_values (PStr s) = Some (map (\<lambda>c. PStr [c]) s)"
| "iter_values _ = None"

definition shard_matches :: "pyval \<Rightarrow> manifest_shard \<Rightarrow> bool" where
  "shard_matches v s \<longleftrightarrow>
     canonical_json_bytes v (int (length (ms_body s))) (max 4096 (int (length (ms_records s)) * 8 + 8)) = Inr (ms_body s) \<and>
     sha256 (ms_body s) = ms_sha256 s"

definition same_canonical :: "pyval \<Rightarrow> pyval \<Rightarrow> bool" where
  "same_canonical a b \<longleftrightarrow> (case (canonical_json a, canonical_json b) of (Inr x, Inr y) \<Rightarrow> x = y | _ \<Rightarrow> False)"

definition artifact_consistent :: "plan_artifact \<Rightarrow> bool res" where
  \<comment> \<open>the guarded block of \<^verbatim>\<open>_validate_prepare\<close>: the body says what the artifact's fields say\<close>
  "artifact_consistent art =
     bindE (catchE (plain_loads (pa_body art)) (op_decode_error ''plan_invalid'')) (\<lambda>v.
     case v of
       PDict d \<Rightarrow>
         Inr (keys_exactly d [''schema_version'', ''summary'', ''shards''] \<and> py_eq (dget_none d ''schema_version'') (PInt 1) \<and>
              same_canonical (dget_none d ''summary'') (PDict (pa_summary art)) \<and>
              (case iter_values (dget_none d ''shards'') of
                 None \<Rightarrow> False
               | Some xs \<Rightarrow> length xs = length (pa_shards art) \<and> list_all (\<lambda>(x, s). shard_matches x s) (zip xs (pa_shards art))))
     | _ \<Rightarrow> Inr False)"


definition validate_prepare :: "'w op_manager \<Rightarrow> prepare_request \<Rightarrow> plan_artifact res" where
  "validate_prepare m req =
     (let art = pr_artifact req; summary = pa_summary art in
      if \<not> uuid_shape (pr_operation_id req) then Inl (op_failure ''operation_id_invalid'')
      else if pr_plan_sha256 req \<noteq> pa_sha256 art \<or> \<not> hex64 (pr_plan_sha256 req) then Inl (op_failure ''plan_digest_mismatch'')
      else if \<not> identity_pattern (pr_review req) \<or> \<not> identity_pattern (pr_actor req) then Inl (op_failure ''review_identity_invalid'')
      else bindE (artifact_consistent art) (\<lambda>ok.
        if \<not> ok then Inl (op_failure ''plan_invalid'')
        else if dget_none summary ''decision'' \<noteq> PStr ''eligible'' then Inl (op_failure ''plan_refused'')
        else if dget_none summary ''policy_sha256'' \<noteq> PStr (om_policy_sha256 m) then Inl (op_failure ''policy_drift'')
        else if dget_none summary ''actor'' \<noteq> PStr (pr_actor req) then Inl (op_failure ''actor_mismatch'')
        else if dget_none summary ''checkpoint_id'' \<noteq> PStr disposable_id \<or>
                \<not> str_matches disposable_prefix (dget_none summary ''prefix'')
        then Inl (op_failure ''destructive_scope_invalid'')
        else Inr art))"

definition prepared_identity :: "prepare_request \<Rightarrow> pydict \<Rightarrow> pydict res" where
  "prepared_identity req summary =
     bindE (ditem summary ''checkpoint_id'') (\<lambda>cid.
     bindE (ditem summary ''evaluated_at'') (\<lambda>evaluated.
     bindE (ditem summary ''inventory'') (\<lambda>inventory.
     bindE (case inventory of PDict i \<Rightarrow> ditem i ''sha256'' | _ \<Rightarrow> Inl (OtherExn ''TypeError'')) (\<lambda>inventory_digest.
     bindE (ditem summary ''policy_sha256'') (\<lambda>policy_digest.
     bindE (ditem summary ''prefix'') (\<lambda>prefix.
     bindE (ditem summary ''prefix_sha256'') (\<lambda>prefix_digest.
     Inr (sdict
       [(''actor'', PStr (pr_actor req)), (''checkpoint_id'', cid), (''evaluated_at'', evaluated), (''inventory_sha256'', inventory_digest),
        (''manifest_shards'', PList (map (\<lambda>s. PStr (ms_sha256 s)) (pa_shards (pr_artifact req)))),
        (''operation_id'', PStr (pr_operation_id req)), (''plan_sha256'', PStr (pr_plan_sha256 req)), (''policy_sha256'', policy_digest),
        (''prefix'', prefix), (''prefix_sha256'', prefix_digest), (''review'', PStr (pr_review req)), (''schema_version'', PInt 1)]))))))))"

definition prove_completed_absence :: "'w op_manager \<Rightarrow> 'w gateway \<Rightarrow> string \<Rightarrow> operation_status \<Rightarrow> rat \<Rightarrow> ('w, unit) act" where
  "prove_completed_absence m gw prefix status started =
     bindA (liftA (plain_loads (os_body status))) (\<lambda>v.
     bindA (gw_inventory gw prefix) (\<lambda>remaining.
     seqA (check_deadline m started None) (
     if remaining \<noteq> [] then raiseA (op_failure ''status_invalid'')
     else case v of
            PDict d \<Rightarrow> guardA (dget_none d ''postflight_inventory_sha256'' \<noteq> PStr empty_inventory_sha256) (op_failure ''status_invalid'')
          | _ \<Rightarrow> raiseA (OtherExn ''AttributeError''))))"

definition required_status :: "'w op_manager \<Rightarrow> 'w gateway \<Rightarrow> string \<Rightarrow> pydict \<Rightarrow> object_record list \<Rightarrow> bool \<Rightarrow> ('w, operation_status) act" where
  \<comment> \<open>\<^verbatim>\<open>_latest_status(..., required=True)\<close> and the assertion after it\<close>
  "required_status m gw opid prepared records repair =
     bindA (latest_status m gw opid True prepared records repair) (\<lambda>s.
     case s of None \<Rightarrow> raiseA (OtherExn ''AssertionError'') | Some st \<Rightarrow> retA st)"

definition plain_attempt :: "string \<Rightarrow> object_record list \<Rightarrow> pyval \<Rightarrow> int option \<Rightarrow> attempt" where
  \<comment> \<open>an attempt that issued no head or delete request\<close>
  "plain_attempt state deleted primary occurred =
     \<lparr>at_state = state, at_deleted = deleted, at_primary = primary, at_heads = 0, at_deletes = 0, at_postflight = PNone,
      at_deadline = None, at_occurred = occurred, at_failed = []\<rparr>"

definition record_audited ::
  "'w op_manager \<Rightarrow> 'w gateway \<Rightarrow> string \<Rightarrow> pyval \<Rightarrow> pydict \<Rightarrow> object_record list \<Rightarrow> rat \<Rightarrow> attempt \<Rightarrow> ('w, operation_status) act" where
  \<comment> \<open>\<^verbatim>\<open>status = self._record_status(...)\<close> followed by \<^verbatim>\<open>self._ensure_audit(...)\<close>\<close>
  "record_audited m gw opid plan_sha prepared records started a =
     bindA (record_status m gw opid (dget_none prepared ''checkpoint_id'') plan_sha records started a) (\<lambda>status.
     seqA (ensure_audit m gw opid status prepared) (retA status))"

definition prepare :: "'w op_manager \<Rightarrow> 'w gateway \<Rightarrow> prepare_request \<Rightarrow> ('w, operation_status) act" where
  "prepare m gw req =
     bindA (start_deadline m) (\<lambda>started.
     bindA (liftA (validate_prepare m req)) (\<lambda>art.
     let opid = pr_operation_id req; base = tombstone_base opid; prepared_key = base @ ''/prepared.json'';
         records = concat (map ms_records (pa_shards art)) in
     seqA (forA (pa_shards art) (\<lambda>s.
             create_identical gw (base @ ''/manifest/'' @ dec_int (ms_index s) @ ''-'' @ ms_sha256 s @ ''.json'') (ms_body s) (int (length (ms_body s))))) (
     bindA (liftA (prepared_identity req (pa_summary art))) (\<lambda>identity.
     bindA (existing_prepared m gw prepared_key opid) (\<lambda>existing.
     bindA (case existing of
              Some p \<Rightarrow>
                if \<not> py_eq (PDict (ddel p ''prepared_at'')) (PDict identity) then raiseA (op_failure ''control_conflict'')
                else
                bindA (latest_status m gw opid False p records False) (\<lambda>prior.
                case prior of
                  None \<Rightarrow> retA (Inr p)
                | Some st \<Rightarrow>
                    seqA (if os_state st = ''completed''
                          then prove_completed_absence m gw (str_val (dget_none p ''prefix'')) st started else retA ()) (
                    bindA (required_status m gw opid p records True) (\<lambda>repaired. retA (Inl repaired))))
            | None \<Rightarrow>
                bindA (op_exact_now m) (\<lambda>now.
                let p = identity @ sdict [(''prepared_at'', PStr (format_utc now))] in
                bindA (liftA (catchE (canonical_json_bytes (PDict p) (om_max_summary_bytes m) max_json_nodes)
                                (\<lambda>e. if is_record e then op_failure ''prepared_body_invalid'' else e))) (\<lambda>body.
                seqA (create_identical gw prepared_key body (om_max_summary_bytes m)) (retA (Inr p))))) (\<lambda>r.
     case r of
       Inl repaired \<Rightarrow> retA repaired
     | Inr p \<Rightarrow> record_audited m gw opid (PStr (pr_plan_sha256 req)) p records started (plain_attempt ''prepared'' [] PNone None)))))))"

section \<open>Apply\<close>

definition latest_or_reconstruct_prepared ::
  "'w op_manager \<Rightarrow> 'w gateway \<Rightarrow> string \<Rightarrow> pydict \<Rightarrow> object_record list \<Rightarrow> rat \<Rightarrow> ('w, operation_status) act" where
  "latest_or_reconstruct_prepared m gw opid prepared records started =
     bindA (latest_status m gw opid False prepared records False) (\<lambda>prior.
     case prior of
       Some st \<Rightarrow> retA st
     | None \<Rightarrow>
         (case parse_utc (dget_none prepared ''prepared_at'') of
            None \<Rightarrow> raiseA (op_failure ''prepared_invalid'')
          | Some prepared_at \<Rightarrow>
              record_audited m gw opid (dget_none prepared ''plan_sha256'') prepared records started
                (plain_attempt ''prepared'' [] PNone (Some prepared_at))))"

definition loads_dict :: "string \<Rightarrow> pydict res" where
  \<comment> \<open>\<^verbatim>\<open>json.loads(body)\<close> followed by a \<^verbatim>\<open>get\<close>\<close>
  "loads_dict body = bindE (plain_loads body) (\<lambda>v. case v of PDict d \<Rightarrow> Inr d | _ \<Rightarrow> Inl (OtherExn ''AttributeError''))"

definition apply_not_ready ::
  "'w op_manager \<Rightarrow> 'w gateway \<Rightarrow> apply_request \<Rightarrow> pydict \<Rightarrow> rat \<Rightarrow> int \<Rightarrow> ('w, operation_status) act" where
  \<comment> \<open>the branch of \<^verbatim>\<open>_apply\<close> before the quiescence period is over\<close>
  "apply_not_ready m gw req prepared started now =
     (let opid = ar_operation_id req in
     bindA (read_bound_manifest m gw (tombstone_base opid) prepared) (\<lambda>records.
     bindA (latest_or_reconstruct_prepared m gw opid prepared records started) (\<lambda>prior.
     seqA (if os_state prior = ''completed''
           then prove_completed_absence m gw (str_val (dget_none prepared ''prefix'')) prior started else retA ()) (
     bindA (required_status m gw opid prepared records True) (\<lambda>repaired.
     bindA (liftA (loads_dict (os_body repaired))) (\<lambda>v.
     if os_state repaired \<in> set [''refused'', ''partial'', ''completed''] \<or>
        (case parse_utc (dget_none v ''occurred_at'') of None \<Rightarrow> True | Some t \<Rightarrow> now < t)
     then retA repaired
     else record_audited m gw opid (PStr (ar_plan_sha256 req)) prepared records started
            (plain_attempt ''not_ready'' [] (PStr ''quiescence_not_ready'') (Some now))))))))"

definition status_error :: "exn \<Rightarrow> exn" where
  "status_error e =
     (if e \<in> set [OtherExn ''KeyError'', OtherExn ''TypeError'', OtherExn ''JSONDecodeError''] \<or> is_record e
      then op_failure ''status_invalid'' else e)"

definition prior_outcome ::
  "'w op_manager \<Rightarrow> 'w gateway \<Rightarrow> apply_request \<Rightarrow> pydict \<Rightarrow> object_record list \<Rightarrow> rat \<Rightarrow> int \<Rightarrow> operation_status \<Rightarrow>
   ('w, operation_status + string list) act" where
  \<comment> \<open>the first guarded block of \<^verbatim>\<open>_apply_locked\<close>: a status to return, or the digests deleted before\<close>
  "prior_outcome m gw req prepared records started now prior =
     (let opid = ar_operation_id req in
     mapexnA
       (bindA (liftA (loads_dict (os_body prior))) (\<lambda>v.
        case parse_utc (dget_none v ''occurred_at'') of
          None \<Rightarrow> raiseA (op_failure ''status_invalid'')
        | Some occurred \<Rightarrow>
            bindA (liftA (ditem v ''state'')) (\<lambda>state.
            if state = PStr ''completed'' then
              seqA (prove_completed_absence m gw (ar_confirm_prefix req) prior started) (
              bindA (required_status m gw opid prepared records True) (\<lambda>repaired. retA (Inl repaired)))
            else if now < occurred then retA (Inl prior)
            else
            bindA (required_status m gw opid prepared records True) (\<lambda>repaired.
            bindA (liftA (loads_dict (os_body repaired))) (\<lambda>v'.
            bindA (read_result_classification m gw (tombstone_base opid) v' records) (\<lambda>observed.
            retA (Inr (outcome_digests ''deleted'' observed))))))))
       status_error)"

definition revalidation_differs :: "'w op_manager \<Rightarrow> string \<Rightarrow> object_record list \<Rightarrow> plan_artifact \<Rightarrow> bool res" where
  "revalidation_differs m prefix remaining current =
     (let summary = pa_summary current in
      if dget_none summary ''decision'' \<noteq> PStr ''eligible'' \<or> dget_none summary ''policy_sha256'' \<noteq> PStr (om_policy_sha256 m) \<or>
         dget_none summary ''prefix'' \<noteq> PStr prefix then Inr True
      else case dget_or summary ''inventory'' (PDict []) of
             PDict i \<Rightarrow>
               bindE (inventory_sha256 remaining) (\<lambda>digest.
               Inr (dget_none i ''sha256'' \<noteq> PStr digest \<or> concat (map ms_records (pa_shards current)) \<noteq> remaining))
           | _ \<Rightarrow> Inl (OtherExn ''AttributeError''))"

definition refuse_attempt ::
  "'w op_manager \<Rightarrow> 'w gateway \<Rightarrow> apply_request \<Rightarrow> pydict \<Rightarrow> object_record list \<Rightarrow> object_record list \<Rightarrow> rat \<Rightarrow> int \<Rightarrow>
   string \<Rightarrow> exn \<Rightarrow> ('w, 'a) act" where
  \<comment> \<open>record a refused attempt with its audit, then raise\<close>
  "refuse_attempt m gw req prepared records deleted started now code e =
     bindA (record_audited m gw (ar_operation_id req) (PStr (ar_plan_sha256 req)) prepared records started
              (plain_attempt ''refused'' deleted (PStr code) (Some now))) (\<lambda>_. raiseA e)"

definition revalidate_remaining ::
  "'w op_manager \<Rightarrow> 'w gateway \<Rightarrow> apply_request \<Rightarrow> pydict \<Rightarrow> object_record list \<Rightarrow> object_record list \<Rightarrow> object_record list \<Rightarrow>
   rat \<Rightarrow> int \<Rightarrow> ('w, unit) act" where
  \<comment> \<open>objects remain: plan again and compare\<close>
  "revalidate_remaining m gw req prepared records remaining prior started now =
     (case om_revalidate m of
        None \<Rightarrow> raiseA (op_failure ''revalidation_unavailable'')
      | Some revalidate \<Rightarrow>
          bindA (tryA (bindA (op_exact_now m) (revalidate gw (ar_confirm_prefix req)))
                   (\<lambda>e. case e of
                          Interrupt \<Rightarrow> raiseA e
                        | OperationFailure _ _ \<Rightarrow> raiseA (op_error ''revalidation_failed'' e)
                        | GatewayFailure _ _ \<Rightarrow> raiseA (op_error ''revalidation_failed'' e)
                        | _ \<Rightarrow> refuse_attempt m gw req prepared records prior started now ''revalidation_failed'' (op_failure ''revalidation_failed''))
                   retA) (\<lambda>current.
          seqA (check_deadline m started None) (
          bindA (liftA (revalidation_differs m (ar_confirm_prefix req) remaining current)) (\<lambda>differs.
          if differs then refuse_attempt m gw req prepared records prior started now ''revalidation_mismatch'' (op_failure ''revalidation_mismatch'') else retA ()))))"

definition revalidate_empty ::
  "'w op_manager \<Rightarrow> 'w gateway \<Rightarrow> apply_request \<Rightarrow> pydict \<Rightarrow> object_record list \<Rightarrow> rat \<Rightarrow> int \<Rightarrow> ('w, unit) act" where
  \<comment> \<open>nothing remains: the prefix must be empty\<close>
  "revalidate_empty m gw req prepared records started now =
     tryA (bindA (gw_inventory gw (ar_confirm_prefix req)) (\<lambda>rs. guardA (rs \<noteq> []) (op_failure ''revalidation_mismatch'')))
       (\<lambda>e. case e of
              OperationFailure code _ \<Rightarrow>
                refuse_attempt m gw req prepared records records started now code e
            | GatewayFailure _ _ \<Rightarrow> raiseA (op_error ''revalidation_failed'' e)
            | _ \<Rightarrow> raiseA (op_failure ''revalidation_failed''))
       retA"

section \<open>The deletion loop\<close>

record sweep =
  sw_heads :: int
  sw_deleted :: "object_record list"
  sw_deletes :: int
  sw_postflight :: pyval
  sw_batch :: "object_record list"
  sw_record :: "object_record option"

fun take_batches :: "nat \<Rightarrow> object_record list \<Rightarrow> object_record list list" where
  "take_batches n [] = []"
| "take_batches n (r # rs) =
     (if n = 0 then [] else take n (r # rs) # take_batches n (drop (n - 1) rs))"

definition batches :: "int \<Rightarrow> object_record list \<Rightarrow> object_record list list res" where
  \<comment> \<open>the slices that \<^verbatim>\<open>range(0, len(rs), n)\<close> gives\<close>
  "batches n rs = (if n = 0 then Inl (OtherExn ''ValueError'') else Inr (take_batches (nat n) rs))"

definition sweep_batch :: "'w op_manager \<Rightarrow> 'w gateway \<Rightarrow> rat \<Rightarrow> object_record list \<Rightarrow> ('w \<times> sweep, unit) act" where
  "sweep_batch m gw started batch =
     seqA (onW (check_deadline m started None)) (
     seqA (updS (\<lambda>s. s\<lparr>sw_batch := batch\<rparr>)) (
     seqA (forA batch (\<lambda>r.
             seqA (updS (\<lambda>s. s\<lparr>sw_record := Some r, sw_heads := sw_heads s + 1\<rparr>)) (
             seqA (onW (gw_head_record gw r)) (
             onW (check_deadline m started None))))) (
     seqA (updS (\<lambda>s. s\<lparr>sw_deletes := sw_deletes s + 1\<rparr>)) (
     bindA (onW (gw_delete_records gw batch)) (\<lambda>_.
     seqA (updS (\<lambda>s. s\<lparr>sw_deleted := sw_deleted s @ batch\<rparr>)) (
     onW (check_deadline m started None)))))))"

definition sweep_prefix :: "'w op_manager \<Rightarrow> 'w gateway \<Rightarrow> string \<Rightarrow> object_record list \<Rightarrow> rat \<Rightarrow> ('w \<times> sweep, unit) act" where
  \<comment> \<open>the body of the second guarded block: every batch, then the postflight inventory\<close>
  "sweep_prefix m gw prefix remaining started =
     bindA (liftA (batches (om_max_delete_keys m) remaining)) (\<lambda>bs.
     seqA (forA bs (sweep_batch m gw started)) (
     bindA (onW (gw_inventory gw prefix)) (\<lambda>left.
     bindA (liftA (inventory_sha256 left)) (\<lambda>digest.
     seqA (updS (\<lambda>s. s\<lparr>sw_postflight := PStr digest\<rparr>)) (
     seqA (onW (check_deadline m started None)) (
     guardA (left \<noteq> []) (op_failure ''postflight_not_empty'')))))))"

definition partially_deleted :: "object_record list \<Rightarrow> exn \<Rightarrow> object_record list res" where
  \<comment> \<open>the records a failed batch reports as deleted\<close>
  "partially_deleted remaining e =
     (case e of
        GatewayFailure _ ks \<Rightarrow>
          (let by_key = map (\<lambda>r. (or_key r, r)) remaining in
           mapE (\<lambda>k. case map_of (rev by_key) k of None \<Rightarrow> Inl (op_failure ''delete_response_invalid'') | Some r \<Rightarrow> Inr r) ks)
      | _ \<Rightarrow> Inr [])"

fun primary_code :: "exn \<Rightarrow> string" where
  "primary_code (OperationFailure c _) = c"
| "primary_code (GatewayFailure c _) = (if c = ''head_mismatch'' then ''head_mismatch'' else ''delete_partial'')"
| "primary_code _ = ''delete_partial''"

definition failed_attempt :: "sweep \<Rightarrow> object_record list \<Rightarrow> string \<Rightarrow> int \<Rightarrow> attempt" where
  \<comment> \<open>the status \<^verbatim>\<open>persist_failure\<close> records\<close>
  "failed_attempt s deleted code now =
     \<lparr>at_state = (if deleted = [] then ''refused'' else ''partial''), at_deleted = deleted, at_primary = PStr code,
      at_heads = sw_heads s, at_deletes = sw_deletes s, at_postflight = sw_postflight s, at_deadline = Some 30,
      at_occurred = Some now,
      at_failed = (case (code = ''head_mismatch'', sw_record s) of
                     (True, Some r) \<Rightarrow> [r] | _ \<Rightarrow> filter (\<lambda>r. r \<notin> set deleted) (sw_batch s))\<rparr>"

definition sweep_failed ::
  "'w op_manager \<Rightarrow> apply_request \<Rightarrow> pydict \<Rightarrow> object_record list \<Rightarrow> object_record list \<Rightarrow> int \<Rightarrow> exn \<Rightarrow> sweep \<Rightarrow> ('w, 'a) act" where
  \<comment> \<open>the handler of the second guarded block\<close>
  "sweep_failed m req prepared records remaining now e s =
     (if e = Interrupt then raiseA e
      else
      bindA (liftA (partially_deleted remaining e)) (\<lambda>extra.
      let deleted = sw_deleted s @ extra; primary = OperationFailure (primary_code e) (deleted \<noteq> []) in
      tryA (bindA (start_deadline m) (\<lambda>cleanup_started.
            operation_deadline (om_gateway m) (check_deadline m cleanup_started (Some 30)) (\<lambda>gw.
            record_audited m gw (ar_operation_id req) (PStr (ar_plan_sha256 req)) prepared records cleanup_started
              (failed_attempt s deleted (primary_code e) now))))
        (\<lambda>x. raiseA (if x = Interrupt then x else primary))
        (\<lambda>_. raiseA primary)))"

definition completed_attempt :: "sweep \<Rightarrow> int \<Rightarrow> attempt" where
  "completed_attempt s now =
     \<lparr>at_state = ''completed'', at_deleted = sw_deleted s, at_primary = PNone, at_heads = sw_heads s, at_deletes = sw_deletes s,
      at_postflight = sw_postflight s, at_deadline = None, at_occurred = Some now, at_failed = []\<rparr>"

fun evidence_error :: "bool \<Rightarrow> exn \<Rightarrow> exn" where
  "evidence_error deleted Interrupt = Interrupt"
| "evidence_error deleted (OperationFailure c _) = OperationFailure c deleted"
| "evidence_error deleted _ = OperationFailure ''evidence_write_failed'' deleted"

definition apply_remaining ::
  "'w op_manager \<Rightarrow> 'w gateway \<Rightarrow> apply_request \<Rightarrow> pydict \<Rightarrow> object_record list \<Rightarrow> rat \<Rightarrow> int \<Rightarrow>
   object_record list \<Rightarrow> object_record list \<Rightarrow> ('w, operation_status) act" where
  \<comment> \<open>the second half of \<^verbatim>\<open>_apply_locked\<close>: revalidation, deletion, evidence\<close>
  "apply_remaining m gw req prepared records started now remaining prior =
     seqA (if remaining \<noteq> [] then revalidate_remaining m gw req prepared records remaining prior started now
           else revalidate_empty m gw req prepared records started now) (
     bindA (runS (sweep_prefix m gw (ar_confirm_prefix req) remaining started)
              \<lparr>sw_heads = 0, sw_deleted = prior, sw_deletes = 0, sw_postflight = PNone, sw_batch = [], sw_record = None\<rparr>) (\<lambda>(r, s).
     case r of
       Inl e \<Rightarrow> sweep_failed m req prepared records remaining now e s
     | Inr _ \<Rightarrow>
         mapexnA (bindA (record_audited m gw (ar_operation_id req) (PStr (ar_plan_sha256 req)) prepared records started
                           (completed_attempt s now)) (\<lambda>status.
                  seqA (check_deadline m started None) (retA status)))
           (evidence_error (sw_deleted s \<noteq> []))))"

definition apply_locked ::
  "'w op_manager \<Rightarrow> 'w gateway \<Rightarrow> apply_request \<Rightarrow> pydict \<Rightarrow> rat \<Rightarrow> int \<Rightarrow> ('w, operation_status) act" where
  "apply_locked m gw req prepared started now =
     (let opid = ar_operation_id req; base = tombstone_base opid in
     seqA (check_deadline m started None) (
     bindA (read_bound_manifest m gw base prepared) (\<lambda>records.
     seqA (check_deadline m started None) (
     bindA (latest_or_reconstruct_prepared m gw opid prepared records started) (\<lambda>prior_status.
     bindA (prior_outcome m gw req prepared records started now prior_status) (\<lambda>outcome.
     case outcome of
       Inl status \<Rightarrow> retA status
     | Inr prior_deleted \<Rightarrow>
         bindA (liftA (mapE record_digest records)) (\<lambda>digests.
         let marked = zip digests records in
         apply_remaining m gw req prepared records started now
           (map snd (filter (\<lambda>(d, _). d \<notin> set prior_deleted) marked))
           (map snd (filter (\<lambda>(d, _). d \<in> set prior_deleted) marked)))))))))"

definition apply_inner :: "'w op_manager \<Rightarrow> 'w gateway \<Rightarrow> apply_request \<Rightarrow> rat \<Rightarrow> ('w, operation_status) act" where
  \<comment> \<open>\<^verbatim>\<open>_apply\<close>\<close>
  "apply_inner m gw req started =
     seqA (guardA (\<not> uuid_shape (ar_operation_id req)) (op_failure ''operation_id_invalid'')) (
     seqA (guardA (\<not> hex64 (ar_plan_sha256 req)) (op_failure ''plan_digest_mismatch'')) (
     seqA (guardA (\<not> disposable_prefix (ar_confirm_prefix req)) (op_failure ''destructive_scope_invalid'')) (
     bindA (ops_read_control gw (tombstone_base (ar_operation_id req) @ ''/prepared.json'') (om_max_summary_bytes m) ''prepared_read_failed'') (\<lambda>body.
     bindA (liftA (decode_prepared m body (ar_operation_id req))) (\<lambda>prepared.
     seqA (guardA (dget_none prepared ''plan_sha256'' \<noteq> PStr (ar_plan_sha256 req) \<or> dget_none prepared ''prefix'' \<noteq> PStr (ar_confirm_prefix req))
             (op_failure ''confirmation_mismatch'')) (
     bindA (op_exact_now m) (\<lambda>now.
     case (parse_utc (dget_none prepared ''prepared_at''), parse_utc (dget_none prepared ''evaluated_at'')) of
       (Some prepared_at, Some _) \<Rightarrow>
         bindA (liftA (add_seconds prepared_at (om_quiescence_seconds m))) (\<lambda>ready.
         if now < ready then apply_not_ready m gw req prepared started now
         else
         seqA (guardA (\<not> str_matches identity_pattern (dget_none prepared ''checkpoint_id'')) (op_failure ''prepared_invalid'')) (
         bindA (liftA (if om_locks m then hold (str_val (dget_none prepared ''checkpoint_id'')) else Inr ())) (\<lambda>_.
         apply_locked m gw req prepared started now)))
     | _ \<Rightarrow> raiseA (op_failure ''prepared_invalid''))))))))"

definition apply_operation :: "'w op_manager \<Rightarrow> apply_request \<Rightarrow> ('w, operation_status) act" where
  \<comment> \<open>\<^verbatim>\<open>OperationManager.apply\<close>\<close>
  "apply_operation m req =
     bindA (start_deadline m) (\<lambda>started.
     operation_deadline (om_gateway m) (check_deadline m started None) (\<lambda>gw. apply_inner m gw req started))"

definition status :: "'w op_manager \<Rightarrow> 'w gateway \<Rightarrow> string \<Rightarrow> ('w, operation_status) act" where
  "status m gw opid =
     seqA (guardA (\<not> uuid_shape opid) (op_failure ''operation_id_invalid'')) (
     bindA (ops_read_control gw (tombstone_base opid @ ''/prepared.json'') (om_max_summary_bytes m) ''prepared_read_failed'') (\<lambda>body.
     bindA (liftA (decode_prepared m body opid)) (\<lambda>prepared.
     bindA (read_bound_manifest m gw (tombstone_base opid) prepared) (\<lambda>records.
     required_status m gw opid prepared records False))))"

end
