(* ===== verification/OpsFacts.thy ===== *)
theory OpsFacts
  imports Operations GatewayFacts
begin

text \<open>
  Which requests the operation manager sends.  The locale \<open>operation_reads\<close> is what reading an
  operation's records asks of an environment, \<open>operation_writes\<close> adds the conditional creation
  of them, \<open>operation_deletes\<close> the requests of a deletion below one prefix.  The operations of the
  manager keep every predicate of the world that the allowed requests keep.
\<close>

section \<open>The records of an operation\<close>

definition own_key :: "string \<Rightarrow> string \<Rightarrow> bool" where
  "own_key opid k \<longleftrightarrow> startswith k (''_retention/tombstones/'' @ opid @ ''/'') \<or> startswith k (''_retention/audits/'' @ opid @ ''/'')"

lemma own_keys [simp]:
  "own_key opid (tombstone_base opid @ ''/prepared.json'')"
  "own_key opid (tombstone_base opid @ CHR ''/'' # k)"
  "own_key opid (attempt_key opid n digest)"
  "own_key opid (audit_key opid aid)"
  by (simp_all add: own_key_def tombstone_base_def startswith_def attempt_key_def audit_key_def)

section \<open>Reading\<close>

locale operation_reads = gateway_family G env P allowed bk
  for G :: "('w, unit) act \<Rightarrow> 'w gateway" and env :: "'w env" and P :: "'w \<Rightarrow> bool" and allowed :: "s3_call \<Rightarrow> bool" and bk :: string +
  fixes m :: "'w op_manager" and opid :: string and policy :: checkpoint_policy
  assumes results: "gateway_results (G chk) policy"
    and manager_env: "om_env m = env"
    and reads: "own_key opid k \<Longrightarrow> allowed (GetObject bk k)"
    and lists: "allowed (ListObjectsV2 bk (tombstone_base opid @ ''/results/attempts/'') n None)"
begin

lemma clocks_keep: "preserves P (op_exact_now m)" "preserves P (start_deadline m)" "preserves P (check_deadline m started n)"
  unfolding op_exact_now_def start_deadline_def check_deadline_def manager_env by (intro keeps env_okD [OF env])+

lemma ops_read_control_keeps: "preserves P chk \<Longrightarrow> own_key opid k \<Longrightarrow> preserves P (ops_read_control (G chk) k n code)"
  unfolding ops_read_control_def by (intro keeps read reads)

lemma list_attempts_keeps: "preserves P chk \<Longrightarrow> preserves P (list_attempts (G chk) opid)"
  unfolding list_attempts_def by (intro keeps listing lists)

lemma read_result_shards_keeps:
  assumes chk: "preserves P chk"
  shows "preserves P (read_result_shards m (G chk) (tombstone_base opid) ds observed)"
proof (induction ds arbitrary: observed)
  case (Cons d ds)
  show ?case unfolding read_result_shards.simps by (intro keeps ops_read_control_keeps [OF chk] Cons.IH) simp
qed (simp add: keeps)

lemma read_result_classification_keeps:
  assumes chk: "preserves P chk"
  shows "preserves P (read_result_classification m (G chk) (tombstone_base opid) st records)"
  unfolding read_result_classification_def by (intro keeps read_result_shards_keeps [OF chk])

lemma read_manifest_shards_keeps:
  assumes chk: "preserves P chk"
  shows "preserves P (read_manifest_shards m (G chk) (tombstone_base opid) shards)"
proof (induction shards)
  case (Cons s shards)
  obtain i d where s: "s = (i, d)" by (cases s)
  show ?case unfolding s read_manifest_shards.simps by (intro keeps ops_read_control_keeps [OF chk] Cons.IH) simp
qed (simp add: keeps)

lemma read_bound_manifest_keeps:
  assumes chk: "preserves P chk"
  shows "preserves P (read_bound_manifest m (G chk) (tombstone_base opid) prepared)"
  unfolding read_bound_manifest_def read_manifest_def by (intro keeps read_manifest_shards_keeps [OF chk])

lemma read_attempt_keeps:
  assumes chk: "preserves P chk" and own: "own_key opid k"
  shows "preserves P (read_attempt m (G chk) opid prepared records k)"
  unfolding read_attempt_def by (intro keeps ops_read_control_keeps [OF chk own] read_result_classification_keeps [OF chk])

lemma attempts_own:
  assumes "list_attempts (G chk) opid w = (Inr ks, w')" "k \<in> set ks"
  shows "own_key opid k"
proof -
  from assms(1) have "gw_list_controls (G chk) (tombstone_base opid @ ''/results/attempts/'') 1024 w = (Inr ks, w')"
    by (simp add: list_attempts_def inr_iffs)
  then have "startswith k (tombstone_base opid @ ''/results/attempts/'')"
    using gateway_results.listed_below [OF results] assms(2) by blast
  then show ?thesis by (auto simp: own_key_def tombstone_base_def startswith_iff)
qed

lemma latest_status_keeps:
  assumes chk: "preserves P chk"
    and audit: "\<And>st. repair \<Longrightarrow> preserves P (ensure_audit m (G chk) opid st prepared)"
  shows "preserves P (latest_status m (G chk) opid required prepared records repair)"
  unfolding latest_status_def
proof (rule preserves_bindA_known_run [OF list_attempts_keeps [OF chk]])
  fix ks w w' assume ks: "list_attempts (G chk) opid w = (Inr ks, w')"
  show "preserves P (bindA (mapA (read_attempt m (G chk) opid prepared records) ks) (\<lambda>items.
     if items = [] then (if required then raiseA (op_failure ''status_missing'') else retA None)
     else
     let ordered = sort_key hi_sequence items in
     if \<not> history_ok (length records) ordered then raiseA (op_failure ''status_ambiguous'')
     else
     seqA (forA (if repair then ordered else []) (\<lambda>i. ensure_audit m (G chk) opid (hi_status i) prepared)) (
     retA (Some (hi_status (last ordered))))))"
    by (intro keeps read_attempt_keeps [OF chk] attempts_own [OF ks] audit) (auto split: if_splits)
qed

lemma required_status_keeps:
  assumes "preserves P chk" "\<And>st. repair \<Longrightarrow> preserves P (ensure_audit m (G chk) opid st prepared)"
  shows "preserves P (required_status m (G chk) opid prepared records repair)"
  unfolding required_status_def by (intro keeps latest_status_keeps assms)

lemma status_keeps:
  assumes chk: "preserves P chk"
  shows "preserves P (status m (G chk) opid)"
  unfolding status_def
  by (intro keeps ops_read_control_keeps [OF chk] read_bound_manifest_keeps [OF chk] required_status_keeps [OF chk]) simp_all

end

section \<open>Writing\<close>

locale operation_writes = operation_reads +
  assumes writes: "own_key opid k \<Longrightarrow> allowed (PutObject bk k body IfNoneMatch)"
begin

lemma create_identical_keeps:
  assumes chk: "preserves P chk" and own: "own_key opid k"
  shows "preserves P (create_identical (G chk) k body n)"
  unfolding create_identical_def same_body_def
  by (intro keeps create [OF chk] read [OF chk] reads [OF own] writes [OF own])

lemma ensure_audit_keeps:
  assumes chk: "preserves P chk"
  shows "preserves P (ensure_audit m (G chk) opid st prepared)"
  unfolding ensure_audit_def by (intro keeps create_identical_keeps [OF chk] read [OF chk] reads) simp_all

lemmas repaired_keeps = latest_status_keeps [OF _ ensure_audit_keeps] required_status_keeps [OF _ ensure_audit_keeps]

lemma write_result_shards_keeps:
  assumes chk: "preserves P chk"
  shows "preserves P (write_result_shards m (G chk) opid values started n)"
  unfolding write_result_shards_def by (intro keeps create_identical_keeps [OF chk] clocks_keep) simp

lemma record_status_keeps:
  assumes chk: "preserves P chk"
  shows "preserves P (record_status m (G chk) opid cid plan_sha planned started a)"
  unfolding record_status_def
  by (intro keeps write_result_shards_keeps [OF chk] list_attempts_keeps [OF chk] clocks_keep create_identical_keeps [OF chk]) simp

lemma record_audited_keeps:
  assumes chk: "preserves P chk"
  shows "preserves P (record_audited m (G chk) opid plan_sha prepared records started a)"
  unfolding record_audited_def by (intro keeps record_status_keeps [OF chk] ensure_audit_keeps [OF chk])

lemma reconstruct_keeps:
  assumes chk: "preserves P chk"
  shows "preserves P (latest_or_reconstruct_prepared m (G chk) opid prepared records started)"
  unfolding latest_or_reconstruct_prepared_def by (intro keeps repaired_keeps [OF chk chk] record_audited_keeps [OF chk])

lemma refuse_attempt_keeps:
  assumes chk: "preserves P chk" and "ar_operation_id req = opid"
  shows "preserves P (refuse_attempt m (G chk) req prepared records deleted started now code e)"
  unfolding refuse_attempt_def assms(2) by (intro keeps record_audited_keeps [OF chk])

end

section \<open>Deleting\<close>

definition onP :: "('w \<Rightarrow> bool) \<Rightarrow> 'w \<times> 's \<Rightarrow> bool" where
  "onP P = (\<lambda>(w, _). P w)"

lemma preserves_onW [keeps]: "preserves P k \<Longrightarrow> preserves (onP P) (onW k)"
  by (auto simp: preserves_def onP_def onW_def split: prod.split)

lemma preserves_updS [keeps]: "preserves (onP P) (updS f)"
  by (auto simp: preserves_def onP_def updS_def)

lemma preserves_runS [keeps]: "preserves (onP P) k \<Longrightarrow> preserves P (runS k s)"
  by (auto simp: preserves_def onP_def runS_def split: prod.split) (metis fst_conv snd_conv case_prod_beta)

lemma preserves_operation_deadline [keeps]:
  "preserves P chk \<Longrightarrow> preserves P (f (G chk)) \<Longrightarrow> preserves P (operation_deadline G chk f)"
  unfolding operation_deadline_def by (intro keeps)

lemma take_batches_concat: "0 < n \<Longrightarrow> concat (take_batches n rs) = rs"
proof (induction n rs rule: take_batches.induct)
  case (2 n r rs)
  from "2.prems" obtain k where n: "n = Suc k" by (cases n) auto
  have "concat (take_batches n (drop k rs)) = drop k rs" using "2.IH" n by simp
  then show ?case by (simp add: n)
qed simp

lemma take_batches_bounded: "b \<in> set (take_batches n rs) \<Longrightarrow> b \<noteq> [] \<and> length b \<le> n \<and> set b \<subseteq> set rs"
proof (induction n rs rule: take_batches.induct)
  case (2 n r rs)
  then consider "0 < n" "b = take n (r # rs)" | "0 < n" "b \<in> set (take_batches n (drop (n - 1) rs))" by (auto split: if_splits)
  then show ?case
  proof cases
    case 1 then show ?thesis using set_take_subset [of n "r # rs"] by auto
  next
    case 2
    then have "b \<noteq> [] \<and> length b \<le> n \<and> set b \<subseteq> set (drop (n - 1) rs)" using "2.IH" by simp
    then show ?thesis using set_drop_subset [of "n - 1" rs] by auto
  qed
qed simp

locale operation_lists = operation_writes +
  assumes inventories: "allowed (ListObjectsV2 bk p n t)"
begin

lemma absence_keeps: "preserves P chk \<Longrightarrow> preserves P (prove_completed_absence m (G chk) p st started)"
  unfolding prove_completed_absence_def by (intro keeps inventory inventories clocks_keep)

lemma prior_outcome_keeps:
  assumes chk: "preserves P chk" and "ar_operation_id req = opid"
  shows "preserves P (prior_outcome m (G chk) req prepared records started now prior)"
  unfolding prior_outcome_def Let_def assms(2)
  by (intro keeps absence_keeps [OF chk] repaired_keeps [OF chk chk] read_result_classification_keeps [OF chk])

lemma not_ready_keeps:
  assumes chk: "preserves P chk" and "ar_operation_id req = opid"
  shows "preserves P (apply_not_ready m (G chk) req prepared started now)"
  unfolding apply_not_ready_def Let_def assms(2)
  by (intro keeps read_bound_manifest_keeps [OF chk] reconstruct_keeps [OF chk] absence_keeps [OF chk]
      repaired_keeps [OF chk chk] record_audited_keeps [OF chk])

lemma prepare_keeps:
  assumes chk: "preserves P chk" and req: "pr_operation_id req = opid"
  shows "preserves P (prepare m (G chk) req)"
  unfolding prepare_def Let_def req existing_prepared_def
  by (intro keeps clocks_keep create_identical_keeps [OF chk] read [OF chk] reads repaired_keeps [OF chk chk]
      absence_keeps [OF chk] record_audited_keeps [OF chk]) simp_all

lemma early_apply_keeps:
  assumes gateway: "om_gateway m = G" and req: "ar_operation_id req = opid"
    and early: "\<And>now w w' chk n w1 body etag w2 prepared at'. op_exact_now m w = (Inr now, w') \<Longrightarrow>
      gw_read_control (G chk) (tombstone_base opid @ ''/prepared.json'') n w1 = (Inr (body, etag), w2) \<Longrightarrow>
      decode_prepared m body opid = Inr prepared \<Longrightarrow> parse_utc (dget_none prepared ''prepared_at'') = Some at' \<Longrightarrow>
      now < at' + om_quiescence_seconds m"
  shows "preserves P (apply_operation m req)"
proof -
  have inner: "preserves P (apply_inner m (G chk) req started)" if chk: "preserves P chk" for chk started
    unfolding apply_inner_def req
  proof (intro preserves_seqA preserves_simple, rule preserves_bindA_known_run [OF ops_read_control_keeps [OF chk own_keys(1)]])
    fix body w1 w2
    assume "ops_read_control (G chk) (tombstone_base opid @ ''/prepared.json'') (om_max_summary_bytes m) ''prepared_read_failed'' w1 = (Inr body, w2)"
    then obtain etag where r: "gw_read_control (G chk) (tombstone_base opid @ ''/prepared.json'') (om_max_summary_bytes m) w1 = (Inr (body, etag), w2)"
      by (auto simp: ops_read_control_def inr_iffs)
    have lt: "now < ready" if "decode_prepared m body opid = Inr prepared" "op_exact_now m w3 = (Inr now, w4)"
        "parse_utc (dget_none prepared ''prepared_at'') = Some at'" "add_seconds at' (om_quiescence_seconds m) = Inr ready"
      for prepared now w3 w4 at' ready
      using early [OF that(2) r that(1,3)] that(4) by (simp add: add_seconds_def split: if_splits)
    show "preserves P (bindA (liftA (decode_prepared m body opid)) (\<lambda>prepared.
       seqA (guardA (dget_none prepared ''plan_sha256'' \<noteq> PStr (ar_plan_sha256 req) \<or> dget_none prepared ''prefix'' \<noteq> PStr (ar_confirm_prefix req))
               (op_failure ''confirmation_mismatch'')) (
       bindA (op_exact_now m) (\<lambda>now.
       case (parse_utc (dget_none prepared ''prepared_at''), parse_utc (dget_none prepared ''evaluated_at'')) of
         (Some prepared_at, Some _) \<Rightarrow>
           bindA (liftA (add_seconds prepared_at (om_quiescence_seconds m))) (\<lambda>ready.
           if now < ready then apply_not_ready m (G chk) req prepared started now
           else
           seqA (guardA (\<not> str_matches identity_pattern (dget_none prepared ''checkpoint_id'')) (op_failure ''prepared_invalid'')) (
           bindA (liftA (if om_locks m then hold (str_val (dget_none prepared ''checkpoint_id'')) else Inr ())) (\<lambda>_.
           apply_locked m (G chk) req prepared started now)))
       | _ \<Rightarrow> raiseA (op_failure ''prepared_invalid'')))))"
      by (rule preserves_bindA_liftA, rule preserves_seqA [OF preserves_simple(4)], rule preserves_bindA_known_run [OF clocks_keep(1)])
        (auto split: option.split intro!: preserves_simple preserves_bindA_liftA not_ready_keeps [OF chk req] dest: lt)
  qed
  show ?thesis unfolding apply_operation_def gateway by (intro keeps clocks_keep inner)
qed

end

locale operation_deletes = operation_lists +
  fixes prefix :: string
  assumes gateway: "om_gateway m = G"
    and heads: "startswith k prefix \<Longrightarrow> k \<noteq> prefix \<Longrightarrow> allowed (HeadObject bk k)"
    and deletes: "list_all (listed prefix) rs \<Longrightarrow> allowed (DeleteObjects bk (map or_key rs))"
    and revalidate_keeps: "om_revalidate m = Some rv \<Longrightarrow> preserves P chk \<Longrightarrow> preserves P (rv (G chk) prefix now)"
    and revalidate_lists: "om_revalidate m = Some rv \<Longrightarrow> rv (G chk) prefix now w = (Inr art, w') \<Longrightarrow>
      list_all (listed prefix) (concat (map ms_records (pa_shards art)))"
begin

lemma revalidate_remaining_keeps:
  assumes chk: "preserves P chk" and req: "ar_operation_id req = opid" "ar_confirm_prefix req = prefix"
  shows "preserves P (revalidate_remaining m (G chk) req prepared records remaining prior started now)"
proof (cases "om_revalidate m")
  case (Some rv)
  show ?thesis unfolding revalidate_remaining_def req(2) Some option.case
    by (intro keeps clocks_keep revalidate_keeps [OF Some chk] refuse_attempt_keeps [OF chk req(1)])
qed (simp add: revalidate_remaining_def keeps)

lemma revalidate_empty_keeps:
  assumes chk: "preserves P chk" and req: "ar_operation_id req = opid"
  shows "preserves P (revalidate_empty m (G chk) req prepared records started now)"
  unfolding revalidate_empty_def by (intro keeps inventory [OF chk] inventories refuse_attempt_keeps [OF chk req(1)])

lemma delete_keeps: "preserves P chk \<Longrightarrow> list_all (listed prefix) rs \<Longrightarrow> preserves P (gw_delete_records (G chk) rs)"
proof (rule delete, assumption)
  fix ordered assume "list_all (listed prefix) rs" "canonical_records rs = Inr ordered"
  then show "allowed (DeleteObjects bk (map or_key ordered))"
    using canonical_records_sorted(2) by (intro deletes) (metis list_all_iff mset_eq_setD)
qed

lemma sweep_keeps:
  assumes chk: "preserves P chk" and rs: "list_all (listed prefix) remaining"
  shows "preserves (onP P) (sweep_prefix m (G chk) p remaining started)"
  unfolding sweep_prefix_def
proof (rule preserves_bindA_liftA)
  fix bs assume "batches (om_max_delete_keys m) remaining = Inr bs"
  then have bs: "list_all (listed prefix) b" if "b \<in> set bs" for b
    using that rs take_batches_bounded by (fastforce simp: batches_def list_all_iff split: if_splits)
  have "preserves (onP P) (sweep_batch m (G chk) started b)" if "b \<in> set bs" for b
    unfolding sweep_batch_def using bs [OF that]
    by (intro keeps clocks_keep head [OF chk] heads delete_keeps [OF chk]) (auto simp: list_all_iff listed_def)
  then show "preserves (onP P) (seqA (forA bs (sweep_batch m (G chk) started)) (
     bindA (onW (gw_inventory (G chk) p)) (\<lambda>left.
     bindA (liftA (inventory_sha256 left)) (\<lambda>digest.
     seqA (updS (\<lambda>s. s\<lparr>sw_postflight := PStr digest\<rparr>)) (
     seqA (onW (check_deadline m started None)) (
     guardA (left \<noteq> []) (op_failure ''postflight_not_empty'')))))))"
    by (intro keeps clocks_keep inventory [OF chk] inventories)
qed

lemma sweep_failed_keeps:
  assumes "ar_operation_id req = opid"
  shows "preserves P (sweep_failed m req prepared records remaining now e s)"
  unfolding sweep_failed_def gateway assms Let_def by (intro keeps clocks_keep record_audited_keeps)

lemma revalidated_listed:
  assumes "revalidate_remaining m (G chk) req prepared records remaining prior started now w = (Inr u, w')"
    and req: "ar_confirm_prefix req = prefix"
  shows "list_all (listed prefix) remaining"
proof -
  obtain rv where rv: "om_revalidate m = Some rv" using assms(1)
    by (cases "om_revalidate m") (simp_all add: revalidate_remaining_def inr_iffs)
  have refused: "refuse_attempt m (G chk) req prepared records prior started now code f w1 = (Inr art, w2) \<longleftrightarrow> False"
    for code f w1 w2 and art :: plan_artifact by (simp add: refuse_attempt_def inr_iffs)
  have handled: "(case e of Interrupt \<Rightarrow> raiseA e
        | OperationFailure c b \<Rightarrow> raiseA (op_error ''revalidation_failed'' e)
        | GatewayFailure c ks \<Rightarrow> raiseA (op_error ''revalidation_failed'' e)
        | _ \<Rightarrow> refuse_attempt m (G chk) req prepared records prior started now ''revalidation_failed'' (op_failure ''revalidation_failed''))
      w1 = (Inr art, w2) \<longleftrightarrow> False" for e w1 w2 and art :: plan_artifact
    by (cases e) (simp_all add: refused inr_iffs)
  from assms(1) obtain t art w1 w2 where a: "rv (G chk) prefix t w1 = (Inr art, w2)"
    and d: "revalidation_differs m prefix remaining art = Inr False"
    by (auto simp: revalidate_remaining_def rv req inr_iffs tryA_Inr handled refuse_attempt_def split: if_splits)
  from d have "concat (map ms_records (pa_shards art)) = remaining"
    by (auto simp: revalidation_differs_def Let_def inr_iffs split: if_splits pyval.splits)
  with revalidate_lists [OF rv a] show ?thesis by simp
qed

lemma apply_remaining_keeps:
  assumes chk: "preserves P chk" and req: "ar_operation_id req = opid" "ar_confirm_prefix req = prefix"
  shows "preserves P (apply_remaining m (G chk) req prepared records started now remaining prior)"
  unfolding apply_remaining_def req
proof (rule preserves_seqA_known_run)
  show "preserves P (if remaining \<noteq> [] then revalidate_remaining m (G chk) req prepared records remaining prior started now
       else revalidate_empty m (G chk) req prepared records started now)"
    by (intro preserves_if revalidate_remaining_keeps [OF chk req] revalidate_empty_keeps [OF chk req(1)])
  fix w w' assume "(if remaining \<noteq> [] then revalidate_remaining m (G chk) req prepared records remaining prior started now
       else revalidate_empty m (G chk) req prepared records started now) w = (Inr (), w')"
  then have rs: "list_all (listed prefix) remaining" using revalidated_listed [OF _ req(2)] by (cases "remaining = []") auto
  show "preserves P (bindA (runS (sweep_prefix m (G chk) prefix remaining started)
       \<lparr>sw_heads = 0, sw_deleted = prior, sw_deletes = 0, sw_postflight = PNone, sw_batch = [], sw_record = None\<rparr>) (\<lambda>(r, s).
     case r of
       Inl e \<Rightarrow> sweep_failed m req prepared records remaining now e s
     | Inr _ \<Rightarrow>
         mapexnA (bindA (record_audited m (G chk) opid (PStr (ar_plan_sha256 req)) prepared records started
                           (completed_attempt s now)) (\<lambda>status.
                  seqA (check_deadline m started None) (retA status)))
           (evidence_error (sw_deleted s \<noteq> []))))"
    by (intro keeps sweep_keeps [OF chk rs] sweep_failed_keeps [OF req(1)] record_audited_keeps [OF chk] clocks_keep)
qed

lemma apply_locked_keeps:
  assumes chk: "preserves P chk" and req: "ar_operation_id req = opid" "ar_confirm_prefix req = prefix"
  shows "preserves P (apply_locked m (G chk) req prepared started now)"
  unfolding apply_locked_def Let_def req(1)
  by (intro keeps clocks_keep read_bound_manifest_keeps [OF chk] reconstruct_keeps [OF chk] prior_outcome_keeps [OF chk req(1)]
      apply_remaining_keeps [OF chk req])

lemma apply_keeps:
  assumes req: "ar_operation_id req = opid" "ar_confirm_prefix req = prefix"
  shows "preserves P (apply_operation m req)"
proof -
  have inner: "preserves P (apply_inner m (G chk) req started)" if "preserves P chk" for chk started
    unfolding apply_inner_def req(1)
    by (intro keeps clocks_keep ops_read_control_keeps [OF that] not_ready_keeps [OF that req(1)] apply_locked_keeps [OF that req]) simp
  show ?thesis unfolding apply_operation_def gateway by (intro keeps clocks_keep inner)
qed

end

end
