(* ===== verification/Service.thy ===== *)
theory Service
  imports Operations Metrics "HOL-Library.AList"
begin

text \<open>
  \<^verbatim>\<open>scripts/checkpoints/service.py\<close>, first part: \<^verbatim>\<open>RuntimeBackend\<close>, which composes the
  gateway, the lease manager, the planner and the operation manager as \<^verbatim>\<open>build_runtime\<close> does
  and keeps the metrics.  Its mutable attributes are the record \<open>runtime\<close>; an action of the
  service passes the world and this record.  Locks are those of a single thread.  The clock of the
  runtime is \<^verbatim>\<open>_now\<close>, whose values are exact UTC times.
\<close>

section \<open>State\<close>

record runtime =
  rt_metrics :: snapshot
  rt_totals :: "(string \<times> int \<times> int) list"
  rt_transitions :: "(string \<times> string \<times> pyval) list"
  rt_saturated :: bool
  rt_capabilities :: "pydict option"

record 'w backend =
  be_env :: "'w env"
  be_policy :: checkpoint_policy
  be_gateway :: "('w, unit) act \<Rightarrow> 'w gateway"
  be_operations :: "'w op_manager"
  be_destructive :: bool
  be_max_seconds :: int

type_synonym ('w, 'a) service_act = "('w \<times> runtime, 'a) act"

definition empty_runtime :: runtime where
  "empty_runtime = \<lparr>rt_metrics = [], rt_totals = [], rt_transitions = [], rt_saturated = False, rt_capabilities = None\<rparr>"

definition service_failure :: "string \<Rightarrow> exn" where
  "service_failure code = ServiceFailure code 400 None"

definition getS :: "('w \<times> 's, 's) act" where
  "getS = (\<lambda>(w, s). (Inr s, (w, s)))"

definition now_secs :: "'w env \<Rightarrow> ('w, int) act" where
  \<comment> \<open>\<^verbatim>\<open>_now()\<close>\<close>
  "now_secs env = bindA (env_now env) (\<lambda>v. retA (utc_secs v))"

definition unix_epoch :: int where
  \<comment> \<open>1970-01-01T00:00:00Z in seconds since the year 1\<close>
  "unix_epoch = 62135596800"

definition set_member :: "pyval \<Rightarrow> string list \<Rightarrow> bool res" where
  \<comment> \<open>\<^verbatim>\<open>value in {...}\<close>\<close>
  "set_member v xs = (if unhashable v then Inl (OtherExn ''TypeError'') else Inr (in_states v xs))"

section \<open>Composition\<close>

definition revalidate :: "'w env \<Rightarrow> checkpoint_policy \<Rightarrow> 'w gateway \<Rightarrow> string \<Rightarrow> int \<Rightarrow> ('w, plan_artifact) act" where
  \<comment> \<open>the closure \<^verbatim>\<open>revalidate\<close> of \<^verbatim>\<open>build_runtime\<close>; the given time is not used\<close>
  "revalidate env policy gw prefix given_time =
     bindA (liftA (match_prefix policy (PStr prefix))) (\<lambda>matched.
     bindA (env_now env) (\<lambda>now.
     plan gw policy \<lparr>pq_checkpoint_id = PStr (matched_id matched), pq_prefix = PStr prefix,
       pq_actor = PStr ''retention-revalidation'', pq_evaluated_at = now\<rparr>))"

definition runtime_operations :: "'w env \<Rightarrow> checkpoint_policy \<Rightarrow> 'w op_manager" where
  "runtime_operations env policy =
     \<lparr>om_env = env, om_gateway = s3_gateway env policy, om_policy_sha256 = policy_sha256 policy,
      om_quiescence_seconds = quiescence_seconds (lease policy), om_max_summary_bytes = max_summary_bytes (bounds policy),
      om_max_result_shard_bytes = 1048576, om_max_delete_keys = max_delete_keys (bounds policy),
      om_revalidate = Some (revalidate env policy), om_locks = True, om_max_active_seconds = max_active_seconds (bounds policy)\<rparr>"

definition runtime_backend :: "'w env \<Rightarrow> checkpoint_policy \<Rightarrow> bool \<Rightarrow> 'w backend" where
  "runtime_backend env policy destructive =
     \<lparr>be_env = env, be_policy = policy, be_gateway = s3_gateway env policy, be_operations = runtime_operations env policy,
      be_destructive = destructive, be_max_seconds = 900\<rparr>"

section \<open>Metrics\<close>

definition samples_of :: "snapshot \<Rightarrow> string \<Rightarrow> samples" where
  "samples_of snap metric = (case map_of snap metric of None \<Rightarrow> [] | Some values \<Rightarrow> values)"

definition set_sample :: "string \<Rightarrow> string \<Rightarrow> int \<Rightarrow> runtime \<Rightarrow> runtime" where
  \<comment> \<open>\<^verbatim>\<open>_set\<close>\<close>
  "set_sample metric label amount s =
     s\<lparr>rt_metrics := AList.update metric (AList.update [label] (PInt amount) (samples_of (rt_metrics s) metric)) (rt_metrics s)\<rparr>"

definition increment :: "string \<Rightarrow> string \<Rightarrow> int \<Rightarrow> runtime \<Rightarrow> runtime" where
  \<comment> \<open>\<^verbatim>\<open>_increment\<close>\<close>
  "increment metric label amount s =
     set_sample metric label
       ((case map_of (samples_of (rt_metrics s) metric) [label] of None \<Rightarrow> 0 | Some v \<Rightarrow> int_val v) + amount) s"

definition request_outcomes :: "string list" where
  "request_outcomes = [''backend_failure'', ''capability_failed'', ''invalid_request'', ''metrics_saturated'', ''timeout'', ''unauthorized'']"

definition record_request_failure :: "string \<Rightarrow> ('w, unit) service_act" where
  "record_request_failure outcome =
     updS (increment ''checkpoint_retention_request_failures_total''
             (if outcome \<in> set request_outcomes then outcome else ''backend_failure'') 1)"

definition lease_heartbeat :: "string \<Rightarrow> int res" where
  "lease_heartbeat body =
     bindE (plain_loads body) (\<lambda>v.
     case v of
       PDict d \<Rightarrow>
         bindE (ditem d ''heartbeat_at'') (\<lambda>x.
         case parse_utc x of None \<Rightarrow> Inl (service_failure ''request_invalid'') | Some t \<Rightarrow> Inr t)
     | _ \<Rightarrow> Inl (OtherExn ''TypeError''))"

definition record_lease_metrics :: "'w backend \<Rightarrow> string \<Rightarrow> string \<Rightarrow> ('w, unit) service_act" where
  "record_lease_metrics be cid body =
     (if cid \<notin> set metric_checkpoint_ids then retA ()
      else
      bindA (mapexnA (bindA (liftA (lease_heartbeat body)) (\<lambda>beat.
                      bindA (onW (now_secs (be_env be))) (\<lambda>now. retA (max 0 (now - beat)))))
               (\<lambda>e. if decode_failure e then service_failure ''lease_response_invalid'' else e)) (\<lambda>age.
      updS (set_sample ''checkpoint_retention_lease_heartbeat_age_seconds'' cid age)))"

definition inventory_samples :: "string \<Rightarrow> bool \<Rightarrow> pydict \<Rightarrow> runtime \<Rightarrow> runtime" where
  "inventory_samples cid ok inventory s =
     (case (dget_or inventory ''object_count'' (PInt 0), dget_or inventory ''total_bytes'' (PInt 0)) of
        (PInt objects, PInt bytes) \<Rightarrow>
          set_sample ''checkpoint_retention_eligible_bytes'' cid (if ok then bytes else 0)
            (set_sample ''checkpoint_retention_bytes'' cid bytes (set_sample ''checkpoint_retention_objects'' cid objects s))
      | _ \<Rightarrow> s)"

definition refusal_values :: "pyval \<Rightarrow> pyval list" where
  "refusal_values v = (case v of PList xs \<Rightarrow> xs | PTuple xs \<Rightarrow> xs | _ \<Rightarrow> [])"

definition record_plan_metrics :: "pydict \<Rightarrow> ('w, unit) service_act" where
  "record_plan_metrics summary =
     (let decision = dget_none summary ''decision''; cid = dget_none summary ''checkpoint_id'';
          inventory = dget_or summary ''inventory'' (PDict []) in
     bindA (liftA (set_member decision [''eligible'', ''refused''])) (\<lambda>known.
     if \<not> known then retA ()
     else
     seqA (updS (increment ''checkpoint_retention_plans_total'' (str_val decision) 1)) (
     bindA (liftA (set_member cid metric_checkpoint_ids)) (\<lambda>listed.
     seqA (if listed \<and> is_dict inventory
           then updS (inventory_samples (str_val cid) (decision = PStr ''eligible'') (dict_val inventory)) else retA ()) (
     forA (refusal_values (dget_or summary ''refusal_codes'' (PTuple []))) (\<lambda>code.
       if is_str code then updS (increment ''checkpoint_retention_refusals_total'' (str_val code) 1) else retA ()))))))"

definition max_metric_operations :: nat where "max_metric_operations = 4096"

definition count_deleted :: "string \<Rightarrow> string \<Rightarrow> int \<Rightarrow> int \<Rightarrow> runtime \<Rightarrow> runtime" where
  \<comment> \<open>the totals of an operation move forward and the counters by the difference\<close>
  "count_deleted opid state objects bytes s =
     (let (o', b') = (case map_of (rt_totals s) opid of None \<Rightarrow> (0, 0) | Some t \<Rightarrow> t);
          s1 = (if objects - o' \<noteq> 0 then increment ''checkpoint_retention_deleted_objects_total'' state (objects - o') s else s);
          s2 = (if bytes - b' \<noteq> 0 then increment ''checkpoint_retention_deleted_bytes_total'' state (bytes - b') s1 else s1)
      in s2\<lparr>rt_totals := AList.update opid (objects, bytes) (rt_totals s2)\<rparr>)"

definition count_transition :: "string \<Rightarrow> string \<Rightarrow> pyval \<Rightarrow> runtime \<Rightarrow> runtime" where
  "count_transition opid state sequence s =
     (if \<not> list_ex (\<lambda>(o', st, q). o' = opid \<and> st = state \<and> py_eq q sequence) (rt_transitions s) \<and>
         length (rt_transitions s) < max_metric_operations * 4
      then (let s' = (if state = ''partial'' then increment ''checkpoint_retention_partial_total'' ''partial'' 1 s else s)
            in s'\<lparr>rt_transitions := rt_transitions s' @ [(opid, state, sequence)]\<rparr>)
      else s)"

definition known_total :: "runtime \<Rightarrow> string \<Rightarrow> bool" where
  "known_total s opid \<longleftrightarrow> map_of (rt_totals s) opid \<noteq> None"

definition previous_total :: "runtime \<Rightarrow> string \<Rightarrow> int \<times> int" where
  "previous_total s opid = (case map_of (rt_totals s) opid of None \<Rightarrow> (0, 0) | Some t \<Rightarrow> t)"

definition record_apply_metrics :: "'w backend \<Rightarrow> pydict \<Rightarrow> ('w, unit) service_act" where
  "record_apply_metrics be result =
     (let state = dget_none result ''state''; opid = dget_none result ''operation_id''; cid = dget_none result ''checkpoint_id'';
          sequence = dget_none result ''attempt_sequence'' in
     bindA (liftA (set_member state [''not_ready'', ''partial'', ''completed''])) (\<lambda>known.
     if \<not> known then retA ()
     else
     case (opid, dget_or result ''deleted_objects'' (PInt 0), dget_or result ''deleted_bytes'' (PInt 0)) of
       (PStr i, PInt objects, PInt bytes) \<Rightarrow>
         if objects < 0 \<or> bytes < 0 then retA ()
         else
         bindA getS (\<lambda>s.
         if \<not> known_total s i \<and> length (rt_totals s) \<ge> max_metric_operations
         then (if rt_saturated s then retA ()
               else updS (\<lambda>s. (increment ''checkpoint_retention_request_failures_total'' ''metrics_saturated'' 1 s)\<lparr>rt_saturated := True\<rparr>))
         else if objects < fst (previous_total s i) \<or> bytes < snd (previous_total s i) then retA ()
         else
         seqA (updS (count_deleted i (str_val state) objects bytes)) (
         seqA (guardA (unhashable sequence) (OtherExn ''TypeError'')) (
         seqA (updS (count_transition i (str_val state) sequence)) (
         if state \<noteq> PStr ''completed'' then retA ()
         else
         bindA (liftA (set_member cid metric_checkpoint_ids)) (\<lambda>listed.
         if listed
         then bindA (onW (now_secs (be_env be))) (\<lambda>now.
              updS (set_sample ''checkpoint_retention_last_success_unixtime'' (str_val cid) (now - unix_epoch)))
         else retA ())))))
     | _ \<Rightarrow> retA ()))"

definition max_request_body :: int where "max_request_body = 65536"

definition backend_metrics :: "('w, string) service_act" where
  \<comment> \<open>\<^verbatim>\<open>metrics\<close>, with the renderer's default bound\<close>
  "backend_metrics =
     bindA getS (\<lambda>s.
     liftA (case render_metrics (rt_metrics s) max_request_body of
              Inl (MetricsFailure _) \<Rightarrow>
                render_metrics [(''checkpoint_retention_request_failures_total'', [([''backend_failure''], PInt 1)])] max_request_body
            | r \<Rightarrow> r))"

section \<open>Health\<close>

definition required_capabilities :: "(string \<times> bool) list" where
  "required_capabilities =
     [(''automatic_apply'', False), (''observed'', True), (''conditional_create'', True), (''conditional_create_conflict'', True),
      (''conditional_replace_verified_readback'', True), (''stale_replace_denied'', True), (''conditional_delete'', False),
      (''exact_leaf_list'', True), (''exact_leaf_get'', True), (''exact_leaf_delete'', True), (''multi_delete'', True),
      (''root_list_denied'', True), (''other_bucket_denied'', True), (''data_put_denied'', True), (''unknown_control_denied'', True)]"

definition health :: "'w backend \<Rightarrow> ('w, pyval) service_act" where
  \<comment> \<open>the capabilities are probed once\<close>
  "health be =
     bindA getS (\<lambda>s.
     bindA (case rt_capabilities s of
              Some c \<Rightarrow> retA c
            | None \<Rightarrow> bindA (onW (probe_capabilities (be_env be) (be_policy be) (retA ()))) (\<lambda>c.
                      seqA (updS (\<lambda>s. s\<lparr>rt_capabilities := Some c\<rparr>)) (retA c))) (\<lambda>c.
     if list_ex (\<lambda>(k, b). dget_none c k \<noteq> PBool b) required_capabilities then raiseA (service_failure ''capability_failed'')
     else retA (PDict (sdict
       [(''capability_profile'', dget_or c ''profile'' (PStr ''manual-verified-readback'')),
        (''destructive_enabled'', PBool (be_destructive be)), (''ready'', PBool True)]))))"

section \<open>Requests\<close>

definition exact_payload :: "pyval \<Rightarrow> string list \<Rightarrow> pydict res" where
  "exact_payload payload names =
     (case payload of
        PDict d \<Rightarrow>
          if keys_exactly d names \<and> list_all (\<lambda>k. k = ''evidence'' \<or> is_str (dget_none d k)) names
          then Inr d else Inl (service_failure ''request_invalid'')
      | _ \<Rightarrow> Inl (service_failure ''request_invalid''))"

definition lease_response :: "lease_result \<Rightarrow> pyval" where
  "lease_response r = PDict (sdict
     [(''epoch'', PStr (lr_epoch r)), (''etag'', PStr (lr_etag r)), (''state'', PStr ''accepted'')])"

definition scope_refused :: exn where
  "scope_refused = ServiceFailure ''destructive_scope_invalid'' 409 (Some ''refused'')"

definition require_disposable :: "checkpoint_policy \<Rightarrow> pyval \<Rightarrow> unit res" where
  "require_disposable policy prefix =
     (if \<not> str_matches disposable_prefix prefix then Inl scope_refused
      else case match_prefix policy prefix of
             Inl _ \<Rightarrow> Inl scope_refused
           | Inr matched \<Rightarrow>
               (case map_of (entries policy) (matched_id matched) of
                  None \<Rightarrow> Inl scope_refused
                | Some entry \<Rightarrow>
                    guardE (matched_id matched \<noteq> disposable_id \<or> durability entry \<noteq> ''disposable_acceptance'') scope_refused))"

definition invoke_acquire :: "'w backend \<Rightarrow> 'w gateway \<Rightarrow> pyval \<Rightarrow> ('w, pyval) service_act" where
  "invoke_acquire be gw payload =
     bindA (liftA (exact_payload payload [''checkpoint_id'', ''owner_id'', ''prefix'', ''session_id'', ''workload''])) (\<lambda>v.
     bindA (onW (acquire (be_env be) gw (be_policy be)
              \<lparr>aq_checkpoint_id = dget_none v ''checkpoint_id'', aq_prefix = dget_none v ''prefix'', aq_workload = dget_none v ''workload'',
               aq_owner_id = dget_none v ''owner_id'', aq_session_id = dget_none v ''session_id''\<rparr>)) (\<lambda>r.
     seqA (record_lease_metrics be (str_val (dget_none v ''checkpoint_id'')) (lr_body r)) (retA (lease_response r))))"

definition invoke_heartbeat :: "'w backend \<Rightarrow> 'w gateway \<Rightarrow> pyval \<Rightarrow> ('w, pyval) service_act" where
  "invoke_heartbeat be gw payload =
     bindA (liftA (exact_payload payload [''checkpoint_id'', ''epoch'', ''prefix''])) (\<lambda>v.
     bindA (onW (heartbeat (be_env be) gw (be_policy be)
              \<lparr>hr_checkpoint_id = dget_none v ''checkpoint_id'', hr_prefix = dget_none v ''prefix'', hr_epoch = dget_none v ''epoch''\<rparr>)) (\<lambda>r.
     seqA (record_lease_metrics be (str_val (dget_none v ''checkpoint_id'')) (lr_body r)) (retA (lease_response r))))"

definition invoke_terminal :: "'w backend \<Rightarrow> 'w gateway \<Rightarrow> pyval \<Rightarrow> ('w, pyval) service_act" where
  "invoke_terminal be gw payload =
     bindA (liftA (exact_payload payload [''checkpoint_id'', ''epoch'', ''evidence'', ''prefix'', ''state''])) (\<lambda>v.
     let cid = dget_none v ''checkpoint_id''; evidence = dget_none v ''evidence'' in
     seqA (guardA (\<not> is_dict evidence) (service_failure ''request_invalid'')) (
     bindA (onW (terminal (be_env be) gw (be_policy be)
              \<lparr>hr_checkpoint_id = cid, hr_prefix = dget_none v ''prefix'', hr_epoch = dget_none v ''epoch'',
               tr_state = dget_none v ''state'', tr_evidence = evidence\<rparr>)) (\<lambda>r.
     seqA (record_lease_metrics be (str_val cid) (lr_body r)) (
     seqA (if dget_none (dict_val evidence) ''successful'' = PBool True
           then bindA (onW (now_secs (be_env be))) (\<lambda>now.
                updS (set_sample ''checkpoint_retention_last_success_unixtime'' (str_val cid) (now - unix_epoch)))
           else retA ()) (
     retA (lease_response r))))))"

definition answer_status :: "'w backend \<Rightarrow> operation_status \<Rightarrow> ('w, pyval) service_act" where
  "answer_status be st =
     bindA (liftA (loads_dict (os_body st))) (\<lambda>result. seqA (record_apply_metrics be result) (retA (PDict result)))"

definition apply_failed :: "'w backend \<Rightarrow> 'w gateway \<Rightarrow> string \<Rightarrow> string \<Rightarrow> bool \<Rightarrow> ('w, pyval) service_act" where
  \<comment> \<open>the handler of \<^verbatim>\<open>OperationFailure\<close>\<close>
  "apply_failed be gw opid code partial' =
     (if \<not> partial'
      then raiseA (if code = ''operation_deadline'' then ServiceFailure code 504 None else ServiceFailure code 409 (Some ''refused''))
      else
      bindA (tryA (onW (status (be_operations be) gw opid))
               (\<lambda>e. if e = Interrupt then raiseA e else retA None) (\<lambda>st. retA (Some st))) (\<lambda>st.
      case st of
        Some st \<Rightarrow>
          if os_state st = ''partial'' then answer_status be st
          else seqA (updS (increment ''checkpoint_retention_partial_total'' ''partial'' 1)) (raiseA (ServiceFailure code 409 (Some ''partial'')))
      | None \<Rightarrow> seqA (updS (increment ''checkpoint_retention_partial_total'' ''partial'' 1)) (raiseA (ServiceFailure code 409 (Some ''partial'')))))"

definition invoke_apply :: "'w backend \<Rightarrow> 'w gateway \<Rightarrow> pyval \<Rightarrow> string \<Rightarrow> ('w, pyval) service_act" where
  "invoke_apply be gw payload opid =
     (if \<not> be_destructive be
      then retA (PDict (sdict [(''state'', PStr ''refused''), (''refusal_codes'', PList [PStr ''destructive_disabled''])]))
      else
      bindA (liftA (exact_payload payload [''confirm_prefix'', ''plan_sha256''])) (\<lambda>v.
      bindA (liftA (require_disposable (be_policy be) (dget_none v ''confirm_prefix''))) (\<lambda>_.
      tryA (onW (apply_operation (be_operations be)
              \<lparr>ar_operation_id = opid, ar_plan_sha256 = str_val (dget_none v ''plan_sha256''),
               ar_confirm_prefix = str_val (dget_none v ''confirm_prefix'')\<rparr>))
        (\<lambda>e. case e of OperationFailure code partial' \<Rightarrow> apply_failed be gw opid code partial' | _ \<Rightarrow> raiseA e)
        (answer_status be))))"

definition refused_summary :: "string \<Rightarrow> string \<Rightarrow> string \<Rightarrow> pydict" where
  "refused_summary cid digest code = sdict
     [(''checkpoint_id'', PStr cid), (''decision'', PStr ''refused''),
      (''inventory'', PDict (sdict [(''object_count'', PInt 0), (''total_bytes'', PInt 0)])),
      (''policy_sha256'', PStr digest), (''refusal_codes'', PList [PStr code])]"

definition bulk_summary :: "string \<Rightarrow> pydict \<Rightarrow> pydict res" where
  "bulk_summary cid summary =
     bindE (ditem summary ''decision'') (\<lambda>decision.
     bindE (ditem summary ''inventory'') (\<lambda>inventory.
     bindE (ditem (dict_val inventory) ''object_count'') (\<lambda>objects.
     bindE (ditem (dict_val inventory) ''total_bytes'') (\<lambda>bytes.
     bindE (ditem summary ''policy_sha256'') (\<lambda>digest.
     bindE (ditem summary ''refusal_codes'') (\<lambda>codes.
     Inr (sdict
       [(''checkpoint_id'', PStr cid), (''decision'', decision),
        (''inventory'', PDict (sdict [(''object_count'', objects), (''total_bytes'', bytes)])),
        (''policy_sha256'', digest), (''refusal_codes'', PList (refusal_values codes))])))))))"

definition bulk_entry :: "'w backend \<Rightarrow> 'w gateway \<Rightarrow> string \<Rightarrow> pyval \<Rightarrow> string \<times> checkpoint_entry \<Rightarrow> ('w, pyval) service_act" where
  \<comment> \<open>one turn of the loop of \<^verbatim>\<open>_bulk_plan\<close>\<close>
  "bulk_entry be gw actor now = (\<lambda>(cid, entry).
     let digest = policy_sha256 (be_policy be) in
     bindA (if CHR ''{'' \<in> set (entry_prefix entry) then retA (refused_summary cid digest ''concrete_prefix_required'')
            else tryA (onW (plan gw (be_policy be)
                         \<lparr>pq_checkpoint_id = PStr cid, pq_prefix = PStr (entry_prefix entry), pq_actor = PStr actor, pq_evaluated_at = now\<rparr>))
                   (\<lambda>e. case e of PlanFailure code \<Rightarrow> retA (refused_summary cid digest code) | _ \<Rightarrow> raiseA e)
                   (\<lambda>artifact. liftA (bulk_summary cid (pa_summary artifact)))) (\<lambda>summary.
     seqA (record_plan_metrics summary) (retA (PDict summary))))"

definition bulk_plan :: "'w backend \<Rightarrow> 'w gateway \<Rightarrow> pydict \<Rightarrow> ('w, pyval) service_act" where
  "bulk_plan be gw payload =
     (let actor = dget_none payload ''actor''; ids = dget_none payload ''checkpoint_ids'' in
      if \<not> is_str actor \<or> ids \<noteq> PList (map (PStr \<circ> fst) (entries (be_policy be))) then raiseA (service_failure ''request_invalid'')
      else
      bindA (onW (env_now (be_env be))) (\<lambda>now.
      bindA (mapA (bulk_entry be gw (str_val actor) now) (entries (be_policy be))) (\<lambda>summaries.
      retA (PDict (sdict [(''plans'', PList summaries), (''state'', PStr ''accepted'')])))))"

definition invoke_plan :: "'w backend \<Rightarrow> 'w gateway \<Rightarrow> pyval \<Rightarrow> ('w, pyval) service_act" where
  "invoke_plan be gw payload =
     (if is_dict payload \<and> keys_exactly (dict_val payload) [''actor'', ''checkpoint_ids''] then bulk_plan be gw (dict_val payload)
      else
      bindA (liftA (exact_payload payload [''actor'', ''checkpoint_id'', ''prefix''])) (\<lambda>v.
      bindA (onW (env_now (be_env be))) (\<lambda>now.
      bindA (onW (plan gw (be_policy be)
               \<lparr>pq_checkpoint_id = dget_none v ''checkpoint_id'', pq_prefix = dget_none v ''prefix'',
                pq_actor = dget_none v ''actor'', pq_evaluated_at = now\<rparr>)) (\<lambda>artifact.
      bindA (liftA (loads_dict (pa_body artifact))) (\<lambda>result.
      case dget_or result ''summary'' (PDict []) of
        PDict summary \<Rightarrow>
          bindA (liftA (set_member (dget_none summary ''decision'') [''eligible'', ''refused''])) (\<lambda>known.
          seqA (if known then record_plan_metrics summary else retA ()) (retA (PDict result)))
      | _ \<Rightarrow> raiseA (OtherExn ''AttributeError''))))))"

definition prepared_operation_id :: "pydict \<Rightarrow> string" where
  \<comment> \<open>\<^verbatim>\<open>uuid.uuid5(uuid.NAMESPACE_URL, ...)\<close> of the plan, the actor and the review\<close>
  "prepared_operation_id d =
     uuid5 ''6ba7b811-9dad-11d1-80b4-00c04fd430c8''
       (utf8_encode (''checkpoint-retention:'' @ str_val (dget_none d ''plan_sha256'') @ '':'' @ str_val (dget_none d ''actor'') @ '':'' @
          str_val (dget_none d ''review'')))"

definition prepare_error :: "exn \<Rightarrow> exn" where
  "prepare_error e =
     (case e of
        ServiceFailure _ _ _ \<Rightarrow> e
      | OperationFailure code partial' \<Rightarrow>
          if code = ''operation_deadline'' then ServiceFailure code 504 None
          else ServiceFailure code 409 (Some (if partial' then ''partial'' else ''refused''))
      | _ \<Rightarrow> if is_value_error e \<or> e = OtherExn ''TypeError'' then service_failure ''request_invalid'' else e)"

definition invoke_prepare :: "'w backend \<Rightarrow> 'w gateway \<Rightarrow> pyval \<Rightarrow> ('w, pyval) service_act" where
  "invoke_prepare be gw payload =
     (case payload of
        PDict d \<Rightarrow>
          if \<not> keys_exactly d [''actor'', ''plan'', ''plan_sha256'', ''review''] \<or>
             list_ex (\<lambda>k. \<not> is_str (dget_none d k)) [''actor'', ''plan_sha256'', ''review'']
          then raiseA (service_failure ''request_invalid'')
          else
          mapexnA
            (bindA (liftA (canonical_json_bytes (dget_none d ''plan'') max_plan_bytes max_plan_nodes)) (\<lambda>plan_body.
             bindA (liftA (decode_plan_artifact plan_body max_plan_bytes (max_manifest_shard_bytes (bounds (be_policy be))) max_plan_nodes)) (\<lambda>artifact.
             bindA (liftA (require_disposable (be_policy be) (dget_none (pa_summary artifact) ''prefix''))) (\<lambda>_.
             bindA (onW (prepare (be_operations be) gw
                      \<lparr>pr_operation_id = prepared_operation_id d, pr_artifact = artifact,
                       pr_plan_sha256 = str_val (dget_none d ''plan_sha256''), pr_review = str_val (dget_none d ''review''),
                       pr_actor = str_val (dget_none d ''actor'')\<rparr>)) (\<lambda>st.
             bindA (liftA (plain_loads (os_body st))) (\<lambda>result.
             seqA (updS (increment ''checkpoint_retention_prepared_total'' ''completed'' 1)) (retA result)))))))
            prepare_error
      | _ \<Rightarrow> raiseA (service_failure ''request_invalid''))"

definition invoke_action :: "'w backend \<Rightarrow> 'w gateway \<Rightarrow> string \<Rightarrow> pyval \<Rightarrow> string option \<Rightarrow> ('w, pyval) service_act" where
  \<comment> \<open>\<^verbatim>\<open>_invoke\<close>\<close>
  "invoke_action be gw action payload operation_id =
     (let opid = (case operation_id of None \<Rightarrow> [] | Some i \<Rightarrow> i) in
      if action = ''lease_acquire'' then invoke_acquire be gw payload
      else if action = ''lease_heartbeat'' then invoke_heartbeat be gw payload
      else if action = ''lease_terminal'' then invoke_terminal be gw payload
      else if action = ''apply'' then invoke_apply be gw payload opid
      else if action = ''status'' then bindA (onW (status (be_operations be) gw opid)) (\<lambda>st. liftA (plain_loads (os_body st)))
      else if action = ''plan'' then invoke_plan be gw payload
      else if action = ''prepare'' then invoke_prepare be gw payload
      else raiseA (service_failure ''route_invalid''))"

definition backend_check :: "'w backend \<Rightarrow> rat \<Rightarrow> ('w, unit) act" where
  "backend_check be started =
     bindA (mapexnA (env_monotonic (be_env be)) (else_code (gateway_failure ''operation_deadline''))) (\<lambda>t.
     guardA (t - started < 0 \<or> t - started > of_int (be_max_seconds be)) (gateway_failure ''operation_deadline''))"

definition deadline_error :: "exn \<Rightarrow> exn" where
  "deadline_error e =
     (case e of
        GatewayFailure code _ \<Rightarrow> if code = ''operation_deadline'' then ServiceFailure code 504 None else e
      | OperationFailure code _ \<Rightarrow> if code = ''operation_deadline'' then ServiceFailure code 504 None else e
      | _ \<Rightarrow> e)"

definition invoke :: "'w backend \<Rightarrow> string \<Rightarrow> pyval \<Rightarrow> string option \<Rightarrow> ('w, pyval) service_act" where
  "invoke be action payload operation_id =
     bindA (onW (mapexnA (env_monotonic (be_env be)) (else_code (ServiceFailure ''operation_deadline'' 504 None)))) (\<lambda>started.
     let chk = backend_check be started in
     mapexnA
       (seqA (onW chk) (
        bindA (invoke_action be (be_gateway be chk) action payload operation_id) (\<lambda>x. seqA (onW chk) (retA x))))
       deadline_error)"

end
