(* ===== verification/OpsProps.thy ===== *)
theory OpsProps
  imports OpsFacts Service PlanProps
begin

text \<open>
  Properties of the operation manager as the service composes it: which requests it may send, what a
  completed operation has seen, and what the recorded history of an operation looks like.
\<close>

section \<open>Requests\<close>

definition below :: "string \<Rightarrow> string \<Rightarrow> bool" where
  "below pre k \<longleftrightarrow> startswith k pre \<and> k \<noteq> pre"

definition operation_call :: "string \<Rightarrow> string \<Rightarrow> string \<Rightarrow> s3_call \<Rightarrow> bool" where
  \<comment> \<open>reads, conditional creation of the operation's own records, heads and deletes below the prefix\<close>
  "operation_call bk opid pre c =
     (case c of
        ListObjectsV2 b _ _ _ \<Rightarrow> b = bk
      | GetObject b _ \<Rightarrow> b = bk
      | PutObject b k _ condition \<Rightarrow> b = bk \<and> own_key opid k \<and> condition = IfNoneMatch
      | HeadObject b k \<Rightarrow> b = bk \<and> below pre k
      | DeleteObjects b ks \<Rightarrow> b = bk \<and> list_all (below pre) ks
      | DeleteObject _ _ \<Rightarrow> False)"

lemma revalidate_listed:
  assumes "revalidate env policy (s3_gateway env policy chk) prefix t w = (Inr art, w')"
  shows "list_all (listed prefix) (concat (map ms_records (pa_shards art)))"
proof -
  from assms obtain req w1 where "plan (s3_gateway env policy chk) policy req w1 = (Inr art, w')" "pq_prefix req = PStr prefix"
    by (auto simp: revalidate_def inr_iffs)
  from s3_results.planned [OF this(1)] this(2) show ?thesis by (metis inventory_sound_def str_val.simps(1))
qed

lemma revalidate_keeps:
  assumes chk: "preserves (logs (operation_call (bucket policy) opid pre)) chk"
  shows "preserves (logs (operation_call (bucket policy) opid pre)) (revalidate (traced env) policy (s3_gateway (traced env) policy chk) p t)"
  unfolding revalidate_def
  by (intro keeps env_okD [OF traced_ok] s3_calls.plan_keeps [OF chk]) (simp_all add: operation_call_def)

interpretation runtime_ops: operation_deletes "s3_gateway (traced env) policy" "traced env"
  "logs (operation_call (bucket policy) opid pre)" "operation_call (bucket policy) opid pre" "bucket policy"
  "runtime_operations (traced env) policy" opid policy pre
  for env :: "'w env" and policy opid pre
proof unfold_locales
  fix rv :: "('w \<times> s3_call list) gateway \<Rightarrow> string \<Rightarrow> int \<Rightarrow> ('w \<times> s3_call list, plan_artifact) act" and chk now w art w'
  assume "om_revalidate (runtime_operations (traced env) policy) = Some rv"
  then have rv: "rv = revalidate (traced env) policy" by (simp add: runtime_operations_def)
  show "preserves (logs (operation_call (bucket policy) opid pre)) chk \<Longrightarrow>
      preserves (logs (operation_call (bucket policy) opid pre)) (rv (s3_gateway (traced env) policy chk) pre now)"
    unfolding rv by (rule revalidate_keeps)
  show "rv (s3_gateway (traced env) policy chk) pre now w = (Inr art, w') \<Longrightarrow> list_all (listed pre) (concat (map ms_records (pa_shards art)))"
    unfolding rv by (rule revalidate_listed)
qed (auto simp: runtime_operations_def operation_call_def below_def list_all_iff listed_def)

definition apply_call :: "string \<Rightarrow> apply_request \<Rightarrow> s3_call \<Rightarrow> bool" where
  \<comment> \<open>a request of an operation whose confirmed prefix is a disposable one\<close>
  "apply_call bk req c \<longleftrightarrow>
     operation_call bk (ar_operation_id req) (ar_confirm_prefix req) c \<and>
     disposable_prefix (ar_confirm_prefix req) \<and> uuid_shape (ar_operation_id req) \<and> hex64 (ar_plan_sha256 req)"

lemma apply_inner_guarded:
  assumes "\<not> (disposable_prefix (ar_confirm_prefix req) \<and> uuid_shape (ar_operation_id req) \<and> hex64 (ar_plan_sha256 req))"
  shows "snd (apply_inner m gw req started w) = w"
  using assms by (auto simp: apply_inner_def seqA_def bindA_def guardA_def retA_def raiseA_def)

lemma preserves_silent: "(\<And>w. snd (k w) = w) \<Longrightarrow> preserves P k"
  by (simp add: preserves_def)

text \<open>C3. An apply touches nothing outside its scope: whatever the client answers, every request it sends
  is a read, the conditional creation of one of the operation's own records, or a head or delete of keys
  strictly below the confirmed prefix, and none is sent at all unless that prefix is a disposable
  acceptance prefix and the operation and plan identifiers are well formed.\<close>

theorem apply_confined:
  "list_all (apply_call (bucket policy) req) (calls (apply_operation (runtime_operations (traced env) policy) req) w)"
proof -
  let ?m = "runtime_operations (traced env) policy"
  have "preserves (logs (apply_call (bucket policy) req)) (apply_operation ?m req)"
  proof (cases "disposable_prefix (ar_confirm_prefix req) \<and> uuid_shape (ar_operation_id req) \<and> hex64 (ar_plan_sha256 req)")
    case True
    then have "apply_call (bucket policy) req = operation_call (bucket policy) (ar_operation_id req) (ar_confirm_prefix req)"
      by (auto simp: apply_call_def)
    then show ?thesis using runtime_ops.apply_keeps [of req "ar_operation_id req" "ar_confirm_prefix req"] by simp
  next
    case False
    have clocks: "preserves (logs (apply_call (bucket policy) req)) (start_deadline ?m)"
      "preserves (logs (apply_call (bucket policy) req)) (check_deadline ?m started n)" for started n
      unfolding start_deadline_def check_deadline_def runtime_operations_def op_manager.simps
      by (intro keeps env_okD [OF traced_ok])+
    show ?thesis unfolding apply_operation_def
      by (intro keeps clocks preserves_silent apply_inner_guarded [OF False])
  qed
  then show ?thesis by (rule calls_allowed)
qed

definition read_call :: "string \<Rightarrow> string \<Rightarrow> s3_call \<Rightarrow> bool" where
  \<comment> \<open>reading the records of one operation\<close>
  "read_call bk opid c =
     (case c of
        ListObjectsV2 b p _ t \<Rightarrow> b = bk \<and> p = tombstone_base opid @ ''/results/attempts/'' \<and> t = None
      | GetObject b k \<Rightarrow> b = bk \<and> own_key opid k
      | _ \<Rightarrow> False)"

interpretation runtime_reads: operation_reads "s3_gateway (traced env) policy" "traced env"
  "logs (read_call (bucket policy) opid)" "read_call (bucket policy) opid" "bucket policy" "runtime_operations (traced env) policy" opid policy
  for env :: "'w env" and policy opid
  by unfold_locales (auto simp: runtime_operations_def read_call_def)

text \<open>Asking for the status of an operation changes nothing: it lists the operation's attempts and
  reads the operation's own records, and sends nothing else.\<close>

lemma status_read_only:
  "list_all (read_call (bucket policy) opid)
     (calls (status (runtime_operations (traced env) policy) (s3_gateway (traced env) policy (onW chk)) opid) w)"
  by (rule calls_allowed, rule runtime_reads.status_keeps, rule keeps)

definition prepare_call :: "string \<Rightarrow> string \<Rightarrow> s3_call \<Rightarrow> bool" where
  "prepare_call bk opid c =
     (case c of
        ListObjectsV2 b _ _ _ \<Rightarrow> b = bk
      | GetObject b k \<Rightarrow> b = bk \<and> own_key opid k
      | PutObject b k _ condition \<Rightarrow> b = bk \<and> own_key opid k \<and> condition = IfNoneMatch
      | _ \<Rightarrow> False)"

interpretation runtime_prepares: operation_lists "s3_gateway (traced env) policy" "traced env"
  "logs (prepare_call (bucket policy) opid)" "prepare_call (bucket policy) opid" "bucket policy" "runtime_operations (traced env) policy" opid policy
  for env :: "'w env" and policy opid
  by unfold_locales (auto simp: runtime_operations_def prepare_call_def)

text \<open>Preparing an operation is append-only: it only lists, reads the operation's own records and
  creates them under the condition that they do not exist; it never heads, replaces or deletes an
  object.\<close>

lemma prepare_append_only:
  "list_all (prepare_call (bucket policy) (pr_operation_id req))
     (calls (prepare (runtime_operations (traced env) policy) (s3_gateway (traced env) policy (onW chk)) req) w)"
  by (rule calls_allowed, rule runtime_prepares.prepare_keeps) (simp_all add: keeps)

section \<open>Completion\<close>

definition state_of_body :: "operation_status \<Rightarrow> bool" where
  \<comment> \<open>the state of a status is the state its body says\<close>
  "state_of_body st \<longleftrightarrow> (\<forall>v. loads_dict (os_body st) = Inr v \<longrightarrow> os_state st = str_val (dget_none v ''state''))"

lemma onW_Inr [inr_iffs]: "onW k x = (Inr y, x') \<longleftrightarrow> k (fst x) = (Inr y, fst x') \<and> snd x' = snd x"
  by (cases x; cases x') (auto simp: onW_def split: prod.splits)

lemma sum_act_Inr [inr_iffs]:
  "(case s of Inl a \<Rightarrow> f a | Inr b \<Rightarrow> g b) w = (Inr y, w') \<longleftrightarrow>
   (\<exists>a. s = Inl a \<and> f a w = (Inr y, w')) \<or> (\<exists>b. s = Inr b \<and> g b w = (Inr y, w'))"
  by (cases s) simp_all

lemma updS_Inr [inr_iffs]: "updS f x = (Inr u, x') \<longleftrightarrow> x' = (fst x, f (snd x))"
  by (cases x; cases x') (auto simp: updS_def)

lemma runS_Inr [inr_iffs]: "runS k s w = (Inr rs, w') \<longleftrightarrow> k (w, s) = (fst rs, (w', snd rs))"
  by (cases rs) (auto simp: runS_def split: prod.splits)

lemma mapA_member: "mapA f xs w = (Inr ys, w') \<Longrightarrow> y \<in> set ys \<Longrightarrow> \<exists>x w1 w2. x \<in> set xs \<and> f x w1 = (Inr y, w2)"
  by (induction xs arbitrary: ys w) (auto simp: inr_iffs, metis+)

lemma read_attempt_state: "read_attempt m gw opid prepared records k w = (Inr i, w') \<Longrightarrow> state_of_body (hi_status i)"
  by (auto simp: read_attempt_def parse_status_def state_of_body_def loads_dict_def inr_iffs catchE_def split: if_splits sum.splits pyval.splits)

lemma latest_status_state:
  assumes "latest_status m gw opid required prepared records repair w = (Inr (Some st), w')"
  shows "state_of_body st"
proof -
  from assms obtain ks items w1 w2 where items: "mapA (read_attempt m gw opid prepared records) ks w1 = (Inr items, w2)" "items \<noteq> []"
    and st: "st = hi_status (last (sort_key hi_sequence items))"
    by (auto simp: latest_status_def Let_def inr_iffs split: if_splits)
  have "last (sort_key hi_sequence items) \<in> set items"
    using items(2) by (metis last_in_set set_empty set_sort)
  from mapA_member [OF items(1) this] show ?thesis unfolding st using read_attempt_state by metis
qed

lemma reconstruct_state:
  assumes "latest_or_reconstruct_prepared m gw opid prepared records started w = (Inr st, w')"
  shows "state_of_body st \<or> os_state st = ''prepared''"
proof -
  from assms obtain prior w1 where "latest_status m gw opid False prepared records False w = (Inr prior, w1)"
    and "prior = Some st \<or> os_state st = ''prepared''"
    by (auto simp: latest_or_reconstruct_prepared_def record_audited_def record_status_def plain_attempt_def Let_def inr_iffs split: option.splits)
  then show ?thesis using latest_status_state by metis
qed

lemma absence_seen:
  "prove_completed_absence m gw p st started w = (Inr u, w') \<Longrightarrow> \<exists>w1 w2. gw_inventory gw p w1 = (Inr [], w2)"
  by (auto simp: prove_completed_absence_def inr_iffs split: if_splits pyval.splits)

lemma sweep_empty:
  "sweep_prefix m gw p remaining started x = (Inr u, x') \<Longrightarrow> \<exists>w1 w2. gw_inventory gw p w1 = (Inr [], w2)"
  by (auto simp: sweep_prefix_def inr_iffs)

lemma prior_outcome_completed:
  assumes "prior_outcome m gw req prepared records started now prior w = (Inr (Inl st), w')" "os_state st = ''completed''"
    and prior: "state_of_body prior \<or> os_state prior = ''prepared''"
  shows "\<exists>w1 w2. gw_inventory gw (ar_confirm_prefix req) w1 = (Inr [], w2)"
proof -
  from assms(1) obtain v where v: "loads_dict (os_body prior) = Inr v"
    and cases: "(\<exists>w1 w2. prove_completed_absence m gw (ar_confirm_prefix req) prior started w1 = (Inr (), w2)) \<or>
      st = prior \<and> dget_none v ''state'' \<noteq> PStr ''completed''"
    by (auto simp: prior_outcome_def Let_def inr_iffs ditem_def dget_none_def split: if_splits option.splits)
  from cases show ?thesis
  proof (elim disjE exE conjE)
    assume "st = prior" "dget_none v ''state'' \<noteq> PStr ''completed''"
    with prior assms(2) v show ?thesis by (cases "dget_none v ''state''") (auto simp: state_of_body_def)
  qed (rule absence_seen)
qed

lemma apply_locked_completed:
  assumes "apply_locked m gw req prepared started now w = (Inr st, w')" "os_state st = ''completed''"
  shows "\<exists>w1 w2. gw_inventory gw (ar_confirm_prefix req) w1 = (Inr [], w2)"
proof -
  from assms(1) obtain records prior outcome w1 w2 w3 w4 where
    prior: "latest_or_reconstruct_prepared m gw (ar_operation_id req) prepared records started w1 = (Inr prior, w2)"
    and outcome: "prior_outcome m gw req prepared records started now prior w2 = (Inr outcome, w3)"
    and rest: "outcome = Inl st \<or> (\<exists>remaining earlier. apply_remaining m gw req prepared records started now remaining earlier w4 = (Inr st, w'))"
    by (auto simp: apply_locked_def Let_def inr_iffs) metis+
  from rest show ?thesis
  proof (elim disjE exE)
    assume "outcome = Inl st"
    with prior_outcome_completed [OF _ assms(2) reconstruct_state [OF prior]] outcome show ?thesis by metis
  next
    fix remaining earlier assume "apply_remaining m gw req prepared records started now remaining earlier w4 = (Inr st, w')"
    then obtain x u x' where "sweep_prefix m gw (ar_confirm_prefix req) remaining started x = (Inr u, x')"
      by (auto simp: apply_remaining_def sweep_failed_def Let_def inr_iffs tryA_Inr split: if_splits)
    then show ?thesis by (rule sweep_empty)
  qed
qed

text \<open>C5. Completion is never claimed blindly: an apply that runs its deletion phase answers a completed
  status only if an inventory of the confirmed prefix was empty.  Put the other way: with a gateway
  whose inventories of the prefix are never empty, no such apply answers completed.\<close>

theorem completed_only_when_empty:
  assumes "\<forall>w. fst (gw_inventory gw (ar_confirm_prefix req) w) \<noteq> Inr []"
  shows "\<not> (\<exists>st. fst (apply_locked m gw req prepared started now w) = Inr st \<and> os_state st = ''completed'')"
proof
  assume "\<exists>st. fst (apply_locked m gw req prepared started now w) = Inr st \<and> os_state st = ''completed''"
  then obtain st w' where "apply_locked m gw req prepared started now w = (Inr st, w')" "os_state st = ''completed''"
    by (metis prod.collapse)
  from apply_locked_completed [OF this] assms show False by (metis fst_conv)
qed

definition sample_apply :: apply_request where
  "sample_apply = \<lparr>ar_operation_id = ''0a1b2c3d-0000-4000-8000-0123456789ab'', ar_plan_sha256 = replicate 64 (CHR ''0''),
     ar_confirm_prefix = ''events/''\<rparr>"

theorem completed_only_when_empty_witness:
  "\<not> (\<exists>st. fst (apply_locked (runtime_operations plan_env shipped_policy) (s3_gateway plan_env shipped_policy (retA ())) sample_apply []
        0 63900000060 ()) = Inr st \<and> os_state st = ''completed'')"
  by (rule completed_only_when_empty) (simp add: sample_apply_def plan_env_reads)

section \<open>Quiescence\<close>

lemma gateway_reads: "gw_read_control (s3_gateway env policy chk) = read_control env policy chk"
  by (simp add: s3_gateway_def)

lemma runtime_quiescence: "om_quiescence_seconds (runtime_operations env policy) = quiescence_seconds (lease policy)"
  by (simp add: runtime_operations_def)

text \<open>C8. No deletion before the quiescence period is over: when every time the clock shows is earlier than
  the quiescence period after the preparation time of every prepared record the store serves for the
  operation, an apply only lists, reads and creates the operation's own records; it sends no head and no
  delete request.\<close>

theorem apply_waits_for_quiescence:
  assumes "\<forall>now w w' chk n w1 body etag w2 prepared prepared_at.
     env_now (traced env) w = (Inr (utc now), w') \<and>
     read_control (traced env) policy chk (tombstone_base (ar_operation_id req) @ ''/prepared.json'') n w1 = (Inr (body, etag), w2) \<and>
     decode_prepared (runtime_operations (traced env) policy) body (ar_operation_id req) = Inr prepared \<and>
     parse_utc (dget_none prepared ''prepared_at'') = Some prepared_at \<longrightarrow>
     now < prepared_at + quiescence_seconds (lease policy)"
  shows "list_all (prepare_call (bucket policy) (ar_operation_id req)) (calls (apply_operation (runtime_operations (traced env) policy) req) w)"
proof (rule calls_allowed, rule runtime_prepares.early_apply_keeps)
  fix now w w' chk n w1 body etag w2 prepared at'
  assume "op_exact_now (runtime_operations (traced env) policy) w = (Inr now, w')"
  then have "env_now (traced env) w = (Inr (utc now), w')"
    by (auto simp: op_exact_now_def runtime_operations_def inr_iffs is_exact_utc_iff)
  then show "gw_read_control (s3_gateway (traced env) policy chk) (tombstone_base (ar_operation_id req) @ ''/prepared.json'') n w1 = (Inr (body, etag), w2) \<Longrightarrow>
      decode_prepared (runtime_operations (traced env) policy) body (ar_operation_id req) = Inr prepared \<Longrightarrow>
      parse_utc (dget_none prepared ''prepared_at'') = Some at' \<Longrightarrow>
      now < at' + om_quiescence_seconds (runtime_operations (traced env) policy)"
    using assms unfolding gateway_reads runtime_quiescence by blast
qed (simp_all add: runtime_operations_def)

definition sample_prepared :: pyval where
  "sample_prepared = PDict (sdict
     [(''actor'', PStr ''operator-1''), (''checkpoint_id'', PStr disposable_id), (''evaluated_at'', PStr (format_utc 60)),
      (''inventory_sha256'', PStr (replicate 64 (CHR ''1''))), (''manifest_shards'', PList [PStr (replicate 64 (CHR ''2''))]),
      (''operation_id'', PStr ''0a1b2c3d-0000-4000-8000-0123456789ab''), (''plan_sha256'', PStr (replicate 64 (CHR ''0''))),
      (''policy_sha256'', PStr (replicate 64 (CHR ''3''))), (''prefix'', PStr sample_prefix),
      (''prefix_sha256'', PStr (replicate 64 (CHR ''4''))), (''prepared_at'', PStr (format_utc 60)), (''review'', PStr ''review-1''),
      (''schema_version'', PInt 1)])"

lemma sample_prepared_loads: "plain_loads (dumps sample_prepared) = Inr sample_prepared"
proof -
  have "json_ok sample_prepared"
    by (simp add: sample_prepared_def int_ok_def dec_nat.simps max_int_digits_def)
  moreover have "sort_keys sample_prepared = sample_prepared"
    by (simp add: sample_prepared_def sort_key_def)
  ultimately show ?thesis by (metis plain_loads_dumps)
qed

lemma echoed_read:
  assumes "read_control (traced (scripted (echo b) t e)) policy chk key n w = (Inr (body, etag), w')"
  shows "body = b"
proof -
  let ?d = "sdict [(''Body'', PStream (Some b) True), (''ContentLength'', PInt (int (length b))), (''ETag'', PStr sample_etag)]"
  from assms obtain d w1 w2 w3 w4 where get: "get_control (traced (scripted (echo b) t e)) policy key w1 = (Inr (PDict d), w2)"
    and body: "read_body chk d n w3 = (Inr (body, etag), w4)"
    by (auto simp: read_control_def inr_iffs)
  from get have "d = ?d"
    by (auto simp: get_control_def traced_def scripted_def echo_def tryA_def liftA_def retA_def split: prod.splits)
  with body show ?thesis by (auto simp: read_body_def Let_def inr_iffs dget_none_def split: if_splits)
qed

theorem apply_waits_for_quiescence_witness:
  "list_all (prepare_call (bucket shipped_policy) (ar_operation_id sample_apply))
     (calls (apply_operation (runtime_operations (traced (scripted (echo (dumps sample_prepared)) 60 [])) shipped_policy) sample_apply) ())"
proof (rule apply_waits_for_quiescence, intro allI impI, elim conjE)
  fix now w w' chk n w1 body etag w2 prepared prepared_at
  assume now: "env_now (traced (scripted (echo (dumps sample_prepared)) 60 [])) w = (Inr (utc now), w')"
    and read: "read_control (traced (scripted (echo (dumps sample_prepared)) 60 [])) shipped_policy chk
      (tombstone_base (ar_operation_id sample_apply) @ ''/prepared.json'') n w1 = (Inr (body, etag), w2)"
    and dec: "decode_prepared (runtime_operations (traced (scripted (echo (dumps sample_prepared)) 60 [])) shipped_policy) body
      (ar_operation_id sample_apply) = Inr prepared"
    and p: "parse_utc (dget_none prepared ''prepared_at'') = Some prepared_at"
  have "now = 60" using now by (auto simp: traced_def scripted_def onW_def retA_def utc_def split: prod.splits)
  moreover from dec have "plain_loads body = Inr (PDict prepared)"
    by (auto simp: decode_prepared_def inr_iffs catchE_def split: if_splits sum.splits)
  then have "PDict prepared = sample_prepared" using echoed_read [OF read] sample_prepared_loads by simp
  then have "prepared_at = 60" using p by (simp add: sample_prepared_def dget_none_def parse_utc_def max_secs_def)
  moreover have "0 < quiescence_seconds (lease shipped_policy)" by code_simp
  ultimately show "now < prepared_at + quiescence_seconds (lease shipped_policy)" by simp
qed

section \<open>The recorded history\<close>

definition moves_forward :: "history_item \<Rightarrow> history_item \<Rightarrow> bool" where
  \<comment> \<open>deleted objects, time and rank of the state only grow\<close>
  "moves_forward i j \<longleftrightarrow>
     set (hi_deleted i) \<subseteq> set (hi_deleted j) \<and> hi_occurred i \<le> hi_occurred j \<and> state_rank (hi_state i) \<le> state_rank (hi_state j)"

lemma moves_forward_trans: "moves_forward i j \<Longrightarrow> moves_forward j k \<Longrightarrow> moves_forward i k"
  unfolding moves_forward_def by (meson order_trans subset_trans)

lemma history_steps_forward:
  assumes "history_steps_ok n first ds o' r items"
  shows "sorted_wrt moves_forward items \<and>
    list_all (\<lambda>i. set ds \<subseteq> set (hi_deleted i) \<and> (\<forall>t. o' = Some t \<longrightarrow> t \<le> hi_occurred i) \<and> r \<le> state_rank (hi_state i)) items \<and>
    list_all (\<lambda>i. hi_state i = ''completed'' \<longrightarrow> length (hi_deleted i) = n) items \<and>
    list_all (\<lambda>i. hi_state i \<noteq> ''prepared'') (if first then tl items else items)"
  using assms
proof (induction items arbitrary: first ds o' r)
  case (Cons i items)
  have h: "set ds \<subseteq> set (hi_deleted i)" "r \<le> state_rank (hi_state i)" "\<forall>t. o' = Some t \<longrightarrow> t \<le> hi_occurred i"
    "hi_state i = ''completed'' \<longrightarrow> length (hi_deleted i) = n" "\<not> first \<longrightarrow> hi_state i \<noteq> ''prepared''"
    using Cons.prems by (auto split: option.splits)
  have "history_steps_ok n False (hi_deleted i) (Some (hi_occurred i)) (state_rank (hi_state i)) items"
    using Cons.prems by simp
  from Cons.IH [OF this] have ih: "sorted_wrt moves_forward items" "list_all (moves_forward i) items"
    "list_all (\<lambda>i. hi_state i = ''completed'' \<longrightarrow> length (hi_deleted i) = n) items" "list_all (\<lambda>i. hi_state i \<noteq> ''prepared'') items"
    by (simp_all add: list_all_iff moves_forward_def [of i])
  have "set ds \<subseteq> set (hi_deleted j) \<and> (\<forall>t. o' = Some t \<longrightarrow> t \<le> hi_occurred j) \<and> r \<le> state_rank (hi_state j)" if "j \<in> set items" for j
  proof -
    have j: "set (hi_deleted i) \<subseteq> set (hi_deleted j)" "hi_occurred i \<le> hi_occurred j" "state_rank (hi_state i) \<le> state_rank (hi_state j)"
      using ih(2) that by (simp_all add: list_all_iff moves_forward_def)
    then show ?thesis using subset_trans [OF h(1) j(1)] order_trans [OF h(2) j(3)] h(3) order_trans [OF _ j(2)] by blast
  qed
  then show ?case using h ih by (simp add: list_all_iff)
qed simp

text \<open>C35. A history that the reader accepts only moves forward: attempts are numbered from one without gaps,
  the first and only the first is the preparation, and from each attempt to any later one the deleted
  objects only grow, the time and the rank of the state never fall back; a completed attempt is the
  last one and deleted every planned object.\<close>

theorem history_monotone:
  assumes "history_ok n items" "items \<noteq> []"
  shows "map hi_sequence items = map int [1..<length items + 1] \<and> hi_state (hd items) = ''prepared'' \<and>
    sorted_wrt (\<lambda>i j. moves_forward i j \<and> hi_state i \<noteq> ''completed'' \<and> hi_state j \<noteq> ''prepared'') items \<and>
    (hi_state (last items) = ''completed'' \<longrightarrow> length (hi_deleted (last items)) = n)"
proof -
  from assms(1) have ok: "history_steps_ok n True [] None (-1) items" "list_all (\<lambda>i. hi_state i \<noteq> ''completed'') (butlast items)"
    and numbered: "map hi_sequence items = map int [1..<length items + 1]" "hi_state (hd items) = ''prepared''"
    by (simp_all add: history_ok_def)
  have s: "sorted_wrt moves_forward items" "list_all (\<lambda>i. hi_state i = ''completed'' \<longrightarrow> length (hi_deleted i) = n) items"
    "list_all (\<lambda>i. hi_state i \<noteq> ''prepared'') (tl items)"
    using history_steps_forward [OF ok(1)] by simp_all
  have "sorted_wrt (\<lambda>i j. moves_forward i j \<and> hi_state i \<noteq> ''completed'' \<and> hi_state j \<noteq> ''prepared'') items"
    unfolding sorted_wrt_iff_nth_less
  proof (intro allI impI)
    fix i j assume ij: "i < j" "j < length items"
    have "moves_forward (items ! i) (items ! j)" using s(1) ij by (simp add: sorted_wrt_iff_nth_less)
    moreover have "butlast items ! i = items ! i" "i < length (butlast items)" using ij by (simp_all add: nth_butlast)
    then have "hi_state (items ! i) \<noteq> ''completed''" using ok(2) [unfolded list_all_length, rule_format, of i] by simp
    moreover have "tl items ! (j - 1) = items ! j" "j - 1 < length (tl items)" using ij by (simp_all add: nth_tl)
    then have "hi_state (items ! j) \<noteq> ''prepared''" using s(3) [unfolded list_all_length, rule_format, of "j - 1"] by simp
    ultimately show "moves_forward (items ! i) (items ! j) \<and> hi_state (items ! i) \<noteq> ''completed'' \<and> hi_state (items ! j) \<noteq> ''prepared''"
      by blast
  qed
  then show ?thesis using numbered s(2) assms(2) by (simp add: list_all_iff)
qed

definition sample_history :: "history_item list" where
  \<comment> \<open>a preparation and the attempt that deleted the one planned object\<close>
  "sample_history =
     (let item = (\<lambda>k state ds. \<lparr>hi_sequence = k, hi_value = sdict [(''occurred_at'', PStr (format_utc 60)), (''state'', PStr state)],
         hi_deleted = ds, hi_status = \<lparr>os_operation_id = [], os_state = state, os_body = []\<rparr>\<rparr>)
      in [item 1 ''prepared'' [], item 2 ''completed'' [''d'']])"

theorem history_monotone_witness: "history_ok 1 sample_history \<and> length (hi_deleted (last sample_history)) = 1"
proof -
  have ok: "history_ok 1 sample_history" "sample_history \<noteq> []"
    by (simp_all add: history_ok_def sample_history_def Let_def hi_state_def hi_occurred_def dget_none_def state_rank_def)
  have "hi_state (last sample_history) = ''completed''"
    by (simp add: sample_history_def Let_def hi_state_def dget_none_def)
  with history_monotone [OF ok] ok show ?thesis by simp
qed

end
