(* ===== verification/Http.thy ===== *)
theory Http
  imports Service
begin

text \<open>
  \<^verbatim>\<open>scripts/checkpoints/service.py\<close>, second part: \<^verbatim>\<open>RetentionApplication\<close> with its header
  and body checks, its tokens and its routes.  Header lists and bodies are what
  \<^verbatim>\<open>http.server\<close> hands over.
\<close>

section \<open>Headers\<close>

definition py_lower :: "char \<Rightarrow> char" where
  \<comment> \<open>\<^verbatim>\<open>str.lower\<close> on U+0000 to U+00FF\<close>
  "py_lower c =
     (let n = (of_char c :: nat) in
      if (65 \<le> n \<and> n \<le> 90) \<or> (192 \<le> n \<and> n \<le> 222 \<and> n \<noteq> 215) then char_of (n + 32) else c)"

fun headers_from :: "(string \<times> string) list \<Rightarrow> (string \<times> string) list \<Rightarrow> (string \<times> string) list res" where
  "headers_from [] acc = Inr acc"
| "headers_from ((name, value) # hs) acc =
     (let key = map py_lower name in
      if key \<in> fst ` set acc then Inl (service_failure ''header_duplicate'')
      else if length name > 128 \<or> length value > 512 \<or> CHR 0x0D \<in> set value \<or> CHR 0x0A \<in> set value
      then Inl (service_failure ''header_invalid'')
      else headers_from hs (acc @ [(key, value)]))"

definition headers_of :: "(string \<times> string) list \<Rightarrow> (string \<times> string) list res" where
  \<comment> \<open>\<^verbatim>\<open>_headers\<close>\<close>
  "headers_of hs = headers_from hs []"

section \<open>Bodies\<close>

definition py_isdigit :: "string \<Rightarrow> bool" where
  \<comment> \<open>\<^verbatim>\<open>str.isdigit\<close>: the superscripts two, three and one count as digits\<close>
  "py_isdigit s \<longleftrightarrow> s \<noteq> [] \<and> list_all (\<lambda>c. digit_char c \<or> c \<in> {CHR 0xB2, CHR 0xB3, CHR 0xB9}) s"

definition check_length :: "(string \<times> string) list \<Rightarrow> string \<Rightarrow> unit res" where
  "check_length hs body =
     (case map_of hs ''content-length'' of
        None \<Rightarrow> Inl (service_failure ''content_length_mismatch'')
      | Some s \<Rightarrow>
          if \<not> py_isdigit s then Inl (service_failure ''content_length_mismatch'')
          else if \<not> list_all digit_char s then Inl (OtherExn ''ValueError'')
          else guardE (dec_val s \<noteq> length body) (service_failure ''content_length_mismatch''))"

fun check_structure :: "int \<Rightarrow> pyval \<Rightarrow> int \<Rightarrow> int \<Rightarrow> int res"
  and check_elements :: "int \<Rightarrow> pyval list \<Rightarrow> int \<Rightarrow> int \<Rightarrow> int res"
  and check_values :: "int \<Rightarrow> pydict \<Rightarrow> int \<Rightarrow> int \<Rightarrow> int res"
where
  \<comment> \<open>the number of nodes after the value, at a depth\<close>
  "check_structure max_nodes (PDict d) depth nodes =
     (if depth > 32 \<or> nodes + 1 > max_nodes then Inl (service_failure ''json_structure_bound'')
      else check_values max_nodes d (depth + 1) (nodes + 1))"
| "check_structure max_nodes (PList xs) depth nodes =
     (if depth > 32 \<or> nodes + 1 > max_nodes then Inl (service_failure ''json_structure_bound'')
      else check_elements max_nodes xs (depth + 1) (nodes + 1))"
| "check_structure max_nodes v depth nodes =
     (if depth > 32 \<or> nodes + 1 > max_nodes then Inl (service_failure ''json_structure_bound'') else Inr (nodes + 1))"
| "check_elements max_nodes [] depth nodes = Inr nodes"
| "check_elements max_nodes (x # xs) depth nodes =
     bindE (check_structure max_nodes x depth nodes) (check_elements max_nodes xs depth)"
| "check_values max_nodes [] depth nodes = Inr nodes"
| "check_values max_nodes ((k, v) # d) depth nodes =
     bindE (check_structure max_nodes v depth nodes) (check_values max_nodes d depth)"

definition body_error :: "exn \<Rightarrow> exn" where
  "body_error e =
     (if e \<in> set [OtherExn ''UnicodeError'', OtherExn ''JSONDecodeError'', OtherExn ''RecursionError'']
      then service_failure ''json_invalid'' else e)"

definition decode_body :: "(string \<times> string) list \<Rightarrow> string \<Rightarrow> int \<Rightarrow> int \<Rightarrow> pyval res" where
  "decode_body hs body max_len max_nodes =
     (if map_of hs ''transfer-encoding'' \<noteq> None then Inl (service_failure ''transfer_encoding_forbidden'')
      else if map_of hs ''content-type'' \<noteq> Some ''application/json'' then Inl (service_failure ''content_type_invalid'')
      else
      bindE (check_length hs body) (\<lambda>_.
      if int (length body) > max_len then Inl (service_failure ''body_too_large'')
      else
      bindE (catchE (loads (unique_object (service_failure ''json_duplicate_key'')) (Inr (PFloat None)) body) body_error) (\<lambda>v.
      if \<not> is_dict v then Inl (service_failure ''json_shape_invalid'')
      else bindE (check_structure max_nodes v 0 0) (\<lambda>_. Inr v))))"

section \<open>The application\<close>

record http_response =
  rs_status :: int
  rs_body :: string
  rs_type :: string

record 'w application =
  ap_backend :: "'w backend"
  ap_lease_token :: string
  ap_operator_token :: string

definition token_ok :: "string \<Rightarrow> bool" where
  "token_ok t \<longleftrightarrow> t \<noteq> [] \<and> length (utf8_encode t) \<le> 256"

definition make_application :: "'w backend \<Rightarrow> string \<Rightarrow> string \<Rightarrow> 'w application res" where
  \<comment> \<open>\<^verbatim>\<open>RetentionApplication.__init__\<close> with its two tokens\<close>
  "make_application be lease_token operator_token =
     (if token_ok lease_token \<and> token_ok operator_token
      then Inr \<lparr>ap_backend = be, ap_lease_token = lease_token, ap_operator_token = operator_token\<rparr>
      else Inl (service_failure ''token_invalid''))"

definition lease_actions :: "string list" where
  "lease_actions = [''lease_acquire'', ''lease_heartbeat'', ''lease_terminal'']"

definition post_routes :: "(string \<times> string) list" where
  "post_routes =
     [(''/v1/leases/acquire'', ''lease_acquire''), (''/v1/leases/heartbeat'', ''lease_heartbeat''),
      (''/v1/leases/terminal'', ''lease_terminal''), (''/v1/plans'', ''plan''), (''/v1/operations/prepare'', ''prepare'')]"

definition status_path :: "string \<Rightarrow> string option" where
  \<comment> \<open>\<^verbatim>\<open>_STATUS.fullmatch\<close>: the operation of the path\<close>
  "status_path path =
     (if match_classes (lit ''/v1/operations/'' @ uuid_any) path then Some (drop 15 path) else None)"

definition apply_path :: "string \<Rightarrow> string option" where
  \<comment> \<open>\<^verbatim>\<open>_APPLY.fullmatch\<close>\<close>
  "apply_path path =
     (if match_classes (lit ''/v1/operations/'' @ uuid_any @ lit ''/apply'') path then Some (take 36 (drop 15 path)) else None)"

definition authenticate :: "'w application \<Rightarrow> (string \<times> string) list \<Rightarrow> string \<Rightarrow> unit res" where
  \<comment> \<open>\<^verbatim>\<open>hmac.compare_digest\<close> refuses strings outside ASCII with \<^verbatim>\<open>TypeError\<close>\<close>
  "authenticate app hs action =
     (let expected = ''Bearer '' @ (if action \<in> set lease_actions then ap_lease_token app else ap_operator_token app) in
      case map_of hs ''authorization'' of
        None \<Rightarrow> Inl (service_failure ''unauthorized'')
      | Some a \<Rightarrow>
          if \<not> isascii a \<or> \<not> isascii expected then Inl (OtherExn ''TypeError'')
          else guardE (a \<noteq> expected) (service_failure ''unauthorized''))"

definition respond :: "pyval \<Rightarrow> int \<Rightarrow> int \<Rightarrow> http_response res" where
  \<comment> \<open>\<^verbatim>\<open>_response\<close>; the values answered hold no floats\<close>
  "respond v status' max_len =
     (if \<not> ints_ok v \<or> int (length (dumps v)) > max_len then Inl (service_failure ''response_invalid'')
      else Inr \<lparr>rs_status = status', rs_body = dumps v, rs_type = ''application/json''\<rparr>)"

definition application_invoke :: "'w application \<Rightarrow> string \<Rightarrow> pyval \<Rightarrow> string option \<Rightarrow> ('w, http_response) service_act" where
  "application_invoke app action payload opid =
     tryA (invoke (ap_backend app) action payload opid)
       (\<lambda>e. case e of
              Interrupt \<Rightarrow> raiseA e
            | ServiceFailure code st (Some state) \<Rightarrow>
                liftA (respond (PDict (sdict [(''code'', PStr code), (''state'', PStr state)])) st max_request_body)
            | ServiceFailure code st None \<Rightarrow> raiseA e
            | _ \<Rightarrow> raiseA (ServiceFailure ''backend_failure'' 500 None))
       (\<lambda>v. liftA (respond v 200 (if action = ''plan'' then max_plan_bytes else max_request_body)))"

definition post_action :: "string \<Rightarrow> (string \<times> string option) option" where
  \<comment> \<open>the action of a path and its operation\<close>
  "post_action path =
     (case map_of post_routes path of
        Some action \<Rightarrow> Some (action, None)
      | None \<Rightarrow> (case apply_path path of None \<Rightarrow> None | Some opid \<Rightarrow> Some (''apply'', Some opid)))"

definition dispatch_post :: "'w application \<Rightarrow> (string \<times> string) list \<Rightarrow> string \<Rightarrow> string \<Rightarrow> ('w, http_response) service_act" where
  "dispatch_post app hs path body =
     bindA (liftA (authenticate app hs (case map_of post_routes path of None \<Rightarrow> ''operator'' | Some action \<Rightarrow> action))) (\<lambda>_.
     case post_action path of
       None \<Rightarrow> raiseA (service_failure ''route_invalid'')
     | Some (action, opid) \<Rightarrow>
         bindA (liftA (decode_body hs body (if action = ''prepare'' then max_plan_bytes else max_request_body)
                         (if action = ''prepare'' then max_plan_nodes else 4096))) (\<lambda>payload.
         application_invoke app action payload opid))"

definition dispatch_get :: "'w application \<Rightarrow> (string \<times> string) list \<Rightarrow> string \<Rightarrow> string \<Rightarrow> ('w, http_response) service_act" where
  "dispatch_get app hs path body =
     (if body \<noteq> [] then raiseA (service_failure ''body_forbidden'')
      else case status_path path of
             None \<Rightarrow> raiseA (service_failure ''route_invalid'')
           | Some opid \<Rightarrow>
               bindA (liftA (authenticate app hs ''status'')) (\<lambda>_. application_invoke app ''status'' PNone (Some opid)))"

definition dispatch_request ::
  "'w application \<Rightarrow> string \<Rightarrow> string \<Rightarrow> (string \<times> string) list \<Rightarrow> string \<Rightarrow> ('w, http_response) service_act" where
  \<comment> \<open>\<^verbatim>\<open>_dispatch\<close>\<close>
  "dispatch_request app method path headers body =
     seqA (guardA (CHR ''?'' \<in> set path \<or> CHR ''#'' \<in> set path) (service_failure ''path_invalid'')) (
     bindA (liftA (headers_of headers)) (\<lambda>hs.
     if method = ''GET'' \<and> path = ''/healthz''
     then bindA (health (ap_backend app)) (\<lambda>v. liftA (respond v 200 max_request_body))
     else if method = ''GET'' \<and> path = ''/metrics''
     then bindA (mapexnA backend_metrics (else_code (service_failure ''backend_failure''))) (\<lambda>text'.
          if int (length text') > max_request_body then raiseA (service_failure ''response_invalid'')
          else retA \<lparr>rs_status = 200, rs_body = text', rs_type = ''text/plain; version=0.0.4''\<rparr>)
     else if method = ''POST'' then dispatch_post app hs path body
     else if method = ''GET'' then dispatch_get app hs path body
     else raiseA (service_failure ''method_invalid'')))"

definition failure_outcome :: "string \<Rightarrow> int \<Rightarrow> string" where
  "failure_outcome code st =
     (if code = ''unauthorized'' then ''unauthorized''
      else if code \<in> set [''operation_deadline'', ''request_timeout''] then ''timeout''
      else if code = ''capability_failed'' then ''capability_failed''
      else if st < 500 then ''invalid_request'' else ''backend_failure'')"

definition dispatch ::
  "'w application \<Rightarrow> string \<Rightarrow> string \<Rightarrow> (string \<times> string) list \<Rightarrow> string \<Rightarrow> ('w, http_response) service_act" where
  "dispatch app method path headers body =
     tryA (dispatch_request app method path headers body)
       (\<lambda>e. case e of
              ServiceFailure code st state \<Rightarrow> seqA (record_request_failure (failure_outcome code st)) (raiseA e)
            | _ \<Rightarrow> raiseA e)
       retA"

end
