(* ===== verification/Server.thy ===== *)
theory Server
  imports Http
begin

text \<open>
  \<^verbatim>\<open>scripts/checkpoints/service.py\<close>, third part: the request handler of the server, its work and
  prepare slots, and the start of the process.  The slots are counters with one step per acquisition
  and release: the invariant says that at most the configured number of requests and at most one
  \<^verbatim>\<open>prepare\<close> request are in progress and that no slot is lost.
\<close>

section \<open>The request handler\<close>

definition py_space :: "char \<Rightarrow> bool" where
  \<comment> \<open>the characters \<^verbatim>\<open>int\<close> strips\<close>
  "py_space c \<longleftrightarrow> (of_char c :: nat) \<in> {9, 10, 11, 12, 13, 28, 29, 30, 31, 32, 133, 160}"

fun grouped_digits :: "bool \<Rightarrow> string \<Rightarrow> string option" where
  \<comment> \<open>digits with single underscores between them; the flag says that a digit came before\<close>
  "grouped_digits after_digit [] = (if after_digit then Some [] else None)"
| "grouped_digits after_digit (c # s) =
     (if digit_char c then map_option ((#) c) (grouped_digits True s)
      else if c = CHR ''_'' \<and> after_digit then grouped_digits False s else None)"

definition py_int :: "string \<Rightarrow> int option" where
  \<comment> \<open>\<^verbatim>\<open>int(text)\<close>; \<open>None\<close> is \<^verbatim>\<open>ValueError\<close>\<close>
  "py_int s =
     (let t = rev (dropWhile py_space (rev (dropWhile py_space s)));
          neg = startswith t ''-''; u = (if neg \<or> startswith t ''+'' then tl t else t)
      in case grouped_digits False u of
           None \<Rightarrow> None
         | Some ds \<Rightarrow>
             if int (length ds) > max_int_digits then None
             else Some (if neg then - int (dec_val ds) else int (dec_val ds)))"

record http_request =
  rq_command :: string
  rq_path :: string
  rq_headers :: "(string \<times> string) list"
  rq_read :: "nat \<Rightarrow> string option" \<comment> \<open>reading that many bytes; \<open>None\<close> is a time-out\<close>

definition prepare_path :: string where "prepare_path = ''/v1/operations/prepare''"

definition send_failure :: "string \<Rightarrow> int \<Rightarrow> http_response" where
  "send_failure code st =
     \<lparr>rs_status = (if code = ''unauthorized'' then 401 else st), rs_body = dumps (PDict (sdict [(''code'', PStr code)])),
      rs_type = ''application/json''\<rparr>"

definition request_bound :: "string \<Rightarrow> int" where
  "request_bound path = (if path = prepare_path then max_plan_bytes else max_request_body)"

definition content_length :: "(string \<times> string) list \<Rightarrow> int res" where
  "content_length headers =
     (case map snd (filter (\<lambda>(n, _). map py_lower n = ''content-length'') headers) of
        [] \<Rightarrow> Inr 0
      | [v] \<Rightarrow> (case py_int v of None \<Rightarrow> Inl (service_failure ''content_length_invalid'') | Some n \<Rightarrow> Inr n)
      | _ \<Rightarrow> Inl (service_failure ''header_duplicate''))"

definition read_request :: "bool \<Rightarrow> http_request \<Rightarrow> string res" where
  \<comment> \<open>the checks of \<^verbatim>\<open>_handle\<close> before the dispatch, given whether a prepare slot is free\<close>
  "read_request slot_free rq =
     bindE (content_length (rq_headers rq)) (\<lambda>n.
     if n < 0 \<or> n > request_bound (rq_path rq) then Inl (service_failure ''body_too_large'')
     else if rq_path rq = prepare_path \<and> \<not> slot_free then Inl (ServiceFailure ''prepare_busy'' 503 None)
     else case (if n = 0 then Some [] else rq_read rq (nat n)) of
            None \<Rightarrow> Inl (ServiceFailure ''request_timeout'' 408 None)
          | Some body \<Rightarrow> if int (length body) \<noteq> n then Inl (service_failure ''request_body_incomplete'') else Inr body)"

definition handle_request :: "'w application \<Rightarrow> bool \<Rightarrow> http_request \<Rightarrow> ('w, http_response) service_act" where
  \<comment> \<open>\<^verbatim>\<open>Handler._handle\<close>\<close>
  "handle_request app slot_free rq =
     tryA (bindA (liftA (read_request slot_free rq)) (dispatch app (rq_command rq) (rq_path rq) (rq_headers rq)))
       (\<lambda>e. case e of ServiceFailure code st _ \<Rightarrow> retA (send_failure code st) | _ \<Rightarrow> raiseA e)
       retA"

section \<open>Slots\<close>

record server =
  sv_work :: nat \<comment> \<open>free work slots\<close>
  sv_prepare :: nat \<comment> \<open>free prepare slots\<close>
  sv_active :: "(nat \<times> bool) list" \<comment> \<open>running threads and whether each holds the prepare slot\<close>

definition server_config_ok :: "string \<times> int \<Rightarrow> int \<Rightarrow> int \<Rightarrow> bool" where
  "server_config_ok address max_workers timeout \<longleftrightarrow>
     address = (''0.0.0.0'', 8080) \<and> 1 \<le> max_workers \<and> max_workers \<le> 64 \<and> 1 \<le> timeout \<and> timeout \<le> 60"

definition create_server :: "string \<times> int \<Rightarrow> int \<Rightarrow> int \<Rightarrow> server res" where
  "create_server address max_workers timeout =
     (if server_config_ok address max_workers timeout
      then Inr \<lparr>sv_work = nat max_workers, sv_prepare = 1, sv_active = []\<rparr>
      else Inl (service_failure ''server_config_invalid''))"

definition process_request :: "nat \<Rightarrow> bool \<Rightarrow> server \<Rightarrow> server" where
  \<comment> \<open>a connection: refused without a free slot; the slot is given back when no thread could be started\<close>
  "process_request tid started s =
     (if sv_work s = 0 \<or> \<not> started then s
      else s\<lparr>sv_work := sv_work s - 1, sv_active := (tid, False) # sv_active s\<rparr>)"

definition acquire_prepare :: "nat \<Rightarrow> server \<Rightarrow> server" where
  \<comment> \<open>\<^verbatim>\<open>prepare_slots.acquire(blocking=False)\<close> by a running thread\<close>
  "acquire_prepare tid s =
     (if sv_prepare s = 0 then s
      else s\<lparr>sv_prepare := sv_prepare s - 1, sv_active := map (\<lambda>(i, b). (i, b \<or> i = tid)) (sv_active s)\<rparr>)"

definition release_prepare :: "nat \<Rightarrow> server \<Rightarrow> server" where
  \<comment> \<open>the \<^verbatim>\<open>finally\<close> of \<^verbatim>\<open>_handle\<close>\<close>
  "release_prepare tid s =
     s\<lparr>sv_prepare := sv_prepare s + 1, sv_active := map (\<lambda>(i, b). (i, b \<and> i \<noteq> tid)) (sv_active s)\<rparr>"

definition finish_thread :: "nat \<Rightarrow> server \<Rightarrow> server" where
  \<comment> \<open>the \<^verbatim>\<open>finally\<close> of \<^verbatim>\<open>process_request_thread\<close>\<close>
  "finish_thread tid s = s\<lparr>sv_work := sv_work s + 1, sv_active := filter (\<lambda>(i, _). i \<noteq> tid) (sv_active s)\<rparr>"

inductive server_step :: "server \<Rightarrow> server \<Rightarrow> bool" where
  connect: "tid \<notin> fst ` set (sv_active s) \<Longrightarrow> server_step s (process_request tid started s)"
| prepare: "(tid, False) \<in> set (sv_active s) \<Longrightarrow> server_step s (acquire_prepare tid s)"
| unprepare: "(tid, True) \<in> set (sv_active s) \<Longrightarrow> server_step s (release_prepare tid s)"
| finish: "(tid, False) \<in> set (sv_active s) \<Longrightarrow> server_step s (finish_thread tid s)"

section \<open>Start of the process\<close>

definition required_environment :: "(string \<rightharpoonup> string) \<Rightarrow> string \<Rightarrow> string res" where
  "required_environment environ name =
     (case environ name of
        None \<Rightarrow> Inl (service_failure ''configuration_invalid'')
      | Some v \<Rightarrow> if v = [] \<or> length (utf8_encode v) > 256 then Inl (service_failure ''configuration_invalid'') else Inr v)"

definition env_default :: "(string \<rightharpoonup> string) \<Rightarrow> string \<Rightarrow> string \<Rightarrow> string" where
  "env_default environ name d = (case environ name of None \<Rightarrow> d | Some v \<Rightarrow> v)"

definition load_policy_file :: "(string \<Rightarrow> ynode res) \<Rightarrow> (string \<Rightarrow> ('w, string) act) \<Rightarrow> string \<Rightarrow> ('w, checkpoint_policy) act" where
  "load_policy_file yaml read_file path w = (case read_file path w of (r, w') \<Rightarrow> (load_policy yaml r, w'))"

record ('w, 'c) outside =
  \<comment> \<open>what the process starts from: the environment variables, the file system, the YAML reader and boto3\<close>
  os_environ :: "string \<rightharpoonup> string"
  os_read_file :: "string \<Rightarrow> ('w, string) act"
  os_yaml :: "string \<Rightarrow> ynode res"
  os_boto_client :: "(string \<times> pyval) list \<Rightarrow> string \<Rightarrow> string \<Rightarrow> ('w, 'c) act"
  os_client_env :: "'c \<Rightarrow> 'w env" \<comment> \<open>the calls of a client, with the clocks\<close>

definition build_runtime :: "('w, 'c) outside \<Rightarrow> ('w, 'w backend) service_act" where
  "build_runtime os =
     (let environ = os_environ os; destructive = env_default environ ''DESTRUCTIVE_ENABLED'' ''false'' in
     bindA (liftA (required_environment environ ''MINIO_RETENTION_ACCESS_KEY'')) (\<lambda>access_key.
     bindA (liftA (required_environment environ ''MINIO_RETENTION_SECRET_KEY'')) (\<lambda>secret_key.
     seqA (guardA (env_default environ ''MINIO_ENDPOINT'' ''http://minio:9000'' \<noteq> ''http://minio:9000'' \<or>
                   destructive \<notin> set [''false'', ''true'']) (service_failure ''configuration_invalid'')) (
     mapexnA
       (bindA (onW (load_policy_file (os_yaml os) (os_read_file os)
                 (env_default environ ''CHECKPOINT_RETENTION_POLICY'' ''/workspace/checkpoints/retention-policy.yaml''))) (\<lambda>policy.
        bindA (onW (build_s3_client (os_boto_client os) (PStr access_key) (PStr secret_key))) (\<lambda>client.
        let env = os_client_env os client in
        bindA (liftA (make_manager (runtime_operations env policy))) (\<lambda>_.
        let be = runtime_backend env policy (destructive = ''true'') in
        bindA (health be) (\<lambda>_. retA be)))))
       (\<lambda>e. case e of
              ServiceFailure _ _ _ \<Rightarrow> e
            | _ \<Rightarrow> else_code (service_failure ''runtime_initialization_failed'') e)))))"

definition start_service :: "('w, 'c) outside \<Rightarrow> ('w, 'w application \<times> server) service_act" where
  \<comment> \<open>\<^verbatim>\<open>main\<close> up to \<^verbatim>\<open>serve_forever\<close>\<close>
  "start_service os =
     bindA (liftA (required_environment (os_environ os) ''CHECKPOINT_RETENTION_LEASE_TOKEN'')) (\<lambda>lease_token.
     bindA (liftA (required_environment (os_environ os) ''CHECKPOINT_RETENTION_OPERATOR_TOKEN'')) (\<lambda>operator_token.
     seqA (guardA (\<not> isascii lease_token \<or> \<not> isascii operator_token) (OtherExn ''TypeError'')) (
     seqA (guardA (lease_token = operator_token) (service_failure ''configuration_invalid'')) (
     bindA (build_runtime os) (\<lambda>be.
     bindA (liftA (make_application be lease_token operator_token)) (\<lambda>app.
     bindA (liftA (create_server (''0.0.0.0'', 8080) 16 30)) (\<lambda>sv.
     retA (app, sv))))))))"

end
