(* ===== verification/ServiceProps.thy ===== *)
theory ServiceProps
  imports OpsProps Server LeaseProps
begin

text \<open>
  The service as a whole.  \<open>permitted\<close> says, for a request as it came over the wire, which S3 calls
  it may cause; every handler of the service keeps to it, because every manager behind the handler does.
\<close>

section \<open>What a request may cause\<close>

definition token_for :: "'w application \<Rightarrow> string \<Rightarrow> string" where
  "token_for app action = (if action \<in> set lease_actions then ap_lease_token app else ap_operator_token app)"

definition presents :: "'w application \<Rightarrow> string \<Rightarrow> (string \<times> string) list \<Rightarrow> bool" where
  \<comment> \<open>the request carries the bearer token of the action\<close>
  "presents app action hs \<longleftrightarrow> map_of hs ''authorization'' = Some (''Bearer '' @ token_for app action)"

definition authorised_request :: "'w application \<Rightarrow> bool \<Rightarrow> http_request \<Rightarrow> (string \<times> pyval \<times> string option) option" where
  \<comment> \<open>the action, payload and operation of a complete, well-formed request with the right token\<close>
  "authorised_request app slot_free rq =
     (case read_request slot_free rq of
        Inl _ \<Rightarrow> None
      | Inr body \<Rightarrow>
          (case headers_of (rq_headers rq) of
             Inl _ \<Rightarrow> None
           | Inr hs \<Rightarrow>
               if rq_command rq = ''POST'' then
                 (case post_action (rq_path rq) of
                    None \<Rightarrow> None
                  | Some (action, opid) \<Rightarrow>
                      if presents app action hs
                      then (case decode_body hs body (if action = ''prepare'' then max_plan_bytes else max_request_body)
                                   (if action = ''prepare'' then max_plan_nodes else 4096) of
                              Inl _ \<Rightarrow> None
                            | Inr payload \<Rightarrow> Some (action, payload, opid))
                      else None)
               else if rq_command rq = ''GET'' \<and> presents app ''status'' hs
               then map_option (\<lambda>opid. (''status'', PNone, Some opid)) (status_path (rq_path rq))
               else None))"

definition read_only_call :: "string \<Rightarrow> s3_call \<Rightarrow> bool" where
  "read_only_call bk c = (case c of ListObjectsV2 b _ _ _ \<Rightarrow> b = bk | GetObject b _ \<Rightarrow> b = bk | _ \<Rightarrow> False)"

definition action_call :: "checkpoint_policy \<Rightarrow> bool \<Rightarrow> string \<Rightarrow> pyval \<Rightarrow> string option \<Rightarrow> s3_call \<Rightarrow> bool" where
  \<comment> \<open>deleting takes an apply action, the destructive switch and a disposable prefix of the registry\<close>
  "action_call policy destructive action payload operation_id =
     (let d = dict_val payload; opid = (case operation_id of None \<Rightarrow> [] | Some i \<Rightarrow> i) in
      if action \<in> set lease_actions then lease_call (bucket policy) (dget_none d ''checkpoint_id'')
      else if action = ''plan'' then read_only_call (bucket policy)
      else if action = ''prepare'' then prepare_call (bucket policy) (prepared_operation_id d)
      else if action = ''status'' then read_call (bucket policy) opid
      else if action = ''apply'' \<and> destructive \<and> require_disposable policy (dget_none d ''confirm_prefix'') = Inr ()
      then operation_call (bucket policy) opid (str_val (dget_none d ''confirm_prefix''))
      else (\<lambda>_. False))"

definition permitted :: "'w application \<Rightarrow> bool \<Rightarrow> http_request \<Rightarrow> s3_call \<Rightarrow> bool" where
  "permitted app slot_free rq =
     (if rq_command rq = ''GET'' \<and> rq_path rq = ''/healthz'' then (\<lambda>_. True) \<comment> \<open>the capability probe\<close>
      else case authorised_request app slot_free rq of
             None \<Rightarrow> (\<lambda>_. False)
           | Some (action, payload, opid) \<Rightarrow>
               action_call (be_policy (ap_backend app)) (be_destructive (ap_backend app)) action payload opid)"

section \<open>The actions\<close>

lemma preserves_getS [keeps]: "preserves P getS"
  by (auto simp: preserves_def getS_def)

lemma runtime_backend_sel [simp]:
  "be_env (runtime_backend env policy destructive) = env" "be_policy (runtime_backend env policy destructive) = policy"
  "be_gateway (runtime_backend env policy destructive) = s3_gateway env policy"
  "be_operations (runtime_backend env policy destructive) = runtime_operations env policy"
  "be_destructive (runtime_backend env policy destructive) = destructive"
  by (simp_all add: runtime_backend_def)

lemma traced_clock_keeps [keeps]: "preserves (logs al) (env_now (traced env))" "preserves (logs al) (env_monotonic (traced env))"
  by (rule env_okD [OF traced_ok])+

lemma now_secs_keeps [keeps]: "preserves (logs al) (now_secs (traced env))"
  unfolding now_secs_def by (intro keeps)

lemma backend_check_keeps [keeps]: "preserves (logs al) (backend_check (runtime_backend (traced env) policy destructive) started)"
  unfolding backend_check_def runtime_backend_sel by (intro keeps)

lemma recorders_keep [keeps]:
  "preserves (onP (logs al)) (record_lease_metrics (runtime_backend (traced env) policy destructive) cid body)"
  "preserves (onP (logs al)) (record_plan_metrics summary)"
  "preserves (onP (logs al)) (record_apply_metrics (runtime_backend (traced env) policy destructive) result)"
  "preserves (onP (logs al)) (record_request_failure outcome)"
  "preserves (onP (logs al)) (answer_status (runtime_backend (traced env) policy destructive) st)"
proof -
  show r: "preserves (onP (logs al)) (record_apply_metrics (runtime_backend (traced env) policy destructive) result)" for result
    unfolding record_apply_metrics_def Let_def runtime_backend_sel by (intro keeps)
  show "preserves (onP (logs al)) (answer_status (runtime_backend (traced env) policy destructive) st)"
    unfolding answer_status_def by (intro keeps r)
  show "preserves (onP (logs al)) (record_lease_metrics (runtime_backend (traced env) policy destructive) cid body)"
    unfolding record_lease_metrics_def runtime_backend_sel by (intro keeps)
  show "preserves (onP (logs al)) (record_plan_metrics summary)"
    unfolding record_plan_metrics_def Let_def by (intro keeps)
  show "preserves (onP (logs al)) (record_request_failure outcome)"
    unfolding record_request_failure_def by (intro keeps)
qed

lemma exact_payload_Inr: "exact_payload payload names = Inr v \<Longrightarrow> payload = PDict v"
  by (auto simp: exact_payload_def split: pyval.splits if_splits)

lemma lease_actions_keep:
  fixes env :: "'w env" and policy destructive payload
  assumes chk: "preserves (logs (lease_call (bucket policy) (dget_none (dict_val payload) ''checkpoint_id''))) chk"
  defines "A \<equiv> lease_call (bucket policy) (dget_none (dict_val payload) ''checkpoint_id'')"
    and "be \<equiv> runtime_backend (traced env) policy destructive"
  shows "preserves (onP (logs A)) (invoke_acquire be (s3_gateway (traced env) policy chk) payload)"
    "preserves (onP (logs A)) (invoke_heartbeat be (s3_gateway (traced env) policy chk) payload)"
    "preserves (onP (logs A)) (invoke_terminal be (s3_gateway (traced env) policy chk) payload)"
proof -
  note c = chk [folded A_def]
  show "preserves (onP (logs A)) (invoke_acquire be (s3_gateway (traced env) policy chk) payload)"
    unfolding invoke_acquire_def be_def runtime_backend_sel
    by (intro keeps preserves_bindA_liftA s3_calls.acquire_keeps [OF c])
      (auto simp: A_def lease_call_def dest!: validate_acquire_Inr exact_payload_Inr)
  show "preserves (onP (logs A)) (invoke_heartbeat be (s3_gateway (traced env) policy chk) payload)"
    unfolding invoke_heartbeat_def be_def runtime_backend_sel
    by (intro keeps preserves_bindA_liftA s3_calls.heartbeat_keeps [OF c])
      (auto simp: A_def lease_call_def dest!: exact_payload_Inr)
  show "preserves (onP (logs A)) (invoke_terminal be (s3_gateway (traced env) policy chk) payload)"
    unfolding invoke_terminal_def be_def runtime_backend_sel Let_def
    by (intro keeps preserves_bindA_liftA s3_calls.terminal_keeps [OF c])
      (auto simp: A_def lease_call_def dest!: exact_payload_Inr)
qed

lemma plan_action_keeps:
  fixes env :: "'w env" and policy destructive payload
  assumes chk: "preserves (logs (read_only_call (bucket policy))) chk"
  defines "be \<equiv> runtime_backend (traced env) policy destructive"
  shows "preserves (onP (logs (read_only_call (bucket policy)))) (invoke_plan be (s3_gateway (traced env) policy chk) payload)"
proof -
  have plan: "preserves (logs (read_only_call (bucket policy))) (plan (s3_gateway (traced env) policy chk) policy req)" for req
    by (rule s3_calls.plan_keeps [OF chk]) (simp_all add: read_only_call_def)
  have bulk: "preserves (onP (logs (read_only_call (bucket policy)))) (bulk_entry be (s3_gateway (traced env) policy chk) actor now e)" for actor now e
    unfolding bulk_entry_def be_def runtime_backend_sel Let_def by (intro keeps plan)
  show ?thesis
    unfolding invoke_plan_def bulk_plan_def Let_def be_def runtime_backend_sel by (intro keeps plan bulk [unfolded be_def])
qed

lemma prepare_action_keeps:
  fixes env :: "'w env" and policy destructive payload
  assumes chk: "preserves (logs (prepare_call (bucket policy) (prepared_operation_id (dict_val payload)))) chk"
  shows "preserves (onP (logs (prepare_call (bucket policy) (prepared_operation_id (dict_val payload)))))
    (invoke_prepare (runtime_backend (traced env) policy destructive) (s3_gateway (traced env) policy chk) payload)"
proof (cases payload)
  case (PDict d)
  show ?thesis
    unfolding invoke_prepare_def PDict pyval.case runtime_backend_sel dict_val.simps
    by (intro keeps runtime_prepares.prepare_keeps chk [unfolded PDict dict_val.simps]) simp
qed (simp_all add: invoke_prepare_def keeps)

lemma apply_action_keeps:
  fixes env :: "'w env" and policy destructive payload and opid :: string
  defines "A \<equiv> action_call policy destructive ''apply'' payload (Some opid)"
  assumes chk: "preserves (logs A) chk"
  shows "preserves (onP (logs A)) (invoke_apply (runtime_backend (traced env) policy destructive) (s3_gateway (traced env) policy chk) payload opid)"
  unfolding invoke_apply_def runtime_backend_sel
proof (intro preserves_if preserves_bindA_liftA)
  fix v u
  assume on: "\<not> \<not> destructive" and v: "exact_payload payload [''confirm_prefix'', ''plan_sha256''] = Inr v"
    and d: "require_disposable policy (dget_none v ''confirm_prefix'') = Inr u"
  let ?pre = "str_val (dget_none v ''confirm_prefix'')"
  let ?req = "\<lparr>ar_operation_id = opid, ar_plan_sha256 = str_val (dget_none v ''plan_sha256''), ar_confirm_prefix = ?pre\<rparr>"
  have A: "A = operation_call (bucket policy) opid ?pre"
    using on d by (simp add: A_def action_call_def Let_def lease_actions_def exact_payload_Inr [OF v])
  have "preserves (logs A) (status (runtime_operations (traced env) policy) (s3_gateway (traced env) policy chk) opid)"
    using chk unfolding A by (rule runtime_ops.status_keeps)
  then have failed: "preserves (onP (logs A)) (apply_failed (runtime_backend (traced env) policy destructive) (s3_gateway (traced env) policy chk)
      opid code partial')" for code partial'
    unfolding apply_failed_def runtime_backend_sel by (intro keeps)
  have "preserves (logs A) (apply_operation (runtime_operations (traced env) policy) ?req)"
    unfolding A by (rule runtime_ops.apply_keeps) simp_all
  then show "preserves (onP (logs A)) (tryA (onW (apply_operation (runtime_operations (traced env) policy) ?req))
      (\<lambda>e. case e of OperationFailure code partial' \<Rightarrow>
           apply_failed (runtime_backend (traced env) policy destructive) (s3_gateway (traced env) policy chk) opid code partial' | _ \<Rightarrow> raiseA e)
      (answer_status (runtime_backend (traced env) policy destructive)))"
    by (intro keeps failed)
qed (intro keeps)

lemma action_cases:
  "invoke_action be gw ''lease_acquire'' payload opid = invoke_acquire be gw payload"
  "invoke_action be gw ''lease_heartbeat'' payload opid = invoke_heartbeat be gw payload"
  "invoke_action be gw ''lease_terminal'' payload opid = invoke_terminal be gw payload"
  "invoke_action be gw ''plan'' payload opid = invoke_plan be gw payload"
  "invoke_action be gw ''prepare'' payload opid = invoke_prepare be gw payload"
  "invoke_action be gw ''status'' payload (Some i) = bindA (onW (status (be_operations be) gw i)) (\<lambda>st. liftA (plain_loads (os_body st)))"
  "invoke_action be gw ''apply'' payload (Some i) = invoke_apply be gw payload i"
  by (simp_all add: invoke_action_def)

lemma action_call_cases:
  "action \<in> set lease_actions \<Longrightarrow>
   action_call policy destructive action payload opid = lease_call (bucket policy) (dget_none (dict_val payload) ''checkpoint_id'')"
  "action_call policy destructive ''plan'' payload opid = read_only_call (bucket policy)"
  "action_call policy destructive ''prepare'' payload opid = prepare_call (bucket policy) (prepared_operation_id (dict_val payload))"
  "action_call policy destructive ''status'' payload (Some i) = read_call (bucket policy) i"
  by (simp_all add: action_call_def lease_actions_def Let_def)

definition routed :: "string \<Rightarrow> string option \<Rightarrow> bool" where
  "routed action opid \<longleftrightarrow> action \<in> set (map snd post_routes) \<or> action \<in> {''status'', ''apply''} \<and> opid \<noteq> None"

lemma routed_cases [consumes 1, case_names acquire heartbeat terminal plan prepare status applied]:
  assumes "routed action opid"
  obtains "action = ''lease_acquire''" | "action = ''lease_heartbeat''" | "action = ''lease_terminal''" | "action = ''plan''" |
    "action = ''prepare''" | i where "action = ''status''" "opid = Some i" | i where "action = ''apply''" "opid = Some i"
proof -
  from assms have "action = ''lease_acquire'' \<or> action = ''lease_heartbeat'' \<or> action = ''lease_terminal'' \<or> action = ''plan'' \<or>
      action = ''prepare'' \<or> (\<exists>i. action = ''status'' \<and> opid = Some i) \<or> (\<exists>i. action = ''apply'' \<and> opid = Some i)"
    unfolding routed_def post_routes_def by (cases opid) simp_all
  then show thesis by (elim disjE exE conjE) (rule that; assumption)+
qed

lemma invoke_action_keeps:
  fixes env :: "'w env" and policy destructive
  assumes "routed action opid" and chk: "\<And>al. preserves (logs al) chk"
  shows "preserves (onP (logs (action_call policy destructive action payload opid)))
    (invoke_action (runtime_backend (traced env) policy destructive) (s3_gateway (traced env) policy chk) action payload opid)"
  using assms(1)
proof (cases rule: routed_cases)
  case (status i)
  show ?thesis unfolding status action_cases action_call_cases runtime_backend_sel
    by (intro keeps runtime_reads.status_keeps [OF chk])
next
  case (applied i)
  show ?thesis unfolding applied action_cases by (rule apply_action_keeps [OF chk])
qed (simp_all add: action_cases action_call_cases lease_actions_def lease_actions_keep [OF chk] plan_action_keeps [OF chk] prepare_action_keeps [OF chk])

lemma invoke_keeps:
  fixes env :: "'w env" and policy destructive
  assumes "routed action opid"
  shows "preserves (onP (logs (action_call policy destructive action payload opid)))
    (invoke (runtime_backend (traced env) policy destructive) action payload opid)"
  unfolding invoke_def Let_def runtime_backend_sel
  by (intro keeps invoke_action_keeps [OF assms])

section \<open>The dispatch\<close>

lemma authenticate_presents: "authenticate app hs action = Inr u \<Longrightarrow> presents app action hs"
  by (auto simp: authenticate_def presents_def token_for_def Let_def guardE_def split: option.splits if_splits)

lemma application_invoke_keeps:
  "preserves (onP P) (invoke (ap_backend app) action payload opid) \<Longrightarrow> preserves (onP P) (application_invoke app action payload opid)"
  unfolding application_invoke_def by (intro keeps)

lemma post_action_cases:
  assumes "post_action path = Some (action, opid)"
  shows "routed action opid"
    "presents app (case map_of post_routes path of None \<Rightarrow> ''operator'' | Some a \<Rightarrow> a) hs = presents app action hs"
proof -
  have "token_for app ''operator'' = token_for app ''apply''" by (simp add: token_for_def lease_actions_def)
  then show "presents app (case map_of post_routes path of None \<Rightarrow> ''operator'' | Some a \<Rightarrow> a) hs = presents app action hs"
    using assms unfolding post_action_def presents_def by (auto split: option.splits)
  show "routed action opid"
  proof (cases "map_of post_routes path")
    case None
    then show ?thesis using assms by (auto simp: post_action_def routed_def split: option.splits)
  next
    case (Some a)
    then have "a \<in> snd ` set post_routes" by (force dest: map_of_SomeD)
    then show ?thesis using assms Some by (simp add: post_action_def routed_def)
  qed
qed

lemma handle_request_keeps:
  fixes env :: "'w env"
  assumes be: "ap_backend app = runtime_backend (traced env) policy destructive"
  shows "preserves (onP (logs (permitted app slot_free rq))) (handle_request app slot_free rq)"
proof -
  let ?A = "permitted app slot_free rq"
  have "preserves (onP (logs ?A)) (dispatch_request app (rq_command rq) (rq_path rq) (rq_headers rq) body)"
    if body: "read_request slot_free rq = Inr body" for body
    unfolding dispatch_request_def dispatch_post_def dispatch_get_def
  proof (intro preserves_guarded preserves_bindA_liftA preserves_if preserves_option preserves_prod)
    fix hs assume hs: "headers_of (rq_headers rq) = Inr hs"
    note perm = permitted_def authorised_request_def body hs be
    show "preserves (onP (logs ?A)) (bindA (health (ap_backend app)) (\<lambda>v. liftA (respond v 200 max_request_body)))"
      if "rq_command rq = ''GET'' \<and> rq_path rq = ''/healthz''"
      using that by (simp add: permitted_def preserves_def onP_def logs_def list_all_iff case_prod_unfold)
    {
      fix u p action opid payload
      assume post: "rq_command rq = ''POST''" and a: "authenticate app hs (case map_of post_routes (rq_path rq) of None \<Rightarrow> ''operator'' | Some a \<Rightarrow> a) = Inr u"
        and p: "post_action (rq_path rq) = Some p" "p = (action, opid)"
        and d: "decode_body hs body (if action = ''prepare'' then max_plan_bytes else max_request_body)
            (if action = ''prepare'' then max_plan_nodes else 4096) = Inr payload"
      have "presents app action hs"
        using authenticate_presents [OF a] unfolding post_action_cases(2) [OF p(1) [unfolded p(2)]] .
      then have "?A = action_call policy destructive action payload opid" using post p d by (simp add: perm)
      then show "preserves (onP (logs ?A)) (application_invoke app action payload opid)"
        using invoke_keeps [OF post_action_cases(1) [OF p(1) [unfolded p(2)]]] by (intro application_invoke_keeps) (simp add: be)
    next
      fix opid u
      assume get: "rq_command rq = ''GET''" "\<not> (rq_command rq = ''GET'' \<and> rq_path rq = ''/healthz'')"
        and p: "status_path (rq_path rq) = Some opid" and a: "authenticate app hs ''status'' = Inr u"
      have "?A = action_call policy destructive ''status'' PNone (Some opid)"
        using get p authenticate_presents [OF a] by (simp add: perm)
      moreover have "routed ''status'' (Some opid)" by (simp add: routed_def)
      ultimately show "preserves (onP (logs ?A)) (application_invoke app ''status'' PNone (Some opid))"
        using invoke_keeps [of "''status''" "Some opid"] by (intro application_invoke_keeps) (simp add: be)
    }
  qed (unfold backend_metrics_def, (intro keeps)+)
  then show ?thesis
    unfolding handle_request_def dispatch_def
    by (intro preserves_tryA preserves_bindA_liftA keeps) 
qed

definition request_calls :: "('w \<times> s3_call list, 'a) service_act \<Rightarrow> 'w \<Rightarrow> runtime \<Rightarrow> s3_call list" where
  \<comment> \<open>the S3 calls of a request handled in a world and a runtime\<close>
  "request_calls k w s = snd (fst (snd (k ((w, []), s))))"

definition traced_application :: "'w env \<Rightarrow> checkpoint_policy \<Rightarrow> bool \<Rightarrow> string \<Rightarrow> string \<Rightarrow> ('w \<times> s3_call list) application" where
  \<comment> \<open>the application of the composed runtime, over a client that logs its calls\<close>
  "traced_application env policy destructive lease_token operator_token =
     \<lparr>ap_backend = runtime_backend (traced env) policy destructive, ap_lease_token = lease_token, ap_operator_token = operator_token\<rparr>"

text \<open>C2. No request does more than it is permitted to: whatever comes over the wire and whatever the
  S3 client answers, every S3 call sent while a request is handled is one its route permits.  A request
  without the bearer token of its route, malformed, oversized or incomplete causes none; lease requests only touch
  the two control records of their checkpoint, plans only read, a preparation only reads and creates its
  own records, and heads and deletes come only from an apply with the operator token, with the destructive switch on,
  strictly below a disposable prefix of the registry.  The capability probe of the health check is the
  exception.\<close>

theorem requests_confined:
  "list_all (permitted (traced_application env policy destructive lease_token operator_token) slot_free rq)
     (request_calls (handle_request (traced_application env policy destructive lease_token operator_token) slot_free rq) w s)"
proof -
  let ?app = "traced_application env policy destructive lease_token operator_token"
  have "preserves (onP (logs (permitted ?app slot_free rq))) (handle_request ?app slot_free rq)"
    by (rule handle_request_keeps) (simp add: traced_application_def)
  then show ?thesis by (simp add: preserves_def onP_def logs_def request_calls_def case_prod_unfold)
qed

end
