(* ===== verification/ServiceMetrics.thy ===== *)
theory ServiceMetrics
  imports ServiceProps
begin

text \<open>
  The metrics of the running service: the endpoint always answers, with a fixed text when a sample
  is outside the label tables, and a bulk plan for an ill-formed actor puts such a sample there.
\<close>

section \<open>The endpoint\<close>

definition fallback_metrics :: snapshot where
  "fallback_metrics = [(''checkpoint_retention_request_failures_total'', [([''backend_failure''], PInt 1)])]"

lemma render_metrics_errors: "render_metrics snap n = Inl e \<Longrightarrow> \<exists>c. e = MetricsFailure c"
  by (auto simp: render_metrics_def render_metric_def Let_def bindE_def split: if_splits sum.splits option.split_asm
      dest!: mapE_Inl_set render_sample_errors)

lemma fallback_renders: "\<exists>body. render_metrics fallback_metrics max_request_body = Inr body"
proof -
  have "(case render_metrics fallback_metrics max_request_body of Inr _ \<Rightarrow> True | Inl _ \<Rightarrow> False)" by code_simp
  then show ?thesis by (auto split: sum.splits)
qed

lemma render_bounded: "render_metrics snap n = Inr body \<Longrightarrow> int (length body) \<le> n"
  by (auto simp: render_metrics_def Let_def inr_iffs)

lemma backend_metrics_run:
  "\<exists>body. backend_metrics (w, s) = (Inr body, (w, s)) \<and> int (length body) \<le> max_request_body \<and>
     (render_metrics (rt_metrics s) max_request_body = Inr body \<or>
      (\<forall>b. render_metrics (rt_metrics s) max_request_body \<noteq> Inr b) \<and> render_metrics fallback_metrics max_request_body = Inr body)"
proof (cases "render_metrics (rt_metrics s) max_request_body")
  case (Inl e)
  obtain b where b: "render_metrics fallback_metrics max_request_body = Inr b" using fallback_renders ..
  from render_metrics_errors [OF Inl] Inl b show ?thesis
    by (auto simp: backend_metrics_def getS_def bindA_def liftA_def fallback_metrics_def dest: render_bounded)
next
  case (Inr b)
  then show ?thesis using render_bounded [OF Inr] by (auto simp: backend_metrics_def getS_def bindA_def liftA_def)
qed

lemma metrics_path: "\<not> (CHR ''?'' \<in> set ''/metrics'' \<or> CHR ''#'' \<in> set ''/metrics'')" "''/metrics'' \<noteq> ''/healthz''"
  by simp_all

lemma metrics_request:
  assumes "headers_of headers = Inr hs" "backend_metrics (w, s) = (Inr body, (w, s))"
  shows "dispatch_request app ''GET'' ''/metrics'' headers content (w, s) =
    (if int (length body) > max_request_body then raiseA (service_failure ''response_invalid'')
     else retA \<lparr>rs_status = 200, rs_body = body, rs_type = ''text/plain; version=0.0.4''\<rparr>) (w, s)"
  unfolding dispatch_request_def seqA_def bindA_def guardA_def liftA_def mapexnA_def tryA_def assms
  by (simp only: metrics_path if_False if_True simp_thms retA_def prod.case sum.case assms)



section \<open>A label outside the tables\<close>

definition poisoned :: "runtime \<Rightarrow> bool" where
  \<comment> \<open>a refusal was counted under a label the renderer does not know\<close>
  "poisoned s \<longleftrightarrow> map_of (samples_of (rt_metrics s) ''checkpoint_retention_refusals_total'') [''actor_invalid''] \<noteq> None"

lemma samples_set_sample:
  "samples_of (rt_metrics (set_sample metric label n s)) metric' =
     (if metric' = metric then AList.update [label] (PInt n) (samples_of (rt_metrics s) metric) else samples_of (rt_metrics s) metric')"
  by (simp add: samples_of_def set_sample_def update_conv')

lemma poisoned_set_sample: "poisoned s \<Longrightarrow> poisoned (set_sample metric label n s)"
  by (auto simp: poisoned_def samples_set_sample update_conv')

lemma poisoned_increment: "poisoned s \<Longrightarrow> poisoned (increment metric label n s)"
  unfolding increment_def by (rule poisoned_set_sample)

lemma increment_poisons: "poisoned (increment ''checkpoint_retention_refusals_total'' ''actor_invalid'' n s)"
  by (simp add: poisoned_def increment_def samples_set_sample update_conv')

lemma poisoned_unrenderable:
  assumes "poisoned s"
  shows "\<not> snapshot_ok (rt_metrics s)"
proof
  assume ok: "snapshot_ok (rt_metrics s)"
  from assms obtain vs where v: "map_of (rt_metrics s) ''checkpoint_retention_refusals_total'' = Some vs" "map_of vs [''actor_invalid''] \<noteq> None"
    by (auto simp: poisoned_def samples_of_def split: option.splits)
  have "map_of metric_contracts ''checkpoint_retention_refusals_total'' = Some (''refusal_code'', metric_refusals)"
    by (simp add: metric_contracts_def)
  with ok map_of_SomeD [OF v(1)] have "list_all (sample_ok (''refusal_code'', metric_refusals)) vs"
    unfolding snapshot_ok_def list_all_iff by fastforce
  moreover from v(2) obtain x where "([''actor_invalid''], x) \<in> set vs" by (auto dest: map_of_SomeD)
  ultimately have "''actor_invalid'' \<in> set metric_refusals" by (auto simp: list_all_iff sample_ok_def)
  then show False by (simp add: metric_refusals_def)
qed

lemma refused_recorded:
  "\<exists>s'. record_plan_metrics (refused_summary cid digest code) (w, s) = (Inr (), (w, s')) \<and>
     (poisoned s \<or> code = ''actor_invalid'' \<longrightarrow> poisoned s')"
proof -
  define s1 where "s1 = increment ''checkpoint_retention_plans_total'' ''refused'' 1 s"
  define s2 where "s2 = (if cid \<in> set metric_checkpoint_ids
      then inventory_samples cid False (sdict [(''object_count'', PInt 0), (''total_bytes'', PInt 0)]) s1 else s1)"
  have "record_plan_metrics (refused_summary cid digest code) (w, s) =
      (Inr (), (w, increment ''checkpoint_retention_refusals_total'' code 1 s2))"
    by (simp add: record_plan_metrics_def refused_summary_def dget_none_def dget_or_def set_member_def in_states_def refusal_values_def
        updS_def seqA_def bindA_def liftA_def retA_def s1_def s2_def Let_def)
  moreover have "poisoned s \<Longrightarrow> poisoned s2"
    by (simp add: s1_def s2_def inventory_samples_def dget_or_def poisoned_increment poisoned_set_sample)
  ultimately show ?thesis using increment_poisons poisoned_increment by blast
qed

lemma bulk_entry_refused:
  assumes "CHR ''{'' \<notin> set (entry_prefix entry) \<Longrightarrow> validate_plan_request (be_policy be)
      \<lparr>pq_checkpoint_id = PStr cid, pq_prefix = PStr (entry_prefix entry), pq_actor = PStr actor, pq_evaluated_at = now\<rparr> = Inl (PlanFailure ''actor_invalid'')"
  shows "\<exists>v s'. bulk_entry be gw actor now (cid, entry) (w, s) = (Inr v, (w, s')) \<and>
    (poisoned s \<or> CHR ''{'' \<notin> set (entry_prefix entry) \<longrightarrow> poisoned s')"
proof -
  define code where "code = (if CHR ''{'' \<in> set (entry_prefix entry) then ''concrete_prefix_required'' else ''actor_invalid'')"
  let ?summary = "refused_summary cid (policy_sha256 (be_policy be)) code"
  obtain s' where s': "record_plan_metrics ?summary (w, s) = (Inr (), (w, s'))" "poisoned s \<or> code = ''actor_invalid'' \<longrightarrow> poisoned s'"
    using refused_recorded [of cid "policy_sha256 (be_policy be)" code w s] by (elim exE conjE) (rule that)
  have "bulk_entry be gw actor now (cid, entry) (w, s) = (Inr (PDict ?summary), (w, s'))"
  proof (cases "CHR ''{'' \<in> set (entry_prefix entry)")
    case True
    then show ?thesis using s'(1) by (simp add: bulk_entry_def Let_def code_def seqA_def bindA_def retA_def)
  next
    case False
    then show ?thesis using s'(1) assms
      by (simp add: bulk_entry_def Let_def code_def seqA_def bindA_def retA_def tryA_def onW_def plan_def liftA_def)
  qed
  then show ?thesis using s'(2) by (auto simp: code_def)
qed

lemma bulk_entries_refused:
  assumes "list_all (\<lambda>(cid, entry). CHR ''{'' \<notin> set (entry_prefix entry) \<longrightarrow> validate_plan_request (be_policy be)
      \<lparr>pq_checkpoint_id = PStr cid, pq_prefix = PStr (entry_prefix entry), pq_actor = PStr actor, pq_evaluated_at = now\<rparr> =
        Inl (PlanFailure ''actor_invalid'')) es"
  shows "\<exists>vs s'. mapA (bulk_entry be gw actor now) es (w, s) = (Inr vs, (w, s')) \<and>
    (poisoned s \<or> list_ex (\<lambda>(_, entry). CHR ''{'' \<notin> set (entry_prefix entry)) es \<longrightarrow> poisoned s')"
  using assms
proof (induction es arbitrary: s)
  case (Cons e es)
  obtain cid entry where e: "e = (cid, entry)" by (cases e)
  from Cons.prems obtain v s1 where v: "bulk_entry be gw actor now (cid, entry) (w, s) = (Inr v, (w, s1))"
      "poisoned s \<or> CHR ''{'' \<notin> set (entry_prefix entry) \<longrightarrow> poisoned s1"
    using bulk_entry_refused [of entry be cid actor now gw w s] by (auto simp: e)
  from Cons.prems have "list_all (\<lambda>(cid, entry). CHR ''{'' \<notin> set (entry_prefix entry) \<longrightarrow> validate_plan_request (be_policy be)
      \<lparr>pq_checkpoint_id = PStr cid, pq_prefix = PStr (entry_prefix entry), pq_actor = PStr actor, pq_evaluated_at = now\<rparr> =
        Inl (PlanFailure ''actor_invalid'')) es" by simp
  from Cons.IH [OF this, of s1] obtain vs s' where "mapA (bulk_entry be gw actor now) es (w, s1) = (Inr vs, (w, s'))"
      "poisoned s1 \<or> list_ex (\<lambda>(_, entry). CHR ''{'' \<notin> set (entry_prefix entry)) es \<longrightarrow> poisoned s'" by (elim exE conjE) (rule that)
  then show ?case using v by (auto simp: e bindA_def retA_def)
qed (simp add: retA_def)

lemma shipped_prefixes:
  "map (\<lambda>(cid, e). (cid, entry_prefix e)) (entries shipped_policy) =
     [(''streaming-events-v1'', ''events/''), (''streaming-event-windows-v1'', ''event_windows/''),
      (''streaming-online-retail-cdc-v1'', ''online_retail_cdc/''),
      (''streaming-gh-archive-file-v1'', generation_template), (''go-live-streaming-test-v1'', scratch_template)]"
  by code_simp

lemma shipped_durable_matches:
  "match_prefix shipped_policy (PStr ''events/'') = Inr \<lparr>matched_id = ''streaming-events-v1'', matched_prefix = ''events/'', generation = []\<rparr>"
  "match_prefix shipped_policy (PStr ''event_windows/'') =
     Inr \<lparr>matched_id = ''streaming-event-windows-v1'', matched_prefix = ''event_windows/'', generation = []\<rparr>"
  "match_prefix shipped_policy (PStr ''online_retail_cdc/'') =
     Inr \<lparr>matched_id = ''streaming-online-retail-cdc-v1'', matched_prefix = ''online_retail_cdc/'', generation = []\<rparr>"
  by code_simp+

lemma shipped_bad_actor:
  assumes "\<not> identity_pattern actor"
  shows "list_all (\<lambda>(cid, entry). CHR ''{'' \<notin> set (entry_prefix entry) \<longrightarrow> validate_plan_request shipped_policy
      \<lparr>pq_checkpoint_id = PStr cid, pq_prefix = PStr (entry_prefix entry), pq_actor = PStr actor, pq_evaluated_at = now\<rparr> =
        Inl (PlanFailure ''actor_invalid'')) (entries shipped_policy)"
proof -
  have "list_all (\<lambda>(cid, prefix). CHR ''{'' \<notin> set prefix \<longrightarrow> validate_plan_request shipped_policy
      \<lparr>pq_checkpoint_id = PStr cid, pq_prefix = PStr prefix, pq_actor = PStr actor, pq_evaluated_at = now\<rparr> =
        Inl (PlanFailure ''actor_invalid'')) (map (\<lambda>(cid, e). (cid, entry_prefix e)) (entries shipped_policy))"
    unfolding shipped_prefixes using assms
    by (simp add: validate_plan_request_def shipped_durable_matches catchE_def generation_template_def scratch_template_def)
  then show ?thesis by (simp add: list_all_iff case_prod_unfold)
qed

definition bulk_payload :: "string \<Rightarrow> pyval" where
  "bulk_payload actor = PDict (sdict
     [(''actor'', PStr actor), (''checkpoint_ids'', PList (map (PStr \<circ> fst) (entries shipped_policy)))])"

text \<open>C40. A bulk plan for an actor that is not an identity is accepted and leaves the metrics unrenderable: its
  refusals are counted under a label outside the closed table, so that the snapshot it leaves has no
  text at any body bound.\<close>

theorem bulk_plan_bad_actor:
  assumes "be_policy be = shipped_policy" "\<not> identity_pattern actor" "env_now (be_env be) w = (Inr now, w')"
  shows "\<exists>r s'. invoke_plan be gw (bulk_payload actor) (w, s) = (Inr r, (w', s')) \<and> (\<forall>n body. render_metrics (rt_metrics s') n \<noteq> Inr body)"
proof -
  have "list_ex (\<lambda>(_, entry). CHR ''{'' \<notin> set (entry_prefix entry)) (entries shipped_policy)" by code_simp
  moreover obtain vs s' where "mapA (bulk_entry be gw actor now) (entries shipped_policy) (w', s) = (Inr vs, (w', s'))"
    "poisoned s \<or> list_ex (\<lambda>(_, entry). CHR ''{'' \<notin> set (entry_prefix entry)) (entries shipped_policy) \<longrightarrow> poisoned s'"
    using bulk_entries_refused [of be actor now "entries shipped_policy" gw w' s, unfolded assms(1), OF shipped_bad_actor [OF assms(2)]]
    by (elim exE conjE) (rule that)
  ultimately have m: "mapA (bulk_entry be gw actor now) (entries shipped_policy) (w', s) = (Inr vs, (w', s'))" "poisoned s'" by simp_all
  have "invoke_plan be gw (bulk_payload actor) (w, s) =
      (Inr (PDict (sdict [(''plans'', PList vs), (''state'', PStr ''accepted'')])), (w', s'))"
    using m(1) assms by (simp add: invoke_plan_def bulk_payload_def bulk_plan_def keys_exactly_def dkeys_def dget_none_def onW_def bindA_def retA_def)
  moreover have "render_metrics (rt_metrics s') n \<noteq> Inr body" for n body
    using poisoned_unrenderable [OF m(2)] render_all_Inr [of "rt_metrics s'"] by (auto simp: render_metrics_def inr_iffs Let_def split: if_splits)
  ultimately show ?thesis by blast
qed

theorem bulk_plan_bad_actor_witness:
  "\<exists>r s'. invoke_plan (runtime_backend plan_env shipped_policy False) (s3_gateway plan_env shipped_policy (retA ())) (bulk_payload ''not an identity'')
     ((), empty_runtime) = (Inr r, ((), s')) \<and> (\<forall>n body. render_metrics (rt_metrics s') n \<noteq> Inr body)"
  by (rule bulk_plan_bad_actor [where now = "utc 63900000060"]) (simp_all add: plan_env_def scripted_def retA_def, code_simp)

end
