(* ===== verification/ServerFacts.thy ===== *)
theory ServerFacts
  imports Server
begin

text \<open>
  The slots of the server: an invariant of every interleaving of connections, prepare slots and
  finished threads.
\<close>

section \<open>Slots\<close>

definition holders :: "server \<Rightarrow> nat" where
  \<comment> \<open>running threads that hold the prepare slot\<close>
  "holders s = length (filter snd (sv_active s))"

definition slots_ok :: "nat \<Rightarrow> server \<Rightarrow> bool" where
  "slots_ok n s \<longleftrightarrow>
     distinct (map fst (sv_active s)) \<and> sv_work s + length (sv_active s) = n \<and> sv_prepare s + holders s = 1"

lemma split_thread:
  assumes "distinct (map fst xs)" "(tid, b) \<in> set xs"
  obtains ys zs where "xs = ys @ (tid, b) # zs" "tid \<notin> fst ` set ys" "tid \<notin> fst ` set zs"
proof -
  from assms(2) obtain ys zs where "xs = ys @ (tid, b) # zs" by (auto simp: in_set_conv_decomp)
  then show thesis using assms(1) that by auto
qed

lemma other_threads:
  assumes "tid \<notin> fst ` set xs"
  shows "map (\<lambda>(i, b). (i, b \<or> i = tid)) xs = xs" "map (\<lambda>(i, b). (i, b \<and> i \<noteq> tid)) xs = xs" "filter (\<lambda>(i, _). i \<noteq> tid) xs = xs"
  using assms by (force intro!: map_idI filter_True)+

lemma marked_holder:
  assumes "distinct (map fst xs)" "(tid, False) \<in> set xs"
  shows "length (filter snd (map (\<lambda>(i, b). (i, b \<or> i = tid)) xs)) = Suc (length (filter snd xs))"
  using assms by (rule split_thread) (simp add: other_threads del: filter_map)

lemma unmarked_holder:
  assumes "distinct (map fst xs)" "(tid, True) \<in> set xs"
  shows "Suc (length (filter snd (map (\<lambda>(i, b). (i, b \<and> i \<noteq> tid)) xs))) = length (filter snd xs)"
  using assms by (rule split_thread) (simp add: other_threads del: filter_map)

lemma dropped_thread:
  assumes "distinct (map fst xs)" "(tid, False) \<in> set xs"
  shows "Suc (length (filter (\<lambda>(i, _). i \<noteq> tid) xs)) = length xs"
    "length (filter snd (filter (\<lambda>(i, _). i \<noteq> tid) xs)) = length (filter snd xs)"
proof -
  from assms obtain ys zs where xs: "xs = ys @ (tid, False) # zs" "tid \<notin> fst ` set ys" "tid \<notin> fst ` set zs" by (rule split_thread)
  show "Suc (length (filter (\<lambda>(i, _). i \<noteq> tid) xs)) = length xs"
    "length (filter snd (filter (\<lambda>(i, _). i \<noteq> tid) xs)) = length (filter snd xs)"
    unfolding xs(1) by (simp_all add: other_threads(3) [OF xs(2)] other_threads(3) [OF xs(3)] del: filter_filter)
qed

lemma map_fst_marked [simp]:
  "map (fst \<circ> (\<lambda>(i, b). (i, f i b))) xs = map fst xs"
  by auto

lemma server_step_keeps:
  assumes "server_step s s'" "slots_ok n s"
  shows "slots_ok n s'"
  using assms(1)
proof (cases rule: server_step.cases)
  case (connect tid started)
  then show ?thesis using assms(2) by (auto simp: slots_ok_def process_request_def holders_def)
next
  case (prepare tid)
  then show ?thesis using assms(2) marked_holder [of "sv_active s" tid]
    by (cases "sv_prepare s") (simp_all add: slots_ok_def acquire_prepare_def holders_def)
next
  case (unprepare tid)
  then show ?thesis using assms(2) unmarked_holder [of "sv_active s" tid]
    by (cases "sv_prepare s") (simp_all add: slots_ok_def release_prepare_def holders_def)
next
  case (finish tid)
  then show ?thesis using assms(2) dropped_thread [of "sv_active s" tid]
    by (simp add: slots_ok_def finish_thread_def holders_def distinct_map_filter)
qed

text \<open>C38. The server is bounded whatever the order of its threads: in every state reachable from a created
  server the free work slots and the running threads add up to the configured number of workers (so at
  most that many requests are in progress and no slot is lost), and at most one running thread holds the
  prepare slot, which is free exactly when none does.\<close>

theorem server_slots_bounded:
  assumes "create_server address max_workers timeout = Inr s0" "server_step\<^sup>*\<^sup>* s0 s"
  shows "int (sv_work s) + int (length (sv_active s)) = max_workers \<and> max_workers \<le> 64 \<and>
    sv_prepare s + length (filter snd (sv_active s)) = 1 \<and> distinct (map fst (sv_active s))"
proof -
  from assms(1) have n: "1 \<le> max_workers" "max_workers \<le> 64" "slots_ok (nat max_workers) s0"
    by (auto simp: create_server_def server_config_ok_def slots_ok_def holders_def split: if_splits)
  from assms(2) n(3) have "slots_ok (nat max_workers) s"
    by (induction rule: rtranclp_induct) (auto dest: server_step_keeps)
  with n show ?thesis by (auto simp: slots_ok_def holders_def)
qed

theorem server_slots_bounded_witness:
  "\<exists>s0. create_server (''0.0.0.0'', 8080) 2 30 = Inr s0 \<and>
     server_step\<^sup>*\<^sup>* s0 (process_request 1 True (acquire_prepare 0 (process_request 0 True s0))) \<and>
     sv_work (process_request 1 True (acquire_prepare 0 (process_request 0 True s0))) = 0"
proof -
  define s0 where "s0 = \<lparr>sv_work = 2, sv_prepare = 1, sv_active = []\<rparr>"
  have c: "create_server (''0.0.0.0'', 8080) 2 30 = Inr s0" by (simp add: create_server_def server_config_ok_def s0_def)
  have "server_step\<^sup>*\<^sup>* s0 (process_request 0 True s0)" by (rule r_into_rtranclp, rule server_step.connect) (simp add: s0_def)
  also have "server_step (process_request 0 True s0) (acquire_prepare 0 (process_request 0 True s0))"
    by (rule server_step.prepare) (simp add: s0_def process_request_def)
  also have "server_step (acquire_prepare 0 (process_request 0 True s0)) (process_request 1 True (acquire_prepare 0 (process_request 0 True s0)))"
    by (rule server_step.connect) (simp add: s0_def process_request_def acquire_prepare_def)
  finally have r: "server_step\<^sup>*\<^sup>* s0 (process_request 1 True (acquire_prepare 0 (process_request 0 True s0)))" by simp
  have "length (sv_active (process_request 1 True (acquire_prepare 0 (process_request 0 True s0)))) = 2"
    by (simp add: s0_def process_request_def acquire_prepare_def)
  with server_slots_bounded [OF c r] c r show ?thesis by auto
qed

end
