(* ===== verification/OpsRecords.thy ===== *)
theory OpsRecords
  imports OpsProps
begin

text \<open>
  The records the operation manager writes, read back: the prepared record passes the checks of
  \<open>decode_prepared\<close> with the fields it was written with, and the result shards partition the
  classification of the planned objects within their byte bound.
\<close>

section \<open>Canonical text read again\<close>

lemma canonical_reread:
  assumes body: "canonical_json_bytes (PDict d) max_len max_nodes = Inr body" and wf: "keys_distinct (PDict d)"
  obtains d' where "plain_loads body = Inr (PDict d')" "canonical_json_bytes (PDict d') max_len max_nodes = Inr body"
    "\<And>k. dget d' k = map_option (\<lambda>v. sort_keys (untuple v)) (dget d k)" "set (map fst d') = set (map fst d)"
proof -
  note b = canonical_json_bytes_Inr [OF body wf]
  define u where "u = map (\<lambda>(k, v). (k, sort_keys (untuple v))) d"
  define d' where "d' = sort_key (\<lambda>(k, _). str_val k) u"
  have uv: "sort_keys (untuple (PDict d)) = PDict d'"
    by (simp add: d'_def u_def case_prod_unfold o_def)
  have ok: "json_ok (PDict d')" using sort_keys_ok [OF b(2)] uv by simp
  have ld: "plain_loads body = Inr (PDict d')" unfolding b(1) plain_loads_dumps [OF b(2)] uv ..
  have du: "distinct (map fst u)" using wf by (simp add: u_def case_prod_unfold o_def)
  have get: "dget d' k = map_option (\<lambda>v. sort_keys (untuple v)) (dget d k)" for k
    unfolding d'_def dget_sort_key [OF du] unfolding u_def by (rule dget_map_values)
  have nodes: "json_nodes (PDict d') \<le> max_nodes" "json_height (PDict d') \<le> max_json_depth"
    using sort_keys_shape [OF b(2)] b(4,5) uv by simp_all
  have dumps_d': "dumps (PDict d') = body"
    unfolding b(1) dumps_def uv [symmetric] by (simp only: sorted_keys_idem [OF b(2)])
  have bounds: "2 \<le> max_len" "1 \<le> max_nodes" using body by (auto simp: canonical_json_bytes_def split: if_splits)
  have can: "canonical_json_bytes (PDict d') max_len max_nodes = Inr body"
    using normalize_ok(1) [OF ok, of 0 0 max_nodes] nodes bounds b(3) ints_ok_json [OF ok] dumps_d'
    by (simp add: canonical_json_bytes_def Let_def del: ints_ok.simps json_nodes.simps)
  have "set (map fst d') = set (map fst d)" by (force simp: d'_def u_def)
  with ld can get show thesis by (rule that)
qed

section \<open>The prepared record\<close>

lemma match_classes_all: "match_classes ps s \<Longrightarrow> (\<And>p c. p \<in> set ps \<Longrightarrow> p c \<Longrightarrow> Q c) \<Longrightarrow> list_all Q s"
  unfolding match_classes_def by (induction ps s rule: list_all2_induct) auto

lemma ascii_classes:
  "is_char d c \<Longrightarrow> (of_char d :: nat) < 128 \<Longrightarrow> (of_char c :: nat) < 128" "hex_char c \<Longrightarrow> (of_char c :: nat) < 128"
  by (auto simp: is_char_def char_class_defs less_eq_char_def)

lemma disposable_ascii: "disposable_prefix s \<Longrightarrow> isascii s"
  unfolding disposable_prefix_def isascii_def
  by (erule match_classes_all) (auto simp: lit_def uuid_any_def uuid_classes_def hex_classes_def dest: ascii_classes)

definition preparable :: "'w op_manager \<Rightarrow> prepare_request \<Rightarrow> int \<Rightarrow> bool" where
  \<comment> \<open>a request whose artifact has the summary fields the planner writes, evaluated not after \<open>now\<close>\<close>
  "preparable m req now \<longleftrightarrow>
     (let art = pr_artifact req; summary = pa_summary art in
      uuid_shape (pr_operation_id req) \<and> hex64 (pr_plan_sha256 req) \<and> identity_pattern (pr_review req) \<and> identity_pattern (pr_actor req) \<and>
      hex64 (om_policy_sha256 m) \<and> dget summary ''policy_sha256'' = Some (PStr (om_policy_sha256 m)) \<and>
      dget summary ''checkpoint_id'' = Some (PStr disposable_id) \<and>
      (\<exists>prefix. dget summary ''prefix'' = Some (PStr prefix) \<and> disposable_prefix prefix \<and> dget summary ''prefix_sha256'' = Some (PStr (sha256 prefix))) \<and>
      (\<exists>t. dget summary ''evaluated_at'' = Some (PStr (format_utc t)) \<and> 0 \<le> t \<and> t \<le> now \<and> now < max_secs) \<and>
      (\<exists>inventory digest. dget summary ''inventory'' = Some (PDict inventory) \<and> dget inventory ''sha256'' = Some (PStr digest) \<and> hex64 digest) \<and>
      pa_shards art \<noteq> [] \<and> list_all (\<lambda>s. hex64 (ms_sha256 s)) (pa_shards art) \<and> distinct (map ms_sha256 (pa_shards art)))"

lemma preparable_identity:
  assumes "preparable m req now" "prepared_identity req (pa_summary (pr_artifact req)) = Inr identity"
  obtains prefix t digest where "0 \<le> t" "t \<le> now" "now < max_secs" "disposable_prefix prefix" "hex64 digest"
    "identity = sdict [(''actor'', PStr (pr_actor req)), (''checkpoint_id'', PStr disposable_id), (''evaluated_at'', PStr (format_utc t)),
      (''inventory_sha256'', PStr digest), (''manifest_shards'', PList (map (\<lambda>s. PStr (ms_sha256 s)) (pa_shards (pr_artifact req)))),
      (''operation_id'', PStr (pr_operation_id req)), (''plan_sha256'', PStr (pr_plan_sha256 req)), (''policy_sha256'', PStr (om_policy_sha256 m)),
      (''prefix'', PStr prefix), (''prefix_sha256'', PStr (sha256 prefix)), (''review'', PStr (pr_review req)), (''schema_version'', PInt 1)]"
  using assms by (auto simp: preparable_def prepared_identity_def ditem_def inr_iffs Let_def)

text \<open>C36. What \<open>prepare\<close> writes, every later operation reads: for a plan with the fields the planner
  writes, evaluated not after the preparation time, the canonical text of the prepared record is accepted
  by \<open>decode_prepared\<close> and gives back exactly the fields that were written.\<close>

theorem prepared_record_decodes:
  assumes p: "preparable m req now" and i: "prepared_identity req (pa_summary (pr_artifact req)) = Inr identity"
    and body: "canonical_json_bytes (PDict (identity @ sdict [(''prepared_at'', PStr (format_utc now))])) (om_max_summary_bytes m) max_json_nodes = Inr body"
  shows "\<exists>d. decode_prepared m body (pr_operation_id req) = Inr d \<and>
    (\<forall>k. dget d k = dget (identity @ sdict [(''prepared_at'', PStr (format_utc now))]) k)"
  using p i
proof (rule preparable_identity)
  let ?p = "identity @ sdict [(''prepared_at'', PStr (format_utc now))]"
  fix prefix t digest
  assume t: "0 \<le> t" "t \<le> now" "now < max_secs" and s: "disposable_prefix prefix" "hex64 digest"
    and id: "identity = sdict [(''actor'', PStr (pr_actor req)), (''checkpoint_id'', PStr disposable_id), (''evaluated_at'', PStr (format_utc t)),
      (''inventory_sha256'', PStr digest), (''manifest_shards'', PList (map (\<lambda>s. PStr (ms_sha256 s)) (pa_shards (pr_artifact req)))),
      (''operation_id'', PStr (pr_operation_id req)), (''plan_sha256'', PStr (pr_plan_sha256 req)), (''policy_sha256'', PStr (om_policy_sha256 m)),
      (''prefix'', PStr prefix), (''prefix_sha256'', PStr (sha256 prefix)), (''review'', PStr (pr_review req)), (''schema_version'', PInt 1)]"
  have kd: "keys_distinct (PDict ?p)" by (simp add: id list_all_iff)
  have same: "map_option (\<lambda>v. sort_keys (untuple v)) (dget ?p k) = dget ?p k" for k
    by (simp add: id o_def)
  from body kd show ?thesis
  proof (rule canonical_reread)
    fix d assume d: "plain_loads body = Inr (PDict d)"
      "canonical_json_bytes (PDict d) (om_max_summary_bytes m) max_json_nodes = Inr body"
      "\<And>k. dget d k = map_option (\<lambda>v. sort_keys (untuple v)) (dget ?p k)" "set (map fst d) = set (map fst ?p)"
    have keys: "keys_exactly d prepared_keys"
      using d(4) by (auto simp: keys_exactly_def dkeys_def id prepared_keys_def)
    have f: "dget d = dget ?p" using d(3) same by auto
    have "prepared_ok m body (pr_operation_id req) d"
      using keys d(2) p t s
      by (simp add: prepared_ok_def dget_none_def f id str_matches_def disposable_ascii list_all_iff parse_utc_def o_def Let_def preparable_def)
    then have "decode_prepared m body (pr_operation_id req) = Inr d"
      by (simp add: decode_prepared_def d(1) catchE_def dget_none_def f id)
    then show ?thesis using f by auto
  qed
qed

definition sample_prepare :: prepare_request where
  "sample_prepare = \<lparr>pr_operation_id = ''0a1b2c3d-0000-4000-8000-0123456789ab'',
     pr_artifact = \<lparr>pa_summary = sdict [(''checkpoint_id'', PStr disposable_id), (''evaluated_at'', PStr (format_utc 60)),
         (''inventory'', PDict (sdict [(''sha256'', PStr (replicate 64 (CHR ''1'')))])), (''policy_sha256'', PStr (policy_sha256 shipped_policy)),
         (''prefix'', PStr sample_prefix), (''prefix_sha256'', PStr (sha256 sample_prefix))],
       pa_shards = [\<lparr>ms_index = 0, ms_records = [], ms_body = [], ms_sha256 = replicate 64 (CHR ''2'')\<rparr>],
       pa_body = [], pa_sha256 = []\<rparr>,
     pr_plan_sha256 = replicate 64 (CHR ''0''), pr_review = ''review-1'', pr_actor = ''operator-1''\<rparr>"

lemma sample_preparable: "preparable (runtime_operations plan_env shipped_policy) sample_prepare 120"
proof -
  have "disposable_prefix sample_prefix" "identity_pattern ''review-1''" "identity_pattern ''operator-1''"
    "uuid_shape ''0a1b2c3d-0000-4000-8000-0123456789ab''" "hex64 (replicate 64 (CHR ''1''))"
    "hex64 (replicate 64 (CHR ''2''))" "hex64 (replicate 64 (CHR ''0''))" by code_simp+
  then show ?thesis
    by (auto simp: preparable_def sample_prepare_def runtime_operations_def policy_sha256_def max_secs_def)
qed

theorem prepared_record_decodes_witness:
  "\<exists>identity body d. prepared_identity sample_prepare (pa_summary (pr_artifact sample_prepare)) = Inr identity \<and>
     decode_prepared (runtime_operations plan_env shipped_policy) body (pr_operation_id sample_prepare) = Inr d \<and>
     dget d ''prefix'' = Some (PStr sample_prefix)"
proof -
  obtain identity where i: "prepared_identity sample_prepare (pa_summary (pr_artifact sample_prepare)) = Inr identity"
    by (simp add: prepared_identity_def sample_prepare_def ditem_def bindE_def Let_def)
  let ?p = "PDict (identity @ sdict [(''prepared_at'', PStr (format_utc 120))])"
  have id: "identity = sdict [(''actor'', PStr ''operator-1''), (''checkpoint_id'', PStr disposable_id), (''evaluated_at'', PStr (format_utc 60)),
      (''inventory_sha256'', PStr (replicate 64 (CHR ''1''))), (''manifest_shards'', PList [PStr (replicate 64 (CHR ''2''))]),
      (''operation_id'', PStr ''0a1b2c3d-0000-4000-8000-0123456789ab''), (''plan_sha256'', PStr (replicate 64 (CHR ''0''))),
      (''policy_sha256'', PStr (policy_sha256 shipped_policy)),
      (''prefix'', PStr sample_prefix), (''prefix_sha256'', PStr (sha256 sample_prefix)), (''review'', PStr ''review-1''), (''schema_version'', PInt 1)]"
    using i by (simp add: prepared_identity_def sample_prepare_def ditem_def bindE_def Let_def)
  have norm: "\<exists>n. normalize_json ?p 0 0 max_json_nodes = Inr (untuple ?p, n)"
    by (simp add: id normalize_json.simps max_json_depth_def max_json_nodes_def)
  have "length sample_prefix < 100" "length disposable_id < 100" by code_simp+
  then have len: "json_len (untuple ?p) \<le> 8192"
    using stamp_len [of 60] stamp_len [of 120] hex64_len [OF hex64_sha256, of "dumps (policy_payload shipped_policy)"]
      hex64_len [OF hex64_sha256, of sample_prefix] length_json_string [of sample_prefix] length_json_string [of disposable_id]
    by (simp add: id policy_sha256_def max_secs_def) (simp add: json_string_def json_escape_def dec_int_def dec_nat.simps)
  have ints: "ints_ok (untuple ?p)"
    by (simp add: id int_ok_def dec_nat.simps max_int_digits_def)
  have "8192 \<le> om_max_summary_bytes (runtime_operations plan_env shipped_policy)"
    by (simp add: runtime_operations_def) code_simp
  then obtain body where "canonical_json_bytes ?p (om_max_summary_bytes (runtime_operations plan_env shipped_policy)) max_json_nodes = Inr body"
    using norm canonical_json_bytesI [OF _ ints len, of ?p max_json_nodes _ "om_max_summary_bytes (runtime_operations plan_env shipped_policy)"]
    by (auto simp: max_json_nodes_def)
  with prepared_record_decodes [OF sample_preparable i] obtain d where
    "decode_prepared (runtime_operations plan_env shipped_policy) body (pr_operation_id sample_prepare) = Inr d"
    "dget d ''prefix'' = Some (PStr sample_prefix)" by (auto simp: id)
  with i show ?thesis by blast
qed

section \<open>Result shards\<close>

definition encodes_within :: "int \<Rightarrow> pyval \<Rightarrow> bool" where
  \<comment> \<open>a value that is encoded as it is and fits a shard of its own\<close>
  "encodes_within max_len v \<longleftrightarrow> (\<exists>b. canonical_json_bytes v 256 max_json_nodes = Inr b \<and> length b = json_len v) \<and> int (json_len v) + 2 \<le> max_len"

lemma json_len_elems_append: "json_len_elems (xs @ ys) = json_len_elems xs + json_len_elems ys"
  by (simp add: json_len_elems_sum)

lemma json_len_snoc: "json_len (PList (xs @ [v])) = json_len (PList xs) + json_len v + (if xs = [] then 0 else 1)"
  by (cases xs) (simp_all add: json_len_elems_append)

lemma result_chunks_partition:
  assumes "list_all (encodes_within max_len) vs" "int (json_len (PList current)) \<le> max_len"
    "list_all (\<lambda>c. c \<noteq> [] \<and> int (json_len (PList c)) \<le> max_len) chunks"
  shows "\<exists>out. result_chunks max_len vs chunks current (int (json_len (PList current))) = Inr out \<and>
    concat out = concat chunks @ current @ vs \<and> list_all (\<lambda>c. c \<noteq> [] \<and> int (json_len (PList c)) \<le> max_len) out"
  using assms
proof (induction vs arbitrary: chunks current)
  case (Cons v vs)
  from Cons.prems(1) obtain b where b: "canonical_json_bytes v 256 max_json_nodes = Inr b" "length b = json_len v"
      and room: "int (json_len v) + 2 \<le> max_len" by (auto simp: encodes_within_def)
  from Cons.prems(1) have vs: "list_all (encodes_within max_len) vs" by simp
  let ?n = "int (json_len (PList current))"
  let ?added = "int (json_len v) + (if current = [] then 0 else 1)"
  show ?case
  proof (cases "current \<noteq> [] \<and> ?n + ?added > max_len")
    case True
    have single: "json_len (PList [v]) = 2 + json_len v" by simp
    have "result_chunks max_len (v # vs) chunks current ?n = result_chunks max_len vs (chunks @ [current]) [v] (int (json_len (PList [v])))"
      using True b room unfolding single by (auto simp: bindE_def Let_def simp del: json_len.simps)
    moreover have "\<exists>out. result_chunks max_len vs (chunks @ [current]) [v] (int (json_len (PList [v]))) = Inr out \<and>
        concat out = concat (chunks @ [current]) @ [v] @ vs \<and> list_all (\<lambda>c. c \<noteq> [] \<and> int (json_len (PList c)) \<le> max_len) out"
      using Cons.prems(2,3) True room by (intro Cons.IH vs) simp_all
    ultimately show ?thesis by simp
  next
    case False
    have more: "int (json_len (PList (current @ [v]))) = ?n + ?added" by (simp add: json_len_snoc del: json_len.simps)
    have bound: "?n + ?added \<le> max_len" using False room by (cases current) auto
    have "result_chunks max_len (v # vs) chunks current ?n = result_chunks max_len vs chunks (current @ [v]) (int (json_len (PList (current @ [v]))))"
      using False b bound unfolding more by (simp add: bindE_def Let_def del: json_len.simps)
    moreover have "\<exists>out. result_chunks max_len vs chunks (current @ [v]) (int (json_len (PList (current @ [v])))) = Inr out \<and>
        concat out = concat chunks @ (current @ [v]) @ vs \<and> list_all (\<lambda>c. c \<noteq> [] \<and> int (json_len (PList c)) \<le> max_len) out"
      using Cons.prems(3) bound by (intro Cons.IH vs) (simp_all only: more)
    ultimately show ?thesis by simp
  qed
qed auto

lemma classify_fits:
  assumes "hex64 digest" "256 \<le> max_len"
  shows "encodes_within max_len (classify deleted failed digest)"
proof -
  let ?v = "classify deleted failed digest"
  have len: "json_len ?v \<le> 200"
    using hex64_len [OF assms(1)] by (simp add: classify_def) (simp add: json_string_def json_escape_def)
  moreover have "\<exists>n. normalize_json ?v 0 0 max_json_nodes = Inr (?v, n)"
    by (simp add: classify_def normalize_json.simps max_json_depth_def max_json_nodes_def)
  moreover have "ints_ok ?v" by (simp add: classify_def)
  ultimately have "canonical_json_bytes ?v 256 max_json_nodes = Inr (dumps ?v)"
    using canonical_json_bytesI [of ?v max_json_nodes ?v _ 200 256] by (auto simp: max_json_nodes_def)
  then show ?thesis using len assms(2) by (simp add: encodes_within_def length_dumps)
qed

definition outcome :: "string list \<Rightarrow> string list \<Rightarrow> string \<Rightarrow> string" where
  "outcome deleted failed digest = (if digest \<in> set deleted then ''deleted'' else if digest \<in> set failed then ''failed'' else ''unattempted'')"

lemma observe_classified:
  assumes "list_all hex64 digests" "distinct (map fst observed @ digests)"
  shows "observe (map (classify deleted failed) digests) observed = Inr (observed @ map (\<lambda>d. (d, outcome deleted failed d)) digests)"
  using assms
proof (induction digests arbitrary: observed)
  case (Cons digest digests)
  have "classification_ok (classify deleted failed digest) observed = Inr (digest, outcome deleted failed digest)"
    using Cons.prems
    by (auto simp: classification_ok_def classify_def outcome_def dget_none_def keys_exactly_def dkeys_def in_states_def)
  moreover have "distinct (map fst (observed @ [(digest, outcome deleted failed digest)]) @ digests)" using Cons.prems by auto
  then have "observe (map (classify deleted failed) digests) (observed @ [(digest, outcome deleted failed digest)]) =
      Inr ((observed @ [(digest, outcome deleted failed digest)]) @ map (\<lambda>d. (d, outcome deleted failed d)) digests)"
    using Cons.prems by (intro Cons.IH) simp_all
  ultimately show ?case by (simp add: bindE_def)
qed simp

text \<open>The result shards of an attempt lose nothing: for the digests of the planned objects and any shard
  bound of at least 256 bytes the chunking returns, every chunk is non-empty and its text is within the
  bound, the chunks concatenate to the classification in order, and reading them back gives every
  digest once with the outcome it was classified with.\<close>

theorem result_shards_partition:
  assumes "list_all hex64 digests" "distinct digests" "256 \<le> max_len"
  shows "\<exists>chunks. result_chunks max_len (map (classify deleted failed) digests) [] [] 2 = Inr chunks \<and>
    concat chunks = map (classify deleted failed) digests \<and>
    list_all (\<lambda>c. c \<noteq> [] \<and> int (length (dumps (PList c))) \<le> max_len) chunks \<and>
    observe (concat chunks) [] = Inr (map (\<lambda>d. (d, outcome deleted failed d)) digests)"
proof -
  have "list_all (encodes_within max_len) (map (classify deleted failed) digests)"
    using assms by (simp add: list_all_iff classify_fits)
  from result_chunks_partition [OF this, of "[]" "[]"] assms
  obtain chunks where "result_chunks max_len (map (classify deleted failed) digests) [] [] 2 = Inr chunks"
    "concat chunks = map (classify deleted failed) digests" "list_all (\<lambda>c. c \<noteq> [] \<and> int (json_len (PList c)) \<le> max_len) chunks"
    by auto
  then show ?thesis using observe_classified [OF assms(1), of "[]" deleted failed] assms(2) by (simp add: length_dumps)
qed

theorem result_shards_partition_witness:
  "\<exists>chunks. result_chunks 256 (map (classify [replicate 64 (CHR ''1'')] []) [replicate 64 (CHR ''0''), replicate 64 (CHR ''1'')]) [] [] 2 = Inr chunks \<and>
     observe (concat chunks) [] = Inr [(replicate 64 (CHR ''0''), ''unattempted''), (replicate 64 (CHR ''1''), ''deleted'')]"
proof -
  have "list_all hex64 [replicate 64 (CHR ''0''), replicate 64 (CHR ''1'')]" by code_simp
  moreover have "distinct [replicate 64 (CHR ''0''), replicate 64 (CHR ''1'')]" by code_simp
  ultimately obtain chunks where c: "result_chunks 256 (map (classify [replicate 64 (CHR ''1'')] []) [replicate 64 (CHR ''0''), replicate 64 (CHR ''1'')]) [] [] 2 = Inr chunks"
    "observe (concat chunks) [] =
       Inr (map (\<lambda>d. (d, outcome [replicate 64 (CHR ''1'')] [] d)) [replicate 64 (CHR ''0''), replicate 64 (CHR ''1'')])"
    using result_shards_partition [of "[replicate 64 (CHR ''0''), replicate 64 (CHR ''1'')]" 256 "[replicate 64 (CHR ''1'')]" "[]"]
    by (auto simp only:)
  have "map (\<lambda>d. (d, outcome [replicate 64 (CHR ''1'')] [] d)) [replicate 64 (CHR ''0''), replicate 64 (CHR ''1'')] =
      [(replicate 64 (CHR ''0''), ''unattempted''), (replicate 64 (CHR ''1''), ''deleted'')]" by code_simp
  with c show ?thesis by metis
qed

end
