(* ===== verification/Locking.thy ===== *)
theory Locking
  imports RecordsCodec JsonDecoded
begin

text \<open>
  \<^verbatim>\<open>datasets/locking.py\<close> and \<^verbatim>\<open>datasets/verification.py\<close>: the canonical JSON of the
  dataset side, the scalar validators, and the size-and-digest verification of files and streams.
  \<open>canonical_json\<close> differs from the retention writer: it keeps characters above U+007E as they are
  and encodes the text in UTF-8.  \<^verbatim>\<open>repr\<close> of a float is the parameter \<open>fr\<close>; no document
  the publication code accepts holds a float.  A response body or open file is the list of what its
  \<^verbatim>\<open>read\<close> calls deliver, in chunks of any size; reading never returns more than it was asked for.
\<close>

section \<open>Canonical JSON\<close>

definition raw_escape :: "char \<Rightarrow> string" where
  \<comment> \<open>\<^verbatim>\<open>ensure_ascii=False\<close>: only quotes, backslashes and control characters are escaped\<close>
  "raw_escape c = (if 127 \<le> (of_char c :: nat) then [c] else json_escape c)"

definition raw_string :: "string \<Rightarrow> string" where
  "raw_string s = CHR 0x22 # concat (map raw_escape s) @ [CHR 0x22]"

fun raw_text :: "(rat option \<Rightarrow> string) \<Rightarrow> pyval \<Rightarrow> string"
  and raw_elems :: "(rat option \<Rightarrow> string) \<Rightarrow> pyval list \<Rightarrow> string"
  and raw_members :: "(rat option \<Rightarrow> string) \<Rightarrow> pydict \<Rightarrow> string"
where
  "raw_text fr PNone = ''null''"
| "raw_text fr (PBool b) = (if b then ''true'' else ''false'')"
| "raw_text fr (PInt i) = dec_int i"
| "raw_text fr (PFloat q) = fr q"
| "raw_text fr (PStr s) = raw_string s"
| "raw_text fr (PList xs) = ''['' @ raw_elems fr xs @ '']''"
| "raw_text fr (PTuple xs) = ''['' @ raw_elems fr xs @ '']''"
| "raw_text fr (PDict d) = ''{'' @ raw_members fr d @ ''}''"
| "raw_text fr _ = []"
| "raw_elems fr [] = []"
| "raw_elems fr (x # xs) = raw_text fr x @ (if xs = [] then [] else '','' @ raw_elems fr xs)"
| "raw_members fr [] = []"
| "raw_members fr ((k, v) # d) =
     raw_string (str_val k) @ '':'' @ raw_text fr v @ (if d = [] then [] else '','' @ raw_members fr d)"

definition canonical_json :: "(rat option \<Rightarrow> string) \<Rightarrow> pyval \<Rightarrow> string" where
  "canonical_json fr v = utf8_encode (raw_text fr (sort_keys v))"

definition schema_fingerprint :: "(rat option \<Rightarrow> string) \<Rightarrow> pydict \<Rightarrow> string" where
  "schema_fingerprint fr schema = sha256 (canonical_json fr (PDict (ddel schema ''fingerprint'')))"

text \<open>
  \<^verbatim>\<open>json.loads\<close> of a byte string guesses the encoding from a byte order mark or from the
  position of zero bytes.
\<close>

fun utf16_units :: "bool \<Rightarrow> string \<Rightarrow> string option" where
  "utf16_units le [] = Some []"
| "utf16_units le [_] = None"
| "utf16_units le (a # b # r) =
     (if (if le then b else a) = CHR 0x00 then map_option ((#) (if le then a else b)) (utf16_units le r) else None)"

fun utf32_units :: "bool \<Rightarrow> string \<Rightarrow> string option" where
  "utf32_units le [] = Some []"
| "utf32_units le (a # b # c # d # r) =
     (if b = CHR 0x00 \<and> c = CHR 0x00 \<and> (if le then d else a) = CHR 0x00
      then map_option ((#) (if le then a else d)) (utf32_units le r) else None)"
| "utf32_units le _ = None"

definition detect_and_decode :: "string \<Rightarrow> string option" where
  "detect_and_decode b =
     (if startswith b [CHR 0x00, CHR 0x00, CHR 0xFE, CHR 0xFF] then utf32_units False (drop 4 b)
      else if startswith b [CHR 0xFF, CHR 0xFE, CHR 0x00, CHR 0x00] then utf32_units True (drop 4 b)
      else if startswith b [CHR 0xFE, CHR 0xFF] then utf16_units False (drop 2 b)
      else if startswith b [CHR 0xFF, CHR 0xFE] then utf16_units True (drop 2 b)
      else if startswith b [CHR 0xEF, CHR 0xBB, CHR 0xBF] then utf8_decode (drop 3 b)
      else if length b \<ge> 4 \<and> b ! 0 = CHR 0x00 then
        (if b ! 1 \<noteq> CHR 0x00 then utf16_units False b else utf32_units False b)
      else if length b \<ge> 4 \<and> b ! 1 = CHR 0x00 then
        (if b ! 2 \<noteq> CHR 0x00 \<or> b ! 3 \<noteq> CHR 0x00 then utf16_units True b else utf32_units True b)
      else if length b = 2 \<and> b ! 0 = CHR 0x00 then utf16_units False b
      else if length b = 2 \<and> b ! 1 = CHR 0x00 then utf16_units True b
      else utf8_decode b)"

definition loads_bytes :: "pyval res \<Rightarrow> string \<Rightarrow> pyval res" where
  \<comment> \<open>\<^verbatim>\<open>json.loads(body, parse_constant=...)\<close> with \<open>hc\<close> the answer of the hook\<close>
  "loads_bytes hc body =
     (case detect_and_decode body of None \<Rightarrow> Inl (OtherExn ''UnicodeError'') | Some s \<Rightarrow> loads_text plain_object hc s)"

section \<open>Scalar validators\<close>

definition sha256_re :: "string \<Rightarrow> bool" where
  "sha256_re s \<longleftrightarrow> match_classes (hex_classes 64) s"

definition validate_sha256 :: "pyval \<Rightarrow> string \<Rightarrow> string list" where
  "validate_sha256 v path =
     (if \<not> is_str v \<or> \<not> sha256_re (str_val v) then [path @ '': must be 64 lowercase hexadecimal characters''] else [])"

definition validate_size :: "pyval \<Rightarrow> string \<Rightarrow> string list" where
  "validate_size v path = (if \<not> is_int v \<or> int_val v \<le> 0 then [path @ '': must be a positive integer''] else [])"

definition unsafe_path :: "string \<Rightarrow> bool" where
  "unsafe_path s =
     (let components = split_char (CHR ''/'') s
      in \<not> startswith s ''/'' \<and> list_all (\<lambda>c. c \<in> {[], ''.''}) components \<or>
         startswith s ''/'' \<or>
         list_ex (\<lambda>c. c \<in> {[], ''.'', ''..''}) components \<or>
         CHR 0x5C \<in> set s \<or>
         list_ex (\<lambda>c. (of_char c :: nat) < 32 \<or> (of_char c :: nat) = 127) s)"

definition validate_relative_path :: "pyval \<Rightarrow> string \<Rightarrow> string list" where
  "validate_relative_path v path =
     (if \<not> is_str v \<or> str_val v = [] then [path @ '': must be a safe relative POSIX path'']
      else if unsafe_path (str_val v) then [path @ '': must be a safe relative POSIX path'']
      else [])"

section \<open>Streams\<close>

type_synonym body_stream = "(exn + pyval) list"

fun stream_read :: "int \<Rightarrow> body_stream \<Rightarrow> (pyval \<times> body_stream) res" where
  \<comment> \<open>\<^verbatim>\<open>stream.read(n)\<close>; a negative \<open>n\<close> takes the whole next chunk\<close>
  "stream_read n [] = Inr (PBytes [], [])"
| "stream_read n (Inl e # s) = Inl e"
| "stream_read n (Inr v # s) =
     (case v of
        PBytes c \<Rightarrow>
          if n < 0 \<or> int (length c) \<le> n then Inr (PBytes c, s)
          else Inr (PBytes (take (nat n) c), Inr (PBytes (drop (nat n) c)) # s)
      | _ \<Rightarrow> Inr (v, s))"

fun stream_weight :: "body_stream \<Rightarrow> nat" where
  "stream_weight [] = 0"
| "stream_weight (Inr (PBytes c) # s) = Suc (length c + stream_weight s)"
| "stream_weight (_ # s) = Suc (stream_weight s)"

fun py_len :: "pyval \<Rightarrow> int res" where
  "py_len (PStr s) = Inr (int (length s))"
| "py_len (PBytes s) = Inr (int (length s))"
| "py_len (PList xs) = Inr (int (length xs))"
| "py_len (PTuple xs) = Inr (int (length xs))"
| "py_len (PDict d) = Inr (int (length d))"
| "py_len _ = Inl (OtherExn ''TypeError'')"

lemma stream_read_weight:
  assumes "stream_read n s = Inr (v, s')" "py_truthy v"
  shows "stream_weight s' < stream_weight s"
proof (cases s)
  case (Cons x r)
  show ?thesis
  proof (cases x)
    case (Inr w)
    then show ?thesis using assms Cons by (cases w) (auto split: if_splits)
  qed (use assms Cons in simp)
qed (use assms in auto)

section \<open>Verification\<close>

record expected_object =
  xo_object_name :: string
  xo_size_bytes :: int
  xo_sha256 :: string
  xo_schema_id :: string

record verified_file =
  vf_path :: string
  vf_expected :: expected_object

function verify_loop :: "body_stream \<Rightarrow> int \<Rightarrow> int \<Rightarrow> string \<Rightarrow> (int \<times> string) res" where
  \<comment> \<open>\<open>sz\<close> bytes read so far, \<open>fed\<close> to the digest\<close>
  "verify_loop s expected_size sz fed =
     (case stream_read (min (2 ^ 20) (expected_size - sz + 1)) s of
        Inl e \<Rightarrow> Inl e
      | Inr (chunk, s') \<Rightarrow>
          if \<not> py_truthy chunk then Inr (sz, fed)
          else (case py_len chunk of
                  Inl e \<Rightarrow> Inl e
                | Inr n \<Rightarrow>
                    if sz + n > expected_size
                    then Inl (LockMismatch ''size_bytes'' (PInt expected_size) (PInt (sz + n)))
                    else (case chunk of
                            PBytes c \<Rightarrow> verify_loop s' expected_size (sz + n) (fed @ c)
                          | _ \<Rightarrow> Inl (OtherExn ''TypeError''))))"
  by pat_completeness auto
termination
  by (relation "measure (\<lambda>(s, _, _, _). stream_weight s)") (auto dest: stream_read_weight)

declare verify_loop.simps [simp del]

definition verify_stream :: "body_stream \<Rightarrow> int \<Rightarrow> string \<Rightarrow> (int \<times> string) res" where
  "verify_stream s expected_size expected_sha256 =
     bindE (verify_loop s expected_size 0 []) (\<lambda>(sz, fed).
     if sz \<noteq> expected_size then Inl (LockMismatch ''size_bytes'' (PInt expected_size) (PInt sz))
     else if sha256 fed \<noteq> expected_sha256 then Inl (LockMismatch ''sha256'' (PStr expected_sha256) (PStr (sha256 fed)))
     else Inr (sz, sha256 fed))"

function metadata_loop :: "body_stream \<Rightarrow> int \<Rightarrow> string \<Rightarrow> (int \<times> string) res" where
  \<comment> \<open>\<^verbatim>\<open>for chunk in iter(lambda: stream.read(1 << 20), b"")\<close>\<close>
  "metadata_loop s sz fed =
     (case stream_read (2 ^ 20) s of
        Inl e \<Rightarrow> Inl e
      | Inr (chunk, s') \<Rightarrow>
          if chunk = PBytes [] then Inr (sz, sha256 fed)
          else (case chunk of
                  PBytes c \<Rightarrow> metadata_loop s' (sz + int (length c)) (fed @ c)
                | _ \<Rightarrow> Inl (OtherExn ''TypeError'')))"
  by pat_completeness auto
termination
  by (relation "measure (\<lambda>(s, _, _). stream_weight s)") (auto dest: stream_read_weight)

declare metadata_loop.simps [simp del]

definition file_metadata :: "body_stream \<Rightarrow> (int \<times> string) res" where
  "file_metadata s = metadata_loop s 0 []"

definition verify_file :: "(string \<Rightarrow> body_stream res) \<Rightarrow> (string \<Rightarrow> string res) \<Rightarrow> string \<Rightarrow> expected_object \<Rightarrow> verified_file res" where
  \<comment> \<open>\<open>open_rb\<close> opens a path, \<open>resolve\<close> is \<^verbatim>\<open>Path.resolve(strict=True)\<close>\<close>
  "verify_file open_rb resolve path expected =
     bindE (open_rb path) (\<lambda>s.
     bindE (file_metadata s) (\<lambda>(actual_size, actual_sha256).
     if actual_size \<noteq> xo_size_bytes expected
     then Inl (LockMismatch ''size_bytes'' (PInt (xo_size_bytes expected)) (PInt actual_size))
     else if actual_sha256 \<noteq> xo_sha256 expected
     then Inl (LockMismatch ''sha256'' (PStr (xo_sha256 expected)) (PStr actual_sha256))
     else bindE (resolve path) (\<lambda>p. Inr \<lparr>vf_path = p, vf_expected = expected\<rparr>)))"

definition require_exact_names :: "string list \<Rightarrow> string list \<Rightarrow> unit res" where
  "require_exact_names expected actual =
     guardE (\<not> distinct expected \<or> \<not> distinct actual \<or> actual \<noteq> expected)
       (LockMismatch ''object_names'' (PTuple (map PStr expected)) (PTuple (map PStr actual)))"

end
