(* ===== verification/ObjectStore.thy ===== *)
theory ObjectStore
  imports Locking Trace
begin

text \<open>
  \<^verbatim>\<open>datasets/s3.py\<close>, first part: reading and conditionally writing objects.  The S3 client, the
  clocks, the file system and the two date parsers of the standard library
  (\<^verbatim>\<open>parsedate_to_datetime\<close>, \<^verbatim>\<open>datetime.fromisoformat\<close>) are fields of the record
  \<open>ds_env\<close>: the theorems hold for every choice of them.  Answers of the client are arbitrary
  values or exceptions.  \<open>ds_body\<close> says what reading a response body delivers, \<open>None\<close> when
  it has no \<^verbatim>\<open>read\<close>; \<open>ds_close\<close> the exception its \<^verbatim>\<open>close\<close> raises, if any.  Instants
  are \<^verbatim>\<open>datetime\<close> values; two aware ones compare by \<open>instant\<close>, their microseconds.
\<close>

section \<open>The environment\<close>

datatype put_body = BytesBody string | FileBody string \<comment> \<open>bytes, or the open file of a path\<close>

datatype ds_call =
    DsGet string string \<comment> \<open>bucket, key\<close>
  | DsPut string string put_body pydict put_condition \<comment> \<open>with \<^verbatim>\<open>Metadata\<close>, empty when not given\<close>
  | DsHead string string
  | DsUpload string string string \<comment> \<open>path, bucket, key\<close>
  | DsList string string bool "string option" \<comment> \<open>bucket, prefix, whether delimited by \<^verbatim>\<open>/\<close>, continuation token\<close>

record 'w ds_env =
  ds_s3 :: "ds_call \<Rightarrow> ('w, pyval) act"
  ds_utcnow :: "('w, int) act" \<comment> \<open>\<^verbatim>\<open>datetime.now(UTC)\<close> in microseconds\<close>
  ds_monotonic :: "('w, rat) act"
  ds_open :: "string \<Rightarrow> ('w, unit) act"
  ds_body :: "pyval \<Rightarrow> body_stream option"
  ds_close :: "pyval \<Rightarrow> exn option"
  ds_parsedate :: "string \<Rightarrow> pydatetime res"
  ds_fromisoformat :: "string \<Rightarrow> pydatetime res"
  ds_float_repr :: "rat option \<Rightarrow> string"

definition max_clock_skew :: int where "max_clock_skew = 300 * 1000000"
definition proposal_window_seconds :: rat where "proposal_window_seconds = 5"
definition lease_seconds_default :: int where "lease_seconds_default = 60"
definition max_lease_seconds :: int where "max_lease_seconds = 300"
definition max_renew_observations :: nat where "max_renew_observations = 5"
definition lease_bucket :: string where "lease_bucket = ''landing''"
definition max_control_bytes :: int where "max_control_bytes = 2 ^ 20"

section \<open>Instants\<close>

definition instant :: "pydatetime \<Rightarrow> int" where
  "instant d = (dt_secs d - (case dt_offset d of None \<Rightarrow> 0 | Some x \<Rightarrow> x)) * 1000000 + dt_micro d"

definition in_range :: "int \<Rightarrow> bool" where
  "in_range secs \<longleftrightarrow> 0 \<le> secs \<and> secs < max_secs"

definition as_utc :: "pydatetime \<Rightarrow> pydatetime res" where
  \<comment> \<open>\<^verbatim>\<open>replace(tzinfo=UTC)\<close> for a naive value, then \<^verbatim>\<open>astimezone(UTC)\<close>\<close>
  "as_utc d =
     (let s = dt_secs d - (case dt_offset d of None \<Rightarrow> 0 | Some x \<Rightarrow> x)
      in if in_range s then Inr (d\<lparr>dt_secs := s, dt_offset := Some 0\<rparr>) else Inl (OtherExn ''OverflowError''))"

definition plus_seconds :: "pydatetime \<Rightarrow> int \<Rightarrow> pydatetime res" where
  "plus_seconds d n =
     (if in_range (dt_secs d + n) then Inr (d\<lparr>dt_secs := dt_secs d + n\<rparr>) else Inl (OtherExn ''OverflowError''))"

section \<open>Exceptions\<close>

fun is_botocore :: "exn \<Rightarrow> bool" where
  \<comment> \<open>\<^verbatim>\<open>except (BotoCoreError, ClientError)\<close>\<close>
  "is_botocore (ClientError _) = True"
| "is_botocore BotoCoreError = True"
| "is_botocore _ = False"

fun is_ambiguous :: "exn \<Rightarrow> bool" where
  "is_ambiguous (AmbiguousWrite _) = True"
| "is_ambiguous _ = False"

fun is_lock_mismatch :: "exn \<Rightarrow> bool" where
  "is_lock_mismatch (LockMismatch _ _ _) = True"
| "is_lock_mismatch _ = False"

definition value_error_like :: "exn \<Rightarrow> bool" where
  \<comment> \<open>\<^verbatim>\<open>ValueError\<close> and its subclasses\<close>
  "value_error_like e \<longleftrightarrow> is_lock_mismatch e \<or> e \<in> OtherExn ` {''ValueError'', ''UnicodeError'', ''JSONDecodeError''}"

definition is_type_or_value :: "exn \<Rightarrow> bool" where
  "is_type_or_value e \<longleftrightarrow> value_error_like e \<or> e = OtherExn ''TypeError''"

definition value_error :: exn where "value_error = OtherExn ''ValueError''"

definition ambiguous_read :: "exn \<Rightarrow> exn" where
  \<comment> \<open>\<^verbatim>\<open>raise _ambiguous_read(error) from error\<close>\<close>
  "ambiguous_read e = AmbiguousWrite (Some e)"

definition read_failure :: "exn \<Rightarrow> exn" where
  \<comment> \<open>\<^verbatim>\<open>except AmbiguousWrite: raise / except (BotoCoreError, ClientError, KeyError, TypeError, ValueError)\<close>\<close>
  "read_failure e =
     (if is_ambiguous e then e
      else if is_botocore e \<or> is_type_or_value e \<or> e = OtherExn ''KeyError'' then ambiguous_read e
      else e)"

section \<open>Responses\<close>

definition header_date :: "'w ds_env \<Rightarrow> pyval \<Rightarrow> pydatetime res" where
  \<comment> \<open>the \<^verbatim>\<open>Date\<close> header of a response, in UTC\<close>
  "header_date env response =
     (case response of
        PDict d \<Rightarrow>
          (let headers = (case dget_none d ''ResponseMetadata'' of
                            PDict m \<Rightarrow> dget_or m ''HTTPHeaders'' (PDict []) | _ \<Rightarrow> PDict []);
               raw_date = (case headers of PDict h \<Rightarrow> dget_none h ''date'' | _ \<Rightarrow> PNone)
           in case raw_date of
                PStr s \<Rightarrow>
                  (case ds_parsedate env s of
                     Inl e \<Rightarrow> Inl (if is_type_or_value e then AmbiguousWrite (Some e) else e)
                   | Inr t \<Rightarrow> as_utc t)
              | _ \<Rightarrow> Inl (AmbiguousWrite None))
      | _ \<Rightarrow> Inl (AmbiguousWrite None))"

definition response_server_date :: "'w ds_env \<Rightarrow> pyval \<Rightarrow> ('w, pydatetime) act" where
  "response_server_date env response =
     bindA (liftA (header_date env response)) (\<lambda>server_date.
     bindA (ds_utcnow env) (\<lambda>now.
     seqA (guardA (\<bar>instant server_date - now\<bar> > max_clock_skew) (AmbiguousWrite None))
       (retA server_date)))"

definition snapshot_etag :: "pydict \<Rightarrow> string res" where
  "snapshot_etag d =
     (case dget_none d ''ETag'' of
        PStr s \<Rightarrow> if s = [] then Inl (AmbiguousWrite None) else Inr s
      | _ \<Rightarrow> Inl (AmbiguousWrite None))"

definition error_status :: "pyval \<Rightarrow> int option" where
  \<comment> \<open>of the \<^verbatim>\<open>response\<close> of a \<^verbatim>\<open>ClientError\<close>, which is a dictionary; a Boolean is an \<^verbatim>\<open>int\<close>\<close>
  "error_status r =
     (case dget_or (dict_val r) ''ResponseMetadata'' (PDict []) of
        PDict m \<Rightarrow> (case dget_none m ''HTTPStatusCode'' of
                       PInt i \<Rightarrow> Some i | PBool b \<Rightarrow> Some (of_bool b) | _ \<Rightarrow> None)
      | _ \<Rightarrow> None)"

definition error_code :: "pyval \<Rightarrow> string" where
  "error_code r =
     (case dget_or (dict_val r) ''Error'' (PDict []) of
        PDict m \<Rightarrow> (case dget_none m ''Code'' of PStr s \<Rightarrow> s | _ \<Rightarrow> [])
      | _ \<Rightarrow> [])"

definition is_not_found :: "pyval \<Rightarrow> bool" where
  "is_not_found r \<longleftrightarrow> error_status r = Some 404 \<or> error_code r \<in> {''404'', ''NoSuchKey'', ''NotFound''}"

definition is_conditional_error :: "pyval \<Rightarrow> bool" where
  "is_conditional_error r \<longleftrightarrow>
     error_status r \<in> {Some 409, Some 412} \<or>
     error_code r \<in> {''409'', ''412'', ''ConditionalRequestConflict'', ''PreconditionFailed''}"

definition is_server_error :: "pyval \<Rightarrow> bool" where
  "is_server_error r \<longleftrightarrow> (case error_status r of None \<Rightarrow> False | Some s \<Rightarrow> 500 \<le> s \<and> s \<le> 599)"

definition is_timeout_error :: "pyval \<Rightarrow> bool" where
  "is_timeout_error r \<longleftrightarrow>
     error_status r = Some 408 \<or> error_code r \<in> {''RequestExpired'', ''RequestTimeout'', ''RequestTimeoutException''}"

definition write_unknown :: "exn \<Rightarrow> bool" where
  \<comment> \<open>the failures of a write after which its outcome is read back\<close>
  "write_unknown e \<longleftrightarrow>
     (case e of
        ClientError r \<Rightarrow> is_conditional_error r \<or> is_server_error r \<or> is_timeout_error r
      | BotoCoreError \<Rightarrow> True
      | _ \<Rightarrow> False)"

section \<open>Reading\<close>

definition owned_body :: "'w ds_env \<Rightarrow> pyval \<Rightarrow> ('w, 'a) act \<Rightarrow> ('w, 'a) act" where
  \<comment> \<open>a failing \<^verbatim>\<open>close\<close> only adds a note to an exception under way\<close>
  "owned_body env body m =
     tryA m raiseA (\<lambda>x. case ds_close env body of None \<Rightarrow> retA x | Some e \<Rightarrow> raiseA (AmbiguousWrite (Some e)))"

definition get_object :: "'w ds_env \<Rightarrow> string \<Rightarrow> string \<Rightarrow> ('w, pydict) act" where
  "get_object env bucket key =
     bindA (mapexnA (ds_s3 env (DsGet bucket key)) (\<lambda>e. if is_botocore e then ambiguous_read e else e)) (\<lambda>response.
     case response of PDict d \<Rightarrow> retA d | _ \<Rightarrow> raiseA (ambiguous_read (OtherExn ''TypeError'')))"

function read_bounded_loop :: "body_stream \<Rightarrow> int \<Rightarrow> int \<Rightarrow> string \<Rightarrow> (int \<times> string) res" where
  "read_bounded_loop s limit sz acc =
     (if sz > limit then Inr (sz, acc)
      else case stream_read (min (2 ^ 16) (limit + 1 - sz)) s of
             Inl e \<Rightarrow> Inl e
           | Inr (PBytes chunk, s') \<Rightarrow>
               if chunk = [] then Inr (sz, acc)
               else read_bounded_loop s' limit (sz + int (length chunk)) (acc @ chunk)
           | Inr _ \<Rightarrow> Inl (OtherExn ''TypeError''))"
  by pat_completeness auto
termination
  by (relation "measure (\<lambda>(s, _, _, _). stream_weight s)") (auto dest: stream_read_weight)

declare read_bounded_loop.simps [simp del]

definition read_bounded :: "'w ds_env \<Rightarrow> pyval \<Rightarrow> int \<Rightarrow> string res" where
  "read_bounded env stream limit =
     (case ds_body env stream of
        None \<Rightarrow> Inl (OtherExn ''TypeError'')
      | Some s \<Rightarrow>
          bindE (read_bounded_loop s limit 0 []) (\<lambda>(sz, body).
          if sz > limit then Inl (AmbiguousWrite None) else Inr body))"

definition canonical_control_body :: "'w ds_env \<Rightarrow> string \<Rightarrow> string res" where
  "canonical_control_body env body =
     (case loads_bytes (Inl value_error) body of
        Inl e \<Rightarrow> Inl (if value_error_like e then value_error else e)
      | Inr (PDict d) \<Rightarrow>
          (let canonical = canonical_json (ds_float_repr env) (PDict d)
           in if int (length canonical) > max_control_bytes then Inl value_error else Inr canonical)
      | Inr _ \<Rightarrow> Inl value_error)"

record object_snapshot =
  os_etag :: string
  os_metadata :: pydict
  os_server_date :: pydatetime
  os_size_bytes :: int
  os_sha256 :: string

record control_snapshot =
  cs_body :: string
  cs_etag :: string
  cs_server_date :: pydatetime

definition py_dict :: "pyval \<Rightarrow> pydict res" where
  \<comment> \<open>\<^verbatim>\<open>dict(v)\<close> of a mapping\<close>
  "py_dict v = (case v of PDict d \<Rightarrow> Inr d | _ \<Rightarrow> Inl (OtherExn ''TypeError''))"

definition verify_body :: "'w ds_env \<Rightarrow> pyval \<Rightarrow> int \<Rightarrow> string \<Rightarrow> (int \<times> string) res" where
  "verify_body env body n digest =
     (case ds_body env body of None \<Rightarrow> Inl (OtherExn ''AttributeError'') | Some s \<Rightarrow> verify_stream s n digest)"

definition stream_verify_object :: "'w ds_env \<Rightarrow> string \<Rightarrow> string \<Rightarrow> expected_object \<Rightarrow> ('w, object_snapshot) act" where
  "stream_verify_object env bucket key expected =
     bindA (get_object env bucket key) (\<lambda>response.
     case dget response ''Body'' of
       None \<Rightarrow> raiseA (ambiguous_read (OtherExn ''KeyError''))
     | Some body \<Rightarrow>
         owned_body env body
           (mapexnA
              (bindA (response_server_date env (PDict response)) (\<lambda>server_date.
               bindA (liftA (snapshot_etag response)) (\<lambda>etag.
               bindA (liftA (py_dict (dget_or response ''Metadata'' (PDict [])))) (\<lambda>metadata.
               bindA (liftA (verify_body env body (xo_size_bytes expected) (xo_sha256 expected))) (\<lambda>(sz, digest).
               retA \<lparr>os_etag = etag, os_metadata = metadata, os_server_date = server_date, os_size_bytes = sz,
                     os_sha256 = digest\<rparr>)))))
              (\<lambda>e. if is_lock_mismatch e then e else read_failure e)))"

definition read_control_response :: "'w ds_env \<Rightarrow> pydict \<Rightarrow> ('w, control_snapshot) act" where
  \<comment> \<open>the common tail of \<^verbatim>\<open>read_control_object\<close> and \<^verbatim>\<open>_read_lease_observation\<close>\<close>
  "read_control_response env response =
     (case dget response ''Body'' of
        None \<Rightarrow> raiseA (ambiguous_read (OtherExn ''KeyError''))
      | Some stream \<Rightarrow>
          owned_body env stream
            (mapexnA
               (bindA (response_server_date env (PDict response)) (\<lambda>server_date.
                bindA (liftA (snapshot_etag response)) (\<lambda>etag.
                bindA (liftA (read_bounded env stream max_control_bytes)) (\<lambda>body.
                retA \<lparr>cs_body = body, cs_etag = etag, cs_server_date = server_date\<rparr>))))
               read_failure))"

definition read_control_object :: "'w ds_env \<Rightarrow> string \<Rightarrow> string \<Rightarrow> ('w, control_snapshot) act" where
  "read_control_object env bucket key = bindA (get_object env bucket key) (read_control_response env)"

section \<open>Immutable objects\<close>

definition verified_immutable_snapshot ::
  "'w ds_env \<Rightarrow> string \<Rightarrow> string \<Rightarrow> expected_object \<Rightarrow> pydict \<Rightarrow> ('w, object_snapshot) act" where
  "verified_immutable_snapshot env bucket key expected metadata =
     bindA (stream_verify_object env bucket key expected) (\<lambda>snapshot.
     seqA (guardA (\<not> py_eq (PDict (os_metadata snapshot)) (PDict metadata))
            (LockMismatch ''metadata'' (PDict metadata) (PDict (os_metadata snapshot))))
       (retA snapshot))"

definition reconcile_error :: "exn \<Rightarrow> exn" where
  "reconcile_error e =
     (case e of
        ClientError r \<Rightarrow> if is_not_found r then AmbiguousWrite (Some e) else e
      | LockMismatch _ _ _ \<Rightarrow> ConditionalConflict
      | _ \<Rightarrow> e)"

definition reconcile_immutable_write ::
  "'w ds_env \<Rightarrow> string \<Rightarrow> string \<Rightarrow> expected_object \<Rightarrow> pydict \<Rightarrow> ('w, object_snapshot) act" where
  "reconcile_immutable_write env bucket key expected metadata =
     mapexnA (verified_immutable_snapshot env bucket key expected metadata) reconcile_error"

definition put_immutable_object ::
  "'w ds_env \<Rightarrow> string \<Rightarrow> string \<Rightarrow> string \<Rightarrow> expected_object \<Rightarrow> pydict \<Rightarrow> ('w, object_snapshot) act" where
  "put_immutable_object env bucket key path expected metadata =
     seqA (ds_open env path) (
     tryA (ds_s3 env (DsPut bucket key (FileBody path) metadata IfNoneMatch))
       (\<lambda>e. if write_unknown e then reconcile_immutable_write env bucket key expected metadata else raiseA e)
       (\<lambda>_. mapexnA (verified_immutable_snapshot env bucket key expected metadata)
              (\<lambda>e. if is_lock_mismatch e then AmbiguousWrite (Some e) else e)))"

section \<open>Control objects\<close>

definition reconcile_control_write :: "'w ds_env \<Rightarrow> string \<Rightarrow> string \<Rightarrow> string \<Rightarrow> ('w, control_snapshot) act" where
  "reconcile_control_write env bucket key intended =
     bindA (mapexnA (read_control_object env bucket key)
              (\<lambda>e. case e of ClientError r \<Rightarrow> if is_not_found r then AmbiguousWrite (Some e) else e | _ \<Rightarrow> e)) (\<lambda>snapshot.
     seqA (guardA (cs_body snapshot \<noteq> intended) ConditionalConflict) (retA snapshot))"

definition put_condition_of :: "string option \<Rightarrow> bool \<Rightarrow> put_condition" where
  "put_condition_of if_match if_none_match =
     (case if_match of Some e \<Rightarrow> IfMatch e | None \<Rightarrow> if if_none_match then IfNoneMatch else NoCondition)"

definition put_control_request ::
  "'w ds_env \<Rightarrow> string \<Rightarrow> string \<Rightarrow> string \<Rightarrow> string option \<Rightarrow> bool \<Rightarrow> ('w, control_snapshot \<times> pydict option) act" where
  "put_control_request env bucket key body if_match if_none_match =
     seqA (guardA (if_match \<noteq> None \<and> if_none_match) value_error) (
     tryA (ds_s3 env (DsPut bucket key (BytesBody body) [] (put_condition_of if_match if_none_match)))
       (\<lambda>e. if write_unknown e
            then bindA (reconcile_control_write env bucket key body) (\<lambda>snapshot. retA (snapshot, None))
            else raiseA e)
       (\<lambda>response.
          bindA (reconcile_control_write env bucket key body) (\<lambda>snapshot.
          case response of PDict d \<Rightarrow> retA (snapshot, Some d) | _ \<Rightarrow> raiseA (AmbiguousWrite None))))"

definition put_control_object ::
  "'w ds_env \<Rightarrow> string \<Rightarrow> string \<Rightarrow> string \<Rightarrow> string option \<Rightarrow> bool \<Rightarrow> ('w, control_snapshot) act" where
  "put_control_object env bucket key body if_match if_none_match =
     bindA (liftA (canonical_control_body env body)) (\<lambda>intended.
     bindA (put_control_request env bucket key intended if_match if_none_match) (\<lambda>(snapshot, _). retA snapshot))"

section \<open>Plain objects\<close>

definition object_exists :: "'w ds_env \<Rightarrow> string \<Rightarrow> string \<Rightarrow> ('w, bool) act" where
  "object_exists env bucket key =
     tryA (ds_s3 env (DsHead bucket key))
       (\<lambda>e. case e of
              ClientError r \<Rightarrow>
                bindA (liftA (bindE (ditem (dict_val r) ''Error'') (\<lambda>d.
                              case d of PDict m \<Rightarrow> ditem m ''Code'' | _ \<Rightarrow> Inl (OtherExn ''TypeError'')))) (\<lambda>code.
                if code \<in> PStr ` {''404'', ''NoSuchKey'', ''NotFound''} then retA False else raiseA e)
            | _ \<Rightarrow> raiseA e)
       (\<lambda>_. retA True)"

definition upload_file :: "'w ds_env \<Rightarrow> string \<Rightarrow> string \<Rightarrow> string \<Rightarrow> ('w, unit) act" where
  "upload_file env path bucket key = bindA (ds_s3 env (DsUpload path bucket key)) (\<lambda>_. retA ())"

end
