(* ===== verification/DatasetLease.thy ===== *)
theory DatasetLease
  imports ObjectStore
begin

text \<open>
  \<^verbatim>\<open>datasets/s3.py\<close>, second part: the publication lease of a dataset.  A lease is one control
  object per dataset; it is acquired, renewed and released by conditional writes whose condition is
  what was observed, and each write is believed only after an exact re-read.  The identifiers of a
  lease are \<open>pyval\<close> until they are validated, as they come out of a JSON document.  One turn of a
  retry loop answers \<open>None\<close> for \<^verbatim>\<open>continue\<close>; \<open>retryA\<close> is \<^verbatim>\<open>while True\<close>, with
  \<open>None\<close> for a loop that never returns.
\<close>

section \<open>Data\<close>

record lease =
  ls_dataset :: string
  ls_publication_id :: pyval
  ls_owner_nonce :: pyval
  ls_state :: string
  ls_created_at :: pydatetime
  ls_expires_at :: pydatetime
  ls_etag :: string
  ls_bucket :: string
  ls_key :: string

definition lease_key :: "string \<Rightarrow> string" where
  "lease_key dataset = ''_data-eng-locks/leases/'' @ dataset @ ''.json''"

definition uuid4_hex_re :: "string \<Rightarrow> bool" where
  \<comment> \<open>\<^verbatim>\<open>^[0-9a-f]{12}4[0-9a-f]{3}[89ab][0-9a-f]{15}$\<close>\<close>
  "uuid4_hex_re s \<longleftrightarrow>
     match_classes (hex_classes 12 @ [is_char (CHR ''4'')] @ hex_classes 3 @ [\<lambda>c. c \<in> set ''89ab''] @ hex_classes 15) s"

definition format_instant :: "pydatetime \<Rightarrow> string" where
  \<comment> \<open>of a value in UTC\<close>
  "format_instant d = format_utc (dt_secs d)"

fun replace_Z :: "string \<Rightarrow> string" where
  \<comment> \<open>\<^verbatim>\<open>value.replace("Z", "+00:00")\<close>\<close>
  "replace_Z [] = []"
| "replace_Z (c # s) = (if c = CHR ''Z'' then ''+00:00'' @ replace_Z s else c # replace_Z s)"

definition parse_instant :: "'w ds_env \<Rightarrow> pyval \<Rightarrow> pydatetime res" where
  "parse_instant env v =
     (case v of
        PStr s \<Rightarrow>
          bindE (ds_fromisoformat env (replace_Z s)) (\<lambda>d.
          if dt_offset d \<noteq> Some 0 then Inl value_error else Inr d)
      | _ \<Rightarrow> Inl value_error)"

section \<open>Validation\<close>

definition validate_lease_identity :: "pyval \<Rightarrow> pyval \<Rightarrow> unit res" where
  "validate_lease_identity publication_id owner_nonce =
     (if \<not> is_str publication_id \<or> \<not> uuid4_hex_re (str_val publication_id) then Inl value_error
      else guardE (\<not> is_str owner_nonce \<or> \<not> match_classes (hex_classes 32) (str_val owner_nonce)) value_error)"

definition validate_lease_duration :: "pyval \<Rightarrow> int res" where
  "validate_lease_duration v =
     (if \<not> is_int v \<or> \<not> (1 \<le> int_val v \<and> int_val v \<le> max_lease_seconds) then Inl value_error else Inr (int_val v))"

definition validate_lease :: "lease \<Rightarrow> pydatetime option \<Rightarrow> unit res" where
  "validate_lease l observed_at =
     bindE (validate_lease_identity (ls_publication_id l) (ls_owner_nonce l)) (\<lambda>_.
     let created = instant (ls_created_at l); expires = instant (ls_expires_at l)
     in if ls_state l \<notin> {''active'', ''released''} then Inl value_error
        else if dt_offset (ls_created_at l) \<noteq> Some 0 \<or> dt_offset (ls_expires_at l) \<noteq> Some 0 then Inl value_error
        else if ls_state l = ''active'' \<and> created \<ge> expires then Inl value_error
        else if ls_state l = ''released'' \<and> created > expires then Inl value_error
        else if expires - created > max_lease_seconds * 1000000 then Inl value_error
        else if (case observed_at of
                   None \<Rightarrow> False
                 | Some t \<Rightarrow> created > instant t \<or> ls_state l = ''released'' \<and> expires > instant t) then Inl value_error
        else guardE (ls_key l \<noteq> lease_key (ls_dataset l)) value_error)"

definition lease_document :: "lease \<Rightarrow> pyval" where
  "lease_document l = PDict (sdict
     [(''created_at'', PStr (format_instant (ls_created_at l))),
      (''dataset'', PStr (ls_dataset l)),
      (''expires_at'', PStr (format_instant (ls_expires_at l))),
      (''owner_nonce'', ls_owner_nonce l),
      (''publication_id'', ls_publication_id l),
      (''state'', PStr (ls_state l))])"

definition lease_body :: "'w ds_env \<Rightarrow> lease \<Rightarrow> string res" where
  "lease_body env l =
     bindE (validate_lease l None) (\<lambda>_. Inr (canonical_json (ds_float_repr env) (lease_document l)))"

definition not_in_set_error :: "pyval \<Rightarrow> exn" where
  \<comment> \<open>\<^verbatim>\<open>if v not in {...}: raise ValueError\<close> for a \<open>v\<close> that is no string: a list or a mapping is unhashable\<close>
  "not_in_set_error v = (if is_list v \<or> is_dict v then OtherExn ''TypeError'' else value_error)"

definition decode_lease :: "'w ds_env \<Rightarrow> control_snapshot \<Rightarrow> string \<Rightarrow> string \<Rightarrow> string \<Rightarrow> lease res" where
  \<comment> \<open>the \<^verbatim>\<open>try\<close> block of \<^verbatim>\<open>_lease_from_snapshot\<close>\<close>
  "decode_lease env snapshot dataset bucket key =
     bindE (loads_bytes (Inr (PFloat None)) (cs_body snapshot)) (\<lambda>document.
     case document of
       PDict d \<Rightarrow>
         if \<not> keys_exactly d [''created_at'', ''dataset'', ''expires_at'', ''owner_nonce'', ''publication_id'', ''state'']
         then Inl value_error
         else if dget_none d ''dataset'' \<noteq> PStr dataset then Inl value_error
         else (case dget_none d ''state'' of
                 PStr state \<Rightarrow>
                   if state \<notin> {''active'', ''released''} then Inl value_error
                   else
                     bindE (parse_instant env (dget_none d ''created_at'')) (\<lambda>created_at.
                     bindE (parse_instant env (dget_none d ''expires_at'')) (\<lambda>expires_at.
                     if canonical_json (ds_float_repr env) (PDict d) \<noteq> cs_body snapshot then Inl (AmbiguousWrite None)
                     else
                       let l = \<lparr>ls_dataset = dataset, ls_publication_id = dget_none d ''publication_id'',
                                ls_owner_nonce = dget_none d ''owner_nonce'', ls_state = state,
                                ls_created_at = created_at, ls_expires_at = expires_at,
                                ls_etag = cs_etag snapshot, ls_bucket = bucket, ls_key = key\<rparr>
                       in bindE (validate_lease l (Some (cs_server_date snapshot))) (\<lambda>_. Inr l)))
               | _ \<Rightarrow> Inl (not_in_set_error (dget_none d ''state'')))
     | _ \<Rightarrow> Inl value_error)"

definition lease_from_snapshot :: "'w ds_env \<Rightarrow> control_snapshot \<Rightarrow> string \<Rightarrow> string \<Rightarrow> string \<Rightarrow> lease res" where
  "lease_from_snapshot env snapshot dataset bucket key =
     catchE (decode_lease env snapshot dataset bucket key)
       (\<lambda>e. if is_ambiguous e then e
            else if is_type_or_value e \<or> e = OtherExn ''KeyError'' then AmbiguousWrite (Some e) else e)"

section \<open>Observation and write\<close>

definition read_lease_observation ::
  "'w ds_env \<Rightarrow> string \<Rightarrow> string \<Rightarrow> ('w, control_snapshot option \<times> pydatetime \<times> rat) act" where
  "read_lease_observation env bucket key =
     tryA (ds_s3 env (DsGet bucket key))
       (\<lambda>e. case e of
              ClientError r \<Rightarrow>
                bindA (ds_monotonic env) (\<lambda>observed_at.
                if is_not_found r then
                  bindA (mapexnA (response_server_date env r)
                           (\<lambda>x. if is_ambiguous x then x
                                else if is_type_or_value x \<or> x = OtherExn ''KeyError'' then ambiguous_read x else x))
                    (\<lambda>server_date. retA (None, server_date, observed_at))
                else raiseA (ambiguous_read e))
            | BotoCoreError \<Rightarrow> raiseA (ambiguous_read e)
            | _ \<Rightarrow> raiseA e)
       (\<lambda>response.
          bindA (ds_monotonic env) (\<lambda>observed_at.
          case response of
            PDict d \<Rightarrow>
              bindA (read_control_response env d) (\<lambda>snapshot.
              retA (Some snapshot, cs_server_date snapshot, observed_at))
          | _ \<Rightarrow> raiseA (ambiguous_read (OtherExn ''TypeError''))))"

definition outside_proposal :: "lease \<Rightarrow> lease \<Rightarrow> pydatetime \<Rightarrow> bool" where
  \<comment> \<open>the two tests of an observed date against the proposal\<close>
  "outside_proposal written proposed date \<longleftrightarrow>
     ls_state written = ''active'' \<and>
       \<not> (instant (ls_created_at proposed) \<le> instant date \<and> instant date < instant (ls_expires_at proposed)) \<or>
     ls_state written = ''released'' \<and> instant date < instant (ls_expires_at proposed)"

definition window_passed :: "'w ds_env \<Rightarrow> rat \<Rightarrow> ('w, bool) act" where
  "window_passed env observed_at =
     bindA (ds_monotonic env) (\<lambda>t. retA (t - observed_at > proposal_window_seconds))"

definition write_lease :: "'w ds_env \<Rightarrow> lease \<Rightarrow> rat \<Rightarrow> string option \<Rightarrow> bool \<Rightarrow> ('w, lease option) act" where
  \<comment> \<open>\<open>None\<close> stands for the private exception \<^verbatim>\<open>_ProposalExpired\<close>, raised only here and caught by every caller\<close>
  "write_lease env proposed observed_at if_match if_none_match =
     bindA (liftA (validate_lease proposed None)) (\<lambda>_.
     bindA (liftA (lease_body env proposed)) (\<lambda>body.
     bindA (window_passed env observed_at) (\<lambda>late.
     if late then retA None
     else
       bindA (put_control_request env (ls_bucket proposed) (ls_key proposed) body if_match if_none_match) (\<lambda>(snapshot, write_response).
       bindA (liftA (lease_from_snapshot env snapshot (ls_dataset proposed) (ls_bucket proposed) (ls_key proposed))) (\<lambda>written.
       seqA (guardA (outside_proposal written proposed (cs_server_date snapshot)) (AmbiguousWrite None)) (
       case write_response of
         None \<Rightarrow> retA (Some written)
       | Some d \<Rightarrow>
           bindA (mapexnA (response_server_date env (PDict d))
                    (\<lambda>e. if is_ambiguous e then AmbiguousWrite (Some e) else e)) (\<lambda>write_date.
           seqA (guardA (outside_proposal written proposed write_date) (AmbiguousWrite None)) (retA (Some written)))))))))"

definition new_lease :: "string \<Rightarrow> pyval \<Rightarrow> pyval \<Rightarrow> pydatetime \<Rightarrow> string \<Rightarrow> string \<Rightarrow> pyval \<Rightarrow> lease res" where
  "new_lease dataset publication_id owner_nonce server_date bucket key lease_seconds =
     bindE (validate_lease_duration lease_seconds) (\<lambda>duration.
     bindE (validate_lease_identity publication_id owner_nonce) (\<lambda>_.
     bindE (plus_seconds server_date duration) (\<lambda>expires_at.
     let l = \<lparr>ls_dataset = dataset, ls_publication_id = publication_id, ls_owner_nonce = owner_nonce,
              ls_state = ''active'', ls_created_at = server_date, ls_expires_at = expires_at,
              ls_etag = [], ls_bucket = bucket, ls_key = key\<rparr>
     in bindE (validate_lease l None) (\<lambda>_. Inr l))))"

partial_function (option) retryA :: "('w, 'a option) act \<Rightarrow> 'w \<Rightarrow> ((exn + 'a) \<times> 'w) option" where
  \<comment> \<open>\<^verbatim>\<open>while True\<close>, one turn of which answers \<open>None\<close> for \<^verbatim>\<open>continue\<close>\<close>
  "retryA m w =
     (case m w of
        (Inl e, w') \<Rightarrow> Some (Inl e, w')
      | (Inr (Some x), w') \<Rightarrow> Some (Inr x, w')
      | (Inr None, w') \<Rightarrow> retryA m w')"

section \<open>Acquire\<close>

definition free_condition ::
  "'w ds_env \<Rightarrow> string \<Rightarrow> string \<Rightarrow> string \<Rightarrow> control_snapshot option \<Rightarrow> pydatetime \<Rightarrow> (string option \<times> bool) res" where
  \<comment> \<open>\<^verbatim>\<open>if_match\<close> and \<^verbatim>\<open>if_none_match\<close> for what was observed\<close>
  "free_condition env dataset bucket key snapshot server_date =
     (case snapshot of
        None \<Rightarrow> Inr (None, True)
      | Some s \<Rightarrow>
          bindE (lease_from_snapshot env s dataset bucket key) (\<lambda>current.
          if ls_state current = ''active'' \<and> instant server_date < instant (ls_expires_at current)
          then Inl ConditionalConflict else Inr (Some (cs_etag s), False)))"

definition acquire_turn :: "'w ds_env \<Rightarrow> string \<Rightarrow> pyval \<Rightarrow> pyval \<Rightarrow> string \<Rightarrow> pyval \<Rightarrow> ('w, lease option) act" where
  "acquire_turn env dataset publication_id owner_nonce bucket lease_seconds =
     (let key = lease_key dataset
      in bindA (read_lease_observation env bucket key) (\<lambda>(snapshot, server_date, observed_at).
         bindA (liftA (free_condition env dataset bucket key snapshot server_date)) (\<lambda>(if_match, if_none_match).
         bindA (liftA (new_lease dataset publication_id owner_nonce server_date bucket key lease_seconds)) (\<lambda>proposed.
         bindA (window_passed env observed_at) (\<lambda>late.
         if late then retA None else write_lease env proposed observed_at if_match if_none_match)))))"

definition acquire_lease ::
  "'w ds_env \<Rightarrow> string \<Rightarrow> pyval \<Rightarrow> pyval \<Rightarrow> string \<Rightarrow> pyval \<Rightarrow> 'w \<Rightarrow> ((exn + lease) \<times> 'w) option" where
  "acquire_lease env dataset publication_id owner_nonce bucket lease_seconds w =
     (case bindE (validate_lease_identity publication_id owner_nonce) (\<lambda>_. validate_lease_duration lease_seconds) of
        Inl e \<Rightarrow> Some (Inl e, w)
      | Inr _ \<Rightarrow> retryA (acquire_turn env dataset publication_id owner_nonce bucket lease_seconds) w)"

section \<open>Renew and release\<close>

definition same_lease_owner :: "lease \<Rightarrow> lease \<Rightarrow> bool" where
  "same_lease_owner a b \<longleftrightarrow>
     ls_dataset a = ls_dataset b \<and> py_eq (ls_publication_id a) (ls_publication_id b) \<and>
     py_eq (ls_owner_nonce a) (ls_owner_nonce b)"

definition held_lease ::
  "'w ds_env \<Rightarrow> lease \<Rightarrow> control_snapshot option \<Rightarrow> pydatetime \<Rightarrow> (control_snapshot \<times> lease) res" where
  \<comment> \<open>the observed lease, provided it is still the one held\<close>
  "held_lease env l snapshot server_date =
     (case snapshot of
        None \<Rightarrow> Inl ConditionalConflict
      | Some s \<Rightarrow>
          bindE (lease_from_snapshot env s (ls_dataset l) (ls_bucket l) (ls_key l)) (\<lambda>current.
          if cs_etag s \<noteq> ls_etag l \<or> \<not> same_lease_owner current l \<or> ls_state current \<noteq> ''active'' \<or>
             instant server_date \<ge> instant (ls_expires_at current)
          then Inl ConditionalConflict else Inr (s, current)))"

definition renew_turn :: "'w ds_env \<Rightarrow> lease \<Rightarrow> pyval \<Rightarrow> ('w, lease option) act" where
  "renew_turn env l lease_seconds =
     bindA (read_lease_observation env (ls_bucket l) (ls_key l)) (\<lambda>(snapshot, server_date, observed_at).
     bindA (liftA (held_lease env l snapshot server_date)) (\<lambda>(s, current).
     bindA (liftA (new_lease (ls_dataset l) (ls_publication_id l) (ls_owner_nonce l) server_date (ls_bucket l) (ls_key l)
                     lease_seconds)) (\<lambda>proposed.
     bindA (liftA (lease_body env proposed)) (\<lambda>proposed_body.
     if instant (ls_expires_at proposed) \<le> instant (ls_expires_at current) \<or> proposed_body = cs_body s then retA None
     else
       bindA (window_passed env observed_at) (\<lambda>late.
       if late then retA None
       else
         bindA (write_lease env proposed observed_at (Some (ls_etag l)) False) (\<lambda>written.
         case written of
           None \<Rightarrow> retA None
         | Some x \<Rightarrow>
             seqA (guardA (instant (ls_expires_at x) \<le> instant (ls_expires_at current) \<or> ls_etag x = ls_etag l)
                    (AmbiguousWrite None)) (retA (Some x))))))))"

fun renew_loop :: "nat \<Rightarrow> 'w ds_env \<Rightarrow> lease \<Rightarrow> pyval \<Rightarrow> ('w, lease) act" where
  "renew_loop 0 env l lease_seconds = raiseA (AmbiguousWrite None)"
| "renew_loop (Suc n) env l lease_seconds =
     bindA (renew_turn env l lease_seconds) (\<lambda>r.
     case r of Some x \<Rightarrow> retA x | None \<Rightarrow> renew_loop n env l lease_seconds)"

definition renew_lease :: "'w ds_env \<Rightarrow> lease \<Rightarrow> pyval \<Rightarrow> ('w, lease) act" where
  "renew_lease env l lease_seconds =
     bindA (liftA (validate_lease l None)) (\<lambda>_.
     bindA (liftA (validate_lease_duration lease_seconds)) (\<lambda>_.
     renew_loop max_renew_observations env l lease_seconds))"

definition release_turn :: "'w ds_env \<Rightarrow> lease \<Rightarrow> ('w, lease option) act" where
  "release_turn env l =
     bindA (read_lease_observation env (ls_bucket l) (ls_key l)) (\<lambda>(snapshot, server_date, observed_at).
     bindA (liftA (held_lease env l snapshot server_date)) (\<lambda>(s, current).
     let proposed = current\<lparr>ls_state := ''released'', ls_expires_at := server_date, ls_etag := []\<rparr>
     in bindA (window_passed env observed_at) (\<lambda>late.
        if late then retA None else write_lease env proposed observed_at (Some (ls_etag l)) False)))"

definition release_lease :: "'w ds_env \<Rightarrow> lease \<Rightarrow> 'w \<Rightarrow> ((exn + lease) \<times> 'w) option" where
  "release_lease env l w =
     (case validate_lease l None of
        Inl e \<Rightarrow> Some (Inl e, w)
      | Inr _ \<Rightarrow> retryA (release_turn env l) w)"

end
