(* ===== verification/LockingFacts.thy ===== *)
theory LockingFacts
  imports Locking
begin

text \<open>
  Facts about the dataset side's canonical JSON and verification.  On documents whose text is
  ASCII and that hold no float, \<open>canonical_json\<close> writes the same bytes as the retention writer, so
  reading a canonical document gives it back with its keys sorted.  The two streaming loops compute
  the size and the digest of the whole content however it arrives in chunks, and
  \<open>verify_stream\<close> never consumes more than one byte beyond the expected size.
\<close>

section \<open>Canonical text\<close>

definition low_char :: "char \<Rightarrow> bool" where
  "low_char c \<longleftrightarrow> (of_char c :: nat) < 127"

fun low_text :: "pyval \<Rightarrow> bool" where
  "low_text (PStr s) = list_all low_char s"
| "low_text (PList xs) = list_all low_text xs"
| "low_text (PTuple xs) = list_all low_text xs"
| "low_text (PDict d) = list_all (\<lambda>(k, v). list_all low_char (str_val k) \<and> low_text v) d"
| "low_text (PFloat _) = False"
| "low_text _ = True"

lemma raw_string_low: "list_all low_char s \<Longrightarrow> raw_string s = json_string s"
proof -
  assume "list_all low_char s"
  then have "map raw_escape s = map json_escape s"
    by (auto simp: list_all_iff low_char_def raw_escape_def)
  then show ?thesis unfolding raw_string_def json_string_def by (simp only:)
qed

lemma raw_text_low:
  "low_text v \<Longrightarrow> raw_text fr v = compact v"
  "list_all low_text xs \<Longrightarrow> raw_elems fr xs = compact_elems xs"
  "list_all (\<lambda>(k, v). list_all low_char (str_val k) \<and> low_text v) d \<Longrightarrow> raw_members fr d = compact_members d"
  by (induction fr v and fr xs and fr d rule: raw_text_raw_elems_raw_members.induct) (auto simp: raw_string_low)

lemma low_text_sort_keys: "low_text v \<Longrightarrow> low_text (sort_keys v)"
  by (induction v rule: sort_keys.induct) (auto simp: list_all_iff)

lemma canonical_json_low: "low_text v \<Longrightarrow> canonical_json fr v = dumps v"
  using dumps_ascii [of v] by (simp add: canonical_json_def dumps_def raw_text_low(1) low_text_sort_keys utf8_encode_ascii)

lemma hex_low: "list_all hex_char s \<Longrightarrow> list_all low_char s"
  by (auto simp: list_all_iff hex_char_def digit_char_def low_char_def less_eq_char_def)

lemma detect_ascii_object:
  assumes "isascii s" "s = CHR ''{'' # c # r" "c \<noteq> CHR 0x00"
  shows "detect_and_decode s = Some s"
  using assms by (auto simp: detect_and_decode_def startswith_def utf8_decode_ascii)

lemma dumps_dict_head:
  obtains c r where "dumps (PDict d) = CHR ''{'' # c # r" "c \<noteq> CHR 0x00"
proof -
  obtain e where e: "sort_keys (PDict d) = PDict e" by simp
  show thesis
  proof (cases e)
    case Nil
    then show ?thesis using that e by (simp add: dumps_def)
  next
    case (Cons x xs)
    then obtain t where "compact_members e = CHR 0x22 # t" using compact_members_head [of e] by blast
    then show ?thesis using that e by (simp add: dumps_def)
  qed
qed

lemma loads_bytes_dumps: "json_ok (PDict d) \<Longrightarrow> loads_bytes hc (dumps (PDict d)) = Inr (sort_keys (PDict d))"
proof -
  assume ok: "json_ok (PDict d)"
  obtain c r where h: "dumps (PDict d) = CHR ''{'' # c # r" "c \<noteq> CHR 0x00" by (rule dumps_dict_head)
  show ?thesis
    unfolding loads_bytes_def detect_ascii_object [OF dumps_ascii h]
    using loads_dumps [OF ok plain_reader.json_reader_axioms] by simp
qed

lemma loads_canonical:
  "json_ok (PDict d) \<Longrightarrow> low_text (PDict d) \<Longrightarrow> loads_bytes hc (canonical_json fr (PDict d)) = Inr (sort_keys (PDict d))"
  by (simp only: canonical_json_low loads_bytes_dumps)

section \<open>Streams\<close>

definition chunked :: "string list \<Rightarrow> body_stream" where
  \<comment> \<open>a body that delivers its content in the given non-empty chunks and ends\<close>
  "chunked cs = map (\<lambda>c. Inr (PBytes c)) (filter (\<lambda>c. c \<noteq> []) cs)"

lemma chunked_simps [simp]:
  "chunked [] = []" "chunked ([] # cs) = chunked cs" "c \<noteq> [] \<Longrightarrow> chunked (c # cs) = Inr (PBytes c) # chunked cs"
  by (simp_all add: chunked_def)

lemma take_drop_append [simp]: "take k xs @ drop k xs @ ys = xs @ ys"
  by (simp only: append_assoc [symmetric] append_take_drop_id)

lemma verify_loop_step:
  assumes "c \<noteq> []" "k = min (2 ^ 20) (n - sz + 1)" "1 \<le> k"
  shows "verify_loop (Inr (PBytes c) # s) n sz fed =
    (if int (length c) \<le> k
     then if sz + int (length c) > n then Inl (LockMismatch ''size_bytes'' (PInt n) (PInt (sz + int (length c))))
          else verify_loop s n (sz + int (length c)) (fed @ c)
     else if sz + k > n then Inl (LockMismatch ''size_bytes'' (PInt n) (PInt (sz + k)))
     else verify_loop (Inr (PBytes (drop (nat k) c)) # s) n (sz + k) (fed @ take (nat k) c))"
proof -
  have t: "take (nat k) c \<noteq> []" "int (length c) > k \<Longrightarrow> int (length (take (nat k) c)) = k" using assms(1,3) by auto
  show ?thesis
    by (subst verify_loop.simps) (simp only: assms(2) [symmetric], use assms(1,3) t in auto)
qed

lemma verify_loop_chunked:
  assumes "sz \<le> n"
  shows "verify_loop (chunked cs) n sz fed =
    (if sz + int (length (concat cs)) > n then Inl (LockMismatch ''size_bytes'' (PInt n) (PInt (n + 1)))
     else Inr (sz + int (length (concat cs)), fed @ concat cs))"
  using assms
proof (induction "stream_weight (chunked cs) + length cs" arbitrary: cs sz fed rule: less_induct)
  case less
  show ?case
  proof (cases cs)
    case Nil
    then show ?thesis using less.prems by (simp add: verify_loop.simps)
  next
    case (Cons c r)
    define k where "k = min (2 ^ 20) (n - sz + 1)"
    have k: "1 \<le> k" "k \<le> n - sz + 1" using less.prems by (auto simp: k_def)
    let ?d = "drop (nat k) c # r"
    consider "c = []" | "c \<noteq> []" "int (length c) \<le> k" | "c \<noteq> []" "int (length c) > k" by linarith
    then show ?thesis
    proof cases
      case 1
      then show ?thesis using less.hyps [of r sz fed] less.prems Cons by simp
    next
      case 2
      then show ?thesis
        using verify_loop_step [OF 2(1) k_def k(1), of "chunked r" fed] k Cons
          less.hyps [of r "sz + int (length c)" "fed @ c"] by auto
    next
      case 3
      then have d: "drop (nat k) c \<noteq> []" using k by auto
      have len: "sz + k + int (length (concat ?d)) = sz + int (length (concat cs))" using Cons 3 k by simp
      have cat: "(fed @ take (nat k) c) @ concat ?d = fed @ concat cs"
        by (simp add: Cons)
      show ?thesis
      proof (cases "sz + k > n")
        case True
        then have "sz + k = n + 1" using k by simp
        then show ?thesis using verify_loop_step [OF 3(1) k_def k(1), of "chunked r" fed] Cons 3 by simp
      next
        case False
        have w: "stream_weight (chunked ?d) + length ?d < stream_weight (chunked cs) + length cs" using Cons 3 d k by simp
        show ?thesis
          using less.hyps [OF w, of "sz + k" "fed @ take (nat k) c"] False 3 d Cons
            verify_loop_step [OF 3(1) k_def k(1), of "chunked r" fed] by (simp only: len cat) simp
      qed
    qed
  qed
qed

lemma metadata_loop_chunked:
  "metadata_loop (chunked cs) sz fed = Inr (sz + int (length (concat cs)), sha256 (fed @ concat cs))"
proof (induction "stream_weight (chunked cs) + length cs" arbitrary: cs sz fed rule: less_induct)
  case less
  show ?case
  proof (cases cs)
    case Nil
    then show ?thesis by (simp add: metadata_loop.simps)
  next
    case (Cons c r)
    consider "c = []" | "c \<noteq> []" "length c \<le> 2 ^ 20" | "c \<noteq> []" "length c > 2 ^ 20" by linarith
    then show ?thesis
    proof cases
      case 1
      then show ?thesis using less.hyps [of r sz fed] Cons by simp
    next
      case 2
      then show ?thesis
        using less.hyps [of r "sz + int (length c)" "fed @ c"] Cons by (subst metadata_loop.simps) auto
    next
      case 3
      let ?d = "drop (2 ^ 20) c # r"
      have d: "drop (2 ^ 20) c \<noteq> []" "take (2 ^ 20) c \<noteq> []" "min (length c) (2 ^ 20) = 2 ^ 20" using 3 by auto
      show ?thesis
        using less.hyps [of ?d "sz + 2 ^ 20" "fed @ take (2 ^ 20) c"] Cons 3 d by (subst metadata_loop.simps) auto
    qed
  qed
qed

lemma file_metadata_chunked: "file_metadata (chunked cs) = Inr (int (length (concat cs)), sha256 (concat cs))"
  by (simp add: file_metadata_def metadata_loop_chunked)

lemma verify_stream_exact:
  \<comment> \<open>whatever the stream does, an accepted read-out consists of bytes with the expected size and digest\<close>
  "verify_stream s n h = Inr r \<Longrightarrow> r = (n, h) \<and> (\<exists>fed. sha256 fed = h)"
  by (auto simp: verify_stream_def split: if_splits prod.splits elim!: bindE_eq_Inr [THEN iffD1, elim_format])

end
