(* ===== verification/StoreTrace.thy ===== *)
theory StoreTrace
  imports DatasetLease LockingFacts
begin

text \<open>
  Logs of the dataset side's S3 calls together with their answers.  \<open>ds_traced\<close> makes of any
  environment one that also logs; \<open>emits m Q\<close> says that a run of \<open>m\<close> appends to the log some
  events that stand in the relation \<open>Q\<close> to its result.  The rules in \<open>emit_rules\<close> compute
  \<open>emits\<close> along the combinators, in the manner of a verification condition generator; the facts
  about the reading and writing primitives are proved once here.
\<close>

section \<open>Logging\<close>

type_synonym ds_event = "ds_call \<times> (exn + pyval)"

definition ds_traced :: "'w ds_env \<Rightarrow> ('w \<times> ds_event list) ds_env" where
  "ds_traced e =
     \<lparr>ds_s3 = (\<lambda>c (w, l). case ds_s3 e c w of (r, w') \<Rightarrow> (r, (w', l @ [(c, r)]))),
      ds_utcnow = onW (ds_utcnow e), ds_monotonic = onW (ds_monotonic e), ds_open = (\<lambda>p. onW (ds_open e p)),
      ds_body = ds_body e, ds_close = ds_close e, ds_parsedate = ds_parsedate e,
      ds_fromisoformat = ds_fromisoformat e, ds_float_repr = ds_float_repr e\<rparr>"

lemma ds_traced_pure [simp]:
  "ds_body (ds_traced e) = ds_body e" "ds_close (ds_traced e) = ds_close e"
  "ds_parsedate (ds_traced e) = ds_parsedate e" "ds_fromisoformat (ds_traced e) = ds_fromisoformat e"
  "ds_float_repr (ds_traced e) = ds_float_repr e" "ds_utcnow (ds_traced e) = onW (ds_utcnow e)"
  "ds_monotonic (ds_traced e) = onW (ds_monotonic e)" "ds_open (ds_traced e) p = onW (ds_open e p)"
  by (simp_all add: ds_traced_def)

lemma traced_pure_functions [simp]:
  "header_date (ds_traced e) v = header_date e v"
  "read_bounded (ds_traced e) v n = read_bounded e v n"
  "verify_body (ds_traced e) v n h = verify_body e v n h"
  "canonical_control_body (ds_traced e) b = canonical_control_body e b"
  "parse_instant (ds_traced e) v = parse_instant e v"
  "lease_body (ds_traced e) x = lease_body e x"
  "decode_lease (ds_traced e) s a b c = decode_lease e s a b c"
  "lease_from_snapshot (ds_traced e) s a b c = lease_from_snapshot e s a b c"
  "free_condition (ds_traced e) a b c sn t = free_condition e a b c sn t"
  "held_lease (ds_traced e) x sn t = held_lease e x sn t"
  unfolding header_date_def read_bounded_def verify_body_def canonical_control_body_def parse_instant_def
    lease_body_def decode_lease_def lease_from_snapshot_def free_condition_def held_lease_def ds_traced_pure
  by (rule refl)+

named_theorems emit_rules

definition emits :: "('w \<times> ds_event list, 'a) act \<Rightarrow> (exn + 'a \<Rightarrow> ds_event list \<Rightarrow> bool) \<Rightarrow> bool" where
  "emits m Q \<longleftrightarrow> (\<forall>w l r w' l'. m (w, l) = (r, (w', l')) \<longrightarrow> (\<exists>ext. l' = l @ ext \<and> Q r ext))"

lemma emitsD: "emits m Q \<Longrightarrow> m (w, []) = (r, (w', l')) \<Longrightarrow> Q r l'"
  unfolding emits_def by fastforce

lemma emits_mono: "emits m Q \<Longrightarrow> (\<And>r ext. Q r ext \<Longrightarrow> P r ext) \<Longrightarrow> emits m P"
  unfolding emits_def by meson

lemma emits_retA [emit_rules]: "P (Inr x) [] \<Longrightarrow> emits (retA x) P"
  by (simp add: emits_def retA_def)

lemma emits_raiseA [emit_rules]: "P (Inl e) [] \<Longrightarrow> emits (raiseA e) P"
  by (simp add: emits_def raiseA_def)

lemma emits_liftA [emit_rules]: "P r [] \<Longrightarrow> emits (liftA r) P"
  by (simp add: emits_def liftA_def)

lemma emits_guardA [emit_rules]: "P (if b then Inl e else Inr ()) [] \<Longrightarrow> emits (guardA b e) P"
  unfolding guardA_def by (auto intro: emits_retA emits_raiseA split: if_splits)

lemma emits_onW [emit_rules]: "(\<And>r. P r []) \<Longrightarrow> emits (onW m) P"
  by (auto simp: emits_def onW_def split: prod.splits)

lemma emits_bindA:
  assumes "emits m Q" "\<And>e ext. Q (Inl e) ext \<Longrightarrow> P (Inl e) ext"
    and "\<And>x e1. Q (Inr x) e1 \<Longrightarrow> emits (f x) (\<lambda>r e2. P r (e1 @ e2))"
  shows "emits (bindA m f) P"
  unfolding emits_def
proof (intro allI impI)
  fix w l r w' l' assume run: "bindA m f (w, l) = (r, (w', l'))"
  obtain r1 w1 l1 where m: "m (w, l) = (r1, (w1, l1))" by (cases "m (w, l)") auto
  then obtain ext where ext: "l1 = l @ ext" "Q r1 ext" using assms(1) unfolding emits_def by blast
  show "\<exists>ext. l' = l @ ext \<and> P r ext"
  proof (cases r1)
    case (Inl e)
    then show ?thesis using run m ext assms(2) by (auto simp: bindA_def)
  next
    case (Inr x)
    then have "f x (w1, l1) = (r, (w', l'))" using run m by (simp add: bindA_def)
    then obtain e2 where "l' = l1 @ e2" "P r (ext @ e2)" using assms(3) ext Inr unfolding emits_def by blast
    then show ?thesis using ext by auto
  qed
qed

lemma emits_tryA:
  assumes "emits m Q" "\<And>e e1. Q (Inl e) e1 \<Longrightarrow> emits (h e) (\<lambda>r e2. P r (e1 @ e2))"
    and "\<And>x e1. Q (Inr x) e1 \<Longrightarrow> emits (k x) (\<lambda>r e2. P r (e1 @ e2))"
  shows "emits (tryA m h k) P"
  unfolding emits_def
proof (intro allI impI)
  fix w l r w' l' assume run: "tryA m h k (w, l) = (r, (w', l'))"
  obtain r1 w1 l1 where m: "m (w, l) = (r1, (w1, l1))" by (cases "m (w, l)") auto
  then obtain ext where ext: "l1 = l @ ext" "Q r1 ext" using assms(1) unfolding emits_def by blast
  have "\<exists>e2. l' = l1 @ e2 \<and> P r (ext @ e2)"
  proof (cases r1)
    case (Inl e)
    then have "h e (w1, l1) = (r, (w', l'))" using run m by (simp add: tryA_def)
    then show ?thesis using assms(2) ext Inl unfolding emits_def by blast
  next
    case (Inr x)
    then have "k x (w1, l1) = (r, (w', l'))" using run m by (simp add: tryA_def)
    then show ?thesis using assms(3) ext Inr unfolding emits_def by blast
  qed
  then show "\<exists>ext. l' = l @ ext \<and> P r ext" using ext by auto
qed

lemma emits_seqA:
  assumes "emits m Q" "\<And>e ext. Q (Inl e) ext \<Longrightarrow> P (Inl e) ext"
    and "\<And>e1. Q (Inr ()) e1 \<Longrightarrow> emits k (\<lambda>r e2. P r (e1 @ e2))"
  shows "emits (seqA m k) P"
  unfolding seqA_def by (rule emits_bindA [where Q = Q]) (use assms in auto)

lemma emits_bind_liftA [emit_rules]:
  assumes "\<And>e. r = Inl e \<Longrightarrow> P (Inl e) []" "\<And>x. r = Inr x \<Longrightarrow> emits (f x) P"
  shows "emits (bindA (liftA r) f) P"
  by (rule emits_bindA [where Q = "\<lambda>s ext. s = r \<and> ext = []"]) (use assms in \<open>auto intro: emit_rules\<close>)

lemma emits_bind_onW [emit_rules]:
  assumes "\<And>e. P (Inl e) []" "\<And>x. emits (f x) P"
  shows "emits (bindA (onW m) f) P"
  by (rule emits_bindA [where Q = "\<lambda>s ext. ext = []"]) (use assms in \<open>auto intro: emit_rules\<close>)

lemma emits_seq_guardA [emit_rules]:
  assumes "b \<Longrightarrow> P (Inl e) []" "\<not> b \<Longrightarrow> emits k P"
  shows "emits (seqA (guardA b e) k) P"
  by (rule emits_seqA [where Q = "\<lambda>s ext. s = (if b then Inl e else Inr ()) \<and> ext = []"])
     (use assms in \<open>auto intro!: emit_rules split: if_splits\<close>)

lemma emits_mapexnA:
  assumes "emits m Q" "\<And>e ext. Q (Inl e) ext \<Longrightarrow> P (Inl (h e)) ext" "\<And>x ext. Q (Inr x) ext \<Longrightarrow> P (Inr x) ext"
  shows "emits (mapexnA m h) P"
  unfolding mapexnA_def by (rule emits_tryA [OF assms(1)]) (use assms(2,3) in \<open>auto intro!: emit_rules\<close>)

lemma emits_if [emit_rules]: "(b \<Longrightarrow> emits m P) \<Longrightarrow> (\<not> b \<Longrightarrow> emits k P) \<Longrightarrow> emits (if b then m else k) P"
  by simp

lemma emits_option [emit_rules]:
  "(v = None \<Longrightarrow> emits m P) \<Longrightarrow> (\<And>x. v = Some x \<Longrightarrow> emits (f x) P) \<Longrightarrow> emits (case v of None \<Rightarrow> m | Some x \<Rightarrow> f x) P"
  by (cases v) simp_all

lemma emits_dict_case:
  "(\<And>d. v = PDict d \<Longrightarrow> emits (f d) P) \<Longrightarrow> ((\<forall>d. v \<noteq> PDict d) \<Longrightarrow> P (Inl e) []) \<Longrightarrow>
   emits (case v of PDict d \<Rightarrow> f d | _ \<Rightarrow> raiseA e) P"
  by (cases v) (auto intro: emit_rules)


lemma emits_call: "(\<And>r. P r [(c, r)]) \<Longrightarrow> emits (ds_s3 (ds_traced e) c) P"
  by (auto simp: emits_def ds_traced_def split: prod.splits)

section \<open>Reading\<close>

definition answers_snapshot :: "'w ds_env \<Rightarrow> exn + pyval \<Rightarrow> control_snapshot \<Rightarrow> bool" where
  \<comment> \<open>the answer of a \<^verbatim>\<open>GetObject\<close> that carries exactly this body, tag and date\<close>
  "answers_snapshot env a s \<longleftrightarrow>
     (\<exists>d stream. a = Inr (PDict d) \<and> dget d ''Body'' = Some stream \<and>
        snapshot_etag d = Inr (cs_etag s) \<and> read_bounded env stream max_control_bytes = Inr (cs_body s) \<and>
        header_date env (PDict d) = Inr (cs_server_date s))"

definition answers_missing :: "'w ds_env \<Rightarrow> exn + pyval \<Rightarrow> pydatetime \<Rightarrow> bool" where
  "answers_missing env a t \<longleftrightarrow> (\<exists>r. a = Inl (ClientError r) \<and> is_not_found r \<and> header_date env r = Inr t)"

definition quiet :: "(exn + 'a \<Rightarrow> bool) \<Rightarrow> exn + 'a \<Rightarrow> ds_event list \<Rightarrow> bool" where
  "quiet Q r ext \<longleftrightarrow> Q r \<and> ext = []"

lemma server_date_emits:
  "emits (response_server_date (ds_traced e) v) (quiet (\<lambda>r. \<forall>t. r = Inr t \<longrightarrow> header_date e v = Inr t))"
  unfolding response_server_date_def by (auto simp: quiet_def intro!: emit_rules)

lemma emits_server_date [emit_rules]:
  assumes "\<And>x. P (Inl x) []" "\<And>t. header_date e v = Inr t \<Longrightarrow> emits (f t) P"
  shows "emits (bindA (response_server_date (ds_traced e) v) f) P"
  by (rule emits_bindA [OF server_date_emits]) (use assms in \<open>auto simp: quiet_def\<close>)

lemma emits_owned_body:
  assumes "emits m Q" "\<And>x ext. Q (Inl x) ext \<Longrightarrow> P (Inl x) ext" "\<And>x ext. Q (Inr x) ext \<Longrightarrow> P (Inr x) ext"
    and "\<And>x ext c. Q (Inr x) ext \<Longrightarrow> P (Inl (AmbiguousWrite c)) ext"
  shows "emits (owned_body env body m) P"
  unfolding owned_body_def by (rule emits_tryA [OF assms(1)]) (use assms(2-4) in \<open>auto intro!: emit_rules\<close>)

lemma read_control_response_emits:
  "emits (read_control_response (ds_traced e) d)
     (quiet (\<lambda>r. \<forall>s. r = Inr s \<longrightarrow> answers_snapshot e (Inr (PDict d)) s))"
proof -
  have *: "emits (bindA (response_server_date (ds_traced e) (PDict d)) (\<lambda>server_date.
          bindA (liftA (snapshot_etag d)) (\<lambda>etag.
          bindA (liftA (read_bounded (ds_traced e) stream max_control_bytes)) (\<lambda>body.
          retA \<lparr>cs_body = body, cs_etag = etag, cs_server_date = server_date\<rparr>))))
        (quiet (\<lambda>r. \<forall>s. r = Inr s \<longrightarrow> answers_snapshot e (Inr (PDict d)) s))"
    if "dget d ''Body'' = Some stream" for stream
    using that by (auto simp: quiet_def answers_snapshot_def intro!: emit_rules)
  have **: "emits (mapexnA (bindA (response_server_date (ds_traced e) (PDict d)) (\<lambda>server_date.
          bindA (liftA (snapshot_etag d)) (\<lambda>etag.
          bindA (liftA (read_bounded (ds_traced e) stream max_control_bytes)) (\<lambda>body.
          retA \<lparr>cs_body = body, cs_etag = etag, cs_server_date = server_date\<rparr>)))) read_failure)
        (quiet (\<lambda>r. \<forall>s. r = Inr s \<longrightarrow> answers_snapshot e (Inr (PDict d)) s))"
    if "dget d ''Body'' = Some stream" for stream
    by (rule emits_mapexnA [OF * [OF that]]) (auto simp: quiet_def)
  show ?thesis
    unfolding read_control_response_def
    by (rule emits_option, rule emits_raiseA) (simp add: quiet_def, rule emits_owned_body [OF **], auto simp: quiet_def)
qed

lemma get_object_emits:
  "emits (get_object (ds_traced e) b k)
     (\<lambda>r ext. \<exists>a. ext = [(DsGet b k, a)] \<and> (\<forall>d. r = Inr d \<longrightarrow> a = Inr (PDict d)))"
proof -
  have call: "emits (ds_s3 (ds_traced e) (DsGet b k)) (\<lambda>r ext. ext = [(DsGet b k, r)])" by (rule emits_call) simp
  show ?thesis
    unfolding get_object_def
    by (rule emits_bindA [OF emits_mapexnA [OF call, where P = "\<lambda>r ext. \<exists>a. ext = [(DsGet b k, a)] \<and> (\<forall>x. r = Inr x \<longrightarrow> a = Inr x)"]])
       (auto intro!: emits_dict_case emit_rules)
qed

lemma read_control_object_emits:
  "emits (read_control_object (ds_traced e) b k)
     (\<lambda>r ext. \<exists>a. ext = [(DsGet b k, a)] \<and> (\<forall>s. r = Inr s \<longrightarrow> answers_snapshot e a s))"
  unfolding read_control_object_def
  by (rule emits_bindA [OF get_object_emits])
     (auto simp: quiet_def intro!: emits_mono [OF read_control_response_emits])

section \<open>Conditional writes\<close>

definition wrote_exactly ::
  "'w ds_env \<Rightarrow> string \<Rightarrow> string \<Rightarrow> string \<Rightarrow> put_condition \<Rightarrow> exn + control_snapshot \<Rightarrow> ds_event list \<Rightarrow> bool" where
  \<comment> \<open>one write, then one read; a snapshot only when the read returned the bytes written\<close>
  "wrote_exactly env b k body cond r ext \<longleftrightarrow>
     (\<exists>pa. ext = [(DsPut b k (BytesBody body) [] cond, pa)] \<and> (\<exists>x. r = Inl x)) \<or>
     (\<exists>pa ga. ext = [(DsPut b k (BytesBody body) [] cond, pa), (DsGet b k, ga)] \<and>
        (\<forall>s. r = Inr s \<longrightarrow> answers_snapshot env ga s \<and> cs_body s = body))"

lemma reconcile_control_emits:
  "emits (reconcile_control_write (ds_traced e) b k body)
     (\<lambda>r ext. \<exists>a. ext = [(DsGet b k, a)] \<and> (\<forall>s. r = Inr s \<longrightarrow> answers_snapshot e a s \<and> cs_body s = body))"
  unfolding reconcile_control_write_def
  by (rule emits_bindA [OF emits_mapexnA [OF read_control_object_emits,
            where P = "\<lambda>r ext. \<exists>a. ext = [(DsGet b k, a)] \<and> (\<forall>s. r = Inr s \<longrightarrow> answers_snapshot e a s)"]])
     (auto intro!: emit_rules)

lemma put_control_request_emits:
  "emits (put_control_request (ds_traced e) b k body im inm)
     (\<lambda>r ext. (\<exists>x. r = Inl x) \<and> ext = [] \<or>
        wrote_exactly e b k body (put_condition_of im inm) (map_sum id fst r) ext)"
proof -
  let ?put = "DsPut b k (BytesBody body) [] (put_condition_of im inm)"
  have call: "emits (ds_s3 (ds_traced e) ?put) (\<lambda>r ext. ext = [(?put, r)])" by (rule emits_call) simp
  show ?thesis
    unfolding put_control_request_def
  proof (rule emits_seq_guardA, simp, rule emits_tryA [OF call], goal_cases)
    case (1 x e1)
    show ?case
      by (rule emits_if)
         (auto simp: 1 wrote_exactly_def intro!: emits_bindA [OF reconcile_control_emits] emit_rules)
  next
    case (2 x e1)
    show ?case
      by (rule emits_bindA [OF reconcile_control_emits])
         (auto simp: 2 wrote_exactly_def intro!: emits_dict_case emit_rules)
  qed
qed

lemma put_control_object_emits:
  "emits (put_control_object (ds_traced e) b k body im inm)
     (\<lambda>r ext. (\<exists>x. r = Inl x) \<and> ext = [] \<or>
        (\<exists>intended. canonical_control_body e body = Inr intended \<and>
           wrote_exactly e b k intended (put_condition_of im inm) r ext))"
  unfolding put_control_object_def
proof (rule emits_bind_liftA, simp, rule emits_bindA [OF put_control_request_emits], goal_cases)
  case (1 intended x ext)
  then show ?case by auto
next
  case (2 intended p e1)
  then show ?case by (cases p) (auto simp: wrote_exactly_def intro!: emit_rules)
qed

end
