(* ===== verification/LeaseProtocol.thy ===== *)
theory LeaseProtocol
  imports StoreTrace
begin

text \<open>
  The lease protocol as a state machine, and the proof that the three lease operations of
  \<^verbatim>\<open>datasets/s3.py\<close> follow it.  A client observes the lease object (again and again, while its
  observations grow stale), writes at most once under a condition taken from its last observation,
  and reads the object once more; only a read that returns the bytes written ends in
  \<open>Confirmed\<close>.  \<open>may\<close> is what an operation allows itself to write after an observation:
  \<open>may_acquire\<close> an absent, released or expired lease, \<open>may_renew\<close> and \<open>may_release\<close> only
  the version the caller holds.
\<close>

section \<open>The state machine\<close>

datatype lease_phase =
    Start
  | Observed "control_snapshot option" pydatetime
  | Wrote string
  | Confirmed control_snapshot
  | Failed

definition answers_observation :: "'w ds_env \<Rightarrow> exn + pyval \<Rightarrow> control_snapshot option \<Rightarrow> pydatetime \<Rightarrow> bool" where
  "answers_observation env a sn t \<longleftrightarrow>
     (case sn of None \<Rightarrow> answers_missing env a t | Some s \<Rightarrow> answers_snapshot env a s \<and> t = cs_server_date s)"

fun observing :: "lease_phase \<Rightarrow> bool" where
  "observing Start = True"
| "observing (Observed _ _) = True"
| "observing _ = False"

type_synonym write_rule = "control_snapshot option \<Rightarrow> pydatetime \<Rightarrow> string \<Rightarrow> put_condition \<Rightarrow> bool"

inductive lease_step :: "'w ds_env \<Rightarrow> string \<Rightarrow> string \<Rightarrow> write_rule \<Rightarrow> lease_phase \<Rightarrow> ds_event \<Rightarrow> lease_phase \<Rightarrow> bool"
  for env b k may
where
  observe: "observing p \<Longrightarrow> answers_observation env a sn t \<Longrightarrow>
     lease_step env b k may p (DsGet b k, a) (Observed sn t)"
| unreadable: "observing p \<Longrightarrow> lease_step env b k may p (DsGet b k, a) Failed"
| put: "may sn t body cond \<Longrightarrow>
     lease_step env b k may (Observed sn t) (DsPut b k (BytesBody body) [] cond, a) (Wrote body)"
| confirm: "answers_snapshot env a s \<Longrightarrow> cs_body s = body \<Longrightarrow>
     lease_step env b k may (Wrote body) (DsGet b k, a) (Confirmed s)"
| unconfirmed: "lease_step env b k may (Wrote body) (DsGet b k, a) Failed"

inductive lease_path :: "'w ds_env \<Rightarrow> string \<Rightarrow> string \<Rightarrow> write_rule \<Rightarrow> lease_phase \<Rightarrow> ds_event list \<Rightarrow> lease_phase \<Rightarrow> bool"
  for env b k may
where
  stop: "lease_path env b k may p [] p"
| step: "lease_step env b k may p ev p' \<Longrightarrow> lease_path env b k may p' evs p'' \<Longrightarrow>
     lease_path env b k may p (ev # evs) p''"

inductive_cases lease_step_WroteE: "lease_step env b k may (Wrote body) ev p"
inductive_cases lease_step_ConfirmedE: "lease_step env b k may (Confirmed s) ev p"
inductive_cases lease_step_FailedE: "lease_step env b k may Failed ev p"
inductive_cases lease_path_NilE: "lease_path env b k may p [] q"
inductive_cases lease_path_ConsE: "lease_path env b k may p (ev # evs) q"

lemma observing_iff: "observing p \<longleftrightarrow> p = Start \<or> (\<exists>sn t. p = Observed sn t)"
  by (cases p) auto

lemma lease_path_append:
  "lease_path env b k may p xs q \<Longrightarrow> lease_path env b k may q ys r \<Longrightarrow> lease_path env b k may p (xs @ ys) r"
  by (induction rule: lease_path.induct) (auto intro: lease_path.intros)

definition is_put :: "ds_event \<Rightarrow> bool" where
  "is_put ev = (case fst ev of DsPut _ _ _ _ _ \<Rightarrow> True | _ \<Rightarrow> False)"

fun writes_left :: "lease_phase \<Rightarrow> nat" where
  "writes_left Start = 1"
| "writes_left (Observed _ _) = 1"
| "writes_left _ = 0"

lemma lease_step_writes: "lease_step env b k may p ev q \<Longrightarrow> (if is_put ev then 1 else 0) + writes_left q \<le> writes_left p"
  by (induction rule: lease_step.induct) (auto simp: is_put_def observing_iff)

lemma lease_path_writes: "lease_path env b k may p evs q \<Longrightarrow> length (filter is_put evs) + writes_left q \<le> writes_left p"
proof (induction rule: lease_path.induct)
  case (step p ev p' evs p'')
  then show ?case using lease_step_writes [OF step.hyps(1)] by (auto split: if_splits)
qed simp

section \<open>One observation, one write\<close>

lemma observation_emits:
  "emits (read_lease_observation (ds_traced e) b k)
     (\<lambda>r ext. \<exists>a. ext = [(DsGet b k, a)] \<and> (\<forall>sn t m. r = Inr (sn, t, m) \<longrightarrow> answers_observation e a sn t))"
proof -
  have call: "emits (ds_s3 (ds_traced e) (DsGet b k)) (\<lambda>r ext. ext = [(DsGet b k, r)])" by (rule emits_call) simp
  show ?thesis
    unfolding read_lease_observation_def
  proof (rule emits_tryA [OF call], goal_cases)
    case (1 x e1)
    show ?case
    proof (cases x)
      case (ClientError r)
      have date: "emits (mapexnA (response_server_date (ds_traced e) r) h)
          (quiet (\<lambda>q. \<forall>t. q = Inr t \<longrightarrow> header_date e r = Inr t))" for h
        by (rule emits_mapexnA [OF server_date_emits]) (auto simp: quiet_def)
      show ?thesis
        using 1 by (auto simp: ClientError answers_observation_def answers_missing_def quiet_def intro!: emit_rules
            emits_bindA [OF date])
    qed (use 1 in \<open>auto intro!: emit_rules\<close>)
  next
    case (2 x e1)
    show ?case
      using 2 by (auto simp: answers_observation_def quiet_def intro!: emit_rules emits_dict_case
          emits_bindA [OF read_control_response_emits])
  qed
qed

lemma window_emits [emit_rules]:
  "(\<And>x. P (Inl x) []) \<Longrightarrow> (\<And>late. emits (f late) P) \<Longrightarrow> emits (bindA (window_passed (ds_traced e) t) f) P"
  by (rule emits_bindA [where Q = "\<lambda>r ext. ext = []"]) (auto simp: window_passed_def intro!: emit_rules)

definition write_outcome ::
  "'w ds_env \<Rightarrow> string \<Rightarrow> string \<Rightarrow> lease \<Rightarrow> put_condition \<Rightarrow> exn + lease option \<Rightarrow> ds_event list \<Rightarrow> bool" where
  \<comment> \<open>no call at all, or a write of the proposal's body followed by its exact re-read\<close>
  "write_outcome env b k proposed cond r ext \<longleftrightarrow>
     (\<nexists>l. r = Inr (Some l)) \<and> ext = [] \<or>
     (\<exists>body q. lease_body env proposed = Inr body \<and> wrote_exactly env b k body cond q ext \<and>
        r \<noteq> Inr None \<and>
        (\<forall>l. r = Inr (Some l) \<longrightarrow> (\<exists>s. q = Inr s \<and> lease_from_snapshot env s (ls_dataset proposed) b k = Inr l \<and>
            \<not> outside_proposal l proposed (cs_server_date s))))"

lemma mapexn_date_emits: "emits (mapexnA (response_server_date (ds_traced e) v) h) (quiet (\<lambda>_. True))"
  by (rule emits_mapexnA [OF server_date_emits]) (auto simp: quiet_def)

lemma write_lease_emits:
  "emits (write_lease (ds_traced e) p t im inm)
     (write_outcome e (ls_bucket p) (ls_key p) p (put_condition_of im inm))"
  unfolding write_lease_def
proof (intro emits_bind_liftA window_emits emits_if, goal_cases)
  case (5 _ body late)
  show ?case
  proof (rule emits_bindA [OF put_control_request_emits], goal_cases)
    case (1 x ext)
    then show ?case using 5 by (fastforce simp: write_outcome_def)
  next
    case (2 q e1)
    obtain s resp where q: "q = (s, resp)" by (cases q)
    have w: "wrote_exactly e (ls_bucket p) (ls_key p) body (put_condition_of im inm) (Inr s) e1" using 2 q by simp
    show ?case
      unfolding q prod.case traced_pure_functions
      by (intro emits_bind_liftA emits_seq_guardA emits_option emits_bindA [OF mapexn_date_emits])
         (use 5 w in \<open>auto simp: write_outcome_def quiet_def intro!: emit_rules\<close>)
  qed
qed (auto simp: write_outcome_def intro!: emit_rules)

section \<open>What the operations may write\<close>

definition fresh_lease :: "lease \<Rightarrow> string \<Rightarrow> pyval \<Rightarrow> pyval \<Rightarrow> pydatetime \<Rightarrow> bool" where
  \<comment> \<open>an active lease of the owner that starts at \<open>t\<close> and lasts at most the maximum\<close>
  "fresh_lease p dataset publication_id owner_nonce t \<longleftrightarrow>
     ls_dataset p = dataset \<and> ls_publication_id p = publication_id \<and> ls_owner_nonce p = owner_nonce \<and>
     ls_state p = ''active'' \<and> ls_created_at p = t \<and> instant t < instant (ls_expires_at p) \<and>
     instant (ls_expires_at p) \<le> instant t + max_lease_seconds * 1000000"

definition may_acquire :: "'w ds_env \<Rightarrow> string \<Rightarrow> pyval \<Rightarrow> pyval \<Rightarrow> string \<Rightarrow> write_rule" where
  "may_acquire env dataset publication_id owner_nonce b sn t body cond \<longleftrightarrow>
     (case sn of
        None \<Rightarrow> cond = IfNoneMatch
      | Some s \<Rightarrow> cond = IfMatch (cs_etag s) \<and>
          (\<exists>current. lease_from_snapshot env s dataset b (lease_key dataset) = Inr current \<and>
             (ls_state current = ''released'' \<or> instant (ls_expires_at current) \<le> instant t))) \<and>
     (\<exists>p. fresh_lease p dataset publication_id owner_nonce t \<and> lease_body env p = Inr body)"

definition holds :: "'w ds_env \<Rightarrow> lease \<Rightarrow> control_snapshot option \<Rightarrow> pydatetime \<Rightarrow> lease \<Rightarrow> bool" where
  \<comment> \<open>the observation shows the very version of the lease that the caller holds, active and unexpired\<close>
  "holds env l sn t current \<longleftrightarrow>
     (\<exists>s. sn = Some s \<and> cs_etag s = ls_etag l \<and>
        lease_from_snapshot env s (ls_dataset l) (ls_bucket l) (ls_key l) = Inr current) \<and>
     same_lease_owner current l \<and> ls_state current = ''active'' \<and> instant t < instant (ls_expires_at current)"

definition may_renew :: "'w ds_env \<Rightarrow> lease \<Rightarrow> write_rule" where
  "may_renew env l sn t body cond \<longleftrightarrow>
     cond = IfMatch (ls_etag l) \<and>
     (\<exists>current p. holds env l sn t current \<and>
        fresh_lease p (ls_dataset l) (ls_publication_id l) (ls_owner_nonce l) t \<and> lease_body env p = Inr body \<and>
        instant (ls_expires_at current) < instant (ls_expires_at p))"

definition may_release :: "'w ds_env \<Rightarrow> lease \<Rightarrow> write_rule" where
  "may_release env l sn t body cond \<longleftrightarrow>
     cond = IfMatch (ls_etag l) \<and>
     (\<exists>current. holds env l sn t current \<and>
        lease_body env (current\<lparr>ls_state := ''released'', ls_expires_at := t, ls_etag := []\<rparr>) = Inr body)"

lemma validate_lease_key: "validate_lease l o' = Inr u \<Longrightarrow> ls_key l = lease_key (ls_dataset l)"
  by (auto simp: validate_lease_def Let_def inr_iffs)

lemma validate_lease_state: "validate_lease l o' = Inr u \<Longrightarrow> ls_state l = ''active'' \<or> ls_state l = ''released''"
  by (auto simp: validate_lease_def Let_def inr_iffs)

lemma lease_from_snapshot_fields:
  assumes "lease_from_snapshot env s dataset b k = Inr l"
  shows "ls_dataset l = dataset" "ls_bucket l = b" "ls_key l = k" "ls_etag l = cs_etag s"
    "validate_lease l (Some (cs_server_date s)) = Inr ()"
  using assms by (auto simp: lease_from_snapshot_def decode_lease_def Let_def inr_iffs catchE_Inr)

lemma free_condition_may:
  assumes "free_condition env dataset b k sn t = Inr (im, inm)"
  shows "case sn of
        None \<Rightarrow> put_condition_of im inm = IfNoneMatch
      | Some s \<Rightarrow> put_condition_of im inm = IfMatch (cs_etag s) \<and>
          (\<exists>current. lease_from_snapshot env s dataset b k = Inr current \<and>
             (ls_state current = ''released'' \<or> instant (ls_expires_at current) \<le> instant t))"
proof (cases sn)
  case None
  then show ?thesis using assms by (simp add: free_condition_def put_condition_of_def)
next
  case (Some s)
  then obtain current where c: "lease_from_snapshot env s dataset b k = Inr current"
    "\<not> (ls_state current = ''active'' \<and> instant t < instant (ls_expires_at current))" "im = Some (cs_etag s)"
    using assms by (auto simp: free_condition_def inr_iffs)
  moreover have "ls_state current = ''active'' \<or> ls_state current = ''released''"
    by (rule validate_lease_state [OF lease_from_snapshot_fields(5) [OF c(1)]])
  ultimately show ?thesis using Some by (auto simp: put_condition_of_def)
qed

lemma new_lease_fresh:
  assumes "new_lease dataset pid nonce t b k secs = Inr p"
  shows "fresh_lease p dataset pid nonce t" "ls_bucket p = b" "ls_key p = k" "ls_dataset p = dataset" "k = lease_key dataset"
    "validate_lease p None = Inr ()"
proof -
  obtain n e where "1 \<le> n" "n \<le> max_lease_seconds" "plus_seconds t n = Inr e"
    and p: "p = \<lparr>ls_dataset = dataset, ls_publication_id = pid, ls_owner_nonce = nonce,
              ls_state = ''active'', ls_created_at = t, ls_expires_at = e, ls_etag = [], ls_bucket = b, ls_key = k\<rparr>"
    and v: "validate_lease p None = Inr ()"
    using assms by (auto simp: new_lease_def Let_def validate_lease_duration_def inr_iffs)
  then show "fresh_lease p dataset pid nonce t" "ls_bucket p = b" "ls_key p = k" "ls_dataset p = dataset"
    "validate_lease p None = Inr ()"
    by (auto simp: fresh_lease_def plus_seconds_def instant_def split: if_splits)
  show "k = lease_key dataset" using validate_lease_key [OF v] p by simp
qed

lemma held_lease_holds:
  assumes "held_lease env l sn t = Inr (s, current)"
  shows "holds env l sn t current" "sn = Some s"
  using assms by (auto simp: held_lease_def holds_def inr_iffs split: option.splits)

section \<open>Turns and loops follow the machine\<close>

definition turn_end :: "'w ds_env \<Rightarrow> string \<Rightarrow> string \<Rightarrow> string \<Rightarrow> exn + lease option \<Rightarrow> lease_phase \<Rightarrow> bool" where
  "turn_end env dataset b k r q \<longleftrightarrow>
     (case r of
        Inl _ \<Rightarrow> True
      | Inr None \<Rightarrow> observing q
      | Inr (Some l) \<Rightarrow> (\<exists>s. q = Confirmed s \<and> lease_from_snapshot env s dataset b k = Inr l))"

definition follows :: "'w ds_env \<Rightarrow> string \<Rightarrow> string \<Rightarrow> string \<Rightarrow> write_rule \<Rightarrow> lease_phase \<Rightarrow> exn + lease option \<Rightarrow> ds_event list \<Rightarrow> bool" where
  "follows env dataset b k may p r ext \<longleftrightarrow> (\<exists>q. lease_path env b k may p ext q \<and> turn_end env dataset b k r q)"

lemma follows_stay: "observing p \<Longrightarrow> (\<nexists>l. r = Inr (Some l)) \<Longrightarrow> follows env dataset b k may p r []"
  by (auto simp: follows_def turn_end_def intro!: exI [of _ p] lease_path.stop split: sum.split option.split)

lemma follows_observe:
  assumes "observing p" "answers_observation env a sn t" "follows env dataset b k may (Observed sn t) r ext"
  shows "follows env dataset b k may p r ((DsGet b k, a) # ext)"
  using assms by (auto simp: follows_def intro: lease_path.step [OF lease_step.observe])

lemma follows_unreadable: "observing p \<Longrightarrow> follows env dataset b k may p (Inl x) [(DsGet b k, a)]"
  by (auto simp: follows_def turn_end_def intro!: exI [of _ Failed]
      lease_path.step [OF lease_step.unreadable] lease_path.stop)

lemma write_outcome_follows:
  assumes "write_outcome env b k proposed cond r ext" "ls_dataset proposed = dataset"
    and may: "\<And>body. lease_body env proposed = Inr body \<Longrightarrow> may sn t body cond"
  shows "follows env dataset b k may (Observed sn t) r ext"
  using assms(1) unfolding write_outcome_def
proof (elim disjE exE conjE)
  fix body q
  assume body: "lease_body env proposed = Inr body" and w: "wrote_exactly env b k body cond q ext"
    and none: "r \<noteq> Inr None"
    and res: "\<forall>l. r = Inr (Some l) \<longrightarrow> (\<exists>s. q = Inr s \<and> lease_from_snapshot env s (ls_dataset proposed) b k = Inr l \<and>
            \<not> outside_proposal l proposed (cs_server_date s))"
  note put = lease_step.put [of may, OF may [OF body]]
  from w consider pa x where "ext = [(DsPut b k (BytesBody body) [] cond, pa)]" "q = Inl x"
    | pa ga where "ext = [(DsPut b k (BytesBody body) [] cond, pa), (DsGet b k, ga)]"
        "\<forall>s. q = Inr s \<longrightarrow> answers_snapshot env ga s \<and> cs_body s = body"
    unfolding wrote_exactly_def by blast
  then show ?thesis
  proof cases
    case 1
    then have "\<exists>y. r = Inl y" using res none by (cases r) auto
    then show ?thesis
      using 1 by (auto simp: follows_def turn_end_def intro!: exI [of _ "Wrote body"] lease_path.step [OF put] lease_path.stop)
  next
    case 2
    show ?thesis
    proof (cases q)
      case (Inl y)
      then have "\<exists>y. r = Inl y" using res none by (cases r) auto
      then show ?thesis
        using 2 by (auto simp: follows_def turn_end_def intro!: exI [of _ Failed] lease_path.step [OF put]
            lease_path.step [OF lease_step.unconfirmed] lease_path.stop)
    next
      case (Inr s)
      then have "turn_end env dataset b k r (Confirmed s)"
        using res none assms(2) by (auto simp: turn_end_def split: sum.split option.split)
      then show ?thesis
        using 2 Inr lease_path.step [OF put lease_path.step [OF lease_step.confirm [of env ga s body] lease_path.stop]]
        by (auto simp: follows_def)
    qed
  qed
qed (simp add: follows_stay)

lemma emits_observation:
  assumes "observing p"
    and "\<And>sn t m. emits (f (sn, t, m)) (follows e dataset b k may (Observed sn t))"
  shows "emits (bindA (read_lease_observation (ds_traced e) b k) f) (follows e dataset b k may p)"
proof (rule emits_bindA [OF observation_emits], goal_cases)
  case (1 x ext)
  then show ?case using follows_unreadable [OF assms(1)] by auto
next
  case (2 x e1)
  obtain sn t m where x: "x = (sn, t, m)" by (cases x)
  with 2 obtain a where "e1 = [(DsGet b k, a)]" "answers_observation e a sn t" by auto
  then show ?case
    unfolding x by (auto intro!: emits_mono [OF assms(2)] follows_observe [OF assms(1)])
qed

lemma acquire_turn_follows:
  assumes "observing p"
  shows "emits (acquire_turn (ds_traced e) dataset pid nonce b secs)
    (follows e dataset b (lease_key dataset) (may_acquire e dataset pid nonce b) p)"
  unfolding acquire_turn_def Let_def
proof (rule emits_observation [OF assms], unfold prod.case traced_pure_functions,
    rule emits_bind_liftA, goal_cases)
  case (2 sn t m c)
  obtain im inm where c: "c = (im, inm)" by (cases c)
  note cond = free_condition_may [OF 2 [unfolded c]]
  show ?case
    unfolding c prod.case
  proof (intro emits_bind_liftA window_emits emits_if, goal_cases)
    case (4 q late)
    note q = new_lease_fresh [OF 4(1)]
    show ?case
      using write_lease_emits [of e q m im inm] unfolding q(2,3)
      by (rule emits_mono) (erule write_outcome_follows, simp add: q(4), use cond q(1) in \<open>auto simp: may_acquire_def\<close>)
  qed (auto intro!: follows_stay emit_rules)
qed (auto intro!: follows_stay)

lemma release_turn_follows:
  assumes "observing p"
  shows "emits (release_turn (ds_traced e) l)
    (follows e (ls_dataset l) (ls_bucket l) (ls_key l) (may_release e l) p)"
  unfolding release_turn_def Let_def
proof (rule emits_observation [OF assms], unfold prod.case traced_pure_functions,
    rule emits_bind_liftA, goal_cases)
  case (2 sn t m c)
  obtain s current where c: "c = (s, current)" by (cases c)
  note h = held_lease_holds [OF 2 [unfolded c]]
  have f: "ls_dataset current = ls_dataset l" "ls_bucket current = ls_bucket l" "ls_key current = ls_key l"
    using h(1) lease_from_snapshot_fields unfolding holds_def by blast+
  show ?case
    unfolding c prod.case
  proof (intro window_emits emits_if, goal_cases)
    case (3 late)
    let ?q = "current\<lparr>ls_state := ''released'', ls_expires_at := t, ls_etag := []\<rparr>"
    have "emits (write_lease (ds_traced e) ?q m (Some (ls_etag l)) False)
        (write_outcome e (ls_bucket l) (ls_key l) ?q (IfMatch (ls_etag l)))"
      using write_lease_emits [of e ?q m "Some (ls_etag l)" False] by (simp add: f put_condition_of_def)
    then show ?case
      by (rule emits_mono) (erule write_outcome_follows, simp add: f, use h(1) in \<open>auto simp: may_release_def\<close>)
  qed (auto intro!: follows_stay emit_rules)
qed (auto intro!: follows_stay)

lemma renew_turn_follows:
  assumes "observing p"
  shows "emits (renew_turn (ds_traced e) l secs)
    (follows e (ls_dataset l) (ls_bucket l) (ls_key l) (may_renew e l) p)"
  unfolding renew_turn_def
proof (rule emits_observation [OF assms], unfold prod.case traced_pure_functions,
    rule emits_bind_liftA, goal_cases)
  case (2 sn t m c)
  obtain s current where c: "c = (s, current)" by (cases c)
  note h = held_lease_holds [OF 2 [unfolded c]]
  show ?case
    unfolding c prod.case
  proof (intro emits_bind_liftA window_emits emits_if, goal_cases)
    case (6 q body late)
    note q = new_lease_fresh [OF 6(1)]
    have may: "may_renew e l sn t body (IfMatch (ls_etag l))"
      using h(1) q(1) 6(2,3) by (auto simp: may_renew_def not_le)
    have w: "emits (write_lease (ds_traced e) q m (Some (ls_etag l)) False)
        (follows e (ls_dataset l) (ls_bucket l) (ls_key l) (may_renew e l) (Observed sn t))"
      using write_lease_emits [of e q m "Some (ls_etag l)" False] unfolding q(2,3) put_condition_of_def option.case
      by (rule emits_mono) (erule write_outcome_follows, simp add: q(4), use may 6(2) in auto)
    show ?case
      by (rule emits_bindA [OF w]) (auto simp: follows_def turn_end_def intro!: emit_rules split: option.splits)
  qed (auto intro!: follows_stay emit_rules)
qed (auto intro!: follows_stay)

definition loop_end :: "'w ds_env \<Rightarrow> string \<Rightarrow> string \<Rightarrow> string \<Rightarrow> exn + lease \<Rightarrow> lease_phase \<Rightarrow> bool" where
  \<comment> \<open>a lease is returned only from \<open>Confirmed\<close>, and it is the one the re-read object holds\<close>
  "loop_end env dataset b k r q \<longleftrightarrow>
     (\<forall>l. r = Inr l \<longrightarrow> (\<exists>s. q = Confirmed s \<and> lease_from_snapshot env s dataset b k = Inr l))"

lemma retryA_follows:
  assumes turn: "\<And>p. observing p \<Longrightarrow> emits m (follows e dataset b k may p)"
    and run: "retryA m (w, l) = Some (r, (w', l'))" and p: "observing p"
  shows "\<exists>ext q. l' = l @ ext \<and> lease_path e b k may p ext q \<and> loop_end e dataset b k r q"
proof -
  have "(\<forall>p. observing p \<longrightarrow> emits m (follows e dataset b k may p)) \<longrightarrow> (\<forall>w l p. wl = (w, l) \<longrightarrow> observing p \<longrightarrow>
      (\<exists>ext q. snd (snd res) = l @ ext \<and> lease_path e b k may p ext q \<and> loop_end e dataset b k (fst res) q))"
    if "retryA m wl = Some res" for wl res m
  proof (rule retryA.raw_induct [OF _ that], goal_cases)
    case (1 f m wl res)
    show ?case
    proof (intro allI impI)
      fix w l p
      assume turn: "\<forall>p. observing p \<longrightarrow> emits m (follows e dataset b k may p)" and wl: "wl = (w, l)" and p: "observing p"
      obtain r1 w1 l1 where m: "m (w, l) = (r1, (w1, l1))" by (cases "m (w, l)") auto
      obtain ext q where ext: "l1 = l @ ext" "lease_path e b k may p ext q" "turn_end e dataset b k r1 q"
        using turn [rule_format, OF p] m unfolding emits_def follows_def by blast
      show "\<exists>ext q. snd (snd res) = l @ ext \<and> lease_path e b k may p ext q \<and> loop_end e dataset b k (fst res) q"
      proof (cases r1)
        case (Inl x)
        then show ?thesis using 1(2) wl m ext by (auto simp: loop_end_def)
      next
        case (Inr y)
        show ?thesis
        proof (cases y)
          case None
          then have "f m (w1, l1) = Some res" using 1(2) wl m Inr by simp
          moreover have "observing q" using ext(3) Inr None by (simp add: turn_end_def)
          ultimately obtain e2 q2 where "snd (snd res) = l1 @ e2" "lease_path e b k may q e2 q2" "loop_end e dataset b k (fst res) q2"
            using 1(1) turn by blast
          then show ?thesis using ext lease_path_append [OF ext(2)] by fastforce
        next
          case (Some x)
          then show ?thesis using 1(2) wl m ext Inr by (fastforce simp: loop_end_def turn_end_def)
        qed
      qed
    qed
  qed
  from this [OF run] turn p show ?thesis by simp
qed

lemma renew_loop_follows:
  assumes "observing p"
  shows "emits (renew_loop n (ds_traced e) l secs)
    (\<lambda>r ext. \<exists>q. lease_path e (ls_bucket l) (ls_key l) (may_renew e l) p ext q \<and>
       loop_end e (ls_dataset l) (ls_bucket l) (ls_key l) r q)"
  using assms
proof (induction n arbitrary: p)
  case 0
  then show ?case by (auto simp: loop_end_def intro!: emit_rules exI lease_path.stop)
next
  case (Suc n)
  show ?case
    unfolding renew_loop.simps
  proof (rule emits_bindA [OF renew_turn_follows [OF Suc.prems]], goal_cases)
    case (1 x ext)
    then show ?case by (auto simp: follows_def loop_end_def)
  next
    case (2 x e1)
    then obtain q where q: "lease_path e (ls_bucket l) (ls_key l) (may_renew e l) p e1 q"
      "turn_end e (ls_dataset l) (ls_bucket l) (ls_key l) (Inr x) q" by (auto simp: follows_def)
    show ?case
    proof (cases x)
      case None
      then have "observing q" using q(2) by (simp add: turn_end_def)
      from Suc.IH [OF this] show ?thesis
        unfolding None option.case by (rule emits_mono) (use lease_path_append [OF q(1)] in blast)
    next
      case (Some y)
      then show ?thesis using q by (auto simp: turn_end_def loop_end_def intro!: emit_rules)
    qed
  qed
qed

end
