(* ===== verification/LeaseSafety.thy ===== *)
theory LeaseSafety
  imports LeaseProtocol
begin

text \<open>
  The properties of the publication lease.  First the refinement: the calls an acquire, a renewal or
  a release sends, with their answers, are a path of the lease machine, so each writes at most once,
  under the condition of its last observation, and returns only what it read back.  Then the
  composition of any number of clients over one lease object with conditional writes
  (\<open>world_step\<close>): a live lease is never replaced by another owner.  Last, when the loops return.
\<close>

section \<open>Refinement of the lease machine\<close>

lemma acquire_path:
  assumes "acquire_lease (ds_traced env) dataset pid nonce b secs (w, []) = Some (r, (w', evs))"
  shows "\<exists>q. lease_path env b (lease_key dataset) (may_acquire env dataset pid nonce b) Start evs q \<and>
    loop_end env dataset b (lease_key dataset) r q"
proof (cases "bindE (validate_lease_identity pid nonce) (\<lambda>_. validate_lease_duration secs)")
  case (Inl x)
  then have "evs = []" "r = Inl x" using assms by (auto simp: acquire_lease_def)
  then show ?thesis by (auto simp: loop_end_def intro!: exI [of _ Start] lease_path.stop)
next
  case (Inr n)
  then have "retryA (acquire_turn (ds_traced env) dataset pid nonce b secs) (w, []) = Some (r, (w', evs))"
    using assms by (simp add: acquire_lease_def)
  from retryA_follows [OF acquire_turn_follows this, of Start] show ?thesis by auto
qed

lemma release_path:
  assumes "release_lease (ds_traced env) l (w, []) = Some (r, (w', evs))"
  shows "\<exists>q. lease_path env (ls_bucket l) (ls_key l) (may_release env l) Start evs q \<and>
    loop_end env (ls_dataset l) (ls_bucket l) (ls_key l) r q"
proof (cases "validate_lease l None")
  case (Inl x)
  then have "evs = []" "r = Inl x" using assms by (auto simp: release_lease_def)
  then show ?thesis by (auto simp: loop_end_def intro!: exI [of _ Start] lease_path.stop)
next
  case (Inr n)
  then have "retryA (release_turn (ds_traced env) l) (w, []) = Some (r, (w', evs))"
    using assms by (simp add: release_lease_def)
  from retryA_follows [OF release_turn_follows this, of Start] show ?thesis by auto
qed

lemma renew_path:
  assumes "renew_lease (ds_traced env) l secs (w, []) = (r, (w', evs))"
  shows "\<exists>q. lease_path env (ls_bucket l) (ls_key l) (may_renew env l) Start evs q \<and>
    loop_end env (ls_dataset l) (ls_bucket l) (ls_key l) r q"
proof -
  have "emits (renew_lease (ds_traced env) l secs)
      (\<lambda>r ext. \<exists>q. lease_path env (ls_bucket l) (ls_key l) (may_renew env l) Start ext q \<and>
        loop_end env (ls_dataset l) (ls_bucket l) (ls_key l) r q)"
    unfolding renew_lease_def
    by (intro emits_bind_liftA renew_loop_follows)
       (auto simp: loop_end_def intro!: exI [of _ Start] lease_path.stop)
  from emitsD [OF this assms] show ?thesis .
qed

lemma path_single_write: "lease_path env b k may Start evs q \<Longrightarrow> length (filter is_put evs) \<le> 1"
  using lease_path_writes [of env b k may Start evs q] by simp

section \<open>Many clients over one lease object\<close>

datatype lease_op = AcquireOp pyval pyval | RenewOp lease | ReleaseOp lease

fun op_rule :: "'w ds_env \<Rightarrow> string \<Rightarrow> string \<Rightarrow> lease_op \<Rightarrow> write_rule" where
  "op_rule env dataset b (AcquireOp pid nonce) = may_acquire env dataset pid nonce b"
| "op_rule env dataset b (RenewOp l) = may_renew env l"
| "op_rule env dataset b (ReleaseOp l) = may_release env l"

fun op_on :: "string \<Rightarrow> string \<Rightarrow> lease_op \<Rightarrow> bool" where
  \<comment> \<open>the operation is about the lease object of this dataset\<close>
  "op_on dataset b (AcquireOp _ _) = True"
| "op_on dataset b (RenewOp l) = (ls_dataset l = dataset \<and> ls_bucket l = b \<and> ls_key l = lease_key dataset)"
| "op_on dataset b (ReleaseOp l) = (ls_dataset l = dataset \<and> ls_bucket l = b \<and> ls_key l = lease_key dataset)"

fun op_owns :: "lease_op \<Rightarrow> lease \<Rightarrow> bool" where
  "op_owns (AcquireOp pid nonce) current = (py_eq (ls_publication_id current) pid \<and> py_eq (ls_owner_nonce current) nonce)"
| "op_owns (RenewOp l) current = same_lease_owner current l"
| "op_owns (ReleaseOp l) current = same_lease_owner current l"

record lease_world =
  lw_store :: "(string \<times> string) option" \<comment> \<open>entity tag and body of the lease object\<close>
  lw_tags :: "string \<rightharpoonup> string" \<comment> \<open>every tag given out so far, with the body it stands for\<close>
  lw_now :: pydatetime \<comment> \<open>the server's clock\<close>
  lw_seen :: "nat \<Rightarrow> (control_snapshot option \<times> pydatetime) option" \<comment> \<open>each client's last observation\<close>

definition snapshot_of :: "lease_world \<Rightarrow> control_snapshot option" where
  "snapshot_of \<sigma> = map_option (\<lambda>(tag, body). \<lparr>cs_body = body, cs_etag = tag, cs_server_date = lw_now \<sigma>\<rparr>) (lw_store \<sigma>)"

fun condition_met :: "put_condition \<Rightarrow> (string \<times> string) option \<Rightarrow> bool" where
  "condition_met NoCondition st = True"
| "condition_met IfNoneMatch st = (st = None)"
| "condition_met (IfMatch tag) st = (\<exists>body. st = Some (tag, body))"

inductive world_step :: "'w ds_env \<Rightarrow> string \<Rightarrow> string \<Rightarrow> lease_world \<Rightarrow> nat \<Rightarrow> lease_op \<Rightarrow> lease_world \<Rightarrow> bool"
  for env dataset b
where
  tick: "instant (lw_now \<sigma>) \<le> instant t \<Longrightarrow> world_step env dataset b \<sigma> c op (\<sigma>\<lparr>lw_now := t\<rparr>)"
| look: "world_step env dataset b \<sigma> c op (\<sigma>\<lparr>lw_seen := (lw_seen \<sigma>)(c \<mapsto> (snapshot_of \<sigma>, lw_now \<sigma>))\<rparr>)"
| store: "lw_seen \<sigma> c = Some (sn, t) \<Longrightarrow> op_on dataset b op \<Longrightarrow> op_rule env dataset b op sn t body cond \<Longrightarrow>
    condition_met cond (lw_store \<sigma>) \<Longrightarrow> lw_tags \<sigma> tag = None \<Longrightarrow>
    world_step env dataset b \<sigma> c op
      (\<sigma>\<lparr>lw_store := Some (tag, body), lw_tags := (lw_tags \<sigma>)(tag \<mapsto> body)\<rparr>)"

inductive world_reachable :: "'w ds_env \<Rightarrow> string \<Rightarrow> string \<Rightarrow> lease_world \<Rightarrow> bool"
  for env dataset b
where
  init: "world_reachable env dataset b \<lparr>lw_store = None, lw_tags = Map.empty, lw_now = t, lw_seen = Map.empty\<rparr>"
| step: "world_reachable env dataset b \<sigma> \<Longrightarrow> world_step env dataset b \<sigma> c op \<sigma>' \<Longrightarrow> world_reachable env dataset b \<sigma>'"

definition world_ok :: "lease_world \<Rightarrow> bool" where
  \<comment> \<open>tags stand for their bodies, in the store and in every observation, and no observation is from the future\<close>
  "world_ok \<sigma> \<longleftrightarrow>
     (\<forall>tag body. lw_store \<sigma> = Some (tag, body) \<longrightarrow> lw_tags \<sigma> tag = Some body) \<and>
     (\<forall>c sn t. lw_seen \<sigma> c = Some (sn, t) \<longrightarrow> instant t \<le> instant (lw_now \<sigma>) \<and>
        (\<forall>s. sn = Some s \<longrightarrow> lw_tags \<sigma> (cs_etag s) = Some (cs_body s)))"

lemma world_step_ok: "world_step env dataset b \<sigma> c op \<sigma>' \<Longrightarrow> world_ok \<sigma> \<Longrightarrow> world_ok \<sigma>'"
proof (induction rule: world_step.induct)
  case (tick \<sigma> t c op)
  then show ?case by (fastforce simp: world_ok_def)
next
  case (look \<sigma> c op)
  then show ?case by (auto simp: world_ok_def snapshot_of_def)
next
  case (store \<sigma> c sn t op body cond tag)
  have "lw_tags \<sigma> x = Some y \<Longrightarrow> x \<noteq> tag" for x y using store.hyps(5) by auto
  with store show ?case unfolding world_ok_def by fastforce
qed

lemma world_reachable_ok: "world_reachable env dataset b \<sigma> \<Longrightarrow> world_ok \<sigma>"
proof (induction rule: world_reachable.induct)
  case (init t)
  show ?case by (simp add: world_ok_def)
qed (rule world_step_ok)

lemma world_seen_date:
  "world_reachable env dataset b \<sigma> \<Longrightarrow> lw_seen \<sigma> c = Some (Some s, t) \<Longrightarrow> instant (cs_server_date s) \<le> instant (lw_now \<sigma>)"
proof (induction arbitrary: c s t rule: world_reachable.induct)
  case (step \<sigma> c' op \<sigma>')
  from step.hyps(2) show ?case
  proof cases
    case (tick t')
    then show ?thesis using step.IH [of c s t] step.prems by simp
  next
    case look
    then show ?thesis using step.IH [of c s t] step.prems by (auto simp: snapshot_of_def split: if_splits)
  next
    case (store sn t' body cond tag)
    then show ?thesis using step.IH [of c s t] step.prems by simp
  qed
qed simp

lemma op_rule_respects:
  assumes "op_rule env dataset b op (Some s) t body cond" "op_on dataset b op"
  shows "(\<exists>x. cond = IfMatch x \<and> x = cs_etag s) \<and>
    (\<exists>current. lease_from_snapshot env s dataset b (lease_key dataset) = Inr current \<and>
      (ls_state current = ''released'' \<or> instant (ls_expires_at current) \<le> instant t \<or> op_owns op current))"
  using assms by (cases op) (auto simp: may_acquire_def may_renew_def may_release_def holds_def)

lemma op_rule_missing:
  "op_rule env dataset b op None t body cond \<Longrightarrow> cond = IfNoneMatch"
  by (cases op) (auto simp: may_acquire_def may_renew_def may_release_def holds_def)

lemma world_replace:
  assumes "world_reachable env dataset b \<sigma>" "world_step env dataset b \<sigma> c op \<sigma>'"
    and "lw_store \<sigma> = Some (tag, body)" "lw_store \<sigma>' \<noteq> lw_store \<sigma>"
  shows "\<exists>date current. instant date \<le> instant (lw_now \<sigma>) \<and>
    lease_from_snapshot env \<lparr>cs_body = body, cs_etag = tag, cs_server_date = date\<rparr> dataset b (lease_key dataset) = Inr current \<and>
    (ls_state current = ''released'' \<or> instant (ls_expires_at current) \<le> instant (lw_now \<sigma>) \<or> op_owns op current)"
  using assms(2)
proof cases
  case (store sn t body' cond tag')
  note ok = world_reachable_ok [OF assms(1), unfolded world_ok_def]
  obtain s where s: "sn = Some s"
    using store op_rule_missing [of env dataset b op t body' cond] assms(3) by (cases sn) auto
  obtain current where r: "cond = IfMatch (cs_etag s)" "lease_from_snapshot env s dataset b (lease_key dataset) = Inr current"
    "ls_state current = ''released'' \<or> instant (ls_expires_at current) \<le> instant t \<or> op_owns op current"
    using op_rule_respects [of env dataset b op s t body' cond] store s by blast
  have tag: "tag = cs_etag s" using store r(1) assms(3) by auto
  have t: "instant t \<le> instant (lw_now \<sigma>)" and sb: "lw_tags \<sigma> (cs_etag s) = Some (cs_body s)" using ok store s by blast+
  have "lw_tags \<sigma> tag = Some body" using ok assms(3) by blast
  then have "s = \<lparr>cs_body = body, cs_etag = tag, cs_server_date = cs_server_date s\<rparr>" using sb tag by simp
  moreover have "instant (cs_server_date s) \<le> instant (lw_now \<sigma>)" 
    using world_seen_date [OF assms(1)] store s by blast
  ultimately show ?thesis using r(2,3) t by (intro exI [of _ "cs_server_date s"] exI [of _ current]) auto
qed (use assms(4) in simp_all)

section \<open>Loops that return\<close>

lemma retryA_returns: "(\<And>w'. m w \<noteq> (Inr None, w')) \<Longrightarrow> \<exists>res. retryA m w = Some res"
  by (subst retryA.simps) (auto split: prod.split sum.split option.split)

definition clock_within :: "'w ds_env \<Rightarrow> rat \<Rightarrow> bool" where
  \<comment> \<open>every reading of the monotonic clock lies in one proposal window\<close>
  "clock_within env t0 \<longleftrightarrow> (\<forall>w t w'. ds_monotonic env w = (Inr t, w') \<longrightarrow> t0 \<le> t \<and> t \<le> t0 + proposal_window_seconds)"

lemma observation_clock:
  assumes "clock_within env t0" "read_lease_observation env b k w = (Inr (sn, t, m), w')"
  shows "t0 \<le> m"
proof -
  have clock: "t0 \<le> x" if "ds_monotonic env v = (Inr x, v')" for v v' x
    using assms(1) that unfolding clock_within_def by blast
  from assms(2) [unfolded read_lease_observation_def tryA_Inr] show ?thesis
  proof (elim disjE exE conjE)
    fix e w1
    assume "(case e of
            ClientError r \<Rightarrow>
              bindA (ds_monotonic env) (\<lambda>observed_at.
                if is_not_found r then
                  bindA (mapexnA (response_server_date env r)
                           (\<lambda>x. if is_ambiguous x then x
                                else if is_type_or_value x \<or> x = OtherExn ''KeyError'' then ambiguous_read x else x))
                    (\<lambda>server_date. retA (None, server_date, observed_at))
                else raiseA (ambiguous_read e))
            | BotoCoreError \<Rightarrow> raiseA (ambiguous_read e)
            | _ \<Rightarrow> raiseA e) w1 = (Inr (sn, t, m), w')"
    then show ?thesis by (cases e) (auto simp: inr_iffs dest: clock)
  qed (auto simp: inr_iffs dest: clock)
qed

lemma window_open:
  assumes "clock_within env t0" "t0 \<le> m" "window_passed env m w = (Inr late, w')"
  shows "\<not> late"
  using assms unfolding window_passed_def clock_within_def by (fastforce simp: inr_iffs)

lemma write_not_late:
  assumes "clock_within env t0" "t0 \<le> m"
  shows "write_lease env p m im inm w \<noteq> (Inr None, w')"
proof
  assume "write_lease env p m im inm w = (Inr None, w')"
  then show False
    unfolding write_lease_def bindA_Inr liftA_Inr
    by (auto simp: inr_iffs dest: window_open [OF assms] split: if_splits option.splits)
qed

lemma loop_returns:
  assumes "clock_within env t0"
  shows "\<exists>res. acquire_lease env dataset pid nonce b secs w = Some res" "\<exists>res. release_lease env l w = Some res"
proof -
  note open' = window_open [OF assms observation_clock [OF assms]] and late_write = write_not_late [OF assms observation_clock [OF assms]]
  have "acquire_turn env dataset pid nonce b secs w \<noteq> (Inr None, w')" for w'
  proof
    assume "acquire_turn env dataset pid nonce b secs w = (Inr None, w')"
    then obtain sn t m w1 late w2 p im inm where run:
      "read_lease_observation env b (lease_key dataset) w = (Inr (sn, t, m), w1)" "window_passed env m w1 = (Inr late, w2)"
      "(if late then retA None else write_lease env p m im inm) w2 = (Inr None, w')"
      unfolding acquire_turn_def Let_def bindA_Inr liftA_Inr by (auto simp: inr_iffs simp del: if_act_Inr)
    from open' [OF run(1,2)] run(3) late_write [OF run(1)] show False by simp
  qed
  from retryA_returns [of "acquire_turn env dataset pid nonce b secs" w, OF this] show "\<exists>res. acquire_lease env dataset pid nonce b secs w = Some res"
    unfolding acquire_lease_def by (auto split: sum.split)
  have "release_turn env l w \<noteq> (Inr None, w')" for w'
  proof
    assume "release_turn env l w = (Inr None, w')"
    then obtain sn t m w1 late w2 p im inm where run:
      "read_lease_observation env (ls_bucket l) (ls_key l) w = (Inr (sn, t, m), w1)" "window_passed env m w1 = (Inr late, w2)"
      "(if late then retA None else write_lease env p m im inm) w2 = (Inr None, w')"
      unfolding release_turn_def Let_def bindA_Inr liftA_Inr by (auto simp: inr_iffs simp del: if_act_Inr)
    from open' [OF run(1,2)] run(3) late_write [OF run(1)] show False by simp
  qed
  from retryA_returns [of "release_turn env l" w, OF this] show "\<exists>res. release_lease env l w = Some res"
    unfolding release_lease_def by (auto split: sum.split)
qed

end
