(* ===== verification/LeaseCodec.thy ===== *)
theory LeaseCodec
  imports StoreTrace
begin

text \<open>
  The text form of a publication lease: what \<open>lease_body\<close> writes, \<open>lease_from_snapshot\<close> reads
  back as the same lease under the tag and date of the read, and whatever it accepts is the canonical
  text of the lease it returns.  The date parser is a parameter; \<open>iso_parser\<close> is its documented
  law, that \<^verbatim>\<open>fromisoformat\<close> inverts \<^verbatim>\<open>isoformat\<close> of a whole second in UTC.
\<close>

definition utc_at :: "int \<Rightarrow> pydatetime" where
  "utc_at t = \<lparr>dt_secs = t, dt_micro = 0, dt_offset = Some 0\<rparr>"

definition iso_parser :: "'w ds_env \<Rightarrow> bool" where
  "iso_parser env \<longleftrightarrow> (\<forall>t. in_range t \<longrightarrow> ds_fromisoformat env (replace_Z (format_utc t)) = Inr (utc_at t))"

definition strict_fromisoformat :: "string \<Rightarrow> pydatetime res" where
  \<comment> \<open>a parser with that law: only \<^verbatim>\<open>YYYY-MM-DDTHH:MM:SS+00:00\<close>\<close>
  "strict_fromisoformat s =
     (if endswith s ''+00:00'' then
        (case parse_utc_string (take (length s - 6) s @ ''Z'') of None \<Rightarrow> Inl value_error | Some t \<Rightarrow> Inr (utc_at t))
      else Inl value_error)"

lemma utc_classes_shape:
  assumes "match_classes utc_classes s"
  obtains p where "s = p @ ''Z''" "CHR ''Z'' \<notin> set p" "list_all low_char p" "length p = 19"
proof -
  define q where "q = take 19 s"
  have len: "length s = 20" using match_classes_length [OF assms] by (simp add: utc_classes_def)
  have q: "match_classes (take 19 utc_classes) q" "match_classes (drop 19 utc_classes) (drop 19 s)"
    using assms by (simp_all add: match_classes_def q_def list_all2_takeI list_all2_dropI)
  have "list_all2 (\<lambda>P c. P c) (take 19 utc_classes) q" using q(1) by (simp add: match_classes_def)
  moreover have "list_all (\<lambda>P. \<forall>c. P c \<longrightarrow> low_char c \<and> c \<noteq> CHR ''Z'') (take 19 utc_classes)"
    by (auto simp: utc_classes_def is_char_def low_char_def digit_char_of_char list_all_iff)
  moreover have "length utc_classes = 20" by (simp add: utc_classes_def)
  ultimately have all: "list_all (\<lambda>c. low_char c \<and> c \<noteq> CHR ''Z'') q"
    by (auto simp: list_all2_conv_all_nth list_all_length)
  have "drop 19 s = ''Z''"
    using q(2) len by (cases "drop 19 s") (auto simp: utc_classes_def is_char_def)
  then have "s = q @ ''Z''" using append_take_drop_id [of 19 s] by (simp add: q_def)
  then show thesis
  proof (rule that)
    show "CHR ''Z'' \<notin> set q" "list_all low_char q" using all by (auto simp: list_all_iff)
    show "length q = 19" using len by (simp add: q_def)
  qed
qed

lemma format_utc_shape:
  assumes "in_range t"
  obtains p where "format_utc t = p @ ''Z''" "CHR ''Z'' \<notin> set p" "list_all low_char p" "length p = 19"
proof -
  have "parse_utc_string (format_utc t) = Some t" using assms by (intro parse_format_utc) (auto simp: in_range_def)
  then have "match_classes utc_classes (format_utc t)" by (simp add: parse_utc_string_def split: if_splits)
  then show thesis by (rule utc_classes_shape) (rule that)
qed

lemma replace_Z_none: "CHR ''Z'' \<notin> set s \<Longrightarrow> replace_Z (s @ t) = s @ replace_Z t"
  by (induction s) auto

lemma format_utc_low: "in_range t \<Longrightarrow> list_all low_char (format_utc t)"
  by (erule format_utc_shape) (simp add: low_char_def)

lemma strict_parser: "ds_fromisoformat env = strict_fromisoformat \<Longrightarrow> iso_parser env"
  unfolding iso_parser_def
proof (intro allI impI)
  fix t assume e: "ds_fromisoformat env = strict_fromisoformat" and t: "in_range t"
  obtain p where p: "format_utc t = p @ ''Z''" "CHR ''Z'' \<notin> set p" "length p = 19" by (rule format_utc_shape [OF t])
  have "parse_utc_string (p @ ''Z'') = Some t"
    using parse_format_utc [of t] t p(1) by (simp add: in_range_def)
  then show "ds_fromisoformat env (replace_Z (format_utc t)) = Inr (utc_at t)"
    using p by (simp add: e strict_fromisoformat_def replace_Z_none endswith_def)
qed

definition whole_seconds :: "lease \<Rightarrow> bool" where
  \<comment> \<open>the instants of a lease as \<^verbatim>\<open>Date\<close> headers give them\<close>
  "whole_seconds l \<longleftrightarrow>
     ls_created_at l = utc_at (dt_secs (ls_created_at l)) \<and> ls_expires_at l = utc_at (dt_secs (ls_expires_at l)) \<and>
     in_range (dt_secs (ls_created_at l)) \<and> in_range (dt_secs (ls_expires_at l))"

lemma validate_identity_strings:
  assumes "validate_lease_identity p n = Inr u"
  obtains ps ns where "p = PStr ps" "n = PStr ns" "list_all low_char ps" "list_all low_char ns"
proof -
  obtain ps ns where e: "p = PStr ps" "n = PStr ns" "uuid4_hex_re ps" "match_classes (hex_classes 32) ns"
    using assms by (auto simp: validate_lease_identity_def is_str_iff split: if_splits)
  have "list_all hex_char ns" using e(4) by (simp add: match_hex_classes)
  moreover have "list_all hex_char ps"
  proof -
    have "hex_classes 32 = hex_classes 12 @ [hex_char] @ hex_classes 3 @ [hex_char] @ hex_classes 15"
      by (simp add: hex_classes_def numeral_eq_Suc)
    moreover have "match_classes (hex_classes 12 @ [hex_char] @ hex_classes 3 @ [hex_char] @ hex_classes 15) ps"
      using e(3) unfolding uuid4_hex_re_def
      by (rule match_classes_mono)
         (intro list_all2_appendI; simp add: list_all2_refl is_char_def hex_char_def digit_char_def less_eq_char_def)
    ultimately have "match_classes (hex_classes 32) ps" by simp
    then show ?thesis by (simp add: match_hex_classes)
  qed
  ultimately show thesis using that e hex_low by blast
qed

lemma lease_text_ok:
  assumes "validate_lease l t = Inr ()" "whole_seconds l" "list_all low_char (ls_dataset l)"
  shows "json_ok (lease_document l)" "low_text (lease_document l)"
proof -
  obtain ps ns where "ls_publication_id l = PStr ps" "ls_owner_nonce l = PStr ns" "list_all low_char ps" "list_all low_char ns"
    using assms(1) by (auto simp: validate_lease_def inr_iffs elim: validate_identity_strings)
  moreover have "list_all low_char (ls_state l)"
    using assms(1) by (auto simp: validate_lease_def Let_def inr_iffs low_char_def)
  ultimately show "json_ok (lease_document l)" "low_text (lease_document l)"
    using assms(2,3) by (simp_all add: lease_document_def format_instant_def whole_seconds_def format_utc_low)
       (simp_all add: low_char_def)
qed

lemma lease_document_sorted:
  "sort_keys (lease_document l) = lease_document l" if "is_str (ls_publication_id l)" "is_str (ls_owner_nonce l)"
  using that by (auto simp: lease_document_def is_str_iff less_eq_char_def)

lemma parse_format_instant:
  "iso_parser env \<Longrightarrow> d = utc_at t \<Longrightarrow> in_range t \<Longrightarrow> parse_instant env (PStr (format_instant d)) = Inr d"
  by (simp add: parse_instant_def format_instant_def iso_parser_def utc_at_def)

lemma validate_lease_etag [simp]: "validate_lease (l\<lparr>ls_etag := tag\<rparr>) o' = validate_lease l o'"
proof -
  let ?l = "l\<lparr>ls_etag := tag\<rparr>"
  have "ls_dataset ?l = ls_dataset l" "ls_publication_id ?l = ls_publication_id l" "ls_owner_nonce ?l = ls_owner_nonce l"
    "ls_state ?l = ls_state l" "ls_created_at ?l = ls_created_at l" "ls_expires_at ?l = ls_expires_at l" "ls_key ?l = ls_key l"
    by simp_all
  then show ?thesis unfolding validate_lease_def by (simp only:)
qed

lemma lease_reads_back:
  assumes iso: "iso_parser env" and body: "lease_body env l = Inr body" and whole: "whole_seconds l"
    and low: "list_all low_char (ls_dataset l)" and seen: "validate_lease l (Some t) = Inr ()"
  shows "lease_from_snapshot env \<lparr>cs_body = body, cs_etag = tag, cs_server_date = t\<rparr>
           (ls_dataset l) (ls_bucket l) (ls_key l) = Inr (l\<lparr>ls_etag := tag\<rparr>)"
proof -
  obtain d where d: "lease_document l = PDict d" "d = sdict
     [(''created_at'', PStr (format_instant (ls_created_at l))), (''dataset'', PStr (ls_dataset l)),
      (''expires_at'', PStr (format_instant (ls_expires_at l))), (''owner_nonce'', ls_owner_nonce l),
      (''publication_id'', ls_publication_id l), (''state'', PStr (ls_state l))]"
    by (simp add: lease_document_def)
  note ok = lease_text_ok [OF seen whole low]
  have str: "is_str (ls_publication_id l)" "is_str (ls_owner_nonce l)"
    using seen by (auto simp: validate_lease_def validate_lease_identity_def inr_iffs)
  have b: "body = canonical_json (ds_float_repr env) (PDict d)" using body d(1) by (auto simp: lease_body_def inr_iffs)
  have r: "loads_bytes (Inr (PFloat None)) body = Inr (PDict d)"
    unfolding b using loads_canonical [of d] ok lease_document_sorted [OF str] d(1) by simp
  have p: "parse_instant env (PStr (format_instant (ls_created_at l))) = Inr (ls_created_at l)"
    "parse_instant env (PStr (format_instant (ls_expires_at l))) = Inr (ls_expires_at l)"
    using whole by (auto simp: whole_seconds_def intro!: parse_format_instant iso)
  have st: "ls_state l = ''active'' \<or> ls_state l = ''released''"
    using seen by (auto simp: validate_lease_def Let_def inr_iffs)
  have g: "keys_exactly d [''created_at'', ''dataset'', ''expires_at'', ''owner_nonce'', ''publication_id'', ''state'']"
    "dget_none d ''dataset'' = PStr (ls_dataset l)" "dget_none d ''state'' = PStr (ls_state l)"
    "dget_none d ''created_at'' = PStr (format_instant (ls_created_at l))"
    "dget_none d ''expires_at'' = PStr (format_instant (ls_expires_at l))"
    "dget_none d ''publication_id'' = ls_publication_id l" "dget_none d ''owner_nonce'' = ls_owner_nonce l"
    by (simp_all add: d(2) keys_exactly_def dget_none_def)
  have l: "\<lparr>ls_dataset = ls_dataset l, ls_publication_id = ls_publication_id l, ls_owner_nonce = ls_owner_nonce l,
      ls_state = ls_state l, ls_created_at = ls_created_at l, ls_expires_at = ls_expires_at l, ls_etag = tag,
      ls_bucket = ls_bucket l, ls_key = ls_key l\<rparr> = l\<lparr>ls_etag := tag\<rparr>"
    by simp
  show ?thesis
    unfolding lease_from_snapshot_def decode_lease_def control_snapshot.simps r bindE_simps pyval.case g l p Let_def
    using st seen b g(1) by (auto simp: catchE_def)
qed

end
