(* ===== verification/StoreFacts.thy ===== *)
theory StoreFacts
  imports StoreTrace
begin

text \<open>
  What the reads and writes of the dataset object store establish.  The bounded reader returns the
  whole content of a body exactly when it fits the bound, and consumes at most one byte more.  A
  write of an immutable or a control object is acknowledged only after a read that returned the
  expected bytes.
\<close>

section \<open>The bounded reader\<close>

lemma read_bounded_step:
  assumes "c \<noteq> []" "k = min (2 ^ 16) (limit + 1 - sz)" "1 \<le> k" "sz \<le> limit"
  shows "read_bounded_loop (Inr (PBytes c) # s) limit sz acc =
    (if int (length c) \<le> k then read_bounded_loop s limit (sz + int (length c)) (acc @ c)
     else read_bounded_loop (Inr (PBytes (drop (nat k) c)) # s) limit (sz + k) (acc @ take (nat k) c))"
proof -
  have t: "take (nat k) c \<noteq> []" "int (length c) > k \<Longrightarrow> int (length (take (nat k) c)) = k" using assms(1,3) by auto
  show ?thesis
    by (subst read_bounded_loop.simps) (simp only: assms(2) [symmetric], use assms(1,3,4) t in auto)
qed

lemma read_bounded_stop: "limit < sz \<Longrightarrow> read_bounded_loop s limit sz acc = Inr (sz, acc)"
  by (simp add: read_bounded_loop.simps)

lemma read_bounded_loop_chunked:
  assumes "sz \<le> limit"
  shows "read_bounded_loop (chunked cs) limit sz acc =
    (if sz + int (length (concat cs)) > limit then Inr (limit + 1, acc @ take (nat (limit + 1 - sz)) (concat cs))
     else Inr (sz + int (length (concat cs)), acc @ concat cs))"
  using assms
proof (induction "stream_weight (chunked cs) + length cs" arbitrary: cs sz acc rule: less_induct)
  case less
  show ?case
  proof (cases cs)
    case Nil
    then show ?thesis using less.prems by (simp add: read_bounded_loop.simps)
  next
    case (Cons c r)
    define k where "k = min (2 ^ 16) (limit + 1 - sz)"
    have k: "1 \<le> k" "k \<le> limit + 1 - sz" using less.prems by (auto simp: k_def)
    let ?d = "drop (nat k) c # r"
    consider "c = []" | "c \<noteq> []" "int (length c) \<le> k" "sz + int (length c) > limit"
      | "c \<noteq> []" "int (length c) \<le> k" "sz + int (length c) \<le> limit"
      | "c \<noteq> []" "int (length c) > k" "sz + k > limit" | "c \<noteq> []" "int (length c) > k" "sz + k \<le> limit" by linarith
    then show ?thesis
    proof cases
      case 1
      then show ?thesis using less.hyps [of r sz acc] less.prems Cons by simp
    next
      case 2
      then have "int (length c) = limit + 1 - sz" using k by simp
      then show ?thesis
        using read_bounded_step [OF 2(1) k_def k(1) less.prems, of "chunked r" acc] 2 Cons by (simp add: read_bounded_stop)
    next
      case 3
      have "nat (limit + 1 - sz) = length c + nat (limit + 1 - (sz + int (length c)))" using 3 by simp
      then show ?thesis
        using read_bounded_step [OF 3(1) k_def k(1) less.prems, of "chunked r" acc] 3 Cons
          less.hyps [of r "sz + int (length c)" "acc @ c"] by auto
    next
      case 4
      then have "k = limit + 1 - sz" using k by simp
      then show ?thesis
        using read_bounded_step [OF 4(1) k_def k(1) less.prems, of "chunked r" acc] 4 Cons by (simp add: read_bounded_stop)
    next
      case 5
      have d: "drop (nat k) c \<noteq> []" using 5 k by auto
      have w: "stream_weight (chunked ?d) + length ?d < stream_weight (chunked cs) + length cs" using Cons 5 d k by simp
      have n: "nat (limit + 1 - sz) = nat k + nat (limit + 1 - (sz + k))" using 5 k by simp
      have cat: "take (nat k) c @ concat ?d = concat cs" by (simp add: Cons)
      have tk: "take (nat k) c @ take (nat (limit + 1 - (sz + k))) (concat ?d) = take (nat (limit + 1 - sz)) (concat cs)"
        unfolding n cat [symmetric] using 5 by (simp add: take_add add.commute)
      have len: "sz + k + int (length (concat ?d)) = sz + int (length (concat cs))" using Cons 5 k by simp
      show ?thesis
        using less.hyps [OF w, of "sz + k" "acc @ take (nat k) c"] 5 d Cons
          read_bounded_step [OF 5(1) k_def k(1) less.prems, of "chunked r" acc]
        by (simp only: len append_assoc cat tk) simp
    qed
  qed
qed

lemma read_bounded_chunked:
  assumes "ds_body env v = Some (chunked cs)" "0 \<le> limit"
  shows "read_bounded env v limit =
    (if int (length (concat cs)) > limit then Inl (AmbiguousWrite None) else Inr (concat cs))"
  using assms by (simp add: read_bounded_def read_bounded_loop_chunked)

section \<open>Immutable objects\<close>

definition answers_object :: "'w ds_env \<Rightarrow> exn + pyval \<Rightarrow> expected_object \<Rightarrow> object_snapshot \<Rightarrow> bool" where
  \<comment> \<open>the answer of a \<^verbatim>\<open>GetObject\<close> whose body passed the verification\<close>
  "answers_object env a expected s \<longleftrightarrow>
     (\<exists>d stream. a = Inr (PDict d) \<and> dget d ''Body'' = Some stream \<and> snapshot_etag d = Inr (os_etag s) \<and>
        py_dict (dget_or d ''Metadata'' (PDict [])) = Inr (os_metadata s) \<and>
        verify_body env stream (xo_size_bytes expected) (xo_sha256 expected) = Inr (os_size_bytes s, os_sha256 s))"

definition logging :: "('w \<times> ds_event list) ds_env \<Rightarrow> bool" where
  \<comment> \<open>every call of the environment logs itself once; an answer it passes on is the answer logged\<close>
  "logging E \<longleftrightarrow>
     (\<forall>c. emits (ds_s3 E c) (\<lambda>r ext. \<exists>a. ext = [(c, a)] \<and> (\<forall>v. r = Inr v \<longrightarrow> a = Inr v))) \<and>
     emits (ds_utcnow E) (\<lambda>r ext. ext = [])"

lemma logging_traced: "logging (ds_traced e)"
  unfolding logging_def by (auto intro!: emits_call emit_rules)

lemma logging_get_object:
  assumes "logging E"
  shows "emits (get_object E b k) (\<lambda>r ext. \<exists>a. ext = [(DsGet b k, a)] \<and> (\<forall>d. r = Inr d \<longrightarrow> a = Inr (PDict d)))"
proof -
  have call: "emits (ds_s3 E (DsGet b k)) (\<lambda>r ext. \<exists>a. ext = [(DsGet b k, a)] \<and> (\<forall>v. r = Inr v \<longrightarrow> a = Inr v))"
    using assms unfolding logging_def by blast
  show ?thesis
    unfolding get_object_def
    by (rule emits_bindA [OF emits_mapexnA [OF call, where P = "\<lambda>r ext. \<exists>a. ext = [(DsGet b k, a)] \<and> (\<forall>x. r = Inr x \<longrightarrow> a = Inr x)"]])
       (auto intro!: emits_dict_case emit_rules)
qed

lemma logging_server_date:
  assumes "logging E"
  shows "emits (response_server_date E v) (quiet (\<lambda>r. \<forall>t. r = Inr t \<longrightarrow> header_date E v = Inr t))"
proof -
  have now: "emits (ds_utcnow E) (\<lambda>r ext. ext = [])" using assms unfolding logging_def by blast
  show ?thesis
    unfolding response_server_date_def
    by (rule emits_bind_liftA) (auto simp: quiet_def intro!: emits_bindA [OF now] emit_rules)
qed

lemma logging_verify_object:
  assumes "logging E"
  shows "emits (stream_verify_object E b k x)
     (\<lambda>r ext. \<exists>a. ext = [(DsGet b k, a)] \<and> (\<forall>s. r = Inr s \<longrightarrow> answers_object E a x s))"
  unfolding stream_verify_object_def
proof (rule emits_bindA [OF logging_get_object [OF assms]], goal_cases)
  case (1 y ext)
  then show ?case by auto
next
  case (2 d e1)
  then obtain a where e1: "e1 = [(DsGet b k, a)]" "a = Inr (PDict d)" by auto
  have body: "emits (mapexnA (bindA (response_server_date E (PDict d)) (\<lambda>server_date.
        bindA (liftA (snapshot_etag d)) (\<lambda>etag.
        bindA (liftA (py_dict (dget_or d ''Metadata'' (PDict [])))) (\<lambda>metadata.
        bindA (liftA (verify_body E stream (xo_size_bytes x) (xo_sha256 x))) (\<lambda>(sz, digest).
        retA \<lparr>os_etag = etag, os_metadata = metadata, os_server_date = server_date, os_size_bytes = sz,
              os_sha256 = digest\<rparr>))))) h)
      (quiet (\<lambda>r. \<forall>s. r = Inr s \<longrightarrow> answers_object E (Inr (PDict d)) x s))"
    if "dget d ''Body'' = Some stream" for stream h
    by (rule emits_mapexnA [where Q = "quiet (\<lambda>r. \<forall>s. r = Inr s \<longrightarrow> answers_object E (Inr (PDict d)) x s)"],
        rule emits_bindA [OF logging_server_date [OF assms]])
       (use that in \<open>auto simp: quiet_def answers_object_def intro!: emit_rules split: prod.split\<close>)
  show ?case
    unfolding e1 by (intro emits_option emits_raiseA emits_owned_body [OF body]) (auto simp: quiet_def)
qed

lemma verify_object_emits:
  "emits (stream_verify_object (ds_traced e) b k x)
     (\<lambda>r ext. \<exists>a. ext = [(DsGet b k, a)] \<and> (\<forall>s. r = Inr s \<longrightarrow> answers_object e a x s))"
  using logging_verify_object [OF logging_traced, of e b k x] by (simp add: answers_object_def)

lemma immutable_snapshot_emits:
  "emits (verified_immutable_snapshot (ds_traced e) b k x m)
     (\<lambda>r ext. \<exists>a. ext = [(DsGet b k, a)] \<and>
        (\<forall>s. r = Inr s \<longrightarrow> answers_object e a x s \<and> py_eq (PDict (os_metadata s)) (PDict m)))"
  unfolding verified_immutable_snapshot_def
  by (rule emits_bindA [OF verify_object_emits]) (auto intro!: emit_rules)

lemma verify_body_exact: "verify_body env v n h = Inr (sz, d) \<Longrightarrow> sz = n \<and> d = h"
  using verify_stream_exact [of _ n h "(sz, d)"] by (auto simp: verify_body_def split: option.splits)

lemma put_immutable_emits:
  "emits (put_immutable_object (ds_traced e) b k path x m)
     (\<lambda>r ext. \<forall>s. r = Inr s \<longrightarrow> (\<exists>pa ga.
        ext = [(DsPut b k (FileBody path) m IfNoneMatch, pa), (DsGet b k, ga)] \<and>
        answers_object e ga x s \<and> py_eq (PDict (os_metadata s)) (PDict m)))"
proof -
  let ?put = "DsPut b k (FileBody path) m IfNoneMatch"
  have call: "emits (ds_s3 (ds_traced e) ?put) (\<lambda>r ext. ext = [(?put, r)])" by (rule emits_call) simp
  have get: "emits (mapexnA (verified_immutable_snapshot (ds_traced e) b k x m) h)
      (\<lambda>r ext. \<exists>a. ext = [(DsGet b k, a)] \<and>
        (\<forall>s. r = Inr s \<longrightarrow> answers_object e a x s \<and> py_eq (PDict (os_metadata s)) (PDict m)))" for h
    by (rule emits_mapexnA [OF immutable_snapshot_emits]) auto
  show ?thesis
    unfolding put_immutable_object_def reconcile_immutable_write_def
    by (rule emits_seqA [where Q = "\<lambda>r ext. ext = []"])
       (auto intro!: emit_rules emits_tryA [OF call] emits_mono [OF get])
qed

end
