(* ===== verification/DatasetProps.thy ===== *)
theory DatasetProps
  imports LeaseSafety LeaseCodec StoreFacts
begin

text \<open>
  The properties of the dataset object store and its publication lease, with their instances on a
  small store: one lease object that is absent at first, answers every \<^verbatim>\<open>GetObject\<close> with what was
  last written, and dates every answer with the same second.
\<close>

section \<open>A sample store\<close>

definition sample_now :: int where
  "sample_now = 63900000000"

definition sample_headers :: "int \<Rightarrow> (string \<times> pyval) list" where
  "sample_headers n = [(''ResponseMetadata'', PDict (sdict
     [(''HTTPStatusCode'', PInt n), (''HTTPHeaders'', PDict (sdict [(''date'', PStr ''now'')]))]))]"

definition stored_answer :: "string \<Rightarrow> string \<Rightarrow> pyval" where
  "stored_answer tag body = PDict (sdict ([(''Body'', PBytes body), (''ETag'', PStr tag)] @ sample_headers 200))"

fun sample_call :: "ds_call \<Rightarrow> (string \<times> string) option \<Rightarrow> (exn + pyval) \<times> (string \<times> string) option" where
  \<comment> \<open>the world is the tag and the body of the object; a write tags it \<^verbatim>\<open>t1\<close>\<close>
  "sample_call (DsGet _ _) w =
     ((case w of None \<Rightarrow> Inl (ClientError (PDict (sdict (sample_headers 404)))) | Some (tag, body) \<Rightarrow> Inr (stored_answer tag body)), w)"
| "sample_call (DsPut _ _ (BytesBody body) _ _) w = (Inr (PDict (sdict (sample_headers 200))), Some (''t1'', body))"
| "sample_call _ w = (Inl BotoCoreError, w)"

definition sample_env :: "(string \<times> string) option ds_env" where
  "sample_env =
     \<lparr>ds_s3 = sample_call, ds_utcnow = retA (sample_now * 1000000), ds_monotonic = retA 0, ds_open = (\<lambda>_. retA ()),
      ds_body = (\<lambda>v. case v of PBytes c \<Rightarrow> Some (chunked [c]) | _ \<Rightarrow> None), ds_close = (\<lambda>_. None),
      ds_parsedate = (\<lambda>_. Inr (utc_at sample_now)), ds_fromisoformat = strict_fromisoformat, ds_float_repr = (\<lambda>_. [])\<rparr>"

definition sample_pid :: string where "sample_pid = replicate 12 (CHR ''0'') @ ''4'' @ replicate 3 (CHR ''0'') @ ''8'' @ replicate 15 (CHR ''0'')"
definition sample_nonce :: string where "sample_nonce = replicate 32 (CHR ''a'')"

definition sample_lease :: "int \<Rightarrow> string \<Rightarrow> lease" where
  \<comment> \<open>the lease of the sample owner from \<open>sample_now - age\<close> for a minute\<close>
  "sample_lease age tag =
     \<lparr>ls_dataset = ''tpch'', ls_publication_id = PStr sample_pid, ls_owner_nonce = PStr sample_nonce, ls_state = ''active'',
      ls_created_at = utc_at (sample_now - age), ls_expires_at = utc_at (sample_now - age + 60), ls_etag = tag,
      ls_bucket = ''landing'', ls_key = lease_key ''tpch''\<rparr>"

lemma sample_env_simps [simp]:
  "ds_s3 sample_env = sample_call" "ds_utcnow sample_env = retA (sample_now * 1000000)" "ds_monotonic sample_env = retA 0"
  "ds_body sample_env (PBytes c) = Some (chunked [c])" "ds_close sample_env v = None"
  "ds_parsedate sample_env s = Inr (utc_at sample_now)" "ds_fromisoformat sample_env = strict_fromisoformat"
  "ds_open sample_env p = retA ()"
  by (simp_all add: sample_env_def)

lemma sample_iso: "iso_parser sample_env"
  by (rule strict_parser) simp

lemma sample_identity: "validate_lease_identity (PStr sample_pid) (PStr sample_nonce) = Inr ()"
  by code_simp

lemma instant_utc_at [simp]: "instant (utc_at t) = t * 1000000" "dt_offset (utc_at t) = Some 0" "dt_secs (utc_at t) = t"
  by (simp_all add: instant_def utc_at_def)

lemma sample_lease_ok:
  assumes "-100 \<le> age" "age \<le> 100"
  shows "validate_lease (sample_lease age tag) o' = Inr () \<longleftrightarrow> (\<forall>t. o' = Some t \<longrightarrow> (sample_now - age) * 1000000 \<le> instant t)"
    "whole_seconds (sample_lease age tag)" "list_all low_char (ls_dataset (sample_lease age tag))"
  using assms
  by (auto simp: validate_lease_def sample_lease_def sample_identity max_lease_seconds_def whole_seconds_def in_range_def
      sample_now_def max_secs_def low_char_def Let_def split: option.split)

definition sample_body :: "int \<Rightarrow> string" where
  "sample_body age = canonical_json (ds_float_repr sample_env) (lease_document (sample_lease age []))"

definition sample_snapshot :: "string \<Rightarrow> string \<Rightarrow> control_snapshot" where
  "sample_snapshot tag body = \<lparr>cs_body = body, cs_etag = tag, cs_server_date = utc_at sample_now\<rparr>"

lemma sample_body_eq: "-100 \<le> age \<Longrightarrow> age \<le> 100 \<Longrightarrow> lease_body sample_env (sample_lease age tag) = Inr (sample_body age)"
  using sample_lease_ok(1) [of age tag None]
  by (simp add: lease_body_def sample_body_def lease_document_def sample_lease_def)

lemma sample_record_decodes:
  assumes "0 \<le> age" "age \<le> 100"
  shows "lease_from_snapshot sample_env (sample_snapshot tag (sample_body age)) ''tpch'' ''landing'' (lease_key ''tpch'') =
    Inr (sample_lease age tag)"
  using lease_reads_back [OF sample_iso sample_body_eq [of age "[]"] sample_lease_ok(2,3) [of age], of "utc_at sample_now" tag]
    sample_lease_ok(1) [of age "[]" "Some (utc_at sample_now)"] assms
  by (simp add: sample_snapshot_def) (simp add: sample_lease_def)

lemma sample_body_length: "-100 \<le> age \<Longrightarrow> age \<le> 100 \<Longrightarrow> int (length (sample_body age)) \<le> max_control_bytes"
proof -
  assume a: "-100 \<le> age" "age \<le> 100"
  have "validate_lease (sample_lease age []) None = Inr ()" using sample_lease_ok(1) [OF a] by simp
  then have "sample_body age = dumps (lease_document (sample_lease age []))"
    unfolding sample_body_def using lease_text_ok(2) sample_lease_ok(2,3) [OF a] canonical_json_low by blast
  moreover have "length (format_utc t) = 20" if "in_range t" for t
    using that by (auto elim: format_utc_shape)
  then have "length (json_string (format_utc (sample_now - age))) \<le> 122" "length (json_string (format_utc (sample_now - age + 60))) \<le> 122"
    using length_json_string [of "format_utc (sample_now - age)"] length_json_string [of "format_utc (sample_now - age + 60)"] a
    by (simp_all add: in_range_def sample_now_def max_secs_def)
  moreover have "length (json_string sample_pid) \<le> 194" "length (json_string sample_nonce) \<le> 194"
    using length_json_string [of sample_pid] length_json_string [of sample_nonce] by (simp_all add: sample_pid_def sample_nonce_def)
  ultimately show ?thesis
    by (simp add: length_dumps lease_document_def sample_lease_def format_instant_def max_control_bytes_def)
       (simp add: json_string_def json_escape_def)
qed

lemma sample_date: "header_date sample_env (PDict (d @ sdict (sample_headers n))) = Inr (utc_at sample_now)"
  if "dget d ''ResponseMetadata'' = None"
proof -
  have "dget (d @ e) k = dget e k" if "dget d k = None" for e k
    using that by (induction d k rule: dget.induct) (auto split: if_splits)
  then have "dget (d @ sdict (sample_headers n)) ''ResponseMetadata'' = dget (sdict (sample_headers n)) ''ResponseMetadata''"
    using that by blast
  then show ?thesis
    by (simp add: header_date_def sample_headers_def dget_none_def dget_or_def as_utc_def)
       (simp add: utc_at_def in_range_def sample_now_def max_secs_def)
qed

lemma sample_server_date:
  "dget d ''ResponseMetadata'' = None \<Longrightarrow>
   response_server_date (ds_traced sample_env) (PDict (d @ sdict (sample_headers n))) wl = (Inr (utc_at sample_now), wl)"
  by (cases wl) (simp add: response_server_date_def sample_date act_simps onW_def max_clock_skew_def)

lemma sample_response:
  assumes "int (length body) \<le> max_control_bytes" "tag \<noteq> []"
  shows "read_control_response (ds_traced sample_env) (dict_val (stored_answer tag body)) wl = (Inr (sample_snapshot tag body), wl)"
proof -
  have o: "stored_answer tag body = PDict (sdict [(''Body'', PBytes body), (''ETag'', PStr tag)] @ sdict (sample_headers 200))"
    by (simp add: stored_answer_def)
  have r: "read_bounded sample_env (PBytes body) max_control_bytes = Inr body"
    using assms by (subst read_bounded_chunked [of _ _ "[body]"]) (simp_all add: max_control_bytes_def)
  note d = sample_server_date [of "sdict [(''Body'', PBytes body), (''ETag'', PStr tag)]" 200 wl]
  have e: "snapshot_etag (sdict [(''Body'', PBytes body), (''ETag'', PStr tag)] @ sdict (sample_headers 200)) = Inr tag"
    using assms(2) by (simp add: snapshot_etag_def dget_none_def)
  show ?thesis
    unfolding read_control_response_def o dict_val.simps
    using d e by (simp add: bindA_def mapexnA_def tryA_def retA_def liftA_def owned_body_def r sample_snapshot_def)
qed

lemma sample_call_traced [simp]:
  "ds_s3 (ds_traced sample_env) c (w, l) = (case sample_call c w of (r, w') \<Rightarrow> (r, (w', l @ [(c, r)])))"
  by (simp add: ds_traced_def)

lemma sample_observe:
  "read_lease_observation (ds_traced sample_env) b k (None, l) =
     (Inr (None, utc_at sample_now, 0), (None, l @ [(DsGet b k, Inl (ClientError (PDict (sdict (sample_headers 404)))))]))"
  "int (length body) \<le> max_control_bytes \<Longrightarrow> tag \<noteq> [] \<Longrightarrow>
   read_lease_observation (ds_traced sample_env) b k (Some (tag, body), l) =
     (Inr (Some (sample_snapshot tag body), utc_at sample_now, 0),
      (Some (tag, body), l @ [(DsGet b k, Inr (stored_answer tag body))]))"
proof -
  have n: "is_not_found (PDict (sdict (sample_headers 404)))"
    by (simp add: is_not_found_def error_status_def sample_headers_def dget_or_def dget_none_def)
  show "read_lease_observation (ds_traced sample_env) b k (None, l) =
     (Inr (None, utc_at sample_now, 0), (None, l @ [(DsGet b k, Inl (ClientError (PDict (sdict (sample_headers 404)))))]))"
    using sample_server_date [of "[]" 404] n
    by (simp add: read_lease_observation_def tryA_def bindA_def mapexnA_def retA_def onW_def)
  assume b: "int (length body) \<le> max_control_bytes" "tag \<noteq> []"
  obtain d where d: "stored_answer tag body = PDict d" by (simp add: stored_answer_def)
  show "read_lease_observation (ds_traced sample_env) b k (Some (tag, body), l) =
     (Inr (Some (sample_snapshot tag body), utc_at sample_now, 0),
      (Some (tag, body), l @ [(DsGet b k, Inr (stored_answer tag body))]))"
    using sample_response [OF b] d
    by (simp add: read_lease_observation_def tryA_def bindA_def retA_def onW_def) (simp add: sample_snapshot_def)
qed

lemma sample_put:
  assumes "int (length body) \<le> max_control_bytes" "im = None \<or> \<not> inm"
  shows "put_control_request (ds_traced sample_env) b k body im inm (w, l) =
    (Inr (sample_snapshot ''t1'' body, Some (sdict (sample_headers 200))),
     (Some (''t1'', body), l @ [(DsPut b k (BytesBody body) [] (put_condition_of im inm), Inr (PDict (sdict (sample_headers 200)))),
        (DsGet b k, Inr (stored_answer ''t1'' body))]))"
proof -
  obtain d where d: "stored_answer ''t1'' body = PDict d" by (simp add: stored_answer_def)
  have g: "read_control_object (ds_traced sample_env) b k (Some (''t1'', body), l') =
      (Inr (sample_snapshot ''t1'' body), (Some (''t1'', body), l' @ [(DsGet b k, Inr (stored_answer ''t1'' body))]))" for l'
    using sample_response [OF assms(1), of "''t1''"] d
    by (simp add: read_control_object_def get_object_def tryA_def mapexnA_def bindA_def retA_def)
  have "cs_body (sample_snapshot ''t1'' body) = body" by (simp add: sample_snapshot_def)
  then show ?thesis
    using assms(2) g
    by (auto simp: put_control_request_def reconcile_control_write_def seqA_def guardA_def tryA_def mapexnA_def bindA_def retA_def)
qed

lemma sample_write:
  assumes "proposed = sample_lease age []" "0 \<le> age" "age < 60" "im = None \<or> \<not> inm"
  shows "\<exists>evs. write_lease (ds_traced sample_env) proposed 0 im inm (w, l) =
    (Inr (Some (sample_lease age ''t1'')), (Some (''t1'', sample_body age), l @ evs))"
proof -
  have a: "-100 \<le> age" "age \<le> 100" using assms by simp_all
  have v: "validate_lease (sample_lease age []) None = Inr ()" using sample_lease_ok(1) [OF a] by simp
  have k: "ls_bucket (sample_lease age []) = ''landing''" "ls_key (sample_lease age []) = lease_key ''tpch''"
    "ls_dataset (sample_lease age []) = ''tpch''" by (simp_all add: sample_lease_def)
  have o: "\<not> outside_proposal (sample_lease age ''t1'') (sample_lease age []) (utc_at sample_now)"
    using assms(2,3) by (simp add: outside_proposal_def sample_lease_def)
  have d: "cs_server_date (sample_snapshot t b) = utc_at sample_now" for t b by (simp add: sample_snapshot_def)
  show ?thesis
    using sample_server_date [of "[]" 200] o
    unfolding write_lease_def assms(1)
    by (simp add: v k d sample_body_eq [OF a] sample_record_decodes [OF assms(2) a(2)] sample_put [OF sample_body_length [OF a] assms(4)]
        window_passed_def proposal_window_seconds_def bindA_def seqA_def guardA_def liftA_def retA_def onW_def tryA_def mapexnA_def)
qed

lemma sample_new: "new_lease ''tpch'' (PStr sample_pid) (PStr sample_nonce) (utc_at sample_now) ''landing'' (lease_key ''tpch'') (PInt 60) =
  Inr (sample_lease 0 [])"
proof -
  have "\<lparr>ls_dataset = ''tpch'', ls_publication_id = PStr sample_pid, ls_owner_nonce = PStr sample_nonce, ls_state = ''active'',
      ls_created_at = utc_at sample_now, ls_expires_at = utc_at (sample_now + 60), ls_etag = [], ls_bucket = ''landing'',
      ls_key = lease_key ''tpch''\<rparr> = sample_lease 0 []"
    by (simp add: sample_lease_def)
  moreover have "plus_seconds (utc_at sample_now) 60 = Inr (utc_at (sample_now + 60))"
    by (simp add: plus_seconds_def in_range_def sample_now_def max_secs_def utc_at_def)
  ultimately show ?thesis
    using sample_lease_ok(1) [of 0 "[]" None]
    by (simp add: new_lease_def validate_lease_duration_def max_lease_seconds_def sample_identity Let_def)
qed

lemma sample_acquire:
  "\<exists>w' evs. acquire_lease (ds_traced sample_env) ''tpch'' (PStr sample_pid) (PStr sample_nonce) ''landing'' (PInt 60) (None, []) =
     Some (Inr (sample_lease 0 ''t1''), (w', evs))"
proof -
  obtain evs where "write_lease (ds_traced sample_env) (sample_lease 0 []) 0 None True
      (None, [(DsGet ''landing'' (lease_key ''tpch''), Inl (ClientError (PDict (sdict (sample_headers 404)))))]) =
    (Inr (Some (sample_lease 0 ''t1'')), (Some (''t1'', sample_body 0),
      [(DsGet ''landing'' (lease_key ''tpch''), Inl (ClientError (PDict (sdict (sample_headers 404)))))] @ evs))"
    using sample_write [OF refl, of 0 None True None "[(DsGet ''landing'' (lease_key ''tpch''), Inl (ClientError (PDict (sdict (sample_headers 404)))))]"]
    by auto
  then show ?thesis
    by (simp add: acquire_lease_def sample_identity validate_lease_duration_def max_lease_seconds_def retryA.simps acquire_turn_def
        Let_def bindA_def liftA_def retA_def sample_observe(1) free_condition_def sample_new window_passed_def onW_def proposal_window_seconds_def)
qed

lemma sample_held:
  "held_lease sample_env (sample_lease 30 ''t0'') (Some (sample_snapshot ''t0'' (sample_body 30))) (utc_at sample_now) =
     Inr (sample_snapshot ''t0'' (sample_body 30), sample_lease 30 ''t0'')"
  using sample_record_decodes [of 30 "''t0''"]
  by (simp add: held_lease_def same_lease_owner_def) (simp add: sample_lease_def sample_snapshot_def)

lemma sample_bodies_differ: "sample_body 0 \<noteq> sample_body 30"
proof
  assume "sample_body 0 = sample_body 30"
  then have "Inr (sample_lease 0 ''t'') = (Inr (sample_lease 30 ''t'') :: lease res)"
    using sample_record_decodes [of 0 "''t''"] sample_record_decodes [of 30 "''t''"] by simp
  then show False by (simp add: sample_lease_def utc_at_def)
qed

lemma sample_renew:
  "\<exists>w' evs. renew_lease (ds_traced sample_env) (sample_lease 30 ''t0'') (PInt 60) (Some (''t0'', sample_body 30), []) =
     (Inr (sample_lease 0 ''t1''), (w', evs))"
proof -
  let ?get = "(DsGet ''landing'' (lease_key ''tpch''), Inr (stored_answer ''t0'' (sample_body 30)))"
  obtain evs where w: "write_lease (ds_traced sample_env) (sample_lease 0 []) 0 (Some ''t0'') False (Some (''t0'', sample_body 30), [?get]) =
      (Inr (Some (sample_lease 0 ''t1'')), (Some (''t1'', sample_body 0), [?get] @ evs))"
    using sample_write [OF refl, of 0 "Some ''t0''" False "Some (''t0'', sample_body 30)" "[?get]"] by auto
  have f: "ls_dataset (sample_lease a t) = ''tpch''" "ls_publication_id (sample_lease a t) = PStr sample_pid"
    "ls_owner_nonce (sample_lease a t) = PStr sample_nonce" "ls_bucket (sample_lease a t) = ''landing''"
    "ls_key (sample_lease a t) = lease_key ''tpch''" "ls_etag (sample_lease a t) = t"
    "ls_expires_at (sample_lease a t) = utc_at (sample_now - a + 60)" for a t
    by (simp_all add: sample_lease_def)
  have o: "read_lease_observation (ds_traced sample_env) ''landing'' (lease_key ''tpch'') (Some (''t0'', sample_body 30), []) =
      (Inr (Some (sample_snapshot ''t0'' (sample_body 30)), utc_at sample_now, 0), (Some (''t0'', sample_body 30), [?get]))"
    using sample_observe(2) [OF sample_body_length, of 30 "''t0''"] by simp
  have "renew_turn (ds_traced sample_env) (sample_lease 30 ''t0'') (PInt 60) (Some (''t0'', sample_body 30), []) =
      (Inr (Some (sample_lease 0 ''t1'')), (Some (''t1'', sample_body 0), [?get] @ evs))"
    using w sample_bodies_differ
    by (simp add: renew_turn_def f o bindA_def liftA_def retA_def sample_held sample_new sample_body_eq window_passed_def onW_def
        proposal_window_seconds_def seqA_def guardA_def) (simp add: sample_snapshot_def)
  then show ?thesis
    using sample_lease_ok(1) [of 30 "''t0''" None]
    by (simp add: renew_lease_def validate_lease_duration_def max_lease_seconds_def max_renew_observations_def numeral_eq_Suc
        bindA_def liftA_def retA_def)
qed

section \<open>Leases\<close>

text \<open>C14. Acquiring a lease follows the lease machine: the calls of \<^verbatim>\<open>acquire_lease\<close>, with their
  answers, are a path that observes the lease object, writes only an absent, released or expired
  lease, under the condition \<^verbatim>\<open>IfNoneMatch\<close> or the tag it observed, a fresh lease of at most the
  maximal duration that starts at the observed server date; a lease is returned only when the object
  read back after the write holds exactly the bytes written, and it is the lease those bytes encode.\<close>

theorem acquire_refines_protocol:
  assumes "acquire_lease (ds_traced env) dataset publication_id owner_nonce bucket lease_seconds (w, []) = Some (r, (w', evs))"
  shows "\<exists>q. lease_path env bucket (lease_key dataset) (may_acquire env dataset publication_id owner_nonce bucket) Start evs q \<and>
    loop_end env dataset bucket (lease_key dataset) r q \<and> length (filter is_put evs) \<le> 1"
  using acquire_path [OF assms] path_single_write by blast

theorem acquire_refines_protocol_witness:
  "\<exists>w' evs q. acquire_lease (ds_traced sample_env) ''tpch'' (PStr sample_pid) (PStr sample_nonce) ''landing'' (PInt 60) (None, []) =
       Some (Inr (sample_lease 0 ''t1''), (w', evs)) \<and>
     lease_path sample_env ''landing'' (lease_key ''tpch'')
       (may_acquire sample_env ''tpch'' (PStr sample_pid) (PStr sample_nonce) ''landing'') Start evs q \<and>
     loop_end sample_env ''tpch'' ''landing'' (lease_key ''tpch'') (Inr (sample_lease 0 ''t1'')) q \<and> length (filter is_put evs) \<le> 1"
proof -
  obtain w' evs where run: "acquire_lease (ds_traced sample_env) ''tpch'' (PStr sample_pid) (PStr sample_nonce) ''landing'' (PInt 60) (None, []) =
       Some (Inr (sample_lease 0 ''t1''), (w', evs))"
    using sample_acquire by blast
  from acquire_refines_protocol [OF run] run show ?thesis by blast
qed

text \<open>C15. Renewing a lease follows the lease machine under its own rule: \<^verbatim>\<open>renew_lease\<close> writes at most
  once, conditionally on the tag it holds, after observing under that tag its own active and unexpired
  lease, a lease of the same owner that expires strictly later; it returns only what it read back.\<close>

theorem renew_refines_protocol:
  assumes "renew_lease (ds_traced env) l lease_seconds (w, []) = (r, (w', evs))"
  shows "\<exists>q. lease_path env (ls_bucket l) (ls_key l) (may_renew env l) Start evs q \<and>
    loop_end env (ls_dataset l) (ls_bucket l) (ls_key l) r q \<and> length (filter is_put evs) \<le> 1"
  using renew_path [OF assms] path_single_write by blast

theorem renew_refines_protocol_witness:
  "\<exists>w' evs q. renew_lease (ds_traced sample_env) (sample_lease 30 ''t0'') (PInt 60) (Some (''t0'', sample_body 30), []) =
       (Inr (sample_lease 0 ''t1''), (w', evs)) \<and>
     lease_path sample_env (ls_bucket (sample_lease 30 ''t0'')) (ls_key (sample_lease 30 ''t0''))
       (may_renew sample_env (sample_lease 30 ''t0'')) Start evs q \<and>
     loop_end sample_env (ls_dataset (sample_lease 30 ''t0'')) (ls_bucket (sample_lease 30 ''t0'')) (ls_key (sample_lease 30 ''t0''))
       (Inr (sample_lease 0 ''t1'')) q \<and> length (filter is_put evs) \<le> 1"
proof -
  obtain w' evs where run: "renew_lease (ds_traced sample_env) (sample_lease 30 ''t0'') (PInt 60) (Some (''t0'', sample_body 30), []) =
       (Inr (sample_lease 0 ''t1''), (w', evs))"
    using sample_renew by blast
  from renew_refines_protocol [OF run] run show ?thesis by blast
qed


lemma sample_fresh: "fresh_lease (sample_lease age []) ''tpch'' (PStr sample_pid) (PStr sample_nonce) (utc_at (sample_now - age))"
  by (simp add: fresh_lease_def sample_lease_def max_lease_seconds_def)

lemma sample_world:
  "\<exists>\<sigma> \<sigma>'. world_reachable sample_env ''tpch'' ''landing'' \<sigma> \<and>
     world_step sample_env ''tpch'' ''landing'' \<sigma> 2 (AcquireOp (PStr sample_pid) (PStr sample_nonce)) \<sigma>' \<and>
     lw_store \<sigma> = Some (''a'', sample_body 0) \<and> lw_store \<sigma>' = Some (''b'', sample_body (- 60))"
proof -
  let ?op = "AcquireOp (PStr sample_pid) (PStr sample_nonce)" and ?later = "utc_at (sample_now + 60)"
  let ?s0 = "\<lparr>lw_store = None, lw_tags = Map.empty, lw_now = utc_at sample_now, lw_seen = Map.empty\<rparr>"
  let ?s1 = "?s0\<lparr>lw_seen := (lw_seen ?s0)(1 \<mapsto> (snapshot_of ?s0, lw_now ?s0))\<rparr>"
  let ?s2 = "?s1\<lparr>lw_store := Some (''a'', sample_body 0), lw_tags := (lw_tags ?s1)(''a'' \<mapsto> sample_body 0)\<rparr>"
  let ?s3 = "?s2\<lparr>lw_now := ?later\<rparr>"
  let ?s4 = "?s3\<lparr>lw_seen := (lw_seen ?s3)(2 \<mapsto> (snapshot_of ?s3, lw_now ?s3))\<rparr>"
  let ?s5 = "?s4\<lparr>lw_store := Some (''b'', sample_body (- 60)), lw_tags := (lw_tags ?s4)(''b'' \<mapsto> sample_body (- 60))\<rparr>"
  have r0: "world_reachable sample_env ''tpch'' ''landing'' ?s0" by (rule world_reachable.init)
  have r1: "world_reachable sample_env ''tpch'' ''landing'' ?s1" by (rule world_reachable.step [OF r0 world_step.look])
  have m1: "may_acquire sample_env ''tpch'' (PStr sample_pid) (PStr sample_nonce) ''landing'' None (utc_at sample_now) (sample_body 0) IfNoneMatch"
    using sample_fresh [of 0] sample_body_eq [of 0 "[]"] by (auto simp: may_acquire_def)
  have w1: "world_step sample_env ''tpch'' ''landing'' ?s1 1 ?op ?s2"
    by (rule world_step.store [where sn = None and t = "utc_at sample_now" and cond = IfNoneMatch])
       (use m1 in \<open>simp_all add: snapshot_of_def\<close>)
  have r2: "world_reachable sample_env ''tpch'' ''landing'' ?s2" by (rule world_reachable.step [OF r1 w1])
  have r3: "world_reachable sample_env ''tpch'' ''landing'' ?s3"
    by (rule world_reachable.step [OF r2 world_step.tick]) simp
  have r4: "world_reachable sample_env ''tpch'' ''landing'' ?s4" by (rule world_reachable.step [OF r3 world_step.look])
  let ?sn = "\<lparr>cs_body = sample_body 0, cs_etag = ''a'', cs_server_date = ?later\<rparr>"
  have dec: "lease_from_snapshot sample_env ?sn ''tpch'' ''landing'' (lease_key ''tpch'') = Inr (sample_lease 0 ''a'')"
    using lease_reads_back [OF sample_iso sample_body_eq [of 0 "[]"] sample_lease_ok(2,3) [of 0], of ?later "''a''"]
      sample_lease_ok(1) [of 0 "[]" "Some ?later"] by simp (simp add: sample_lease_def)
  have m2: "may_acquire sample_env ''tpch'' (PStr sample_pid) (PStr sample_nonce) ''landing'' (Some ?sn) ?later (sample_body (- 60)) (IfMatch ''a'')"
    using sample_fresh [of "- 60"] sample_body_eq [of "- 60" "[]"] dec by (auto simp: may_acquire_def) (auto simp: sample_lease_def)
  have w2: "world_step sample_env ''tpch'' ''landing'' ?s4 2 ?op ?s5"
    by (rule world_step.store [where sn = "Some ?sn" and t = ?later and cond = "IfMatch ''a''"])
       (use m2 in \<open>simp_all add: snapshot_of_def\<close>)
  show ?thesis by (intro exI [of _ ?s4] exI [of _ ?s5] conjI r4 w2) simp_all
qed


text \<open>C18. The loops of acquire and release return: while every reading of the monotonic clock stays
  within one proposal window, no observation grows stale and both loops end with a lease or an
  exception, whatever the store answers.\<close>

theorem lease_loops_return:
  assumes "clock_within env t0"
  shows "(\<exists>res. acquire_lease env dataset publication_id owner_nonce bucket lease_seconds w = Some res) \<and>
    (\<exists>res. release_lease env l w = Some res)"
  using loop_returns [OF assms] by blast

theorem lease_loops_return_witness:
  "(\<exists>res. acquire_lease sample_env ''tpch'' (PStr sample_pid) (PStr sample_nonce) ''landing'' (PInt 60) None = Some res) \<and>
   (\<exists>res. release_lease sample_env (sample_lease 0 ''t1'') None = Some res)"
  by (rule lease_loops_return [of sample_env 0]) (simp add: clock_within_def retA_def proposal_window_seconds_def)

text \<open>C21. A lease reads back: the bytes \<^verbatim>\<open>_lease_body\<close> writes for a lease with whole-second instants and an
  ASCII dataset name are accepted by \<^verbatim>\<open>_lease_from_snapshot\<close>, at any server date at which the lease is
  plausible, as the same lease under the tag of the read.  \<open>iso_parser\<close> is the documented law of
  \<^verbatim>\<open>datetime.fromisoformat\<close>.\<close>

theorem lease_body_reads_back:
  assumes "iso_parser env" "lease_body env l = Inr body" "whole_seconds l" "list_all low_char (ls_dataset l)"
    and "validate_lease l (Some date) = Inr ()"
  shows "lease_from_snapshot env \<lparr>cs_body = body, cs_etag = tag, cs_server_date = date\<rparr> (ls_dataset l) (ls_bucket l) (ls_key l) =
    Inr (l\<lparr>ls_etag := tag\<rparr>)"
  by (rule lease_reads_back [OF assms])

theorem lease_body_reads_back_witness:
  "lease_from_snapshot sample_env \<lparr>cs_body = sample_body 30, cs_etag = ''t1'', cs_server_date = utc_at sample_now\<rparr>
     (ls_dataset (sample_lease 30 [])) (ls_bucket (sample_lease 30 [])) (ls_key (sample_lease 30 [])) =
   Inr ((sample_lease 30 [])\<lparr>ls_etag := ''t1''\<rparr>)"
  by (rule lease_body_reads_back [OF sample_iso sample_body_eq sample_lease_ok(2,3)])
     (simp_all add: sample_lease_ok(1))

section \<open>Verified reads and writes\<close>

text \<open>C19. Streaming verification decides exactly: for a body that arrives in chunks of any sizes,
  \<^verbatim>\<open>verify_stream\<close> accepts exactly the content of the expected size and digest; a longer content is
  refused after one byte beyond the expected size.\<close>

theorem verify_stream_decides:
  assumes "0 \<le> n"
  shows "verify_stream (chunked cs) n digest =
    (let content = concat cs
     in if int (length content) > n then Inl (LockMismatch ''size_bytes'' (PInt n) (PInt (n + 1)))
        else if int (length content) < n then Inl (LockMismatch ''size_bytes'' (PInt n) (PInt (int (length content))))
        else if sha256 content \<noteq> digest then Inl (LockMismatch ''sha256'' (PStr digest) (PStr (sha256 content)))
        else Inr (n, digest))"
  using assms by (auto simp: verify_stream_def verify_loop_chunked Let_def)

theorem verify_stream_decides_witness:
  "verify_stream (chunked [''ab'', ''c'']) 3 (sha256 ''abc'') = Inr (3, sha256 ''abc'')"
  using verify_stream_decides [of 3 "[''ab'', ''c'']" "sha256 ''abc''"] by simp

text \<open>C16. An immutable object is acknowledged only after verification: \<^verbatim>\<open>put_immutable_object\<close> returns only
  when its calls were one create-only write of the file and one read whose body had exactly the
  expected size and digest and whose metadata was the intended one.\<close>

theorem put_immutable_verified:
  assumes "put_immutable_object (ds_traced env) bucket key path expected metadata (w, []) = (Inr s, (w', evs))"
  shows "\<exists>pa ga d stream. evs = [(DsPut bucket key (FileBody path) metadata IfNoneMatch, pa), (DsGet bucket key, ga)] \<and>
    ga = Inr (PDict d) \<and> dget d ''Body'' = Some stream \<and>
    verify_body env stream (xo_size_bytes expected) (xo_sha256 expected) = Inr (os_size_bytes s, os_sha256 s) \<and>
    os_size_bytes s = xo_size_bytes expected \<and> os_sha256 s = xo_sha256 expected \<and>
    py_eq (dget_or d ''Metadata'' (PDict [])) (PDict metadata)"
proof -
  obtain pa ga where e: "evs = [(DsPut bucket key (FileBody path) metadata IfNoneMatch, pa), (DsGet bucket key, ga)]"
    and a: "answers_object env ga expected s" and m: "py_eq (PDict (os_metadata s)) (PDict metadata)"
    using emitsD [OF put_immutable_emits assms] by blast
  from a obtain d stream where d: "ga = Inr (PDict d)" "dget d ''Body'' = Some stream"
    "py_dict (dget_or d ''Metadata'' (PDict [])) = Inr (os_metadata s)"
    "verify_body env stream (xo_size_bytes expected) (xo_sha256 expected) = Inr (os_size_bytes s, os_sha256 s)"
    unfolding answers_object_def by blast
  have "dget_or d ''Metadata'' (PDict []) = PDict (os_metadata s)" using d(3) by (auto simp: py_dict_def inr_iffs)
  then show ?thesis using e m d verify_body_exact [OF d(4)] by auto
qed

definition sample_expected :: expected_object where
  "sample_expected = \<lparr>xo_object_name = ''a.csv'', xo_size_bytes = 3, xo_sha256 = sha256 ''abc'', xo_schema_id = ''s''\<rparr>"

lemma sample_put_immutable:
  "\<exists>s w' evs. put_immutable_object (ds_traced sample_env) ''landing'' ''k'' ''a.csv'' sample_expected [] (Some (''t1'', ''abc''), []) =
     (Inr s, (w', evs))"
proof -
  obtain d where d: "stored_answer ''t1'' ''abc'' = PDict d" "dget d ''Body'' = Some (PBytes ''abc'')"
    "dget_or d ''Metadata'' (PDict []) = PDict []" "snapshot_etag d = Inr ''t1''"
    "\<And>wl. response_server_date (ds_traced sample_env) (PDict d) wl = (Inr (utc_at sample_now), wl)"
    using sample_server_date [of "sdict [(''Body'', PBytes ''abc''), (''ETag'', PStr ''t1'')]" 200]
    by (auto simp: stored_answer_def sample_headers_def snapshot_etag_def dget_none_def dget_or_def)
  have v: "verify_body sample_env (PBytes ''abc'') 3 (sha256 ''abc'') = Inr (3, sha256 ''abc'')"
    using verify_loop_chunked [of 0 3 "[''abc'']" "[]"] by (simp add: verify_body_def verify_stream_def)
  show ?thesis
    by (simp add: put_immutable_object_def reconcile_immutable_write_def verified_immutable_snapshot_def stream_verify_object_def
        get_object_def write_unknown_def owned_body_def seqA_def guardA_def tryA_def mapexnA_def bindA_def liftA_def retA_def onW_def
        d v py_dict_def sample_expected_def)
qed

theorem put_immutable_verified_witness:
  "\<exists>s w' evs pa ga d stream.
     put_immutable_object (ds_traced sample_env) ''landing'' ''k'' ''a.csv'' sample_expected [] (Some (''t1'', ''abc''), []) = (Inr s, (w', evs)) \<and>
     evs = [(DsPut ''landing'' ''k'' (FileBody ''a.csv'') [] IfNoneMatch, pa), (DsGet ''landing'' ''k'', ga)] \<and>
     ga = Inr (PDict d) \<and> dget d ''Body'' = Some stream \<and> os_size_bytes s = 3 \<and> os_sha256 s = sha256 ''abc''"
proof -
  obtain s w' evs where run:
    "put_immutable_object (ds_traced sample_env) ''landing'' ''k'' ''a.csv'' sample_expected [] (Some (''t1'', ''abc''), []) = (Inr s, (w', evs))"
    using sample_put_immutable by blast
  have "xo_size_bytes sample_expected = 3" "xo_sha256 sample_expected = sha256 ''abc''" by (simp_all add: sample_expected_def)
  with put_immutable_verified [OF run] run show ?thesis by metis
qed

text \<open>A control object is acknowledged only when read back: \<^verbatim>\<open>put_control_object\<close> returns only when its
  calls were one write of the canonical form of the given document, under the given condition, and
  one read that returned exactly those bytes; the snapshot returned is that read.\<close>

theorem put_control_read_back:
  assumes "put_control_object (ds_traced env) bucket key body if_match if_none_match (w, []) = (Inr s, (w', evs))"
  shows "\<exists>intended pa ga. canonical_control_body env body = Inr intended \<and>
    evs = [(DsPut bucket key (BytesBody intended) [] (put_condition_of if_match if_none_match), pa), (DsGet bucket key, ga)] \<and>
    answers_snapshot env ga s \<and> cs_body s = intended"
  using emitsD [OF put_control_object_emits assms] unfolding wrote_exactly_def by auto

lemma sample_control: "canonical_control_body sample_env ''{}'' = Inr ''{}''"
proof -
  have "loads_bytes (Inl value_error) ''{}'' = Inr (PDict [])" by code_simp
  then show ?thesis by (simp add: canonical_control_body_def canonical_json_def utf8_encode_def max_control_bytes_def)
qed

theorem put_control_read_back_witness:
  "\<exists>s w' evs pa ga. put_control_object (ds_traced sample_env) ''landing'' ''k'' ''{}'' None True (None, []) = (Inr s, (w', evs)) \<and>
     evs = [(DsPut ''landing'' ''k'' (BytesBody ''{}'') [] IfNoneMatch, pa), (DsGet ''landing'' ''k'', ga)] \<and>
     answers_snapshot sample_env ga s \<and> cs_body s = ''{}''"
proof -
  obtain s w' evs where run: "put_control_object (ds_traced sample_env) ''landing'' ''k'' ''{}'' None True (None, []) = (Inr s, (w', evs))"
    using sample_put [of "''{}''" None True]
    by (auto simp: put_control_object_def sample_control bindA_def liftA_def retA_def max_control_bytes_def)
  from put_control_read_back [OF run] run show ?thesis by (auto simp: sample_control put_condition_of_def)
qed

end
