(* ===== verification/DatasetRegistry.thy ===== *)
theory DatasetRegistry
  imports ObjectStore
begin

text \<open>
  \<^verbatim>\<open>datasets/registry.py\<close>: the frozen records of a validated dataset registry and the selection of a
  scale.  A read-only mapping is an association list in insertion order.  The records hold typed
  fields: they are what the registry's validator has accepted.  The validator and the copy of a
  validated document into the records are in \<open>RegistrySchema\<close> and \<open>RegistryParse\<close>.
\<close>

record provenance =
  pv_publisher :: string
  pv_homepage :: string
  pv_license_name :: string
  pv_license_url :: string
  pv_attribution :: string
  pv_source_stability :: string
  pv_update_policy :: string

record schema_field =
  sf_name :: string
  sf_logical_type :: string
  sf_nullable :: bool

record schema_contract =
  sc_id :: string
  sc_format :: string
  sc_mode :: string
  sc_fields :: "schema_field list"
  sc_options :: pydict
  sc_fingerprint :: string

record source_version =
  sv_kind :: string
  sv_value :: string

record raw_artifact =
  ra_name :: string
  ra_size_bytes :: int
  ra_sha256 :: string

record landing_object =
  lo_object_name :: string
  lo_size_bytes :: int
  lo_sha256 :: string
  lo_schema_id :: string
  lo_member_path :: "string option"
  lo_raw_identity :: bool

record http_artifact =
  ha_id :: string
  ha_url :: string
  ha_version :: source_version
  ha_stability :: string
  ha_evidence :: "(string \<times> string) list"
  ha_raw :: raw_artifact
  ha_outputs :: "landing_object list"
  ha_provenance :: "provenance option"

record generator_environment =
  ge_image :: string
  ge_image_digest :: string
  ge_platform :: string
  ge_uv_lock_sha256 :: string
  ge_locale :: string
  ge_timezone :: string
  ge_threads :: int
  ge_preserve_insertion_order :: bool

record generator_output =
  go_table :: string
  go_object_name :: string
  go_size_bytes :: int
  go_sha256 :: string
  go_schema_id :: string

record generator_scale =
  gs_name :: string
  gs_scale_factor :: "rat option" \<comment> \<open>a finite float as the rational it denotes\<close>
  gs_outputs :: "generator_output list"

record generator_contract =
  gc_engine_name :: string
  gc_engine_version :: string
  gc_engine_wheel_sha256 :: string
  gc_extension_name :: string
  gc_extension_version_relation :: string
  gc_extension_repository_url :: string
  gc_extension_sha256 :: string
  gc_environment :: generator_environment
  gc_procedure :: string
  gc_scale_parameter :: string
  gc_export_format :: string
  gc_compression :: string
  gc_row_group_size :: int
  gc_order_by :: "(string \<times> string list) list"
  gc_scales :: "(string \<times> generator_scale) list"

datatype scale_spec = HttpScale "string list" | GenScale generator_scale

record dataset =
  ds_name :: string
  ds_description :: string
  ds_format :: string
  ds_license :: string
  ds_landing_prefix :: string
  ds_kind :: string
  ds_unzip :: bool
  ds_scales :: "(string \<times> scale_spec) list"
  ds_provenance :: "provenance option"
  ds_schemas :: "(string \<times> schema_contract) list"
  ds_artifacts :: "(string \<times> http_artifact) list"
  ds_generator :: "generator_contract option"

record scale_plan =
  sp_dataset :: dataset
  sp_scale :: string
  sp_urls :: "string list"
  sp_sf :: "rat option option"
  sp_artifacts :: "http_artifact list"
  sp_generator_scale :: "generator_scale option"

definition item_of :: "(string \<times> 'a) list \<Rightarrow> string \<Rightarrow> 'a res" where
  \<comment> \<open>\<^verbatim>\<open>mapping[key]\<close>\<close>
  "item_of m k = (case map_of m k of None \<Rightarrow> Inl (OtherExn ''KeyError'') | Some v \<Rightarrow> Inr v)"

definition resolve_scale :: "dataset \<Rightarrow> string \<Rightarrow> scale_plan res" where
  "resolve_scale ds scale =
     bindE (item_of (ds_scales ds) scale) (\<lambda>spec.
     case spec of
       GenScale g \<Rightarrow>
         Inr \<lparr>sp_dataset = ds, sp_scale = scale, sp_urls = [], sp_sf = Some (gs_scale_factor g), sp_artifacts = [],
              sp_generator_scale = Some g\<rparr>
     | HttpScale ids \<Rightarrow>
         bindE (mapE (item_of (ds_artifacts ds)) ids) (\<lambda>artifacts.
         Inr \<lparr>sp_dataset = ds, sp_scale = scale, sp_urls = map ha_url artifacts, sp_sf = None, sp_artifacts = artifacts,
              sp_generator_scale = None\<rparr>))"

end
