(* ===== verification/Publication.thy ===== *)
theory Publication
  imports DatasetRegistry DatasetLease
begin

text \<open>
  \<^verbatim>\<open>datasets/publication.py\<close>, first part: the identity of a plan, the keys of the control plane and
  the two control documents, the immutable manifest and the active pointer.  A document is decoded
  by building its record through the same checks as the class's \<^verbatim>\<open>__post_init__\<close>; every failed
  check raises \<^verbatim>\<open>ValueError\<close>.  The digest of a manifest names it: its key in the object store is
  computed from its bytes.
\<close>

section \<open>Checked scalars\<close>

definition require_sha256 :: "pyval \<Rightarrow> string res" where
  "require_sha256 v = (if \<not> is_str v \<or> \<not> sha256_re (str_val v) then Inl value_error else Inr (str_val v))"

definition require_uuid4_hex :: "pyval \<Rightarrow> string res" where
  "require_uuid4_hex v = (if \<not> is_str v \<or> \<not> uuid4_hex_re (str_val v) then Inl value_error else Inr (str_val v))"

definition require_component :: "pyval \<Rightarrow> string \<Rightarrow> string res" where
  "require_component v label =
     (if validate_relative_path v label \<noteq> [] \<or> \<not> is_str v \<or> CHR ''/'' \<in> set (str_val v) then Inl value_error
      else Inr (str_val v))"

definition require_relative_key :: "pyval \<Rightarrow> string \<Rightarrow> string res" where
  "require_relative_key v label =
     (if validate_relative_path v label \<noteq> [] \<or> \<not> is_str v then Inl value_error else Inr (str_val v))"

section \<open>The selected plan\<close>

fun plain_value :: "pyval \<Rightarrow> pyval" where
  \<comment> \<open>\<^verbatim>\<open>_plain_value\<close> and \<^verbatim>\<open>_plain_mapping\<close>, for mappings with string keys\<close>
  "plain_value (PDict d) = PDict (map (\<lambda>(k, v). (k, plain_value v)) d)"
| "plain_value (PTuple xs) = PList (map plain_value xs)"
| "plain_value v = v"

definition opt_str :: "string option \<Rightarrow> pyval" where
  "opt_str o' = (case o' of None \<Rightarrow> PNone | Some s \<Rightarrow> PStr s)"

definition provenance_document :: "provenance option \<Rightarrow> pyval" where
  "provenance_document p =
     (case p of
        None \<Rightarrow> PNone
      | Some v \<Rightarrow> PDict (sdict
          [(''publisher'', PStr (pv_publisher v)), (''homepage'', PStr (pv_homepage v)),
           (''license_name'', PStr (pv_license_name v)), (''license_url'', PStr (pv_license_url v)),
           (''attribution'', PStr (pv_attribution v)), (''source_stability'', PStr (pv_source_stability v)),
           (''update_policy'', PStr (pv_update_policy v))]))"

definition schema_document :: "schema_contract \<Rightarrow> pyval" where
  "schema_document c = PDict (sdict
     [(''fields'', PList (map (\<lambda>f. PDict (sdict
         [(''name'', PStr (sf_name f)), (''logical_type'', PStr (sf_logical_type f)), (''nullable'', PBool (sf_nullable f))]))
         (sc_fields c))),
      (''fingerprint'', PStr (sc_fingerprint c)), (''format'', PStr (sc_format c)), (''id'', PStr (sc_id c)),
      (''mode'', PStr (sc_mode c)), (''options'', plain_value (PDict (sc_options c)))])"

datatype plan_output = Landing landing_object | Generated generator_output

fun po_object_name :: "plan_output \<Rightarrow> string" where
  "po_object_name (Landing x) = lo_object_name x" | "po_object_name (Generated x) = go_object_name x"
fun po_size_bytes :: "plan_output \<Rightarrow> int" where
  "po_size_bytes (Landing x) = lo_size_bytes x" | "po_size_bytes (Generated x) = go_size_bytes x"
fun po_sha256 :: "plan_output \<Rightarrow> string" where
  "po_sha256 (Landing x) = lo_sha256 x" | "po_sha256 (Generated x) = go_sha256 x"
fun po_schema_id :: "plan_output \<Rightarrow> string" where
  "po_schema_id (Landing x) = lo_schema_id x" | "po_schema_id (Generated x) = go_schema_id x"

fun output_asdict :: "plan_output \<Rightarrow> pyval" where
  "output_asdict (Landing x) = PDict (sdict
     [(''object_name'', PStr (lo_object_name x)), (''size_bytes'', PInt (lo_size_bytes x)), (''sha256'', PStr (lo_sha256 x)),
      (''schema_id'', PStr (lo_schema_id x)), (''member_path'', opt_str (lo_member_path x)),
      (''raw_identity'', PBool (lo_raw_identity x))])"
| "output_asdict (Generated x) = PDict (sdict
     [(''table'', PStr (go_table x)), (''object_name'', PStr (go_object_name x)), (''size_bytes'', PInt (go_size_bytes x)),
      (''sha256'', PStr (go_sha256 x)), (''schema_id'', PStr (go_schema_id x))])"

definition output_document :: "plan_output \<Rightarrow> schema_contract \<Rightarrow> pyval" where
  "output_document x schema = PDict (sdict
     [(''object_name'', PStr (po_object_name x)), (''schema_fingerprint'', PStr (sc_fingerprint schema)),
      (''schema_id'', PStr (po_schema_id x)), (''sha256'', PStr (po_sha256 x)), (''size_bytes'', PInt (po_size_bytes x))])"

definition selected_outputs :: "scale_plan \<Rightarrow> plan_output list" where
  "selected_outputs plan =
     (case sp_generator_scale plan of
        Some g \<Rightarrow> map Generated (gs_outputs g)
      | None \<Rightarrow> map Landing (concat (map ha_outputs (sp_artifacts plan))))"

definition artifact_document :: "dataset \<Rightarrow> http_artifact \<Rightarrow> pyval" where
  "artifact_document ds a = PDict (sdict
     [(''id'', PStr (ha_id a)),
      (''provenance'', provenance_document (case ha_provenance a of None \<Rightarrow> ds_provenance ds | Some p \<Rightarrow> Some p)),
      (''raw'', PDict (sdict [(''name'', PStr (ra_name (ha_raw a))), (''size_bytes'', PInt (ra_size_bytes (ha_raw a))),
                              (''sha256'', PStr (ra_sha256 (ha_raw a)))])),
      (''outputs'', PList (map (\<lambda>x. output_asdict (Landing x)) (ha_outputs a))),
      (''stability'', PStr (ha_stability a)), (''url'', PStr (ha_url a)),
      (''version'', PDict (sdict [(''kind'', PStr (sv_kind (ha_version a))), (''value'', PStr (sv_value (ha_version a)))]))])"

definition environment_document :: "generator_environment \<Rightarrow> pyval" where
  "environment_document g = PDict (sdict
     [(''image'', PStr (ge_image g)), (''image_digest'', PStr (ge_image_digest g)), (''platform'', PStr (ge_platform g)),
      (''uv_lock_sha256'', PStr (ge_uv_lock_sha256 g)), (''locale'', PStr (ge_locale g)), (''timezone'', PStr (ge_timezone g)),
      (''threads'', PInt (ge_threads g)), (''preserve_insertion_order'', PBool (ge_preserve_insertion_order g))])"

definition generator_document :: "generator_contract \<Rightarrow> generator_scale \<Rightarrow> pyval" where
  "generator_document g s = PDict (sdict
     [(''compression'', PStr (gc_compression g)),
      (''engine'', PDict (sdict [(''name'', PStr (gc_engine_name g)), (''version'', PStr (gc_engine_version g)),
                                 (''wheel_sha256'', PStr (gc_engine_wheel_sha256 g))])),
      (''environment'', environment_document (gc_environment g)),
      (''export_format'', PStr (gc_export_format g)),
      (''extension'', PDict (sdict [(''name'', PStr (gc_extension_name g)), (''repository_url'', PStr (gc_extension_repository_url g)),
                                    (''sha256'', PStr (gc_extension_sha256 g)),
                                    (''version_relation'', PStr (gc_extension_version_relation g))])),
      (''kind'', PStr ''generator''),
      (''order_by'', PDict (map (\<lambda>(t, cs). (PStr t, PList (map PStr cs))) (gc_order_by g))),
      (''procedure'', PStr (gc_procedure g)), (''row_group_size'', PInt (gc_row_group_size g)),
      (''scale_factor'', PFloat (gs_scale_factor s)), (''scale_parameter'', PStr (gc_scale_parameter g)),
      (''outputs'', PList (map (\<lambda>x. output_asdict (Generated x)) (gs_outputs s)))])"

definition source_document :: "scale_plan \<Rightarrow> pyval res" where
  "source_document plan =
     (case sp_generator_scale plan of
        None \<Rightarrow> Inr (PDict (sdict
          [(''artifacts'', PList (map (artifact_document (sp_dataset plan)) (sp_artifacts plan))),
           (''kind'', PStr ''http''), (''unzip'', PBool (ds_unzip (sp_dataset plan)))]))
      | Some s \<Rightarrow>
          (case ds_generator (sp_dataset plan) of
             None \<Rightarrow> Inl value_error
           | Some g \<Rightarrow> Inr (generator_document g s)))"

definition default_lock_policy :: pyval where
  "default_lock_policy = PDict (sdict
     [(''algorithm'', PStr ''sha256''), (''object_drift'', PStr ''fail''), (''schema_fingerprint'', PStr ''sha256-canonical-json''),
      (''source_drift'', PStr ''fail''), (''update_policy'', PStr ''reviewed-lock-update'')])"

definition selected_plan_document :: "scale_plan \<Rightarrow> pyval res" where
  "selected_plan_document plan =
     (let ds = sp_dataset plan; outputs = selected_outputs plan
      in bindE (source_document plan) (\<lambda>source.
         bindE (mapE (item_of (ds_schemas ds)) (remdups_first (map po_schema_id outputs))) (\<lambda>schemas.
         bindE (mapE (\<lambda>x. bindE (item_of (ds_schemas ds) (po_schema_id x)) (\<lambda>c. Inr (output_document x c))) outputs) (\<lambda>objects.
         Inr (PDict (sdict
           [(''dataset'', PStr (ds_name ds)),
            (''dataset_contract'', PDict (sdict
               [(''format'', PStr (ds_format ds)), (''landing_prefix'', PStr (ds_landing_prefix ds)),
                (''license'', PStr (ds_license ds)), (''provenance'', provenance_document (ds_provenance ds))])),
            (''lock'', default_lock_policy),
            (''objects'', PList objects),
            (''publication_layout_version'', PInt 1),
            (''registry_schema_version'', PInt 2),
            (''scale'', PStr (sp_scale plan)),
            (''schemas'', PList (map schema_document schemas)),
            (''source'', source)]))))))"

definition plan_id :: "(rat option \<Rightarrow> string) \<Rightarrow> scale_plan \<Rightarrow> string res" where
  "plan_id fr plan = bindE (selected_plan_document plan) (\<lambda>d. Inr (sha256 (canonical_json fr d)))"

section \<open>Keys\<close>

definition publication_prefix :: "(rat option \<Rightarrow> string) \<Rightarrow> scale_plan \<Rightarrow> string \<Rightarrow> string res" where
  "publication_prefix fr plan publication_id =
     bindE (require_uuid4_hex (PStr publication_id)) (\<lambda>identifier.
     bindE (require_relative_key (PStr (ds_landing_prefix (sp_dataset plan))) ''landing prefix'') (\<lambda>landing_prefix.
     if take_until (CHR ''/'') landing_prefix = ''_data-eng-locks'' then Inl value_error
     else bindE (plan_id fr plan) (\<lambda>p. Inr (landing_prefix @ ''/_generations/'' @ p @ ''/'' @ identifier))))"

definition active_pointer_key :: "string \<Rightarrow> string res" where
  "active_pointer_key name =
     bindE (require_component (PStr name) ''dataset'') (\<lambda>c. Inr (''_data-eng-locks/current/'' @ c @ ''.json''))"

definition immutable_manifest_key :: "pyval \<Rightarrow> pyval \<Rightarrow> string res" where
  "immutable_manifest_key name digest =
     bindE (require_component name ''dataset'') (\<lambda>c.
     bindE (require_sha256 digest) (\<lambda>d. Inr (''_data-eng-locks/manifests/'' @ c @ ''/'' @ d @ ''.json'')))"

section \<open>Instants and canonical mappings\<close>

definition format_published :: "pydatetime \<Rightarrow> string res" where
  "format_published d =
     (if dt_offset d \<noteq> Some 0 then Inl value_error
      else if dt_micro d \<noteq> 0 then Inl value_error
      else Inr (format_utc (dt_secs d)))"

definition parse_published :: "pyval \<Rightarrow> pydatetime res" where
  \<comment> \<open>\<^verbatim>\<open>fromisoformat\<close> of a text of this shape fails exactly on an impossible date or time\<close>
  "parse_published v =
     (case parse_utc v of
        None \<Rightarrow> Inl value_error
      | Some t \<Rightarrow>
          let d = \<lparr>dt_secs = t, dt_micro = 0, dt_offset = Some 0\<rparr>
          in bindE (format_published d) (\<lambda>s. if PStr s \<noteq> v then Inl value_error else Inr d))"

definition decode_canonical_mapping :: "(rat option \<Rightarrow> string) \<Rightarrow> string \<Rightarrow> pydict res" where
  "decode_canonical_mapping fr body =
     (case loads_bytes (Inl value_error) body of
        Inl e \<Rightarrow> Inl (if value_error_like e \<or> e = OtherExn ''RecursionError'' then value_error else e)
      | Inr (PDict d) \<Rightarrow> if canonical_json fr (PDict d) \<noteq> body then Inl value_error else Inr d
      | Inr _ \<Rightarrow> Inl value_error)"

section \<open>Manifests\<close>

record manifest_object =
  mo_object_name :: string
  mo_key :: string
  mo_size_bytes :: int
  mo_sha256 :: string
  mo_schema_id :: string
  mo_schema_fingerprint :: string

definition make_manifest_object :: "pyval \<Rightarrow> pyval \<Rightarrow> pyval \<Rightarrow> pyval \<Rightarrow> pyval \<Rightarrow> pyval \<Rightarrow> manifest_object res" where
  "make_manifest_object object_name key size_bytes sha schema_id fingerprint =
     bindE (require_relative_key object_name ''object name'') (\<lambda>n.
     bindE (require_relative_key key ''physical key'') (\<lambda>k.
     if \<not> is_int size_bytes \<or> int_val size_bytes \<le> 0 then Inl value_error
     else
       bindE (require_sha256 sha) (\<lambda>h.
       bindE (require_component schema_id ''schema identifier'') (\<lambda>c.
       bindE (require_sha256 fingerprint) (\<lambda>f.
       Inr \<lparr>mo_object_name = n, mo_key = k, mo_size_bytes = int_val size_bytes, mo_sha256 = h, mo_schema_id = c,
            mo_schema_fingerprint = f\<rparr>)))))"

definition object_to_document :: "manifest_object \<Rightarrow> pyval" where
  "object_to_document x = PDict (sdict
     [(''object_name'', PStr (mo_object_name x)), (''key'', PStr (mo_key x)), (''size_bytes'', PInt (mo_size_bytes x)),
      (''sha256'', PStr (mo_sha256 x)), (''schema_id'', PStr (mo_schema_id x)),
      (''schema_fingerprint'', PStr (mo_schema_fingerprint x))])"

definition object_from_document :: "pyval \<Rightarrow> manifest_object res" where
  "object_from_document document =
     (case document of
        PDict d \<Rightarrow>
          if \<not> keys_exactly d [''object_name'', ''key'', ''size_bytes'', ''sha256'', ''schema_id'', ''schema_fingerprint'']
          then Inl value_error
          else make_manifest_object (dget_none d ''object_name'') (dget_none d ''key'') (dget_none d ''size_bytes'')
                 (dget_none d ''sha256'') (dget_none d ''schema_id'') (dget_none d ''schema_fingerprint'')
      | _ \<Rightarrow> Inl value_error)"

record manifest =
  im_dataset :: string
  im_scale :: string
  im_raw_registry_sha256 :: string
  im_selected_plan_sha256 :: string
  im_plan_id :: string
  im_publication_id :: string
  im_physical_prefix :: string
  im_objects :: "manifest_object list"
  im_published_at :: pydatetime
  im_previous_manifest_key :: "string option"
  im_previous_manifest_sha256 :: "string option"

definition opt_of :: "pyval \<Rightarrow> string option" where
  "opt_of v = (case v of PStr s \<Rightarrow> Some s | _ \<Rightarrow> None)"

definition check_previous :: "pyval \<Rightarrow> pyval \<Rightarrow> pyval \<Rightarrow> unit res" where
  "check_previous name key digest =
     (if (key = PNone) \<noteq> (digest = PNone) then Inl value_error
      else if digest \<noteq> PNone then
        bindE (immutable_manifest_key name digest) (\<lambda>expected. guardE (key \<noteq> PStr expected) value_error)
      else Inr ())"

definition make_manifest ::
  "pyval \<Rightarrow> pyval \<Rightarrow> pyval \<Rightarrow> pyval \<Rightarrow> pyval \<Rightarrow> pyval \<Rightarrow> pyval \<Rightarrow> pyval \<Rightarrow> manifest_object list \<Rightarrow> pydatetime \<Rightarrow>
   pyval \<Rightarrow> pyval \<Rightarrow> manifest res" where
  \<comment> \<open>\<^verbatim>\<open>ImmutableManifest.__post_init__\<close>\<close>
  "make_manifest format_version name scale raw_sha selected plan publication prefix objects published previous_key previous_sha =
     (if format_version \<noteq> PInt 1 then Inl value_error
      else
        bindE (require_component name ''dataset'') (\<lambda>n.
        bindE (require_component scale ''scale'') (\<lambda>s.
        bindE (require_sha256 raw_sha) (\<lambda>r.
        bindE (require_sha256 selected) (\<lambda>sel.
        bindE (require_sha256 plan) (\<lambda>p.
        if sel \<noteq> p then Inl value_error
        else
          bindE (require_uuid4_hex publication) (\<lambda>u.
          bindE (require_relative_key prefix ''physical prefix'') (\<lambda>ph.
          if objects = [] then Inl value_error
          else if \<not> distinct (map mo_object_name objects) then Inl value_error
          else
            bindE (format_published published) (\<lambda>_.
            bindE (check_previous name previous_key previous_sha) (\<lambda>_.
            Inr \<lparr>im_dataset = n, im_scale = s, im_raw_registry_sha256 = r, im_selected_plan_sha256 = sel, im_plan_id = p,
                 im_publication_id = u, im_physical_prefix = ph, im_objects = objects, im_published_at = published,
                 im_previous_manifest_key = opt_of previous_key, im_previous_manifest_sha256 = opt_of previous_sha\<rparr>))))))))))"

definition manifest_to_document :: "manifest \<Rightarrow> pyval res" where
  "manifest_to_document m =
     bindE (format_published (im_published_at m)) (\<lambda>published.
     Inr (PDict (sdict
       [(''dataset'', PStr (im_dataset m)), (''format_version'', PInt 1),
        (''objects'', PList (map object_to_document (im_objects m))),
        (''physical_prefix'', PStr (im_physical_prefix m)), (''plan_id'', PStr (im_plan_id m)),
        (''previous_manifest_key'', opt_str (im_previous_manifest_key m)),
        (''previous_manifest_sha256'', opt_str (im_previous_manifest_sha256 m)),
        (''publication_id'', PStr (im_publication_id m)), (''published_at'', PStr published),
        (''raw_registry_sha256'', PStr (im_raw_registry_sha256 m)), (''scale'', PStr (im_scale m)),
        (''selected_plan_sha256'', PStr (im_selected_plan_sha256 m))])))"

definition manifest_to_bytes :: "(rat option \<Rightarrow> string) \<Rightarrow> manifest \<Rightarrow> string res" where
  "manifest_to_bytes fr m = bindE (manifest_to_document m) (\<lambda>d. Inr (canonical_json fr d))"

definition manifest_fields :: "string list" where
  "manifest_fields =
     [''dataset'', ''format_version'', ''objects'', ''physical_prefix'', ''plan_id'', ''previous_manifest_key'',
      ''previous_manifest_sha256'', ''publication_id'', ''published_at'', ''raw_registry_sha256'', ''scale'',
      ''selected_plan_sha256'']"

definition manifest_from_bytes :: "(rat option \<Rightarrow> string) \<Rightarrow> string \<Rightarrow> manifest res" where
  "manifest_from_bytes fr body =
     bindE (decode_canonical_mapping fr body) (\<lambda>d.
     if \<not> keys_exactly d manifest_fields then Inl value_error
     else case dget_none d ''objects'' of
            PList objects \<Rightarrow>
              bindE (mapE object_from_document objects) (\<lambda>items.
              bindE (parse_published (dget_none d ''published_at'')) (\<lambda>published.
              make_manifest (dget_none d ''format_version'') (dget_none d ''dataset'') (dget_none d ''scale'')
                (dget_none d ''raw_registry_sha256'') (dget_none d ''selected_plan_sha256'') (dget_none d ''plan_id'')
                (dget_none d ''publication_id'') (dget_none d ''physical_prefix'') items published
                (dget_none d ''previous_manifest_key'') (dget_none d ''previous_manifest_sha256'')))
          | _ \<Rightarrow> Inl value_error)"

section \<open>Pointers\<close>

record active_pointer =
  ap_dataset :: string
  ap_manifest_key :: string
  ap_manifest_sha256 :: string

definition make_pointer :: "pyval \<Rightarrow> pyval \<Rightarrow> pyval \<Rightarrow> pyval \<Rightarrow> active_pointer res" where
  "make_pointer format_version name key digest =
     (if format_version \<noteq> PInt 1 then Inl value_error
      else bindE (immutable_manifest_key name digest) (\<lambda>expected.
           if key \<noteq> PStr expected then Inl value_error
           else Inr \<lparr>ap_dataset = str_val name, ap_manifest_key = expected, ap_manifest_sha256 = str_val digest\<rparr>))"

definition pointer_to_document :: "active_pointer \<Rightarrow> pyval" where
  "pointer_to_document p = PDict (sdict
     [(''format_version'', PInt 1), (''dataset'', PStr (ap_dataset p)), (''manifest_key'', PStr (ap_manifest_key p)),
      (''manifest_sha256'', PStr (ap_manifest_sha256 p))])"

definition pointer_to_bytes :: "(rat option \<Rightarrow> string) \<Rightarrow> active_pointer \<Rightarrow> string" where
  "pointer_to_bytes fr p = canonical_json fr (pointer_to_document p)"

definition pointer_from_bytes :: "(rat option \<Rightarrow> string) \<Rightarrow> string \<Rightarrow> active_pointer res" where
  "pointer_from_bytes fr body =
     bindE (decode_canonical_mapping fr body) (\<lambda>d.
     if \<not> keys_exactly d [''format_version'', ''dataset'', ''manifest_key'', ''manifest_sha256''] then Inl value_error
     else make_pointer (dget_none d ''format_version'') (dget_none d ''dataset'') (dget_none d ''manifest_key'')
            (dget_none d ''manifest_sha256''))"

end
