(* ===== verification/Resolution.thy ===== *)
theory Resolution
  imports Publication
begin

text \<open>
  \<^verbatim>\<open>datasets/publication.py\<close>, second part: resolving the active publication of a dataset, rolling
  back to a historical one, and the exact writes of the two control documents.  \<open>pub_env\<close> adds to
  the object store what lies outside the modelled code: the temporary file into which a resolved
  object is captured (\<open>pb_tempfile\<close> the exception its creation raises, \<open>pb_local\<close> the number
  of chunks after which writing to it fails), whether a response body can be closed, and the verdict
  of the physical schema inspection on the captured file, which is named by its digest.
\<close>

record 'w pub_env =
  pb_ds :: "'w ds_env"
  pb_closable :: "pyval \<Rightarrow> bool"
  pb_tempfile :: "exn option"
  pb_local :: "nat option"
  pb_schema :: "string \<Rightarrow> schema_contract \<Rightarrow> unit res"

abbreviation pb_float :: "'w pub_env \<Rightarrow> rat option \<Rightarrow> string" where
  "pb_float pe \<equiv> ds_float_repr (pb_ds pe)"

section \<open>A manifest against a plan\<close>

definition mismatch :: "string \<Rightarrow> pyval \<Rightarrow> pyval \<Rightarrow> exn" where
  "mismatch field expected actual = LockMismatch field expected actual"

definition exn_name :: "exn \<Rightarrow> string" where
  \<comment> \<open>\<^verbatim>\<open>type(error).__name__\<close> of a \<^verbatim>\<open>TypeError\<close> or \<^verbatim>\<open>ValueError\<close>\<close>
  "exn_name e = (case e of OtherExn n \<Rightarrow> n | _ \<Rightarrow> ''LockMismatch'')"

definition expected_item :: "scale_plan \<Rightarrow> string \<Rightarrow> plan_output \<Rightarrow> manifest_object res" where
  "expected_item plan prefix x =
     bindE (item_of (ds_schemas (sp_dataset plan)) (po_schema_id x)) (\<lambda>schema.
     make_manifest_object (PStr (po_object_name x)) (PStr (prefix @ ''/'' @ po_object_name x)) (PInt (po_size_bytes x))
       (PStr (po_sha256 x)) (PStr (po_schema_id x)) (PStr (sc_fingerprint schema)))"

fun validate_items :: "scale_plan \<Rightarrow> string \<Rightarrow> manifest_object list \<Rightarrow> plan_output list \<Rightarrow> unit res" where
  "validate_items plan prefix (m # ms) (x # xs) =
     bindE (expected_item plan prefix x) (\<lambda>expected.
     if m \<noteq> expected
     then Inl (mismatch (''object:'' @ po_object_name x) (object_to_document expected) (object_to_document m))
     else validate_items plan prefix ms xs)"
| "validate_items plan prefix [] [] = Inr ()"
| "validate_items plan prefix _ _ = Inl value_error" \<comment> \<open>\<^verbatim>\<open>zip(..., strict=True)\<close>\<close>

definition validate_manifest_for_plan :: "(rat option \<Rightarrow> string) \<Rightarrow> manifest \<Rightarrow> scale_plan \<Rightarrow> unit res" where
  "validate_manifest_for_plan fr m plan =
     (let ds = sp_dataset plan; outputs = selected_outputs plan
      in bindE (plan_id fr plan) (\<lambda>expected_plan_id.
         if im_dataset m \<noteq> ds_name ds then Inl (mismatch ''dataset'' (PStr (ds_name ds)) (PStr (im_dataset m)))
         else if im_scale m \<noteq> sp_scale plan then Inl (mismatch ''scale'' (PStr (sp_scale plan)) (PStr (im_scale m)))
         else if im_plan_id m \<noteq> expected_plan_id then Inl (mismatch ''plan_id'' (PStr expected_plan_id) (PStr (im_plan_id m)))
         else
           bindE (publication_prefix fr plan (im_publication_id m)) (\<lambda>expected_prefix.
           if im_physical_prefix m \<noteq> expected_prefix
           then Inl (mismatch ''physical_prefix'' (PStr expected_prefix) (PStr (im_physical_prefix m)))
           else if map mo_object_name (im_objects m) \<noteq> map po_object_name outputs
           then Inl (mismatch ''object_names'' (PTuple (map (\<lambda>x. PStr (po_object_name x)) outputs))
                       (PTuple (map (\<lambda>x. PStr (mo_object_name x)) (im_objects m))))
           else validate_items plan expected_prefix (im_objects m) outputs)))"

section \<open>Resolving objects\<close>

record resolved_object =
  ro_object_name :: string
  ro_uri :: string
  ro_size_bytes :: int
  ro_sha256 :: string
  ro_schema_id :: string

record resolved_dataset =
  rd_dataset :: string
  rd_scale :: string
  rd_plan_id :: string
  rd_manifest_sha256 :: string
  rd_publication_id :: string
  rd_objects :: "resolved_object list"

fun capture_item :: "exn + pyval \<Rightarrow> exn + pyval" where
  \<comment> \<open>\<^verbatim>\<open>_CapturingBody.read\<close>\<close>
  "capture_item (Inl e) = Inl (if is_ambiguous e \<or> e = Interrupt then e else AmbiguousWrite (Some e))"
| "capture_item (Inr (PBytes c)) = Inr (PBytes c)"
| "capture_item (Inr _) = Inl (AmbiguousWrite None)"

definition capture_stream :: "nat option \<Rightarrow> body_stream \<Rightarrow> body_stream" where
  "capture_stream k s =
     map capture_item (case k of None \<Rightarrow> s | Some n \<Rightarrow> take n s @ [Inl (OtherExn ''OSError'')])"

definition capturing_call :: "'w pub_env \<Rightarrow> ds_call \<Rightarrow> ('w, pyval) act" where
  \<comment> \<open>\<^verbatim>\<open>_CapturingClient.get_object\<close>\<close>
  "capturing_call pe c =
     bindA (ds_s3 (pb_ds pe) c) (\<lambda>response.
     case (case response of PDict d \<Rightarrow> dget d ''Body'' | _ \<Rightarrow> None) of
       None \<Rightarrow> retA response
     | Some body \<Rightarrow>
         if ds_body (pb_ds pe) body \<noteq> None \<and> pb_closable pe body then retA response
         else if pb_closable pe body then
           (case ds_close (pb_ds pe) body of
              Some e \<Rightarrow> raiseA (if e = Interrupt then e else AmbiguousWrite (Some e))
            | None \<Rightarrow> raiseA (AmbiguousWrite None))
         else raiseA (AmbiguousWrite None))"

definition capturing :: "'w pub_env \<Rightarrow> 'w ds_env" where
  "capturing pe =
     (pb_ds pe)\<lparr>ds_s3 := capturing_call pe,
                ds_body := (\<lambda>v. map_option (capture_stream (pb_local pe)) (ds_body (pb_ds pe) v))\<rparr>"

definition item_expected :: "manifest_object \<Rightarrow> expected_object" where
  "item_expected x =
     \<lparr>xo_object_name = mo_object_name x, xo_size_bytes = mo_size_bytes x, xo_sha256 = mo_sha256 x, xo_schema_id = mo_schema_id x\<rparr>"

definition verify_resolved_object :: "'w pub_env \<Rightarrow> scale_plan \<Rightarrow> string \<Rightarrow> manifest_object \<Rightarrow> ('w, resolved_object) act" where
  "verify_resolved_object pe plan bucket x =
     seqA
       (mapexnA
          (seqA (case pb_tempfile pe of None \<Rightarrow> retA () | Some e \<Rightarrow> raiseA e) (
           bindA (stream_verify_object (capturing pe) bucket (mo_key x) (item_expected x)) (\<lambda>snapshot.
           bindA (liftA (item_of (ds_schemas (sp_dataset plan)) (mo_schema_id x))) (\<lambda>schema.
           liftA (pb_schema pe (os_sha256 snapshot) schema)))))
          (\<lambda>e. if e = OtherExn ''OSError'' then AmbiguousWrite (Some e) else e))
       (retA \<lparr>ro_object_name = mo_object_name x, ro_uri = ''s3://'' @ bucket @ ''/'' @ mo_key x,
              ro_size_bytes = mo_size_bytes x, ro_sha256 = mo_sha256 x, ro_schema_id = mo_schema_id x\<rparr>)"

section \<open>Manifests and pointers in the store\<close>

definition decode_manifest :: "(rat option \<Rightarrow> string) \<Rightarrow> string \<Rightarrow> string \<Rightarrow> manifest res" where
  \<comment> \<open>the digest check and the decoder, as \<^verbatim>\<open>_read_manifest\<close> and \<^verbatim>\<open>_read_historical_manifest\<close> combine them\<close>
  "decode_manifest fr digest body = (if sha256 body \<noteq> digest then Inl value_error else manifest_from_bytes fr body)"

definition read_manifest :: "'w pub_env \<Rightarrow> scale_plan \<Rightarrow> string \<Rightarrow> string \<Rightarrow> ('w, manifest) act" where
  "read_manifest pe plan digest bucket =
     bindA (liftA (immutable_manifest_key (PStr (ds_name (sp_dataset plan))) (PStr digest))) (\<lambda>key.
     bindA (read_control_object (pb_ds pe) bucket key) (\<lambda>snapshot.
     liftA (catchE (decode_manifest (pb_float pe) digest (cs_body snapshot))
              (\<lambda>e. if is_type_or_value e
                   then mismatch ''manifest'' (PStr ''canonical manifest matching its content-addressed key'') (PStr (exn_name e))
                   else e))))"

definition resolve_manifest_with_document ::
  "'w pub_env \<Rightarrow> scale_plan \<Rightarrow> string \<Rightarrow> string \<Rightarrow> ('w, resolved_dataset \<times> manifest) act" where
  "resolve_manifest_with_document pe plan digest bucket =
     bindA (read_manifest pe plan digest bucket) (\<lambda>m.
     bindA (liftA (validate_manifest_for_plan (pb_float pe) m plan)) (\<lambda>_.
     bindA (mapA (verify_resolved_object pe plan bucket) (im_objects m)) (\<lambda>objects.
     retA (\<lparr>rd_dataset = ds_name (sp_dataset plan), rd_scale = sp_scale plan, rd_plan_id = im_plan_id m,
            rd_manifest_sha256 = digest, rd_publication_id = im_publication_id m, rd_objects = objects\<rparr>, m))))"

definition resolve_active_dataset ::
  "'w pub_env \<Rightarrow> (string \<times> dataset) list \<Rightarrow> string \<Rightarrow> string \<Rightarrow> string \<Rightarrow> ('w, resolved_dataset) act" where
  "resolve_active_dataset pe registry dataset_id expected_scale bucket =
     bindA (liftA (item_of registry dataset_id)) (\<lambda>ds.
     bindA (liftA (resolve_scale ds expected_scale)) (\<lambda>plan.
     bindA (liftA (active_pointer_key dataset_id)) (\<lambda>key.
     bindA (read_control_object (pb_ds pe) bucket key) (\<lambda>snapshot.
     bindA (liftA (catchE (pointer_from_bytes (pb_float pe) (cs_body snapshot))
                     (\<lambda>e. if is_type_or_value e
                          then mismatch ''pointer'' (PStr ''canonical active pointer'') (PStr (exn_name e)) else e))) (\<lambda>pointer.
     if ap_dataset pointer \<noteq> dataset_id
     then raiseA (mismatch ''dataset'' (PStr dataset_id) (PStr (ap_dataset pointer)))
     else bindA (resolve_manifest_with_document pe plan (ap_manifest_sha256 pointer) bucket) (\<lambda>(resolved, _). retA resolved))))))"

record pointer_state =
  ps_snapshot :: "control_snapshot option"
  ps_pointer :: "active_pointer option"
  ps_corruption :: "exn option"

definition is_missing :: "pyval \<Rightarrow> bool res" where
  \<comment> \<open>a list or a mapping as error code is unhashable\<close>
  "is_missing r =
     (let code = (case dget_or (dict_val r) ''Error'' (PDict []) of PDict m \<Rightarrow> dget_none m ''Code'' | _ \<Rightarrow> PNone);
          status = (case dget_or (dict_val r) ''ResponseMetadata'' (PDict []) of
                      PDict m \<Rightarrow> dget_none m ''HTTPStatusCode'' | _ \<Rightarrow> PNone)
      in if is_list code \<or> is_dict code then Inl (OtherExn ''TypeError'')
         else Inr (code \<in> PStr ` {''404'', ''NoSuchKey'', ''NotFound''} \<or> py_eq status (PInt 404)))"

fun missing_cause :: "exn \<Rightarrow> bool res" where
  \<comment> \<open>whether the exception, or the cause of an ambiguous read, is a missing object\<close>
  "missing_cause (ClientError r) = is_missing r"
| "missing_cause (AmbiguousWrite (Some (ClientError r))) = is_missing r"
| "missing_cause _ = Inr False"

definition read_pointer_state :: "'w pub_env \<Rightarrow> scale_plan \<Rightarrow> string \<Rightarrow> ('w, pointer_state) act" where
  "read_pointer_state pe plan bucket =
     bindA (liftA (active_pointer_key (ds_name (sp_dataset plan)))) (\<lambda>key.
     tryA (read_control_object (pb_ds pe) bucket key)
       (\<lambda>e. bindA (liftA (missing_cause e)) (\<lambda>missing.
            if missing then retA \<lparr>ps_snapshot = None, ps_pointer = None, ps_corruption = None\<rparr> else raiseA e))
       (\<lambda>snapshot.
          case pointer_from_bytes (pb_float pe) (cs_body snapshot) of
            Inr p \<Rightarrow>
              if ap_dataset p \<noteq> ds_name (sp_dataset plan)
              then retA \<lparr>ps_snapshot = Some snapshot, ps_pointer = None, ps_corruption = Some value_error\<rparr>
              else retA \<lparr>ps_snapshot = Some snapshot, ps_pointer = Some p, ps_corruption = None\<rparr>
          | Inl e \<Rightarrow>
              if is_type_or_value e
              then retA \<lparr>ps_snapshot = Some snapshot, ps_pointer = None, ps_corruption = Some e\<rparr> else raiseA e))"

definition verify_pointer_state_with_document ::
  "'w pub_env \<Rightarrow> scale_plan \<Rightarrow> pointer_state \<Rightarrow> string \<Rightarrow> ('w, resolved_dataset \<times> manifest) act" where
  "verify_pointer_state_with_document pe plan st bucket =
     (case ps_corruption st of
        Some e \<Rightarrow> raiseA (mismatch ''pointer'' (PStr ''canonical active pointer'') (PStr (exn_name e)))
      | None \<Rightarrow>
          (case ps_pointer st of
             None \<Rightarrow> raiseA (mismatch ''pointer'' (PStr ''existing active pointer'') (PStr ''missing''))
           | Some p \<Rightarrow> resolve_manifest_with_document pe plan (ap_manifest_sha256 p) bucket))"

section \<open>History\<close>

definition read_historical_manifest :: "'w pub_env \<Rightarrow> string \<Rightarrow> string \<Rightarrow> string \<Rightarrow> ('w, manifest) act" where
  "read_historical_manifest pe name digest bucket =
     bindA (liftA (immutable_manifest_key (PStr name) (PStr digest))) (\<lambda>key.
     bindA (read_control_object (pb_ds pe) bucket key) (\<lambda>snapshot.
     liftA (decode_manifest (pb_float pe) digest (cs_body snapshot))))"

definition validate_historical_manifest :: "manifest \<Rightarrow> scale_plan \<Rightarrow> unit res" where
  "validate_historical_manifest m plan =
     (if im_dataset m \<noteq> ds_name (sp_dataset plan) then Inl value_error
      else if im_physical_prefix m \<noteq>
        ds_landing_prefix (sp_dataset plan) @ ''/_generations/'' @ im_selected_plan_sha256 m @ ''/'' @ im_publication_id m
      then Inl value_error
      else guardE (\<not> list_all (\<lambda>x. startswith (mo_key x) (im_physical_prefix m @ ''/'') \<and>
                                mo_key x = im_physical_prefix m @ ''/'' @ mo_object_name x) (im_objects m)) value_error)"

definition max_history_depth :: nat where "max_history_depth = 1000"
definition max_list_pages :: int where "max_list_pages = 10000"

record inventory_budget =
  ib_requests :: int
  ib_prefixes :: int
  ib_keys :: int

definition spend_request :: "inventory_budget \<Rightarrow> inventory_budget" where
  "spend_request b = b\<lparr>ib_requests := ib_requests b + 1\<rparr>"

definition budget_request :: "inventory_budget \<Rightarrow> inventory_budget res" where
  "budget_request b =
     (if ib_requests (spend_request b) > max_list_pages then Inl (AmbiguousWrite None) else Inr (spend_request b))"

definition budget_request_opt :: "inventory_budget option \<Rightarrow> inventory_budget option res" where
  \<comment> \<open>\<^verbatim>\<open>if budget is not None: budget.request()\<close>\<close>
  "budget_request_opt b = (case b of None \<Rightarrow> Inr None | Some x \<Rightarrow> bindE (budget_request x) (\<lambda>y. Inr (Some y)))"

record historical_manifest =
  hm_key :: string
  hm_digest :: string
  hm_manifest :: manifest

fun history_loop ::
  "nat \<Rightarrow> 'w pub_env \<Rightarrow> scale_plan \<Rightarrow> string \<Rightarrow> string option \<Rightarrow> string option \<Rightarrow> historical_manifest list \<Rightarrow> inventory_budget option \<Rightarrow>
   ('w, historical_manifest list \<times> inventory_budget option) act" where
  \<comment> \<open>\<open>n\<close> turns of the loop left; \<^verbatim>\<open>seen\<close> is the set of digests of the history so far\<close>
  "history_loop 0 pe plan bucket key digest history budget =
     raiseA (mismatch ''history'' (PStr ''at most 1000 manifests'') (PStr ''exceeded''))"
| "history_loop (Suc n) pe plan bucket key digest history budget =
     (case (key, digest) of
        (None, None) \<Rightarrow> retA (history, budget)
      | (Some k, Some d) \<Rightarrow>
          bindA (liftA (immutable_manifest_key (PStr (ds_name (sp_dataset plan))) (PStr d))) (\<lambda>expected.
          if k \<noteq> expected then raiseA (mismatch ''history'' (PStr ''coupled manifest key/digest'') (PStr ''invalid''))
          else if d \<in> set (map hm_digest history)
          then raiseA (mismatch ''history'' (PStr ''acyclic manifest chain'') (PStr d))
          else
            bindA (mapexnA
                     (bindA (liftA (budget_request_opt budget)) (\<lambda>budget'.
                      bindA (read_historical_manifest pe (ds_name (sp_dataset plan)) d bucket) (\<lambda>m.
                      bindA (liftA (validate_historical_manifest m plan)) (\<lambda>_. retA (m, budget')))))
                     (\<lambda>e. if is_type_or_value e
                          then mismatch ''history'' (PStr ''canonical self-consistent historical manifest'') (PStr (exn_name e))
                          else e)) (\<lambda>(m, budget').
            history_loop n pe plan bucket (im_previous_manifest_key m) (im_previous_manifest_sha256 m)
              (history @ [\<lparr>hm_key = k, hm_digest = d, hm_manifest = m\<rparr>]) budget'))
      | _ \<Rightarrow> raiseA (mismatch ''history'' (PStr ''coupled manifest key/digest'') (PStr ''invalid'')))"

definition manifest_history ::
  "'w pub_env \<Rightarrow> scale_plan \<Rightarrow> manifest \<Rightarrow> string \<Rightarrow> inventory_budget option \<Rightarrow> ('w, historical_manifest list \<times> inventory_budget option) act" where
  "manifest_history pe plan current bucket budget =
     history_loop max_history_depth pe plan bucket (im_previous_manifest_key current) (im_previous_manifest_sha256 current) [] budget"

section \<open>Exact control writes\<close>

definition put_control_tracked ::
  "'w ds_env \<Rightarrow> string \<Rightarrow> string \<Rightarrow> string \<Rightarrow> string option \<Rightarrow> bool \<Rightarrow> ('w, bool) act" where
  \<comment> \<open>\<^verbatim>\<open>put_control_object\<close> through a \<^verbatim>\<open>_WriteTrackingClient\<close>: whether the write itself failed\<close>
  "put_control_tracked env bucket key body if_match if_none_match =
     bindA (liftA (canonical_control_body env body)) (\<lambda>intended.
     bindA (put_control_request env bucket key intended if_match if_none_match) (\<lambda>(_, response). retA (response = None)))"

definition put_exact :: "'w ds_env \<Rightarrow> string \<Rightarrow> string \<Rightarrow> string \<Rightarrow> string option \<Rightarrow> bool \<Rightarrow> ('w, bool) act" where
  \<comment> \<open>the common body of \<^verbatim>\<open>_put_manifest_exact\<close> and \<^verbatim>\<open>_put_pointer_exact\<close>\<close>
  "put_exact env bucket key body if_match if_none_match =
     tryA (put_control_tracked env bucket key body if_match if_none_match)
       (\<lambda>e. if is_ambiguous e
            then bindA (read_control_object env bucket key) (\<lambda>observed.
                 seqA (guardA (cs_body observed \<noteq> body) ConditionalConflict) (retA True))
            else raiseA e)
       retA"

definition put_manifest_exact :: "'w pub_env \<Rightarrow> string \<Rightarrow> string \<Rightarrow> string \<Rightarrow> ('w, bool) act" where
  "put_manifest_exact pe bucket key body = put_exact (pb_ds pe) bucket key body None True"

definition put_pointer_exact :: "'w pub_env \<Rightarrow> string \<Rightarrow> string \<Rightarrow> string \<Rightarrow> pointer_state \<Rightarrow> ('w, bool) act" where
  "put_pointer_exact pe bucket key body st =
     (case ps_snapshot st of
        None \<Rightarrow> put_exact (pb_ds pe) bucket key body None True
      | Some s \<Rightarrow> put_exact (pb_ds pe) bucket key body (Some (cs_etag s)) False)"

definition assert_lease_current :: "'w pub_env \<Rightarrow> lease \<Rightarrow> ('w, unit) act" where
  "assert_lease_current pe l =
     bindA (mapexnA (read_control_object (pb_ds pe) (ls_bucket l) (ls_key l))
              (\<lambda>e. if is_ambiguous e then (case missing_cause e of Inl t \<Rightarrow> t | Inr _ \<Rightarrow> ConditionalConflict) else e))
       (\<lambda>snapshot.
     guardA (cs_etag snapshot \<noteq> ls_etag l \<or>
             cs_body snapshot \<noteq> canonical_json (pb_float pe) (lease_document (l\<lparr>ls_state := ''active''\<rparr>)) \<or>
             instant (cs_server_date snapshot) \<ge> instant (ls_expires_at l)) ConditionalConflict)"

definition object_metadata :: "(rat option \<Rightarrow> string) \<Rightarrow> scale_plan \<Rightarrow> string \<Rightarrow> expected_object \<Rightarrow> pydict res" where
  "object_metadata fr plan publication_id x =
     bindE (plan_id fr plan) (\<lambda>p. Inr (sdict
       [(''object-name'', PStr (xo_object_name x)), (''plan-id'', PStr p), (''publication-id'', PStr publication_id),
        (''sha256'', PStr (xo_sha256 x)), (''size-bytes'', PStr (dec_int (xo_size_bytes x)))]))"

definition verify_exact_immutable :: "'w pub_env \<Rightarrow> string \<Rightarrow> string \<Rightarrow> expected_object \<Rightarrow> pydict \<Rightarrow> ('w, unit) act" where
  "verify_exact_immutable pe bucket key x metadata =
     bindA (mapexnA (stream_verify_object (pb_ds pe) bucket key x)
              (\<lambda>e. if is_lock_mismatch e then ConditionalConflict else e)) (\<lambda>snapshot.
     guardA (\<not> py_eq (PDict (os_metadata snapshot)) (PDict metadata)) ConditionalConflict)"

definition build_manifest ::
  "'w pub_env \<Rightarrow> scale_plan \<Rightarrow> string \<Rightarrow> verified_file list \<Rightarrow> pointer_state \<Rightarrow> pyval \<Rightarrow> ('w, manifest) act" where
  "build_manifest pe plan publication_id files active raw_registry_sha256 =
     bindA (liftA (publication_prefix (pb_float pe) plan publication_id)) (\<lambda>prefix.
     bindA (liftA (require_sha256 raw_registry_sha256)) (\<lambda>raw.
     bindA (liftA (plan_id (pb_float pe) plan)) (\<lambda>p.
     bindA (liftA (mapE (\<lambda>f. let x = vf_expected f
                             in bindE (item_of (ds_schemas (sp_dataset plan)) (xo_schema_id x)) (\<lambda>schema.
                                make_manifest_object (PStr (xo_object_name x)) (PStr (prefix @ ''/'' @ xo_object_name x))
                                  (PInt (xo_size_bytes x)) (PStr (xo_sha256 x)) (PStr (xo_schema_id x)) (PStr (sc_fingerprint schema))))
                   files)) (\<lambda>objects.
     bindA (ds_utcnow (pb_ds pe)) (\<lambda>now.
     liftA (make_manifest (PInt 1) (PStr (ds_name (sp_dataset plan))) (PStr (sp_scale plan)) (PStr raw) (PStr p) (PStr p)
              (PStr publication_id) (PStr prefix) objects
              \<lparr>dt_secs = now div 1000000, dt_micro = 0, dt_offset = Some 0\<rparr>
              (opt_str (map_option ap_manifest_key (ps_pointer active)))
              (opt_str (map_option ap_manifest_sha256 (ps_pointer active)))))))))"

section \<open>Rollback\<close>

record rollback_outcome =
  rb_resolved :: resolved_dataset
  rb_manifest :: manifest
  rb_previous_manifest :: manifest
  rb_pointer_state :: pointer_state
  rb_reconciled :: bool

definition rollback_transaction :: "'w pub_env \<Rightarrow> scale_plan \<Rightarrow> string \<Rightarrow> string \<Rightarrow> bool \<Rightarrow> ('w, rollback_outcome) act" where
  "rollback_transaction pe plan digest bucket dry_run =
     (let name = ds_name (sp_dataset plan)
      in bindA (read_pointer_state pe plan bucket) (\<lambda>current.
         case (ps_corruption current, ps_pointer current) of
           (None, Some p) \<Rightarrow>
             bindA (read_historical_manifest pe name (ap_manifest_sha256 p) bucket) (\<lambda>previous.
             bindA (liftA (catchE (validate_historical_manifest previous plan)
                             (\<lambda>e. if is_type_or_value e
                                  then mismatch ''pointer'' (PStr ''canonical self-consistent current manifest'') (PStr (exn_name e))
                                  else e))) (\<lambda>_.
             bindA (resolve_manifest_with_document pe plan digest bucket) (\<lambda>(resolved, m).
             if dry_run
             then retA \<lparr>rb_resolved = resolved, rb_manifest = m, rb_previous_manifest = previous, rb_pointer_state = current,
                       rb_reconciled = False\<rparr>
             else
               bindA (liftA (bindE (immutable_manifest_key (PStr name) (PStr digest)) (\<lambda>k.
                             make_pointer (PInt 1) (PStr name) (PStr k) (PStr digest)))) (\<lambda>pointer.
               bindA (liftA (active_pointer_key name)) (\<lambda>key.
               bindA (put_pointer_exact pe bucket key (pointer_to_bytes (pb_float pe) pointer) current) (\<lambda>reconciled.
               retA \<lparr>rb_resolved = resolved, rb_manifest = m, rb_previous_manifest = previous, rb_pointer_state = current,
                     rb_reconciled = reconciled\<rparr>))))))
         | _ \<Rightarrow> bindA (verify_pointer_state_with_document pe plan current bucket) (\<lambda>_. raiseA (OtherExn ''AssertionError''))))"

definition rollback_manifest ::
  "'w pub_env \<Rightarrow> (string \<times> dataset) list \<Rightarrow> string \<Rightarrow> string \<Rightarrow> pyval \<Rightarrow> string \<Rightarrow> ('w, resolved_dataset) act" where
  "rollback_manifest pe registry dataset_id expected_scale target bucket =
     bindA (liftA (require_sha256 target)) (\<lambda>digest.
     bindA (liftA (item_of registry dataset_id)) (\<lambda>ds.
     bindA (liftA (resolve_scale ds expected_scale)) (\<lambda>plan.
     bindA (rollback_transaction pe plan digest bucket False) (\<lambda>out. retA (rb_resolved out)))))"

end
