(* ===== verification/PublicationCodec.thy ===== *)
theory PublicationCodec
  imports Publication LockingFacts LeaseCodec
begin

text \<open>
  The codecs of the two control documents.  Whatever a reader accepts is exactly what the writer
  writes for the record it returns, so a digest of the bytes identifies the record; and what the
  writer writes for a valid record the reader accepts as that record.
\<close>

section \<open>Dictionaries up to order\<close>

lemma sorted_key_unique:
  assumes "sorted (map f xs)" "sorted (map f ys)" "distinct (map f xs)" "distinct (map f ys)" "set xs = set ys"
  shows "xs = ys"
proof -
  have m: "map f xs = map f ys" using assms by (intro sorted_distinct_set_unique) auto
  have "inj_on f (set xs)" using assms(3) by (simp add: distinct_map)
  then show ?thesis using assms(5) by (intro map_inj_on [OF m]) simp
qed

definition named :: "pydict \<Rightarrow> bool" where
  \<comment> \<open>string keys, no key twice\<close>
  "named d \<longleftrightarrow> distinct (map fst d) \<and> list_all is_str (map fst d)"

lemma dget_in: "named d \<Longrightarrow> (PStr k, v) \<in> set d \<longleftrightarrow> dget d k = Some v"
  by (induction d k rule: dget.induct) (auto simp: named_def image_iff)

lemma named_set: "named d \<Longrightarrow> (x, v) \<in> set d \<longleftrightarrow> (\<exists>k. x = PStr k \<and> dget d k = Some v)"
proof
  assume "named d" "(x, v) \<in> set d"
  moreover from this have "is_str x" by (auto simp: named_def list_all_iff)
  ultimately show "\<exists>k. x = PStr k \<and> dget d k = Some v" by (auto simp: is_str_iff dget_in)
qed (auto simp: dget_in)

lemma named_keys_distinct: "named d \<Longrightarrow> distinct (map (\<lambda>(k, _). str_val k) d)"
proof (induction d)
  case (Cons p d)
  obtain k v where p: "p = (PStr k, v)" using Cons.prems by (cases p) (auto simp: named_def is_str_iff)
  have "k \<noteq> str_val x" if "(x, u) \<in> set d" for x u
  proof
    assume "k = str_val x"
    moreover have "is_str x" using that Cons.prems by (auto simp: named_def list_all_iff)
    ultimately have "PStr k = x" by simp
    then show False using that Cons.prems p by (force simp: named_def)
  qed
  then show ?case using Cons p by (auto simp: named_def)
qed simp

lemma sort_keys_ext:
  assumes "named d" "named e" "\<And>k. map_option sort_keys (dget d k) = map_option sort_keys (dget e k)"
  shows "sort_keys (PDict d) = sort_keys (PDict e)"
proof -
  let ?s = "\<lambda>d. map (\<lambda>(k, v). (k, sort_keys v)) d" and ?f = "\<lambda>(k, _ :: pyval). str_val k"
  have k: "map ?f (?s d) = map ?f d" for d :: pydict by (simp add: case_prod_unfold comp_def)
  have dist: "distinct (map ?f (sort_key ?f (?s d)))" if "named d" for d
  proof -
    have "distinct (map ?f (?s d))" unfolding k by (rule named_keys_distinct [OF that])
    then show ?thesis by (simp only: distinct_map distinct_sort set_sort)
  qed
  have "set (?s d) \<subseteq> set (?s e)" if nd: "named d" and ne: "named e" and eq: "\<And>k. map_option sort_keys (dget d k) = map_option sort_keys (dget e k)" for d e
  proof
    fix p assume "p \<in> set (?s d)"
    then obtain x v where p: "p = (x, sort_keys v)" "(x, v) \<in> set d" by auto
    then obtain q where q: "x = PStr q" "dget d q = Some v" using named_set [OF nd] by blast
    with eq [of q] obtain u where "dget e q = Some u" "sort_keys u = sort_keys v" by (cases "dget e q") auto
    then show "p \<in> set (?s e)" using p q dget_in [OF ne, of q u] by force
  qed
  from this [OF assms] this [OF assms(2,1)] assms(3) have "set (?s d) = set (?s e)" by (metis subset_antisym)
  then have "sort_key ?f (?s d) = sort_key ?f (?s e)"
    by (intro sorted_key_unique [where f = ?f]) (simp_all only: set_sort sorted_sort_key dist assms)
  then show ?thesis by simp
qed

lemma named_sdict: "distinct (map fst ps) \<Longrightarrow> named (sdict ps)"
proof (induction ps)
  case (Cons p ps)
  obtain k v where p: "p = (k, v)" by (cases p)
  have "PStr k \<notin> set (map fst (sdict ps))" using Cons.prems p by (force simp: sdict_def)
  then show ?case using Cons p by (simp add: named_def)
qed (simp add: named_def)

lemma exact_named: "keys_exactly d ks \<Longrightarrow> distinct (map fst d) \<Longrightarrow> named d"
  by (auto simp: named_def keys_exactly_def dkeys_def list_all_iff)

lemma sort_keys_exact:
  assumes "keys_exactly d (map fst ps)" "distinct (map fst d)" "distinct (map fst ps)"
    and "list_all (\<lambda>(k, v). sort_keys (dget_none d k) = sort_keys v) ps"
  shows "sort_keys (PDict d) = sort_keys (PDict (sdict ps))"
proof (rule sort_keys_ext [OF exact_named [OF assms(1,2)] named_sdict [OF assms(3)]])
  fix k
  show "map_option sort_keys (dget d k) = map_option sort_keys (dget (sdict ps) k)"
  proof (cases "map_of ps k")
    case None
    then have "k \<notin> set (map fst ps)" by (simp add: map_of_eq_None_iff)
    then have "dget d k = None" using assms(1) by (auto simp: dget_none_iff keys_exactly_def)
    then show ?thesis using None by (simp add: dget_sdict)
  next
    case (Some v)
    then have m: "(k, v) \<in> set ps" by (rule map_of_SomeD)
    then have "k \<in> set (map fst ps)" by force
    then have "PStr k \<in> set (dkeys d)" using assms(1) unfolding keys_exactly_def by blast
    then obtain u where "dget d k = Some u" using dget_none_iff [of d k] by auto
    moreover have "sort_keys (dget_none d k) = sort_keys v" using assms(4) m by (auto simp: list_all_iff)
    ultimately show ?thesis using Some by (simp add: dget_sdict dget_none_def)
  qed
qed

lemma canonical_json_sorted: "sort_keys v = sort_keys w \<Longrightarrow> canonical_json fr v = canonical_json fr w"
  by (simp add: canonical_json_def)

interpretation strict_plain: object_reader plain_object "Inl e" for e
proof unfold_locales
  fix ps v assume "plain_object ps = Inr v" "list_all (\<lambda>(k, x). is_str k \<and> keys_distinct x) ps"
  then show "keys_distinct v" using foldl_dset_distinct [of ps "[]"] by (simp add: plain_object_def)
qed simp_all

lemma loads_bytes_distinct: "loads_bytes (Inl e) body = Inr v \<Longrightarrow> keys_distinct v"
  by (auto simp: loads_bytes_def loads_text_def inr_iffs simp del: scan_value.simps
      dest: strict_plain.scanned_distinct(1) split: option.splits if_splits)

lemma decode_canonical_Inr:
  assumes "decode_canonical_mapping fr body = Inr d"
  shows "canonical_json fr (PDict d) = body" "keys_distinct (PDict d)"
  using assms loads_bytes_distinct [of value_error body]
  by (auto simp: decode_canonical_mapping_def simp del: keys_distinct.simps split: sum.splits pyval.splits if_splits)

section \<open>Accepted bytes are canonical\<close>

lemma require_iffs [inr_iffs]:
  "require_sha256 v = Inr s \<longleftrightarrow> v = PStr s \<and> sha256_re s"
  "require_uuid4_hex v = Inr s \<longleftrightarrow> v = PStr s \<and> uuid4_hex_re s"
  "require_component v l = Inr s \<longleftrightarrow> v = PStr s \<and> validate_relative_path v l = [] \<and> CHR ''/'' \<notin> set s"
  "require_relative_key v l = Inr s \<longleftrightarrow> v = PStr s \<and> validate_relative_path v l = []"
  by (auto simp: require_sha256_def require_uuid4_hex_def require_component_def require_relative_key_def is_str_iff)

lemma object_document_canonical:
  assumes "object_from_document v = Inr x" "keys_distinct v"
  shows "sort_keys v = sort_keys (object_to_document x)"
proof -
  obtain d where d: "v = PDict d" "keys_exactly d [''object_name'', ''key'', ''size_bytes'', ''sha256'', ''schema_id'', ''schema_fingerprint'']"
    and m: "make_manifest_object (dget_none d ''object_name'') (dget_none d ''key'') (dget_none d ''size_bytes'')
      (dget_none d ''sha256'') (dget_none d ''schema_id'') (dget_none d ''schema_fingerprint'') = Inr x"
    using assms(1) by (auto simp: object_from_document_def inr_iffs)
  from m have f: "dget_none d ''object_name'' = PStr (mo_object_name x)" "dget_none d ''key'' = PStr (mo_key x)"
    "dget_none d ''size_bytes'' = PInt (mo_size_bytes x)" "dget_none d ''sha256'' = PStr (mo_sha256 x)"
    "dget_none d ''schema_id'' = PStr (mo_schema_id x)" "dget_none d ''schema_fingerprint'' = PStr (mo_schema_fingerprint x)"
    by (auto simp: make_manifest_object_def inr_iffs)
  show ?thesis
    unfolding d(1) object_to_document_def
    by (rule sort_keys_exact) (use assms(2) d f in simp_all)
qed

lemma parse_published_Inr: "parse_published v = Inr p \<Longrightarrow> \<exists>s. format_published p = Inr s \<and> v = PStr s"
  by (auto simp: parse_published_def Let_def inr_iffs)

lemma check_previous_opt: "check_previous n k h = Inr u \<Longrightarrow> opt_str (opt_of k) = k \<and> opt_str (opt_of h) = h"
  by (auto simp: check_previous_def immutable_manifest_key_def inr_iffs opt_str_def opt_of_def split: if_splits)

lemma mapE_documents:
  "mapE object_from_document vs = Inr xs \<Longrightarrow> list_all keys_distinct vs \<Longrightarrow> map sort_keys vs = map (sort_keys \<circ> object_to_document) xs"
proof (induction vs arbitrary: xs)
  case (Cons v vs)
  then show ?case by (auto simp: inr_iffs object_document_canonical)
qed simp

lemma make_manifest_fields:
  assumes "make_manifest fv n s r sel p u ph xs t pk ps = Inr m"
  shows "fv = PInt 1" "n = PStr (im_dataset m)" "s = PStr (im_scale m)" "r = PStr (im_raw_registry_sha256 m)"
    "sel = PStr (im_selected_plan_sha256 m)" "p = PStr (im_plan_id m)" "u = PStr (im_publication_id m)"
    "ph = PStr (im_physical_prefix m)" "xs = im_objects m" "t = im_published_at m"
    "pk = opt_str (im_previous_manifest_key m)" "ps = opt_str (im_previous_manifest_sha256 m)"
  using assms by (auto simp: make_manifest_def inr_iffs dest: check_previous_opt)

lemma nested_keys_distinct: "keys_distinct (PDict d) \<Longrightarrow> keys_distinct (dget_none d k)"
  by (induction d k rule: dget.induct) (auto simp: dget_none_def)

lemma manifest_bytes_canonical:
  assumes "manifest_from_bytes fr body = Inr m"
  shows "manifest_to_bytes fr m = Inr body"
proof -
  obtain d objects items t where d: "decode_canonical_mapping fr body = Inr d" "keys_exactly d manifest_fields"
    "dget_none d ''objects'' = PList objects" "mapE object_from_document objects = Inr items"
    "parse_published (dget_none d ''published_at'') = Inr t"
    and m: "make_manifest (dget_none d ''format_version'') (dget_none d ''dataset'') (dget_none d ''scale'')
                (dget_none d ''raw_registry_sha256'') (dget_none d ''selected_plan_sha256'') (dget_none d ''plan_id'')
                (dget_none d ''publication_id'') (dget_none d ''physical_prefix'') items t
                (dget_none d ''previous_manifest_key'') (dget_none d ''previous_manifest_sha256'') = Inr m"
    using assms by (auto simp: manifest_from_bytes_def inr_iffs)
  note c = decode_canonical_Inr [OF d(1)] and f = make_manifest_fields [OF m]
  obtain s where s: "format_published (im_published_at m) = Inr s" "dget_none d ''published_at'' = PStr s"
    using parse_published_Inr [OF d(5)] f(10) by blast
  have "list_all keys_distinct objects" using nested_keys_distinct [OF c(2), of "''objects''"] d(3) by simp
  then have o: "sort_keys (PList objects) = sort_keys (PList (map object_to_document (im_objects m)))"
    using mapE_documents [OF d(4)] f(9) by simp
  let ?ps = "[(''dataset'', PStr (im_dataset m)), (''format_version'', PInt 1),
        (''objects'', PList (map object_to_document (im_objects m))),
        (''physical_prefix'', PStr (im_physical_prefix m)), (''plan_id'', PStr (im_plan_id m)),
        (''previous_manifest_key'', opt_str (im_previous_manifest_key m)),
        (''previous_manifest_sha256'', opt_str (im_previous_manifest_sha256 m)),
        (''publication_id'', PStr (im_publication_id m)), (''published_at'', PStr s),
        (''raw_registry_sha256'', PStr (im_raw_registry_sha256 m)), (''scale'', PStr (im_scale m)),
        (''selected_plan_sha256'', PStr (im_selected_plan_sha256 m))]"
  have "sort_keys (PDict d) = sort_keys (PDict (sdict ?ps))"
  proof (rule sort_keys_exact)
    show "keys_exactly d (map fst ?ps)" using d(2) by (simp add: manifest_fields_def)
    show "distinct (map fst d)" using c(2) by simp
    show "distinct (map fst ?ps)" by simp
    show "list_all (\<lambda>(k, v). sort_keys (dget_none d k) = sort_keys v) ?ps"
      unfolding list.pred_inject prod.case d(3) s(2) o f(1-8) f(11,12) by simp
  qed
  then show ?thesis
    using canonical_json_sorted [of "PDict d" "PDict (sdict ?ps)" fr] c(1)
    by (simp add: manifest_to_bytes_def manifest_to_document_def s(1))
qed

lemma pointer_bytes_canonical:
  assumes "pointer_from_bytes fr body = Inr p"
  shows "pointer_to_bytes fr p = body" "sha256_re (ap_manifest_sha256 p)"
    "immutable_manifest_key (PStr (ap_dataset p)) (PStr (ap_manifest_sha256 p)) = Inr (ap_manifest_key p)"
proof -
  obtain d where d: "decode_canonical_mapping fr body = Inr d"
    "keys_exactly d [''format_version'', ''dataset'', ''manifest_key'', ''manifest_sha256'']"
    and m: "make_pointer (dget_none d ''format_version'') (dget_none d ''dataset'') (dget_none d ''manifest_key'')
            (dget_none d ''manifest_sha256'') = Inr p"
    using assms by (auto simp: pointer_from_bytes_def inr_iffs)
  note c = decode_canonical_Inr [OF d(1)]
  have f: "dget_none d ''format_version'' = PInt 1" "dget_none d ''dataset'' = PStr (ap_dataset p)"
    "dget_none d ''manifest_key'' = PStr (ap_manifest_key p)" "dget_none d ''manifest_sha256'' = PStr (ap_manifest_sha256 p)"
    and k: "sha256_re (ap_manifest_sha256 p)"
      "immutable_manifest_key (PStr (ap_dataset p)) (PStr (ap_manifest_sha256 p)) = Inr (ap_manifest_key p)"
    using m by (auto simp: make_pointer_def immutable_manifest_key_def inr_iffs)
  have "sort_keys (PDict d) = sort_keys (pointer_to_document p)"
    unfolding pointer_to_document_def by (rule sort_keys_exact) (use d(2) c(2) f in simp_all)
  then show "pointer_to_bytes fr p = body"
    using canonical_json_sorted [of "PDict d" "pointer_to_document p" fr] c(1) by (simp add: pointer_to_bytes_def)
  show "sha256_re (ap_manifest_sha256 p)"
    "immutable_manifest_key (PStr (ap_dataset p)) (PStr (ap_manifest_sha256 p)) = Inr (ap_manifest_key p)" by (rule k)+
qed

section \<open>Valid documents read back\<close>

definition sorted_dict :: "pydict \<Rightarrow> pydict" where
  "sorted_dict d = sort_key (\<lambda>(k, _). str_val k) (map (\<lambda>(k, v). (k, sort_keys v)) d)"

lemma sorted_dict_facts:
  assumes "named d"
  shows "sort_keys (PDict d) = PDict (sorted_dict d)" "set (dkeys (sorted_dict d)) = set (dkeys d)"
    "dget_none (sorted_dict d) k = sort_keys (dget_none d k)"
proof -
  show 1: "sort_keys (PDict d) = PDict (sorted_dict d)" by (simp add: sorted_dict_def)
  have fst: "map fst (map (\<lambda>(k, v). (k, sort_keys v)) d) = map fst d" by (simp add: case_prod_unfold comp_def)
  have set: "set (sorted_dict d) = set (map (\<lambda>(k, v). (k, sort_keys v)) d)" by (simp add: sorted_dict_def)
  show 2: "set (dkeys (sorted_dict d)) = set (dkeys d)"
    unfolding dkeys_def list.set_map set by (simp only: list.set_map [symmetric] fst)
  have "distinct (map fst (sorted_dict d))"
  proof -
    have "distinct (map fst (map (\<lambda>(k, v). (k, sort_keys v)) d))" using assms unfolding fst by (simp add: named_def)
    then show ?thesis unfolding sorted_dict_def by (simp only: distinct_map distinct_sort set_sort)
  qed
  then have n: "named (sorted_dict d)" using assms 2 by (auto simp: named_def list_all_iff dkeys_def)
  show "dget_none (sorted_dict d) k = sort_keys (dget_none d k)"
  proof (cases "dget d k")
    case None
    then have "dget (sorted_dict d) k = None" using 2 by (simp add: dget_none_iff)
    then show ?thesis using None by (simp add: dget_none_def)
  next
    case (Some v)
    then have "(PStr k, v) \<in> set d" using dget_in [OF assms] by simp
    then have "(PStr k, sort_keys v) \<in> set (sorted_dict d)" unfolding set by force
    then have "dget (sorted_dict d) k = Some (sort_keys v)" using dget_in [OF n] by simp
    then show ?thesis using Some by (simp add: dget_none_def)
  qed
qed

lemma decode_canonical_reads:
  assumes "json_ok (PDict d)" "low_text (PDict d)"
  shows "decode_canonical_mapping fr (canonical_json fr (PDict d)) = Inr (sorted_dict d)"
proof -
  have n: "named d" using assms(1) by (auto simp: named_def list_all_iff)
  have "canonical_json fr (PDict (sorted_dict d)) = canonical_json fr (PDict d)"
    using sorted_dict_facts(1) [OF n] sorted_keys_idem [OF assms(1)] by (intro canonical_json_sorted) simp
  then show ?thesis
    using loads_canonical [OF assms, of "Inl value_error" fr] sorted_dict_facts(1) [OF n]
    by (simp add: decode_canonical_mapping_def)
qed

definition object_valid :: "manifest_object \<Rightarrow> bool" where
  "object_valid x \<longleftrightarrow>
     make_manifest_object (PStr (mo_object_name x)) (PStr (mo_key x)) (PInt (mo_size_bytes x)) (PStr (mo_sha256 x))
       (PStr (mo_schema_id x)) (PStr (mo_schema_fingerprint x)) = Inr x"

definition manifest_valid :: "manifest \<Rightarrow> bool" where
  \<comment> \<open>the invariant of the class: the constructor accepts the fields\<close>
  "manifest_valid m \<longleftrightarrow>
     list_all object_valid (im_objects m) \<and>
     make_manifest (PInt 1) (PStr (im_dataset m)) (PStr (im_scale m)) (PStr (im_raw_registry_sha256 m))
       (PStr (im_selected_plan_sha256 m)) (PStr (im_plan_id m)) (PStr (im_publication_id m)) (PStr (im_physical_prefix m))
       (im_objects m) (im_published_at m) (opt_str (im_previous_manifest_key m)) (opt_str (im_previous_manifest_sha256 m)) = Inr m"

definition object_plain :: "manifest_object \<Rightarrow> bool" where
  "object_plain x \<longleftrightarrow>
     list_all low_char (mo_object_name x) \<and> list_all low_char (mo_key x) \<and> list_all low_char (mo_schema_id x) \<and>
     int_ok (mo_size_bytes x)"

definition manifest_plain :: "manifest \<Rightarrow> bool" where
  \<comment> \<open>ASCII names, sizes of printable length and a time stamp within the calendar\<close>
  "manifest_plain m \<longleftrightarrow>
     list_all object_plain (im_objects m) \<and> list_all low_char (im_dataset m) \<and> list_all low_char (im_scale m) \<and>
     list_all low_char (im_physical_prefix m) \<and> in_range (dt_secs (im_published_at m))"

lemma sha256_re_low: "sha256_re s \<Longrightarrow> list_all low_char s"
  by (simp add: sha256_re_def match_hex_classes hex_low)

lemma object_document_ok:
  assumes "object_valid x" "object_plain x"
  shows "json_ok (object_to_document x)" "low_text (object_to_document x)"
    "object_from_document (sort_keys (object_to_document x)) = Inr x"
proof -
  let ?ps = "[(''object_name'', PStr (mo_object_name x)), (''key'', PStr (mo_key x)), (''size_bytes'', PInt (mo_size_bytes x)),
      (''sha256'', PStr (mo_sha256 x)), (''schema_id'', PStr (mo_schema_id x)),
      (''schema_fingerprint'', PStr (mo_schema_fingerprint x))]"
  have h: "sha256_re (mo_sha256 x)" "sha256_re (mo_schema_fingerprint x)"
    using assms(1) by (auto simp: object_valid_def make_manifest_object_def inr_iffs)
  show "json_ok (object_to_document x)" using assms(2) by (simp add: object_to_document_def object_plain_def)
  show "low_text (object_to_document x)"
    using assms(2) h [THEN sha256_re_low] by (simp add: object_to_document_def object_plain_def) (simp add: low_char_def)
  have n: "named (sdict ?ps)" by (rule named_sdict) simp
  have "keys_exactly (sorted_dict (sdict ?ps)) [''object_name'', ''key'', ''size_bytes'', ''sha256'', ''schema_id'', ''schema_fingerprint'']"
    unfolding keys_exactly_def sorted_dict_facts(2) [OF n] by simp
  then show "object_from_document (sort_keys (object_to_document x)) = Inr x"
    unfolding object_to_document_def sorted_dict_facts(1) [OF n] object_from_document_def pyval.case sorted_dict_facts(3) [OF n]
    using assms(1) by (simp add: object_valid_def dget_none_def del: sdict_simps add: dget_sdict)
qed

lemma uuid4_low: "uuid4_hex_re s \<Longrightarrow> list_all low_char s"
proof -
  assume u: "uuid4_hex_re s"
  have "validate_lease_identity (PStr s) (PStr (replicate 32 (CHR ''a''))) = Inr ()"
    using u by (simp add: validate_lease_identity_def match_hex_classes hex_char_def less_eq_char_def list_all_iff)
  then show ?thesis by (auto elim: validate_identity_strings)
qed

lemma format_published_low:
  "format_published d = Inr s \<Longrightarrow> in_range (dt_secs d) \<Longrightarrow> list_all low_char s \<and> parse_published (PStr s) = Inr d"
proof -
  assume f: "format_published d = Inr s" and r: "in_range (dt_secs d)"
  then have z: "dt_micro d = 0" "dt_offset d = Some 0" and s: "s = format_utc (dt_secs d)"
    by (auto simp: format_published_def split: if_splits)
  then have d: "\<lparr>dt_secs = dt_secs d, dt_micro = 0, dt_offset = Some 0\<rparr> = d" by simp
  have "parse_utc_string s = Some (dt_secs d)" unfolding s using r by (simp add: in_range_def)
  then have "parse_published (PStr s) = Inr d"
    by (simp add: parse_published_def parse_utc_def Let_def format_published_def s d z)
  then show ?thesis using format_utc_low [OF r] s by simp
qed

lemma manifest_reads_back:
  assumes "manifest_valid m" "manifest_plain m"
  obtains body where "manifest_to_bytes fr m = Inr body" "manifest_from_bytes fr body = Inr m"
proof -
  have mk: "make_manifest (PInt 1) (PStr (im_dataset m)) (PStr (im_scale m)) (PStr (im_raw_registry_sha256 m))
       (PStr (im_selected_plan_sha256 m)) (PStr (im_plan_id m)) (PStr (im_publication_id m)) (PStr (im_physical_prefix m))
       (im_objects m) (im_published_at m) (opt_str (im_previous_manifest_key m)) (opt_str (im_previous_manifest_sha256 m)) = Inr m"
    and ov: "list_all object_valid (im_objects m)" using assms(1) by (auto simp: manifest_valid_def)
  have h: "sha256_re (im_raw_registry_sha256 m)" "sha256_re (im_selected_plan_sha256 m)" "sha256_re (im_plan_id m)"
      "uuid4_hex_re (im_publication_id m)"
    and cp: "check_previous (PStr (im_dataset m)) (opt_str (im_previous_manifest_key m)) (opt_str (im_previous_manifest_sha256 m)) = Inr ()"
    and fp: "\<exists>s. format_published (im_published_at m) = Inr s"
    using mk by (auto simp: make_manifest_def inr_iffs)
  obtain s where s: "format_published (im_published_at m) = Inr s" "list_all low_char s" "parse_published (PStr s) = Inr (im_published_at m)"
    using fp format_published_low assms(2) by (auto simp: manifest_plain_def)
  have prev: "low_text (opt_str (im_previous_manifest_key m))" "low_text (opt_str (im_previous_manifest_sha256 m))"
  proof -
    have "low_text (opt_str (im_previous_manifest_sha256 m)) \<and> low_text (opt_str (im_previous_manifest_key m))"
      using cp assms(2)
      by (cases "im_previous_manifest_sha256 m"; cases "im_previous_manifest_key m")
         (auto simp: opt_str_def check_previous_def immutable_manifest_key_def inr_iffs manifest_plain_def sha256_re_low,
          auto simp: low_char_def)
    then show "low_text (opt_str (im_previous_manifest_key m))" "low_text (opt_str (im_previous_manifest_sha256 m))" by simp_all
  qed
  let ?ps = "[(''dataset'', PStr (im_dataset m)), (''format_version'', PInt 1),
        (''objects'', PList (map object_to_document (im_objects m))),
        (''physical_prefix'', PStr (im_physical_prefix m)), (''plan_id'', PStr (im_plan_id m)),
        (''previous_manifest_key'', opt_str (im_previous_manifest_key m)),
        (''previous_manifest_sha256'', opt_str (im_previous_manifest_sha256 m)),
        (''publication_id'', PStr (im_publication_id m)), (''published_at'', PStr s),
        (''raw_registry_sha256'', PStr (im_raw_registry_sha256 m)), (''scale'', PStr (im_scale m)),
        (''selected_plan_sha256'', PStr (im_selected_plan_sha256 m))]"
  have doc: "manifest_to_document m = Inr (PDict (sdict ?ps))" by (simp add: manifest_to_document_def s(1))
  have os: "list_all (\<lambda>x. json_ok (object_to_document x) \<and> low_text (object_to_document x) \<and>
      object_from_document (sort_keys (object_to_document x)) = Inr x) (im_objects m)"
    using ov assms(2) object_document_ok by (auto simp: list_all_iff manifest_plain_def)
  have jo: "json_ok (opt_str v)" for v by (simp add: opt_str_def split: option.split)
  have i1: "int_ok 1" by code_simp
  have json: "json_ok (PDict (sdict ?ps))" using os by (simp add: jo i1 list_all_iff)
  have low: "low_text (PDict (sdict ?ps))"
    using os prev s(2) assms(2) h(1-3) [THEN sha256_re_low] uuid4_low [OF h(4)]
    by (simp add: list_all_iff manifest_plain_def) (simp add: low_char_def)
  have n: "named (sdict ?ps)" by (rule named_sdict) simp
  note r = decode_canonical_reads [OF json low, of fr] and g = sorted_dict_facts(2,3) [OF n]
  have k: "keys_exactly (sorted_dict (sdict ?ps)) manifest_fields"
    unfolding keys_exactly_def g(1) manifest_fields_def by simp
  have items: "mapE object_from_document (map sort_keys (map object_to_document (im_objects m))) = Inr (im_objects m)"
  proof -
    have "mapE object_from_document (map (\<lambda>x. sort_keys (object_to_document x)) xs) = Inr xs"
      if "list_all (\<lambda>x. object_from_document (sort_keys (object_to_document x)) = Inr x) xs" for xs
      using that by (induction xs) simp_all
    then show ?thesis using os by (simp add: list_all_iff comp_def)
  qed
  have so: "sort_keys (opt_str v) = opt_str v" for v by (simp add: opt_str_def split: option.split)
  have "manifest_from_bytes fr (canonical_json fr (PDict (sdict ?ps))) = Inr m"
    unfolding manifest_from_bytes_def r bindE_simps g(2)
    using k items s(3) mk by (simp add: dget_none_def dget_sdict so del: sdict_simps)
  then show thesis using that doc by (simp add: manifest_to_bytes_def)
qed

end
