(* ===== verification/ResolutionFacts.thy ===== *)
theory ResolutionFacts
  imports Resolution PublicationCodec StoreFacts
begin

text \<open>
  What resolving and rolling back do to the store.  The logs of \<open>StoreTrace\<close> are carried over to
  the publication environment; every component of \<^verbatim>\<open>publication.py\<close> gets one fact that says which
  calls it sends and what its result owes to the answers.  The capturing client does not weaken the
  verification: what it accepts, the plain verification of the same body accepts.
\<close>

section \<open>Captured bodies\<close>

lemma capture_item_Inr: "capture_item x = Inr v \<longleftrightarrow> (\<exists>c. v = PBytes c \<and> x = Inr (PBytes c))"
  by (cases x rule: capture_item.cases) auto

lemma captured_head:
  "capture_stream k s = Inr v # t \<longleftrightarrow>
     (\<exists>c s'. s = Inr (PBytes c) # s' \<and> v = PBytes c \<and>
        (case k of None \<Rightarrow> t = capture_stream None s' | Some n \<Rightarrow> \<exists>m. n = Suc m \<and> t = capture_stream (Some m) s'))"
  by (cases s; cases k) (auto simp: capture_stream_def capture_item_Inr take_Cons split: nat.splits)

lemma captured_cons: "capture_stream (map_option Suc k) (Inr (PBytes c) # s) = Inr (PBytes c) # capture_stream k s"
  by (cases k) (simp_all add: capture_stream_def)

lemma captured_nil: "capture_stream k s = [] \<longleftrightarrow> s = [] \<and> k = None"
  by (cases k) (auto simp: capture_stream_def)

lemma capture_read:
  assumes "stream_read n (capture_stream k s) = Inr (v, t)"
  shows "\<exists>k' s'. t = capture_stream k' s' \<and> stream_read n s = Inr (v, s')"
proof (cases "capture_stream k s")
  case Nil
  then have "s = []" "k = None" by (simp_all add: captured_nil)
  then show ?thesis using assms by (auto simp: capture_stream_def intro!: exI [of _ None] exI [of _ "[]"])
next
  case (Cons x r)
  then obtain u where x: "x = Inr u" using assms by (cases x) auto
  with Cons obtain c s' k' where c: "s = Inr (PBytes c) # s'" "u = PBytes c" "r = capture_stream k' s'"
    by (auto simp: captured_head split: option.splits)
  show ?thesis
  proof (cases "n < 0 \<or> int (length c) \<le> n")
    case True
    then show ?thesis using assms Cons x c by auto
  next
    case False
    then have "v = PBytes (take (nat n) c)" "t = capture_stream (map_option Suc k') (Inr (PBytes (drop (nat n) c)) # s')"
      using assms Cons x c by (auto simp: captured_cons)
    then show ?thesis using False c by auto
  qed
qed

lemma captured_verify_loop:
  "verify_loop (capture_stream k s) n sz fed = Inr r \<Longrightarrow> verify_loop s n sz fed = Inr r"
proof (induction "stream_weight s" arbitrary: k s sz fed rule: less_induct)
  case less
  let ?q = "min (2 ^ 20) (n - sz + 1)"
  obtain v t where rd: "stream_read ?q (capture_stream k s) = Inr (v, t)"
    using less.prems by (subst (asm) verify_loop.simps) (auto split: sum.splits)
  from capture_read [OF rd] obtain k' s' where s': "t = capture_stream k' s'" "stream_read ?q s = Inr (v, s')" by blast
  show ?case
  proof (cases "py_truthy v")
    case False
    then show ?thesis using less.prems rd s' by (simp add: verify_loop.simps [of "capture_stream k s"] verify_loop.simps [of s])
  next
    case True
    have w: "stream_weight s' < stream_weight s" by (rule stream_read_weight [OF s'(2) True])
    obtain m c where m: "py_len v = Inr m" "\<not> sz + m > n" "v = PBytes c"
      "verify_loop t n (sz + m) (fed @ c) = Inr r"
      using less.prems True unfolding verify_loop.simps [of "capture_stream k s" n sz fed] rd
      by (auto split: sum.splits if_splits pyval.splits)
    have "verify_loop s' n (sz + m) (fed @ c) = Inr r" using less.hyps [OF w] m(4) s'(1) by blast
    then show ?thesis using True m(1-3) unfolding verify_loop.simps [of s] s'(2) by simp
  qed
qed

lemma captured_verify_body:
  "verify_body (capturing pe) v n h = Inr r \<Longrightarrow> verify_body (pb_ds pe) v n h = Inr r"
  by (auto simp: verify_body_def capturing_def verify_stream_def inr_iffs dest: captured_verify_loop split: option.splits)

section \<open>Logging\<close>

definition pub_traced :: "'w pub_env \<Rightarrow> ('w \<times> ds_event list) pub_env" where
  "pub_traced pe =
     \<lparr>pb_ds = ds_traced (pb_ds pe), pb_closable = pb_closable pe, pb_tempfile = pb_tempfile pe, pb_local = pb_local pe,
      pb_schema = pb_schema pe\<rparr>"

lemma pub_traced_simps [simp]:
  "pb_ds (pub_traced pe) = ds_traced (pb_ds pe)" "pb_closable (pub_traced pe) = pb_closable pe"
  "pb_tempfile (pub_traced pe) = pb_tempfile pe" "pb_local (pub_traced pe) = pb_local pe" "pb_schema (pub_traced pe) = pb_schema pe"
  by (simp_all add: pub_traced_def)

lemma logging_capturing: "logging (capturing (pub_traced pe))"
proof -
  have call: "emits (ds_s3 (ds_traced (pb_ds pe)) c) (\<lambda>r ext. ext = [(c, r)])" for c by (rule emits_call) simp
  have "emits (capturing_call (pub_traced pe) c) (\<lambda>r ext. \<exists>a. ext = [(c, a)] \<and> (\<forall>v. r = Inr v \<longrightarrow> a = Inr v))" for c
    unfolding capturing_call_def pub_traced_simps
    by (rule emits_bindA [OF call]) (auto intro!: emit_rules)
  then show ?thesis unfolding logging_def by (simp add: capturing_def) (auto intro!: emit_rules)
qed

definition read_call :: "ds_event \<Rightarrow> bool" where
  "read_call ev \<longleftrightarrow> (\<exists>b k. fst ev = DsGet b k) \<or> (\<exists>b p d t. fst ev = DsList b p d t)"

lemma read_call_simps [simp]:
  "read_call (DsGet b k, a)" "read_call (DsList b p d t, a)" "\<not> read_call (DsPut b k x m c, a)"
  by (simp_all add: read_call_def)

definition served_object :: "'w pub_env \<Rightarrow> scale_plan \<Rightarrow> manifest_object \<Rightarrow> exn + pyval \<Rightarrow> bool" where
  \<comment> \<open>the answer carried a body of exactly the size and digest of the item, and its schema was accepted\<close>
  "served_object pe plan x a \<longleftrightarrow>
     (\<exists>d body schema. a = Inr (PDict d) \<and> dget d ''Body'' = Some body \<and>
        verify_body (pb_ds pe) body (mo_size_bytes x) (mo_sha256 x) = Inr (mo_size_bytes x, mo_sha256 x) \<and>
        item_of (ds_schemas (sp_dataset plan)) (mo_schema_id x) = Inr schema \<and> pb_schema pe (mo_sha256 x) schema = Inr ())"

definition resolved_of :: "string \<Rightarrow> manifest_object \<Rightarrow> resolved_object" where
  "resolved_of bucket x =
     \<lparr>ro_object_name = mo_object_name x, ro_uri = ''s3://'' @ bucket @ ''/'' @ mo_key x, ro_size_bytes = mo_size_bytes x,
      ro_sha256 = mo_sha256 x, ro_schema_id = mo_schema_id x\<rparr>"

lemma capturing_traced_body: "verify_body (capturing (pub_traced pe)) v n h = verify_body (capturing pe) v n h"
  by (simp add: verify_body_def capturing_def)

lemma verify_resolved_emits:
  "emits (verify_resolved_object (pub_traced pe) plan bucket x)
     (\<lambda>r ext. list_all read_call ext \<and>
        (\<forall>y. r = Inr y \<longrightarrow> y = resolved_of bucket x \<and>
           (\<exists>a. ext = [(DsGet bucket (mo_key x), a)] \<and> served_object pe plan x a)))"
proof -
  let ?Q = "\<lambda>r ext. list_all read_call ext \<and>
      (\<forall>u. r = Inr u \<longrightarrow> (\<exists>a. ext = [(DsGet bucket (mo_key x), a)] \<and> served_object pe plan x a))"
  have served: "served_object pe plan x a"
    if "answers_object (capturing (pub_traced pe)) a (item_expected x) s" "pb_schema pe (os_sha256 s) schema = Inr ()"
      "item_of (ds_schemas (sp_dataset plan)) (mo_schema_id x) = Inr schema" for a s schema
    using that verify_body_exact captured_verify_body
    unfolding answers_object_def served_object_def capturing_traced_body
    by (fastforce simp: item_expected_def)
  have tmp: "emits (case pb_tempfile pe of None \<Rightarrow> retA () | Some e \<Rightarrow> raiseA e) (\<lambda>r ext. ext = [])"
    by (intro emit_rules) simp_all
  have inner: "emits (seqA (case pb_tempfile pe of None \<Rightarrow> retA () | Some e \<Rightarrow> raiseA e) (
           bindA (stream_verify_object (capturing (pub_traced pe)) bucket (mo_key x) (item_expected x)) (\<lambda>snapshot.
           bindA (liftA (item_of (ds_schemas (sp_dataset plan)) (mo_schema_id x))) (\<lambda>schema.
           liftA (pb_schema pe (os_sha256 snapshot) schema))))) ?Q"
    by (rule emits_seqA [OF tmp]) (auto intro!: emits_bindA [OF logging_verify_object [OF logging_capturing]] emit_rules dest: served)
  show ?thesis
    unfolding verify_resolved_object_def pub_traced_simps
    by (rule emits_seqA [OF emits_mapexnA [OF inner, where P = ?Q]])
       (auto simp: resolved_of_def intro!: emits_retA)
qed

lemma emits_mapA:
  assumes "\<And>x. emits (f x) (\<lambda>r ext. list_all P ext \<and> (\<forall>y. r = Inr y \<longrightarrow> y = g x \<and> (\<exists>a. ext = [(c x, a)] \<and> S x a)))"
  shows "emits (mapA f xs) (\<lambda>r ext. list_all P ext \<and>
    (\<forall>ys. r = Inr ys \<longrightarrow> ys = map g xs \<and> (\<exists>as. list_all2 S xs as \<and> ext = zip (map c xs) as)))"
proof (induction xs)
  case Nil
  show ?case unfolding mapA.simps by (rule emits_retA) simp
next
  case (Cons x xs)
  show ?case
    unfolding mapA.simps
  proof (rule emits_bindA [OF assms], goal_cases)
    case (1 e ext)
    then show ?case by simp
  next
    case (2 y e1)
    then obtain a where a: "y = g x" "e1 = [(c x, a)]" "S x a" "list_all P e1" by auto
    show ?case
    proof (rule emits_bindA [OF Cons.IH], goal_cases)
      case (1 e ext)
      then show ?case using a by simp
    next
      case (2 ys e2)
      then obtain as where "ys = map g xs" "list_all2 S xs as" "e2 = zip (map c xs) as" "list_all P e2" by auto
      then show ?case using a by (intro emits_retA) (auto intro!: exI [of _ "a # as"])
    qed
  qed
qed

section \<open>Manifests that belong to a plan\<close>

lemma validate_items_Inr:
  "validate_items plan prefix ms xs = Inr () \<Longrightarrow> list_all2 (\<lambda>m x. expected_item plan prefix x = Inr m) ms xs"
  by (induction plan prefix ms xs rule: validate_items.induct) (auto simp: inr_iffs split: if_splits)

lemma expected_item_fields:
  "expected_item plan prefix x = Inr m \<Longrightarrow>
   mo_object_name m = po_object_name x \<and> mo_size_bytes m = po_size_bytes x \<and> mo_sha256 m = po_sha256 x \<and>
   mo_schema_id m = po_schema_id x \<and> mo_key m = prefix @ ''/'' @ po_object_name x"
  by (auto simp: expected_item_def make_manifest_object_def inr_iffs)

definition locks_output :: "plan_output \<Rightarrow> resolved_object \<Rightarrow> bool" where
  \<comment> \<open>the object is the output the registry locks: its name, size, digest and schema\<close>
  "locks_output x y \<longleftrightarrow>
     ro_object_name y = po_object_name x \<and> ro_size_bytes y = po_size_bytes x \<and> ro_sha256 y = po_sha256 x \<and>
     ro_schema_id y = po_schema_id x"

lemma validated_outputs:
  assumes "validate_manifest_for_plan fr m plan = Inr ()"
  shows "list_all2 locks_output (selected_outputs plan) (map (resolved_of bucket) (im_objects m))"
    "im_dataset m = ds_name (sp_dataset plan)" "im_scale m = sp_scale plan" "plan_id fr plan = Inr (im_plan_id m)"
    "publication_prefix fr plan (im_publication_id m) = Inr (im_physical_prefix m)"
proof -
  have v: "validate_items plan (im_physical_prefix m) (im_objects m) (selected_outputs plan) = Inr ()"
    and rest: "im_dataset m = ds_name (sp_dataset plan)" "im_scale m = sp_scale plan" "plan_id fr plan = Inr (im_plan_id m)"
      "publication_prefix fr plan (im_publication_id m) = Inr (im_physical_prefix m)"
    using assms by (auto simp: validate_manifest_for_plan_def Let_def inr_iffs split: if_splits)
  show "list_all2 locks_output (selected_outputs plan) (map (resolved_of bucket) (im_objects m))"
    using validate_items_Inr [OF v] unfolding list_all2_conv_all_nth
    by (auto simp: locks_output_def resolved_of_def dest!: expected_item_fields)
qed (use assms in \<open>auto simp: validate_manifest_for_plan_def Let_def inr_iffs split: if_splits\<close>)

section \<open>Resolving\<close>

definition manifest_at :: "'w pub_env \<Rightarrow> string \<Rightarrow> string \<Rightarrow> string \<Rightarrow> ds_event \<Rightarrow> manifest \<Rightarrow> bool" where
  \<comment> \<open>the event is the read of the manifest stored under its own digest\<close>
  "manifest_at pe name digest bucket ev m \<longleftrightarrow>
     (\<exists>key a s. immutable_manifest_key (PStr name) (PStr digest) = Inr key \<and> ev = (DsGet bucket key, a) \<and>
        answers_snapshot (pb_ds pe) a s \<and> sha256 (cs_body s) = digest \<and> manifest_from_bytes (pb_float pe) (cs_body s) = Inr m)"

lemma decode_manifest_Inr: "decode_manifest fr digest body = Inr m \<longleftrightarrow> sha256 body = digest \<and> manifest_from_bytes fr body = Inr m"
  by (simp add: decode_manifest_def)

lemma read_historical_emits:
  "emits (read_historical_manifest (pub_traced pe) name digest bucket)
     (\<lambda>r ext. list_all read_call ext \<and> (\<forall>m. r = Inr m \<longrightarrow> (\<exists>ev. ext = [ev] \<and> manifest_at pe name digest bucket ev m)))"
  unfolding read_historical_manifest_def pub_traced_simps ds_traced_pure
  by (rule emits_bind_liftA)
     (auto simp: decode_manifest_Inr manifest_at_def intro!: emits_bindA [OF read_control_object_emits] emits_liftA)

lemma read_manifest_emits:
  "emits (read_manifest (pub_traced pe) plan digest bucket)
     (\<lambda>r ext. list_all read_call ext \<and>
        (\<forall>m. r = Inr m \<longrightarrow> (\<exists>ev. ext = [ev] \<and> manifest_at pe (ds_name (sp_dataset plan)) digest bucket ev m)))"
  unfolding read_manifest_def pub_traced_simps ds_traced_pure
  by (rule emits_bind_liftA)
     (auto simp: decode_manifest_Inr manifest_at_def inr_iffs intro!: emits_bindA [OF read_control_object_emits] emits_liftA)

definition resolved_by :: "'w pub_env \<Rightarrow> scale_plan \<Rightarrow> string \<Rightarrow> string \<Rightarrow> ds_event list \<Rightarrow> resolved_dataset \<Rightarrow> manifest \<Rightarrow> bool" where
  \<comment> \<open>one read of the manifest under its digest, then one verified read per object of it\<close>
  "resolved_by pe plan digest bucket evs rd m \<longleftrightarrow>
     (\<exists>ev as. evs = ev # zip (map (\<lambda>x. DsGet bucket (mo_key x)) (im_objects m)) as \<and>
        manifest_at pe (ds_name (sp_dataset plan)) digest bucket ev m \<and>
        validate_manifest_for_plan (pb_float pe) m plan = Inr () \<and> list_all2 (served_object pe plan) (im_objects m) as \<and>
        rd = \<lparr>rd_dataset = ds_name (sp_dataset plan), rd_scale = sp_scale plan, rd_plan_id = im_plan_id m,
              rd_manifest_sha256 = digest, rd_publication_id = im_publication_id m,
              rd_objects = map (resolved_of bucket) (im_objects m)\<rparr>)"

lemma resolve_manifest_emits:
  "emits (resolve_manifest_with_document (pub_traced pe) plan digest bucket)
     (\<lambda>r ext. list_all read_call ext \<and> (\<forall>rd m. r = Inr (rd, m) \<longrightarrow> resolved_by pe plan digest bucket ext rd m))"
  unfolding resolve_manifest_with_document_def pub_traced_simps ds_traced_pure
proof (rule emits_bindA [OF read_manifest_emits], goal_cases)
  case (1 e ext)
  then show ?case by simp
next
  case (2 m e1)
  then obtain ev where e1: "e1 = [ev]" "manifest_at pe (ds_name (sp_dataset plan)) digest bucket ev m" "list_all read_call e1" by auto
  show ?case
  proof (rule emits_bind_liftA, goal_cases)
    case (1 e)
    then show ?case using e1 by simp
  next
    case (2 u)
    show ?case
    proof (rule emits_bindA [OF emits_mapA [OF verify_resolved_emits]], goal_cases)
      case (1 e ext)
      then show ?case using e1 by simp
    next
      case (2 ys e2)
      then obtain as where "ys = map (resolved_of bucket) (im_objects m)" "list_all2 (served_object pe plan) (im_objects m) as"
        "e2 = zip (map (\<lambda>x. DsGet bucket (mo_key x)) (im_objects m)) as" "list_all read_call e2" by blast
      then show ?case
        by (intro emits_retA) (use e1 \<open>validate_manifest_for_plan _ m plan = Inr u\<close> in \<open>auto simp: resolved_by_def\<close>)
    qed
  qed
qed

section \<open>Pointers\<close>

definition pointer_at :: "'w pub_env \<Rightarrow> string \<Rightarrow> string \<Rightarrow> ds_event \<Rightarrow> control_snapshot \<Rightarrow> active_pointer \<Rightarrow> bool" where
  \<comment> \<open>the event is the read of a canonical active pointer of this dataset\<close>
  "pointer_at pe name bucket ev s p \<longleftrightarrow>
     (\<exists>key a. active_pointer_key name = Inr key \<and> ev = (DsGet bucket key, a) \<and> answers_snapshot (pb_ds pe) a s \<and>
        pointer_from_bytes (pb_float pe) (cs_body s) = Inr p \<and> ap_dataset p = name)"

lemma read_pointer_state_emits:
  "emits (read_pointer_state (pub_traced pe) plan bucket)
     (\<lambda>r ext. list_all read_call ext \<and>
        (\<forall>st p. r = Inr st \<longrightarrow> ps_pointer st = Some p \<longrightarrow> (\<exists>ev s. ext = [ev] \<and> ps_snapshot st = Some s \<and>
           pointer_at pe (ds_name (sp_dataset plan)) bucket ev s p)))"
  unfolding read_pointer_state_def pub_traced_simps ds_traced_pure
proof (rule emits_bind_liftA, goal_cases)
  case (1 e)
  then show ?case by simp
next
  case (2 key)
  show ?case
  proof (rule emits_tryA [OF read_control_object_emits], goal_cases)
    case (1 e e1)
    then show ?case by (auto intro!: emit_rules)
  next
    case (2 s e1)
    then obtain a where a: "e1 = [(DsGet bucket key, a)]" "answers_snapshot (pb_ds pe) a s" by auto
    show ?case
    proof (cases "pointer_from_bytes (pb_float pe) (cs_body s)")
      case (Inl e)
      then show ?thesis using a by (auto intro!: emit_rules)
    next
      case (Inr p)
      then show ?thesis
        using a \<open>active_pointer_key (ds_name (sp_dataset plan)) = Inr key\<close> by (auto simp: pointer_at_def intro!: emit_rules)
    qed
  qed
qed

definition pointer_write :: "'w ds_env \<Rightarrow> string \<Rightarrow> string \<Rightarrow> string \<Rightarrow> put_condition \<Rightarrow> ds_event list \<Rightarrow> bool" where
  \<comment> \<open>one conditional write of the canonical form of the bytes, then reads only\<close>
  "pointer_write env b k body cond evs \<longleftrightarrow>
     (\<exists>intended pa rest. evs = (DsPut b k (BytesBody intended) [] cond, pa) # rest \<and> list_all read_call rest \<and>
        canonical_control_body env body = Inr intended)"

definition pointer_confirmed :: "'w ds_env \<Rightarrow> string \<Rightarrow> string \<Rightarrow> string \<Rightarrow> ds_event list \<Rightarrow> bool" where
  \<comment> \<open>the last call read the written bytes back\<close>
  "pointer_confirmed env b k body evs \<longleftrightarrow>
     (\<exists>pre ga s. evs = pre @ [(DsGet b k, ga)] \<and> answers_snapshot env ga s \<and>
        (cs_body s = body \<or> canonical_control_body env body = Inr (cs_body s)))"

lemma wrote_pointer_write:
  assumes "wrote_exactly env b k intended cond r ext" "canonical_control_body env body = Inr intended"
  shows "pointer_write env b k body cond ext" "\<And>s. r = Inr s \<Longrightarrow> pointer_confirmed env b k body ext"
  using assms unfolding wrote_exactly_def pointer_write_def pointer_confirmed_def by fastforce+

lemma put_tracked_emits:
  "emits (put_control_tracked (ds_traced e) b k body im inm)
     (\<lambda>r ext. (\<exists>x. r = Inl x) \<and> ext = [] \<or>
        pointer_write e b k body (put_condition_of im inm) ext \<and> (\<forall>y. r = Inr y \<longrightarrow> pointer_confirmed e b k body ext))"
  unfolding put_control_tracked_def traced_pure_functions
proof (rule emits_bind_liftA, simp, rule emits_bindA [OF put_control_request_emits], goal_cases)
  case (1 intended x ext)
  then show ?case by (auto dest: wrote_pointer_write)
next
  case (2 intended p e1)
  obtain s d where p: "p = (s, d)" by (cases p)
  with 2 have "wrote_exactly e b k intended (put_condition_of im inm) (Inr s) e1" by simp
  from wrote_pointer_write [OF this 2(1)] show ?case unfolding p prod.case by (intro emits_retA) simp
qed

definition pointer_outcome :: "'w ds_env \<Rightarrow> string \<Rightarrow> string \<Rightarrow> string \<Rightarrow> put_condition \<Rightarrow> exn + 'a \<Rightarrow> ds_event list \<Rightarrow> bool" where
  "pointer_outcome env b k body cond r evs \<longleftrightarrow>
     (list_all read_call evs \<or> pointer_write env b k body cond evs) \<and> (\<forall>y. r = Inr y \<longrightarrow> pointer_confirmed env b k body evs)"

lemma put_exact_emits:
  "emits (put_exact (ds_traced e) b k body im inm) (pointer_outcome e b k body (put_condition_of im inm))"
  unfolding put_exact_def
proof (rule emits_tryA [OF put_tracked_emits], goal_cases)
  case (1 x e1)
  then have e1: "list_all read_call e1 \<or> pointer_write e b k body (put_condition_of im inm) e1" by auto
  have more: "list_all read_call (e1 @ e2) \<or> pointer_write e b k body (put_condition_of im inm) (e1 @ e2)"
    if "list_all read_call e2" for e2 using e1 that by (auto simp: pointer_write_def)
  show ?case
  proof (rule emits_if, rule emits_bindA [OF read_control_object_emits], goal_cases)
    case (1 y ext)
    then show ?case using more [of ext] by (auto simp: pointer_outcome_def)
  next
    case (2 s e2)
    then obtain a where "e2 = [(DsGet b k, a)]" "answers_snapshot e a s" by auto
    then show ?case
      using more [of e2] by (auto simp: pointer_outcome_def pointer_confirmed_def intro!: emit_rules)
  next
    case 3
    then show ?case using more [of "[]"] by (auto simp: pointer_outcome_def intro!: emit_rules)
  qed
next
  case (2 y e1)
  then show ?case by (auto simp: pointer_outcome_def intro!: emit_rules)
qed

lemma put_pointer_exact_emits:
  "ps_snapshot st = Some s \<Longrightarrow>
   emits (put_pointer_exact (pub_traced pe) b k body st) (pointer_outcome (pb_ds pe) b k body (IfMatch (cs_etag s)))"
  using put_exact_emits [of "pb_ds pe" b k body "Some (cs_etag s)" False]
  by (simp add: put_pointer_exact_def put_condition_of_def)

section \<open>Rolling back\<close>

definition rollback_log :: "'w pub_env \<Rightarrow> scale_plan \<Rightarrow> string \<Rightarrow> string \<Rightarrow> exn + 'a \<Rightarrow> ds_event list \<Rightarrow> bool" where
  \<comment> \<open>reads only; or the reads of the active pointer, of the manifest it names and of the verified target,
      and after them the conditional write of the target's pointer over the observed one\<close>
  "rollback_log pe plan digest bucket r evs \<longleftrightarrow>
     list_all read_call evs \<and> (\<forall>y. r \<noteq> Inr y) \<or>
     (\<exists>ev1 ev2 evs3 evs4 s p previous rd m mkey target key.
        evs = ev1 # ev2 # evs3 @ evs4 \<and> pointer_at pe (ds_name (sp_dataset plan)) bucket ev1 s p \<and>
        manifest_at pe (ds_name (sp_dataset plan)) (ap_manifest_sha256 p) bucket ev2 previous \<and>
        list_all read_call evs3 \<and> resolved_by pe plan digest bucket evs3 rd m \<and>
        make_pointer (PInt 1) (PStr (ds_name (sp_dataset plan))) (PStr mkey) (PStr digest) = Inr target \<and>
        active_pointer_key (ds_name (sp_dataset plan)) = Inr key \<and>
        pointer_outcome (pb_ds pe) bucket key (pointer_to_bytes (pb_float pe) target) (IfMatch (cs_etag s)) r evs4)"

lemma resolved_by_reads: "resolved_by pe plan digest bucket evs rd m \<Longrightarrow> list_all read_call evs"
  by (auto simp: resolved_by_def manifest_at_def list_all_iff dest!: set_zip_leftD)

definition rollback_spec :: "'w pub_env \<Rightarrow> scale_plan \<Rightarrow> string \<Rightarrow> string \<Rightarrow> bool \<Rightarrow> exn + 'a \<Rightarrow> ds_event list \<Rightarrow> bool" where
  \<comment> \<open>a dry run reads only\<close>
  "rollback_spec pe plan digest bucket dry_run r evs \<longleftrightarrow>
     (if dry_run then list_all read_call evs else rollback_log pe plan digest bucket r evs)"

lemma rollback_transaction_emits:
  "emits (rollback_transaction (pub_traced pe) plan digest bucket dry_run)
     (rollback_spec pe plan digest bucket dry_run)"
  (is "emits _ ?P")
proof -
  have reads: "?P (Inl x) ext" if "list_all read_call ext" for x and ext using that by (simp add: rollback_spec_def rollback_log_def)
  have bad: "emits (bindA (verify_pointer_state_with_document (pub_traced pe) plan st bucket) (\<lambda>_. raiseA e)) (\<lambda>r e2. ?P r (e1 @ e2))"
    if "list_all read_call e1" for st e e1
  proof -
    have "emits (verify_pointer_state_with_document (pub_traced pe) plan st bucket) (\<lambda>r ext. list_all read_call ext)"
      unfolding verify_pointer_state_with_document_def
      by (auto intro!: emit_rules emits_mono [OF resolve_manifest_emits] split: option.split)
    then show ?thesis by (rule emits_bindA) (use that in \<open>auto simp: rollback_spec_def rollback_log_def intro!: emits_raiseA\<close>)
  qed
  show ?thesis
    unfolding rollback_transaction_def Let_def
  proof (rule emits_bindA [OF read_pointer_state_emits], goal_cases)
    case (1 x ext)
    then show ?case by (simp add: rollback_spec_def rollback_log_def)
  next
    case (2 st e1)
    show ?case
    proof (cases "ps_corruption st = None \<and> ps_pointer st \<noteq> None")
      case False
      then show ?thesis using bad [of e1 st] 2 by (cases "ps_corruption st"; cases "ps_pointer st") simp_all
    next
      case True
      then obtain p where p: "ps_corruption st = None" "ps_pointer st = Some p" by blast
      obtain ev1 s where e1: "e1 = [ev1]" "ps_snapshot st = Some s" "pointer_at pe (ds_name (sp_dataset plan)) bucket ev1 s p"
        "read_call ev1" using 2 p(2) by auto
      have inner: "emits (bindA (resolve_manifest_with_document (pub_traced pe) plan digest bucket) (\<lambda>(resolved, m).
          if dry_run then retA (f resolved m)
          else bindA (liftA (bindE (immutable_manifest_key (PStr (ds_name (sp_dataset plan))) (PStr digest)) (\<lambda>k.
                       make_pointer (PInt 1) (PStr (ds_name (sp_dataset plan))) (PStr k) (PStr digest)))) (\<lambda>pointer.
               bindA (liftA (active_pointer_key (ds_name (sp_dataset plan)))) (\<lambda>key.
               bindA (put_pointer_exact (pub_traced pe) bucket key (pointer_to_bytes (pb_float pe) pointer) st) (\<lambda>reconciled.
               retA (g resolved m reconciled)))))) (\<lambda>r e3. ?P r (ev1 # ev2 # e3))"
        if prev: "manifest_at pe (ds_name (sp_dataset plan)) (ap_manifest_sha256 p) bucket ev2 previous" "read_call ev2"
        for ev2 previous and f :: "resolved_dataset \<Rightarrow> manifest \<Rightarrow> rollback_outcome" and g
      proof (rule emits_bindA [OF resolve_manifest_emits], goal_cases)
        case (1 x ext)
        then show ?case using e1(4) prev(2) by (intro reads) simp
      next
        case (2 rm e3)
        obtain rd m where rm: "rm = (rd, m)" by (cases rm)
        then have r: "resolved_by pe plan digest bucket e3 rd m" "list_all read_call e3" using 2 by auto
        have stop: "?P (Inl x) (ev1 # ev2 # e3)" for x using r(2) e1(4) prev(2) by (intro reads) simp
        show ?case
        proof (cases dry_run)
          case True
          then show ?thesis using rm r(2) e1(4) prev(2) by (auto simp: rollback_spec_def intro!: emits_retA)
        next
          case False
          have fin: "?P r' (ev1 # ev2 # e3 @ e4)"
            if "make_pointer (PInt 1) (PStr (ds_name (sp_dataset plan))) (PStr k) (PStr digest) = Inr target"
              "active_pointer_key (ds_name (sp_dataset plan)) = Inr key"
              "pointer_outcome (pb_ds pe) bucket key (pointer_to_bytes (pb_float pe) target) (IfMatch (cs_etag s)) r' e4"
            for r' :: "exn + rollback_outcome" and e4 k target key
            unfolding rollback_spec_def rollback_log_def using False e1(3) prev(1) r that by simp blast
          show ?thesis
            unfolding rm prod.case if_not_P [OF False]
          proof (intro emits_bind_liftA, goal_cases)
            case (3 target key)
            then obtain k where k: "make_pointer (PInt 1) (PStr (ds_name (sp_dataset plan))) (PStr k) (PStr digest) = Inr target"
              by (auto simp: inr_iffs)
            show ?case
            proof (rule emits_bindA [OF put_pointer_exact_emits [OF e1(2)]], goal_cases)
              case (1 x ext)
              then show ?case using fin [OF k 3(2), of "Inl x" ext] by (simp add: pointer_outcome_def)
            next
              case (2 y e4)
              then show ?case using fin [OF k 3(2), of "Inr z" e4 for z] by (intro emits_retA) (simp add: pointer_outcome_def)
            qed
          qed (use stop in simp_all)
        qed
      qed
      show ?thesis
        unfolding p prod.case option.case e1(1) pub_traced_simps ds_traced_pure
      proof (rule emits_bindA [OF read_historical_emits], goal_cases)
        case (1 x ext)
        then show ?case using e1(4) reads [of "ev1 # ext" x] by simp
      next
        case (2 previous e2)
        then obtain ev2 where e2: "e2 = [ev2]" "read_call ev2"
          "manifest_at pe (ds_name (sp_dataset plan)) (ap_manifest_sha256 p) bucket ev2 previous" by auto
        show ?case
        proof (rule emits_bind_liftA, goal_cases)
          case (1 x)
          then show ?case using e1(4) e2 reads [of "[ev1, ev2]" x] by simp
        next
          case (2 u)
          show ?case using inner [OF e2(3,2)] unfolding e2(1) pub_traced_simps ds_traced_pure by simp
        qed
      qed
    qed
  qed
qed

section \<open>History\<close>

fun linked :: "string \<Rightarrow> string option \<Rightarrow> string option \<Rightarrow> historical_manifest list \<Rightarrow> bool" where
  \<comment> \<open>each manifest is the one its successor names, the last one names none\<close>
  "linked name key digest [] \<longleftrightarrow> key = None \<and> digest = None"
| "linked name key digest (h # hs) \<longleftrightarrow>
     key = Some (hm_key h) \<and> digest = Some (hm_digest h) \<and>
     immutable_manifest_key (PStr name) (PStr (hm_digest h)) = Inr (hm_key h) \<and>
     linked name (im_previous_manifest_key (hm_manifest h)) (im_previous_manifest_sha256 (hm_manifest h)) hs"

definition history_log ::
  "'w pub_env \<Rightarrow> scale_plan \<Rightarrow> string \<Rightarrow> string option \<Rightarrow> string option \<Rightarrow> nat \<Rightarrow> historical_manifest list \<Rightarrow>
   exn + historical_manifest list \<times> inventory_budget option \<Rightarrow> ds_event list \<Rightarrow> bool" where
  "history_log pe plan bucket key digest n history r evs \<longleftrightarrow>
     list_all read_call evs \<and>
     (\<forall>hs b. r = Inr (hs, b) \<longrightarrow> (\<exists>more. hs = history @ more \<and> linked (ds_name (sp_dataset plan)) key digest more \<and>
        length more < n \<and> distinct (map hm_digest more) \<and> set (map hm_digest more) \<inter> set (map hm_digest history) = {} \<and>
        list_all (\<lambda>h. validate_historical_manifest (hm_manifest h) plan = Inr ()) more \<and>
        list_all2 (\<lambda>ev h. manifest_at pe (ds_name (sp_dataset plan)) (hm_digest h) bucket ev (hm_manifest h)) evs more))"

lemma history_log_stop: "history_log pe plan bucket key digest n history (Inl x) evs \<longleftrightarrow> list_all read_call evs"
  by (simp add: history_log_def)

lemma history_log_Cons:
  assumes "history_log pe plan bucket (im_previous_manifest_key m) (im_previous_manifest_sha256 m) n (history @ [\<lparr>hm_key = k, hm_digest = d, hm_manifest = m\<rparr>]) r e2"
    "manifest_at pe (ds_name (sp_dataset plan)) d bucket ev m" "validate_historical_manifest m plan = Inr ()"
    "d \<notin> set (map hm_digest history)" "immutable_manifest_key (PStr (ds_name (sp_dataset plan))) (PStr d) = Inr k" "read_call ev"
  shows "history_log pe plan bucket (Some k) (Some d) (Suc n) history r (ev # e2)"
  unfolding history_log_def
proof (intro conjI allI impI)
  show "list_all read_call (ev # e2)" using assms(1,6) by (simp add: history_log_def)
  fix hs b assume "r = Inr (hs, b)"
  then obtain more where m: "hs = (history @ [\<lparr>hm_key = k, hm_digest = d, hm_manifest = m\<rparr>]) @ more"
    "linked (ds_name (sp_dataset plan)) (im_previous_manifest_key m) (im_previous_manifest_sha256 m) more" "length more < n"
    "distinct (map hm_digest more)" "set (map hm_digest more) \<inter> set (map hm_digest (history @ [\<lparr>hm_key = k, hm_digest = d, hm_manifest = m\<rparr>])) = {}"
    "list_all (\<lambda>h. validate_historical_manifest (hm_manifest h) plan = Inr ()) more"
    "list_all2 (\<lambda>ev h. manifest_at pe (ds_name (sp_dataset plan)) (hm_digest h) bucket ev (hm_manifest h)) e2 more"
    using assms(1) unfolding history_log_def by blast
  show "\<exists>more. hs = history @ more \<and> linked (ds_name (sp_dataset plan)) (Some k) (Some d) more \<and> length more < Suc n \<and>
      distinct (map hm_digest more) \<and> set (map hm_digest more) \<inter> set (map hm_digest history) = {} \<and>
      list_all (\<lambda>h. validate_historical_manifest (hm_manifest h) plan = Inr ()) more \<and>
      list_all2 (\<lambda>ev h. manifest_at pe (ds_name (sp_dataset plan)) (hm_digest h) bucket ev (hm_manifest h)) (ev # e2) more"
    by (rule exI [of _ "\<lparr>hm_key = k, hm_digest = d, hm_manifest = m\<rparr> # more"]) (use m assms(2-5) in auto)
qed

lemma history_loop_emits:
  "emits (history_loop n (pub_traced pe) plan bucket key digest history budget) (history_log pe plan bucket key digest n history)"
proof (induction n arbitrary: key digest history budget)
  case 0
  show ?case unfolding history_loop.simps by (rule emits_raiseA) (simp add: history_log_stop)
next
  case (Suc n)
  let ?name = "ds_name (sp_dataset plan)"
  show ?case
  proof (cases key; cases digest)
    fix k d assume kd: "key = Some k" "digest = Some d"
    have rd: "emits (bindA (liftA (budget_request_opt budget)) (\<lambda>budget'.
          bindA (read_historical_manifest (pub_traced pe) ?name d bucket) (\<lambda>m.
          bindA (liftA (validate_historical_manifest m plan)) (\<lambda>_. retA (m, budget')))))
        (\<lambda>r ext. list_all read_call ext \<and> (\<forall>m b. r = Inr (m, b) \<longrightarrow> (\<exists>ev. ext = [ev] \<and> manifest_at pe ?name d bucket ev m) \<and>
           validate_historical_manifest m plan = Inr ()))"
      by (rule emits_bind_liftA) (auto intro!: emits_bindA [OF read_historical_emits] emits_bind_liftA emits_retA)
    show ?thesis
      unfolding kd history_loop.simps prod.case option.case
    proof (rule emits_bind_liftA, goal_cases)
      case (1 x)
      then show ?case by (simp add: history_log_stop)
    next
      case (2 expected)
      show ?case
      proof (intro emits_if, goal_cases)
        case 3
        show ?case
        proof (rule emits_bindA [OF emits_mapexnA [OF rd, where P = "\<lambda>r ext. list_all read_call ext \<and> (\<forall>m b. r = Inr (m, b) \<longrightarrow>
            (\<exists>ev. ext = [ev] \<and> manifest_at pe ?name d bucket ev m) \<and> validate_historical_manifest m plan = Inr ())"]], goal_cases)
          case (3 x ext)
          then show ?case by (simp add: history_log_stop)
        next
          case (4 mb e1)
          obtain m b where mb: "mb = (m, b)" by (cases mb)
          with 4 obtain ev where ev: "e1 = [ev]" "manifest_at pe ?name d bucket ev m" "read_call ev"
            "validate_historical_manifest m plan = Inr ()" by auto
          show ?case
            unfolding mb prod.case ev(1) append.simps
            by (rule emits_mono [OF Suc.IH], rule history_log_Cons) (use ev 2 3 in auto)
        qed simp_all
      qed (auto simp: history_log_stop intro!: emits_raiseA)
    qed
  qed (auto simp: history_log_def intro!: emit_rules)
qed

end
