(* ===== verification/ResolutionProps.thy ===== *)
theory ResolutionProps
  imports ResolutionFacts DatasetProps
begin

text \<open>
  The properties of resolving, rolling back and reading the history of publications, and of the
  encoding of their manifests.  The first three hold for every store and every registry; they are
  stated on the logs of \<open>StoreTrace\<close> with the vocabulary of \<open>ResolutionFacts\<close>.
\<close>

text \<open>C11. Resolution is sound: \<^verbatim>\<open>resolve_active_dataset\<close> only reads.  What it returns is what the
  registry locks for the scale: the first read was a canonical active pointer of the dataset, the
  second the manifest stored under the digest the pointer names, with that digest, which belongs to
  the selected plan, and then every object of it was read once with exactly the locked size and
  digest and an accepted schema; the objects returned are the outputs of the plan, in order.\<close>

theorem resolve_active_sound:
  "emits (resolve_active_dataset (pub_traced pe) registry dataset_id expected_scale bucket)
     (\<lambda>r evs. list_all read_call evs \<and>
        (case r of
           Inl _ \<Rightarrow> True
         | Inr rd \<Rightarrow>
             \<exists>ds plan ev s p rest m.
               item_of registry dataset_id = Inr ds \<and> resolve_scale ds expected_scale = Inr plan \<and> evs = ev # rest \<and>
               pointer_at pe dataset_id bucket ev s p \<and> resolved_by pe plan (ap_manifest_sha256 p) bucket rest rd m \<and>
               list_all2 locks_output (selected_outputs plan) (rd_objects rd)))"
  unfolding resolve_active_dataset_def pub_traced_simps ds_traced_pure
proof (intro emits_bind_liftA, goal_cases)
  case (4 ds plan key)
  show ?case
  proof (rule emits_bindA [OF read_control_object_emits], goal_cases)
    case (1 x ext)
    then show ?case by auto
  next
    case (2 s e1)
    then obtain a where a: "e1 = [(DsGet bucket key, a)]" "answers_snapshot (pb_ds pe) a s" by auto
    show ?case
    proof (intro emits_bind_liftA emits_if, goal_cases)
      case (3 p)
      then have p: "pointer_at pe dataset_id bucket (DsGet bucket key, a) s p" using a(2) 4 by (auto simp: pointer_at_def inr_iffs)
      show ?case
      proof (rule emits_bindA [OF resolve_manifest_emits], goal_cases)
        case (1 x ext)
        then show ?case using a by simp
      next
        case (2 rm e2)
        obtain rd m where rm: "rm = (rd, m)" by (cases rm)
        then have r: "resolved_by pe plan (ap_manifest_sha256 p) bucket e2 rd m" "list_all read_call e2" using 2 by auto
        then have "list_all2 locks_output (selected_outputs plan) (rd_objects rd)"
          using validated_outputs(1) by (auto simp: resolved_by_def)
        with r p a(1) 4 show ?case unfolding rm prod.case by (intro emits_retA) (simp, blast)
      qed
    qed (use a in \<open>auto intro: emits_raiseA\<close>)
  qed
qed simp_all

text \<open>C10. A rollback is confined and atomic: \<^verbatim>\<open>rollback_manifest\<close> sends at most one write.  Before it, the
  active pointer and the manifest it names were read, and the target manifest and every object of
  it were read and verified against the selected plan; the write replaces the pointer object under
  the entity tag of the pointer that was read, with the canonical pointer to the target.  It answers
  only after the pointer was read back.\<close>

theorem rollback_confined:
  "emits (rollback_manifest (pub_traced pe) registry dataset_id expected_scale target bucket)
     (\<lambda>r evs. (\<exists>x. r = Inl x) \<and> list_all read_call evs \<or>
        (\<exists>ds plan digest. item_of registry dataset_id = Inr ds \<and> resolve_scale ds expected_scale = Inr plan \<and>
           target = PStr digest \<and> rollback_log pe plan digest bucket r evs))"
  unfolding rollback_manifest_def
proof (intro emits_bind_liftA, goal_cases)
  case (4 digest ds plan)
  have t: "emits (rollback_transaction (pub_traced pe) plan digest bucket False) (rollback_log pe plan digest bucket)"
    using rollback_transaction_emits [of pe plan digest bucket False] unfolding rollback_spec_def by simp
  have shape: "rollback_log pe plan digest bucket r' evs" if "rollback_log pe plan digest bucket (r :: exn + rollback_outcome) evs"
    "(\<exists>y. r = Inr y) \<longleftrightarrow> (\<exists>y. r' = Inr y)" for r evs and r' :: "exn + resolved_dataset"
    using that unfolding rollback_log_def pointer_outcome_def by metis
  have plan: "item_of registry dataset_id = Inr ds" "resolve_scale ds expected_scale = Inr plan" "target = PStr digest"
    using 4 by (auto simp: inr_iffs)
  show ?case
  proof (rule emits_bindA [OF t], goal_cases)
    case (1 x ext)
    then have "rollback_log pe plan digest bucket (Inl x :: exn + resolved_dataset) ext" by (rule shape) simp
    then show ?case using plan by blast
  next
    case (2 out e1)
    then have "rollback_log pe plan digest bucket (Inr (rb_resolved out)) e1" by (rule shape) simp
    then show ?case using plan by (intro emits_retA) auto
  qed
qed simp_all

text \<open>C17. A history is a chain: what \<^verbatim>\<open>_manifest_history\<close> returns are fewer than 1000 manifests with
  distinct digests, each read from the key of its own digest and self-consistent, each the one that
  the manifest before it names, and the last one names none.  It only reads, whatever the store
  answers.\<close>

theorem manifest_history_chain:
  "emits (manifest_history (pub_traced pe) plan current bucket budget)
     (\<lambda>r evs. list_all read_call evs \<and>
        (case r of
           Inl _ \<Rightarrow> True
         | Inr (hs, _) \<Rightarrow>
             length hs < 1000 \<and> distinct (map hm_digest hs) \<and>
             linked (ds_name (sp_dataset plan)) (im_previous_manifest_key current) (im_previous_manifest_sha256 current) hs \<and>
             list_all (\<lambda>h. validate_historical_manifest (hm_manifest h) plan = Inr ()) hs \<and>
             list_all2 (\<lambda>ev h. manifest_at pe (ds_name (sp_dataset plan)) (hm_digest h) bucket ev (hm_manifest h)) evs hs))"
  unfolding manifest_history_def
  by (rule emits_mono [OF history_loop_emits]) (auto simp: history_log_def max_history_depth_def split: sum.split)

text \<open>C20. Manifest bytes and manifests determine each other: for a manifest that satisfies the invariant of its
  class, with ASCII names and a time stamp within the calendar, the bytes \<^verbatim>\<open>to_bytes\<close> writes are
  the only bytes \<^verbatim>\<open>from_bytes\<close> reads as this manifest.\<close>

theorem manifest_codec:
  assumes "manifest_valid m" "manifest_plain m"
  shows "\<exists>body. \<forall>b. (manifest_to_bytes fr m = Inr b \<longleftrightarrow> b = body) \<and> (manifest_from_bytes fr b = Inr m \<longleftrightarrow> b = body)"
proof -
  obtain body where body: "manifest_to_bytes fr m = Inr body" "manifest_from_bytes fr body = Inr m"
    using manifest_reads_back [OF assms] by blast
  have "b = body" if "manifest_from_bytes fr b = Inr m" for b using manifest_bytes_canonical [OF that] body(1) by simp
  moreover have "manifest_to_bytes fr m = Inr b \<longleftrightarrow> b = body" for b using body(1) by auto
  ultimately show ?thesis using body(2) by blast
qed

definition sample_hex :: string where "sample_hex = replicate 64 (CHR ''a'')"

definition sample_manifest :: manifest where
  "sample_manifest =
     (let prefix = ''tpch/_generations/'' @ sample_hex @ ''/0123456789ab4cde89abcdef01234567''
      in \<lparr>im_dataset = ''tpch'', im_scale = ''tiny'', im_raw_registry_sha256 = sample_hex, im_selected_plan_sha256 = sample_hex,
          im_plan_id = sample_hex, im_publication_id = ''0123456789ab4cde89abcdef01234567'', im_physical_prefix = prefix,
          im_objects = [\<lparr>mo_object_name = ''a.csv'', mo_key = prefix @ ''/a.csv'', mo_size_bytes = 3, mo_sha256 = sample_hex,
                         mo_schema_id = ''s'', mo_schema_fingerprint = sample_hex\<rparr>],
          im_published_at = utc_at 1000, im_previous_manifest_key = None, im_previous_manifest_sha256 = None\<rparr>)"

lemma sample_shapes:
  "sha256_re sample_hex" "uuid4_hex_re ''0123456789ab4cde89abcdef01234567''"
  "validate_relative_path (PStr ''tpch'') l = []" "validate_relative_path (PStr ''tiny'') l = []"
  "validate_relative_path (PStr ''a.csv'') l = []" "validate_relative_path (PStr ''s'') l = []"
  "validate_relative_path (PStr (''tpch/_generations/'' @ sample_hex @ ''/0123456789ab4cde89abcdef01234567'')) l = []"
  "validate_relative_path (PStr (''tpch/_generations/'' @ sample_hex @ ''/0123456789ab4cde89abcdef01234567/a.csv'')) l = []"
  by code_simp+

lemma sample_manifest_ok: "manifest_valid sample_manifest" "manifest_plain sample_manifest"
proof -
  show "manifest_plain sample_manifest" by code_simp
  show "manifest_valid sample_manifest"
    using sample_shapes
    by (simp add: manifest_valid_def sample_manifest_def object_valid_def make_manifest_def make_manifest_object_def
        require_sha256_def require_uuid4_hex_def require_component_def require_relative_key_def format_published_def utc_at_def
        check_previous_def opt_str_def opt_of_def Let_def)
qed

theorem manifest_codec_witness:
  "\<exists>body. \<forall>b. (manifest_to_bytes (\<lambda>_. []) sample_manifest = Inr b \<longleftrightarrow> b = body) \<and>
     (manifest_from_bytes (\<lambda>_. []) b = Inr sample_manifest \<longleftrightarrow> b = body)"
  by (rule manifest_codec [OF sample_manifest_ok])

end
