(* ===== verification/RegistrySchema.thy ===== *)
theory RegistrySchema
  imports DatasetRegistry DatasetLease
begin

text \<open>
  \<^verbatim>\<open>datasets/schema.py\<close>: the validator of a dataset registry, from a parsed YAML document to the list of
  its errors, in the order the code reports them.  The record \<open>schema_env\<close> holds what the module takes
  from Python's standard library: \<^verbatim>\<open>urlsplit\<close>, \<^verbatim>\<open>unquote\<close>, \<^verbatim>\<open>ipaddress\<close>, the date parsers, \<^verbatim>\<open>str\<close> and
  \<^verbatim>\<open>repr\<close> of values that are no strings, the matches of the module's regular expressions in a
  text of provenance, and the outcome of serialising a schema whose keys or values are outside the
  modelled part of JSON.  A value of an option type is \<open>None\<close> where the library raises \<^verbatim>\<open>ValueError\<close>.
\<close>

section \<open>The environment\<close>

record url_parts =
  up_scheme :: string
  up_netloc :: string
  up_path :: string
  up_query :: string
  up_fragment :: string
  up_username :: "string option"
  up_password :: "string option"
  up_hostname :: "string option"
  up_port :: "int option option" \<comment> \<open>the outer \<open>None\<close> for a port that raises\<close>

datatype ip_address = IP (ip_v6: bool) (ip_value: nat) (ip_multicast: bool) (ip_global: bool) (ip_mapped: "ip_address option")

record schema_env =
  sx_str :: "pyval \<Rightarrow> string"
  sx_repr :: "pyval \<Rightarrow> string"
  sx_urlsplit :: "string \<Rightarrow> url_parts option"
  sx_unquote :: "string \<Rightarrow> string"
  sx_ip :: "string \<Rightarrow> ip_address option"
  sx_ipv4_candidates :: "string \<Rightarrow> string list" \<comment> \<open>matches of \<^verbatim>\<open>_IPV4_CANDIDATE_RE\<close>\<close>
  sx_ipv6_candidates :: "string \<Rightarrow> string list"
  sx_endpoints :: "string \<Rightarrow> (string \<times> bool \<times> string) list"
    \<comment> \<open>label, whether the terminal dot matched, and port of the matches of \<^verbatim>\<open>_SINGLE_LABEL_ENDPOINT_RE\<close>\<close>
  sx_local :: "string \<Rightarrow> bool list" \<comment> \<open>\<^verbatim>\<open>search\<close> of each of \<^verbatim>\<open>_PROVENANCE_LOCAL_PATTERNS\<close>\<close>
  sx_date :: "string \<Rightarrow> string option" \<comment> \<open>\<^verbatim>\<open>date.fromisoformat(s).isoformat()\<close>\<close>
  sx_datetime :: "string \<Rightarrow> pydatetime option"
  sx_float_repr :: "rat option \<Rightarrow> string"
  sx_fingerprint_other :: "pydict \<Rightarrow> string res"

section \<open>Text\<close>

definition apos :: "string \<Rightarrow> string" where "apos s = CHR 0x27 # s @ [CHR 0x27]"

definition text_of :: "schema_env \<Rightarrow> pyval \<Rightarrow> string" where
  \<comment> \<open>a value in an f-string\<close>
  "text_of e v = (case v of PStr s \<Rightarrow> s | _ \<Rightarrow> sx_str e v)"

definition white_space :: "char \<Rightarrow> bool" where
  "white_space c \<longleftrightarrow> (let n = (of_char c :: nat) in 9 \<le> n \<and> n \<le> 13 \<or> 28 \<le> n \<and> n \<le> 32 \<or> n = 0x85 \<or> n = 0xA0)"

definition folded_char :: "char \<Rightarrow> char" where
  "folded_char c =
     (let n = (of_char c :: nat)
      in if 65 \<le> n \<and> n \<le> 90 \<or> 0xC0 \<le> n \<and> n \<le> 0xDE \<and> n \<noteq> 0xD7 then char_of (n + 32) else c)"

definition str_lower :: "string \<Rightarrow> string" where "str_lower = map folded_char"

definition rstrip_dots :: "string \<Rightarrow> string" where
  "rstrip_dots s = rev (dropWhile (\<lambda>c. c = CHR ''.'') (rev s))"

definition after_last :: "char \<Rightarrow> string \<Rightarrow> string" where
  \<comment> \<open>\<^verbatim>\<open>s.rsplit(c, 1)[-1]\<close>\<close>
  "after_last c s = rev (takeWhile (\<lambda>x. x \<noteq> c) (rev s))"

definition posix_name :: "string \<Rightarrow> string" where
  \<comment> \<open>\<^verbatim>\<open>PurePosixPath(s).name\<close>\<close>
  "posix_name s = (case filter (\<lambda>c. c \<noteq> [] \<and> c \<noteq> ''.'') (split_char (CHR ''/'') s) of [] \<Rightarrow> [] | xs \<Rightarrow> last xs)"

definition digits_int :: "string \<Rightarrow> int res" where
  \<comment> \<open>\<^verbatim>\<open>int(s)\<close> of decimal digits\<close>
  "digits_int s = (if int (length s) > max_int_digits then Inl value_error else Inr (int (dec_val s)))"

definition lower_alnum :: "char \<Rightarrow> bool" where
  "lower_alnum c \<longleftrightarrow> digit_char c \<or> lower_char c"

definition identifier_re :: "string \<Rightarrow> bool" where
  "identifier_re s \<longleftrightarrow>
     s \<noteq> [] \<and> lower_alnum (hd s) \<and> list_all (\<lambda>c. lower_alnum c \<or> c = CHR ''_'' \<or> c = CHR ''-'') (tl s)"

definition dns_label_re :: "string \<Rightarrow> bool" where
  "dns_label_re s \<longleftrightarrow>
     s \<noteq> [] \<and> length s \<le> 63 \<and> lower_alnum (hd s) \<and> lower_alnum (last s) \<and>
     list_all (\<lambda>c. lower_alnum c \<or> c = CHR ''-'') s"

definition legacy_label_re :: "string \<Rightarrow> bool" where
  \<comment> \<open>\<^verbatim>\<open>(?:[0-9]+|0x[0-9a-f]+)\<close>\<close>
  "legacy_label_re s \<longleftrightarrow>
     s \<noteq> [] \<and> list_all digit_char s \<or> startswith s ''0x'' \<and> drop 2 s \<noteq> [] \<and> list_all hex_char (drop 2 s)"

definition decimal_re :: "string \<Rightarrow> (string \<times> string) option" where
  \<comment> \<open>the groups of \<^verbatim>\<open>decimal\(([0-9]+),([0-9]+)\)\<close>\<close>
  "decimal_re s =
     (if startswith s ''decimal('' \<and> endswith s '')''
      then let t = butlast (drop 8 s); p = takeWhile digit_char t; r = drop (length p) t; q = tl r
           in if p \<noteq> [] \<and> r \<noteq> [] \<and> hd r = CHR '','' \<and> q \<noteq> [] \<and> list_all digit_char q then Some (p, q) else None
      else None)"

section \<open>Errors\<close>

definition joinE :: "string list res list \<Rightarrow> string list res" where
  \<comment> \<open>the errors of several checks in order; a check that raises ends the validation\<close>
  "joinE xs = bindE (mapE id xs) (\<lambda>ys. Inr (concat ys))"

definition not_mapping :: "string \<Rightarrow> string list" where "not_mapping path = [path @ '': must be a mapping'']"

definition missing_fields :: "pydict \<Rightarrow> string \<Rightarrow> string list \<Rightarrow> string list" where
  \<comment> \<open>\<^verbatim>\<open>_required\<close> of a mapping\<close>
  "missing_fields d path fs = map (\<lambda>f. path @ '': missing '' @ apos f) (filter (\<lambda>f. dget d f = None) fs)"

definition required_fields :: "pyval \<Rightarrow> string \<Rightarrow> string list \<Rightarrow> pydict \<times> string list" where
  "required_fields v path fs = (case v of PDict d \<Rightarrow> (d, missing_fields d path fs) | _ \<Rightarrow> ([], not_mapping path))"

definition unknown_fields :: "schema_env \<Rightarrow> pydict \<Rightarrow> string \<Rightarrow> string list \<Rightarrow> string list" where
  "unknown_fields e d path allowed =
     map (\<lambda>k. path @ '': unknown field '' @ apos (text_of e k)) (filter (\<lambda>k. k \<notin> PStr ` set allowed) (dkeys d))"

definition on_field :: "pydict \<Rightarrow> string \<Rightarrow> (pyval \<Rightarrow> string list) \<Rightarrow> string list" where
  \<comment> \<open>\<^verbatim>\<open>if field in mapping: errors += ...\<close>\<close>
  "on_field d f check = (case dget d f of None \<Rightarrow> [] | Some v \<Rightarrow> check v)"

definition on_fieldE :: "pydict \<Rightarrow> string \<Rightarrow> (pyval \<Rightarrow> string list res) \<Rightarrow> string list res" where
  "on_fieldE d f check = (case dget d f of None \<Rightarrow> Inr [] | Some v \<Rightarrow> check v)"

definition nonempty_string :: "pyval \<Rightarrow> string \<Rightarrow> string list" where
  "nonempty_string v path =
     (if \<not> is_str v \<or> list_all white_space (str_val v) then [path @ '': must be a non-empty string''] else [])"

fun same_type :: "pyval \<Rightarrow> pyval \<Rightarrow> bool" where
  "same_type (PStr _) v = is_str v"
| "same_type (PBool _) v = is_bool v"
| "same_type (PInt _) v = is_int v"
| "same_type (PList _) v = is_list v"
| "same_type (PDict _) v = is_dict v"
| "same_type _ v = False"

definition exact_value :: "schema_env \<Rightarrow> pyval \<Rightarrow> pyval \<Rightarrow> string \<Rightarrow> string list" where
  "exact_value e v expected path =
     (if \<not> same_type expected v \<or> \<not> py_eq v expected then [path @ '': must be '' @ sx_repr e expected] else [])"

definition identifier_errors :: "pyval \<Rightarrow> string \<Rightarrow> string list" where
  "identifier_errors v path =
     (if \<not> is_str v \<or> \<not> identifier_re (str_val v) then [path @ '': must be a lowercase identifier''] else [])"

definition one_of :: "string list \<Rightarrow> pyval \<Rightarrow> bool" where
  \<comment> \<open>\<^verbatim>\<open>isinstance(v, str) and v in {...}\<close>\<close>
  "one_of xs v \<longleftrightarrow> v \<in> PStr ` set xs"

section \<open>URLs and provenance\<close>

definition non_public_networks :: "(bool \<times> nat \<times> nat) list" where
  \<comment> \<open>version 6 or not, network address and prefix length\<close>
  "non_public_networks =
     [(False, 192 * 2 ^ 24, 24), (False, 192 * 2 ^ 24 + 88 * 2 ^ 16 + 99 * 2 ^ 8, 24),
      (True, 0x64 * 2 ^ 112 + 0xff9b * 2 ^ 96 + 2 ^ 80, 48), (True, 0x2002 * 2 ^ 112, 16), (True, 0xfec0 * 2 ^ 112, 10)]"

definition in_network :: "bool \<Rightarrow> nat \<Rightarrow> bool \<times> nat \<times> nat \<Rightarrow> bool" where
  "in_network v6 n net =
     (case net of (v, base, plen) \<Rightarrow>
        let k = 2 ^ ((if v then 128 else 32) - plen) in v = v6 \<and> n div k = base div k)"

fun is_authoritative_public_address :: "ip_address \<Rightarrow> bool" where
  "is_authoritative_public_address (IP v6 n multicast global mapped) =
     (case (v6, mapped) of
        (True, Some a) \<Rightarrow> is_authoritative_public_address a
      | _ \<Rightarrow>
          if \<not> v6 \<and> n \<in> {192 * 2 ^ 24 + 9, 192 * 2 ^ 24 + 10} then True
          else if multicast then False
          else if list_ex (in_network v6 n) non_public_networks then False
          else global)"

definition https_ok :: "schema_env \<Rightarrow> string \<Rightarrow> bool" where
  "https_ok e s =
     (case sx_urlsplit e s of
        None \<Rightarrow> False
      | Some u \<Rightarrow>
          (case (up_hostname u, up_port u) of
             (Some hostname, Some port) \<Rightarrow>
               if up_scheme u \<noteq> ''https'' \<or> hostname = [] \<or> up_username u \<noteq> None \<or> up_password u \<noteq> None \<or> port \<noteq> None \<or>
                  up_fragment u \<noteq> [] then False
               else
                 let authority = after_last (CHR ''@'') (up_netloc u);
                     host = str_lower (rstrip_dots hostname)
                 in if startswith authority ''['' \<and> \<not> endswith authority '']'' \<or>
                       \<not> startswith authority ''['' \<and> CHR '':'' \<in> set authority then False
                    else if host = ''localhost'' \<or> endswith host ''.localhost'' \<or> endswith host ''.local'' then False
                    else (case sx_ip e host of
                            Some a \<Rightarrow> is_authoritative_public_address a
                          | None \<Rightarrow>
                              let labels = split_char (CHR ''.'') host
                              in \<not> (length labels \<le> 4 \<and> list_all legacy_label_re labels) \<and> CHR ''.'' \<in> set host \<and>
                                 length host \<le> 253 \<and> list_all dns_label_re labels)
           | _ \<Rightarrow> False))"

definition https_errors :: "schema_env \<Rightarrow> pyval \<Rightarrow> string \<Rightarrow> string list" where
  "https_errors e v path =
     (if is_str v \<and> str_val v \<noteq> [] \<and> https_ok e (str_val v) then [] else [path @ '': must be an authoritative HTTPS URL''])"

definition authoritative_url_identity :: "schema_env \<Rightarrow> pyval \<Rightarrow> (string \<times> int option \<times> string \<times> string) option" where
  \<comment> \<open>host, port, path and query of an HTTPS URL\<close>
  "authoritative_url_identity e v =
     (if \<not> is_str v \<or> str_val v = [] then None
      else case sx_urlsplit e (str_val v) of
             None \<Rightarrow> None
           | Some u \<Rightarrow>
               (case (up_port u, up_hostname u) of
                  (Some port, Some hostname) \<Rightarrow>
                    if str_lower (up_scheme u) \<noteq> ''https'' \<or> hostname = [] then None
                    else Some (str_lower (rstrip_dots hostname), if port \<in> {None, Some 443} then None else port, up_path u, up_query u)
                | _ \<Rightarrow> None))"

definition semantic_labels :: "string list" where
  "semantic_labels =
     [''doi'', ''isbn'', ''issn'', ''pmid'', ''pmcid'', ''orcid'', ''rfc'', ''cve'', ''ghsa'', ''iso'', ''iec'', ''ieee'', ''ansi'',
      ''nist'', ''soc'', ''hipaa'', ''gdpr'', ''version'', ''volume'', ''year'', ''edition'', ''standard'', ''issue'', ''section'',
      ''page'', ''chapter'', ''figure'', ''table'', ''article'', ''as'']"

fun has_single_label_endpoint :: "(string \<times> bool \<times> string) list \<Rightarrow> bool res" where
  "has_single_label_endpoint [] = Inr False"
| "has_single_label_endpoint ((label, dot, port) # ms) =
     bindE (digits_int port) (\<lambda>p.
     if 1 \<le> p \<and> p \<le> 65535 \<and> (dot \<or> str_lower label \<notin> set semantic_labels) then Inr True
     else has_single_label_endpoint ms)"

definition ipv6_address :: "schema_env \<Rightarrow> string \<Rightarrow> ip_address option" where
  \<comment> \<open>the candidate, or the candidate without a single trailing colon\<close>
  "ipv6_address e s =
     (case sx_ip e s of
        Some a \<Rightarrow> Some a
      | None \<Rightarrow> if endswith s '':'' \<and> \<not> endswith s ''::'' then sx_ip e (butlast s) else None)"

definition text_addresses :: "schema_env \<Rightarrow> string \<Rightarrow> ip_address list" where
  "text_addresses e s =
     List.map_filter (sx_ip e) (sx_ipv4_candidates e s) @ List.map_filter (ipv6_address e) (sx_ipv6_candidates e s)"

definition provenance_text :: "schema_env \<Rightarrow> pyval \<Rightarrow> string \<Rightarrow> string list res" where
  "provenance_text e v path =
     (if nonempty_string v path \<noteq> [] then Inr (nonempty_string v path)
      else
        let s = str_val v; bad = [path @ '': must not contain machine-local or credential-like values'']
        in if list_ex (\<lambda>a. \<not> is_authoritative_public_address a) (text_addresses e s) then Inr bad
           else bindE (has_single_label_endpoint (sx_endpoints e s)) (\<lambda>b.
                Inr (if b \<or> list_ex id (sx_local e s) then bad else [])))"

definition provenance_fields :: "string list" where
  "provenance_fields =
     [''publisher'', ''homepage'', ''license_name'', ''license_url'', ''attribution'', ''source_stability'', ''update_policy'']"

definition stability_values :: "string list" where "stability_values = [''mutable'', ''immutable'']"

definition stability_errors :: "pyval \<Rightarrow> string \<Rightarrow> string list" where
  "stability_errors v path =
     (if one_of stability_values v then []
      else [path @ '': must be '' @ apos ''mutable'' @ '' or '' @ apos ''immutable''])"

definition validate_provenance :: "schema_env \<Rightarrow> pyval \<Rightarrow> string \<Rightarrow> string list res" where
  "validate_provenance e v path =
     (case required_fields v path provenance_fields of (p, errors) \<Rightarrow>
        if p = [] then Inr errors
        else joinE
          ([Inr errors, Inr (unknown_fields e p path provenance_fields)] @
           map (\<lambda>f. on_fieldE p f (\<lambda>x. provenance_text e x (path @ ''.'' @ f))) [''publisher'', ''license_name'', ''attribution''] @
           map (\<lambda>f. Inr (on_field p f (\<lambda>x. https_errors e x (path @ ''.'' @ f)))) [''homepage'', ''license_url''] @
           [Inr (on_field p ''source_stability'' (\<lambda>x. stability_errors x (path @ ''.source_stability''))),
            Inr (on_field p ''update_policy'' (\<lambda>x. exact_value e x (PStr ''reviewed-lock-update'') (path @ ''.update_policy'')))]))"

section \<open>Schemas\<close>

definition logical_types :: "string list" where
  "logical_types =
     [''boolean'', ''int8'', ''int16'', ''int32'', ''int64'', ''uint8'', ''uint16'', ''uint32'', ''uint64'', ''float32'', ''float64'',
      ''date'', ''timestamp'', ''timestamp-tz'', ''string'', ''binary'', ''json'']"

definition valid_logical_type :: "pyval \<Rightarrow> bool res" where
  "valid_logical_type v =
     (if \<not> is_str v then Inr False
      else if str_val v \<in> set logical_types then Inr True
      else case decimal_re (str_val v) of
             None \<Rightarrow> Inr False
           | Some (p, q) \<Rightarrow>
               bindE (digits_int p) (\<lambda>precision. bindE (digits_int q) (\<lambda>scale.
               Inr (1 \<le> precision \<and> precision \<le> 38 \<and> 0 \<le> scale \<and> scale \<le> precision))))"

definition option_fields :: "pyval \<Rightarrow> string list" where
  \<comment> \<open>\<^verbatim>\<open>required_by_format\<close>\<close>
  "option_fields format =
     (if format = PStr ''csv'' then [''header'', ''delimiter'', ''encoding'']
      else if format = PStr ''jsonl-gzip'' then [''record_shape'', ''compression'', ''encoding'']
      else if format = PStr ''xlsx'' then [''sheets'', ''header_row'']
      else if format = PStr ''text'' then [''encoding'']
      else [])"

definition indexed :: "string \<Rightarrow> nat \<Rightarrow> string" where "indexed path i = path @ ''['' @ dec_nat i @ '']''"

fun sheet_errors :: "string \<Rightarrow> nat \<Rightarrow> string list \<Rightarrow> pyval list \<Rightarrow> string list" where
  "sheet_errors path i seen [] = []"
| "sheet_errors path i seen (x # xs) =
     nonempty_string x (indexed path i) @
     (case x of
        PStr s \<Rightarrow>
          if s \<in> set seen then (indexed path i @ '': duplicate sheet '' @ apos s) # sheet_errors path (Suc i) seen xs
          else sheet_errors path (Suc i) (s # seen) xs
      | _ \<Rightarrow> sheet_errors path (Suc i) seen xs)"

definition validate_schema_options :: "schema_env \<Rightarrow> pyval \<Rightarrow> pyval \<Rightarrow> string \<Rightarrow> string list" where
  "validate_schema_options e format options path =
     (case options of
        PDict d \<Rightarrow>
          missing_fields d path (option_fields format) @ unknown_fields e d path (option_fields format) @
          (if format = PStr ''csv'' then
             on_field d ''header'' (\<lambda>v. if is_bool v then [] else [path @ ''.header: must be a boolean'']) @
             on_field d ''delimiter'' (\<lambda>v. if is_str v \<and> length (str_val v) = 1 then []
                                        else [path @ ''.delimiter: must be one character'']) @
             on_field d ''encoding'' (\<lambda>v. exact_value e v (PStr ''utf-8'') (path @ ''.encoding''))
           else if format = PStr ''jsonl-gzip'' then
             concat (map (\<lambda>(f, x). on_field d f (\<lambda>v. exact_value e v (PStr x) (path @ ''.'' @ f)))
               [(''record_shape'', ''object''), (''compression'', ''gzip''), (''encoding'', ''utf-8'')])
           else if format = PStr ''xlsx'' then
             on_field d ''sheets'' (\<lambda>v. case v of
                 PList (x # xs) \<Rightarrow> sheet_errors (path @ ''.sheets'') 0 [] (x # xs)
               | _ \<Rightarrow> [path @ ''.sheets: must be a non-empty list'']) @
             on_field d ''header_row'' (\<lambda>v. validate_size v (path @ ''.header_row''))
           else if format = PStr ''text'' then
             on_field d ''encoding'' (\<lambda>v. exact_value e v (PStr ''utf-8'') (path @ ''.encoding''))
           else [])
      | _ \<Rightarrow> not_mapping path)"

definition field_keys :: "string list" where "field_keys = [''name'', ''logical_type'', ''nullable'']"

definition field_errors :: "schema_env \<Rightarrow> string list \<Rightarrow> pyval \<Rightarrow> string \<Rightarrow> string list res" where
  \<comment> \<open>one turn of the loop over the fields, with the names seen before\<close>
  "field_errors e seen v path =
     (case v of
        PDict d \<Rightarrow> joinE
          [Inr (missing_fields d path field_keys), Inr (unknown_fields e d path field_keys),
           Inr (on_field d ''name'' (\<lambda>n. nonempty_string n (path @ ''.name'') @
             (if one_of seen n then [path @ ''.name: duplicate field name '' @ apos (str_val n)] else []))),
           on_fieldE d ''logical_type'' (\<lambda>t. bindE (valid_logical_type t) (\<lambda>ok.
             Inr (if ok then [] else [path @ ''.logical_type: unsupported logical type'']))),
           Inr (on_field d ''nullable'' (\<lambda>b. if is_bool b then [] else [path @ ''.nullable: must be a boolean'']))]
      | _ \<Rightarrow> Inr (not_mapping path))"

definition string_field :: "string \<Rightarrow> pyval \<Rightarrow> string list" where
  \<comment> \<open>the string under a key of a mapping, if there is one\<close>
  "string_field f v = (case v of PDict d \<Rightarrow> (case dget d f of Some (PStr s) \<Rightarrow> [s] | _ \<Rightarrow> []) | _ \<Rightarrow> [])"

fun fields_errors :: "schema_env \<Rightarrow> string \<Rightarrow> nat \<Rightarrow> string list \<Rightarrow> pyval list \<Rightarrow> string list res" where
  "fields_errors e path i seen [] = Inr []"
| "fields_errors e path i seen (v # vs) =
     joinE [field_errors e seen v (indexed path i), fields_errors e path (Suc i) (string_field ''name'' v @ seen) vs]"

fun json_plain :: "pyval \<Rightarrow> bool" where
  \<comment> \<open>the documents \<^verbatim>\<open>json.dumps\<close> is modelled for\<close>
  "json_plain (PList xs) = list_all json_plain xs"
| "json_plain (PDict d) = list_all (\<lambda>(k, v). is_str k \<and> json_plain v) d"
| "json_plain (PInt i) = (int (length (dec_nat (nat \<bar>i\<bar>))) \<le> max_int_digits)"
| "json_plain (PTuple _) = False"
| "json_plain (PBytes _) = False"
| "json_plain (PDatetime _) = False"
| "json_plain (PStream _ _) = False"
| "json_plain PObject = False"
| "json_plain _ = True"

definition fingerprint_of :: "schema_env \<Rightarrow> pydict \<Rightarrow> string res" where
  "fingerprint_of e entry =
     (if json_plain (PDict (ddel entry ''fingerprint'')) then Inr (schema_fingerprint (sx_float_repr e) entry)
      else sx_fingerprint_other e entry)"

definition fingerprint_errors :: "schema_env \<Rightarrow> pydict \<Rightarrow> pyval \<Rightarrow> string \<Rightarrow> string list res" where
  "fingerprint_errors e entry v path =
     (case fingerprint_of e entry of
        Inl x \<Rightarrow> if is_type_or_value x then Inr (validate_sha256 v path @ [path @ '': canonical schema is not serializable'']) else Inl x
      | Inr h \<Rightarrow> Inr (validate_sha256 v path @ (if v = PStr h then [] else [path @ '': does not match canonical schema''])))"

definition schema_formats :: "string list" where "schema_formats = [''parquet'', ''csv'', ''jsonl-gzip'', ''xlsx'', ''text'']"
definition schema_fields :: "string list" where "schema_fields = [''format'', ''mode'', ''fields'', ''options'', ''fingerprint'']"

definition schema_entry_errors :: "schema_env \<Rightarrow> pydict \<Rightarrow> string \<Rightarrow> string list res" where
  \<comment> \<open>the body of the loop over the schemas, for a mapping\<close>
  "schema_entry_errors e d path =
     joinE
       [Inr (missing_fields d path schema_fields), Inr (unknown_fields e d path schema_fields),
        Inr (on_field d ''format'' (\<lambda>v. if one_of schema_formats v then [] else [path @ ''.format: unsupported schema format''])),
        Inr (on_field d ''mode'' (\<lambda>v. if one_of [''exact'', ''minimum''] v then []
               else [path @ ''.mode: must be '' @ apos ''exact'' @ '' or '' @ apos ''minimum''])),
        on_fieldE d ''fields'' (\<lambda>v. case v of
            PList fs \<Rightarrow> joinE
              [Inr (if dget_none d ''format'' = PStr ''text''
                    then (if fs \<noteq> [] then [path @ ''.fields: must be empty for text schemas''] else [])
                    else (if fs = [] then [path @ ''.fields: must contain at least one field''] else [])),
               fields_errors e (path @ ''.fields'') 0 [] fs]
          | _ \<Rightarrow> Inr [path @ ''.fields: must be a list'']),
        Inr (on_field d ''options'' (\<lambda>v. validate_schema_options e (dget_none d ''format'') v (path @ ''.options''))),
        on_fieldE d ''fingerprint'' (\<lambda>v. fingerprint_errors e d v (path @ ''.fingerprint''))]"

definition named_schema_errors :: "schema_env \<Rightarrow> string \<Rightarrow> pyval \<times> pyval \<Rightarrow> string list res" where
  "named_schema_errors e path kv =
     (case kv of (k, entry) \<Rightarrow>
        let entry_path = path @ ''.'' @ text_of e k
        in joinE [Inr (identifier_errors k entry_path),
                  (case entry of PDict d \<Rightarrow> schema_entry_errors e d entry_path | _ \<Rightarrow> Inr (not_mapping entry_path))])"

definition validate_schemas :: "schema_env \<Rightarrow> pyval \<Rightarrow> string \<Rightarrow> string list res" where
  "validate_schemas e v path =
     (case v of
        PDict schemas \<Rightarrow> joinE
          (Inr (if schemas = [] then [path @ '': must be a non-empty mapping''] else []) # map (named_schema_errors e path) schemas)
      | _ \<Rightarrow> Inr (not_mapping path))"

section \<open>Versions and evidence\<close>

definition validate_version :: "schema_env \<Rightarrow> pyval \<Rightarrow> string \<Rightarrow> string list" where
  "validate_version e v path =
     (case v of
        PDict d \<Rightarrow>
          missing_fields d path [''kind'', ''value''] @ unknown_fields e d path [''kind'', ''value''] @
          on_field d ''kind'' (\<lambda>k. if one_of [''revision'', ''publication-date''] k then []
            else [path @ ''.kind: must be '' @ apos ''revision'' @ '' or '' @ apos ''publication-date'']) @
          on_field d ''value'' (\<lambda>x. nonempty_string x (path @ ''.value'') @
            (if dget_none d ''kind'' = PStr ''publication-date'' \<and> is_str x \<and> sx_date e (str_val x) \<noteq> Some (str_val x)
             then [path @ ''.value: must be a strict ISO YYYY-MM-DD date''] else []))
      | _ \<Rightarrow> not_mapping path)"

definition evidence_fields :: "string list" where "evidence_fields = [''etag'', ''last_modified'', ''observed_at'']"

definition validate_evidence :: "schema_env \<Rightarrow> pyval \<Rightarrow> string \<Rightarrow> string list" where
  "validate_evidence e v path =
     (case v of
        PDict d \<Rightarrow>
          unknown_fields e d path evidence_fields @
          concat (map (\<lambda>f. on_field d f (\<lambda>x. nonempty_string x (path @ ''.'' @ f))) evidence_fields) @
          (case dget_none d ''observed_at'' of
             PStr s \<Rightarrow>
               if s = [] then []
               else (case sx_datetime e (replace_Z s) of
                       Some t \<Rightarrow> if CHR ''T'' \<in> set s \<and> dt_offset t = Some 0 then []
                                 else [path @ ''.observed_at: must be an ISO-8601 UTC timestamp'']
                     | None \<Rightarrow> [path @ ''.observed_at: must be an ISO-8601 UTC timestamp''])
           | _ \<Rightarrow> [])
      | _ \<Rightarrow> not_mapping path)"

section \<open>HTTP datasets\<close>

definition dict_or_empty :: "pyval \<Rightarrow> pydict" where
  "dict_or_empty v = (case v of PDict d \<Rightarrow> d | _ \<Rightarrow> [])"

definition fetch_errors :: "schema_env \<Rightarrow> pyval \<Rightarrow> string \<Rightarrow> string list" where
  "fetch_errors e fetch path =
     (case fetch of
        PDict d \<Rightarrow>
          missing_fields d path [''kind'', ''unzip''] @ unknown_fields e d path [''kind'', ''unzip''] @
          on_field d ''kind'' (\<lambda>v. exact_value e v (PStr ''http'') (path @ ''.kind'')) @
          on_field d ''unzip'' (\<lambda>v. if is_bool v then [] else [path @ ''.unzip: must be a boolean''])
      | _ \<Rightarrow> not_mapping path)"

definition output_fields :: "bool \<Rightarrow> string list" where
  "output_fields archive = [''object_name'', ''size_bytes'', ''sha256'', ''schema''] @ (if archive then [''member_path''] else [''raw_identity''])"

definition raw_match_errors :: "pydict \<Rightarrow> pyval \<Rightarrow> string \<Rightarrow> string list" where
  \<comment> \<open>an output that is the raw artifact repeats its name, size and digest\<close>
  "raw_match_errors d raw path =
     (case raw of
        PDict r \<Rightarrow> concat (map (\<lambda>(f, g).
          case (dget d f, dget r g) of
            (Some x, Some y) \<Rightarrow> if py_eq x y then [] else [path @ ''.'' @ f @ '': must match raw '' @ g]
          | _ \<Rightarrow> []) [(''object_name'', ''name''), (''size_bytes'', ''size_bytes''), (''sha256'', ''sha256'')])
      | _ \<Rightarrow> [])"

definition output_errors :: "schema_env \<Rightarrow> bool \<Rightarrow> pydict \<Rightarrow> pyval \<Rightarrow> string list \<Rightarrow> pyval \<Rightarrow> string \<Rightarrow> string list" where
  \<comment> \<open>one output of an artifact, with the object names seen before\<close>
  "output_errors e archive schemas raw seen v path =
     (case v of
        PDict d \<Rightarrow>
          missing_fields d path (output_fields archive) @ unknown_fields e d path (output_fields archive) @
          on_field d ''object_name'' (\<lambda>n. validate_relative_path n (path @ ''.object_name'') @
            (if one_of seen n then [path @ ''.object_name: duplicate object name '' @ apos (str_val n)] else [])) @
          on_field d ''size_bytes'' (\<lambda>x. validate_size x (path @ ''.size_bytes'')) @
          on_field d ''sha256'' (\<lambda>x. validate_sha256 x (path @ ''.sha256'')) @
          on_field d ''schema'' (\<lambda>x. if is_str x \<and> dget schemas (str_val x) \<noteq> None then []
            else [path @ ''.schema: unknown schema '' @ apos (text_of e x)]) @
          (if archive then
             on_field d ''member_path'' (\<lambda>m. validate_relative_path m (path @ ''.member_path'') @
               (if is_str m \<and> is_str (dget_none d ''object_name'') \<and> dget_none d ''object_name'' \<noteq> PStr (posix_name (str_val m))
                then [path @ ''.object_name: must equal archive member basename '' @ apos (posix_name (str_val m))] else []))
           else
             on_field d ''raw_identity'' (\<lambda>x. exact_value e x (PBool True) (path @ ''.raw_identity'')) @
             raw_match_errors d raw path)
      | _ \<Rightarrow> not_mapping path)"

fun outputs_errors :: "schema_env \<Rightarrow> bool \<Rightarrow> pydict \<Rightarrow> pyval \<Rightarrow> string \<Rightarrow> nat \<Rightarrow> string list \<Rightarrow> pyval list \<Rightarrow> string list" where
  "outputs_errors e archive schemas raw path i seen [] = []"
| "outputs_errors e archive schemas raw path i seen (v # vs) =
     output_errors e archive schemas raw seen v (indexed path i) @
     outputs_errors e archive schemas raw path (Suc i) (string_field ''object_name'' v @ seen) vs"

definition url_basename :: "schema_env \<Rightarrow> pyval \<Rightarrow> string option res" where
  \<comment> \<open>the decoded last component of the path; here \<^verbatim>\<open>urlsplit\<close> is not guarded\<close>
  "url_basename e v =
     (case v of
        PStr s \<Rightarrow> (case sx_urlsplit e s of None \<Rightarrow> Inl value_error | Some u \<Rightarrow> Inr (Some (sx_unquote e (after_last (CHR ''/'') (up_path u)))))
      | _ \<Rightarrow> Inr None)"

definition basename_errors :: "string option \<Rightarrow> string \<Rightarrow> string list" where
  "basename_errors b path =
     (case b of
        None \<Rightarrow> []
      | Some s \<Rightarrow> if validate_relative_path (PStr s) path \<noteq> [] \<or> posix_name s \<noteq> s
                  then [path @ '': decoded basename must be a safe artifact name''] else [])"

definition raw_fields :: "string list" where "raw_fields = [''name'', ''size_bytes'', ''sha256'']"

definition raw_errors :: "schema_env \<Rightarrow> string option \<Rightarrow> pyval \<Rightarrow> string \<Rightarrow> string list" where
  "raw_errors e basename raw path =
     (case raw of
        PDict d \<Rightarrow>
          missing_fields d path raw_fields @ unknown_fields e d path raw_fields @
          on_field d ''name'' (\<lambda>n. validate_relative_path n (path @ ''.name'') @
            (case basename of
               Some b \<Rightarrow> if n = PStr b then [] else [path @ ''.name: must equal decoded authoritative URL basename '' @ sx_repr e (PStr b)]
             | None \<Rightarrow> [])) @
          on_field d ''size_bytes'' (\<lambda>x. validate_size x (path @ ''.size_bytes'')) @
          on_field d ''sha256'' (\<lambda>x. validate_sha256 x (path @ ''.sha256''))
      | _ \<Rightarrow> not_mapping path)"

definition artifact_fields :: "string list" where
  "artifact_fields = [''url'', ''version'', ''stability'', ''evidence'', ''raw'', ''outputs'']"

definition effective_stability :: "pydict \<Rightarrow> pyval \<Rightarrow> pyval" where
  "effective_stability d source_stability =
     (case dget_none d ''provenance'' of PDict p \<Rightarrow> dget_none p ''source_stability'' | _ \<Rightarrow> source_stability)"

definition artifact_errors :: "schema_env \<Rightarrow> bool \<Rightarrow> pydict \<Rightarrow> pyval \<Rightarrow> pydict \<Rightarrow> string \<Rightarrow> string list res" where
  \<comment> \<open>the body of the loop over the artifacts, for a mapping\<close>
  "artifact_errors e archive schemas source_stability d path =
     bindE (case dget d ''url'' of None \<Rightarrow> Inr None | Some u \<Rightarrow> url_basename e u) (\<lambda>basename.
     bindE (on_fieldE d ''provenance'' (\<lambda>v. validate_provenance e v (path @ ''.provenance''))) (\<lambda>provenance_errors.
     let stability = dget_none d ''stability''; effective = effective_stability d source_stability
     in Inr
       (missing_fields d path artifact_fields @ unknown_fields e d path (artifact_fields @ [''provenance'']) @ provenance_errors @
        on_field d ''url'' (\<lambda>u. https_errors e u (path @ ''.url'')) @ basename_errors basename (path @ ''.url'') @
        on_field d ''version'' (\<lambda>v. validate_version e v (path @ ''.version'')) @
        on_field d ''stability'' (\<lambda>v. stability_errors v (path @ ''.stability'')) @
        (if one_of stability_values stability \<and> one_of stability_values effective \<and> stability \<noteq> effective
         then [path @ ''.stability: must match effective provenance source stability '' @ sx_repr e effective] else []) @
        on_field d ''evidence'' (\<lambda>v. validate_evidence e v (path @ ''.evidence'')) @
        on_field d ''raw'' (\<lambda>v. raw_errors e basename v (path @ ''.raw'')) @
        on_field d ''outputs'' (\<lambda>v. case v of
            PList (x # xs) \<Rightarrow> outputs_errors e archive schemas (dget_none d ''raw'') (path @ ''.outputs'') 0 [] (x # xs)
          | _ \<Rightarrow> [path @ ''.outputs: must be a non-empty list'']))))"

definition scale_names :: "string list" where "scale_names = [''tiny'', ''small'', ''medium'']"

fun conflict_errors :: "string \<Rightarrow> string list \<Rightarrow> string list \<Rightarrow> string list \<times> string list" where
  \<comment> \<open>errors and the landing objects of the scale so far\<close>
  "conflict_errors path objs [] = ([], objs)"
| "conflict_errors path objs (n # ns) =
     (if n \<in> set objs
      then (case conflict_errors path objs ns of (errors, objs') \<Rightarrow>
             ((path @ '': landing object '' @ apos n @ '' conflicts with another artifact selected by this scale'') # errors, objs'))
      else conflict_errors path (n # objs) ns)"

definition referenced_names :: "pydict \<Rightarrow> string \<Rightarrow> string list" where
  \<comment> \<open>the object names of the outputs of an artifact\<close>
  "referenced_names artifacts r =
     (case dget artifacts r of
        Some (PDict a) \<Rightarrow> (case dget a ''outputs'' of Some (PList outs) \<Rightarrow> concat (map (string_field ''object_name'') outs) | _ \<Rightarrow> [])
      | _ \<Rightarrow> [])"

fun reference_errors :: "schema_env \<Rightarrow> pydict \<Rightarrow> string \<Rightarrow> nat \<Rightarrow> string list \<Rightarrow> string list \<Rightarrow> pyval list \<Rightarrow> string list" where
  "reference_errors e artifacts path i seen objs [] = []"
| "reference_errors e artifacts path i seen objs (v # vs) =
     (let p = indexed path i;
          unknown = (if is_str v \<and> dget artifacts (str_val v) \<noteq> None then [] else [p @ '': unknown artifact '' @ apos (text_of e v)])
      in case v of
           PStr r \<Rightarrow>
             if r \<in> set seen
             then unknown @ [p @ '': duplicate artifact '' @ apos r] @ reference_errors e artifacts path (Suc i) seen objs vs
             else (case conflict_errors p objs (referenced_names artifacts r) of (errors, objs') \<Rightarrow>
                     unknown @ errors @ reference_errors e artifacts path (Suc i) (r # seen) objs' vs)
         | _ \<Rightarrow> unknown @ reference_errors e artifacts path (Suc i) seen objs vs)"

definition scale_errors :: "schema_env \<Rightarrow> pydict \<Rightarrow> string \<Rightarrow> pyval \<times> pyval \<Rightarrow> string list" where
  "scale_errors e artifacts path kv =
     (case kv of (k, v) \<Rightarrow>
        let p = path @ ''.scales.'' @ text_of e k
        in (if one_of scale_names k then [] else [p @ '': unknown scale '' @ apos (text_of e k)]) @
           (case v of
              PDict d \<Rightarrow>
                missing_fields d p [''artifacts''] @ unknown_fields e d p [''artifacts''] @
                on_field d ''artifacts'' (\<lambda>x. case x of
                    PList (r # rs) \<Rightarrow> reference_errors e artifacts (p @ ''.artifacts'') 0 [] [] (r # rs)
                  | _ \<Rightarrow> [p @ ''.artifacts: must be a non-empty list''])
            | _ \<Rightarrow> not_mapping p))"

definition named_artifact_errors :: "schema_env \<Rightarrow> bool \<Rightarrow> pydict \<Rightarrow> pyval \<Rightarrow> string \<Rightarrow> pyval \<times> pyval \<Rightarrow> string list res" where
  "named_artifact_errors e archive schemas source_stability path kv =
     (case kv of (k, v) \<Rightarrow>
        let p = path @ ''.artifacts.'' @ text_of e k
        in joinE [Inr (identifier_errors k p),
                  (case v of PDict d \<Rightarrow> artifact_errors e archive schemas source_stability d p | _ \<Rightarrow> Inr (not_mapping p))])"

definition validate_http_dataset :: "schema_env \<Rightarrow> pydict \<Rightarrow> string \<Rightarrow> string list res" where
  "validate_http_dataset e dataset path =
     (let archive = (dget_none (dict_or_empty (dget_none dataset ''fetch'')) ''unzip'' = PBool True);
          schemas = dict_or_empty (dget_none dataset ''schemas'');
          source_stability = dget_none (dict_or_empty (dget_none dataset ''provenance'')) ''source_stability'';
          artifacts = dict_or_empty (dget_none dataset ''artifacts'')
      in bindE (joinE (map (named_artifact_errors e archive schemas source_stability path) artifacts)) (\<lambda>per_artifact.
         Inr
           (fetch_errors e (dget_none dataset ''fetch'') (path @ ''.fetch'') @
            on_field dataset ''artifacts'' (\<lambda>v. case v of
                PDict [] \<Rightarrow> [path @ ''.artifacts: must be a non-empty mapping'']
              | PDict _ \<Rightarrow> []
              | _ \<Rightarrow> [path @ ''.artifacts: must be a mapping'']) @
            per_artifact @
            on_field dataset ''scales'' (\<lambda>v. case v of
                PDict scales \<Rightarrow>
                  (if scales = [] then [path @ ''.scales: must be a non-empty mapping''] else []) @
                  missing_fields scales (path @ ''.scales'') scale_names @
                  concat (map (scale_errors e artifacts path) scales)
              | _ \<Rightarrow> [path @ ''.scales: must be a mapping'']))))"

section \<open>The TPC-H generator\<close>

definition tables :: "string list" where
  "tables = [''customer'', ''lineitem'', ''nation'', ''orders'', ''part'', ''partsupp'', ''region'', ''supplier'']"

definition order_columns :: "(string \<times> string list) list" where
  "order_columns =
     [(''customer'', [''c_custkey'']), (''lineitem'', [''l_orderkey'', ''l_linenumber'']), (''nation'', [''n_nationkey'']),
      (''orders'', [''o_orderkey'']), (''part'', [''p_partkey'']), (''partsupp'', [''ps_partkey'', ''ps_suppkey'']),
      (''region'', [''r_regionkey'']), (''supplier'', [''s_suppkey''])]"

definition tpch_constants :: "(string \<times> (string \<times> pyval) list) list" where
  "tpch_constants =
     [(''engine'',
        [(''name'', PStr ''duckdb''), (''version'', PStr ''1.5.4''),
         (''wheel_sha256'', PStr ''ccc7f2694d02b4763fee61021d45e12f7bc5743993686563957df0cef799fbae'')]),
      (''extension'',
        [(''name'', PStr ''tpch''), (''version_relation'', PStr ''engine-version''),
         (''repository_url'', PStr ''https://extensions.duckdb.org/v1.5.4/linux_amd64/tpch.duckdb_extension.gz''),
         (''sha256'', PStr ''a6516e487106b4f95bd6d85da4364debdcb2db536d015784bc43209af6ed0125'')]),
      (''environment'',
        [(''image'', PStr ''python:3.11.13-slim-bookworm''),
         (''image_digest'', PStr ''sha256:cec9aa7aa96eea4fa036e9b82be1e6b325f2e3707f462d885868df51ec0a4b47''),
         (''platform'', PStr ''linux/amd64''),
         (''uv_lock_sha256'', PStr ''a376ce1b5bd5621290aaded68c22572690395419876da41814e28469bb4186b1''),
         (''locale'', PStr ''C.UTF-8''), (''timezone'', PStr ''UTC''), (''threads'', PInt 1),
         (''preserve_insertion_order'', PBool True)]),
      (''command'', [(''procedure'', PStr ''dbgen''), (''scale_parameter'', PStr ''sf'')])]"

definition export_constants :: "(string \<times> pyval) list" where
  "export_constants = [(''format'', PStr ''parquet''), (''compression'', PStr ''zstd''), (''row_group_size'', PInt 100000)]"

definition exact_fields :: "schema_env \<Rightarrow> pydict \<Rightarrow> string \<Rightarrow> (string \<times> pyval) list \<Rightarrow> string list" where
  "exact_fields e d path expected =
     concat (map (\<lambda>(f, x). on_field d f (\<lambda>v. exact_value e v x (path @ ''.'' @ f))) expected)"

definition validate_exact_mapping :: "schema_env \<Rightarrow> pyval \<Rightarrow> string \<Rightarrow> (string \<times> pyval) list \<Rightarrow> string list" where
  "validate_exact_mapping e v path expected =
     (case v of
        PDict d \<Rightarrow>
          missing_fields d path (map fst expected) @ unknown_fields e d path (map fst expected) @ exact_fields e d path expected
      | _ \<Rightarrow> not_mapping path)"

definition scale_factor :: "string \<Rightarrow> pyval" where
  \<comment> \<open>0.01 is the double nearest to it\<close>
  "scale_factor scale =
     (if scale = ''tiny'' then PFloat (Some (5764607523034235 / 2 ^ 59)) else if scale = ''small'' then PInt 1 else PInt 10)"

definition factor_errors :: "schema_env \<Rightarrow> pyval \<Rightarrow> pyval \<Rightarrow> string \<Rightarrow> string list" where
  "factor_errors e k v path =
     (if one_of scale_names k \<and> (is_bool v \<or> py_num v = None \<or> py_num v \<noteq> py_num (scale_factor (str_val k)))
      then [path @ ''.scale_factor: must be '' @ sx_repr e (scale_factor (str_val k))] else [])"

definition generator_output_fields :: "string list" where
  "generator_output_fields = [''table'', ''object_name'', ''size_bytes'', ''sha256'', ''schema'']"

definition generator_output_errors ::
  "schema_env \<Rightarrow> pydict \<Rightarrow> nat \<Rightarrow> string list \<Rightarrow> string list \<Rightarrow> string list \<Rightarrow> pyval \<Rightarrow> string \<Rightarrow> string list" where
  \<comment> \<open>one output of a scale, with the tables, objects and schemas seen before\<close>
  "generator_output_errors e schemas i seen_tables seen_objects seen_schemas v path =
     (case v of
        PDict d \<Rightarrow>
          let table = dget_none d ''table''
          in missing_fields d path generator_output_fields @ unknown_fields e d path generator_output_fields @
             on_field d ''table'' (\<lambda>t.
               (if \<not> one_of tables t then [path @ ''.table: unknown table '' @ apos (text_of e t)]
                else if i < length tables \<and> t \<noteq> PStr (tables ! i)
                then [path @ ''.table: must be '' @ apos (tables ! i) @ '' in canonical order''] else []) @
               (if one_of seen_tables t then [path @ ''.table: duplicate table '' @ apos (str_val t)] else [])) @
             on_field d ''object_name'' (\<lambda>n. validate_relative_path n (path @ ''.object_name'') @
               (if is_str table \<and> n \<noteq> PStr (str_val table @ ''.parquet'')
                then [path @ ''.object_name: must be '' @ apos (str_val table @ ''.parquet'')] else []) @
               (if one_of seen_objects n then [path @ ''.object_name: duplicate object name '' @ apos (str_val n)] else [])) @
             on_field d ''size_bytes'' (\<lambda>x. validate_size x (path @ ''.size_bytes'')) @
             on_field d ''sha256'' (\<lambda>x. validate_sha256 x (path @ ''.sha256'')) @
             on_field d ''schema'' (\<lambda>x.
               (if is_str x \<and> dget schemas (str_val x) \<noteq> None then [] else [path @ ''.schema: unknown schema '' @ apos (text_of e x)]) @
               (if py_eq x table then [] else [path @ ''.schema: must match table '' @ apos (text_of e table)]) @
               (if one_of seen_schemas x then [path @ ''.schema: duplicate schema '' @ apos (str_val x)] else []))
      | _ \<Rightarrow> not_mapping path)"

fun generator_outputs_errors ::
  "schema_env \<Rightarrow> pydict \<Rightarrow> string \<Rightarrow> nat \<Rightarrow> string list \<Rightarrow> string list \<Rightarrow> string list \<Rightarrow> pyval list \<Rightarrow> string list" where
  "generator_outputs_errors e schemas path i ts os ss [] = []"
| "generator_outputs_errors e schemas path i ts os ss (v # vs) =
     generator_output_errors e schemas i ts os ss v (indexed path i) @
     generator_outputs_errors e schemas path (Suc i) (string_field ''table'' v @ ts) (string_field ''object_name'' v @ os)
       (string_field ''schema'' v @ ss) vs"

definition generator_scale_errors :: "schema_env \<Rightarrow> pydict \<Rightarrow> string \<Rightarrow> pyval \<times> pyval \<Rightarrow> string list" where
  "generator_scale_errors e schemas path kv =
     (case kv of (k, v) \<Rightarrow>
        let p = path @ ''.generator.scales.'' @ text_of e k
        in (case v of
              PDict d \<Rightarrow>
                missing_fields d p [''scale_factor'', ''outputs''] @ unknown_fields e d p [''scale_factor'', ''outputs''] @
                on_field d ''scale_factor'' (\<lambda>x. factor_errors e k x p) @
                on_field d ''outputs'' (\<lambda>x.
                  (if is_list x \<and> length (list_val x) = 8 then [] else [p @ ''.outputs: must contain exactly eight outputs'']) @
                  (case x of PList vs \<Rightarrow> generator_outputs_errors e schemas (p @ ''.outputs'') 0 [] [] [] vs | _ \<Rightarrow> []))
            | _ \<Rightarrow> not_mapping p))"

definition export_errors :: "schema_env \<Rightarrow> pyval \<Rightarrow> string \<Rightarrow> string list" where
  "export_errors e v path =
     (case v of
        PDict d \<Rightarrow>
          missing_fields d path [''format'', ''compression'', ''row_group_size'', ''order_by''] @
          unknown_fields e d path [''format'', ''compression'', ''row_group_size'', ''order_by''] @
          exact_fields e d path export_constants @
          on_field d ''order_by'' (\<lambda>x. validate_exact_mapping e x (path @ ''.order_by'')
            (map (\<lambda>(t, cs). (t, PList (map PStr cs))) order_columns))
      | _ \<Rightarrow> not_mapping path)"

definition generator_fields :: "string list" where
  "generator_fields = [''engine'', ''extension'', ''environment'', ''command'', ''export'', ''scales'']"

definition tpch_fetch_errors :: "schema_env \<Rightarrow> pyval \<Rightarrow> string \<Rightarrow> string list" where
  "tpch_fetch_errors e fetch path =
     (case fetch of
        PDict d \<Rightarrow>
          missing_fields d path [''kind''] @ unknown_fields e d path [''kind''] @
          on_field d ''kind'' (\<lambda>v. exact_value e v (PStr ''tpch'') (path @ ''.kind''))
      | _ \<Rightarrow> not_mapping path)"

definition validate_tpch_dataset :: "schema_env \<Rightarrow> pydict \<Rightarrow> string \<Rightarrow> string list" where
  "validate_tpch_dataset e dataset path =
     (let schemas = dict_or_empty (dget_none dataset ''schemas''); g = path @ ''.generator''
      in missing_fields schemas (path @ ''.schemas'') tables @
         map (\<lambda>k. path @ ''.schemas.'' @ text_of e k @ '': not a TPC-H table schema'') (filter (\<lambda>k. \<not> one_of tables k) (dkeys schemas)) @
         tpch_fetch_errors e (dget_none dataset ''fetch'') (path @ ''.fetch'') @
         (case dget_none dataset ''generator'' of
            PDict d \<Rightarrow>
              missing_fields d g generator_fields @ unknown_fields e d g generator_fields @
              concat (map (\<lambda>(section, expected).
                on_field d section (\<lambda>v. validate_exact_mapping e v (g @ ''.'' @ section) expected)) tpch_constants) @
              (case dget_none d ''extension'' of
                 PDict x \<Rightarrow> on_field x ''repository_url'' (\<lambda>u. https_errors e u (g @ ''.extension.repository_url''))
               | _ \<Rightarrow> []) @
              on_field d ''export'' (\<lambda>v. export_errors e v (g @ ''.export'')) @
              on_field d ''scales'' (\<lambda>v. case v of
                  PDict scales \<Rightarrow>
                    missing_fields scales (g @ ''.scales'') scale_names @ unknown_fields e scales (g @ ''.scales'') scale_names @
                    concat (map (generator_scale_errors e schemas path) scales)
                | _ \<Rightarrow> not_mapping (g @ ''.scales''))
          | _ \<Rightarrow> not_mapping g))"

section \<open>Registries\<close>

definition lock_constants :: "(string \<times> pyval) list" where
  "lock_constants =
     [(''algorithm'', PStr ''sha256''), (''source_drift'', PStr ''fail''), (''object_drift'', PStr ''fail''),
      (''schema_fingerprint'', PStr ''sha256-canonical-json''), (''update_policy'', PStr ''reviewed-lock-update'')]"

definition shared_fields :: "string list" where
  "shared_fields = [''description'', ''format'', ''license'', ''landing_prefix'', ''fetch'', ''provenance'', ''schemas'']"

definition dataset_kind :: "pydict \<Rightarrow> pyval" where
  "dataset_kind d =
     (let declared = (case dget_none d ''fetch'' of PDict f \<Rightarrow> dget_none f ''kind'' | _ \<Rightarrow> PNone)
      in if declared = PStr ''http'' then PStr ''http''
         else if declared = PStr ''tpch'' \<and> dget d ''generator'' \<noteq> None then PStr ''tpch''
         else if dget d ''artifacts'' \<noteq> None \<or> dget d ''scales'' \<noteq> None then PStr ''http''
         else if dget d ''generator'' \<noteq> None then PStr ''tpch''
         else declared)"

definition kind_fields :: "pyval \<Rightarrow> string list" where
  "kind_fields kind =
     (if kind = PStr ''http'' then [''artifacts'', ''scales''] else if kind = PStr ''tpch'' then [''generator''] else [])"

definition allowed_fields :: "pyval \<Rightarrow> string list" where
  "allowed_fields kind =
     shared_fields @
     (if kind = PStr ''http'' \<or> kind = PStr ''tpch'' then kind_fields kind else [''artifacts'', ''scales'', ''generator''])"

type_synonym url_identity = "string \<times> int option \<times> string \<times> string"

fun url_errors ::
  "schema_env \<Rightarrow> string \<Rightarrow> (url_identity \<times> string) list \<Rightarrow> pydict \<Rightarrow> string list \<times> (url_identity \<times> string) list" where
  \<comment> \<open>the artifact URLs of one dataset against those of the datasets before\<close>
  "url_errors e path urls [] = ([], urls)"
| "url_errors e path urls ((k, v) # artifacts) =
     (case v of
        PDict d \<Rightarrow>
          (case authoritative_url_identity e (dget_none d ''url'') of
             None \<Rightarrow> url_errors e path urls artifacts
           | Some u \<Rightarrow>
               let p = path @ ''.artifacts.'' @ text_of e k @ ''.url''
               in (case map_of urls u of
                     None \<Rightarrow> url_errors e path ((u, p) # urls) artifacts
                   | Some first \<Rightarrow>
                       (case url_errors e path urls artifacts of (errors, urls') \<Rightarrow>
                          ((p @ '': duplicate authoritative URL first defined at '' @ first) # errors, urls'))))
      | _ \<Rightarrow> url_errors e path urls artifacts)"

definition kind_errors :: "schema_env \<Rightarrow> (url_identity \<times> string) list \<Rightarrow> pydict \<Rightarrow> string \<Rightarrow> (string list \<times> (url_identity \<times> string) list) res" where
  "kind_errors e urls d path =
     (let kind = dataset_kind d
      in if kind = PStr ''http'' then
           bindE (validate_http_dataset e d path) (\<lambda>errors.
           case url_errors e path urls (dict_or_empty (dget_none d ''artifacts'')) of (duplicates, urls') \<Rightarrow>
             Inr (errors @ duplicates, urls'))
         else if kind = PStr ''tpch'' then Inr (validate_tpch_dataset e d path, urls)
         else Inr (on_field d ''fetch'' (\<lambda>f. case f of
                PDict x \<Rightarrow>
                  missing_fields x (path @ ''.fetch'') [''kind''] @ unknown_fields e x (path @ ''.fetch'') [''kind'', ''unzip''] @
                  on_field x ''kind'' (\<lambda>_. [path @ ''.fetch.kind: must be '' @ apos ''http'' @ '' or '' @ apos ''tpch''])
              | _ \<Rightarrow> not_mapping (path @ ''.fetch'')), urls))"

definition dataset_errors :: "schema_env \<Rightarrow> pydict \<Rightarrow> string \<Rightarrow> string list res" where
  \<comment> \<open>the checks of the fields every dataset has\<close>
  "dataset_errors e d path =
     joinE
       [Inr (missing_fields d path (kind_fields (dataset_kind d))), Inr (unknown_fields e d path (allowed_fields (dataset_kind d))),
        Inr (concat (map (\<lambda>f. on_field d f (\<lambda>v. nonempty_string v (path @ ''.'' @ f))) [''description'', ''format'', ''license''])),
        Inr (on_field d ''landing_prefix'' (\<lambda>v. validate_relative_path v (path @ ''.landing_prefix''))),
        on_fieldE d ''provenance'' (\<lambda>v. validate_provenance e v (path @ ''.provenance'')),
        on_fieldE d ''schemas'' (\<lambda>v. validate_schemas e v (path @ ''.schemas''))]"

fun datasets_errors :: "schema_env \<Rightarrow> (url_identity \<times> string) list \<Rightarrow> pydict \<Rightarrow> string list res" where
  "datasets_errors e urls [] = Inr []"
| "datasets_errors e urls ((k, v) # rest) =
     (let path = ''datasets.'' @ text_of e k
      in case v of
           PDict d \<Rightarrow>
             bindE (dataset_errors e d path) (\<lambda>shared.
             bindE (kind_errors e urls d path) (\<lambda>(errors, urls').
             bindE (datasets_errors e urls' rest) (\<lambda>more.
             Inr (identifier_errors k path @ missing_fields d path shared_fields @ shared @ errors @ more))))
         | _ \<Rightarrow> bindE (datasets_errors e urls rest) (\<lambda>more. Inr (identifier_errors k path @ not_mapping path @ more)))"

definition validate_registry_v2 :: "schema_env \<Rightarrow> pyval \<Rightarrow> string list res" where
  "validate_registry_v2 e doc =
     (case doc of
        PDict doc_map \<Rightarrow>
          bindE (case dget_none doc_map ''datasets'' of PDict datasets \<Rightarrow> datasets_errors e [] datasets | _ \<Rightarrow> Inr []) (\<lambda>errors.
          Inr
            (missing_fields doc_map ''registry'' [''version'', ''lock'', ''datasets''] @
             unknown_fields e doc_map ''registry'' [''version'', ''lock'', ''datasets''] @
             on_field doc_map ''version'' (\<lambda>v. if v = PInt 2 then [] else [''registry.version: must be integer 2'']) @
             on_field doc_map ''lock'' (\<lambda>v. validate_exact_mapping e v ''registry.lock'' lock_constants) @
             on_field doc_map ''datasets'' (\<lambda>v. case v of
                 PDict [] \<Rightarrow> [''registry.datasets: must be a non-empty mapping'']
               | PDict _ \<Rightarrow> []
               | _ \<Rightarrow> [''registry.datasets: must be a mapping'']) @
             errors))
      | _ \<Rightarrow> Inr (not_mapping ''registry''))"

definition validate_registry :: "schema_env \<Rightarrow> pyval \<Rightarrow> string list res" where
  "validate_registry e doc =
     (case doc of
        PDict doc_map \<Rightarrow>
          if py_eq (dget_none doc_map ''version'') (PInt 2) then validate_registry_v2 e doc
          else Inr [''registry: '' @ apos ''version'' @ '' must be 2'']
      | _ \<Rightarrow> Inr [''registry: '' @ apos ''version'' @ '' must be 2''])"

end
