(* ===== verification/RegistryParse.thy ===== *)
theory RegistryParse
  imports RegistrySchema
begin

text \<open>
  \<^verbatim>\<open>datasets/registry.py\<close>, loading: the validated document is copied into the records of
  \<open>DatasetRegistry\<close>.  The copy reads keys (\<^verbatim>\<open>raw["url"]\<close> raises \<^verbatim>\<open>KeyError\<close>) and casts values
  without testing them; a value of another type than the record's field has no counterpart in the
  typed records and is the result \<open>untyped\<close>.  That neither happens after validation is proved in
  \<open>RegistryLoad\<close>.
\<close>

definition untyped :: exn where "untyped = OtherExn ''untyped''"

definition str_item :: "pydict \<Rightarrow> string \<Rightarrow> string res" where
  "str_item d k = bindE (ditem d k) (\<lambda>v. case v of PStr s \<Rightarrow> Inr s | _ \<Rightarrow> Inl untyped)"

definition int_item :: "pydict \<Rightarrow> string \<Rightarrow> int res" where
  "int_item d k = bindE (ditem d k) (\<lambda>v. case v of PInt i \<Rightarrow> Inr i | _ \<Rightarrow> Inl untyped)"

definition bool_item :: "pydict \<Rightarrow> string \<Rightarrow> bool res" where
  "bool_item d k = bindE (ditem d k) (\<lambda>v. case v of PBool b \<Rightarrow> Inr b | _ \<Rightarrow> Inl untyped)"

definition map_item :: "pydict \<Rightarrow> string \<Rightarrow> pydict res" where
  "map_item d k = bindE (ditem d k) (\<lambda>v. case v of PDict m \<Rightarrow> Inr m | _ \<Rightarrow> Inl untyped)"

definition list_item :: "pydict \<Rightarrow> string \<Rightarrow> pyval list res" where
  "list_item d k = bindE (ditem d k) (\<lambda>v. case v of PList xs \<Rightarrow> Inr xs | _ \<Rightarrow> Inl untyped)"

definition as_str :: "pyval \<Rightarrow> string res" where
  "as_str v = (case v of PStr s \<Rightarrow> Inr s | _ \<Rightarrow> Inl untyped)"

definition as_map :: "pyval \<Rightarrow> pydict res" where
  "as_map v = (case v of PDict d \<Rightarrow> Inr d | _ \<Rightarrow> Inl untyped)"

fun freeze :: "pyval \<Rightarrow> pyval" where
  "freeze (PDict d) = PDict (map (\<lambda>(k, v). (k, freeze v)) d)"
| "freeze (PList xs) = PTuple (map freeze xs)"
| "freeze (PTuple xs) = PTuple (map freeze xs)"
| "freeze v = v"

definition parse_items :: "(string \<Rightarrow> pyval \<Rightarrow> 'a res) \<Rightarrow> pydict \<Rightarrow> (string \<times> 'a) list res" where
  \<comment> \<open>\<^verbatim>\<open>for key, value in raw.items(): result[key] = f(key, value)\<close>\<close>
  "parse_items f d = mapE (\<lambda>(k, v). bindE (as_str k) (\<lambda>s. bindE (f s v) (\<lambda>x. Inr (s, x)))) d"

definition parse_provenance :: "pydict \<Rightarrow> provenance res" where
  "parse_provenance d =
     bindE (str_item d ''publisher'') (\<lambda>publisher. bindE (str_item d ''homepage'') (\<lambda>homepage.
     bindE (str_item d ''license_name'') (\<lambda>license_name. bindE (str_item d ''license_url'') (\<lambda>license_url.
     bindE (str_item d ''attribution'') (\<lambda>attribution. bindE (str_item d ''source_stability'') (\<lambda>stability.
     bindE (str_item d ''update_policy'') (\<lambda>policy.
     Inr \<lparr>pv_publisher = publisher, pv_homepage = homepage, pv_license_name = license_name, pv_license_url = license_url,
          pv_attribution = attribution, pv_source_stability = stability, pv_update_policy = policy\<rparr>)))))))"

definition parse_field :: "pyval \<Rightarrow> schema_field res" where
  "parse_field v =
     bindE (as_map v) (\<lambda>d.
     bindE (str_item d ''name'') (\<lambda>name. bindE (str_item d ''logical_type'') (\<lambda>t. bindE (bool_item d ''nullable'') (\<lambda>b.
     Inr \<lparr>sf_name = name, sf_logical_type = t, sf_nullable = b\<rparr>))))"

definition parse_schema :: "string \<Rightarrow> pyval \<Rightarrow> schema_contract res" where
  "parse_schema k v =
     bindE (as_map v) (\<lambda>d.
     bindE (list_item d ''fields'') (\<lambda>raw_fields. bindE (mapE parse_field raw_fields) (\<lambda>fields.
     bindE (str_item d ''format'') (\<lambda>format. bindE (str_item d ''mode'') (\<lambda>mode. bindE (map_item d ''options'') (\<lambda>options.
     bindE (str_item d ''fingerprint'') (\<lambda>fingerprint.
     Inr \<lparr>sc_id = k, sc_format = format, sc_mode = mode, sc_fields = fields, sc_options = dict_val (freeze (PDict options)),
          sc_fingerprint = fingerprint\<rparr>)))))))"

definition parse_schemas :: "pydict \<Rightarrow> (string \<times> schema_contract) list res" where
  "parse_schemas d = parse_items parse_schema d"

definition parse_output :: "pyval \<Rightarrow> landing_object res" where
  "parse_output v =
     bindE (as_map v) (\<lambda>d.
     bindE (str_item d ''object_name'') (\<lambda>name. bindE (int_item d ''size_bytes'') (\<lambda>sz. bindE (str_item d ''sha256'') (\<lambda>h.
     bindE (str_item d ''schema'') (\<lambda>schema.
     bindE (case dget_none d ''member_path'' of PNone \<Rightarrow> Inr None | PStr s \<Rightarrow> Inr (Some s) | _ \<Rightarrow> Inl untyped) (\<lambda>member.
     bindE (case dget_or d ''raw_identity'' (PBool False) of PBool b \<Rightarrow> Inr b | _ \<Rightarrow> Inl untyped) (\<lambda>raw.
     Inr \<lparr>lo_object_name = name, lo_size_bytes = sz, lo_sha256 = h, lo_schema_id = schema, lo_member_path = member,
          lo_raw_identity = raw\<rparr>)))))))"

definition parse_artifact :: "string \<Rightarrow> pyval \<Rightarrow> http_artifact res" where
  "parse_artifact k v =
     bindE (as_map v) (\<lambda>d.
     bindE (map_item d ''version'') (\<lambda>version. bindE (map_item d ''raw'') (\<lambda>raw. bindE (list_item d ''outputs'') (\<lambda>raw_outputs.
     bindE (mapE parse_output raw_outputs) (\<lambda>outputs.
     bindE (str_item d ''url'') (\<lambda>url.
     bindE (str_item version ''kind'') (\<lambda>vkind. bindE (str_item version ''value'') (\<lambda>vvalue.
     bindE (str_item d ''stability'') (\<lambda>stability.
     bindE (map_item d ''evidence'') (\<lambda>evidence. bindE (parse_items (\<lambda>_. as_str) evidence) (\<lambda>frozen_evidence.
     bindE (str_item raw ''name'') (\<lambda>rname. bindE (int_item raw ''size_bytes'') (\<lambda>rsize. bindE (str_item raw ''sha256'') (\<lambda>rsha.
     bindE (case dget d ''provenance'' of
              None \<Rightarrow> Inr None
            | Some p \<Rightarrow> bindE (as_map p) (\<lambda>m. bindE (parse_provenance m) (\<lambda>x. Inr (Some x)))) (\<lambda>provenance.
     Inr \<lparr>ha_id = k, ha_url = url, ha_version = \<lparr>sv_kind = vkind, sv_value = vvalue\<rparr>, ha_stability = stability,
          ha_evidence = frozen_evidence, ha_raw = \<lparr>ra_name = rname, ra_size_bytes = rsize, ra_sha256 = rsha\<rparr>,
          ha_outputs = outputs, ha_provenance = provenance\<rparr>)))))))))))))))"

definition parse_artifacts :: "pydict \<Rightarrow> (string \<times> http_artifact) list res" where
  "parse_artifacts d = parse_items parse_artifact d"

definition parse_generator_output :: "pyval \<Rightarrow> generator_output res" where
  "parse_generator_output v =
     bindE (as_map v) (\<lambda>d.
     bindE (str_item d ''table'') (\<lambda>table. bindE (str_item d ''object_name'') (\<lambda>name. bindE (int_item d ''size_bytes'') (\<lambda>sz.
     bindE (str_item d ''sha256'') (\<lambda>h. bindE (str_item d ''schema'') (\<lambda>schema.
     Inr \<lparr>go_table = table, go_object_name = name, go_size_bytes = sz, go_sha256 = h, go_schema_id = schema\<rparr>))))))"

definition parse_generator_scale :: "string \<Rightarrow> pyval \<Rightarrow> generator_scale res" where
  "parse_generator_scale k v =
     bindE (as_map v) (\<lambda>d.
     bindE (list_item d ''outputs'') (\<lambda>raw_outputs.
     bindE (ditem d ''scale_factor'') (\<lambda>f. bindE (case f of PFloat q \<Rightarrow> Inr q | PInt i \<Rightarrow> Inr (Some (of_int i)) | _ \<Rightarrow> Inl untyped) (\<lambda>factor.
     bindE (mapE parse_generator_output raw_outputs) (\<lambda>outputs.
     Inr \<lparr>gs_name = k, gs_scale_factor = factor, gs_outputs = outputs\<rparr>)))))"

definition parse_environment :: "pydict \<Rightarrow> generator_environment res" where
  "parse_environment d =
     bindE (str_item d ''image'') (\<lambda>image. bindE (str_item d ''image_digest'') (\<lambda>digest. bindE (str_item d ''platform'') (\<lambda>platform.
     bindE (str_item d ''uv_lock_sha256'') (\<lambda>uv. bindE (str_item d ''locale'') (\<lambda>locale. bindE (str_item d ''timezone'') (\<lambda>timezone.
     bindE (int_item d ''threads'') (\<lambda>threads. bindE (bool_item d ''preserve_insertion_order'') (\<lambda>preserve.
     Inr \<lparr>ge_image = image, ge_image_digest = digest, ge_platform = platform, ge_uv_lock_sha256 = uv, ge_locale = locale,
          ge_timezone = timezone, ge_threads = threads, ge_preserve_insertion_order = preserve\<rparr>))))))))"

definition parse_columns :: "string \<Rightarrow> pyval \<Rightarrow> string list res" where
  "parse_columns k v = (case v of PList xs \<Rightarrow> mapE as_str xs | _ \<Rightarrow> Inl untyped)"

definition parse_generator :: "pydict \<Rightarrow> generator_contract res" where
  "parse_generator d =
     bindE (map_item d ''engine'') (\<lambda>engine. bindE (map_item d ''extension'') (\<lambda>extension.
     bindE (map_item d ''environment'') (\<lambda>environment. bindE (map_item d ''command'') (\<lambda>command.
     bindE (map_item d ''export'') (\<lambda>export. bindE (map_item d ''scales'') (\<lambda>raw_scales.
     bindE (parse_items parse_generator_scale raw_scales) (\<lambda>scales.
     bindE (map_item export ''order_by'') (\<lambda>raw_order_by. bindE (parse_items parse_columns raw_order_by) (\<lambda>order_by.
     bindE (str_item engine ''name'') (\<lambda>engine_name. bindE (str_item engine ''version'') (\<lambda>engine_version.
     bindE (str_item engine ''wheel_sha256'') (\<lambda>wheel.
     bindE (str_item extension ''name'') (\<lambda>extension_name. bindE (str_item extension ''version_relation'') (\<lambda>relation.
     bindE (str_item extension ''repository_url'') (\<lambda>repository. bindE (str_item extension ''sha256'') (\<lambda>extension_sha.
     bindE (parse_environment environment) (\<lambda>env.
     bindE (str_item command ''procedure'') (\<lambda>procedure. bindE (str_item command ''scale_parameter'') (\<lambda>parameter.
     bindE (str_item export ''format'') (\<lambda>format. bindE (str_item export ''compression'') (\<lambda>compression.
     bindE (int_item export ''row_group_size'') (\<lambda>row_group.
     Inr \<lparr>gc_engine_name = engine_name, gc_engine_version = engine_version, gc_engine_wheel_sha256 = wheel,
          gc_extension_name = extension_name, gc_extension_version_relation = relation, gc_extension_repository_url = repository,
          gc_extension_sha256 = extension_sha, gc_environment = env, gc_procedure = procedure, gc_scale_parameter = parameter,
          gc_export_format = format, gc_compression = compression, gc_row_group_size = row_group, gc_order_by = order_by,
          gc_scales = scales\<rparr>))))))))))))))))))))))"

definition parse_scale_references :: "string \<Rightarrow> pyval \<Rightarrow> scale_spec res" where
  "parse_scale_references k v =
     bindE (as_map v) (\<lambda>d. bindE (list_item d ''artifacts'') (\<lambda>xs. bindE (mapE as_str xs) (\<lambda>ids. Inr (HttpScale ids))))"

definition parse_kind ::
  "string \<Rightarrow> pydict \<Rightarrow> ((string \<times> http_artifact) list \<times> (string \<times> scale_spec) list \<times> generator_contract option) res" where
  "parse_kind kind d =
     (if kind = ''http'' then
        bindE (map_item d ''artifacts'') (\<lambda>raw_artifacts. bindE (parse_artifacts raw_artifacts) (\<lambda>artifacts.
        bindE (map_item d ''scales'') (\<lambda>raw_scales. bindE (parse_items parse_scale_references raw_scales) (\<lambda>scales.
        Inr (artifacts, scales, None)))))
      else
        bindE (map_item d ''generator'') (\<lambda>raw. bindE (parse_generator raw) (\<lambda>g.
        Inr ([], map (\<lambda>(k, s). (k, GenScale s)) (gc_scales g), Some g))))"

definition parse_dataset :: "string \<Rightarrow> pyval \<Rightarrow> dataset res" where
  "parse_dataset name v =
     bindE (as_map v) (\<lambda>d.
     bindE (map_item d ''fetch'') (\<lambda>fetch. bindE (str_item fetch ''kind'') (\<lambda>kind.
     bindE (map_item d ''schemas'') (\<lambda>raw_schemas. bindE (parse_schemas raw_schemas) (\<lambda>schemas.
     bindE (map_item d ''provenance'') (\<lambda>raw_provenance. bindE (parse_provenance raw_provenance) (\<lambda>provenance.
     bindE (parse_kind kind d) (\<lambda>(artifacts, scales, generator).
     bindE (str_item d ''description'') (\<lambda>description. bindE (str_item d ''format'') (\<lambda>format.
     bindE (str_item d ''license'') (\<lambda>license. bindE (str_item d ''landing_prefix'') (\<lambda>landing_prefix.
     bindE (case dget_or fetch ''unzip'' (PBool False) of PBool b \<Rightarrow> Inr b | _ \<Rightarrow> Inl untyped) (\<lambda>unzip.
     Inr \<lparr>ds_name = name, ds_description = description, ds_format = format, ds_license = license, ds_landing_prefix = landing_prefix,
          ds_kind = kind, ds_unzip = unzip, ds_scales = scales, ds_provenance = Some provenance, ds_schemas = schemas,
          ds_artifacts = artifacts, ds_generator = generator\<rparr>)))))))))))))"

definition parse_v2_datasets :: "pydict \<Rightarrow> (string \<times> dataset) list res" where
  "parse_v2_datasets d = parse_items parse_dataset d"

definition load_registry_v2 :: "schema_env \<Rightarrow> pyval \<Rightarrow> (string \<times> dataset) list res" where
  \<comment> \<open>of the document that \<^verbatim>\<open>yaml.safe_load\<close> returned\<close>
  "load_registry_v2 e doc =
     bindE (validate_registry_v2 e doc) (\<lambda>errors.
     if errors \<noteq> [] then Inl value_error
     else bindE (as_map doc) (\<lambda>registry. bindE (map_item registry ''datasets'') parse_v2_datasets))"

end
