(* ===== verification/RegistryFacts.thy ===== *)
theory RegistryFacts
  imports RegistryParse PublicationCodec
begin

text \<open>
  What a clean validation of a registry means: the empty error list of every check is turned into the
  shape of the value it checked (collection \<open>valid_iffs\<close>), and for every part of the document the
  copy into the typed records succeeds.
\<close>

named_theorems valid_iffs

section \<open>Checks that report nothing\<close>

lemma joinE_simps: "joinE [] = Inr []" "joinE (x # xs) = bindE x (\<lambda>y. bindE (joinE xs) (\<lambda>ys. Inr (y @ ys)))"
  unfolding joinE_def by (simp_all add: bindE_def split: sum.split)

lemma joinE_Nil [valid_iffs]: "joinE xs = Inr [] \<longleftrightarrow> list_all (\<lambda>x. x = Inr []) xs"
  by (induction xs) (auto simp: joinE_simps bindE_eq_Inr)

lemma on_field_Nil [valid_iffs]: "on_field d f c = [] \<longleftrightarrow> (\<forall>v. dget d f = Some v \<longrightarrow> c v = [])"
  by (auto simp: on_field_def split: option.split)

lemma on_fieldE_Nil [valid_iffs]: "on_fieldE d f c = Inr [] \<longleftrightarrow> (\<forall>v. dget d f = Some v \<longrightarrow> c v = Inr [])"
  by (auto simp: on_fieldE_def split: option.split)

lemma missing_Nil [valid_iffs]: "missing_fields d path fs = [] \<longleftrightarrow> list_all (\<lambda>f. \<exists>v. dget d f = Some v) fs"
  by (auto simp: missing_fields_def filter_empty_conv list_all_iff)

lemma unknown_Nil [valid_iffs]: "unknown_fields e d path fs = [] \<longleftrightarrow> set (dkeys d) \<subseteq> PStr ` set fs"
  by (auto simp: unknown_fields_def filter_empty_conv)

lemma not_mapping_Nil [valid_iffs]: "not_mapping path \<noteq> []"
  by (simp add: not_mapping_def)

lemma nonempty_string_Nil [valid_iffs]: "nonempty_string v path = [] \<longleftrightarrow> (\<exists>s. v = PStr s \<and> \<not> list_all white_space s)"
  by (auto simp: nonempty_string_def is_str_iff)

lemma identifier_Nil [valid_iffs]: "identifier_errors v path = [] \<longleftrightarrow> (\<exists>s. v = PStr s \<and> identifier_re s)"
  by (auto simp: identifier_errors_def is_str_iff)

lemma sha256_Nil [valid_iffs]: "validate_sha256 v path = [] \<longleftrightarrow> (\<exists>s. v = PStr s \<and> sha256_re s)"
  by (auto simp: validate_sha256_def is_str_iff)

lemma size_Nil [valid_iffs]: "validate_size v path = [] \<longleftrightarrow> (\<exists>i. v = PInt i \<and> 0 < i)"
  by (auto simp: validate_size_def is_int_iff)

definition safe_path :: "string \<Rightarrow> bool" where "safe_path s \<longleftrightarrow> s \<noteq> [] \<and> \<not> unsafe_path s"

lemma path_Nil [valid_iffs]: "validate_relative_path v path = [] \<longleftrightarrow> (\<exists>s. v = PStr s \<and> safe_path s)"
  by (auto simp: validate_relative_path_def safe_path_def is_str_iff)

lemma https_Nil [valid_iffs]: "https_errors e v path = [] \<longleftrightarrow> (\<exists>s. v = PStr s \<and> s \<noteq> [] \<and> https_ok e s)"
  by (auto simp: https_errors_def is_str_iff)

lemma one_of_iff [valid_iffs]: "one_of xs v \<longleftrightarrow> (\<exists>s. v = PStr s \<and> s \<in> set xs)"
  by (auto simp: one_of_def)

lemma stability_Nil [valid_iffs]: "stability_errors v path = [] \<longleftrightarrow> one_of stability_values v"
  by (simp add: stability_errors_def)

lemma py_eq_list_strs: "py_eq_list vs (map PStr ss) \<longleftrightarrow> vs = map PStr ss"
proof (induction vs arbitrary: ss)
  case (Cons v vs)
  show ?case
  proof (cases ss)
    case (Cons s r)
    have "py_eq v (PStr s) \<longleftrightarrow> v = PStr s" by (cases v) auto
    then show ?thesis using Cons.IH [of r] Cons by simp
  qed simp
qed simp

lemma exact_Nil [valid_iffs]:
  "exact_value e v (PStr s) path = [] \<longleftrightarrow> v = PStr s"
  "exact_value e v (PBool b) path = [] \<longleftrightarrow> v = PBool b"
  "exact_value e v (PInt i) path = [] \<longleftrightarrow> v = PInt i"
  "exact_value e v (PList (map PStr ss)) path = [] \<longleftrightarrow> v = PList (map PStr ss)"
  by (cases v; auto simp: exact_value_def py_eq_list_strs)+

lemma provenance_text_Nil: "provenance_text e v path = Inr [] \<Longrightarrow> \<exists>s. v = PStr s"
  by (auto simp: provenance_text_def nonempty_string_Nil split: if_splits)

section \<open>Reading keys\<close>

lemma item_iffs [inr_iffs]:
  "str_item d k = Inr s \<longleftrightarrow> dget d k = Some (PStr s)"
  "int_item d k = Inr i \<longleftrightarrow> dget d k = Some (PInt i)"
  "bool_item d k = Inr b \<longleftrightarrow> dget d k = Some (PBool b)"
  "map_item d k = Inr m \<longleftrightarrow> dget d k = Some (PDict m)"
  "list_item d k = Inr xs \<longleftrightarrow> dget d k = Some (PList xs)"
  "as_str v = Inr s \<longleftrightarrow> v = PStr s"
  "as_map v = Inr m \<longleftrightarrow> v = PDict m"
  by (auto simp: str_item_def int_item_def bool_item_def map_item_def list_item_def as_str_def as_map_def ditem_def bindE_eq_Inr
      split: option.splits pyval.splits)

lemma item_simps [simp]:
  "dget d k = Some (PStr s) \<Longrightarrow> str_item d k = Inr s"
  "dget d k = Some (PInt i) \<Longrightarrow> int_item d k = Inr i"
  "dget d k = Some (PBool b) \<Longrightarrow> bool_item d k = Inr b"
  "dget d k = Some (PDict m) \<Longrightarrow> map_item d k = Inr m"
  "dget d k = Some (PList xs) \<Longrightarrow> list_item d k = Inr xs"
  "as_str (PStr s) = Inr s" "as_map (PDict m) = Inr m"
  by (simp_all add: item_iffs)

lemma parse_items_total:
  assumes "\<And>k v. (k, v) \<in> set d \<Longrightarrow> \<exists>s x. k = PStr s \<and> f s v = Inr x"
  obtains xs where "parse_items f d = Inr xs"
    "\<And>s x. (s, x) \<in> set xs \<Longrightarrow> \<exists>v. (PStr s, v) \<in> set d \<and> f s v = Inr x"
    "\<And>k. map_of xs k = Option.bind (dget d k) (\<lambda>v. case f k v of Inr x \<Rightarrow> Some x | Inl _ \<Rightarrow> None)"
proof -
  have "\<exists>xs. parse_items f d = Inr xs \<and> (\<forall>s x. (s, x) \<in> set xs \<longrightarrow> (\<exists>v. (PStr s, v) \<in> set d \<and> f s v = Inr x)) \<and>
      (\<forall>k. map_of xs k = Option.bind (dget d k) (\<lambda>v. case f k v of Inr x \<Rightarrow> Some x | Inl _ \<Rightarrow> None))"
    using assms
  proof (induction d)
    case Nil
    then show ?case by (simp add: parse_items_def)
  next
    case (Cons p d)
    obtain k v where p: "p = (k, v)" by (cases p)
    then obtain s x where s: "k = PStr s" "f s v = Inr x" using Cons.prems by force
    obtain xs where xs: "parse_items f d = Inr xs" "\<forall>s x. (s, x) \<in> set xs \<longrightarrow> (\<exists>v. (PStr s, v) \<in> set d \<and> f s v = Inr x)"
      "\<forall>k. map_of xs k = Option.bind (dget d k) (\<lambda>v. case f k v of Inr x \<Rightarrow> Some x | Inl _ \<Rightarrow> None)"
      using Cons.IH Cons.prems by (metis list.set_intros(2))
    have "parse_items f (p # d) = Inr ((s, x) # xs)" using p s xs(1) by (simp add: parse_items_def)
    moreover have "\<forall>k'. map_of ((s, x) # xs) k' = Option.bind (dget (p # d) k') (\<lambda>v. case f k' v of Inr x \<Rightarrow> Some x | Inl _ \<Rightarrow> None)"
      using p s xs(3) by auto
    moreover have "\<forall>s' x'. (s', x') \<in> set ((s, x) # xs) \<longrightarrow> (\<exists>v. (PStr s', v) \<in> set (p # d) \<and> f s' v = Inr x')"
      using p s xs(2) by auto
    ultimately show ?case by blast
  qed
  then show thesis using that by blast
qed

section \<open>Provenance and schemas\<close>

lemma provenance_parses:
  assumes "validate_provenance e v path = Inr []"
  obtains d p where "v = PDict d" "parse_provenance d = Inr p"
proof -
  obtain d where d: "v = PDict d" "d \<noteq> []"
    using assms by (auto simp: validate_provenance_def required_fields_def not_mapping_Nil provenance_fields_def missing_fields_def
        split: pyval.splits if_splits)
  have present: "list_all (\<lambda>f. \<exists>s. dget d f = Some (PStr s)) provenance_fields"
    using assms d provenance_text_Nil
    by (auto simp: validate_provenance_def required_fields_def valid_iffs provenance_fields_def)
  then have "\<exists>p. parse_provenance d = Inr p"
    unfolding provenance_fields_def list.pred_inject by (elim conjE exE) (simp add: parse_provenance_def)
  then show thesis using that d by blast
qed

lemma field_parses:
  assumes "field_errors e seen v path = Inr []"
  obtains f where "parse_field v = Inr f"
proof -
  obtain d where d: "v = PDict d" using assms by (cases v) (auto simp: field_errors_def not_mapping_Nil)
  obtain n t b where "dget d ''name'' = Some (PStr n)" "dget d ''logical_type'' = Some (PStr t)" "dget d ''nullable'' = Some (PBool b)"
    using assms unfolding d field_errors_def field_keys_def
    by (auto simp: valid_iffs is_bool_iff inr_iffs valid_logical_type_def is_str_iff split: if_splits)
  then show thesis using that d by (simp add: parse_field_def)
qed

lemma fields_parse: "fields_errors e path i seen vs = Inr [] \<Longrightarrow> \<exists>fs. mapE parse_field vs = Inr fs"
proof (induction vs arbitrary: i seen)
  case (Cons v vs)
  then have "field_errors e seen v (indexed path i) = Inr []" "\<exists>fs. mapE parse_field vs = Inr fs"
    by (auto simp: valid_iffs)
  then show ?case by (auto elim!: field_parses)
qed simp

lemma present_fieldE: "list_all (\<lambda>f. \<exists>v. dget d f = Some v) fs \<Longrightarrow> f \<in> set fs \<Longrightarrow> (\<And>v. dget d f = Some v \<Longrightarrow> thesis) \<Longrightarrow> thesis"
  by (auto simp: list_all_iff)

lemmas parts_simps = joinE_Nil list.pred_inject sum.inject missing_Nil on_field_Nil on_fieldE_Nil simp_thms

lemma schema_parses:
  assumes "schema_entry_errors e d path = Inr []"
  shows "\<exists>c. parse_schema k (PDict d) = Inr c \<and> sha256_re (sc_fingerprint c)"
proof -
  note parts = assms [unfolded schema_entry_errors_def parts_simps]
  obtain v1 v2 v3 v4 v5 where v: "dget d ''format'' = Some v1" "dget d ''mode'' = Some v2" "dget d ''fields'' = Some v3"
    "dget d ''options'' = Some v4" "dget d ''fingerprint'' = Some v5"
    using parts by (auto simp: schema_fields_def)
  have c: "(if one_of schema_formats v1 then [] else [path @ ''.format: unsupported schema format'']) = []"
    "(if one_of [''exact'', ''minimum''] v2 then [] else [path @ ''.mode: must be '' @ apos ''exact'' @ '' or '' @ apos ''minimum'']) = []"
    "validate_schema_options e (dget_none d ''format'') v4 (path @ ''.options'') = []"
    "fingerprint_errors e d v5 (path @ ''.fingerprint'') = Inr []"
    using parts v by blast+
  have "\<exists>fs fields. v3 = PList fs \<and> mapE parse_field fs = Inr fields"
    using parts v(3) by (cases v3) (auto simp: parts_simps dest: fields_parse)
  then obtain fs fields where f: "v3 = PList fs" "mapE parse_field fs = Inr fields" by blast
  obtain format mode where m: "v1 = PStr format" "v2 = PStr mode" using c(1,2) by (auto simp: one_of_iff split: if_splits)
  obtain options where o: "v4 = PDict options" using c(3) by (cases v4) (simp_all add: validate_schema_options_def not_mapping_Nil)
  obtain h where h: "v5 = PStr h" "sha256_re h"
    using c(4) by (auto simp: fingerprint_errors_def sha256_Nil split: sum.splits if_splits)
  show ?thesis using v f m o h by (simp add: parse_schema_def)
qed

lemma schemas_parse:
  assumes "validate_schemas e v path = Inr []"
  obtains d cs where "v = PDict d" "parse_schemas d = Inr cs" "\<And>k c. (k, c) \<in> set cs \<Longrightarrow> identifier_re k \<and> sha256_re (sc_fingerprint c)"
    "\<And>k. dget d k \<noteq> None \<Longrightarrow> map_of cs k \<noteq> None"
proof -
  obtain d where d: "v = PDict d" using assms by (cases v) (auto simp: validate_schemas_def not_mapping_Nil)
  have entry: "\<exists>s c. k = PStr s \<and> identifier_re s \<and> parse_schema s x = Inr c \<and> sha256_re (sc_fingerprint c)" if "(k, x) \<in> set d" for k x
  proof -
    have "named_schema_errors e path (k, x) = Inr []"
      using assms that by (auto simp: d validate_schemas_def joinE_Nil list_all_iff)
    then show ?thesis
      by (cases x) (auto simp: named_schema_errors_def Let_def parts_simps identifier_Nil not_mapping_Nil intro: schema_parses)
  qed
  obtain cs where cs: "parse_schemas d = Inr cs" "\<And>s x. (s, x) \<in> set cs \<Longrightarrow> \<exists>v. (PStr s, v) \<in> set d \<and> parse_schema s v = Inr x"
    "\<And>k. map_of cs k = Option.bind (dget d k) (\<lambda>v. case parse_schema k v of Inr x \<Rightarrow> Some x | Inl _ \<Rightarrow> None)"
    unfolding parse_schemas_def using parse_items_total [of d parse_schema] entry by metis
  have "identifier_re k \<and> sha256_re (sc_fingerprint c)" if "(k, c) \<in> set cs" for k c
    using cs(2) [OF that] entry by fastforce
  moreover have "map_of cs k \<noteq> None" if nd: "dget d k \<noteq> None" for k
  proof -
    obtain x where x: "dget d k = Some x" using nd by blast
    then have "(PStr k, x) \<in> set d" by (induction d k rule: dget.induct) (auto split: if_splits)
    then show ?thesis using entry x cs(3) [of k] by fastforce
  qed
  ultimately show thesis using that d cs(1) by blast
qed

section \<open>Artifacts\<close>

definition output_ok :: "pydict \<Rightarrow> landing_object \<Rightarrow> bool" where
  "output_ok schemas x \<longleftrightarrow>
     safe_path (lo_object_name x) \<and> 0 < lo_size_bytes x \<and> sha256_re (lo_sha256 x) \<and> dget schemas (lo_schema_id x) \<noteq> None"

lemma output_parses:
  assumes "output_errors e archive schemas raw seen v path = []"
  shows "\<exists>x. parse_output v = Inr x \<and> output_ok schemas x \<and> string_field ''object_name'' v = [lo_object_name x]"
proof -
  obtain d where d: "v = PDict d" using assms by (cases v) (auto simp: output_errors_def not_mapping_Nil)
  note parts = assms [unfolded d output_errors_def pyval.case append_is_Nil_conv parts_simps]
  obtain v1 v2 v3 v4 where v: "dget d ''object_name'' = Some v1" "dget d ''size_bytes'' = Some v2" "dget d ''sha256'' = Some v3"
    "dget d ''schema'' = Some v4" using parts by (auto simp: output_fields_def)
  have c: "validate_relative_path v1 (path @ ''.object_name'') = []" "validate_size v2 (path @ ''.size_bytes'') = []"
    "validate_sha256 v3 (path @ ''.sha256'') = []"
    "(if is_str v4 \<and> dget schemas (str_val v4) \<noteq> None then [] else [path @ ''.schema: unknown schema '' @ apos (text_of e v4)]) = []"
    using parts v by blast+
  then obtain n i h k where s: "v1 = PStr n" "safe_path n" "v2 = PInt i" "0 < i" "v3 = PStr h" "sha256_re h" "v4 = PStr k" "dget schemas k \<noteq> None"
    by (auto simp: path_Nil size_Nil sha256_Nil is_str_iff split: if_splits)
  have keys: "set (dkeys d) \<subseteq> PStr ` set (output_fields archive)" using parts by (simp add: unknown_Nil)
  have "\<exists>m. (case dget_none d ''member_path'' of PNone \<Rightarrow> Inr None | PStr s \<Rightarrow> Inr (Some s) | _ \<Rightarrow> Inl untyped) = Inr m"
  proof (cases archive)
    case True
    then obtain m where "dget d ''member_path'' = Some m" using parts by (auto simp: output_fields_def)
    moreover from this have "validate_relative_path m (path @ ''.member_path'') = []" using True parts by (auto simp: parts_simps)
    ultimately show ?thesis by (auto simp: path_Nil dget_none_def)
  next
    case False
    then have "dget d ''member_path'' = None" using keys by (auto simp: dget_none_iff output_fields_def)
    then show ?thesis by (simp add: dget_none_def)
  qed
  moreover have "\<exists>b. (case dget_or d ''raw_identity'' (PBool False) of PBool b \<Rightarrow> Inr b | _ \<Rightarrow> Inl untyped) = Inr b"
  proof (cases archive)
    case True
    then have "dget d ''raw_identity'' = None" using keys by (auto simp: dget_none_iff output_fields_def)
    then show ?thesis by (auto simp: dget_or_def)
  next
    case False
    then obtain m where "dget d ''raw_identity'' = Some m" using parts by (auto simp: output_fields_def)
    moreover from this have "exact_value e m (PBool True) (path @ ''.raw_identity'') = []" using False parts by (auto simp: parts_simps)
    ultimately show ?thesis by (auto simp: exact_Nil dget_or_def)
  qed
  ultimately obtain m b where
    "(case dget_none d ''member_path'' of PNone \<Rightarrow> Inr None | PStr s \<Rightarrow> Inr (Some s) | _ \<Rightarrow> Inl untyped) = (Inr m :: string option res)"
    "(case dget_or d ''raw_identity'' (PBool False) of PBool b \<Rightarrow> Inr b | _ \<Rightarrow> Inl untyped) = (Inr b :: bool res)" by blast
  then show ?thesis using d v s by (simp add: parse_output_def output_ok_def string_field_def)
qed

lemma outputs_parse:
  assumes "outputs_errors e archive schemas raw path i seen vs = []"
  shows "\<exists>xs. mapE parse_output vs = Inr xs \<and> list_all (output_ok schemas) xs \<and> length xs = length vs \<and>
    concat (map (string_field ''object_name'') vs) = map lo_object_name xs"
  using assms
proof (induction vs arbitrary: i seen)
  case (Cons v vs)
  then have "output_errors e archive schemas raw seen v (indexed path i) = []"
    "outputs_errors e archive schemas raw path (Suc i) (string_field ''object_name'' v @ seen) vs = []" by simp_all
  from output_parses [OF this(1)] Cons.IH [OF this(2)] show ?case by auto
qed simp

lemma version_parses:
  assumes "validate_version e v path = []"
  shows "\<exists>d k x. v = PDict d \<and> dget d ''kind'' = Some (PStr k) \<and> dget d ''value'' = Some (PStr x)"
proof -
  obtain d where d: "v = PDict d" using assms by (cases v) (auto simp: validate_version_def not_mapping_Nil)
  note parts = assms [unfolded d validate_version_def pyval.case append_is_Nil_conv parts_simps]
  obtain v1 v2 where v: "dget d ''kind'' = Some v1" "dget d ''value'' = Some v2" using parts by auto
  have "one_of [''revision'', ''publication-date''] v1" "nonempty_string v2 (path @ ''.value'') = []"
    using parts v by (auto split: if_splits)
  then show ?thesis using d v by (auto simp: one_of_iff nonempty_string_Nil)
qed

lemma evidence_parses:
  assumes "validate_evidence e v path = []" "keys_distinct v"
  shows "\<exists>d xs. v = PDict d \<and> parse_items (\<lambda>_. as_str) d = Inr xs"
proof -
  obtain d where d: "v = PDict d" using assms by (cases v) (auto simp: validate_evidence_def not_mapping_Nil)
  note parts = assms(1) [unfolded d validate_evidence_def pyval.case append_is_Nil_conv parts_simps]
  have str: "\<exists>s x. k = PStr s \<and> as_str u = Inr x" if ku: "(k, u) \<in> set d" for k u
  proof -
    obtain f where f: "k = PStr f" "f \<in> set evidence_fields" using parts ku by (force simp: unknown_Nil dkeys_def)
    have "named d" using assms(2) parts by (auto simp: d named_def unknown_Nil dkeys_def list_all_iff)
    then have "dget d f = Some u" using ku f(1) by (simp add: dget_in)
    then have "nonempty_string u (path @ ''.'' @ f) = []" using parts f(2) by (auto simp: on_field_Nil evidence_fields_def)
    then show ?thesis using f by (auto simp: nonempty_string_Nil)
  qed
  show ?thesis using parse_items_total [of d "\<lambda>_. as_str"] str d by metis
qed

lemma artifact_parses:
  assumes "artifact_errors e archive schemas source_stability d path = Inr []" "keys_distinct (PDict d)"
  shows "\<exists>a outs. parse_artifact k (PDict d) = Inr a \<and> list_all (output_ok schemas) (ha_outputs a) \<and> ha_outputs a \<noteq> [] \<and>
    dget d ''outputs'' = Some (PList outs) \<and> concat (map (string_field ''object_name'') outs) = map lo_object_name (ha_outputs a)"
proof -
  obtain basename perrs where b: "(case dget d ''url'' of None \<Rightarrow> Inr None | Some u \<Rightarrow> url_basename e u) = Inr basename"
    "on_fieldE d ''provenance'' (\<lambda>v. validate_provenance e v (path @ ''.provenance'')) = Inr perrs"
    using assms(1) unfolding artifact_errors_def bindE_eq_Inr by blast
  note parts = assms(1) [unfolded artifact_errors_def b bindE_simps Let_def sum.inject append_is_Nil_conv parts_simps]
  obtain v1 v2 v3 v4 v5 v6 where v: "dget d ''url'' = Some v1" "dget d ''version'' = Some v2" "dget d ''stability'' = Some v3"
    "dget d ''evidence'' = Some v4" "dget d ''raw'' = Some v5" "dget d ''outputs'' = Some v6"
    using parts by (auto simp: artifact_fields_def)
  have c: "https_errors e v1 (path @ ''.url'') = []" "validate_version e v2 (path @ ''.version'') = []"
    "stability_errors v3 (path @ ''.stability'') = []" "validate_evidence e v4 (path @ ''.evidence'') = []"
    "raw_errors e basename v5 (path @ ''.raw'') = []"
    "(case v6 of PList (x # xs) \<Rightarrow> outputs_errors e archive schemas (dget_none d ''raw'') (path @ ''.outputs'') 0 [] (x # xs)
      | _ \<Rightarrow> [path @ ''.outputs: must be a non-empty list'']) = []"
    using parts v by blast+
  obtain url where url: "v1 = PStr url" using c(1) by (auto simp: https_Nil)
  obtain vd vk vv where version: "v2 = PDict vd" "dget vd ''kind'' = Some (PStr vk)" "dget vd ''value'' = Some (PStr vv)"
    using version_parses [OF c(2)] by blast
  obtain st where st: "v3 = PStr st" using c(3) by (auto simp: stability_Nil one_of_iff)
  have "keys_distinct v4" using nested_keys_distinct [OF assms(2), of "''evidence''"] v(4) by (simp add: dget_none_def)
  then obtain ed evs where ev: "v4 = PDict ed" "parse_items (\<lambda>_. as_str) ed = Inr evs" using evidence_parses [OF c(4)] by blast
  obtain rd where rd: "v5 = PDict rd" using c(5) by (cases v5) (auto simp: raw_errors_def not_mapping_Nil)
  note raw = c(5) [unfolded rd raw_errors_def pyval.case append_is_Nil_conv parts_simps]
  obtain r1 r2 r3 where r: "dget rd ''name'' = Some r1" "dget rd ''size_bytes'' = Some r2" "dget rd ''sha256'' = Some r3"
    using raw by (auto simp: raw_fields_def)
  then have "validate_relative_path r1 (path @ ''.raw'' @ ''.name'') = []" "validate_size r2 (path @ ''.raw'' @ ''.size_bytes'') = []"
    "validate_sha256 r3 (path @ ''.raw'' @ ''.sha256'') = []" using raw by auto
  then obtain rn rs rh where rt: "r1 = PStr rn" "r2 = PInt rs" "r3 = PStr rh" by (auto simp: path_Nil size_Nil sha256_Nil)
  obtain o1 os where os: "v6 = PList (o1 # os)" using c(6) by (auto split: pyval.splits list.splits)
  then obtain xs where xs: "mapE parse_output (o1 # os) = Inr xs" "list_all (output_ok schemas) xs" "length xs = length (o1 # os)"
    "concat (map (string_field ''object_name'') (o1 # os)) = map lo_object_name xs"
    using c(6) outputs_parse [of e archive schemas "dget_none d ''raw''" "path @ ''.outputs''" 0 "[]" "o1 # os"] by auto
  have "\<exists>p. (case dget d ''provenance'' of None \<Rightarrow> Inr None
            | Some p \<Rightarrow> bindE (as_map p) (\<lambda>m. bindE (parse_provenance m) (\<lambda>x. Inr (Some x)))) = Inr p"
  proof (cases "dget d ''provenance''")
    case (Some p)
    then have "validate_provenance e p (path @ ''.provenance'') = Inr []" using b(2) parts by (simp add: on_fieldE_def)
    then show ?thesis using Some by (auto elim!: provenance_parses)
  qed simp
  then obtain p where p: "(case dget d ''provenance'' of None \<Rightarrow> Inr None
            | Some p \<Rightarrow> bindE (as_map p) (\<lambda>m. bindE (parse_provenance m) (\<lambda>x. Inr (Some x)))) = Inr p" by blast
  have "xs \<noteq> []" using xs(3) by auto
  then show ?thesis
    using v url version st ev rd r rt os xs p by (simp add: parse_artifact_def del: mapE.simps)
qed

end
