(* ===== verification/RegistryScales.thy ===== *)
theory RegistryScales
  imports RegistryFacts
begin

text \<open>
  The scales of a validated dataset: every reference of a scale names an artifact whose outputs are
  sound, and the landing objects of a scale have distinct names.
\<close>

section \<open>Scales\<close>

lemma conflict_none:
  assumes "conflict_errors path objs ns = ([], objs')"
  shows "distinct ns \<and> set ns \<inter> set objs = {} \<and> set objs' = set ns \<union> set objs"
  using assms
proof (induction path objs ns rule: conflict_errors.induct)
  case (2 path objs n ns)
  then show ?case by (cases "n \<in> set objs") (auto split: prod.splits)
qed simp

lemma references_valid:
  assumes "reference_errors e artifacts path i seen objs vs = []"
  shows "\<exists>ids. mapE as_str vs = Inr ids \<and> (\<forall>r\<in>set ids. dget artifacts r \<noteq> None) \<and>
    distinct (concat (map (referenced_names artifacts) ids)) \<and>
    set (concat (map (referenced_names artifacts) ids)) \<inter> set objs = {}"
  using assms
proof (induction vs arbitrary: i seen objs)
  case (Cons v vs)
  obtain r where r: "v = PStr r" "dget artifacts r \<noteq> None" "r \<notin> set seen"
    using Cons.prems by (auto simp: Let_def split: pyval.splits if_splits prod.splits)
  obtain errors objs' where c: "conflict_errors (indexed path i) objs (referenced_names artifacts r) = (errors, objs')" by fastforce
  have e: "errors = []" "reference_errors e artifacts path (Suc i) (r # seen) objs' vs = []"
    using Cons.prems r c by (auto simp: Let_def)
  obtain ids where ids: "mapE as_str vs = Inr ids" "\<forall>r\<in>set ids. dget artifacts r \<noteq> None"
    "distinct (concat (map (referenced_names artifacts) ids))" "set (concat (map (referenced_names artifacts) ids)) \<inter> set objs' = {}"
    using Cons.IH [OF e(2)] by blast
  have n: "distinct (referenced_names artifacts r)" "set (referenced_names artifacts r) \<inter> set objs = {}"
    "set objs' = set (referenced_names artifacts r) \<union> set objs" using conflict_none c e(1) by blast+
  have "mapE as_str (v # vs) = Inr (r # ids)" using r ids(1) by simp
  moreover have "distinct (concat (map (referenced_names artifacts) (r # ids)))"
    using n ids(3,4) by (simp del: set_concat) blast
  moreover have "set (concat (map (referenced_names artifacts) (r # ids))) \<inter> set objs = {}"
    using n ids(4) by (simp del: set_concat) blast
  ultimately show ?case using r(2) ids(2) by auto
qed simp

lemma dget_member: "dget d k = Some v \<Longrightarrow> (PStr k, v) \<in> set d"
  by (induction d k rule: dget.induct) (auto split: if_splits)

lemma keys_distinct_member: "keys_distinct (PDict d) \<Longrightarrow> (k, v) \<in> set d \<Longrightarrow> keys_distinct v"
  by (auto simp: list_all_iff)

lemma artifacts_parse:
  assumes "joinE (map (named_artifact_errors e archive schemas source_stability path) artifacts) = Inr []" "keys_distinct (PDict artifacts)"
  obtains arts where "parse_artifacts artifacts = Inr arts"
    "\<And>r. dget artifacts r \<noteq> None \<Longrightarrow> \<exists>a. map_of arts r = Some a \<and> list_all (output_ok schemas) (ha_outputs a) \<and> ha_outputs a \<noteq> [] \<and>
       referenced_names artifacts r = map lo_object_name (ha_outputs a)"
proof -
  have entry: "\<exists>s d. k = PStr s \<and> v = PDict d \<and> (\<exists>p. artifact_errors e archive schemas source_stability d p = Inr [])"
    if "(k, v) \<in> set artifacts" for k v
  proof -
    have "named_artifact_errors e archive schemas source_stability path (k, v) = Inr []"
      using assms(1) that by (auto simp: joinE_Nil list_all_iff)
    then show ?thesis by (cases v) (auto simp: named_artifact_errors_def Let_def parts_simps identifier_Nil not_mapping_Nil)
  qed
  have ok: "\<exists>a outs. parse_artifact s v = Inr a \<and> list_all (output_ok schemas) (ha_outputs a) \<and> ha_outputs a \<noteq> [] \<and>
      (\<exists>d. v = PDict d \<and> dget d ''outputs'' = Some (PList outs)) \<and> concat (map (string_field ''object_name'') outs) = map lo_object_name (ha_outputs a)"
    if kv: "(k, v) \<in> set artifacts" for k v s
  proof -
    obtain d p where d: "v = PDict d" "artifact_errors e archive schemas source_stability d p = Inr []" using entry [OF kv] by blast
    have "keys_distinct (PDict d)" using keys_distinct_member [OF assms(2) kv] by (simp only: d(1))
    from artifact_parses [OF d(2) this, of s] show ?thesis by (elim exE conjE) (intro exI conjI, (assumption | simp only: d(1))+)
  qed
  have parses: "\<exists>s x. k = PStr s \<and> parse_artifact s v = Inr x" if "(k, v) \<in> set artifacts" for k v
    using entry [OF that] ok [OF that] by blast
  obtain arts where arts: "parse_items parse_artifact artifacts = Inr arts"
    "\<And>s x. (s, x) \<in> set arts \<Longrightarrow> \<exists>v. (PStr s, v) \<in> set artifacts \<and> parse_artifact s v = Inr x"
    "\<And>k. map_of arts k = Option.bind (dget artifacts k) (\<lambda>v. case parse_artifact k v of Inr x \<Rightarrow> Some x | Inl _ \<Rightarrow> None)"
    by (rule parse_items_total [of artifacts parse_artifact, OF parses]) blast+
  have "\<exists>a. map_of arts r = Some a \<and> list_all (output_ok schemas) (ha_outputs a) \<and> ha_outputs a \<noteq> [] \<and>
       referenced_names artifacts r = map lo_object_name (ha_outputs a)" if nd: "dget artifacts r \<noteq> None" for r
  proof -
    obtain v where v: "dget artifacts r = Some v" using nd by blast
    from ok [OF dget_member [OF v], of r] obtain a outs d where a: "parse_artifact r v = Inr a" "list_all (output_ok schemas) (ha_outputs a)"
      "ha_outputs a \<noteq> []" "v = PDict d" "dget d ''outputs'' = Some (PList outs)"
      "concat (map (string_field ''object_name'') outs) = map lo_object_name (ha_outputs a)" by blast
    then show ?thesis using v arts(3) [of r] by (simp add: referenced_names_def)
  qed
  then show thesis using that arts(1) by (simp add: parse_artifacts_def)
qed

definition scale_ok :: "pydict \<Rightarrow> (string \<times> http_artifact) list \<Rightarrow> scale_spec \<Rightarrow> bool" where
  \<comment> \<open>the scale selects known artifacts whose outputs are sound and have distinct names\<close>
  "scale_ok schemas arts spec \<longleftrightarrow>
     (\<exists>ids as. spec = HttpScale ids \<and> mapE (item_of arts) ids = Inr as \<and>
        (let outs = concat (map ha_outputs as) in outs \<noteq> [] \<and> list_all (output_ok schemas) outs \<and> distinct (map lo_object_name outs)))"

lemma references_resolve:
  assumes "\<And>r. dget artifacts r \<noteq> None \<Longrightarrow> \<exists>a. map_of arts r = Some a \<and> list_all (output_ok schemas) (ha_outputs a) \<and> ha_outputs a \<noteq> [] \<and>
       referenced_names artifacts r = map lo_object_name (ha_outputs a)"
    and "\<forall>r\<in>set ids. dget artifacts r \<noteq> None"
  shows "\<exists>as. mapE (item_of arts) ids = Inr as \<and> list_all (\<lambda>a. list_all (output_ok schemas) (ha_outputs a) \<and> ha_outputs a \<noteq> []) as \<and>
    concat (map (referenced_names artifacts) ids) = map lo_object_name (concat (map ha_outputs as)) \<and> length as = length ids"
  using assms(2)
proof (induction ids)
  case (Cons r ids)
  then obtain as where as: "mapE (item_of arts) ids = Inr as" "list_all (\<lambda>a. list_all (output_ok schemas) (ha_outputs a) \<and> ha_outputs a \<noteq> []) as"
    "concat (map (referenced_names artifacts) ids) = map lo_object_name (concat (map ha_outputs as))" "length as = length ids" by auto
  obtain a where a: "map_of arts r = Some a" "list_all (output_ok schemas) (ha_outputs a)" "ha_outputs a \<noteq> []"
    "referenced_names artifacts r = map lo_object_name (ha_outputs a)" using assms(1) [of r] Cons.prems by auto
  have "item_of arts r = Inr a" using a(1) by (simp add: item_of_def)
  then have "mapE (item_of arts) (r # ids) = Inr (a # as)" using as(1) by simp
  then show ?case using as a(2-4) by (intro exI [of _ "a # as"]) simp
qed simp

lemma scale_parses:
  assumes "scale_errors e artifacts path (k, v) = []"
    and "\<And>r. dget artifacts r \<noteq> None \<Longrightarrow> \<exists>a. map_of arts r = Some a \<and> list_all (output_ok schemas) (ha_outputs a) \<and> ha_outputs a \<noteq> [] \<and>
       referenced_names artifacts r = map lo_object_name (ha_outputs a)"
  shows "\<exists>s spec. k = PStr s \<and> parse_scale_references s v = Inr spec \<and> scale_ok schemas arts spec"
proof -
  define p where "p = path @ ''.scales.'' @ text_of e k"
  note parts = assms(1) [unfolded scale_errors_def prod.case Let_def p_def [symmetric] append_is_Nil_conv]
  obtain s where s: "k = PStr s" using parts by (auto simp: one_of_iff split: if_splits)
  obtain d where d: "v = PDict d" using parts by (cases v) (auto simp: not_mapping_Nil)
  note inner = parts [unfolded d pyval.case append_is_Nil_conv parts_simps]
  obtain x where x: "dget d ''artifacts'' = Some x" using inner by auto
  then obtain r rs where r: "x = PList (r # rs)" "reference_errors e artifacts (p @ ''.artifacts'') 0 [] [] (r # rs) = []"
    using inner by (auto split: pyval.splits list.splits)
  obtain ids where ids: "mapE as_str (r # rs) = Inr ids" "\<forall>r\<in>set ids. dget artifacts r \<noteq> None"
    "distinct (concat (map (referenced_names artifacts) ids))" using references_valid [OF r(2)] by blast
  obtain as where as: "mapE (item_of arts) ids = Inr as" "list_all (\<lambda>a. list_all (output_ok schemas) (ha_outputs a) \<and> ha_outputs a \<noteq> []) as"
    "concat (map (referenced_names artifacts) ids) = map lo_object_name (concat (map ha_outputs as))" "length as = length ids"
    using references_resolve [OF assms(2) ids(2)] by blast
  have "as \<noteq> []" using as(4) mapE_length [OF ids(1)] by auto
  then have "concat (map ha_outputs as) \<noteq> []" using as(2) by (cases as) auto
  moreover have "list_all (output_ok schemas) (concat (map ha_outputs as))" using as(2) by (auto simp: list_all_iff)
  ultimately have "scale_ok schemas arts (HttpScale ids)" using as(1,3) ids(3) by (auto simp: scale_ok_def Let_def)
  then show ?thesis using s d x r(1) ids(1) by (simp add: parse_scale_references_def del: mapE.simps)
qed

lemma http_parses:
  assumes "validate_http_dataset e d path = Inr []" "keys_distinct (PDict d)"
    and "dget d ''artifacts'' \<noteq> None" "dget d ''scales'' \<noteq> None"
  obtains arts scales where "parse_kind ''http'' d = Inr (arts, scales, None)"
    "\<And>s. s \<in> set scale_names \<Longrightarrow> \<exists>spec. map_of scales s = Some spec \<and> scale_ok (dict_or_empty (dget_none d ''schemas'')) arts spec"
proof -
  let ?artifacts = "dict_or_empty (dget_none d ''artifacts'')" and ?schemas = "dict_or_empty (dget_none d ''schemas'')"
  obtain per where "joinE (map (named_artifact_errors e (dget_none (dict_or_empty (dget_none d ''fetch'')) ''unzip'' = PBool True) ?schemas
      (dget_none (dict_or_empty (dget_none d ''provenance'')) ''source_stability'') path) ?artifacts) = Inr per"
    using assms(1) unfolding validate_http_dataset_def Let_def bindE_eq_Inr by (elim exE conjE)
  note j = this and parts = assms(1) [unfolded validate_http_dataset_def Let_def this bindE_simps sum.inject append_is_Nil_conv]
  note rest = parts [THEN conjunct2, THEN conjunct2, THEN conjunct1] parts [THEN conjunct2, THEN conjunct1]
    parts [THEN conjunct2, THEN conjunct2, THEN conjunct2]
  obtain ad where ad: "dget d ''artifacts'' = Some (PDict ad)" 
  proof -
    obtain v where v: "dget d ''artifacts'' = Some v" using assms(3) by blast
    show thesis using rest(2) [unfolded on_field_Nil, rule_format, OF v] v that by (cases v) simp_all
  qed
  obtain sd where sd: "dget d ''scales'' = Some (PDict sd)" 
  proof -
    obtain v where v: "dget d ''scales'' = Some v" using assms(4) by blast
    show thesis using rest(3) [unfolded on_field_Nil, rule_format, OF v] v that by (cases v) simp_all
  qed
  have a: "?artifacts = ad" using ad by (simp add: dget_none_def dict_or_empty_def)
  have kd: "keys_distinct (PDict ad)" using nested_keys_distinct [OF assms(2), of "''artifacts''"] ad by (simp add: dget_none_def)
  obtain arts where arts: "parse_artifacts ad = Inr arts"
    "\<And>r. dget ad r \<noteq> None \<Longrightarrow> \<exists>a. map_of arts r = Some a \<and> list_all (output_ok ?schemas) (ha_outputs a) \<and> ha_outputs a \<noteq> [] \<and>
       referenced_names ad r = map lo_object_name (ha_outputs a)"
    using artifacts_parse [OF j [unfolded rest(1) a] kd] by blast
  have scales: "missing_fields sd (path @ ''.scales'') scale_names = []" "\<And>kv. kv \<in> set sd \<Longrightarrow> scale_errors e ad path kv = []"
    using rest(3) [unfolded on_field_Nil a, rule_format, OF sd] by auto
  have entry: "\<exists>s spec. k = PStr s \<and> parse_scale_references s v = Inr spec \<and> scale_ok ?schemas arts spec" if "(k, v) \<in> set sd" for k v
    using scale_parses [OF scales(2) [OF that] arts(2)] by blast
  have parses: "\<exists>s x. k = PStr s \<and> parse_scale_references s v = Inr x" if "(k, v) \<in> set sd" for k v
    using entry [OF that] by blast
  obtain specs where specs: "parse_items parse_scale_references sd = Inr specs"
    "\<And>s x. (s, x) \<in> set specs \<Longrightarrow> \<exists>v. (PStr s, v) \<in> set sd \<and> parse_scale_references s v = Inr x"
    "\<And>k. map_of specs k = Option.bind (dget sd k) (\<lambda>v. case parse_scale_references k v of Inr x \<Rightarrow> Some x | Inl _ \<Rightarrow> None)"
    by (rule parse_items_total [of sd parse_scale_references, OF parses]) blast+
  have "\<exists>spec. map_of specs s = Some spec \<and> scale_ok ?schemas arts spec" if s: "s \<in> set scale_names" for s
  proof -
    obtain v where v: "dget sd s = Some v" using scales(1) s by (auto simp: missing_Nil list_all_iff)
    from entry [OF dget_member [OF v]] obtain spec where "parse_scale_references s v = Inr spec" "scale_ok ?schemas arts spec" by auto
    then show ?thesis using specs(3) [of s] v by simp
  qed
  then show thesis using that ad sd arts(1) specs(1) by (simp add: parse_kind_def)
qed

end
