(* ===== verification/RegistryGenerator.thy ===== *)
theory RegistryGenerator
  imports RegistryScales
begin

text \<open>
  A validated TPC-H dataset: its generator section is the locked one, so the copy into the typed
  contract succeeds, and every scale has the eight tables in canonical order.
\<close>

section \<open>Locked constants\<close>

definition locked_constant :: "pyval \<Rightarrow> bool" where
  "locked_constant v \<longleftrightarrow> is_str v \<or> is_bool v \<or> is_int v \<or> (\<exists>ss. v = PList (map PStr ss))"

lemma exact_locked: "locked_constant x \<Longrightarrow> exact_value e v x path = [] \<longleftrightarrow> v = x"
  by (cases x) (auto simp: locked_constant_def exact_Nil)

lemma exact_mapping_valid:
  assumes "validate_exact_mapping e v path expected = []" "list_all (\<lambda>(f, x). locked_constant x) expected"
  shows "\<exists>d. v = PDict d \<and> list_all (\<lambda>(f, x). dget d f = Some x) expected \<and> set (dkeys d) \<subseteq> PStr ` fst ` set expected"
proof -
  obtain d where d: "v = PDict d" using assms(1) by (cases v) (auto simp: validate_exact_mapping_def not_mapping_Nil)
  note parts = assms(1) [unfolded d validate_exact_mapping_def pyval.case append_is_Nil_conv exact_fields_def missing_Nil unknown_Nil]
  have "dget d f = Some x" if fx: "(f, x) \<in> set expected" for f x
  proof -
    obtain u where u: "dget d f = Some u" using parts fx by (auto simp: list_all_iff)
    have "on_field d f (\<lambda>v. exact_value e v x (path @ ''.'' @ f)) = []" using parts fx by auto
    then have "exact_value e u x (path @ ''.'' @ f) = []" using u by (simp add: on_field_Nil)
    moreover have "locked_constant x" using assms(2) fx by (auto simp: list_all_iff)
    ultimately show ?thesis using u by (simp add: exact_locked)
  qed
  then show ?thesis using d parts by (auto simp: list_all_iff)
qed

lemma sections_locked: "list_all (\<lambda>(_, expected). list_all (\<lambda>(f, x). locked_constant x) expected) tpch_constants"
  "list_all (\<lambda>(f, x). locked_constant x) export_constants"
  "list_all (\<lambda>(f, x). locked_constant x) (map (\<lambda>(t, cs). (t, PList (map PStr cs))) order_columns)"
  by (auto simp: tpch_constants_def export_constants_def locked_constant_def list_all_iff)

section \<open>Outputs\<close>

definition generated_ok :: "pydict \<Rightarrow> generator_output \<Rightarrow> bool" where
  "generated_ok schemas x \<longleftrightarrow>
     go_object_name x = go_table x @ ''.parquet'' \<and> safe_path (go_object_name x) \<and> 0 < go_size_bytes x \<and> sha256_re (go_sha256 x) \<and>
     go_schema_id x = go_table x \<and> dget schemas (go_schema_id x) \<noteq> None"

lemma generated_parses:
  assumes "generator_output_errors e schemas i ts os ss v path = []" "i < length tables"
  shows "\<exists>x. parse_generator_output v = Inr x \<and> generated_ok schemas x \<and> go_table x = tables ! i"
proof -
  obtain d where d: "v = PDict d" using assms(1) by (cases v) (auto simp: generator_output_errors_def not_mapping_Nil)
  note parts = assms(1) [unfolded d generator_output_errors_def pyval.case Let_def append_is_Nil_conv parts_simps]
  obtain v1 v2 v3 v4 v5 where v: "dget d ''table'' = Some v1" "dget d ''object_name'' = Some v2" "dget d ''size_bytes'' = Some v3"
    "dget d ''sha256'' = Some v4" "dget d ''schema'' = Some v5" using parts by (auto simp: generator_output_fields_def)
  have t: "v1 = PStr (tables ! i)" using parts v(1) assms(2) by (auto split: if_splits)
  have dn: "dget_none d ''table'' = PStr (tables ! i)" using v(1) t by (simp add: dget_none_def)
  have n: "validate_relative_path v2 (path @ ''.object_name'') = []" "v2 = PStr (tables ! i @ ''.parquet'')"
    using parts v(2) by (auto simp: dn split: if_splits)
  have c: "validate_size v3 (path @ ''.size_bytes'') = []" "validate_sha256 v4 (path @ ''.sha256'') = []" using parts v by blast+
  have k: "dget schemas (str_val v5) \<noteq> None" "py_eq v5 (PStr (tables ! i))" using parts v(5) by (auto simp: dn split: if_splits)
  then have "v5 = PStr (tables ! i)" by (cases v5) auto
  moreover obtain j h where "v3 = PInt j" "0 < j" "v4 = PStr h" "sha256_re h" using c by (auto simp: size_Nil sha256_Nil)
  ultimately show ?thesis using d v t n k(1) by (simp add: parse_generator_output_def generated_ok_def path_Nil)
qed

lemma generated_all_parse:
  assumes "generator_outputs_errors e schemas path i ts os ss vs = []" "i + length vs \<le> length tables"
  shows "\<exists>xs. mapE parse_generator_output vs = Inr xs \<and> list_all (generated_ok schemas) xs \<and> map go_table xs = take (length vs) (drop i tables)"
  using assms
proof (induction vs arbitrary: i ts os ss)
  case (Cons v vs)
  have i: "i < length tables" using Cons.prems(2) by simp
  obtain x where x: "parse_generator_output v = Inr x" "generated_ok schemas x" "go_table x = tables ! i"
    using generated_parses [OF _ i] Cons.prems(1) by fastforce
  obtain xs where xs: "mapE parse_generator_output vs = Inr xs" "list_all (generated_ok schemas) xs"
    "map go_table xs = take (length vs) (drop (Suc i) tables)"
    using Cons.IH [of "Suc i"] Cons.prems by fastforce
  show ?case using x xs by (simp add: Cons_nth_drop_Suc [OF i, symmetric])
qed simp

section \<open>Scales\<close>

definition generator_scale_ok :: "pydict \<Rightarrow> string \<Rightarrow> generator_scale \<Rightarrow> bool" where
  "generator_scale_ok schemas s g \<longleftrightarrow>
     gs_name g = s \<and> gs_scale_factor g = py_num (scale_factor s) \<and> map go_table (gs_outputs g) = tables \<and>
     list_all (generated_ok schemas) (gs_outputs g)"

lemma generator_scale_parses:
  assumes "generator_scale_errors e schemas path (k, v) = []" "one_of scale_names k"
  shows "\<exists>s g. k = PStr s \<and> parse_generator_scale s v = Inr g \<and> generator_scale_ok schemas s g"
proof -
  obtain s where s: "k = PStr s" "s \<in> set scale_names" using assms(2) by (auto simp: one_of_iff)
  define p where "p = path @ ''.generator.scales.'' @ text_of e k"
  obtain d where d: "v = PDict d" using assms(1) by (cases v) (auto simp: generator_scale_errors_def Let_def not_mapping_Nil)
  note parts = assms(1) [unfolded d generator_scale_errors_def prod.case Let_def p_def [symmetric] pyval.case append_is_Nil_conv parts_simps]
  obtain v1 v2 where v: "dget d ''scale_factor'' = Some v1" "dget d ''outputs'' = Some v2" using parts by auto
  have f: "factor_errors e k v1 p = []" using parts v(1) by blast
  have "\<not> is_bool v1" "py_num v1 = py_num (scale_factor s)"
    using f assms(2) s(1) by (simp_all add: factor_errors_def split: if_splits)
  moreover have "py_num (scale_factor s) \<noteq> None" by (simp add: scale_factor_def del: not_None_eq)
  ultimately have f: "(case v1 of PFloat q \<Rightarrow> Inr q | PInt i \<Rightarrow> Inr (Some (of_int i)) | _ \<Rightarrow> Inl untyped) = Inr (py_num (scale_factor s))"
    by (cases v1) simp_all
  obtain vs where vs: "v2 = PList vs" "length vs = 8" using parts v(2) by (cases v2) (auto split: if_splits)
  have "generator_outputs_errors e schemas (p @ ''.outputs'') 0 [] [] [] vs = []" using parts v(2) vs(1) by auto
  moreover have "length tables = 8" by (simp add: tables_def)
  ultimately obtain xs where xs: "mapE parse_generator_output vs = Inr xs" "list_all (generated_ok schemas) xs" "map go_table xs = tables"
    using generated_all_parse [of e schemas "p @ ''.outputs''" 0 "[]" "[]" "[]" vs] vs(2) by auto
  have "ditem d ''scale_factor'' = Inr v1" using v(1) by (simp add: ditem_def)
  then show ?thesis using s(1) d v vs(1) xs f by (simp add: parse_generator_scale_def generator_scale_ok_def)
qed

lemma distinct_tables: "distinct tables"
  by (simp add: tables_def)

lemma generated_names_distinct:
  assumes "generator_scale_ok schemas s g"
  shows "distinct (map go_object_name (gs_outputs g)) \<and> gs_outputs g \<noteq> []"
proof -
  have "map go_object_name (gs_outputs g) = map (\<lambda>x. go_table x @ ''.parquet'') (gs_outputs g)"
    using assms by (intro map_cong) (auto simp: generator_scale_ok_def generated_ok_def list_all_iff)
  also have "\<dots> = map (\<lambda>t. t @ ''.parquet'') (map go_table (gs_outputs g))" by simp
  finally have "map go_object_name (gs_outputs g) = map (\<lambda>t. t @ ''.parquet'') tables" using assms by (simp only: generator_scale_ok_def)
  moreover have "inj_on (\<lambda>t. t @ ''.parquet'') (set tables)" by (auto intro: inj_onI)
  moreover have "gs_outputs g \<noteq> []" using assms by (auto simp: generator_scale_ok_def tables_def)
  ultimately show ?thesis using distinct_tables by (simp only: distinct_map) simp
qed

section \<open>The generator contract\<close>

lemma columns_parse:
  assumes "validate_exact_mapping e v path (map (\<lambda>(t, cs). (t, PList (map PStr cs))) order_columns) = []" "keys_distinct v"
  shows "\<exists>d xs. v = PDict d \<and> parse_items parse_columns d = Inr xs"
proof -
  obtain d where d: "v = PDict d" "list_all (\<lambda>(f, x). dget d f = Some x) (map (\<lambda>(t, cs). (t, PList (map PStr cs))) order_columns)"
    "set (dkeys d) \<subseteq> PStr ` fst ` set (map (\<lambda>(t, cs). (t, PList (map PStr cs))) order_columns)"
    using exact_mapping_valid [OF assms(1) sections_locked(3)] by blast
  have "named d" using assms(2) d(1,3) by (auto simp: named_def dkeys_def list_all_iff)
  have parses: "\<exists>s x. k = PStr s \<and> parse_columns s u = Inr x" if ku: "(k, u) \<in> set d" for k u
  proof -
    have "k \<in> set (dkeys d)" using ku by (force simp: dkeys_def)
    then obtain t cs where t: "k = PStr t" "(t, cs) \<in> set order_columns" using d(3) by force
    then have "dget d t = Some (PList (map PStr cs))" using d(2) by (auto simp: list_all_iff)
    then have "u = PList (map PStr cs)" using ku t(1) \<open>named d\<close> by (simp add: dget_in)
    moreover have "mapE as_str (map PStr cs) = Inr cs" by (induction cs) simp_all
    ultimately show ?thesis using t(1) by (simp add: parse_columns_def)
  qed
  show ?thesis using d(1) by (rule_tac parse_items_total [of d parse_columns, OF parses]) blast+
qed

lemma generator_sections:
  assumes "concat (map (\<lambda>(sec, expected). on_field d sec (\<lambda>v. validate_exact_mapping e v (g @ ''.'' @ sec) expected)) tpch_constants) = []"
    and "list_all (\<lambda>f. \<exists>v. dget d f = Some v) generator_fields"
  shows "list_all (\<lambda>(sec, expected). \<exists>m. dget d sec = Some (PDict m) \<and> list_all (\<lambda>(f, x). dget m f = Some x) expected) tpch_constants"
proof -
  have "\<exists>m. dget d sec = Some (PDict m) \<and> list_all (\<lambda>(f, x). dget m f = Some x) expected"
    if se: "(sec, expected) \<in> set tpch_constants" for sec expected
  proof -
    have "sec \<in> set generator_fields" using se by (auto simp: tpch_constants_def generator_fields_def)
    then obtain v where v: "dget d sec = Some v" using assms(2) by (auto simp: list_all_iff)
    have "on_field d sec (\<lambda>v. validate_exact_mapping e v (g @ ''.'' @ sec) expected) = []" using assms(1) se by auto
    then have "validate_exact_mapping e v (g @ ''.'' @ sec) expected = []" using v by (simp add: on_field_Nil)
    moreover have "list_all (\<lambda>(f, x). locked_constant x) expected" using sections_locked(1) se by (auto simp: list_all_iff)
    ultimately show ?thesis using exact_mapping_valid v by blast
  qed
  then show ?thesis by (auto simp: list_all_iff)
qed

lemma export_parses:
  assumes "export_errors e v path = []" "keys_distinct v"
  shows "\<exists>d m xs. v = PDict d \<and> dget d ''format'' = Some (PStr ''parquet'') \<and> dget d ''compression'' = Some (PStr ''zstd'') \<and>
    dget d ''row_group_size'' = Some (PInt 100000) \<and> dget d ''order_by'' = Some (PDict m) \<and> parse_items parse_columns m = Inr xs"
proof -
  obtain d where d: "v = PDict d" using assms(1) by (cases v) (auto simp: export_errors_def not_mapping_Nil)
  note parts = assms(1) [unfolded d export_errors_def exact_fields_def export_constants_def pyval.case append_is_Nil_conv parts_simps
      list.map prod.case concat.simps append_Nil2]
  obtain v1 v2 v3 v4 where v: "dget d ''format'' = Some v1" "dget d ''compression'' = Some v2" "dget d ''row_group_size'' = Some v3"
    "dget d ''order_by'' = Some v4" using parts by auto
  have c: "exact_value e v1 (PStr ''parquet'') (path @ ''.'' @ ''format'') = []" "exact_value e v2 (PStr ''zstd'') (path @ ''.'' @ ''compression'') = []"
    "exact_value e v3 (PInt 100000) (path @ ''.'' @ ''row_group_size'') = []"
    "validate_exact_mapping e v4 (path @ ''.order_by'') (map (\<lambda>(t, cs). (t, PList (map PStr cs))) order_columns) = []"
    using parts v by blast+
  have "keys_distinct v4" using nested_keys_distinct [of d "''order_by''"] assms(2) v(4) d by (simp add: dget_none_def del: keys_distinct.simps)
  from columns_parse [OF c(4) this] show ?thesis using d v c(1-3) by (auto simp: exact_Nil)
qed

end
