(* ===== verification/RegistryLoad.thy ===== *)
theory RegistryLoad
  imports RegistryGenerator
begin

text \<open>
  Whole datasets and registries: a registry that validates without an error loads, and every scale of
  every dataset resolves to a plan with an identity whose outputs are locked.
\<close>

section \<open>The generator of a dataset\<close>

lemma generator_contract_parses:
  assumes "list_all (\<lambda>(section, expected). \<exists>m. dget d section = Some (PDict m) \<and> list_all (\<lambda>(f, x). dget m f = Some x) expected) tpch_constants"
    and "dget d ''export'' = Some (PDict x)" "dget x ''format'' = Some (PStr f)" "dget x ''compression'' = Some (PStr c)"
    "dget x ''row_group_size'' = Some (PInt n)" "dget x ''order_by'' = Some (PDict m)" "parse_items parse_columns m = Inr cs"
    and "dget d ''scales'' = Some (PDict sd)" "parse_items parse_generator_scale sd = Inr scales"
  shows "\<exists>g. parse_generator d = Inr g \<and> gc_scales g = scales"
proof -
  note sections = assms(1) [unfolded tpch_constants_def list.pred_inject prod.case simp_thms]
  from sections obtain m1 m2 m3 m4 where "dget d ''engine'' = Some (PDict m1)" "dget d ''extension'' = Some (PDict m2)"
    "dget d ''environment'' = Some (PDict m3)" "dget d ''command'' = Some (PDict m4)"
    and fields: "list_all (\<lambda>(f, x). dget m1 f = Some x) (snd (tpch_constants ! 0))" "list_all (\<lambda>(f, x). dget m2 f = Some x) (snd (tpch_constants ! 1))"
    "list_all (\<lambda>(f, x). dget m3 f = Some x) (snd (tpch_constants ! 2))" "list_all (\<lambda>(f, x). dget m4 f = Some x) (snd (tpch_constants ! 3))"
    by (elim conjE exE) (simp add: tpch_constants_def)
  moreover note fields [unfolded tpch_constants_def, simplified]
  ultimately show ?thesis using assms(2-) by (elim conjE) (simp add: parse_generator_def parse_environment_def)
qed

lemma generator_scales_parse:
  assumes "list_all (\<lambda>f. \<exists>v. dget sd f = Some v) scale_names" "set (dkeys sd) \<subseteq> PStr ` set scale_names"
    and "\<And>kv. kv \<in> set sd \<Longrightarrow> generator_scale_errors e schemas path kv = []"
  obtains ys where "parse_items parse_generator_scale sd = Inr ys"
    "\<And>s. s \<in> set scale_names \<Longrightarrow> \<exists>x. map_of ys s = Some x \<and> generator_scale_ok schemas s x"
proof -
  have entry: "\<exists>s y. k = PStr s \<and> parse_generator_scale s u = Inr y \<and> generator_scale_ok schemas s y" if ku: "(k, u) \<in> set sd" for k u
  proof -
    have "k \<in> set (dkeys sd)" using ku by (force simp: dkeys_def)
    then have "one_of scale_names k" using assms(2) by (auto simp: one_of_def)
    then show ?thesis using assms(3) [OF ku] by (rule generator_scale_parses [rotated])
  qed
  have parses: "\<exists>s y. k = PStr s \<and> parse_generator_scale s u = Inr y" if "(k, u) \<in> set sd" for k u using entry [OF that] by blast
  obtain ys where ys: "parse_items parse_generator_scale sd = Inr ys"
    "\<And>s x. (s, x) \<in> set ys \<Longrightarrow> \<exists>v. (PStr s, v) \<in> set sd \<and> parse_generator_scale s v = Inr x"
    "\<And>k. map_of ys k = Option.bind (dget sd k) (\<lambda>v. case parse_generator_scale k v of Inr x \<Rightarrow> Some x | Inl _ \<Rightarrow> None)"
    by (rule parse_items_total [of sd parse_generator_scale, OF parses]) blast+
  have "\<exists>x. map_of ys s = Some x \<and> generator_scale_ok schemas s x" if s: "s \<in> set scale_names" for s
  proof -
    obtain u where u: "dget sd s = Some u" using assms(1) s by (auto simp: list_all_iff)
    from entry [OF dget_member [OF u]] obtain y where "parse_generator_scale s u = Inr y" "generator_scale_ok schemas s y" by auto
    then show ?thesis using ys(3) [of s] u by simp
  qed
  then show thesis using that ys(1) by blast
qed

lemma tpch_parses:
  assumes "validate_tpch_dataset e d path = []" "keys_distinct (PDict d)" "dget d ''generator'' \<noteq> None"
  obtains g where "parse_kind ''tpch'' d = Inr ([], map (\<lambda>(k, s). (k, GenScale s)) (gc_scales g), Some g)"
    "\<And>s. s \<in> set scale_names \<Longrightarrow> \<exists>x. map_of (gc_scales g) s = Some x \<and> generator_scale_ok (dict_or_empty (dget_none d ''schemas'')) s x"
proof -
  let ?schemas = "dict_or_empty (dget_none d ''schemas'')"
  obtain v where v: "dget d ''generator'' = Some v" using assms(3) by blast
  then have dn: "dget_none d ''generator'' = v" by (simp add: dget_none_def)
  note top = assms(1) [unfolded validate_tpch_dataset_def Let_def dn append_is_Nil_conv, THEN conjunct2, THEN conjunct2, THEN conjunct2]
  obtain gd where gd: "v = PDict gd" using top by (cases v) (simp_all add: not_mapping_Nil)
  note parts = top [unfolded gd pyval.case append_is_Nil_conv]
  have present: "list_all (\<lambda>f. \<exists>v. dget gd f = Some v) generator_fields" using parts by (simp only: missing_Nil)
  then obtain v1 v2 where v12: "dget gd ''export'' = Some v1" "dget gd ''scales'' = Some v2" by (auto simp: generator_fields_def)
  have kd: "keys_distinct (PDict gd)" using nested_keys_distinct [OF assms(2), of "''generator''"] by (simp only: dn gd)
  have sections: "list_all (\<lambda>(section, expected). \<exists>m. dget gd section = Some (PDict m) \<and> list_all (\<lambda>(f, x). dget m f = Some x) expected) tpch_constants"
    using generator_sections [OF parts [THEN conjunct2, THEN conjunct2, THEN conjunct1] present] .
  have "export_errors e v1 (path @ ''.generator'' @ ''.export'') = []"
    using parts [THEN conjunct2, THEN conjunct2, THEN conjunct2, THEN conjunct2, THEN conjunct1] v12(1) by (simp add: on_field_Nil)
  moreover have "keys_distinct v1" using nested_keys_distinct [OF kd, of "''export''"] v12(1) by (simp add: dget_none_def)
  ultimately obtain x m cs where x: "v1 = PDict x" "dget x ''format'' = Some (PStr ''parquet'')" "dget x ''compression'' = Some (PStr ''zstd'')"
    "dget x ''row_group_size'' = Some (PInt 100000)" "dget x ''order_by'' = Some (PDict m)" "parse_items parse_columns m = Inr cs"
    using export_parses by blast
  note scales = parts [THEN conjunct2, THEN conjunct2, THEN conjunct2, THEN conjunct2, THEN conjunct2, unfolded on_field_Nil, rule_format, OF v12(2)]
  obtain sd where sd: "v2 = PDict sd" using scales by (cases v2) (simp_all add: not_mapping_Nil)
  note inner = scales [unfolded sd pyval.case append_is_Nil_conv missing_Nil unknown_Nil]
  obtain ys where ys: "parse_items parse_generator_scale sd = Inr ys"
    "\<And>s. s \<in> set scale_names \<Longrightarrow> \<exists>x. map_of ys s = Some x \<and> generator_scale_ok ?schemas s x"
    by (rule generator_scales_parse [of sd e ?schemas path]) (use inner in auto)
  obtain g where g: "parse_generator gd = Inr g" "gc_scales g = ys"
    using generator_contract_parses [OF sections v12(1) [unfolded x(1)] x(2-6) v12(2) [unfolded sd] ys(1)] by blast
  show thesis
  proof (rule that [of g])
    show "parse_kind ''tpch'' d = Inr ([], map (\<lambda>(k, s). (k, GenScale s)) (gc_scales g), Some g)" using v gd g(1) by (simp add: parse_kind_def)
  qed (simp only: g(2) ys(2))
qed

section \<open>Plans\<close>

definition output_locked :: "(string \<times> schema_contract) list \<Rightarrow> plan_output \<Rightarrow> bool" where
  \<comment> \<open>a safe name, a positive size, a digest and a schema of the dataset with its fingerprint\<close>
  "output_locked schemas x \<longleftrightarrow>
     safe_path (po_object_name x) \<and> 0 < po_size_bytes x \<and> sha256_re (po_sha256 x) \<and>
     (case map_of schemas (po_schema_id x) of None \<Rightarrow> False | Some c \<Rightarrow> sha256_re (sc_fingerprint c))"

definition plan_locked :: "scale_plan \<Rightarrow> bool" where
  "plan_locked plan \<longleftrightarrow>
     selected_outputs plan \<noteq> [] \<and> distinct (map po_object_name (selected_outputs plan)) \<and>
     list_all (output_locked (ds_schemas (sp_dataset plan))) (selected_outputs plan)"

definition spec_ok :: "pydict \<Rightarrow> (string \<times> http_artifact) list \<Rightarrow> generator_contract option \<Rightarrow> string \<Rightarrow> scale_spec \<Rightarrow> bool" where
  "spec_ok schemas arts gen s spec \<longleftrightarrow>
     (case spec of HttpScale ids \<Rightarrow> scale_ok schemas arts spec | GenScale g \<Rightarrow> gen \<noteq> None \<and> generator_scale_ok schemas s g)"

lemma mapE_total: "(\<And>x. x \<in> set xs \<Longrightarrow> \<exists>y. f x = Inr y) \<Longrightarrow> \<exists>ys. mapE f xs = Inr ys"
  by (induction xs) fastforce+

lemma plan_has_id:
  assumes "plan_locked plan" "sp_generator_scale plan = None \<or> ds_generator (sp_dataset plan) \<noteq> None"
  shows "\<exists>i. plan_id fr plan = Inr i"
proof -
  have item: "\<exists>c. item_of (ds_schemas (sp_dataset plan)) (po_schema_id x) = Inr c" if "x \<in> set (selected_outputs plan)" for x
    using assms(1) that by (auto simp: plan_locked_def output_locked_def list_all_iff item_of_def split: option.splits)
  have "\<exists>y. source_document plan = Inr y" using assms(2) by (auto simp: source_document_def split: option.splits)
  moreover have "\<exists>y. mapE (item_of (ds_schemas (sp_dataset plan))) (remdups_first (map po_schema_id (selected_outputs plan))) = Inr y"
    using item by (intro mapE_total) auto
  moreover have "\<exists>y. mapE (\<lambda>x. bindE (item_of (ds_schemas (sp_dataset plan)) (po_schema_id x)) (\<lambda>c. Inr (output_document x c))) (selected_outputs plan) = Inr y"
    using item by (intro mapE_total) fastforce
  ultimately show ?thesis by (auto simp: plan_id_def selected_plan_document_def Let_def)
qed

lemma spec_resolves:
  assumes "map_of (ds_scales ds) s = Some spec" "spec_ok schemas (ds_artifacts ds) (ds_generator ds) s spec"
    and "\<And>k. dget schemas k \<noteq> None \<Longrightarrow> \<exists>c. map_of (ds_schemas ds) k = Some c \<and> sha256_re (sc_fingerprint c)"
  shows "\<exists>plan i. resolve_scale ds s = Inr plan \<and> plan_locked plan \<and> plan_id fr plan = Inr i"
proof (cases spec)
  case (HttpScale ids)
  then obtain as where as: "mapE (item_of (ds_artifacts ds)) ids = Inr as" "concat (map ha_outputs as) \<noteq> []"
    "list_all (output_ok schemas) (concat (map ha_outputs as))" "distinct (map lo_object_name (concat (map ha_outputs as)))"
    using assms(2) by (auto simp: spec_ok_def scale_ok_def Let_def)
  let ?plan = "\<lparr>sp_dataset = ds, sp_scale = s, sp_urls = map ha_url as, sp_sf = None, sp_artifacts = as, sp_generator_scale = None\<rparr>"
  have "resolve_scale ds s = Inr ?plan" using assms(1) HttpScale as(1) by (simp add: resolve_scale_def item_of_def)
  moreover have "output_locked (ds_schemas ds) (Landing x)" if "output_ok schemas x" for x
    using that assms(3) [of "lo_schema_id x"] by (auto simp: output_ok_def output_locked_def)
  then have locked: "plan_locked ?plan"
    using as(2-4) by (auto simp: plan_locked_def selected_outputs_def list_all_iff o_def simp del: set_concat)
  moreover have "\<exists>i. plan_id fr ?plan = Inr i" using plan_has_id [OF locked] by simp
  ultimately show ?thesis by blast
next
  case (GenScale g)
  then have g: "ds_generator ds \<noteq> None" "generator_scale_ok schemas s g" using assms(2) by (auto simp: spec_ok_def)
  let ?plan = "\<lparr>sp_dataset = ds, sp_scale = s, sp_urls = [], sp_sf = Some (gs_scale_factor g), sp_artifacts = [], sp_generator_scale = Some g\<rparr>"
  have "resolve_scale ds s = Inr ?plan" using assms(1) GenScale by (simp add: resolve_scale_def item_of_def)
  moreover have "output_locked (ds_schemas ds) (Generated x)" if "generated_ok schemas x" for x
    using that assms(3) [of "go_schema_id x"] by (auto simp: generated_ok_def output_locked_def)
  then have locked: "plan_locked ?plan"
    using g(2) generated_names_distinct [OF g(2)]
    by (auto simp: plan_locked_def selected_outputs_def generator_scale_ok_def list_all_iff o_def)
  moreover have "\<exists>i. plan_id fr ?plan = Inr i" using plan_has_id [OF locked] g(1) by simp
  ultimately show ?thesis by blast
qed

section \<open>Datasets\<close>

lemma http_fetch_valid:
  assumes "fetch_errors e v path = []"
  shows "\<exists>f b. v = PDict f \<and> dget f ''kind'' = Some (PStr ''http'') \<and> dget f ''unzip'' = Some (PBool b)"
proof -
  obtain f where f: "v = PDict f" using assms by (cases v) (auto simp: fetch_errors_def not_mapping_Nil)
  note parts = assms [unfolded f fetch_errors_def pyval.case append_is_Nil_conv parts_simps]
  obtain v1 v2 where v: "dget f ''kind'' = Some v1" "dget f ''unzip'' = Some v2" using parts by auto
  have "exact_value e v1 (PStr ''http'') (path @ ''.kind'') = []" "is_bool v2" using parts v by (auto split: if_splits)
  then show ?thesis using f v by (auto simp: exact_Nil is_bool_iff)
qed

lemma tpch_fetch_valid:
  assumes "tpch_fetch_errors e v path = []"
  shows "\<exists>f. v = PDict f \<and> dget f ''kind'' = Some (PStr ''tpch'') \<and> dget f ''unzip'' = None"
proof -
  obtain f where f: "v = PDict f" using assms by (cases v) (auto simp: tpch_fetch_errors_def not_mapping_Nil)
  note parts = assms [unfolded f tpch_fetch_errors_def pyval.case append_is_Nil_conv parts_simps]
  obtain v1 where v: "dget f ''kind'' = Some v1" using parts by auto
  have "exact_value e v1 (PStr ''tpch'') (path @ ''.kind'') = []" using parts v by auto
  moreover have "dget f ''unzip'' = None" using parts by (auto simp: unknown_Nil dget_none_iff)
  ultimately show ?thesis using f v by (auto simp: exact_Nil)
qed

definition kind_parsed :: "pydict \<Rightarrow> pydict \<Rightarrow> string \<Rightarrow> bool \<Rightarrow> (string \<times> http_artifact) list \<Rightarrow> (string \<times> scale_spec) list \<Rightarrow> generator_contract option \<Rightarrow> bool" where
  \<comment> \<open>the part of a dataset that depends on how it is fetched\<close>
  "kind_parsed d fetch kind unzip arts scales gen \<longleftrightarrow>
     dget d ''fetch'' = Some (PDict fetch) \<and> dget fetch ''kind'' = Some (PStr kind) \<and> dget_or fetch ''unzip'' (PBool False) = PBool unzip \<and>
     parse_kind kind d = Inr (arts, scales, gen) \<and>
     (\<forall>s\<in>set scale_names. \<exists>spec. map_of scales s = Some spec \<and> spec_ok (dict_or_empty (dget_none d ''schemas'')) arts gen s spec)"

lemma http_kind_parsed:
  assumes "validate_http_dataset e d path = Inr []" "keys_distinct (PDict d)" "dget d ''artifacts'' \<noteq> None" "dget d ''scales'' \<noteq> None"
    and "dget d ''fetch'' \<noteq> None"
  shows "\<exists>fetch kind unzip arts scales gen. kind_parsed d fetch kind unzip arts scales gen"
proof -
  have "fetch_errors e (dget_none d ''fetch'') (path @ ''.fetch'') = []"
    using assms(1) unfolding validate_http_dataset_def Let_def bindE_eq_Inr sum.inject append_is_Nil_conv by (elim exE conjE)
  then obtain f b where f: "dget_none d ''fetch'' = PDict f" "dget f ''kind'' = Some (PStr ''http'')" "dget f ''unzip'' = Some (PBool b)"
    using http_fetch_valid by blast
  obtain arts scales where k: "parse_kind ''http'' d = Inr (arts, scales, None)"
    "\<And>s. s \<in> set scale_names \<Longrightarrow> \<exists>spec. map_of scales s = Some spec \<and> scale_ok (dict_or_empty (dget_none d ''schemas'')) arts spec"
    by (rule http_parses [OF assms(1-4)]) blast
  have "scale_ok sch arts spec \<Longrightarrow> spec_ok sch arts None s spec" for sch s spec
    by (auto simp: spec_ok_def scale_ok_def split: scale_spec.splits)
  then have "kind_parsed d f ''http'' b arts scales None"
    using f k assms(5) by (fastforce simp: kind_parsed_def dget_or_def dget_none_def split: option.splits)
  then show ?thesis by blast
qed

lemma tpch_kind_parsed:
  assumes "validate_tpch_dataset e d path = []" "keys_distinct (PDict d)" "dget d ''generator'' \<noteq> None" "dget d ''fetch'' \<noteq> None"
  shows "\<exists>fetch kind unzip arts scales gen. kind_parsed d fetch kind unzip arts scales gen"
proof -
  have "tpch_fetch_errors e (dget_none d ''fetch'') (path @ ''.fetch'') = []"
    using assms(1) unfolding validate_tpch_dataset_def Let_def append_is_Nil_conv by (elim conjE)
  then obtain f where f: "dget_none d ''fetch'' = PDict f" "dget f ''kind'' = Some (PStr ''tpch'')" "dget f ''unzip'' = None"
    using tpch_fetch_valid by blast
  obtain g where g: "parse_kind ''tpch'' d = Inr ([], map (\<lambda>(k, s). (k, GenScale s)) (gc_scales g), Some g)"
    "\<And>s. s \<in> set scale_names \<Longrightarrow> \<exists>x. map_of (gc_scales g) s = Some x \<and> generator_scale_ok (dict_or_empty (dget_none d ''schemas'')) s x"
    by (rule tpch_parses [OF assms(1-3)]) blast
  have "map_of (map (\<lambda>(k, s). (k, GenScale s)) xs) = (\<lambda>k. map_option GenScale (map_of xs k))" for xs
    by (induction xs) auto
  note lookup = this
  have "\<exists>spec. map_of (map (\<lambda>(k, s). (k, GenScale s)) (gc_scales g)) s = Some spec \<and>
      spec_ok (dict_or_empty (dget_none d ''schemas'')) [] (Some g) s spec" if "s \<in> set scale_names" for s
    using g(2) [OF that] by (auto simp: lookup spec_ok_def)
  moreover have "dget d ''fetch'' = Some (PDict f)" using f(1) assms(4) by (auto simp: dget_none_def)
  ultimately have "kind_parsed d f ''tpch'' False [] (map (\<lambda>(k, s). (k, GenScale s)) (gc_scales g)) (Some g)"
    using f(2,3) g(1) unfolding kind_parsed_def by (simp add: dget_or_def)
  then show ?thesis by blast
qed

lemma other_kind_refused:
  assumes "on_field d ''fetch'' (\<lambda>f. case f of
                PDict x \<Rightarrow>
                  missing_fields x (path @ ''.fetch'') [''kind''] @ unknown_fields e x (path @ ''.fetch'') [''kind'', ''unzip''] @
                  on_field x ''kind'' (\<lambda>_. [path @ ''.fetch.kind: must be '' @ apos ''http'' @ '' or '' @ apos ''tpch''])
              | _ \<Rightarrow> not_mapping (path @ ''.fetch'')) = []"
  shows "dget d ''fetch'' = None"
proof (rule ccontr)
  assume "dget d ''fetch'' \<noteq> None"
  then obtain v where v: "dget d ''fetch'' = Some v" by blast
  show False using assms [unfolded on_field_Nil, rule_format, OF v] by (cases v) (auto simp: not_mapping_Nil missing_Nil on_field_def)
qed

lemma kind_valid:
  assumes "kind_errors e urls d path = Inr ([], urls')" "keys_distinct (PDict d)" "dget d ''fetch'' \<noteq> None"
    and "missing_fields d path (kind_fields (dataset_kind d)) = []"
  shows "\<exists>fetch kind unzip arts scales gen. kind_parsed d fetch kind unzip arts scales gen"
proof -
  consider (http) "dataset_kind d = PStr ''http''" | (tpch) "dataset_kind d = PStr ''tpch''"
    | (other) "dataset_kind d \<noteq> PStr ''http''" "dataset_kind d \<noteq> PStr ''tpch''" by blast
  then show ?thesis
  proof cases
    case http
    then have "validate_http_dataset e d path = Inr []"
      using assms(1) by (cases "url_errors e path urls (dict_or_empty (dget_none d ''artifacts''))") (auto simp: kind_errors_def Let_def bindE_eq_Inr)
    moreover have "dget d ''artifacts'' \<noteq> None" "dget d ''scales'' \<noteq> None"
      using assms(4) by (auto simp: http kind_fields_def missing_Nil)
    ultimately show ?thesis using assms(2,3) by (intro http_kind_parsed)
  next
    case tpch
    then have "validate_tpch_dataset e d path = []" using assms(1) by (simp add: kind_errors_def Let_def)
    moreover have "dget d ''generator'' \<noteq> None" using assms(4) by (auto simp: tpch kind_fields_def missing_Nil)
    ultimately show ?thesis using assms(2,3) by (intro tpch_kind_parsed)
  next
    case other
    note refused = assms(1) [unfolded kind_errors_def Let_def if_not_P [OF other(1)] if_not_P [OF other(2)] sum.inject prod.inject]
    show ?thesis using other_kind_refused [OF refused [THEN conjunct1]] assms(3) by blast
  qed
qed

definition dataset_locked :: "(rat option \<Rightarrow> string) \<Rightarrow> dataset \<Rightarrow> bool" where
  \<comment> \<open>every scale resolves to a plan that has an identity and locks all its outputs\<close>
  "dataset_locked fr ds \<longleftrightarrow>
     safe_path (ds_landing_prefix ds) \<and>
     list_all (\<lambda>s. case resolve_scale ds s of Inl _ \<Rightarrow> False | Inr plan \<Rightarrow> plan_locked plan \<and> \<not> isl (plan_id fr plan)) scale_names"

lemma dataset_parses:
  assumes "dataset_errors e d path = Inr []" "missing_fields d path shared_fields = []" "kind_errors e urls d path = Inr ([], urls')"
    and "keys_distinct (PDict d)"
  shows "\<exists>ds. parse_dataset name (PDict d) = Inr ds \<and> ds_name ds = name \<and> dataset_locked fr ds"
proof -
  note parts = assms(1) [unfolded dataset_errors_def parts_simps list.map concat.simps append_is_Nil_conv append_Nil2]
  obtain v1 v2 v3 v4 v5 v6 v7 where v: "dget d ''description'' = Some v1" "dget d ''format'' = Some v2" "dget d ''license'' = Some v3"
    "dget d ''landing_prefix'' = Some v4" "dget d ''fetch'' = Some v5" "dget d ''provenance'' = Some v6" "dget d ''schemas'' = Some v7"
    using assms(2) by (auto simp: missing_Nil shared_fields_def)
  have c: "nonempty_string v1 (path @ ''.'' @ ''description'') = []" "nonempty_string v2 (path @ ''.'' @ ''format'') = []"
    "nonempty_string v3 (path @ ''.'' @ ''license'') = []" "validate_relative_path v4 (path @ ''.landing_prefix'') = []"
    "validate_provenance e v6 (path @ ''.provenance'') = Inr []" "validate_schemas e v7 (path @ ''.schemas'') = Inr []"
    using parts v by blast+
  obtain s1 s2 s3 s4 where s: "v1 = PStr s1" "v2 = PStr s2" "v3 = PStr s3" "v4 = PStr s4" "safe_path s4"
    using c(1-4) by (auto simp: nonempty_string_Nil path_Nil)
  obtain pd p where pd: "v6 = PDict pd" "parse_provenance pd = Inr p" by (rule provenance_parses [OF c(5)])
  obtain sd cs where sd: "v7 = PDict sd" "parse_schemas sd = Inr cs"
    "\<And>k c. (k, c) \<in> set cs \<Longrightarrow> identifier_re k \<and> sha256_re (sc_fingerprint c)" "\<And>k. dget sd k \<noteq> None \<Longrightarrow> map_of cs k \<noteq> None"
    by (rule schemas_parse [OF c(6)]) blast
  have missing: "missing_fields d path (kind_fields (dataset_kind d)) = []" using parts by (simp only: missing_Nil)
  obtain fetch kind unzip arts scales gen where k: "kind_parsed d fetch kind unzip arts scales gen"
    using kind_valid [OF assms(3,4) _ missing] v(5) by auto
  note k = k [unfolded kind_parsed_def]
  define ds where "ds = \<lparr>ds_name = name, ds_description = s1, ds_format = s2, ds_license = s3, ds_landing_prefix = s4, ds_kind = kind,
    ds_unzip = unzip, ds_scales = scales, ds_provenance = Some p, ds_schemas = cs, ds_artifacts = arts, ds_generator = gen\<rparr>"
  have "parse_dataset name (PDict d) = Inr ds" using k v s pd sd(1,2) by (simp add: parse_dataset_def ds_def)
  moreover have schemas: "\<exists>c. map_of (ds_schemas ds) k = Some c \<and> sha256_re (sc_fingerprint c)" if "dget sd k \<noteq> None" for k
    using sd(3) sd(4) [OF that] map_of_SomeD by (fastforce simp: ds_def)
  have "\<exists>plan i. resolve_scale ds s = Inr plan \<and> plan_locked plan \<and> plan_id fr plan = Inr i" if sn: "s \<in> set scale_names" for s
  proof -
    have "dict_or_empty (dget_none d ''schemas'') = sd" using v(7) sd(1) by (simp add: dget_none_def dict_or_empty_def)
    then obtain spec where "map_of (ds_scales ds) s = Some spec" "spec_ok sd (ds_artifacts ds) (ds_generator ds) s spec"
      using k sn by (auto simp: ds_def)
    then show ?thesis using spec_resolves schemas by blast
  qed
  then have "dataset_locked fr ds" using s(5) by (fastforce simp: dataset_locked_def list_all_iff ds_def)
  ultimately show ?thesis by (auto simp: ds_def)
qed

section \<open>Registries\<close>

lemma datasets_parse:
  assumes "datasets_errors e urls ds = Inr []" "list_all (\<lambda>(k, v). keys_distinct v) ds"
  shows "\<exists>registry. parse_v2_datasets ds = Inr registry \<and> length registry = length ds \<and>
    list_all (\<lambda>(name, x). identifier_re name \<and> ds_name x = name \<and> dataset_locked fr x) registry"
  using assms
proof (induction ds arbitrary: urls)
  case (Cons p ds)
  obtain k v where p: "p = (k, v)" by (cases p)
  obtain d where d: "v = PDict d" using Cons.prems(1) p by (cases v) (auto simp: Let_def bindE_eq_Inr not_mapping_Nil)
  define path where "path = ''datasets.'' @ text_of e k"
  obtain shared errors urls' more where c: "dataset_errors e d path = Inr shared" "kind_errors e urls d path = Inr (errors, urls')"
    "datasets_errors e urls' ds = Inr more" "identifier_errors k path = []" "missing_fields d path shared_fields = []"
    "shared = []" "errors = []" "more = []"
    using Cons.prems(1) unfolding p d path_def datasets_errors.simps Let_def pyval.case bindE_eq_Inr sum.inject append_is_Nil_conv
    by (auto simp: bindE_eq_Inr split: prod.splits)
  obtain name where name: "k = PStr name" "identifier_re name" using c(4) by (auto simp: identifier_Nil)
  have "keys_distinct (PDict d)" using Cons.prems(2) p d by simp
  then obtain x where x: "parse_dataset name (PDict d) = Inr x" "ds_name x = name" "dataset_locked fr x"
    using dataset_parses [OF c(1) [unfolded c(6)] c(5) c(2) [unfolded c(7)]] by blast
  obtain registry where r: "parse_v2_datasets ds = Inr registry" "length registry = length ds"
    "list_all (\<lambda>(name, x). identifier_re name \<and> ds_name x = name \<and> dataset_locked fr x) registry"
    using Cons.IH [OF c(3) [unfolded c(8)]] Cons.prems(2) by auto
  have "parse_v2_datasets (p # ds) = Inr ((name, x) # registry)"
    using x(1) r(1) p d name(1) by (simp add: parse_v2_datasets_def parse_items_def)
  then show ?case using x r(2,3) name(2) by simp
qed (simp add: parse_v2_datasets_def parse_items_def)

lemma registry_loads:
  assumes "validate_registry_v2 e doc = Inr []" "keys_distinct doc"
  shows "\<exists>registry. load_registry_v2 e doc = Inr registry \<and> registry \<noteq> [] \<and>
    list_all (\<lambda>(name, ds). identifier_re name \<and> ds_name ds = name \<and> dataset_locked fr ds) registry"
proof -
  obtain m where m: "doc = PDict m" using assms(1) by (cases doc) (auto simp: validate_registry_v2_def not_mapping_Nil)
  note parts = assms(1) [unfolded m validate_registry_v2_def pyval.case bindE_eq_Inr sum.inject append_is_Nil_conv]
  obtain v where v: "dget m ''datasets'' = Some v" using parts by (auto simp: missing_Nil)
  have "on_field m ''datasets'' (\<lambda>v. case v of
                 PDict [] \<Rightarrow> [''registry.datasets: must be a non-empty mapping'']
               | PDict _ \<Rightarrow> []
               | _ \<Rightarrow> [''registry.datasets: must be a mapping'']) = []" using parts by (elim exE conjE)
  note shape = this [unfolded on_field_Nil, rule_format, OF v]
  obtain entries where "v = PDict entries" using shape by (cases v) simp_all
  then obtain p ds where ds: "v = PDict (p # ds)" using shape by (cases entries) simp_all
  have errors: "datasets_errors e [] (p # ds) = Inr []" using parts v ds by (auto simp: dget_none_def)
  have "keys_distinct (PDict (p # ds))" using nested_keys_distinct [of m "''datasets''"] assms(2) v ds m by (simp add: dget_none_def del: keys_distinct.simps)
  then have "list_all (\<lambda>(k, v). keys_distinct v) (p # ds)" by simp
  from datasets_parse [OF errors this] obtain registry where r: "parse_v2_datasets (p # ds) = Inr registry" "length registry = length (p # ds)"
    "list_all (\<lambda>(name, x). identifier_re name \<and> ds_name x = name \<and> dataset_locked fr x) registry" by blast
  have "load_registry_v2 e doc = Inr registry" using assms(1) m v ds r(1) by (simp add: load_registry_v2_def)
  moreover have "registry \<noteq> []" using r(2) by auto
  ultimately show ?thesis using r(3) by blast
qed

end
