(* ===== verification/RegistryProps.thy ===== *)
theory RegistryProps
  imports RegistryLoad
begin

text \<open>
  The properties of the dataset registry: a registry that validates loads and resolves, and no source
  URL is locked twice.
\<close>

section \<open>Source URLs\<close>

definition artifact_urls :: "schema_env \<Rightarrow> pydict \<Rightarrow> url_identity list" where
  \<comment> \<open>the identities of the URLs of a mapping of artifacts\<close>
  "artifact_urls e artifacts =
     List.map_filter (\<lambda>(_, v). case v of PDict d \<Rightarrow> authoritative_url_identity e (dget_none d ''url'') | _ \<Rightarrow> None) artifacts"

definition dataset_urls :: "schema_env \<Rightarrow> pyval \<Rightarrow> url_identity list" where
  "dataset_urls e v =
     (case v of
        PDict d \<Rightarrow> if dataset_kind d = PStr ''http'' then artifact_urls e (dict_or_empty (dget_none d ''artifacts'')) else []
      | _ \<Rightarrow> [])"

definition registry_urls :: "schema_env \<Rightarrow> pyval \<Rightarrow> url_identity list" where
  "registry_urls e doc =
     (case doc of
        PDict m \<Rightarrow> concat (map (\<lambda>(_, v). dataset_urls e v) (dict_or_empty (dget_none m ''datasets'')))
      | _ \<Rightarrow> [])"

lemma url_errors_none:
  assumes "url_errors e path urls artifacts = ([], urls')"
  shows "distinct (artifact_urls e artifacts) \<and> set (artifact_urls e artifacts) \<inter> fst ` set urls = {} \<and>
    fst ` set urls' = set (artifact_urls e artifacts) \<union> fst ` set urls"
  using assms
proof (induction artifacts arbitrary: urls)
  case Nil
  then show ?case by (simp add: artifact_urls_def map_filter_simps)
next
  case (Cons p artifacts)
  obtain k v where p: "p = (k, v)" by (cases p)
  define u where "u = (case v of PDict d \<Rightarrow> authoritative_url_identity e (dget_none d ''url'') | _ \<Rightarrow> None)"
  have ids: "artifact_urls e (p # artifacts) = (case u of None \<Rightarrow> artifact_urls e artifacts | Some x \<Rightarrow> x # artifact_urls e artifacts)"
    unfolding artifact_urls_def p u_def by (simp add: map_filter_simps)
  show ?case
  proof (cases u)
    case None
    then have "url_errors e path urls artifacts = ([], urls')" using Cons.prems p u_def by (cases v) simp_all
    then show ?thesis using Cons.IH ids None by simp
  next
    case (Some x)
    then obtain d where d: "v = PDict d" "authoritative_url_identity e (dget_none d ''url'') = Some x"
      using u_def by (cases v) simp_all
    have "map_of urls x = None" using Cons.prems p d by (auto simp: Let_def split: option.splits prod.splits)
    moreover from this have "url_errors e path ((x, path @ ''.artifacts.'' @ text_of e k @ ''.url'') # urls) artifacts = ([], urls')"
      using Cons.prems p d by (simp add: Let_def)
    ultimately show ?thesis using Cons.IH [of "(x, path @ ''.artifacts.'' @ text_of e k @ ''.url'') # urls"] ids Some
      by (auto simp: map_of_eq_None_iff)
  qed
qed

lemma datasets_urls_distinct:
  assumes "datasets_errors e urls ds = Inr []"
  shows "distinct (concat (map (\<lambda>(_, v). dataset_urls e v) ds)) \<and> set (concat (map (\<lambda>(_, v). dataset_urls e v) ds)) \<inter> fst ` set urls = {}"
  using assms
proof (induction ds arbitrary: urls)
  case (Cons p ds)
  obtain k v where p: "p = (k, v)" by (cases p)
  obtain d where d: "v = PDict d" using Cons.prems(1) p by (cases v) (auto simp: Let_def bindE_eq_Inr not_mapping_Nil)
  obtain urls' where c: "kind_errors e urls d (''datasets.'' @ text_of e k) = Inr ([], urls')" "datasets_errors e urls' ds = Inr []"
    using Cons.prems(1) unfolding p d datasets_errors.simps Let_def pyval.case bindE_eq_Inr sum.inject append_is_Nil_conv
    by (auto simp: bindE_eq_Inr split: prod.splits)
  have step: "distinct (dataset_urls e v) \<and> set (dataset_urls e v) \<inter> fst ` set urls = {} \<and>
      fst ` set urls' = set (dataset_urls e v) \<union> fst ` set urls"
  proof (cases "dataset_kind d = PStr ''http''")
    case True
    obtain errors urls2 where u: "url_errors e (''datasets.'' @ text_of e k) urls (dict_or_empty (dget_none d ''artifacts'')) = (errors, urls2)"
      by fastforce
    then have "errors = [] \<and> urls2 = urls'" using c(1) True by (auto simp: kind_errors_def Let_def bindE_eq_Inr)
    then show ?thesis using url_errors_none u True d by (auto simp: dataset_urls_def)
  next
    case False
    then show ?thesis using c(1) d by (auto simp: kind_errors_def dataset_urls_def Let_def split: if_splits)
  qed
  then show ?case using Cons.IH [OF c(2)] p by auto
qed simp

section \<open>A small registry\<close>

definition example_env :: schema_env where
  "example_env = \<lparr>sx_str = (\<lambda>_. []), sx_repr = (\<lambda>_. []),
     sx_urlsplit = (\<lambda>_. Some \<lparr>up_scheme = ''https'', up_netloc = ''a.org'', up_path = ''/d/x.txt'', up_query = [], up_fragment = [],
       up_username = None, up_password = None, up_hostname = Some ''a.org'', up_port = Some None\<rparr>),
     sx_unquote = id, sx_ip = (\<lambda>_. None), sx_ipv4_candidates = (\<lambda>_. []), sx_ipv6_candidates = (\<lambda>_. []), sx_endpoints = (\<lambda>_. []),
     sx_local = (\<lambda>_. []), sx_date = Some, sx_datetime = (\<lambda>_. None), sx_float_repr = (\<lambda>_. []), sx_fingerprint_other = (\<lambda>_. Inl value_error)\<rparr>"

definition example_url :: pyval where "example_url = PStr ''https://a.org/d/x.txt''"
definition example_digest :: pyval where "example_digest = PStr (sha256 [])"

definition example_provenance :: pyval where
  "example_provenance = PDict (sdict
     [(''publisher'', PStr ''p''), (''homepage'', example_url), (''license_name'', PStr ''l''), (''license_url'', example_url),
      (''attribution'', PStr ''a''), (''source_stability'', PStr ''mutable''), (''update_policy'', PStr ''reviewed-lock-update'')])"

definition example_contract :: pydict where
  "example_contract = sdict
     [(''format'', PStr ''text''), (''mode'', PStr ''exact''), (''fields'', PList []), (''options'', PDict (sdict [(''encoding'', PStr ''utf-8'')]))]"

definition example_schema :: pydict where
  "example_schema = example_contract @ sdict [(''fingerprint'', PStr (schema_fingerprint (sx_float_repr example_env) example_contract))]"

definition example_raw :: pyval where
  "example_raw = PDict (sdict [(''name'', PStr ''x.txt''), (''size_bytes'', PInt 3), (''sha256'', example_digest)])"

definition example_output :: pyval where
  "example_output = PDict (sdict
     [(''object_name'', PStr ''x.txt''), (''size_bytes'', PInt 3), (''sha256'', example_digest), (''schema'', PStr ''s''), (''raw_identity'', PBool True)])"

definition example_version :: pyval where
  "example_version = PDict (sdict [(''kind'', PStr ''revision''), (''value'', PStr ''1'')])"

definition example_schemas :: pydict where "example_schemas = sdict [(''s'', PDict example_schema)]"

definition example_artifact :: pydict where
  "example_artifact = sdict
     [(''url'', example_url), (''version'', example_version), (''stability'', PStr ''mutable''),
      (''evidence'', PDict []), (''raw'', example_raw), (''outputs'', PList [example_output])]"

definition example_artifacts :: pydict where "example_artifacts = sdict [(''f'', PDict example_artifact)]"

definition example_fetch :: pyval where "example_fetch = PDict (sdict [(''kind'', PStr ''http''), (''unzip'', PBool False)])"

definition example_scale :: pyval where "example_scale = PDict (sdict [(''artifacts'', PList [PStr ''f''])])"

definition example_scales :: pydict where
  "example_scales = sdict [(''tiny'', example_scale), (''small'', example_scale), (''medium'', example_scale)]"

definition example_dataset :: pydict where
  "example_dataset = sdict
     [(''description'', PStr ''d''), (''format'', PStr ''text''), (''license'', PStr ''l''), (''landing_prefix'', PStr ''n''),
      (''fetch'', example_fetch), (''provenance'', example_provenance),
      (''schemas'', PDict example_schemas), (''artifacts'', PDict example_artifacts),
      (''scales'', PDict example_scales)]"

definition example_registry :: pyval where
  "example_registry = PDict (sdict
     [(''version'', PInt 2), (''lock'', PDict (sdict lock_constants)), (''datasets'', PDict (sdict [(''n'', PDict example_dataset)]))])"

lemma sha256_re_digest [simp]: "sha256_re (sha256 x)"
  by (simp add: sha256_re_def match_hex_classes)

lemma example_https: "https_errors example_env example_url path = []"
  by (simp add: https_errors_def https_ok_def example_env_def example_url_def after_last_def rstrip_dots_def str_lower_def folded_char_def
      startswith_def endswith_def split_char.simps legacy_label_re_def dns_label_re_def lower_alnum_def digit_char_def lower_char_def)

lemma example_text: "\<not> list_all white_space s \<Longrightarrow> provenance_text example_env (PStr s) path = Inr []"
  by (simp add: provenance_text_def nonempty_string_def text_addresses_def example_env_def map_filter_simps)

lemmas example_checks =
  parts_simps append_is_Nil_conv unknown_Nil nonempty_string_Nil identifier_Nil path_Nil size_Nil sha256_Nil stability_Nil one_of_def exact_Nil
  example_https dget_none_def

lemma example_provenance_valid: "validate_provenance example_env example_provenance path = Inr []"
  by (simp add: validate_provenance_def required_fields_def example_provenance_def provenance_fields_def example_text example_checks
      sdict_def dkeys_def stability_values_def white_space_def)

lemma example_schema_valid: "schema_entry_errors example_env example_schema path = Inr []"
proof -
  have del: "ddel example_schema ''fingerprint'' = example_contract" "ddel example_contract ''fingerprint'' = example_contract"
    by (simp_all add: example_schema_def example_contract_def sdict_def ddel_def)
  have "json_plain (PDict example_contract)" by (simp add: example_contract_def sdict_def)
  then have "fingerprint_errors example_env example_schema (PStr (schema_fingerprint (sx_float_repr example_env) example_contract)) p = Inr []" for p
    by (simp add: fingerprint_errors_def fingerprint_of_def del schema_fingerprint_def sha256_Nil)
  then show ?thesis
    by (simp add: schema_entry_errors_def schema_fields_def schema_formats_def example_schema_def example_contract_def sdict_def
        validate_schema_options_def option_fields_def example_checks dkeys_def)
qed

lemma example_safe: "safe_path ''x.txt''" "safe_path ''n''"
  by (simp_all add: safe_path_def unsafe_path_def)

lemma example_artifact_valid:
  "artifact_errors example_env False example_schemas (PStr ''mutable'') example_artifact path = Inr []"
proof -
  have basename: "url_basename example_env example_url = Inr (Some ''x.txt'')"
    by (simp add: url_basename_def example_env_def example_url_def after_last_def)
  have name: "basename_errors (Some ''x.txt'') p = []" for p
    by (simp add: basename_errors_def example_checks example_safe posix_name_def)
  have raw: "raw_errors example_env (Some ''x.txt'') example_raw p = []" for p
    by (simp add: raw_errors_def example_raw_def raw_fields_def example_digest_def sdict_def dkeys_def example_safe example_checks)
  have "output_errors example_env False example_schemas example_raw seen example_output p = []" if "seen = []" for seen p
    using that by (simp add: output_errors_def example_schemas_def example_output_def example_raw_def output_fields_def raw_match_errors_def example_digest_def sdict_def dkeys_def
        example_safe example_checks)
  then have out: "outputs_errors example_env False example_schemas example_raw p 0 [] [example_output] = []" for p by simp
  have version: "validate_version example_env example_version p = []" for p
    by (simp add: validate_version_def example_version_def sdict_def dkeys_def example_checks white_space_def)
  have evidence: "validate_evidence example_env (PDict []) p = []" for p
    by (simp add: validate_evidence_def dkeys_def evidence_fields_def example_checks)
  have item: "dget example_artifact ''url'' = Some example_url" "dget example_artifact ''provenance'' = None"
    "dget example_artifact ''version'' = Some example_version"
    "dget example_artifact ''stability'' = Some (PStr ''mutable'')" "dget example_artifact ''evidence'' = Some (PDict [])"
    "dget example_artifact ''raw'' = Some example_raw" "dget example_artifact ''outputs'' = Some (PList [example_output])"
    "dkeys example_artifact = map PStr artifact_fields"
    by (simp_all add: example_artifact_def sdict_def dkeys_def artifact_fields_def)
  show ?thesis
    unfolding artifact_errors_def
    by (simp add: item basename name raw out version evidence on_field_def on_fieldE_def missing_Nil unknown_Nil example_https artifact_fields_def stability_Nil
        stability_values_def one_of_def effective_stability_def dget_none_def del: outputs_errors.simps)
qed

lemma example_names: "referenced_names example_artifacts ''f'' = [''x.txt'']"
  by (simp add: referenced_names_def example_artifacts_def example_artifact_def example_output_def sdict_def string_field_def)

lemma example_scale_valid: "one_of scale_names k \<Longrightarrow> scale_errors example_env example_artifacts path (k, example_scale) = []"
  using example_names by (simp add: scale_errors_def example_scale_def Let_def sdict_def dkeys_def parts_simps unknown_Nil)
    (simp add: example_artifacts_def sdict_def)

lemma example_items:
  "dget example_dataset ''description'' = Some (PStr ''d'')" "dget example_dataset ''format'' = Some (PStr ''text'')"
  "dget example_dataset ''license'' = Some (PStr ''l'')" "dget example_dataset ''landing_prefix'' = Some (PStr ''n'')"
  "dget example_dataset ''fetch'' = Some example_fetch" "dget example_dataset ''provenance'' = Some example_provenance"
  "dget example_dataset ''schemas'' = Some (PDict example_schemas)" "dget example_dataset ''artifacts'' = Some (PDict example_artifacts)"
  "dget example_dataset ''scales'' = Some (PDict example_scales)"
  "dkeys example_dataset = map PStr (shared_fields @ [''artifacts'', ''scales''])" "dataset_kind example_dataset = PStr ''http''"
  by (simp_all add: example_dataset_def example_fetch_def sdict_def dkeys_def shared_fields_def dataset_kind_def dget_none_def)

lemma example_http_valid: "validate_http_dataset example_env example_dataset path = Inr []"
proof -
  have artifact: "joinE (map (named_artifact_errors example_env False example_schemas (PStr ''mutable'') p) example_artifacts) = Inr []" for p
    by (simp add: named_artifact_errors_def example_artifacts_def sdict_def example_artifact_valid parts_simps identifier_Nil identifier_re_def lower_alnum_def
        lower_char_def)
  have scales: "concat (map (scale_errors example_env example_artifacts p) example_scales) = []" "missing_fields example_scales p scale_names = []" for p
    by (simp_all add: example_scales_def sdict_def example_scale_valid one_of_def scale_names_def missing_Nil)
  have fetch: "fetch_errors example_env example_fetch p = []" for p
    by (simp add: fetch_errors_def example_fetch_def sdict_def dkeys_def example_checks)
  have "dget_none (dict_or_empty (dget_none example_dataset ''fetch'')) ''unzip'' = PBool False"
    "dict_or_empty (dget_none example_dataset ''schemas'') = example_schemas" "dict_or_empty (dget_none example_dataset ''artifacts'') = example_artifacts"
    "dget_none (dict_or_empty (dget_none example_dataset ''provenance'')) ''source_stability'' = PStr ''mutable''"
    "dget_none example_dataset ''fetch'' = example_fetch"
    by (simp_all add: dget_none_def example_items dict_or_empty_def example_fetch_def example_provenance_def sdict_def)
  moreover have "example_artifacts \<noteq> []" "example_scales \<noteq> []" by (simp_all add: example_artifacts_def example_scales_def sdict_def)
  ultimately show ?thesis
    by (simp add: validate_http_dataset_def Let_def artifact scales fetch on_field_def example_items split: list.split del: concat_eq_Nil_conv)
qed

lemma example_shared_valid: "dataset_errors example_env example_dataset path = Inr []"
proof -
  have "validate_schemas example_env (PDict example_schemas) p = Inr []" for p
    by (simp add: validate_schemas_def example_schemas_def sdict_def named_schema_errors_def example_schema_valid parts_simps identifier_Nil
        identifier_re_def lower_alnum_def lower_char_def)
  then show ?thesis
    by (simp add: dataset_errors_def example_items parts_simps kind_fields_def allowed_fields_def unknown_Nil nonempty_string_Nil white_space_def path_Nil
        example_safe example_provenance_valid)
qed

lemma example_valid: "validate_registry_v2 example_env example_registry = Inr []"
proof -
  have unique: "fst (url_errors example_env path [] example_artifacts) = []" for path
    by (simp add: example_artifacts_def sdict_def Let_def split: option.split)
  have kind: "\<exists>urls. kind_errors example_env [] example_dataset path = Inr ([], urls)" for path
    using unique [of path] by (cases "url_errors example_env path [] example_artifacts")
      (simp add: kind_errors_def example_items example_http_valid dict_or_empty_def dget_none_def Let_def)
  have "datasets_errors example_env [] [(PStr ''n'', PDict example_dataset)] = Inr []"
    using kind [of "''datasets.'' @ text_of example_env (PStr ''n'')"]
    by (auto simp: Let_def example_shared_valid identifier_Nil identifier_re_def lower_alnum_def lower_char_def missing_Nil shared_fields_def example_items)
  note datasets = this
  have lock: "validate_exact_mapping example_env (PDict (sdict lock_constants)) p lock_constants = []" for p
    by (simp add: validate_exact_mapping_def exact_fields_def lock_constants_def sdict_def dkeys_def example_checks)
  show ?thesis
    by (simp add: validate_registry_v2_def example_registry_def sdict_def dget_none_def datasets dkeys_def parts_simps unknown_Nil
        lock [unfolded sdict_def] del: datasets_errors.simps)
qed

lemma example_distinct: "keys_distinct example_registry"
  by (simp add: example_registry_def example_dataset_def example_fetch_def example_provenance_def example_schemas_def example_schema_def
      example_contract_def example_artifacts_def example_artifact_def example_version_def example_raw_def example_output_def example_scales_def
      example_scale_def example_url_def example_digest_def lock_constants_def sdict_def)

section \<open>Claims\<close>

text \<open>C22.  Every source is locked once: in a registry that validates without an error, the source identity (host
  without trailing dots and in lower case, port, path and query) of every artifact URL of every HTTP
  dataset is different from that of every other artifact, across all datasets.\<close>
theorem registry_urls_unique:
  assumes "validate_registry_v2 e doc = Inr []"
  shows "distinct (registry_urls e doc)"
proof (cases doc)
  case (PDict m)
  have "case dget_none m ''datasets'' of PDict datasets \<Rightarrow> datasets_errors e [] datasets = Inr [] | _ \<Rightarrow> True"
    using assms unfolding PDict validate_registry_v2_def pyval.case bindE_eq_Inr sum.inject append_is_Nil_conv
    by (elim exE conjE) (auto split: pyval.splits)
  then show ?thesis
    using datasets_urls_distinct [of e "[]"] PDict by (auto simp: registry_urls_def dict_or_empty_def split: pyval.splits)
qed (simp_all add: registry_urls_def)

theorem registry_urls_unique_witness:
  "validate_registry_v2 example_env example_registry = Inr [] \<and> distinct (registry_urls example_env example_registry) \<and>
   length (registry_urls example_env example_registry) = 1"
proof (intro conjI)
  show "validate_registry_v2 example_env example_registry = Inr []" by (rule example_valid)
  show "distinct (registry_urls example_env example_registry)" using example_valid by (rule registry_urls_unique)
  have "authoritative_url_identity example_env (dget_none example_artifact ''url'') \<noteq> None"
    by (simp add: authoritative_url_identity_def example_artifact_def sdict_def dget_none_def example_url_def example_env_def str_lower_def folded_char_def)
  then show "length (registry_urls example_env example_registry) = 1"
    by (auto simp: registry_urls_def example_registry_def sdict_def dget_none_def dict_or_empty_def dataset_urls_def example_items artifact_urls_def
        example_artifacts_def map_filter_simps)
qed



end
