(* ===== verification/Spec2Isabelle.thy ===== *)
theory Spec2Isabelle
  imports LeaseRecords ServiceMetrics ServerFacts OpsRecords DatasetProps ResolutionProps RegistryProps
begin

text \<open>
  A verification development for the two subsystems of the repository that change shared state in
  the object store.  The checkpoint-retention code under \<^verbatim>\<open>scripts/checkpoints/\<close> decides which
  Spark streaming checkpoints in the \<^verbatim>\<open>checkpoints\<close> bucket may be deleted and deletes them; it has its
  own state machines: leases, plans, prepared operations, attempts, audits.  The dataset code under
  \<^verbatim>\<open>datasets/\<close> publishes locked datasets to the \<^verbatim>\<open>landing\<close> bucket as immutable generations behind
  an active pointer, under a lease per dataset.

  \<^bold>\<open>The retention program.\<close>  A registry file lists five checkpoint families, each with the prefix it owns, its
  durability and its retention (\<^verbatim>\<open>policy.py\<close>).  A writer holds a lease on its checkpoint and
  ends it with a terminal record (\<^verbatim>\<open>leases.py\<close>).  The planner reads the inventory of a prefix and
  the two control records and evaluates the retention rules; the result is a plan artifact with a
  manifest of shards and a digest (\<^verbatim>\<open>planner.py\<close>, \<^verbatim>\<open>records.py\<close>).  An operator prepares a
  reviewed plan, waits for the quiescence period and applies it: the operation manager revalidates,
  heads and deletes the planned objects in batches and records every attempt, its result shards and
  its audit as immutable control objects (\<^verbatim>\<open>operations.py\<close>).  All of them reach the store through
  a gateway that bounds and checks every S3 call (\<^verbatim>\<open>s3_gateway.py\<close>).  An HTTP service with two bearer
  tokens exposes the whole, with metrics and a capability probe (\<^verbatim>\<open>service.py\<close>,
  \<^verbatim>\<open>metrics.py\<close>).

  \<^bold>\<open>The dataset program.\<close>  The registry locks every output of a scale by size, digest and schema
  (\<^verbatim>\<open>registry.py\<close>); \<^verbatim>\<open>locking.py\<close> and \<^verbatim>\<open>verification.py\<close> hold the canonical JSON, the shape checks
  and the streaming verification.  \<^verbatim>\<open>s3.py\<close> reads and writes the store: a read is verified byte by
  byte, a write is conditional and its outcome, known or not, is settled by reading back.  On top of
  it stands the dataset lease, a record replaced by compare-and-swap whose times are the server's.
  \<^verbatim>\<open>publication.py\<close> identifies the selected plan by a digest, writes an immutable manifest under
  its own digest and moves the active pointer to it; resolving reads the pointer, the manifest and
  every object and verifies them against the plan; a rollback repoints to a verified historical
  manifest.

  \<^bold>\<open>The model.\<close>  Python values whose type the code tests are \<open>pyval\<close> (\<^verbatim>\<open>PyVal\<close>); exceptions are
  the datatype \<open>exn\<close>, pure code that may raise returns \<open>'a res\<close>, a sum with the exception on the
  left, and code with effects is an action \<open>('w, 'a) act\<close> that passes a world through
  (\<^verbatim>\<open>Effects\<close>).  The S3 client, the clocks and the UUID source are the record \<open>env\<close>, on the dataset side
  \<open>ds_env\<close> and \<open>pub_env\<close>, a parameter: no theorem assumes anything of them except where it says so.  Time is counted in seconds since
  the year 1 (\<^verbatim>\<open>Clock\<close>), with the calendar, \<open>format_utc\<close> and the strict parser written out.
  SHA-256, SHA-1 and version 5 UUIDs are computed (\<^verbatim>\<open>Digest\<close>), as is the part of \<^verbatim>\<open>json\<close> the code
  uses (\<^verbatim>\<open>Json\<close>).

  \<^item> \<^verbatim>\<open>Prelude\<close>, \<^verbatim>\<open>PyVal\<close>, \<^verbatim>\<open>Clock\<close>, \<^verbatim>\<open>Digest\<close>, \<^verbatim>\<open>Json\<close>, \<^verbatim>\<open>JsonFacts\<close>,
    \<^verbatim>\<open>JsonSize\<close>, \<^verbatim>\<open>JsonDecoded\<close>, \<^verbatim>\<open>Effects\<close>, \<^verbatim>\<open>Trace\<close>: the shared library.  The locales
    \<open>json_reader\<close> and \<open>object_reader\<close> are what the JSON scanner needs of an object hook, interpreted on
    both hooks of the sources; \<open>preserves\<close> composes confinement along the action combinators, and
    \<open>traced\<close> logs the S3 calls of any environment.
  \<^item> \<^verbatim>\<open>Policy\<close>, \<^verbatim>\<open>PolicyFacts\<close>, \<^verbatim>\<open>Registry\<close>: \<^verbatim>\<open>parse_policy\<close>, \<^verbatim>\<open>match_prefix\<close> and the
    shipped registry.  An accepted registry is the fixed inventory, and no owned prefix contains another
    one or the control prefix.
  \<^item> \<^verbatim>\<open>Evaluate\<close>, \<^verbatim>\<open>EvaluateFacts\<close>: \<^verbatim>\<open>evaluate_retention\<close> against the declarative
    specification \<open>retention_safe\<close>; totality, stability in time, closed refusal codes, the plan text.
  \<^item> \<^verbatim>\<open>Records\<close>, \<^verbatim>\<open>RecordsFacts\<close>, \<^verbatim>\<open>RecordsCodec\<close>: canonical JSON, inventories, shards and plan
    artifacts; ordering, partition and round trips.
  \<^item> \<^verbatim>\<open>Gateway\<close>, \<^verbatim>\<open>GatewayFacts\<close>, \<^verbatim>\<open>GatewayProps\<close>: every operation of the gateway for every
    client.  The locale \<open>gateway_family\<close> is what the managers rely on about requests,
    \<open>gateway_results\<close> about answers; both are interpreted on \<open>s3_gateway\<close>.
  \<^item> \<^verbatim>\<open>Leases\<close>, \<^verbatim>\<open>LeaseFacts\<close>, \<^verbatim>\<open>LeaseProps\<close>: acquire, heartbeat and terminal refine the
    lifecycle \<open>lease_step\<close>; exclusion and confinement.
  \<^item> \<^verbatim>\<open>Planner\<close>, \<^verbatim>\<open>PlanFacts\<close>, \<^verbatim>\<open>PlanProps\<close>, \<^verbatim>\<open>LeasePlan\<close>, \<^verbatim>\<open>LeaseRecords\<close>: a plan binds what
    was read and decides by \<open>retention_safe\<close>; what the lease manager writes the planner reads.
  \<^item> \<^verbatim>\<open>OpsControl\<close>, \<^verbatim>\<open>OpsHistory\<close>, \<^verbatim>\<open>Operations\<close>, \<^verbatim>\<open>OpsFacts\<close>, \<^verbatim>\<open>OpsProps\<close>,
    \<^verbatim>\<open>OpsRecords\<close>: prepare, apply and status with the attempt history.  The locales
    \<open>operation_reads\<close>, \<open>operation_writes\<close>, \<open>operation_lists\<close> and \<open>operation_deletes\<close> extend each other
    by the requests an operation may send, and are interpreted on the manager as the service builds it.
  \<^item> \<^verbatim>\<open>Metrics\<close>, \<^verbatim>\<open>Service\<close>, \<^verbatim>\<open>Http\<close>, \<^verbatim>\<open>Server\<close>, \<^verbatim>\<open>ServiceProps\<close>, \<^verbatim>\<open>ServiceMetrics\<close>,
    \<^verbatim>\<open>ServerFacts\<close>: the runtime composed as \<^verbatim>\<open>build_runtime\<close> does, the routes, tokens and body
    checks, the request handler, and the slots of the threaded server as the step relation
    \<open>server_step\<close>.  The main result, that no request causes an S3 call its route, token and the
    destructive switch do not permit, rests on the confinement lemmas of all managers.

  \<^item> \<^verbatim>\<open>Locking\<close>, \<^verbatim>\<open>LockingFacts\<close>: \<^verbatim>\<open>locking.py\<close> and \<^verbatim>\<open>verification.py\<close>; canonical texts read back
    and a stream is judged by its content, not by its chunks.
  \<^item> \<^verbatim>\<open>ObjectStore\<close>, \<^verbatim>\<open>StoreTrace\<close>, \<^verbatim>\<open>StoreFacts\<close>: the store part of \<^verbatim>\<open>s3.py\<close>.  \<open>emits m Q\<close> relates
    the result of a run to the calls it sent and their answers; its rules compute along the
    combinators.  Writes are acknowledged only after the expected bytes were read back.
  \<^item> \<^verbatim>\<open>DatasetLease\<close>, \<^verbatim>\<open>LeaseProtocol\<close>, \<^verbatim>\<open>LeaseCodec\<close>, \<^verbatim>\<open>LeaseSafety\<close>, \<^verbatim>\<open>DatasetProps\<close>: the lease part
    of \<^verbatim>\<open>s3.py\<close>.  Every run of acquire and renew is a path of the abstract protocol; in a world of
    publishers that observe and write by compare-and-swap at a server clock (\<open>world_step\<close>) no lease is
    taken from its holder; the loops return; a lease reads back.
  \<^item> \<^verbatim>\<open>DatasetRegistry\<close>, \<^verbatim>\<open>Publication\<close>, \<^verbatim>\<open>PublicationCodec\<close>: the records of \<^verbatim>\<open>registry.py\<close>, plan
    identity, manifests and pointers of \<^verbatim>\<open>publication.py\<close>; accepted bytes are canonical.
  \<^item> \<^verbatim>\<open>RegistrySchema\<close>, \<^verbatim>\<open>RegistryParse\<close>: the validator of \<^verbatim>\<open>schema.py\<close>, check by check with the
    text of every error, and the copy of a validated document into the records of \<^verbatim>\<open>registry.py\<close>.
  \<^item> \<^verbatim>\<open>RegistryFacts\<close>, \<^verbatim>\<open>RegistryScales\<close>, \<^verbatim>\<open>RegistryGenerator\<close>, \<^verbatim>\<open>RegistryLoad\<close>, \<^verbatim>\<open>RegistryProps\<close>: what
    an empty error list means for each part of the document, up to the whole registry: it loads,
    every scale resolves to a locked plan, and no source URL occurs twice.
  \<^item> \<^verbatim>\<open>Resolution\<close>, \<^verbatim>\<open>ResolutionFacts\<close>, \<^verbatim>\<open>ResolutionProps\<close>: resolving, history and rollback with their
    calls; what is resolved is what the registry locks, and a rollback is one conditional write after
    complete verification.

  \<^bold>\<open>Bounds and fuel.\<close>  The paging loop of the inventory runs on the policy's page bound plus one, which
    is the loop's own exit; the decimal exponent of a float takes 400 steps, more than the range of a
    double; the retry loops of acquire and release are a
    \<^theory_text>\<open>partial_function (option)\<close>, proved to return; the history loop counts its 1000 turns;
    every other recursion is structural or has its termination proof.

  \<^bold>\<open>Not modelled.\<close>  Strings are limited to U+0000 to U+00FF and floats are rationals or not finite.
  The per-checkpoint lock is its identity check: one caller at a time, interleavings are modelled for
  the server's slots only.  The YAML scanner, boto3 and the clocks are parameters; the recursion limit
  of \<^verbatim>\<open>json\<close> and byte order marks are left out.  Of \<^verbatim>\<open>planner.py\<close> the exclusive writer of a plan
  file, of \<^verbatim>\<open>service.py\<close> sockets, the serving loop and the shutdown are input and output.  The
  command line \<^verbatim>\<open>retention.py\<close> and its clients call this service over HTTP.  On the dataset
  side the date parsers, the text of a float, the close method of a response body, the temporary
  file of a capture and the physical schema inspection are parameters; notes attached to exceptions
  and messages are left out, and a verification error keeps its field and values but not its
  context.  The validator works on the document \<^verbatim>\<open>yaml.safe_load\<close> returned; \<^verbatim>\<open>urlsplit\<close>, \<^verbatim>\<open>unquote\<close>,
  \<^verbatim>\<open>ipaddress\<close>, the matches of the searching regular expressions and the \<^verbatim>\<open>repr\<close> of a value are
  parameters of it (\<open>schema_env\<close>).  The construction of the S3 client, publishing a candidate with its staging directory and keepalive, acquisition and the sources are not modelled.
  The rest of the repository (Airflow workflows, lakehouse helpers, Spark applications,
  documentation, release, security and observability scripts) is tooling around these two subsystems
  and not modelled.
\<close>

end
